(* ===== verification/Prelude.thy ===== *)
theory Prelude
  imports Main "HOL-Library.Char_ord" "HOL-Library.List_Lexorder" "HOL-Library.Word" "HOL-Library.Multiset"
begin

text \<open>
  Shared vocabulary of the development: the Python exceptions of the program as values, the
  result and state-passing combinators every component is written with, table insertion under
  unique keys, and the generic lemmas on them.

  A pure function that may raise has type \<open>exn + 'a\<close>.  An operation on the durable store has
  type \<open>'s \<Rightarrow> (exn + 'a) \<times> 's\<close>: the store is returned on the error path too, because what
  was committed before a raise stays committed.  \<open>tx\<close> is one SQLite transaction: it rolls the
  store back when its body raises.
\<close>

named_theorems res_simps \<open>evaluation and inversion of the result combinators\<close>
named_theorems state_simps \<open>evaluation of the state-passing combinators\<close>

section \<open>Exceptions\<close>

datatype exn =
    ContractValidationError string string  \<comment> \<open>schema name, reason code\<close>
  | WorkflowTransitionError string
  | CaseLedgerError string
  | IntakeRejected string
  | LedgerIntegrityError string
  | AppendOnlyViolation string
  | WorkflowError string
  | WorkflowNotFound string
  | WorkflowInterrupted string
  | DatabaseError string
  | ValueError string
  | TypeError string
  | KeyError string
  | OverflowError string
  | IndexError string
  | EvidenceLineageError string

text \<open>The class hierarchy the \<open>except\<close> clauses rely on.\<close>

fun is_workflow_error :: "exn \<Rightarrow> bool" where
  "is_workflow_error (WorkflowError _) = True"
| "is_workflow_error (WorkflowNotFound _) = True"
| "is_workflow_error (WorkflowInterrupted _) = True"
| "is_workflow_error _ = False"

fun is_ledger_error :: "exn \<Rightarrow> bool" where
  "is_ledger_error (CaseLedgerError _) = True"
| "is_ledger_error (IntakeRejected _) = True"
| "is_ledger_error (LedgerIntegrityError _) = True"
| "is_ledger_error (AppendOnlyViolation _) = True"
| "is_ledger_error e = is_workflow_error e"

fun is_contract_error :: "exn \<Rightarrow> bool" where
  "is_contract_error (ContractValidationError _ _) = True"
| "is_contract_error _ = False"

fun reason_code :: "exn \<Rightarrow> string" where
  "reason_code (ContractValidationError _ r) = r"
| "reason_code (WorkflowTransitionError r) = r"
| "reason_code (CaseLedgerError r) = r"
| "reason_code (IntakeRejected r) = r"
| "reason_code (LedgerIntegrityError r) = r"
| "reason_code (AppendOnlyViolation r) = r"
| "reason_code (WorkflowError r) = r"
| "reason_code (WorkflowNotFound r) = r"
| "reason_code (WorkflowInterrupted r) = r"
| "reason_code (DatabaseError r) = r"
| "reason_code (ValueError r) = r"
| "reason_code (TypeError r) = r"
| "reason_code (KeyError r) = r"
| "reason_code (OverflowError r) = r"
| "reason_code (IndexError r) = r"
| "reason_code (EvidenceLineageError r) = r"

section \<open>Results\<close>

definition bind_res :: "'e + 'a \<Rightarrow> ('a \<Rightarrow> 'e + 'b) \<Rightarrow> 'e + 'b" where
  "bind_res m f = (case m of Inl e \<Rightarrow> Inl e | Inr a \<Rightarrow> f a)"

definition require :: "bool \<Rightarrow> 'e \<Rightarrow> 'e + unit" where
  "require b e = (if b then Inr () else Inl e)"

definition catch_res :: "('e \<Rightarrow> bool) \<Rightarrow> ('e \<Rightarrow> 'e + 'a) \<Rightarrow> 'e + 'a \<Rightarrow> 'e + 'a" where
  "catch_res p h m = (case m of Inl e \<Rightarrow> (if p e then h e else Inl e) | Inr a \<Rightarrow> Inr a)"

definition is_ok :: "'e + 'a \<Rightarrow> bool" where
  "is_ok m = (case m of Inl _ \<Rightarrow> False | Inr _ \<Rightarrow> True)"

text \<open>A \<open>for\<close> loop that threads a state and stops at the first raise.\<close>

fun fold_res :: "('s \<Rightarrow> 'a \<Rightarrow> 'e + 's) \<Rightarrow> 's \<Rightarrow> 'a list \<Rightarrow> 'e + 's" where
  "fold_res f s [] = Inr s"
| "fold_res f s (x # xs) = bind_res (f s x) (\<lambda>s'. fold_res f s' xs)"

fun each_res :: "('a \<Rightarrow> 'e + unit) \<Rightarrow> 'a list \<Rightarrow> 'e + unit" where
  "each_res f [] = Inr ()"
| "each_res f (x # xs) = bind_res (f x) (\<lambda>_. each_res f xs)"

fun map_res :: "('a \<Rightarrow> 'e + 'b) \<Rightarrow> 'a list \<Rightarrow> 'e + 'b list" where
  "map_res f [] = Inr []"
| "map_res f (x # xs) = bind_res (f x) (\<lambda>y. bind_res (map_res f xs) (\<lambda>ys. Inr (y # ys)))"

lemma bind_res_simps [simp, res_simps]:
  "bind_res (Inl e) f = Inl e" "bind_res (Inr a) f = f a"
  by (simp_all add: bind_res_def)

lemma bind_res_eq_Inr [simp, res_simps]:
  "bind_res m f = Inr b \<longleftrightarrow> (\<exists>a. m = Inr a \<and> f a = Inr b)"
  by (cases m) simp_all

lemma bind_res_eq_Inl [res_simps]:
  "bind_res m f = Inl e \<longleftrightarrow> m = Inl e \<or> (\<exists>a. m = Inr a \<and> f a = Inl e)"
  by (cases m) simp_all

lemma require_simps [simp, res_simps]:
  "require True e = Inr ()" "require False e = Inl e"
  by (simp_all add: require_def)

lemma require_eq_Inr [simp, res_simps]: "require b e = Inr u \<longleftrightarrow> b"
  by (simp add: require_def)

lemma require_eq_Inl [simp, res_simps]: "require b e = Inl e' \<longleftrightarrow> \<not> b \<and> e' = e"
  by (auto simp: require_def)

lemma catch_res_simps [simp, res_simps]:
  "catch_res p h (Inr a) = Inr a"
  "p e \<Longrightarrow> catch_res p h (Inl e) = h e"
  "\<not> p e \<Longrightarrow> catch_res p h (Inl e) = Inl e"
  by (simp_all add: catch_res_def)

lemma catch_res_raise_eq_Inr [simp, res_simps]:
  "catch_res p (\<lambda>e. Inl (g e)) m = Inr a \<longleftrightarrow> m = Inr a"
  by (cases m) (auto simp: catch_res_def)

lemma is_ok_simps [simp, res_simps]: "is_ok (Inr a)" "\<not> is_ok (Inl e)"
  by (simp_all add: is_ok_def)

lemma is_ok_iff: "is_ok m \<longleftrightarrow> (\<exists>a. m = Inr a)"
  by (cases m) simp_all

lemma each_res_eq_Inr [simp, res_simps]:
  "each_res f xs = Inr u \<longleftrightarrow> (\<forall>x\<in>set xs. f x = Inr ())"
  by (induction xs) auto

lemma fold_res_append:
  "fold_res f s (xs @ ys) = bind_res (fold_res f s xs) (\<lambda>s'. fold_res f s' ys)"
  by (induction xs arbitrary: s) (auto simp: bind_res_def split: sum.splits)

lemma map_res_length: "map_res f xs = Inr ys \<Longrightarrow> length ys = length xs"
  by (induction xs arbitrary: ys) auto

lemma map_res_append:
  "map_res f (xs @ ys) = bind_res (map_res f xs) (\<lambda>us. bind_res (map_res f ys) (\<lambda>vs. Inr (us @ vs)))"
  by (induction xs) (auto simp: bind_res_def split: sum.splits)

lemma map_res_eq_Inr:
  "map_res f xs = Inr ys \<longleftrightarrow> list_all2 (\<lambda>x y. f x = Inr y) xs ys"
  by (induction xs arbitrary: ys) (auto simp: list_all2_Cons1)

section \<open>State passing\<close>

type_synonym ('s, 'a) action = "'s \<Rightarrow> (exn + 'a) \<times> 's"

definition ret :: "'a \<Rightarrow> ('s, 'a) action" where
  "ret a s = (Inr a, s)"

definition throw :: "exn \<Rightarrow> ('s, 'a) action" where
  "throw e s = (Inl e, s)"

definition bind :: "('s, 'a) action \<Rightarrow> ('a \<Rightarrow> ('s, 'b) action) \<Rightarrow> ('s, 'b) action" where
  "bind m f s = (case m s of (Inl e, s') \<Rightarrow> (Inl e, s') | (Inr a, s') \<Rightarrow> f a s')"

definition get_state :: "('s, 's) action" where
  "get_state s = (Inr s, s)"

definition put_state :: "'s \<Rightarrow> ('s, unit) action" where
  "put_state t s = (Inr (), t)"

definition lift_res :: "exn + 'a \<Rightarrow> ('s, 'a) action" where
  "lift_res m s = (m, s)"

text \<open>One transaction: \<open>BEGIN IMMEDIATE\<close>, the body, \<open>commit\<close>, or \<open>rollback\<close> on a raise.\<close>

definition tx :: "('s, 'a) action \<Rightarrow> ('s, 'a) action" where
  "tx m s = (case m s of (Inl e, _) \<Rightarrow> (Inl e, s) | (Inr a, s') \<Rightarrow> (Inr a, s'))"

text \<open>An \<open>except\<close> clause that re-raises under another class.\<close>

definition rethrow :: "(exn \<Rightarrow> exn) \<Rightarrow> ('s, 'a) action \<Rightarrow> ('s, 'a) action" where
  "rethrow g m s = (case m s of (Inl e, s') \<Rightarrow> (Inl (g e), s') | (Inr a, s') \<Rightarrow> (Inr a, s'))"

definition exec_if :: "bool \<Rightarrow> ('s, unit) action \<Rightarrow> ('s, unit) action" where
  "exec_if b m = (if b then m else ret ())"

lemma ret_apply [simp, state_simps]: "ret a s = (Inr a, s)"
  by (simp add: ret_def)

lemma throw_apply [simp, state_simps]: "throw e s = (Inl e, s)"
  by (simp add: throw_def)

lemma get_state_apply [simp, state_simps]: "get_state s = (Inr s, s)"
  by (simp add: get_state_def)

lemma put_state_apply [simp, state_simps]: "put_state t s = (Inr (), t)"
  by (simp add: put_state_def)

lemma lift_res_apply [simp, state_simps]: "lift_res m s = (m, s)"
  by (simp add: lift_res_def)

lemma bind_ok: "m s = (Inr a, s') \<Longrightarrow> bind m f s = f a s'"
  by (simp add: bind_def)

lemma bind_err: "m s = (Inl e, s') \<Longrightarrow> bind m f s = (Inl e, s')"
  by (simp add: bind_def)

lemma bind_apply_simps [simp, state_simps]:
  "bind (ret a) f s = f a s"
  "bind (throw e) g s = (Inl e, s)"
  "bind get_state h s = h s s"
  "bind (put_state t) k s = k () t"
  "bind (lift_res (Inr a)) f s = f a s"
  "bind (lift_res (Inl e)) f s = (Inl e, s)"
  by (simp_all add: bind_def)

lemma bind_eq_Inr [state_simps]:
  "bind m f s = (Inr b, t) \<longleftrightarrow> (\<exists>a s'. m s = (Inr a, s') \<and> f a s' = (Inr b, t))"
  by (auto simp: bind_def split: prod.splits sum.splits)

lemma tx_eq_Inr [simp, state_simps]: "tx m s = (Inr a, t) \<longleftrightarrow> m s = (Inr a, t)"
  by (auto simp: tx_def split: prod.splits sum.splits)

lemma tx_error_unchanged: "tx m s = (Inl e, t) \<Longrightarrow> t = s"
  by (auto simp: tx_def split: prod.splits sum.splits)

lemma tx_error_iff: "tx m s = (Inl e, t) \<longleftrightarrow> t = s \<and> (\<exists>t'. m s = (Inl e, t'))"
  by (auto simp: tx_def split: prod.splits sum.splits)

lemma rethrow_eq_Inr [simp, state_simps]:
  "rethrow g m s = (Inr a, t) \<longleftrightarrow> m s = (Inr a, t)"
  by (auto simp: rethrow_def split: prod.splits sum.splits)

text \<open>Reading the store, and a statement that changes it or raises.\<close>

definition query :: "('s \<Rightarrow> 'a) \<Rightarrow> ('s, 'a) action" where
  "query f s = (Inr (f s), s)"

definition modify :: "('s \<Rightarrow> exn + 's) \<Rightarrow> ('s, unit) action" where
  "modify f s = (case f s of Inl e \<Rightarrow> (Inl e, s) | Inr s' \<Rightarrow> (Inr (), s'))"

lemma query_apply [simp, state_simps]: "query f s = (Inr (f s), s)"
  by (simp add: query_def)

lemma bind_query [simp, state_simps]: "bind (query f) g s = g (f s) s"
  by (simp add: bind_def)

lemma modify_apply [state_simps]:
  "f s = Inr s' \<Longrightarrow> modify f s = (Inr (), s')" "f s = Inl e \<Longrightarrow> modify f s = (Inl e, s)"
  by (simp_all add: modify_def)

lemma modify_eq_Inr [simp, state_simps]: "modify f s = (Inr u, t) \<longleftrightarrow> f s = Inr t"
  by (auto simp: modify_def split: sum.splits)

lemma lift_res_eq_Inr [state_simps]: "lift_res m s = (Inr a, t) \<longleftrightarrow> m = Inr a \<and> t = s"
  by auto

lemma bind_read:
  "f s = Inr a \<Longrightarrow> bind (bind (query f) lift_res) g s = g a s"
  "f s = Inl e \<Longrightarrow> bind (bind (query f) lift_res) g s = (Inl e, s)"
  by (simp_all add: bind_def)

lemma bind_Inl_cases:
  assumes "bind m f s = (Inl e, t)"
  obtains "m s = (Inl e, t)" | a s' where "m s = (Inr a, s')" "f a s' = (Inl e, t)"
  using assms by (auto simp: bind_def split: prod.splits sum.splits)

section \<open>Small list and option facts\<close>

text \<open>\<open>fetchone()\<close> on a query result.\<close>

definition first_row :: "'a list \<Rightarrow> 'a option" where
  "first_row xs = (case xs of [] \<Rightarrow> None | x # _ \<Rightarrow> Some x)"

lemma first_row_simps [simp]: "first_row [] = None" "first_row (x # xs) = Some x"
  by (simp_all add: first_row_def)

lemma first_row_None [simp]: "first_row xs = None \<longleftrightarrow> xs = []"
  by (simp add: first_row_def split: list.splits)

lemma first_row_mem: "first_row xs = Some x \<Longrightarrow> x \<in> set xs"
  by (cases xs) auto

lemma first_row_filter: "first_row (filter P xs) = find P xs"
  by (induction xs) auto

lemma first_row_filterD: "first_row (filter P xs) = Some x \<Longrightarrow> x \<in> set xs \<and> P x"
  using first_row_mem by fastforce

lemma first_row_append: "first_row (xs @ ys) = (if xs = [] then first_row ys else first_row xs)"
  by (cases xs) auto

lemma filter_key_absent: "k \<notin> set (map key xs) \<Longrightarrow> filter (\<lambda>y. key y = k) xs = []"
  by (induction xs) auto

lemma filter_eq_single:
  assumes "distinct (map key xs)" and "x \<in> set xs"
  shows "filter (\<lambda>y. key y = key x) xs = [x]"
  using assms
proof (induction xs)
  case (Cons y ys)
  show ?case
  proof (cases "key y = key x")
    case True
    with Cons.prems have yx: "y = x"
      by (auto simp: image_iff)
    with Cons.prems have "filter (\<lambda>z. key z = key x) ys = []"
      by (intro filter_key_absent) simp
    with yx show ?thesis by simp
  next
    case False
    with Cons show ?thesis by auto
  qed
qed simp

lemma sort_key_snoc:
  assumes "\<And>x. x \<in> set xs \<Longrightarrow> f x \<le> f y"
  shows "sort_key f (xs @ [y]) = sort_key f xs @ [y]"
proof (rule properties_for_sort_key)
  show "sorted (map f (sort_key f xs @ [y]))"
    using assms by (auto simp: sorted_append)
  fix k
  show "filter (\<lambda>x. f k = f x) (sort_key f xs @ [y]) = filter (\<lambda>x. f k = f x) (xs @ [y])"
    using sort_key_stable [of f "f k" xs] by (simp add: eq_commute)
qed simp

lemma distinct_filter_le_one:
  assumes "distinct xs" and "\<And>x y. x \<in> set xs \<Longrightarrow> y \<in> set xs \<Longrightarrow> P x \<Longrightarrow> P y \<Longrightarrow> x = y"
  shows "length (filter P xs) \<le> 1"
proof -
  have "card (set (filter P xs)) \<le> Suc 0"
    by (rule card_le_Suc0_iff_eq [THEN iffD2]) (use assms(2) in auto)
  moreover have "card (set (filter P xs)) = length (filter P xs)"
    using assms(1) by (intro distinct_card) simp
  ultimately show ?thesis by simp
qed

section \<open>Tables\<close>

text \<open>
  An SQLite table is the list of its rows in insertion order.  \<open>insert_row ok clash r rows\<close> is
  \<open>INSERT\<close> of \<open>r\<close>: \<open>ok\<close> stands for the \<open>CHECK\<close> and \<open>FOREIGN KEY\<close> constraints, \<open>clash\<close> for two
  rows that agree on the primary key or on a \<open>UNIQUE\<close> key.
\<close>

definition insert_row ::
  "('r \<Rightarrow> bool) \<Rightarrow> ('r \<Rightarrow> 'r \<Rightarrow> bool) \<Rightarrow> 'r \<Rightarrow> 'r list \<Rightarrow> exn + 'r list" where
  "insert_row ok clash r rows =
     (if \<not> ok r then Inl (DatabaseError ''constraint'')
      else if list_ex (clash r) rows then Inl (DatabaseError ''unique'')
      else Inr (rows @ [r]))"

lemma insert_row_eq_Inr [simp, res_simps]:
  "insert_row ok clash r rows = Inr rows' \<longleftrightarrow>
     ok r \<and> (\<forall>x\<in>set rows. \<not> clash r x) \<and> rows' = rows @ [r]"
  by (auto simp: insert_row_def list_ex_iff)

lemma insert_row_error: "insert_row ok clash r rows = Inl e \<Longrightarrow> \<exists>m. e = DatabaseError m"
  by (auto simp: insert_row_def split: if_splits)

text \<open>A \<open>dict\<close> as an association list with distinct keys, and dict equality.\<close>

fun dict_set :: "'k \<Rightarrow> 'v \<Rightarrow> ('k \<times> 'v) list \<Rightarrow> ('k \<times> 'v) list" where
  "dict_set k v [] = [(k, v)]"
| "dict_set k v ((k', v') # d) = (if k' = k then (k, v) # d else (k', v') # dict_set k v d)"

definition dict_eq :: "('k \<times> 'v) list \<Rightarrow> ('k \<times> 'v) list \<Rightarrow> bool" where
  "dict_eq d e \<longleftrightarrow> list_all (\<lambda>k. map_of d k = map_of e k) (map fst d @ map fst e)"

lemma map_of_dict_set [simp]: "map_of (dict_set k v d) = (map_of d)(k \<mapsto> v)"
  by (induction k v d rule: dict_set.induct) auto

lemma dict_eq_iff: "dict_eq d e \<longleftrightarrow> map_of d = map_of e"
proof
  assume eq: "dict_eq d e"
  show "map_of d = map_of e"
  proof
    fix k
    show "map_of d k = map_of e k"
    proof (cases "k \<in> set (map fst d @ map fst e)")
      case True
      with eq show ?thesis by (auto simp: dict_eq_def list_all_iff)
    next
      case False
      then have "map_of d k = None" "map_of e k = None" by (auto simp: map_of_eq_None_iff)
      then show ?thesis by simp
    qed
  qed
qed (simp add: dict_eq_def list_all_iff)

text \<open>\<open>except sqlite3.DatabaseError: raise e'\<close>\<close>

definition db_error_as :: "exn \<Rightarrow> exn \<Rightarrow> exn" where
  "db_error_as e' e = (case e of DatabaseError _ \<Rightarrow> e' | _ \<Rightarrow> e)"

lemma db_error_as_simps [simp]:
  "db_error_as e' (DatabaseError m) = e'"
  "db_error_as e' (IntakeRejected r) = IntakeRejected r"
  "db_error_as e' (LedgerIntegrityError r) = LedgerIntegrityError r"
  "db_error_as e' (CaseLedgerError r) = CaseLedgerError r"
  "db_error_as e' (WorkflowError r) = WorkflowError r"
  "db_error_as e' (WorkflowInterrupted r) = WorkflowInterrupted r"
  "db_error_as e' (ContractValidationError n r) = ContractValidationError n r"
  by (simp_all add: db_error_as_def)

end
