(* ===== verification/Sha256.thy ===== *)
theory Sha256
  imports Prelude
begin

text \<open>
  The part of Python's standard library module \<open>hashlib\<close> the program uses:
  \<open>hashlib.sha256(data).hexdigest()\<close>, written out after FIPS 180-4 on 32-bit words.  Messages are
  strings whose characters are the bytes of the UTF-8 encoding (every hashed text of the modelled
  code is ASCII, the output of \<open>json.dumps\<close> with \<open>ensure_ascii\<close>).  The message length in bits
  is kept in one 32-bit word, so messages are below 512 MB.  No proof of the development unfolds
  the digest except for its length; where a property needs two digests to differ, it says so.
\<close>

unbundle bit_operations_syntax

type_synonym w32 = "32 word"

definition sha_k :: "w32 list" where
  "sha_k = [
    1116352408, 1899447441, 3049323471, 3921009573, 961987163, 1508970993, 2453635748, 2870763221,
    3624381080, 310598401, 607225278, 1426881987, 1925078388, 2162078206, 2614888103, 3248222580,
    3835390401, 4022224774, 264347078, 604807628, 770255983, 1249150122, 1555081692, 1996064986,
    2554220882, 2821834349, 2952996808, 3210313671, 3336571891, 3584528711, 113926993, 338241895,
    666307205, 773529912, 1294757372, 1396182291, 1695183700, 1986661051, 2177026350, 2456956037,
    2730485921, 2820302411, 3259730800, 3345764771, 3516065817, 3600352804, 4094571909, 275423344,
    430227734, 506948616, 659060556, 883997877, 958139571, 1322822218, 1537002063, 1747873779,
    1955562222, 2024104815, 2227730452, 2361852424, 2428436474, 2756734187, 3204031479, 3329325298]"

datatype sha_state = Sha w32 w32 w32 w32 w32 w32 w32 w32

definition sha_init :: sha_state where
  "sha_init = Sha 1779033703 3144134277 1013904242 2773480762 1359893119 2600822924 528734635 1541459225"

definition rotr32 :: "nat \<Rightarrow> w32 \<Rightarrow> w32" where
  "rotr32 n x = drop_bit n x OR push_bit (32 - n) x"

fun sha_schedule :: "nat \<Rightarrow> w32 list \<Rightarrow> w32 list" where
  "sha_schedule 0 ws = ws"
| "sha_schedule (Suc n) ws =
     (let l = length ws; a = ws ! (l - 15); b = ws ! (l - 2);
          s0 = rotr32 7 a XOR rotr32 18 a XOR drop_bit 3 a;
          s1 = rotr32 17 b XOR rotr32 19 b XOR drop_bit 10 b
      in sha_schedule n (ws @ [ws ! (l - 16) + s0 + ws ! (l - 7) + s1]))"

fun sha_round :: "w32 \<times> w32 \<Rightarrow> sha_state \<Rightarrow> sha_state" where
  "sha_round (k, w) (Sha a b c d e f g h) =
     (let s1 = rotr32 6 e XOR rotr32 11 e XOR rotr32 25 e;
          ch = (e AND f) XOR (NOT e AND g);
          t1 = h + s1 + ch + k + w;
          s0 = rotr32 2 a XOR rotr32 13 a XOR rotr32 22 a;
          maj = (a AND b) XOR (a AND c) XOR (b AND c);
          t2 = s0 + maj
      in Sha (t1 + t2) a b c (d + t1) e f g)"

fun sha_add :: "sha_state \<Rightarrow> sha_state \<Rightarrow> sha_state" where
  "sha_add (Sha a b c d e f g h) (Sha a' b' c' d' e' f' g' h') =
     Sha (a + a') (b + b') (c + c') (d + d') (e + e') (f + f') (g + g') (h + h')"

fun be_words :: "w32 list \<Rightarrow> w32 list" where
  "be_words (a # b # c # d # bs) =
     (push_bit 24 a OR push_bit 16 b OR push_bit 8 c OR d) # be_words bs"
| "be_words _ = []"

definition sha_block :: "w32 list \<Rightarrow> sha_state \<Rightarrow> sha_state" where
  "sha_block bs st = sha_add st (fold sha_round (zip sha_k (sha_schedule 48 (be_words bs))) st)"

fun sha_blocks :: "nat \<Rightarrow> w32 list \<Rightarrow> sha_state \<Rightarrow> sha_state" where
  "sha_blocks 0 bs st = st"
| "sha_blocks (Suc n) bs st = sha_blocks n (drop 64 bs) (sha_block (take 64 bs) st)"

definition be64 :: "w32 \<Rightarrow> w32 list" where
  "be64 n = [0, 0, 0, 0, drop_bit 24 n AND 255, drop_bit 16 n AND 255, drop_bit 8 n AND 255, n AND 255]"

definition sha_pad :: "w32 list \<Rightarrow> w32 list" where
  "sha_pad bs = bs @ 128 # replicate ((119 - length bs mod 64) mod 64) 0 @ be64 (8 * of_nat (length bs))"

definition hex_digit :: "w32 \<Rightarrow> char" where 
 "hex_digit w = ''0123456789abcdef'' ! unat w"

definition hex32 :: "w32 \<Rightarrow> string" where
  "hex32 w = map (\<lambda>i. hex_digit (drop_bit i w AND 15)) [28, 24, 20, 16, 12, 8, 4, 0]"

fun sha_hex :: "sha_state \<Rightarrow> string" where
  "sha_hex (Sha a b c d e f g h) = concat (map hex32 [a, b, c, d, e, f, g, h])"

definition sha256_hex :: "string \<Rightarrow> string" where
  "sha256_hex s = (let bs = sha_pad (map of_char s) in sha_hex (sha_blocks (length bs div 64) bs sha_init))"

lemma length_hex32 [simp]: "length (hex32 w) = 8"
  by (simp add: hex32_def)

lemma length_sha_hex [simp]: "length (sha_hex st) = 64"
  by (cases st) simp

lemma length_sha256_hex [simp]: "length (sha256_hex s) = 64"
  by (simp add: sha256_hex_def Let_def)

lemma sha256_hex_nonempty [simp]: "sha256_hex s \<noteq> []"
  using length_sha256_hex [of s] by (metis length_0_conv zero_neq_numeral)

text \<open>A digest is written in lower-case hexadecimal digits.\<close>

lemma hex_digit_mem: "hex_digit (w AND 15) \<in> set ''0123456789abcdef''"
proof -
  have "w AND 15 \<le> 15" by (rule word_and_le1)
  then have "unat (w AND 15) \<le> 15" by (simp add: word_le_nat_alt)
  then have "unat (w AND 15) < length ''0123456789abcdef''" by simp
  then show ?thesis unfolding hex_digit_def by (rule nth_mem)
qed

lemma sha256_hex_digits: "set (sha256_hex s) \<subseteq> set ''0123456789abcdef''"
proof -
  have h: "set (hex32 w) \<subseteq> set ''0123456789abcdef''" for w
    using hex_digit_mem by (auto simp: hex32_def)
  have "set (sha_hex st) \<subseteq> set ''0123456789abcdef''" for st
    using h by (cases st) (simp only: sha_hex.simps set_concat set_map, blast)
  then show ?thesis by (simp only: sha256_hex_def Let_def)
qed

end
