(* ===== verification/Json.thy ===== *)
theory Json
  imports Sha256
begin

text \<open>
  Python's JSON values and the part of the standard library module \<open>json\<close> the program uses.
  A \<open>dict[str, Any]\<close> payload is an association list in insertion order; \<open>obj_get\<close> is
  \<open>payload.get(key)\<close> (absent reads as \<open>None\<close>), \<open>obj_item\<close> is \<open>payload[key]\<close> (absent raises
  \<open>KeyError\<close>).  \<open>dumps\<close> is \<open>json.dumps(value, ensure_ascii=True, sort_keys=True,
  separators=(",", ":"))\<close>.  Strings are lists of characters of code point at most 255; floats do
  not occur in the modelled payloads and are left out.
\<close>

datatype json =
    JNull
  | JBool bool
  | JInt int
  | JStr string
  | JList "json list"
  | JObj "(string \<times> json) list"

type_synonym obj = "(string \<times> json) list"

definition obj_get :: "obj \<Rightarrow> string \<Rightarrow> json" where
  "obj_get p k = (case map_of p k of None \<Rightarrow> JNull | Some v \<Rightarrow> v)"

definition obj_get_or :: "obj \<Rightarrow> string \<Rightarrow> json \<Rightarrow> json" where
  "obj_get_or p k d = (case map_of p k of None \<Rightarrow> d | Some v \<Rightarrow> v)"

definition obj_item :: "obj \<Rightarrow> string \<Rightarrow> exn + json" where
  "obj_item p k = (case map_of p k of None \<Rightarrow> Inl (KeyError k) | Some v \<Rightarrow> Inr v)"

definition obj_without :: "obj \<Rightarrow> string \<Rightarrow> obj" where
  "obj_without p k = filter (\<lambda>(k', _). k' \<noteq> k) p"

text \<open>\<open>payload[key] = value\<close>: an existing key keeps its position, a new one goes to the end.\<close>

definition obj_set :: "obj \<Rightarrow> string \<Rightarrow> json \<Rightarrow> obj" where
  "obj_set p k v =
     (if k \<in> set (map fst p) then map (\<lambda>(k', v'). if k' = k then (k', v) else (k', v')) p
      else p @ [(k, v)])"

text \<open>Dict equality ignores the order of the keys.\<close>

definition obj_eq :: "obj \<Rightarrow> obj \<Rightarrow> bool" where
  "obj_eq p q \<longleftrightarrow>
     list_all (\<lambda>k. map_of p k = map_of q k) (map fst p @ map fst q)"

definition jlist :: "string list \<Rightarrow> json" where
  "jlist xs = JList (map JStr xs)"

definition jopt :: "string option \<Rightarrow> json" where
  "jopt x = (case x of None \<Rightarrow> JNull | Some s \<Rightarrow> JStr s)"

definition jopt_int :: "int option \<Rightarrow> json" where
  "jopt_int x = (case x of None \<Rightarrow> JNull | Some n \<Rightarrow> JInt n)"

section \<open>Decimal numbers\<close>

definition digit_char :: "nat \<Rightarrow> char" where
  "digit_char n = char_of (48 + n)"

fun dec_nat :: "nat \<Rightarrow> string" where
  "dec_nat n = (if n < 10 then [digit_char n] else dec_nat (n div 10) @ [digit_char (n mod 10)])"

declare dec_nat.simps [simp del]

definition dec_int :: "int \<Rightarrow> string" where
  "dec_int i = (if i < 0 then CHR ''-'' # dec_nat (nat (- i)) else dec_nat (nat i))"

section \<open>json.dumps\<close>

definition hex_nibble :: "nat \<Rightarrow> char" where
  "hex_nibble n = ''0123456789abcdef'' ! (n mod 16)"

definition escape_char :: "char \<Rightarrow> string" where
  "escape_char c =
     (if c = CHR 0x22 then [CHR 0x5C, CHR 0x22]
      else if c = CHR 0x5C then [CHR 0x5C, CHR 0x5C]
      else if c = CHR 0x0A then [CHR 0x5C, CHR ''n'']
      else if c = CHR 0x0D then [CHR 0x5C, CHR ''r'']
      else if c = CHR 0x09 then [CHR 0x5C, CHR ''t'']
      else if c = CHR 0x0C then [CHR 0x5C, CHR ''f'']
      else if c = CHR 0x08 then [CHR 0x5C, CHR ''b'']
      else if 32 \<le> (of_char c :: nat) \<and> (of_char c :: nat) \<le> 126 then [c]
      else [CHR 0x5C, CHR ''u'', CHR ''0'', CHR ''0'', hex_nibble (of_char c div 16),
            hex_nibble (of_char c)])"

definition quote_string :: "string \<Rightarrow> string" where
  "quote_string s = CHR 0x22 # concat (map escape_char s) @ [CHR 0x22]"

definition join_with :: "char \<Rightarrow> string list \<Rightarrow> string" where
  "join_with c xs = (case xs of [] \<Rightarrow> [] | y # ys \<Rightarrow> y @ concat (map (\<lambda>z. c # z) ys))"

fun dumps :: "json \<Rightarrow> string" where
  "dumps JNull = ''null''"
| "dumps (JBool b) = (if b then ''true'' else ''false'')"
| "dumps (JInt n) = dec_int n"
| "dumps (JStr s) = quote_string s"
| "dumps (JList xs) = CHR ''['' # join_with CHR '','' (map dumps xs) @ '']''"
| "dumps (JObj kvs) =
     CHR ''{'' # join_with CHR '',''
       (map (\<lambda>(k, s). quote_string k @ CHR '':'' # s)
          (sort_key fst (map (\<lambda>(k, v). (k, dumps v)) kvs))) @ ''}''"

lemma obj_get_Nil [simp]: "obj_get [] k = JNull"
  by (simp add: obj_get_def)

lemma obj_get_Cons [simp]:
  "obj_get ((k', v) # p) k = (if k = k' then v else obj_get p k)"
  by (simp add: obj_get_def)

lemma obj_get_absent: "k \<notin> set (map fst p) \<Longrightarrow> obj_get p k = JNull"
  by (induction p) auto

lemma obj_item_get: "obj_get p k \<noteq> JNull \<Longrightarrow> obj_item p k = Inr (obj_get p k)"
  by (auto simp: obj_get_def obj_item_def split: option.splits)

lemma obj_item_str: "obj_get p k = JStr s \<Longrightarrow> obj_item p k = Inr (JStr s)"
  by (simp add: obj_item_get)

lemma obj_item_Cons [simp]:
  "obj_item ((k', v) # p) k = (if k = k' then Inr v else obj_item p k)"
  by (simp add: obj_item_def)

lemma obj_get_append:
  "obj_get (p @ q) k = (if k \<in> set (map fst p) then obj_get p k else obj_get q k)"
  by (induction p) (force simp: obj_get_absent)+

lemma obj_get_overwrite:
  "obj_get (map (\<lambda>(k', v'). if k' = k then (k', v) else (k', v')) p) k'' =
     (if k'' = k \<and> k \<in> set (map fst p) then v else obj_get p k'')"
  by (induction p) force+

lemma obj_without_simps [simp]:
  "obj_without [] k = []"
  "obj_without ((k', v) # p) k = (if k' = k then obj_without p k else (k', v) # obj_without p k)"
  by (simp_all add: obj_without_def)

lemma obj_without_append [simp]: "obj_without (p @ q) k = obj_without p k @ obj_without q k"
  by (simp add: obj_without_def)

lemma obj_without_fresh: "k \<notin> set (map fst p) \<Longrightarrow> obj_without p k = p"
  by (induction p) auto

lemma obj_get_without [simp]:
  "obj_get (obj_without p k) k' = (if k' = k then JNull else obj_get p k')"
  by (induction p) auto

lemma obj_get_set [simp]:
  "obj_get (obj_set p k v) k' = (if k' = k then v else obj_get p k')"
  by (auto simp: obj_set_def obj_get_overwrite obj_get_append obj_get_absent)

lemma obj_eq_iff: "obj_eq p q \<longleftrightarrow> map_of p = map_of q"
  using dict_eq_iff [of p q] unfolding obj_eq_def dict_eq_def .

lemma obj_eq_refl [simp]: "obj_eq p p"
  by (simp add: obj_eq_iff)

section \<open>Canonical digests and stable identifiers\<close>

definition canonical_sha256 :: "json \<Rightarrow> string" where
  "canonical_sha256 v = sha256_hex (dumps v)"

definition stable_identifier :: "string \<Rightarrow> json \<Rightarrow> string" where
  "stable_identifier prefix material =
     prefix @ ''_'' @
       take 32 (canonical_sha256 (JObj [(''prefix'', JStr prefix), (''material'', material)]))"

lemma length_canonical_sha256 [simp]: "length (canonical_sha256 v) = 64"
  by (simp add: canonical_sha256_def)

lemma canonical_sha256_nonempty [simp]: "canonical_sha256 v \<noteq> []"
  by (simp add: canonical_sha256_def)

lemma stable_identifier_nonempty [simp]: "stable_identifier prefix material \<noteq> []"
  by (simp add: stable_identifier_def)

lemma length_stable_identifier: "length (stable_identifier prefix m) = length prefix + 33"
  by (simp add: stable_identifier_def)

end
