(* ===== verification/Timestamps.thy ===== *)
theory Timestamps
  imports Json
begin

text \<open>
  The part of Python's standard library module \<open>datetime\<close> the program uses.  An aware UTC
  datetime is the number of microseconds since 0001-01-01T00:00:00Z; adding a \<open>timedelta\<close> that
  leaves the years 1 to 9999 raises \<open>OverflowError\<close>.  The calendar is the proleptic Gregorian
  one, with CPython's split of a day number into 400-, 100-, 4- and 1-year cycles.
  \<open>fromisoformat\<close> is modelled on the extended format the program writes and stores
  (\<open>YYYY-MM-DD\<close>, a separator, \<open>HH:MM[:SS[.f+]]\<close> and an optional \<open>+HH:MM\<close> or \<open>-HH:MM\<close>
  offset); the basic and week-date formats it accepts besides are outside the model and read as
  invalid.
\<close>

type_synonym instant = int

definition us_per_second :: int where "us_per_second = 1000000"
definition us_per_day :: int where "us_per_day = 86400 * us_per_second"
definition max_instant :: instant where "max_instant = 3652059 * us_per_day"

definition valid_instant :: "instant \<Rightarrow> bool" where
  "valid_instant t \<longleftrightarrow> 0 \<le> t \<and> t < max_instant"

definition add_seconds :: "instant \<Rightarrow> int \<Rightarrow> exn + instant" where
  "add_seconds t s =
     (let t' = t + s * us_per_second
      in if valid_instant t' then Inr t' else Inl (OverflowError ''date value out of range''))"

section \<open>The calendar\<close>

definition is_leap :: "int \<Rightarrow> bool" where
  "is_leap y \<longleftrightarrow> y mod 4 = 0 \<and> (y mod 100 \<noteq> 0 \<or> y mod 400 = 0)"

definition days_before_year :: "int \<Rightarrow> int" where
  "days_before_year y =
     (let p = y - 1 in p * 365 + p div 4 - p div 100 + p div 400)"

definition month_lengths :: "bool \<Rightarrow> int list" where
  "month_lengths leap = [31, if leap then 29 else 28, 31, 30, 31, 30, 31, 31, 30, 31, 30, 31]"

text \<open>Month and day of month for a zero-based day of the year.\<close>

fun split_months :: "int list \<Rightarrow> int \<Rightarrow> int \<Rightarrow> int \<times> int" where
  "split_months [] m d = (m, d)"
| "split_months (l # ls) m d = (if d < l then (m, d) else split_months ls (m + 1) (d - l))"

definition ymd_to_day :: "int \<Rightarrow> int \<Rightarrow> int \<Rightarrow> int" where
  "ymd_to_day y m d =
     days_before_year y + sum_list (take (nat (m - 1)) (month_lengths (is_leap y))) + (d - 1)"

definition day_to_ymd :: "int \<Rightarrow> int \<times> int \<times> int" where
  "day_to_ymd n =
     (let n400 = n div 146097; r = n mod 146097;
          n100 = r div 36524; r = r mod 36524;
          n4 = r div 1461; r = r mod 1461;
          n1 = r div 365; r = r mod 365;
          y = 400 * n400 + 100 * n100 + 4 * n4 + n1 + 1
      in if n1 = 4 \<or> n100 = 4 then (y - 1, 12, 31)
         else (case split_months (month_lengths (is_leap y)) 1 r of (m, d) \<Rightarrow> (y, m, d + 1)))"

section \<open>isoformat\<close>

definition pad2 :: "int \<Rightarrow> string" where
  "pad2 n = map (\<lambda>i. digit_char (nat (n div i mod 10))) [10, 1]"

definition pad4 :: "int \<Rightarrow> string" where
  "pad4 n = map (\<lambda>i. digit_char (nat (n div i mod 10))) [1000, 100, 10, 1]"

definition pad6 :: "int \<Rightarrow> string" where
  "pad6 n = map (\<lambda>i. digit_char (nat (n div i mod 10))) [100000, 10000, 1000, 100, 10, 1]"

definition iso_date :: "int \<Rightarrow> string" where
  "iso_date day =
     (case day_to_ymd day of (y, m, d) \<Rightarrow> pad4 y @ ''-'' @ pad2 m @ ''-'' @ pad2 d)"

text \<open>\<open>_timestamp(value)\<close>: the ISO form of a UTC datetime with \<open>Z\<close> for the offset.\<close>

definition timestamp :: "instant \<Rightarrow> string" where
  "timestamp t =
     (let day = t div us_per_day; us = t mod us_per_day;
          s = us div us_per_second; f = us mod us_per_second
      in iso_date day @ ''T'' @ pad2 (s div 3600) @ '':'' @ pad2 (s div 60 mod 60) @ '':'' @
         pad2 (s mod 60) @ (if f = 0 then [] else ''.'' @ pad6 f) @ ''Z'')"

section \<open>fromisoformat\<close>

datatype pytime = Naive int | Aware instant

definition char_digit :: "char \<Rightarrow> int option" where
  "char_digit c =
     (let n = (of_char c :: nat) in if 48 \<le> n \<and> n \<le> 57 then Some (int n - 48) else None)"

fun digits_value :: "int \<Rightarrow> string \<Rightarrow> int option" where
  "digits_value acc [] = Some acc"
| "digits_value acc (c # cs) =
     (case char_digit c of None \<Rightarrow> None | Some d \<Rightarrow> digits_value (10 * acc + d) cs)"

definition fixed_digits :: "nat \<Rightarrow> string \<Rightarrow> (int \<times> string) option" where
  "fixed_digits n s =
     (if length s < n then None
      else case digits_value 0 (take n s) of None \<Rightarrow> None | Some v \<Rightarrow> Some (v, drop n s))"

definition expect :: "char \<Rightarrow> string \<Rightarrow> string option" where
  "expect c s = (case s of [] \<Rightarrow> None | c' # cs \<Rightarrow> if c' = c then Some cs else None)"

definition parse_date :: "string \<Rightarrow> (int \<times> string) option" where
  "parse_date s =
     Option.bind (fixed_digits 4 s) (\<lambda>(y, s). Option.bind (expect CHR ''-'' s) (\<lambda>s.
     Option.bind (fixed_digits 2 s) (\<lambda>(m, s). Option.bind (expect CHR ''-'' s) (\<lambda>s.
     Option.bind (fixed_digits 2 s) (\<lambda>(d, s).
       if 1 \<le> y \<and> 1 \<le> m \<and> m \<le> 12 \<and> 1 \<le> d \<and> d \<le> month_lengths (is_leap y) ! nat (m - 1)
       then Some (ymd_to_day y m d, s) else None)))))"

text \<open>Fraction digits after \<open>.\<close>: the first six count, missing ones are zero.\<close>

definition parse_fraction :: "string \<Rightarrow> (int \<times> string) option" where
  "parse_fraction s =
     (case s of
        CHR ''.'' # cs \<Rightarrow>
          (let ds = takeWhile (\<lambda>c. char_digit c \<noteq> None) cs
           in if ds = [] then None
              else case digits_value 0 (take 6 (ds @ ''00000'')) of
                     None \<Rightarrow> None | Some v \<Rightarrow> Some (v, drop (length ds) cs))
      | _ \<Rightarrow> Some (0, s))"

definition parse_clock :: "string \<Rightarrow> (int \<times> string) option" where
  "parse_clock s =
     Option.bind (fixed_digits 2 s) (\<lambda>(h, s). Option.bind (expect CHR '':'' s) (\<lambda>s.
     Option.bind (fixed_digits 2 s) (\<lambda>(mi, s).
       if 23 < h \<or> 59 < mi then None
       else (case expect CHR '':'' s of
               None \<Rightarrow> Some ((h * 3600 + mi * 60) * us_per_second, s)
             | Some s \<Rightarrow>
                 Option.bind (fixed_digits 2 s) (\<lambda>(sec, s).
                 Option.bind (parse_fraction s) (\<lambda>(f, s).
                   if 59 < sec then None
                   else Some ((h * 3600 + mi * 60 + sec) * us_per_second + f, s)))))))"

definition parse_offset :: "string \<Rightarrow> int option" where
  "parse_offset s =
     Option.bind (fixed_digits 2 s) (\<lambda>(h, s). Option.bind (expect CHR '':'' s) (\<lambda>s.
     Option.bind (fixed_digits 2 s) (\<lambda>(mi, s).
       if s \<noteq> [] \<or> 23 < h \<or> 59 < mi then None
       else Some ((h * 3600 + mi * 60) * us_per_second))))"

definition fromisoformat :: "string \<Rightarrow> pytime option" where
  "fromisoformat s =
     Option.bind (parse_date s) (\<lambda>(day, s).
       case s of
         [] \<Rightarrow> Some (Naive (day * us_per_day))
       | _ # s \<Rightarrow>
           Option.bind (parse_clock s) (\<lambda>(us, s).
             case s of
               [] \<Rightarrow> Some (Naive (day * us_per_day + us))
             | CHR ''+'' # s \<Rightarrow>
                 Option.bind (parse_offset s) (\<lambda>o'. Some (Aware (day * us_per_day + us - o')))
             | CHR ''-'' # s \<Rightarrow>
                 Option.bind (parse_offset s) (\<lambda>o'. Some (Aware (day * us_per_day + us + o')))
             | _ \<Rightarrow> None))"

text \<open>\<open>value.replace("Z", "+00:00")\<close>\<close>

definition replace_z :: "string \<Rightarrow> string" where
  "replace_z s = concat (map (\<lambda>c. if c = CHR ''Z'' then ''+00:00'' else [c]) s)"

definition parse_iso :: "string \<Rightarrow> pytime option" where
  "parse_iso s = fromisoformat (replace_z s)"

end
