(* ===== verification/Contracts.thy ===== *)
theory Contracts
  imports Timestamps
begin

text \<open>
  The contract layer, \<open>weflow_contracts/validation.py\<close> and \<open>weflow_contracts/workflow.py\<close>:
  deterministic validations of \<open>dict\<close> payloads that complement the JSON Schemas.  Schema checking
  itself is the third-party package \<open>jsonschema\<close> on the schema files of the repository; it is
  the parameter \<open>V\<close>: for a declared schema id, the validator if the schema exists, which maps a
  payload to \<open>None\<close> when it conforms and to the \<open>path:keyword\<close> reason of its first error
  otherwise.  Every result holds for every such \<open>V\<close>.
\<close>

type_synonym validators = "string \<Rightarrow> (json \<Rightarrow> string option) option"

section \<open>Python operations on JSON values\<close>

definition py_str :: "json \<Rightarrow> string" where
  "py_str v = (case v of
     JStr s \<Rightarrow> s | JInt n \<Rightarrow> dec_int n | JNull \<Rightarrow> ''None''
   | JBool b \<Rightarrow> (if b then ''True'' else ''False'') | _ \<Rightarrow> dumps v)"

definition py_int :: "json \<Rightarrow> exn + int" where
  "py_int v = (case v of
     JInt n \<Rightarrow> Inr n
   | JBool b \<Rightarrow> Inr (if b then 1 else 0)
   | JStr s \<Rightarrow>
       (let neg = (case s of c # _ \<Rightarrow> c = CHR ''-'' | [] \<Rightarrow> False);
            ds = (if neg then tl s else s)
        in if ds = [] then Inl (ValueError ''invalid literal for int()'')
           else case digits_value 0 ds of
                  None \<Rightarrow> Inl (ValueError ''invalid literal for int()'')
                | Some n \<Rightarrow> Inr (if neg then - n else n))
   | _ \<Rightarrow> Inl (TypeError ''int() argument''))"

definition chars_of :: "string \<Rightarrow> json list" where
  "chars_of s = map (\<lambda>c. JStr [c]) s"

text \<open>Iterating a value: a list, the characters of a string, the keys of a dict.\<close>

definition py_iter :: "json \<Rightarrow> exn + json list" where
  "py_iter v = (case v of
     JList xs \<Rightarrow> Inr xs
   | JStr s \<Rightarrow> Inr (chars_of s)
   | JObj kvs \<Rightarrow> Inr (map (JStr \<circ> fst) kvs)
   | _ \<Rightarrow> Inl (TypeError ''object is not iterable''))"

fun hashable :: "json \<Rightarrow> bool" where
  "hashable (JList _) = False"
| "hashable (JObj _) = False"
| "hashable _ = True"

text \<open>\<open>set(value)\<close>, as the list of its elements.\<close>

definition py_set :: "json \<Rightarrow> exn + json list" where
  "py_set v = bind_res (py_iter v) (\<lambda>xs.
     if list_all hashable xs then Inr xs else Inl (TypeError ''unhashable type''))"

fun substring :: "string \<Rightarrow> string \<Rightarrow> bool" where
  "substring p [] = (p = [])"
| "substring p (c # cs) = (take (length p) (c # cs) = p \<or> substring p cs)"

definition py_in :: "json \<Rightarrow> json \<Rightarrow> exn + bool" where
  "py_in x v = (case v of
     JList xs \<Rightarrow> Inr (x \<in> set xs)
   | JStr s \<Rightarrow> (case x of JStr p \<Rightarrow> Inr (substring p s) | _ \<Rightarrow> Inl (TypeError ''in <string>''))
   | JObj kvs \<Rightarrow> Inr (x \<in> set (map (JStr \<circ> fst) kvs))
   | _ \<Rightarrow> Inl (TypeError ''argument is not iterable''))"

definition is_jstr :: "json \<Rightarrow> bool" where
  "is_jstr v = (case v of JStr _ \<Rightarrow> True | _ \<Rightarrow> False)"

section \<open>validation.py\<close>

definition remove_suffix :: "string \<Rightarrow> string \<Rightarrow> string" where
  "remove_suffix suf s =
     (let n = length s - length suf in if drop n s = suf \<and> suf \<noteq> [] then take n s else s)"

definition schema_name :: "string \<Rightarrow> string" where
  "schema_name schema_id =
     remove_suffix ''.schema.json'' (rev (takeWhile (\<lambda>c. c \<noteq> CHR ''/'') (rev schema_id)))"

definition validate_payload :: "validators \<Rightarrow> obj \<Rightarrow> exn + unit" where
  "validate_payload V payload =
     (case obj_get payload ''schema_id'' of
        JStr sid \<Rightarrow>
          if sid = [] then Inl (ContractValidationError ''unknown'' ''missing_schema_id'')
          else (case V sid of
                  None \<Rightarrow> Inl (ContractValidationError ''unknown'' ''schema_not_found'')
                | Some validator \<Rightarrow>
                    (case validator (JObj payload) of
                       None \<Rightarrow> Inr ()
                     | Some reason \<Rightarrow> Inl (ContractValidationError (schema_name sid) reason)))
      | _ \<Rightarrow> Inl (ContractValidationError ''unknown'' ''missing_schema_id''))"

definition validate_tenant_reference :: "obj list \<Rightarrow> exn + unit" where
  "validate_tenant_reference records =
     (let tenant_ids = map (\<lambda>r. obj_get r ''tenant_id'') records in
      if JNull \<in> set tenant_ids \<or> JStr [] \<in> set tenant_ids
      then Inl (ContractValidationError ''tenant-reference'' ''tenant_id_missing'')
      else if length (remdups tenant_ids) \<noteq> 1
      then Inl (ContractValidationError ''tenant-reference'' ''tenant_mismatch'')
      else Inr ())"

record revision_scan =
  rs_expected :: int
  rs_previous :: json
  rs_case :: json
  rs_tenant :: json

definition revision_step :: "validators \<Rightarrow> revision_scan \<Rightarrow> obj \<Rightarrow> exn + revision_scan" where
  "revision_step V s r =
     bind_res (validate_payload V r) (\<lambda>_.
     bind_res (obj_item r ''revision'') (\<lambda>n.
     bind_res (require (n = JInt (rs_expected s))
       (ContractValidationError ''case-revision'' ''revision_not_monotonic'')) (\<lambda>_.
     bind_res (require (obj_get r ''previous_case_revision_id'' = rs_previous s)
       (ContractValidationError ''case-revision'' ''predecessor_mismatch'')) (\<lambda>_.
     bind_res (obj_item r ''case_id'') (\<lambda>case_id.
     bind_res (obj_item r ''tenant_id'') (\<lambda>tenant_id.
     bind_res (require (rs_case s = JNull \<or> (case_id = rs_case s \<and> tenant_id = rs_tenant s))
       (ContractValidationError ''case-revision'' ''case_or_tenant_mismatch'')) (\<lambda>_.
     bind_res (obj_item r ''case_revision_id'') (\<lambda>rid.
     Inr \<lparr>rs_expected = rs_expected s + 1, rs_previous = rid,
          rs_case = (if rs_case s = JNull then case_id else rs_case s),
          rs_tenant = (if rs_case s = JNull then tenant_id else rs_tenant s)\<rparr>))))))))"

definition validate_revision_chain :: "validators \<Rightarrow> obj list \<Rightarrow> exn + unit" where
  "validate_revision_chain V revisions =
     (if revisions = []
      then Inl (ContractValidationError ''case-revision'' ''revision_chain_empty'')
      else bind_res (fold_res (revision_step V)
             \<lparr>rs_expected = 1, rs_previous = JNull, rs_case = JNull, rs_tenant = JNull\<rparr> revisions)
             (\<lambda>_. Inr ()))"

definition stable_idempotency_key ::
  "string \<Rightarrow> string \<Rightarrow> string \<Rightarrow> string \<Rightarrow> string \<Rightarrow> string" where
  "stable_idempotency_key tenant_id provider_id operation natural_key intended_state_hash =
     canonical_sha256 (JObj
       [(''tenant_id'', JStr tenant_id), (''provider_id'', JStr provider_id),
        (''operation'', JStr operation), (''natural_key'', JStr natural_key),
        (''intended_state_hash'', JStr intended_state_hash)])"

record delivery_scan =
  ds_seen :: "string list"
  ds_latest :: "string option"
  ds_duplicate :: bool
  ds_out_of_order :: bool

definition delivery_step :: "validators \<Rightarrow> delivery_scan \<Rightarrow> obj \<Rightarrow> exn + delivery_scan" where
  "delivery_step V s event =
     bind_res (validate_payload V event) (\<lambda>_.
     bind_res (obj_item event ''event_id'') (\<lambda>eid.
     bind_res (obj_item event ''occurred_at'') (\<lambda>occ.
       let event_id = py_str eid; occurred_at = py_str occ in
       Inr \<lparr>ds_seen = event_id # ds_seen s,
            ds_latest = Some (case ds_latest s of
                None \<Rightarrow> occurred_at
              | Some l \<Rightarrow> if l = [] then occurred_at else max l occurred_at),
            ds_duplicate = (ds_duplicate s \<or> event_id \<in> set (ds_seen s)),
            ds_out_of_order = (ds_out_of_order s \<or>
              (case ds_latest s of None \<Rightarrow> False | Some l \<Rightarrow> occurred_at < l))\<rparr>)))"

definition classify_event_delivery :: "validators \<Rightarrow> obj list \<Rightarrow> exn + bool \<times> bool" where
  "classify_event_delivery V events =
     bind_res (fold_res (delivery_step V)
         \<lparr>ds_seen = [], ds_latest = None, ds_duplicate = False, ds_out_of_order = False\<rparr> events)
       (\<lambda>s. Inr (ds_duplicate s, ds_out_of_order s))"

text \<open>\<open>_parse_time(value)\<close>\<close>

definition parse_time :: "json \<Rightarrow> pytime option" where
  "parse_time v = (case v of JStr s \<Rightarrow> parse_iso s | _ \<Rightarrow> None)"

text \<open>\<open>expiry <= now\<close> for an aware \<open>now\<close>: comparing a naive datetime raises.\<close>

definition not_after :: "pytime \<Rightarrow> instant \<Rightarrow> exn + bool" where
  "not_after e now = (case e of
     Naive _ \<Rightarrow> Inl (TypeError ''can't compare offset-naive and offset-aware datetimes'')
   | Aware t \<Rightarrow> Inr (t \<le> now))"

text \<open>\<open>expiry is None or expiry <= now\<close>\<close>

definition expired :: "pytime option \<Rightarrow> instant \<Rightarrow> exn + bool" where
  "expired e now = (case e of None \<Rightarrow> Inr True | Some t \<Rightarrow> not_after t now)"

definition require_schema :: "validators \<Rightarrow> obj \<Rightarrow> string \<Rightarrow> string \<Rightarrow> exn + unit" where
  "require_schema V payload expected_schema_id name =
     bind_res (validate_payload V payload) (\<lambda>_.
       require (obj_get payload ''schema_id'' = JStr expected_schema_id)
         (ContractValidationError name ''unexpected_schema''))"

lemma validate_payload_error:
  "validate_payload V p = Inl e \<Longrightarrow> is_contract_error e"
  by (auto simp: validate_payload_def split: json.splits if_splits option.splits)

lemma require_schema_error:
  "require_schema V p sid name = Inl e \<Longrightarrow> is_contract_error e"
  unfolding require_schema_def
  by (auto simp: bind_res_eq_Inl dest: validate_payload_error)

lemma validate_payload_accepting:
  "obj_get p ''schema_id'' = JStr sid \<Longrightarrow> sid \<noteq> [] \<Longrightarrow> V sid = Some (\<lambda>_. None) \<Longrightarrow>
   validate_payload V p = Inr ()"
  by (simp add: validate_payload_def)

end
