(* ===== verification/Authorization.thy ===== *)
theory Authorization
  imports Contracts
begin

text \<open>
  \<open>weflow_contracts/authorization.py\<close> and \<open>approval_is_authorized\<close> of \<open>validation.py\<close>: hash-bound
  authorization profiles, approvals and the outbound delivery chain.  All of it reads payload
  dicts with \<open>.get\<close>, so a missing field is \<open>None\<close>.  The keyword-only arguments that describe the
  current durable facts are two records, one per validator.  \<open>now\<close> is the aware datetime the
  caller passes or, when it passes none, the clock.
\<close>

abbreviation AUTHORIZATION_BINDING_SCHEMA_ID :: string where
  "AUTHORIZATION_BINDING_SCHEMA_ID \<equiv>
     ''https://weflow.local/contracts/v1/authorization-binding.schema.json''"
abbreviation CAPABILITY_GRANT_SCHEMA_ID :: string where
  "CAPABILITY_GRANT_SCHEMA_ID \<equiv>
     ''https://weflow.local/contracts/v1/capability-grant.schema.json''"
abbreviation POLICY_DECISION_SCHEMA_ID :: string where
  "POLICY_DECISION_SCHEMA_ID \<equiv>
     ''https://weflow.local/contracts/v1/policy-decision.schema.json''"
abbreviation APPROVAL_REQUEST_SCHEMA_ID :: string where
  "APPROVAL_REQUEST_SCHEMA_ID \<equiv>
     ''https://weflow.local/contracts/v1/approval-request.schema.json''"
abbreviation APPROVAL_DECISION_SCHEMA_ID :: string where
  "APPROVAL_DECISION_SCHEMA_ID \<equiv>
     ''https://weflow.local/contracts/v1/approval-decision.schema.json''"
abbreviation OUTBOUND_DELIVERY_INTENT_SCHEMA_ID :: string where
  "OUTBOUND_DELIVERY_INTENT_SCHEMA_ID \<equiv>
     ''https://weflow.local/contracts/v1/outbound-delivery-intent.schema.json''"
abbreviation OUTBOUND_DELIVERY_OBSERVATION_SCHEMA_ID :: string where
  "OUTBOUND_DELIVERY_OBSERVATION_SCHEMA_ID \<equiv>
     ''https://weflow.local/contracts/v1/outbound-delivery-observation.schema.json''"
abbreviation OUTBOUND_DELIVERY_COMPLETION_SCHEMA_ID :: string where
  "OUTBOUND_DELIVERY_COMPLETION_SCHEMA_ID \<equiv>
     ''https://weflow.local/contracts/v1/outbound-delivery-completion.schema.json''"

definition CHANGE4_ACTIONS :: "string list" where
  "CHANGE4_ACTIONS = [''approval.request'', ''approval.decide'', ''outbound_delivery.execute'']"

definition SAFE_DATA_CLASSIFICATIONS :: "string list" where
  "SAFE_DATA_CLASSIFICATIONS = [''synthetic'']"

section \<open>Field checks\<close>

definition content_hash :: "obj \<Rightarrow> string \<Rightarrow> string" where
  "content_hash payload without = canonical_sha256 (JObj (obj_without payload without))"

definition require_fields :: "obj \<Rightarrow> string list \<Rightarrow> string \<Rightarrow> exn + unit" where
  "require_fields payload fs name =
     each_res (\<lambda>f. require (obj_get payload f \<notin> {JNull, JStr [], JList []})
       (ContractValidationError name (f @ ''_required''))) fs"

definition require_hash :: "obj \<Rightarrow> string \<Rightarrow> string \<Rightarrow> exn + unit" where
  "require_hash payload hash_field name =
     require (obj_get payload hash_field = JStr (content_hash payload hash_field))
       (ContractValidationError name (hash_field @ ''_mismatch''))"

definition same_fields :: "obj \<Rightarrow> obj \<Rightarrow> string list \<Rightarrow> string \<Rightarrow> exn + unit" where
  "same_fields left right fs name =
     each_res (\<lambda>f. require (obj_get left f = obj_get right f)
       (ContractValidationError name
         (if f = ''tenant_id'' then ''tenant_identity_mismatch'' else ''binding_mismatch''))) fs"

definition validate_capability_grant :: "validators \<Rightarrow> obj \<Rightarrow> exn + unit" where
  "validate_capability_grant V p = require_schema V p CAPABILITY_GRANT_SCHEMA_ID ''capability-grant''"

definition validate_policy_decision :: "validators \<Rightarrow> obj \<Rightarrow> exn + unit" where
  "validate_policy_decision V p = require_schema V p POLICY_DECISION_SCHEMA_ID ''policy-decision''"

definition validate_approval_request :: "validators \<Rightarrow> obj \<Rightarrow> exn + unit" where
  "validate_approval_request V p = require_schema V p APPROVAL_REQUEST_SCHEMA_ID ''approval-request''"

definition validate_approval_decision :: "validators \<Rightarrow> obj \<Rightarrow> exn + unit" where
  "validate_approval_decision V p =
     require_schema V p APPROVAL_DECISION_SCHEMA_ID ''approval-decision''"

definition validate_authorization_binding :: "validators \<Rightarrow> obj \<Rightarrow> exn + unit" where
  "validate_authorization_binding V p =
     bind_res (require_schema V p AUTHORIZATION_BINDING_SCHEMA_ID ''authorization-binding'') (\<lambda>_.
     bind_res (require_hash p ''authorization_binding_sha256'' ''authorization-binding'') (\<lambda>_.
       case obj_get p ''evidence_hashes'' of
         JList es \<Rightarrow>
           if \<not> list_all hashable es then Inl (TypeError ''unhashable type'')
           else require (distinct es)
             (ContractValidationError ''authorization-binding'' ''evidence_not_ordered_unique'')
       | _ \<Rightarrow> Inl (ContractValidationError ''authorization-binding'' ''evidence_not_ordered_unique'')))"

definition validate_outbound_delivery_intent :: "validators \<Rightarrow> obj \<Rightarrow> exn + unit" where
  "validate_outbound_delivery_intent V p =
     require_schema V p OUTBOUND_DELIVERY_INTENT_SCHEMA_ID ''outbound-delivery-intent''"

definition validate_outbound_delivery_observation :: "validators \<Rightarrow> obj \<Rightarrow> exn + unit" where
  "validate_outbound_delivery_observation V p =
     require_schema V p OUTBOUND_DELIVERY_OBSERVATION_SCHEMA_ID ''outbound-delivery-observation''"

definition validate_outbound_delivery_completion :: "validators \<Rightarrow> obj \<Rightarrow> exn + unit" where
  "validate_outbound_delivery_completion V p =
     require_schema V p OUTBOUND_DELIVERY_COMPLETION_SCHEMA_ID ''outbound-delivery-completion''"

section \<open>The authorization profile\<close>

record profile_query =
  pq_action :: string
  pq_case_revision_id :: string
  pq_checkpoint_id :: string
  pq_workflow_version :: int
  pq_candidate_hash :: string
  pq_evidence_hashes :: "string list"
  pq_resource_id :: string
  pq_data_classification :: string
  pq_tenant_id :: "string option"
  pq_subject_id :: "string option"
  pq_role :: "string option"
  pq_require_allow :: bool

definition grant_fields :: "string list" where
  "grant_fields =
     [''grant_version'', ''grant_sha256'', ''role'', ''resource_scope'', ''data_classifications'']"

definition decision_fields :: "string list" where
  "decision_fields =
     [''checkpoint_id'', ''workflow_id'', ''workflow_version'', ''candidate_hash'', ''action'',
      ''policy_version'', ''policy_input_sha256'', ''policy_decision_sha256'', ''grant_id'',
      ''grant_sha256'', ''subject_id'', ''role'', ''resource_id'', ''data_classification'']"

definition binding_grant_fields :: "string list" where
  "binding_grant_fields =
     [''tenant_id'', ''grant_id'', ''grant_version'', ''grant_sha256'', ''subject_id'', ''role'']"

definition binding_decision_fields :: "string list" where
  "binding_decision_fields =
     [''tenant_id'', ''case_id'', ''case_revision_id'', ''workflow_id'', ''checkpoint_id'',
      ''workflow_version'', ''candidate_hash'', ''evidence_hashes'', ''policy_decision_id'',
      ''policy_version'', ''policy_decision_sha256'', ''grant_id'', ''grant_sha256'',
      ''subject_id'', ''role'']"

text \<open>\<open>if a or b or c: raise\<close> where evaluating a disjunct may itself raise.\<close>

definition or_else :: "exn + bool \<Rightarrow> exn + bool \<Rightarrow> exn + bool" where
  "or_else a b = bind_res a (\<lambda>x. if x then Inr True else b)"

definition raise_if :: "exn + bool \<Rightarrow> exn \<Rightarrow> exn + unit" where
  "raise_if c e = bind_res c (\<lambda>x. if x then Inl e else Inr ())"

definition scope_denied :: "profile_query \<Rightarrow> obj \<Rightarrow> exn + bool" where
  "scope_denied q grant =
     or_else (bind_res (py_in (JStr (pq_action q)) (obj_get_or grant ''scopes'' (JList [])))
                (\<lambda>b. Inr (\<not> b)))
     (or_else (Inr (JStr (pq_resource_id q) \<noteq> obj_get grant ''resource_scope''))
     (or_else (bind_res (py_in (JStr (pq_data_classification q))
                           (obj_get_or grant ''data_classifications'' (JList [])))
                (\<lambda>b. Inr (\<not> b)))
        (Inr (pq_data_classification q \<notin> set SAFE_DATA_CLASSIFICATIONS))))"

definition stale_evidence :: "obj \<Rightarrow> string list \<Rightarrow> exn + bool" where
  "stale_evidence p current =
     bind_res (py_iter (obj_get_or p ''evidence_hashes'' (JList [])))
       (\<lambda>es. Inr (es \<noteq> map JStr current))"

definition validate_change4_authorization_profile ::
  "validators \<Rightarrow> obj \<Rightarrow> obj \<Rightarrow> obj \<Rightarrow> profile_query \<Rightarrow> instant \<Rightarrow> exn + unit" where
  "validate_change4_authorization_profile V binding grant decision q now =
     (let err = ContractValidationError ''authorization-binding'' in
     bind_res (require (pq_action q \<in> set CHANGE4_ACTIONS) (err ''action_not_allowlisted'')) (\<lambda>_.
     bind_res (validate_authorization_binding V binding) (\<lambda>_.
     bind_res (validate_capability_grant V grant) (\<lambda>_.
     bind_res (validate_policy_decision V decision) (\<lambda>_.
     bind_res (require_fields grant grant_fields ''capability-grant'') (\<lambda>_.
     bind_res (require_hash grant ''grant_sha256'' ''capability-grant'') (\<lambda>_.
     bind_res (require_fields decision decision_fields ''policy-decision'') (\<lambda>_.
     bind_res (require_hash decision ''policy_decision_sha256'' ''policy-decision'') (\<lambda>_.
     bind_res (require (\<not> pq_require_allow q \<or> obj_get decision ''decision'' = JStr ''allow'')
       (ContractValidationError ''policy-decision'' ''policy_denied'')) (\<lambda>_.
     bind_res (require (obj_get grant ''status'' = JStr ''active'')
       (ContractValidationError ''capability-grant'' ''grant_not_active'')) (\<lambda>_.
     bind_res (raise_if
       (let expiry = parse_time (obj_get grant ''expires_at'');
            binding_expiry = parse_time (obj_get binding ''expires_at'')
        in if expiry = None \<or> binding_expiry = None then Inr True
           else or_else (expired expiry now) (expired binding_expiry now))
       (err ''authorization_expired'')) (\<lambda>_.
     bind_res (raise_if (scope_denied q grant)
       (ContractValidationError ''capability-grant'' ''grant_scope_denied'')) (\<lambda>_.
     bind_res (same_fields binding grant binding_grant_fields ''authorization-binding'') (\<lambda>_.
     bind_res (same_fields binding decision binding_decision_fields ''authorization-binding'') (\<lambda>_.
     bind_res (require (obj_get binding ''action'' = JStr (pq_action q) \<and>
         obj_get decision ''action'' = JStr (pq_action q) \<and>
         obj_get binding ''delivery_resource_id'' = JStr (pq_resource_id q) \<and>
         obj_get binding ''data_classification'' = JStr (pq_data_classification q) \<and>
         obj_get decision ''resource_id'' = JStr (pq_resource_id q) \<and>
         obj_get decision ''data_classification'' = JStr (pq_data_classification q))
       (err ''binding_mismatch'')) (\<lambda>_.
     bind_res (raise_if
       (or_else (Inr (obj_get binding ''case_revision_id'' \<noteq> JStr (pq_case_revision_id q) \<or>
                      obj_get binding ''checkpoint_id'' \<noteq> JStr (pq_checkpoint_id q) \<or>
                      obj_get binding ''workflow_version'' \<noteq> JInt (pq_workflow_version q) \<or>
                      obj_get binding ''candidate_hash'' \<noteq> JStr (pq_candidate_hash q)))
          (stale_evidence binding (pq_evidence_hashes q)))
       (err ''stale_authorization_binding'')) (\<lambda>_.
     bind_res (require (pq_tenant_id q = None \<or> obj_get binding ''tenant_id'' = jopt (pq_tenant_id q))
       (err ''tenant_identity_mismatch'')) (\<lambda>_.
     bind_res (require (pq_subject_id q = None \<or> obj_get binding ''subject_id'' = jopt (pq_subject_id q))
       (err ''subject_identity_mismatch'')) (\<lambda>_.
     require (pq_role q = None \<or> obj_get binding ''role'' = jopt (pq_role q))
       (err ''role_identity_mismatch''))))))))))))))))))))"

section \<open>Hash-bound approvals\<close>

record approval_query =
  aq_case_revision_id :: string
  aq_checkpoint_id :: string
  aq_workflow_version :: int
  aq_candidate_hash :: string
  aq_evidence_hashes :: "string list"
  aq_tenant_id :: string
  aq_approver_id :: string
  aq_approver_role :: string

definition request_fields :: "string list" where
  "request_fields =
     [''workflow_id'', ''checkpoint_id'', ''workflow_version'', ''authorization_binding_sha256'',
      ''policy_decision_sha256'', ''policy_version'', ''grant_sha256'']"

definition approval_fields :: "string list" where
  "approval_fields =
     [''workflow_id'', ''checkpoint_id'', ''workflow_version'', ''authorization_binding_sha256'',
      ''approver_id'', ''approver_role'', ''decision_sha256'']"

definition request_decision_fields :: "string list" where
  "request_decision_fields =
     [''tenant_id'', ''approval_request_id'', ''case_id'', ''case_revision_id'', ''candidate_hash'',
      ''evidence_hashes'', ''workflow_id'', ''checkpoint_id'', ''workflow_version'',
      ''authorization_binding_sha256'']"

definition request_binding_fields :: "string list" where
  "request_binding_fields =
     [''authorization_binding_sha256'', ''policy_decision_sha256'', ''policy_version'',
      ''grant_sha256'']"

definition validate_hash_bound_approval ::
  "validators \<Rightarrow> obj \<Rightarrow> obj \<Rightarrow> obj \<Rightarrow> approval_query \<Rightarrow> instant \<Rightarrow> exn + unit" where
  "validate_hash_bound_approval V request decision binding q now =
     (let err = ContractValidationError ''approval-decision'' in
     bind_res (validate_approval_request V request) (\<lambda>_.
     bind_res (validate_approval_decision V decision) (\<lambda>_.
     bind_res (validate_authorization_binding V binding) (\<lambda>_.
     bind_res (require_fields request request_fields ''approval-request'') (\<lambda>_.
     bind_res (require_fields decision approval_fields ''approval-decision'') (\<lambda>_.
     bind_res (require_hash decision ''decision_sha256'' ''approval-decision'') (\<lambda>_.
     bind_res (require (obj_get decision ''decision'' = JStr ''approved'')
       (err ''approval_not_granted'')) (\<lambda>_.
     bind_res (same_fields request decision request_decision_fields ''approval-decision'') (\<lambda>_.
     bind_res (require (\<forall>f\<in>set request_binding_fields. obj_get request f = obj_get binding f)
       (ContractValidationError ''approval-request'' ''binding_mismatch'')) (\<lambda>_.
     bind_res (require (obj_get decision ''tenant_id'' = JStr (aq_tenant_id q) \<and>
         obj_get decision ''approver_id'' = JStr (aq_approver_id q) \<and>
         obj_get decision ''approver_role'' = JStr (aq_approver_role q))
       (err ''actor_identity_mismatch'')) (\<lambda>_.
     bind_res (raise_if
       (or_else (Inr (obj_get request ''case_revision_id'' \<noteq> JStr (aq_case_revision_id q) \<or>
                      obj_get request ''checkpoint_id'' \<noteq> JStr (aq_checkpoint_id q) \<or>
                      obj_get request ''workflow_version'' \<noteq> JInt (aq_workflow_version q) \<or>
                      obj_get request ''candidate_hash'' \<noteq> JStr (aq_candidate_hash q)))
          (stale_evidence request (aq_evidence_hashes q)))
       (err ''approval_stale'')) (\<lambda>_.
     raise_if (expired (parse_time (obj_get decision ''expires_at'')) now)
       (err ''approval_expired'')))))))))))))"

section \<open>approval_is_authorized\<close>

record approval_context =
  ac_binding :: "obj option"
  ac_grant :: "obj option"
  ac_decision :: "obj option"
  ac_checkpoint_id :: "string option"
  ac_workflow_version :: "int option"
  ac_candidate_hash :: "string option"
  ac_tenant_id :: "string option"
  ac_approver_id :: "string option"
  ac_approver_role :: "string option"

definition evidence_set :: "obj \<Rightarrow> exn + json set" where
  "evidence_set p =
     bind_res (py_set (obj_get_or p ''evidence_hashes'' (JList []))) (\<lambda>xs. Inr (set xs))"

text \<open>The legacy conditions, in order; \<open>True\<close> means that none of them refuses.\<close>

definition legacy_approval_ok ::
  "obj \<Rightarrow> obj \<Rightarrow> string \<Rightarrow> string list \<Rightarrow> instant \<Rightarrow> exn + bool" where
  "legacy_approval_ok request decision revision evidence now =
     (if obj_get decision ''decision'' \<noteq> JStr ''approved'' \<or>
         obj_get request ''tenant_id'' \<noteq> obj_get decision ''tenant_id'' \<or>
         obj_get request ''approval_request_id'' \<noteq> obj_get decision ''approval_request_id'' \<or>
         obj_get request ''case_id'' \<noteq> obj_get decision ''case_id'' \<or>
         obj_get request ''case_revision_id'' \<noteq> obj_get decision ''case_revision_id'' \<or>
         obj_get request ''case_revision_id'' \<noteq> JStr revision \<or>
         obj_get request ''candidate_hash'' \<noteq> obj_get decision ''candidate_hash''
      then Inr False
      else bind_res (evidence_set request) (\<lambda>re.
           bind_res (evidence_set decision) (\<lambda>de.
             if re \<noteq> de \<or> re \<noteq> set (map JStr evidence) then Inr False
             else bind_res (expired (parse_time (obj_get decision ''expires_at'')) now)
                    (\<lambda>x. Inr (\<not> x)))))"

definition change4_approval_ok ::
  "validators \<Rightarrow> obj \<Rightarrow> obj \<Rightarrow> string \<Rightarrow> string list \<Rightarrow> approval_context \<Rightarrow> instant \<Rightarrow> exn + bool"
where
  "change4_approval_ok V request decision revision evidence c now =
     (if ac_binding c = None \<and> ac_grant c = None \<and> ac_decision c = None then Inr True
      else case (ac_binding c, ac_grant c, ac_decision c, ac_checkpoint_id c, ac_workflow_version c,
                 ac_candidate_hash c, ac_tenant_id c, ac_approver_id c, ac_approver_role c) of
        (Some b, Some g, Some d, Some ck, Some wv, Some ch, Some t, Some a, Some r) \<Rightarrow>
          catch_res is_contract_error (\<lambda>_. Inr False)
            (bind_res (validate_change4_authorization_profile V b g d
               \<lparr>pq_action = ''outbound_delivery.execute'', pq_case_revision_id = revision,
                pq_checkpoint_id = ck, pq_workflow_version = wv, pq_candidate_hash = ch,
                pq_evidence_hashes = evidence,
                pq_resource_id = py_str (obj_get_or b ''delivery_resource_id'' (JStr [])),
                pq_data_classification = py_str (obj_get_or b ''data_classification'' (JStr [])),
                pq_tenant_id = Some t, pq_subject_id = None, pq_role = None,
                pq_require_allow = True\<rparr> now) (\<lambda>_.
             bind_res (validate_hash_bound_approval V request decision b
               \<lparr>aq_case_revision_id = revision, aq_checkpoint_id = ck, aq_workflow_version = wv,
                aq_candidate_hash = ch, aq_evidence_hashes = evidence, aq_tenant_id = t,
                aq_approver_id = a, aq_approver_role = r\<rparr> now) (\<lambda>_. Inr True)))
      | _ \<Rightarrow> Inr False)"

definition approval_is_authorized ::
  "validators \<Rightarrow> obj \<Rightarrow> obj \<Rightarrow> string \<Rightarrow> string list \<Rightarrow> approval_context \<Rightarrow> instant \<Rightarrow> exn + bool"
where
  "approval_is_authorized V request decision revision evidence c now =
     bind_res (validate_payload V request) (\<lambda>_.
     bind_res (validate_payload V decision) (\<lambda>_.
     bind_res (legacy_approval_ok request decision revision evidence now) (\<lambda>ok.
       if ok then change4_approval_ok V request decision revision evidence c now
       else Inr False)))"

section \<open>The outbound delivery chain\<close>

definition delivery_link_fields :: "string list" where
  "delivery_link_fields =
     [''tenant_id'', ''case_id'', ''case_revision_id'', ''workflow_id'', ''checkpoint_id'']"

definition delivery_observation_step ::
  "validators \<Rightarrow> obj \<Rightarrow> string list \<Rightarrow> obj \<Rightarrow> exn + string list" where
  "delivery_observation_step V intent seen ob =
     (let name = ''outbound-delivery-observation'' in
     bind_res (validate_outbound_delivery_observation V ob) (\<lambda>_.
     bind_res (obj_item ob ''observation_id'') (\<lambda>oid.
     bind_res (require (py_str oid \<notin> set seen)
       (ContractValidationError name ''duplicate_observation'')) (\<lambda>_.
     bind_res (same_fields intent ob delivery_link_fields name) (\<lambda>_.
     bind_res (require (obj_get ob ''intent_id'' = obj_get intent ''intent_id'')
       (ContractValidationError name ''intent_reference_mismatch'')) (\<lambda>_.
     Inr (py_str oid # seen)))))))"

definition delivery_completion_check ::
  "validators \<Rightarrow> obj \<Rightarrow> obj list \<Rightarrow> obj \<Rightarrow> exn + unit" where
  "delivery_completion_check V intent observations c =
     (let name = ''outbound-delivery-completion'' in
     bind_res (validate_outbound_delivery_completion V c) (\<lambda>_.
     bind_res (same_fields intent c delivery_link_fields name) (\<lambda>_.
     bind_res (require (obj_get c ''intent_id'' = obj_get intent ''intent_id'')
       (ContractValidationError name ''intent_reference_mismatch'')) (\<lambda>_.
       case find (\<lambda>ob. obj_get ob ''observation_id'' = obj_get c ''observation_id'' \<and>
                       obj_get ob ''status'' = JStr ''present'') observations of
         None \<Rightarrow> Inl (ContractValidationError name ''completion_observation_missing'')
       | Some ob \<Rightarrow>
           require (obj_get ob ''observed_delivery_id'' = obj_get c ''observed_delivery_id'' \<and>
                    obj_get ob ''observed_version'' = obj_get c ''observed_version'' \<and>
                    obj_get ob ''content_sha256'' = obj_get c ''content_sha256'')
             (ContractValidationError name ''completion_observation_mismatch'')))))"

definition validate_outbound_delivery_chain ::
  "validators \<Rightarrow> obj \<Rightarrow> obj list \<Rightarrow> obj list \<Rightarrow> obj \<Rightarrow> exn + unit" where
  "validate_outbound_delivery_chain V intent observations completions binding =
     (let mismatch = ContractValidationError ''outbound-delivery-intent'' ''binding_mismatch'' in
     bind_res (validate_outbound_delivery_intent V intent) (\<lambda>_.
     bind_res (validate_authorization_binding V binding) (\<lambda>_.
     bind_res (require (obj_get intent ''authorization_binding_sha256'' =
         obj_get binding ''authorization_binding_sha256'') mismatch) (\<lambda>_.
     bind_res (py_iter (obj_get_or intent ''evidence_hashes'' (JList []))) (\<lambda>ie.
     bind_res (py_iter (obj_get_or binding ''evidence_hashes'' (JList []))) (\<lambda>be.
     bind_res (require (ie = be) mismatch) (\<lambda>_.
     bind_res (require (obj_get intent ''candidate_hash'' = obj_get binding ''candidate_hash'')
       mismatch) (\<lambda>_.
     bind_res (require (length completions \<le> 1)
       (ContractValidationError ''outbound-delivery-completion'' ''multiple_completions'')) (\<lambda>_.
     bind_res (fold_res (delivery_observation_step V intent) [] observations) (\<lambda>_.
     each_res (delivery_completion_check V intent observations) completions))))))))))"

end
