(* ===== verification/AgentContracts.thy ===== *)
theory AgentContracts
  imports Authorization
begin

text \<open>
  \<open>weflow_contracts/agent.py\<close> and \<open>weflow_contracts/evidence.py\<close>: the contracts of the bounded
  investigation (context manifest, agent actions, tool exchanges, response candidate, verifier
  outcome) and of the content-addressed evidence trajectory, report and replay result.
\<close>

section \<open>agent.py\<close>

abbreviation CONTEXT_MANIFEST_SCHEMA_ID :: string where
  "CONTEXT_MANIFEST_SCHEMA_ID \<equiv>
     ''https://weflow.local/contracts/v1/context-manifest.schema.json''"
abbreviation AGENT_ACTION_SCHEMA_ID :: string where
  "AGENT_ACTION_SCHEMA_ID \<equiv> ''https://weflow.local/contracts/v1/agent-action.schema.json''"
abbreviation TOOL_REQUEST_SCHEMA_ID :: string where
  "TOOL_REQUEST_SCHEMA_ID \<equiv> ''https://weflow.local/contracts/v1/tool-request.schema.json''"
abbreviation TOOL_RESULT_SCHEMA_ID :: string where
  "TOOL_RESULT_SCHEMA_ID \<equiv> ''https://weflow.local/contracts/v1/tool-result.schema.json''"
abbreviation RESPONSE_CANDIDATE_SCHEMA_ID :: string where
  "RESPONSE_CANDIDATE_SCHEMA_ID \<equiv>
     ''https://weflow.local/contracts/v1/response-candidate.schema.json''"
abbreviation VERIFIER_OUTCOME_SCHEMA_ID :: string where
  "VERIFIER_OUTCOME_SCHEMA_ID \<equiv>
     ''https://weflow.local/contracts/v1/verifier-outcome.schema.json''"

definition identity_fields :: "string list" where
  "identity_fields =
     [''tenant_id'', ''case_id'', ''case_revision_id'', ''workflow_id'', ''checkpoint_id'',
      ''context_manifest_id'']"

definition require_link :: "obj \<Rightarrow> obj \<Rightarrow> string \<Rightarrow> string list \<Rightarrow> exn + unit" where
  "require_link payload reference name fs =
     each_res (\<lambda>f. require (obj_get payload f = obj_get reference f)
       (ContractValidationError name
         (if f = ''tenant_id'' then ''tenant_identity_mismatch'' else ''causation_mismatch''))) fs"

definition validate_context_manifest :: "validators \<Rightarrow> obj \<Rightarrow> exn + unit" where
  "validate_context_manifest V p =
     require_schema V p CONTEXT_MANIFEST_SCHEMA_ID ''context-manifest''"

text \<open>The common part of the validators that take an optional \<open>context_manifest\<close>.\<close>

definition linked_to_manifest :: "validators \<Rightarrow> obj \<Rightarrow> obj option \<Rightarrow> string \<Rightarrow> exn + unit" where
  "linked_to_manifest V p manifest name =
     (case manifest of
        None \<Rightarrow> Inr ()
      | Some m \<Rightarrow> bind_res (validate_context_manifest V m)
                    (\<lambda>_. require_link p m name identity_fields))"

definition validate_agent_action :: "validators \<Rightarrow> obj \<Rightarrow> obj option \<Rightarrow> exn + unit" where
  "validate_agent_action V p manifest =
     bind_res (require_schema V p AGENT_ACTION_SCHEMA_ID ''agent-action'')
       (\<lambda>_. linked_to_manifest V p manifest ''agent-action'')"

definition validate_tool_request :: "validators \<Rightarrow> obj \<Rightarrow> obj option \<Rightarrow> exn + unit" where
  "validate_tool_request V p manifest =
     bind_res (require_schema V p TOOL_REQUEST_SCHEMA_ID ''tool-request'')
       (\<lambda>_. linked_to_manifest V p manifest ''tool-request'')"

definition validate_tool_result :: "validators \<Rightarrow> obj \<Rightarrow> obj option \<Rightarrow> exn + unit" where
  "validate_tool_result V p tool_request =
     bind_res (require_schema V p TOOL_RESULT_SCHEMA_ID ''tool-result'') (\<lambda>_.
       case tool_request of
         None \<Rightarrow> Inr ()
       | Some r \<Rightarrow>
           bind_res (validate_tool_request V r None) (\<lambda>_.
           bind_res (require_link p r ''tool-result'' identity_fields) (\<lambda>_.
           bind_res (require (obj_get p ''tool_request_id'' = obj_get r ''tool_request_id'')
             (ContractValidationError ''tool-result'' ''tool_request_mismatch'')) (\<lambda>_.
           require (obj_get p ''tool_name'' = obj_get r ''tool_name'')
             (ContractValidationError ''tool-result'' ''tool_name_mismatch'')))))"

definition validate_response_candidate ::
  "validators \<Rightarrow> obj \<Rightarrow> obj option \<Rightarrow> string list option \<Rightarrow> exn + unit" where
  "validate_response_candidate V p manifest evidence_hashes =
     bind_res (require_schema V p RESPONSE_CANDIDATE_SCHEMA_ID ''response-candidate'') (\<lambda>_.
     bind_res (linked_to_manifest V p manifest ''response-candidate'') (\<lambda>_.
     bind_res (case manifest of
         None \<Rightarrow> Inr ()
       | Some m \<Rightarrow> require (obj_get p ''context_sha256'' = obj_get m ''context_sha256'')
           (ContractValidationError ''response-candidate'' ''context_hash_mismatch'')) (\<lambda>_.
     case evidence_hashes of
       None \<Rightarrow> Inr ()
     | Some es \<Rightarrow>
         bind_res (bind_res (obj_item p ''evidence_hashes'') py_set) (\<lambda>hs.
           require (set hs \<subseteq> set (map JStr es))
             (ContractValidationError ''response-candidate'' ''evidence_reference_mismatch'')))))"

definition validate_verifier_outcome :: "validators \<Rightarrow> obj \<Rightarrow> obj option \<Rightarrow> exn + unit" where
  "validate_verifier_outcome V p candidate =
     bind_res (require_schema V p VERIFIER_OUTCOME_SCHEMA_ID ''verifier-outcome'') (\<lambda>_.
       case candidate of
         None \<Rightarrow> Inr ()
       | Some c \<Rightarrow>
           bind_res (validate_response_candidate V c None None) (\<lambda>_.
           bind_res (require_link p c ''verifier-outcome'' identity_fields) (\<lambda>_.
           each_res (\<lambda>f. require (obj_get p f = obj_get c f)
             (ContractValidationError ''verifier-outcome'' ''candidate_reference_mismatch''))
             [''candidate_id'', ''candidate_sha256''])))"

section \<open>evidence.py\<close>

abbreviation ARTIFACT_SCHEMA_ID :: string where
  "ARTIFACT_SCHEMA_ID \<equiv> ''https://weflow.local/contracts/v1/artifact.schema.json''"
abbreviation EVIDENCE_TRAJECTORY_SCHEMA_ID :: string where
  "EVIDENCE_TRAJECTORY_SCHEMA_ID \<equiv>
     ''https://weflow.local/contracts/v1/evidence-trajectory.schema.json''"
abbreviation EVIDENCE_REPORT_SCHEMA_ID :: string where
  "EVIDENCE_REPORT_SCHEMA_ID \<equiv>
     ''https://weflow.local/contracts/v1/evidence-report.schema.json''"
abbreviation TRAJECTORY_REPLAY_RESULT_SCHEMA_ID :: string where
  "TRAJECTORY_REPLAY_RESULT_SCHEMA_ID \<equiv>
     ''https://weflow.local/contracts/v1/trajectory-replay-result.schema.json''"

definition validate_artifact :: "validators \<Rightarrow> obj \<Rightarrow> exn + unit" where
  "validate_artifact V p = require_schema V p ARTIFACT_SCHEMA_ID ''artifact''"

definition trajectory_error :: "string \<Rightarrow> exn" where
  "trajectory_error reason = ContractValidationError ''evidence-trajectory'' reason"

text \<open>\<open>[node.get(field) for node in nodes if isinstance(node, Mapping)]\<close>\<close>

fun node_values :: "string \<Rightarrow> json list \<Rightarrow> json list" where
  "node_values f [] = []"
| "node_values f (JObj n # ns) = obj_get n f # node_values f ns"
| "node_values f (_ # ns) = node_values f ns"

definition unique_values :: "json list \<Rightarrow> nat \<Rightarrow> string \<Rightarrow> exn + unit" where
  "unique_values vs n reason =
     (if length vs \<noteq> n then Inl (trajectory_error reason)
      else if \<not> list_all hashable vs then Inl (TypeError ''unhashable type'')
      else require (distinct vs) (trajectory_error reason))"

text \<open>The loop over the enumerated nodes: \<open>prev\<close> is the node id before this one.\<close>

fun check_node_order :: "int \<Rightarrow> json \<Rightarrow> json list \<Rightarrow> exn + unit" where
  "check_node_order i prev [] = Inr ()"
| "check_node_order i prev (node # ns) =
     (case node of
        JObj n \<Rightarrow>
          bind_res (require (obj_get n ''sequence'' = JInt i)
            (trajectory_error ''node_order_invalid'')) (\<lambda>_.
          bind_res (require (obj_get n ''predecessor_node_id'' = prev)
            (trajectory_error ''causal_predecessor_invalid'')) (\<lambda>_.
          check_node_order (i + 1) (obj_get n ''node_id'') ns))
      | _ \<Rightarrow> Inl (trajectory_error ''node_order_invalid''))"

definition validate_evidence_trajectory :: "validators \<Rightarrow> obj \<Rightarrow> exn + unit" where
  "validate_evidence_trajectory V p =
     bind_res (require_schema V p EVIDENCE_TRAJECTORY_SCHEMA_ID ''evidence-trajectory'') (\<lambda>_.
     bind_res (require (obj_get p ''root_sha256'' = JStr (content_hash p ''root_sha256''))
       (trajectory_error ''root_sha256_mismatch'')) (\<lambda>_.
       case obj_get p ''nodes'' of
         JList nodes \<Rightarrow>
           bind_res (unique_values (node_values ''node_id'' nodes) (length nodes)
             ''duplicate_node_identity'') (\<lambda>_.
           bind_res (unique_values (node_values ''source_id'' nodes) (length nodes)
             ''duplicate_source_identity'') (\<lambda>_.
           check_node_order 1 JNull nodes))
       | _ \<Rightarrow> Inl (trajectory_error ''nodes_invalid'')))"

definition py_len :: "json \<Rightarrow> exn + int" where
  "py_len v = (case v of
     JList xs \<Rightarrow> Inr (int (length xs)) | JStr s \<Rightarrow> Inr (int (length s))
   | JObj kvs \<Rightarrow> Inr (int (length kvs)) | _ \<Rightarrow> Inl (TypeError ''object has no len()''))"

definition validate_evidence_report :: "validators \<Rightarrow> obj \<Rightarrow> obj option \<Rightarrow> exn + unit" where
  "validate_evidence_report V p trajectory =
     (let err = ContractValidationError ''evidence-report'' in
     bind_res (require_schema V p EVIDENCE_REPORT_SCHEMA_ID ''evidence-report'') (\<lambda>_.
     bind_res (require (obj_get p ''content_sha256'' = JStr (content_hash p ''content_sha256''))
       (err ''content_sha256_mismatch'')) (\<lambda>_.
       case trajectory of
         None \<Rightarrow> Inr ()
       | Some t \<Rightarrow>
           bind_res (validate_evidence_trajectory V t) (\<lambda>_.
           bind_res (require_link p t ''evidence-report'' [''tenant_id'', ''trajectory_id'']) (\<lambda>_.
           bind_res (require (obj_get p ''trajectory_root_sha256'' = obj_get t ''root_sha256'')
             (err ''trajectory_root_mismatch'')) (\<lambda>_.
           bind_res (py_len (obj_get_or t ''nodes'' (JList []))) (\<lambda>n.
           require (obj_get p ''node_count'' = JInt n) (err ''node_count_mismatch'')))))))) "

definition validate_trajectory_replay_result ::
  "validators \<Rightarrow> obj \<Rightarrow> obj option \<Rightarrow> obj option \<Rightarrow> exn + unit" where
  "validate_trajectory_replay_result V p trajectory report =
     (let name = ''trajectory-replay-result''; err = ContractValidationError name;
          verified = (obj_get p ''verification_outcome'' = JStr ''verified'') in
     bind_res (require_schema V p TRAJECTORY_REPLAY_RESULT_SCHEMA_ID name) (\<lambda>_.
     bind_res (require (obj_get p ''result_sha256'' = JStr (content_hash p ''result_sha256''))
       (err ''result_sha256_mismatch'')) (\<lambda>_.
     bind_res (case trajectory of
         None \<Rightarrow> Inr ()
       | Some t \<Rightarrow>
           bind_res (validate_evidence_trajectory V t) (\<lambda>_.
           bind_res (require_link p t name [''tenant_id'', ''trajectory_id'']) (\<lambda>_.
           require (obj_get p ''recorded_root_sha256'' = obj_get t ''root_sha256'')
             (err ''recorded_root_mismatch'')))) (\<lambda>_.
     bind_res (case report of
         None \<Rightarrow> Inr ()
       | Some r \<Rightarrow>
           bind_res (validate_evidence_report V r trajectory) (\<lambda>_.
           bind_res (require_link p r name [''tenant_id'', ''report_id'']) (\<lambda>_.
           require (obj_get p ''report_sha256'' = obj_get r ''content_sha256'')
             (err ''report_hash_mismatch'')))) (\<lambda>_.
     bind_res (require (\<not> (verified \<and>
         (obj_get p ''recorded_root_sha256'' \<noteq> obj_get p ''replayed_root_sha256'' \<or>
          obj_get p ''failure_code'' \<noteq> JNull)))
       (err ''replay_root_mismatch'')) (\<lambda>_.
     require (verified \<or> obj_get p ''failure_code'' = JStr ''lineage_invalid'')
       (err ''failure_code_invalid'')))))))"

definition validate_evidence_chain ::
  "validators \<Rightarrow> obj \<Rightarrow> obj \<Rightarrow> obj \<Rightarrow> obj \<Rightarrow> exn + unit" where
  "validate_evidence_chain V artifact trajectory report replay_result =
     bind_res (validate_artifact V artifact) (\<lambda>_.
     bind_res (validate_evidence_trajectory V trajectory) (\<lambda>_.
     bind_res (validate_evidence_report V report (Some trajectory)) (\<lambda>_.
     bind_res (validate_trajectory_replay_result V replay_result (Some trajectory) (Some report)) (\<lambda>_.
     bind_res (require_link artifact trajectory ''artifact-trajectory''
       [''tenant_id'', ''case_id'', ''case_revision_id'', ''workflow_id'', ''trajectory_id'',
        ''report_profile_id'']) (\<lambda>_.
     bind_res (require_link artifact report ''evidence-report''
       [''tenant_id'', ''artifact_id'', ''trajectory_id'', ''report_profile_id'']) (\<lambda>_.
     require (obj_get artifact ''content_sha256'' = obj_get report ''content_sha256'')
       (ContractValidationError ''artifact'' ''report_hash_mismatch'')))))))"

end
