(* ===== verification/WorkflowState.thy ===== *)
theory WorkflowState
  imports Prelude
begin

text \<open>
  \<open>workflow_state.py\<close>: the allowlisted states and transition facts of the durable support
  workflow, \<open>allowed_targets\<close> and \<open>validate_transition\<close>.  States and transition kinds are
  strings, as in the store and in the code, so that an unknown one is a value the functions must
  reject.  The second half is the discipline with which \<open>durable_workflow.py\<close> uses these
  transitions: which next and resume state accompany each transition kind at the call sites of
  \<open>_transition\<close>.
\<close>

section \<open>States and transition kinds\<close>

abbreviation WORKFLOW_DEFINITION_VERSION :: string where
  "WORKFLOW_DEFINITION_VERSION \<equiv> ''durable-support-workflow.v1''"

abbreviation RECEIVED :: string where "RECEIVED \<equiv> ''RECEIVED''"
abbreviation TICKET_READY :: string where "TICKET_READY \<equiv> ''TICKET_READY''"
abbreviation INVESTIGATING :: string where "INVESTIGATING \<equiv> ''INVESTIGATING''"
abbreviation RESPONSE_READY :: string where "RESPONSE_READY \<equiv> ''RESPONSE_READY''"
abbreviation AWAITING_APPROVAL :: string where "AWAITING_APPROVAL \<equiv> ''AWAITING_APPROVAL''"
abbreviation DELIVERING :: string where "DELIVERING \<equiv> ''DELIVERING''"
abbreviation DELIVERY_RECORDED :: string where "DELIVERY_RECORDED \<equiv> ''DELIVERY_RECORDED''"
abbreviation PAUSED :: string where "PAUSED \<equiv> ''PAUSED''"
abbreviation WAITING_FOR_OPERATOR :: string where
  "WAITING_FOR_OPERATOR \<equiv> ''WAITING_FOR_OPERATOR''"
abbreviation NEEDS_RECONCILIATION :: string where
  "NEEDS_RECONCILIATION \<equiv> ''NEEDS_RECONCILIATION''"
abbreviation CANCELLED :: string where "CANCELLED \<equiv> ''CANCELLED''"

definition WORKFLOW_STATES :: "string set" where
  "WORKFLOW_STATES =
     {RECEIVED, TICKET_READY, INVESTIGATING, RESPONSE_READY, AWAITING_APPROVAL, DELIVERING,
      DELIVERY_RECORDED, PAUSED, WAITING_FOR_OPERATOR, NEEDS_RECONCILIATION, CANCELLED}"

definition TERMINAL_STATES :: "string set" where
  "TERMINAL_STATES = {RESPONSE_READY, DELIVERY_RECORDED, CANCELLED}"

abbreviation TICKET_HANDOFF_COMPLETE :: string where
  "TICKET_HANDOFF_COMPLETE \<equiv> ''ticket-handoff-complete''"
abbreviation INVESTIGATION_STARTED :: string where
  "INVESTIGATION_STARTED \<equiv> ''investigation-started''"
abbreviation RESPONSE_CANDIDATE_VERIFIED :: string where
  "RESPONSE_CANDIDATE_VERIFIED \<equiv> ''response-candidate-verified''"
abbreviation POLICY_APPROVAL_ACTIVATED :: string where
  "POLICY_APPROVAL_ACTIVATED \<equiv> ''policy-approval-activated''"
abbreviation APPROVAL_GRANTED :: string where "APPROVAL_GRANTED \<equiv> ''approval-granted''"
abbreviation AUTHORIZATION_DENIED :: string where
  "AUTHORIZATION_DENIED \<equiv> ''authorization-denied''"
abbreviation DELIVERY_COMPLETE :: string where "DELIVERY_COMPLETE \<equiv> ''delivery-complete''"
abbreviation PAUSE :: string where "PAUSE \<equiv> ''pause''"
abbreviation RESUME :: string where "RESUME \<equiv> ''resume''"
abbreviation CANCEL :: string where "CANCEL \<equiv> ''cancel''"
abbreviation SLA_EXPIRED :: string where "SLA_EXPIRED \<equiv> ''sla-expired''"
abbreviation RECONCILIATION_REQUIRED :: string where
  "RECONCILIATION_REQUIRED \<equiv> ''reconciliation-required''"
abbreviation RECONCILIATION_COMPLETE :: string where
  "RECONCILIATION_COMPLETE \<equiv> ''reconciliation-complete''"

definition WORKFLOW_TRANSITION_KINDS :: "string set" where
  "WORKFLOW_TRANSITION_KINDS =
     {TICKET_HANDOFF_COMPLETE, INVESTIGATION_STARTED, RESPONSE_CANDIDATE_VERIFIED,
      POLICY_APPROVAL_ACTIVATED, APPROVAL_GRANTED, AUTHORIZATION_DENIED, DELIVERY_COMPLETE,
      PAUSE, RESUME, CANCEL, SLA_EXPIRED, RECONCILIATION_REQUIRED, RECONCILIATION_COMPLETE}"

definition is_terminal :: "string \<Rightarrow> bool" where
  "is_terminal state \<longleftrightarrow> state \<in> TERMINAL_STATES"

definition run_status :: "string \<Rightarrow> string" where
  "run_status state =
     (if state = PAUSED then ''paused''
      else if state = NEEDS_RECONCILIATION then ''blocked''
      else if state = CANCELLED then ''cancelled''
      else ''active'')"

section \<open>The transition table\<close>

definition allowed_targets :: "string \<Rightarrow> string \<Rightarrow> string option \<Rightarrow> bool \<Rightarrow> string set" where
  "allowed_targets current kind resume unresolved =
     (if current \<notin> WORKFLOW_STATES \<or> kind \<notin> WORKFLOW_TRANSITION_KINDS then {}
      else if kind = TICKET_HANDOFF_COMPLETE then
        (if current = RECEIVED then {TICKET_READY} else {})
      else if kind = INVESTIGATION_STARTED then
        (if current = TICKET_READY then {INVESTIGATING} else {})
      else if kind = RESPONSE_CANDIDATE_VERIFIED then
        (if current = INVESTIGATING then {RESPONSE_READY} else {})
      else if kind = POLICY_APPROVAL_ACTIVATED then
        (if current = RESPONSE_READY then {AWAITING_APPROVAL} else {})
      else if kind = APPROVAL_GRANTED then
        (if current = AWAITING_APPROVAL then {DELIVERING} else {})
      else if kind = AUTHORIZATION_DENIED then
        (if current \<in> {AWAITING_APPROVAL, DELIVERING} then {WAITING_FOR_OPERATOR} else {})
      else if kind = DELIVERY_COMPLETE then
        (if current = DELIVERING then {DELIVERY_RECORDED} else {})
      else if kind = PAUSE then
        (if current \<in> {RECEIVED, TICKET_READY, INVESTIGATING, RESPONSE_READY,
                         AWAITING_APPROVAL, DELIVERING, WAITING_FOR_OPERATOR}
         then {PAUSED} else {})
      else if kind = RESUME then
        (case resume of
           None \<Rightarrow> {}
         | Some r \<Rightarrow>
             if current \<noteq> PAUSED \<or> r \<notin> WORKFLOW_STATES - {PAUSED, DELIVERY_RECORDED, CANCELLED}
             then {} else {r})
      else if kind = CANCEL then
        (if unresolved \<or> current \<in> {CANCELLED, NEEDS_RECONCILIATION} then {} else {CANCELLED})
      else if kind = SLA_EXPIRED then
        (if current \<notin> TERMINAL_STATES \<union> {NEEDS_RECONCILIATION} then {WAITING_FOR_OPERATOR}
         else {})
      else if kind = RECONCILIATION_REQUIRED then
        (if current \<notin> TERMINAL_STATES then {NEEDS_RECONCILIATION} else {})
      else if kind = RECONCILIATION_COMPLETE then
        (case resume of
           None \<Rightarrow> {}
         | Some r \<Rightarrow>
             if current \<noteq> NEEDS_RECONCILIATION \<or>
                r \<notin> WORKFLOW_STATES - {PAUSED, NEEDS_RECONCILIATION, DELIVERY_RECORDED, CANCELLED}
             then {} else {r})
      else {})"

definition validate_transition ::
  "string \<Rightarrow> string \<Rightarrow> string \<Rightarrow> string option \<Rightarrow> bool \<Rightarrow> exn + unit" where
  "validate_transition current kind next_state resume unresolved =
     (if current \<notin> WORKFLOW_STATES \<or> next_state \<notin> WORKFLOW_STATES
      then Inl (WorkflowTransitionError ''workflow_state_not_allowlisted'')
      else if next_state \<notin> allowed_targets current kind resume unresolved
      then Inl (WorkflowTransitionError ''workflow_transition_not_allowed'')
      else Inr ())"

definition assert_known_states :: "string list \<Rightarrow> exn + unit" where
  "assert_known_states states =
     (if \<exists>s\<in>set states. s \<notin> WORKFLOW_STATES
      then Inl (WorkflowTransitionError ''workflow_state_not_allowlisted'') else Inr ())"

lemma known_states [simp]:
  "RECEIVED \<in> WORKFLOW_STATES" "TICKET_READY \<in> WORKFLOW_STATES"
  "INVESTIGATING \<in> WORKFLOW_STATES" "RESPONSE_READY \<in> WORKFLOW_STATES"
  "AWAITING_APPROVAL \<in> WORKFLOW_STATES" "DELIVERING \<in> WORKFLOW_STATES"
  "DELIVERY_RECORDED \<in> WORKFLOW_STATES" "PAUSED \<in> WORKFLOW_STATES"
  "WAITING_FOR_OPERATOR \<in> WORKFLOW_STATES" "NEEDS_RECONCILIATION \<in> WORKFLOW_STATES"
  "CANCELLED \<in> WORKFLOW_STATES"
  by (simp_all add: WORKFLOW_STATES_def)

lemma known_kinds [simp]:
  "TICKET_HANDOFF_COMPLETE \<in> WORKFLOW_TRANSITION_KINDS"
  "INVESTIGATION_STARTED \<in> WORKFLOW_TRANSITION_KINDS"
  "RESPONSE_CANDIDATE_VERIFIED \<in> WORKFLOW_TRANSITION_KINDS"
  "POLICY_APPROVAL_ACTIVATED \<in> WORKFLOW_TRANSITION_KINDS"
  "APPROVAL_GRANTED \<in> WORKFLOW_TRANSITION_KINDS"
  "AUTHORIZATION_DENIED \<in> WORKFLOW_TRANSITION_KINDS"
  "DELIVERY_COMPLETE \<in> WORKFLOW_TRANSITION_KINDS"
  "PAUSE \<in> WORKFLOW_TRANSITION_KINDS" "RESUME \<in> WORKFLOW_TRANSITION_KINDS"
  "CANCEL \<in> WORKFLOW_TRANSITION_KINDS" "SLA_EXPIRED \<in> WORKFLOW_TRANSITION_KINDS"
  "RECONCILIATION_REQUIRED \<in> WORKFLOW_TRANSITION_KINDS"
  "RECONCILIATION_COMPLETE \<in> WORKFLOW_TRANSITION_KINDS"
  by (simp_all add: WORKFLOW_TRANSITION_KINDS_def)

lemma terminal_states [simp]:
  "RESPONSE_READY \<in> TERMINAL_STATES" "DELIVERY_RECORDED \<in> TERMINAL_STATES"
  "CANCELLED \<in> TERMINAL_STATES" "RECEIVED \<notin> TERMINAL_STATES"
  "TICKET_READY \<notin> TERMINAL_STATES" "INVESTIGATING \<notin> TERMINAL_STATES"
  "AWAITING_APPROVAL \<notin> TERMINAL_STATES" "DELIVERING \<notin> TERMINAL_STATES"
  "PAUSED \<notin> TERMINAL_STATES" "WAITING_FOR_OPERATOR \<notin> TERMINAL_STATES"
  "NEEDS_RECONCILIATION \<notin> TERMINAL_STATES"
  by (simp_all add: TERMINAL_STATES_def)

lemma validate_transition_ok [simp]:
  "validate_transition c k n r u = Inr v \<longleftrightarrow>
     c \<in> WORKFLOW_STATES \<and> n \<in> WORKFLOW_STATES \<and> n \<in> allowed_targets c k r u"
  unfolding validate_transition_def by (cases "c \<in> WORKFLOW_STATES") (auto split: if_split)

lemma validate_transition_error:
  "validate_transition c k n r u = Inl e \<Longrightarrow> \<exists>reason. e = WorkflowTransitionError reason"
  by (auto simp: validate_transition_def split: if_splits)

text \<open>The table, one equation per transition kind.\<close>

lemma allowed_targets_kinds [simp]:
  "allowed_targets c TICKET_HANDOFF_COMPLETE r u = (if c = RECEIVED then {TICKET_READY} else {})"
  "allowed_targets c INVESTIGATION_STARTED r u =
     (if c = TICKET_READY then {INVESTIGATING} else {})"
  "allowed_targets c RESPONSE_CANDIDATE_VERIFIED r u =
     (if c = INVESTIGATING then {RESPONSE_READY} else {})"
  "allowed_targets c POLICY_APPROVAL_ACTIVATED r u =
     (if c = RESPONSE_READY then {AWAITING_APPROVAL} else {})"
  "allowed_targets c APPROVAL_GRANTED r u = (if c = AWAITING_APPROVAL then {DELIVERING} else {})"
  "allowed_targets c DELIVERY_COMPLETE r u = (if c = DELIVERING then {DELIVERY_RECORDED} else {})"
  "allowed_targets c AUTHORIZATION_DENIED r u =
     (if c = AWAITING_APPROVAL \<or> c = DELIVERING then {WAITING_FOR_OPERATOR} else {})"
  "allowed_targets c CANCEL r u =
     (if c \<in> WORKFLOW_STATES - {CANCELLED, NEEDS_RECONCILIATION} \<and> \<not> u then {CANCELLED} else {})"
  "allowed_targets c SLA_EXPIRED r u =
     (if c \<in> WORKFLOW_STATES - TERMINAL_STATES - {NEEDS_RECONCILIATION}
      then {WAITING_FOR_OPERATOR} else {})"
  "allowed_targets c RECONCILIATION_REQUIRED r u =
     (if c \<in> WORKFLOW_STATES - TERMINAL_STATES then {NEEDS_RECONCILIATION} else {})"
  "allowed_targets c PAUSE r u =
     (if c \<in> {RECEIVED, TICKET_READY, INVESTIGATING, RESPONSE_READY, AWAITING_APPROVAL,
                DELIVERING, WAITING_FOR_OPERATOR} then {PAUSED} else {})"
  by (auto simp: allowed_targets_def)

lemma allowed_targets_resume [simp]:
  "allowed_targets c RESUME (Some s) u =
     (if c = PAUSED \<and> s \<in> WORKFLOW_STATES - {PAUSED, DELIVERY_RECORDED, CANCELLED}
      then {s} else {})"
  "allowed_targets c RESUME None u = {}"
  by (auto simp: allowed_targets_def)

lemma allowed_targets_reconciled [simp]:
  "allowed_targets c RECONCILIATION_COMPLETE (Some s) u =
     (if c = NEEDS_RECONCILIATION \<and>
         s \<in> WORKFLOW_STATES - {PAUSED, NEEDS_RECONCILIATION, DELIVERY_RECORDED, CANCELLED}
      then {s} else {})"
  "allowed_targets c RECONCILIATION_COMPLETE None u = {}"
  by (auto simp: allowed_targets_def)

lemma allowed_targets_unknown:
  "k \<notin> WORKFLOW_TRANSITION_KINDS \<Longrightarrow> allowed_targets c k r u = {}"
  by (simp add: allowed_targets_def)

lemma kind_cases:
  assumes "n \<in> allowed_targets c k r u"
  obtains (handoff) "k = TICKET_HANDOFF_COMPLETE" | (started) "k = INVESTIGATION_STARTED"
    | (verified) "k = RESPONSE_CANDIDATE_VERIFIED" | (policy) "k = POLICY_APPROVAL_ACTIVATED"
    | (granted) "k = APPROVAL_GRANTED" | (denied) "k = AUTHORIZATION_DENIED"
    | (delivered) "k = DELIVERY_COMPLETE" | (pause) "k = PAUSE" | (resume) "k = RESUME"
    | (cancel) "k = CANCEL" | (sla) "k = SLA_EXPIRED" | (blocked) "k = RECONCILIATION_REQUIRED"
    | (reconciled) "k = RECONCILIATION_COMPLETE"
proof -
  have "k \<in> WORKFLOW_TRANSITION_KINDS"
    using assms allowed_targets_unknown by fastforce
  then show thesis
    unfolding WORKFLOW_TRANSITION_KINDS_def insert_iff empty_iff using that by argo
qed

lemma allowed_target_known:
  assumes "n \<in> allowed_targets c k r u"
  shows "n \<in> WORKFLOW_STATES"
  using assms by (rule kind_cases; insert assms; cases r) (auto split: if_splits)

lemma cancelled_has_no_target [simp]: "allowed_targets CANCELLED k r u = {}"
proof (rule ccontr)
  assume "allowed_targets CANCELLED k r u \<noteq> {}"
  then obtain n where n: "n \<in> allowed_targets CANCELLED k r u" by blast
  then show False by (rule kind_cases; insert n; cases r) (auto split: if_splits)
qed

section \<open>How the workflow engine drives the table\<close>

text \<open>
  Every state-changing call of \<open>durable_workflow.py\<close> goes through \<open>_transition\<close> with a next
  state and a resume state that depend only on the kind and on the latest checkpoint
  (current state \<open>c\<close>, resume state \<open>r\<close>): \<open>pause\<close> and \<open>reconciliation-required\<close> save the
  current state, \<open>resume\<close> and \<open>reconciliation-complete\<close> return to the saved one, every other
  kind sets both to its only target.
\<close>

definition fact_target :: "string \<Rightarrow> string option" where
  "fact_target k =
     map_of [(TICKET_HANDOFF_COMPLETE, TICKET_READY), (INVESTIGATION_STARTED, INVESTIGATING),
       (RESPONSE_CANDIDATE_VERIFIED, RESPONSE_READY),
       (POLICY_APPROVAL_ACTIVATED, AWAITING_APPROVAL), (APPROVAL_GRANTED, DELIVERING),
       (AUTHORIZATION_DENIED, WAITING_FOR_OPERATOR), (DELIVERY_COMPLETE, DELIVERY_RECORDED),
       (CANCEL, CANCELLED), (SLA_EXPIRED, WAITING_FOR_OPERATOR)] k"

definition engine_move :: "string \<Rightarrow> string \<times> string \<Rightarrow> (string \<times> string) option" where
  "engine_move k cr =
     (case cr of (c, r) \<Rightarrow>
        if k = PAUSE then Some (PAUSED, c)
        else if k = RECONCILIATION_REQUIRED then
          (if c = NEEDS_RECONCILIATION then None else Some (NEEDS_RECONCILIATION, c))
        else if k = RESUME \<or> k = RECONCILIATION_COMPLETE then Some (r, r)
        else map_option (\<lambda>t. (t, t)) (fact_target k))"

inductive wf_step :: "string \<times> string \<Rightarrow> string \<Rightarrow> string \<times> string \<Rightarrow> bool" where
  step: "engine_move k (c, r) = Some (c', r') \<Longrightarrow>
         validate_transition c k c' (Some r') unresolved = Inr () \<Longrightarrow>
         wf_step (c, r) k (c', r')"

inductive_cases wf_stepE: "wf_step (c, r) k (c', r')"
inductive_simps wf_step_iff: "wf_step (c, r) k (c', r')"

text \<open>A run from activation: the transition kinds in order, and the state it ends in.\<close>

inductive wf_run :: "string list \<Rightarrow> string \<times> string \<Rightarrow> bool" where
  activated: "wf_run [] (RECEIVED, RECEIVED)"
| advance: "wf_run ks cr \<Longrightarrow> wf_step cr k cr' \<Longrightarrow> wf_run (ks @ [k]) cr'"


section \<open>The order of the business facts\<close>

definition progress_ladder :: "string list" where
  "progress_ladder =
     [TICKET_HANDOFF_COMPLETE, INVESTIGATION_STARTED, RESPONSE_CANDIDATE_VERIFIED,
      POLICY_APPROVAL_ACTIVATED, APPROVAL_GRANTED, DELIVERY_COMPLETE]"

definition ladder_states :: "string list" where
  "ladder_states =
     [RECEIVED, TICKET_READY, INVESTIGATING, RESPONSE_READY, AWAITING_APPROVAL, DELIVERING,
      DELIVERY_RECORDED]"

definition progress_facts :: "string list \<Rightarrow> string list" where
  "progress_facts ks = filter (\<lambda>k. k \<in> set progress_ladder) ks"

text \<open>The state a paused or blocked workflow will continue in.\<close>

definition continuation :: "string \<times> string \<Rightarrow> string" where
  "continuation cr =
     (case cr of (c, r) \<Rightarrow> if c = PAUSED \<or> c = NEEDS_RECONCILIATION then r else c)"

definition ladder_inv :: "nat \<Rightarrow> string \<times> string \<Rightarrow> bool" where
  "ladder_inv n cr \<longleftrightarrow> n < 7 \<and>
     (continuation cr \<in> set ladder_states \<longrightarrow> continuation cr = ladder_states ! n)"

lemma engine_move_kinds [simp]:
  "engine_move TICKET_HANDOFF_COMPLETE cr = Some (TICKET_READY, TICKET_READY)"
  "engine_move INVESTIGATION_STARTED cr = Some (INVESTIGATING, INVESTIGATING)"
  "engine_move RESPONSE_CANDIDATE_VERIFIED cr = Some (RESPONSE_READY, RESPONSE_READY)"
  "engine_move POLICY_APPROVAL_ACTIVATED cr = Some (AWAITING_APPROVAL, AWAITING_APPROVAL)"
  "engine_move APPROVAL_GRANTED cr = Some (DELIVERING, DELIVERING)"
  "engine_move AUTHORIZATION_DENIED cr = Some (WAITING_FOR_OPERATOR, WAITING_FOR_OPERATOR)"
  "engine_move DELIVERY_COMPLETE cr = Some (DELIVERY_RECORDED, DELIVERY_RECORDED)"
  "engine_move CANCEL cr = Some (CANCELLED, CANCELLED)"
  "engine_move SLA_EXPIRED cr = Some (WAITING_FOR_OPERATOR, WAITING_FOR_OPERATOR)"
  "engine_move PAUSE cr = Some (PAUSED, fst cr)"
  "engine_move RESUME cr = Some (snd cr, snd cr)"
  "engine_move RECONCILIATION_COMPLETE cr = Some (snd cr, snd cr)"
  "engine_move RECONCILIATION_REQUIRED cr =
     (if fst cr = NEEDS_RECONCILIATION then None else Some (NEEDS_RECONCILIATION, fst cr))"
  by (cases cr; simp add: engine_move_def fact_target_def)+

lemma ladder_kinds [simp]:
  "progress_ladder ! 0 = TICKET_HANDOFF_COMPLETE"
  "progress_ladder ! Suc 0 = INVESTIGATION_STARTED"
  "progress_ladder ! 2 = RESPONSE_CANDIDATE_VERIFIED"
  "progress_ladder ! 3 = POLICY_APPROVAL_ACTIVATED" "progress_ladder ! 4 = APPROVAL_GRANTED"
  "progress_ladder ! 5 = DELIVERY_COMPLETE"
  "ladder_states ! 0 = RECEIVED" "ladder_states ! Suc 0 = TICKET_READY"
  "ladder_states ! 2 = INVESTIGATING" "ladder_states ! Suc (Suc 0) = INVESTIGATING"
  "ladder_states ! 3 = RESPONSE_READY"
  "ladder_states ! 4 = AWAITING_APPROVAL" "ladder_states ! 5 = DELIVERING"
  "ladder_states ! 6 = DELIVERY_RECORDED"
  by (simp_all add: progress_ladder_def ladder_states_def)

lemma off_ladder_kinds [simp]:
  "PAUSE \<notin> set progress_ladder" "RESUME \<notin> set progress_ladder"
  "CANCEL \<notin> set progress_ladder" "SLA_EXPIRED \<notin> set progress_ladder"
  "AUTHORIZATION_DENIED \<notin> set progress_ladder"
  "RECONCILIATION_REQUIRED \<notin> set progress_ladder"
  "RECONCILIATION_COMPLETE \<notin> set progress_ladder"
  by (simp_all add: progress_ladder_def)

lemma ladder_member [simp]:
  "RECEIVED \<in> set ladder_states" "TICKET_READY \<in> set ladder_states"
  "INVESTIGATING \<in> set ladder_states" "RESPONSE_READY \<in> set ladder_states"
  "AWAITING_APPROVAL \<in> set ladder_states" "DELIVERING \<in> set ladder_states"
  "DELIVERY_RECORDED \<in> set ladder_states" "PAUSED \<notin> set ladder_states"
  "WAITING_FOR_OPERATOR \<notin> set ladder_states" "NEEDS_RECONCILIATION \<notin> set ladder_states"
  "CANCELLED \<notin> set ladder_states"
  by (simp_all add: ladder_states_def)

lemma ladder_sizes [simp]:
  "length progress_ladder = 6" "length ladder_states = 7" "distinct ladder_states"
  "distinct progress_ladder"
  by (simp_all add: progress_ladder_def ladder_states_def)

text \<open>The shapes an engine step can take.\<close>

lemma wf_step_cases:
  assumes "wf_step (c, r) k (c', r')"
  obtains (fact) i where "i < 6" "k = progress_ladder ! i" "c = ladder_states ! i"
      "c' = ladder_states ! Suc i" "r' = ladder_states ! Suc i"
    | (aside) "k \<notin> set progress_ladder" "c' = WAITING_FOR_OPERATOR \<or> c' = CANCELLED" "r' = c'"
    | (pause) "k = PAUSE" "c' = PAUSED" "r' = c" "c \<noteq> PAUSED" "c \<noteq> NEEDS_RECONCILIATION"
    | (block) "k = RECONCILIATION_REQUIRED" "c' = NEEDS_RECONCILIATION" "r' = c"
        "c \<noteq> NEEDS_RECONCILIATION" "c \<notin> TERMINAL_STATES"
    | (restore) "k \<notin> set progress_ladder" "c = PAUSED \<or> c = NEEDS_RECONCILIATION" "c' = r" "r' = r"
        "r \<noteq> PAUSED"
proof -
  from assms obtain u where move: "engine_move k (c, r) = Some (c', r')"
    and target: "c' \<in> allowed_targets c k (Some r') u"
    by (auto elim!: wf_stepE)
  from target show thesis
  proof (rule kind_cases)
    assume "k = TICKET_HANDOFF_COMPLETE"
    with move target fact [of 0] show thesis by (simp split: if_splits)
  next
    assume "k = INVESTIGATION_STARTED"
    with move target fact [of 1] show thesis by (simp add: numeral_2_eq_2 split: if_splits)
  next
    assume "k = RESPONSE_CANDIDATE_VERIFIED"
    with move target fact [of 2] show thesis by (simp split: if_splits)
  next
    assume "k = POLICY_APPROVAL_ACTIVATED"
    with move target fact [of 3] show thesis by (simp split: if_splits)
  next
    assume "k = APPROVAL_GRANTED"
    with move target fact [of 4] show thesis by (simp split: if_splits)
  next
    assume "k = DELIVERY_COMPLETE"
    with move target fact [of 5] show thesis by (simp split: if_splits)
  next
    assume "k = AUTHORIZATION_DENIED"
    with move show thesis by (intro aside) auto
  next
    assume "k = CANCEL"
    with move show thesis by (intro aside) auto
  next
    assume "k = SLA_EXPIRED"
    with move show thesis by (intro aside) auto
  next
    assume "k = PAUSE"
    with move target pause show thesis by (simp split: if_splits) blast
  next
    assume "k = RECONCILIATION_REQUIRED"
    with move target block show thesis by (simp split: if_splits)
  next
    assume "k = RESUME"
    with move target restore show thesis by (simp split: if_splits)
  next
    assume "k = RECONCILIATION_COMPLETE"
    with move target restore show thesis by (simp split: if_splits)
  qed
qed

text \<open>A business fact moves one rung up; every other move keeps the rung.\<close>

lemma step_ladder:
  assumes "wf_step (c, r) k (c', r')" and inv: "ladder_inv n (c, r)"
  shows "if k \<in> set progress_ladder
         then n < 6 \<and> progress_ladder ! n = k \<and> ladder_inv (Suc n) (c', r')
         else ladder_inv n (c', r')"
  using assms(1)
proof (cases rule: wf_step_cases)
  case (fact i)
  have off: "ladder_states ! j \<noteq> PAUSED \<and> ladder_states ! j \<noteq> NEEDS_RECONCILIATION"
    if "j < 7" for j
    using that nth_mem [of j ladder_states] ladder_member ladder_sizes(2) by metis
  with fact inv have "ladder_states ! i = ladder_states ! n" "n < 7"
    by (auto simp: ladder_inv_def continuation_def)
  with fact have "i = n" by (simp add: nth_eq_iff_index_eq)
  with fact off [of "Suc i"] show ?thesis
    by (auto simp: ladder_inv_def continuation_def)
qed (insert inv, auto simp: ladder_inv_def continuation_def split: if_splits)

lemma progress_facts_snoc:
  "progress_facts (ks @ [k]) =
     progress_facts ks @ (if k \<in> set progress_ladder then [k] else [])"
  by (simp add: progress_facts_def)

lemma run_ladder:
  "wf_run ks cr \<Longrightarrow> \<exists>n. progress_facts ks = take n progress_ladder \<and> ladder_inv n cr"
proof (induction rule: wf_run.induct)
  case activated
  show ?case
    by (rule exI [of _ 0]) (simp add: progress_facts_def ladder_inv_def continuation_def)
next
  case (advance ks cr k cr')
  then obtain n where n: "progress_facts ks = take n progress_ladder" "ladder_inv n cr" by blast
  obtain c r c' r' where "cr = (c, r)" "cr' = (c', r')" by (cases cr, cases cr')
  with advance.hyps n have step:
    "if k \<in> set progress_ladder
     then n < 6 \<and> progress_ladder ! n = k \<and> ladder_inv (Suc n) cr' else ladder_inv n cr'"
    using step_ladder by blast
  show ?case
  proof (cases "k \<in> set progress_ladder")
    case True
    with step n have "progress_facts (ks @ [k]) = take (Suc n) progress_ladder"
      by (simp add: progress_facts_snoc take_Suc_conv_app_nth)
    with True step show ?thesis by auto
  next
    case False
    with step n show ?thesis by (auto simp: progress_facts_snoc)
  qed
qed

text \<open>Building runs.\<close>

lemma wf_run_move:
  assumes "wf_run ks (c, r)" and "engine_move k (c, r) = Some (c', r')"
    and "validate_transition c k c' (Some r') u = Inr ()"
  shows "wf_run (ks @ [k]) (c', r')"
  using assms by (blast intro: wf_run.advance wf_step.step)

lemma wf_run_fact:
  assumes "wf_run ks (ladder_states ! i, ladder_states ! i)" and "i < 6"
  shows "wf_run (ks @ [progress_ladder ! i]) (ladder_states ! Suc i, ladder_states ! Suc i)"
proof -
  from \<open>i < 6\<close> have "i = 0 \<or> i = 1 \<or> i = 2 \<or> i = 3 \<or> i = 4 \<or> i = 5" by arith
  then have "engine_move (progress_ladder ! i) (ladder_states ! i, ladder_states ! i) =
      Some (ladder_states ! Suc i, ladder_states ! Suc i)"
    and "validate_transition (ladder_states ! i) (progress_ladder ! i) (ladder_states ! Suc i)
      (Some (ladder_states ! Suc i)) False = Inr ()"
    by (elim disjE; simp)+
  with assms(1) show ?thesis by (rule wf_run_move)
qed

section \<open>Properties of the state machine\<close>

text \<open>
  C1.  Whatever pauses, resumes, reconciliations, SLA expiries and cancellations are interleaved,
  a workflow whose delivery is recorded has gone through ticket handoff, investigation, verified
  candidate, policy activation, granted approval and completed delivery, each exactly once and in
  this order; in particular nothing is delivered without a granted approval.
\<close>

theorem delivery_recorded_order:
  assumes "wf_run ks (DELIVERY_RECORDED, r)"
  shows "progress_facts ks =
     [TICKET_HANDOFF_COMPLETE, INVESTIGATION_STARTED, RESPONSE_CANDIDATE_VERIFIED,
      POLICY_APPROVAL_ACTIVATED, APPROVAL_GRANTED, DELIVERY_COMPLETE]"
proof -
  from run_ladder [OF assms] obtain n where n: "progress_facts ks = take n progress_ladder"
    "n < 7" "DELIVERY_RECORDED = ladder_states ! n"
    by (auto simp: ladder_inv_def continuation_def)
  then have "ladder_states ! 6 = ladder_states ! n" by simp
  with n(2) have "n = 6" by (simp add: nth_eq_iff_index_eq del: ladder_kinds)
  with n(1) show ?thesis by (simp add: progress_ladder_def)
qed

theorem delivery_recorded_order_witness:
  "wf_run [TICKET_HANDOFF_COMPLETE, PAUSE, RESUME, INVESTIGATION_STARTED,
      RESPONSE_CANDIDATE_VERIFIED, POLICY_APPROVAL_ACTIVATED, APPROVAL_GRANTED,
      RECONCILIATION_REQUIRED, RECONCILIATION_COMPLETE, DELIVERY_COMPLETE]
     (DELIVERY_RECORDED, DELIVERY_RECORDED) \<and>
   progress_facts [TICKET_HANDOFF_COMPLETE, PAUSE, RESUME, INVESTIGATION_STARTED,
      RESPONSE_CANDIDATE_VERIFIED, POLICY_APPROVAL_ACTIVATED, APPROVAL_GRANTED,
      RECONCILIATION_REQUIRED, RECONCILIATION_COMPLETE, DELIVERY_COMPLETE] =
     [TICKET_HANDOFF_COMPLETE, INVESTIGATION_STARTED, RESPONSE_CANDIDATE_VERIFIED,
      POLICY_APPROVAL_ACTIVATED, APPROVAL_GRANTED, DELIVERY_COMPLETE]"
  (is "?run \<and> _")
proof -
  note move = wf_run_move [where u = False]
  have "wf_run [TICKET_HANDOFF_COMPLETE] (TICKET_READY, TICKET_READY)"
    using wf_run_fact [OF _, of "[]" 0] wf_run.activated by simp
  then have "wf_run [TICKET_HANDOFF_COMPLETE, PAUSE] (PAUSED, TICKET_READY)"
    using move [of "[TICKET_HANDOFF_COMPLETE]"] by simp
  then have "wf_run [TICKET_HANDOFF_COMPLETE, PAUSE, RESUME] (TICKET_READY, TICKET_READY)"
    using move [of "[TICKET_HANDOFF_COMPLETE, PAUSE]"] by simp
  then have "wf_run [TICKET_HANDOFF_COMPLETE, PAUSE, RESUME, INVESTIGATION_STARTED]
      (INVESTIGATING, INVESTIGATING)"
    using wf_run_fact [of "[TICKET_HANDOFF_COMPLETE, PAUSE, RESUME]" 1] by simp
  note wf_run_fact [of _ 2, simplified, OF this]
  note wf_run_fact [of _ 3, simplified, OF this [simplified]]
  note wf_run_fact [of _ 4, simplified, OF this [simplified]]
  note move [of _ _ _ RECONCILIATION_REQUIRED, simplified, OF this [simplified]]
  note move [of _ _ _ RECONCILIATION_COMPLETE, OF this [simplified]]
  note this [simplified]
  note wf_run_fact [of _ 5, simplified, OF this [simplified]]
  then have run: ?run by simp
  show ?thesis using delivery_recorded_order [OF run] run by simp
qed

text \<open>
  C22.  A cancelled workflow is final: no transition kind, known or not, has a target there.
  The other two states the code calls terminal are not: a recorded delivery can still be
  cancelled, and \<open>RESPONSE_READY\<close> can be paused, cancelled or activated.
\<close>

theorem terminal_exits:
  assumes "is_terminal c" and "validate_transition c k n r u = Inr ()"
  shows "c \<noteq> CANCELLED \<and>
     (c = DELIVERY_RECORDED \<longrightarrow> k = CANCEL \<and> n = CANCELLED \<and> \<not> u) \<and>
     (c = RESPONSE_READY \<longrightarrow>
        (k = CANCEL \<and> n = CANCELLED) \<or> (k = PAUSE \<and> n = PAUSED) \<or>
        (k = POLICY_APPROVAL_ACTIVATED \<and> n = AWAITING_APPROVAL))"
proof -
  from assms have target: "n \<in> allowed_targets c k r u"
    and states: "c = RESPONSE_READY \<or> c = DELIVERY_RECORDED \<or> c = CANCELLED"
    by (simp_all add: is_terminal_def TERMINAL_STATES_def)
  from states show ?thesis
  proof (elim disjE)
    assume c: "c = RESPONSE_READY"
    from target show ?thesis
      by (rule kind_cases; insert target c; cases r; simp split: if_splits)
  next
    assume c: "c = DELIVERY_RECORDED"
    from target show ?thesis
      by (rule kind_cases; insert target c; cases r; simp split: if_splits)
  next
    assume "c = CANCELLED"
    with target show ?thesis by simp
  qed
qed

theorem terminal_exits_witness:
  "is_terminal DELIVERY_RECORDED \<and>
   validate_transition DELIVERY_RECORDED CANCEL CANCELLED (Some CANCELLED) False = Inr () \<and>
   DELIVERY_RECORDED \<noteq> CANCELLED"
proof -
  have t: "is_terminal DELIVERY_RECORDED" by (simp add: is_terminal_def)
  have v: "validate_transition DELIVERY_RECORDED CANCEL CANCELLED (Some CANCELLED) False = Inr ()"
    by simp
  show ?thesis using terminal_exits [OF t v] t v by simp
qed

text \<open>
  C21.  A workflow that enters reconciliation while it is paused never leaves it: the saved
  continuation is \<open>PAUSED\<close>, which \<open>reconciliation-complete\<close> does not accept, and no other
  transition the engine submits applies.
\<close>

theorem paused_reconciliation_stuck: "\<not> wf_step (NEEDS_RECONCILIATION, PAUSED) k (c', r')"
proof
  assume step: "wf_step (NEEDS_RECONCILIATION, PAUSED) k (c', r')"
  then obtain u where "engine_move k (NEEDS_RECONCILIATION, PAUSED) = Some (c', r')"
    and target: "c' \<in> allowed_targets NEEDS_RECONCILIATION k (Some r') u"
    by (auto elim!: wf_stepE)
  then show False
    by (rule_tac kind_cases [OF target]; insert target) (auto split: if_splits)
qed

end
