(* ===== verification/Ledger.thy ===== *)
theory Ledger
  imports Contracts WorkflowState "HOL-Library.Product_Lexorder"
begin

text \<open>
  \<open>ledger.py\<close>: the append-only Case ledger.  The SQLite store is the record \<open>ledger_db\<close>, one
  list of row records per table; it is extended by the workflow journal.  A \<open>TEXT\<close> column that
  holds JSON is modelled by its decoded value, \<open>None\<close> for a text that is not JSON.  Intake
  (\<open>intake\<close>, \<open>intake_qq\<close>), the internal port for workflow events
  (\<open>append_workflow_state_event\<close>), the read side and the rebuild of the read model are the
  operations of \<open>SQLiteCaseLedger\<close>; \<open>now\<close> is the instant the injected clock returns.
\<close>

section \<open>The store\<close>

record receipt_row =
  rc_tenant :: string
  rc_key :: string
  rc_fingerprint :: string
  rc_channel :: string
  rc_conversation :: string
  rc_sequence :: int
  rc_case :: string
  rc_revision :: string
  rc_events :: "json option"
  rc_accepted_at :: string

record cursor_row =
  cu_tenant :: string
  cu_channel :: string
  cu_conversation :: string
  cu_last :: int

record case_row =
  ca_tenant :: string
  ca_id :: string
  ca_created_at :: string
  ca_source :: string
  ca_correlation :: string
  ca_channel :: string
  ca_conversation :: string
  ca_customer :: string

record revision_row =
  rv_tenant :: string
  rv_id :: string
  rv_case :: string
  rv_number :: int
  rv_previous :: "string option"
  rv_created_at :: string
  rv_reason :: string
  rv_source :: string
  rv_fingerprint :: string

record event_row =
  ev_tenant :: string
  ev_id :: string
  ev_case :: string
  ev_revision :: string
  ev_type :: string
  ev_occurred_at :: string
  ev_received_at :: string
  ev_correlation :: string
  ev_causation :: "string option"
  ev_index :: int
  ev_sha256 :: string
  ev_metadata :: "json option"
  ev_workflow :: "string option"
  ev_checkpoint :: "string option"

record projection_row =
  pj_tenant :: string
  pj_case :: string
  pj_revision :: string
  pj_number :: int
  pj_state :: string
  pj_source :: string
  pj_count :: int
  pj_correlation :: string
  pj_created_at :: string
  pj_updated_at :: string

text \<open>
  \<open>schema_error\<close> is the outcome of the version and column checks of
  \<open>validate_workflow_journal_schema\<close> on the file: the reason they fail with, if they fail.
\<close>

record ledger_db =
  receipts :: "receipt_row list"
  cursors :: "cursor_row list"
  cases :: "case_row list"
  revisions :: "revision_row list"
  events :: "event_row list"
  projections :: "projection_row list"
  schema_error :: "string option"

definition empty_ledger :: ledger_db where
  "empty_ledger = \<lparr>receipts = [], cursors = [], cases = [], revisions = [], events = [],
     projections = [], schema_error = None\<rparr>"

text \<open>Primary keys and \<open>UNIQUE\<close> constraints of the tables.\<close>

definition receipt_clash :: "receipt_row \<Rightarrow> receipt_row \<Rightarrow> bool" where
  "receipt_clash r q \<longleftrightarrow> rc_tenant r = rc_tenant q \<and> rc_key r = rc_key q"

definition case_clash :: "case_row \<Rightarrow> case_row \<Rightarrow> bool" where
  "case_clash r q \<longleftrightarrow> ca_tenant r = ca_tenant q \<and> ca_id r = ca_id q"

definition revision_clash :: "revision_row \<Rightarrow> revision_row \<Rightarrow> bool" where
  "revision_clash r q \<longleftrightarrow> rv_tenant r = rv_tenant q \<and>
     (rv_id r = rv_id q \<or> rv_case r = rv_case q \<and> rv_number r = rv_number q)"

definition event_clash :: "event_row \<Rightarrow> event_row \<Rightarrow> bool" where
  "event_clash r q \<longleftrightarrow> ev_tenant r = ev_tenant q \<and>
     (ev_id r = ev_id q \<or> ev_case r = ev_case q \<and> ev_index r = ev_index q)"

definition projection_clash :: "projection_row \<Rightarrow> projection_row \<Rightarrow> bool" where
  "projection_clash r q \<longleftrightarrow> pj_tenant r = pj_tenant q \<and> pj_case r = pj_case q"

text \<open>
  Binding a JSON value to a column: type affinity turns numbers into text for \<open>TEXT\<close>, \<open>NULL\<close>
  violates \<open>NOT NULL\<close>, a list or dict is an unsupported type (a \<open>DatabaseError\<close> as well), and an
  integer of more than 64 bits raises \<open>OverflowError\<close>.
\<close>

definition sql_text :: "json \<Rightarrow> exn + string" where
  "sql_text v = (case v of
     JStr s \<Rightarrow> Inr s
   | JInt n \<Rightarrow> Inr (dec_int n)
   | JBool b \<Rightarrow> Inr (if b then ''1'' else ''0'')
   | _ \<Rightarrow> Inl (DatabaseError ''bind''))"

definition sql_text_opt :: "json \<Rightarrow> exn + string option" where
  "sql_text_opt v = (if v = JNull then Inr None else bind_res (sql_text v) (\<lambda>s. Inr (Some s)))"

definition sql_int :: "json \<Rightarrow> exn + int" where
  "sql_int v = (case py_int v of
     Inl _ \<Rightarrow> Inl (DatabaseError ''bind'')
   | Inr n \<Rightarrow> if - (2 ^ 63) \<le> n \<and> n < 2 ^ 63 then Inr n
             else Inl (OverflowError ''Python int too large to convert to SQLite INTEGER''))"

lemma sql_simps [simp]:
  "sql_text (JStr s) = Inr s" "sql_text_opt (JStr s) = Inr (Some s)" "sql_text_opt JNull = Inr None"
  "sql_text JNull = Inl (DatabaseError ''bind'')"
  by (simp_all add: sql_text_def sql_text_opt_def)

section \<open>Identities, contracts of the generated records\<close>

abbreviation CASE_SCHEMA_ID :: string where
  "CASE_SCHEMA_ID \<equiv> ''https://weflow.local/contracts/v1/case.schema.json''"
abbreviation CASE_REVISION_SCHEMA_ID :: string where
  "CASE_REVISION_SCHEMA_ID \<equiv> ''https://weflow.local/contracts/v1/case-revision.schema.json''"
abbreviation BUSINESS_EVENT_SCHEMA_ID :: string where
  "BUSINESS_EVENT_SCHEMA_ID \<equiv> ''https://weflow.local/contracts/v1/business-event.schema.json''"
abbreviation CASE_PROJECTION_SCHEMA_ID :: string where
  "CASE_PROJECTION_SCHEMA_ID \<equiv> ''https://weflow.local/contracts/v1/case-projection.schema.json''"
abbreviation INBOUND_MESSAGE_EVENT_SCHEMA_ID :: string where
  "INBOUND_MESSAGE_EVENT_SCHEMA_ID \<equiv>
     ''https://weflow.local/contracts/v1/inbound-message-event.schema.json''"
abbreviation QQ_SANDBOX_INBOUND_EVENT_SCHEMA_ID :: string where
  "QQ_SANDBOX_INBOUND_EVENT_SCHEMA_ID \<equiv>
     ''https://weflow.local/contracts/v1/qq-sandbox-inbound-event.schema.json''"

abbreviation INITIAL_CASE_STATE :: string where "INITIAL_CASE_STATE \<equiv> ''RECEIVED''"
abbreviation INBOUND_RECEIVED :: string where "INBOUND_RECEIVED \<equiv> ''inbound.received.v1''"
abbreviation REVISION_CREATED :: string where "REVISION_CREATED \<equiv> ''case.revision-created.v1''"
abbreviation STATE_TRANSITIONED :: string where
  "STATE_TRANSITIONED \<equiv> ''case.state-transitioned.v1''"
abbreviation WORKFLOW_STATE_EVENT_TYPE :: string where
  "WORKFLOW_STATE_EVENT_TYPE \<equiv> ''workflow.state-transitioned.v1''"

definition INITIAL_EVENT_TYPES :: "string list" where
  "INITIAL_EVENT_TYPES = [INBOUND_RECEIVED, REVISION_CREATED, STATE_TRANSITIONED]"

definition validate_inbound_message_event :: "validators \<Rightarrow> obj \<Rightarrow> exn + unit" where
  "validate_inbound_message_event V p =
     require_schema V p INBOUND_MESSAGE_EVENT_SCHEMA_ID ''inbound-message-event''"

definition validate_case_projection :: "validators \<Rightarrow> obj \<Rightarrow> exn + unit" where
  "validate_case_projection V p = require_schema V p CASE_PROJECTION_SCHEMA_ID ''case-projection''"

definition is_sha256_text :: "json \<Rightarrow> bool" where
  "is_sha256_text v = (case v of
     JStr s \<Rightarrow> length s = 64 \<and> list_all (\<lambda>c. c \<in> set ''0123456789abcdef'') s | _ \<Rightarrow> False)"

definition validate_generated_ledger_event :: "validators \<Rightarrow> obj \<Rightarrow> exn + unit" where
  "validate_generated_ledger_event V p =
     bind_res (require_schema V p BUSINESS_EVENT_SCHEMA_ID ''business-event'') (\<lambda>_.
     bind_res (require (case obj_get p ''case_event_index'' of JInt n \<Rightarrow> 1 \<le> n | _ \<Rightarrow> False)
       (ContractValidationError ''business-event'' ''case_event_index_required'')) (\<lambda>_.
     require (is_sha256_text (obj_get p ''payload_sha256''))
       (ContractValidationError ''business-event'' ''payload_sha256_required'')))"

definition validate_qq_sandbox_inbound_event :: "validators \<Rightarrow> obj \<Rightarrow> exn + unit" where
  "validate_qq_sandbox_inbound_event V p =
     (let err = ContractValidationError ''qq-sandbox-inbound-event'' in
     bind_res (require_schema V p QQ_SANDBOX_INBOUND_EVENT_SCHEMA_ID ''qq-sandbox-inbound-event'') (\<lambda>_.
     bind_res (obj_item p ''source_message_id'') (\<lambda>m.
     let source_message_id = py_str m in
     bind_res (obj_item p ''source_message_id_hash'') (\<lambda>h.
     bind_res (require (h = JStr (sha256_hex source_message_id))
       (err ''source_message_id_hash_mismatch'')) (\<lambda>_.
     bind_res (obj_item p ''app_id_hash'') (\<lambda>app.
     bind_res (obj_item p ''group_openid_hash'') (\<lambda>group.
     bind_res (obj_item p ''tenant_id'') (\<lambda>tenant.
     bind_res (obj_item p ''inbound_natural_key'') (\<lambda>key.
     require (key = JStr (canonical_sha256 (JObj
         [(''app_id_hash'', app), (''group_openid_hash'', group), (''provider'', JStr ''qq-sandbox''),
          (''source_message_id'', JStr source_message_id), (''tenant_id'', tenant)])))
       (err ''inbound_natural_key_mismatch''))))))))))"

definition delivery_key :: "string \<Rightarrow> obj \<Rightarrow> exn + string" where
  "delivery_key tenant_id envelope =
     bind_res (obj_item envelope ''channel'') (\<lambda>channel.
     bind_res (obj_item envelope ''channel_event_id'') (\<lambda>eid.
     Inr (tenant_id @ '':'' @ py_str channel @ '':'' @ py_str eid)))"

definition fingerprint :: "string \<Rightarrow> obj \<Rightarrow> string" where
  "fingerprint tenant_id envelope =
     (let excluded = [''received_at'', ''tenant_id''] @
            (if obj_get envelope ''channel'' = JStr ''qq-sandbox'' then [''conversation_sequence''] else []);
          material = filter (\<lambda>(k, _). k \<notin> set excluded) envelope
      in canonical_sha256 (JObj (obj_set material ''effective_tenant_id'' (JStr tenant_id))))"

definition make_case_id :: "string \<Rightarrow> string \<Rightarrow> string" where
  "make_case_id tenant_id key =
     stable_identifier ''case''
       (JObj [(''version'', JStr ''v1''), (''tenant_id'', JStr tenant_id), (''delivery_key'', JStr key)])"

definition make_revision_id :: "string \<Rightarrow> string" where
  "make_revision_id case_id =
     stable_identifier ''case_revision''
       (JObj [(''version'', JStr ''v1''), (''case_id'', JStr case_id), (''revision'', JInt 1)])"

definition make_event_id :: "string \<Rightarrow> string \<Rightarrow> int \<Rightarrow> string" where
  "make_event_id case_id event_type event_index =
     stable_identifier ''event''
       (JObj [(''version'', JStr ''v1''), (''case_id'', JStr case_id),
              (''event_type'', JStr event_type), (''event_index'', JInt event_index)])"

end
