(* ===== verification/LedgerIntake.thy ===== *)
theory LedgerIntake
  imports Ledger
begin

text \<open>
  The write side of \<open>SQLiteCaseLedger\<close>: intake of a normalized delivery.  One call is one
  transaction; the clock is read once.
\<close>

section \<open>Statements\<close>

definition insert_receipt :: "receipt_row \<Rightarrow> ('a ledger_db_scheme, unit) action" where
  "insert_receipt r = modify (\<lambda>s.
     bind_res (insert_row (\<lambda>_. True) receipt_clash r (receipts s)) (\<lambda>rs. Inr (s\<lparr>receipts := rs\<rparr>)))"

definition insert_case :: "case_row \<Rightarrow> ('a ledger_db_scheme, unit) action" where
  "insert_case r = modify (\<lambda>s.
     bind_res (insert_row (\<lambda>_. True) case_clash r (cases s)) (\<lambda>rs. Inr (s\<lparr>cases := rs\<rparr>)))"

definition insert_revision :: "revision_row \<Rightarrow> ('a ledger_db_scheme, unit) action" where
  "insert_revision r = modify (\<lambda>s.
     bind_res (insert_row (\<lambda>_. True) revision_clash r (revisions s)) (\<lambda>rs. Inr (s\<lparr>revisions := rs\<rparr>)))"

definition insert_event :: "event_row \<Rightarrow> ('a ledger_db_scheme, unit) action" where
  "insert_event r = modify (\<lambda>s.
     bind_res (insert_row (\<lambda>_. True) event_clash r (events s)) (\<lambda>rs. Inr (s\<lparr>events := rs\<rparr>)))"

definition insert_projection :: "projection_row \<Rightarrow> ('a ledger_db_scheme, unit) action" where
  "insert_projection r = modify (\<lambda>s.
     bind_res (insert_row (\<lambda>_. True) projection_clash r (projections s))
       (\<lambda>rs. Inr (s\<lparr>projections := rs\<rparr>)))"

text \<open>\<open>INSERT ... ON CONFLICT ... DO UPDATE\<close> on the conversation cursor.\<close>

definition same_cursor :: "cursor_row \<Rightarrow> cursor_row \<Rightarrow> bool" where
  "same_cursor c d \<longleftrightarrow> cu_tenant c = cu_tenant d \<and> cu_channel c = cu_channel d \<and>
     cu_conversation c = cu_conversation d"

definition advance_cursor :: "cursor_row \<Rightarrow> cursor_row \<Rightarrow> cursor_row" where
  "advance_cursor new old = old\<lparr>cu_last :=
     (if cu_channel new = ''qq-sandbox'' then max (cu_last old) (cu_last new) else cu_last new)\<rparr>"

definition upsert_rows :: "cursor_row \<Rightarrow> cursor_row list \<Rightarrow> cursor_row list" where
  "upsert_rows c cs =
     (if list_ex (same_cursor c) cs
      then map (\<lambda>d. if same_cursor c d then advance_cursor c d else d) cs
      else cs @ [c])"

definition upsert_cursor :: "cursor_row \<Rightarrow> ('a ledger_db_scheme, unit) action" where
  "upsert_cursor c = modify (\<lambda>s. Inr (s\<lparr>cursors := upsert_rows c (cursors s)\<rparr>))"

section \<open>Building the records of a new Case\<close>

definition new_case :: "string \<Rightarrow> string \<Rightarrow> string \<Rightarrow> obj \<Rightarrow> exn + obj" where
  "new_case tenant_id case_id created_at payload =
     bind_res (obj_item payload ''channel_event_id'') (\<lambda>source.
     bind_res (obj_item payload ''correlation_id'') (\<lambda>correlation.
     bind_res (obj_item payload ''channel'') (\<lambda>channel.
     bind_res (obj_item payload ''conversation_id'') (\<lambda>conversation.
     bind_res (obj_item payload ''customer_id'') (\<lambda>customer.
     Inr [(''schema_id'', JStr CASE_SCHEMA_ID), (''schema_version'', JStr ''v1''),
          (''tenant_id'', JStr tenant_id), (''case_id'', JStr case_id),
          (''created_at'', JStr created_at), (''source_event_id'', source),
          (''correlation_id'', correlation), (''channel'', channel),
          (''conversation_id'', conversation), (''customer_id'', customer)])))))"

definition new_revision :: "string \<Rightarrow> string \<Rightarrow> string \<Rightarrow> string \<Rightarrow> string \<Rightarrow> obj \<Rightarrow> exn + obj" where
  "new_revision tenant_id case_id revision_id created_at fp payload =
     bind_res (obj_item payload ''channel_event_id'') (\<lambda>source.
     Inr [(''schema_id'', JStr CASE_REVISION_SCHEMA_ID), (''schema_version'', JStr ''v1''),
          (''tenant_id'', JStr tenant_id), (''case_id'', JStr case_id),
          (''case_revision_id'', JStr revision_id), (''revision'', JInt 1),
          (''previous_case_revision_id'', JNull), (''created_at'', JStr created_at),
          (''reason'', JStr ''initial-capture''), (''source_event_id'', source),
          (''source_event_fingerprint'', JStr fp)])"

definition received_metadata :: "string \<Rightarrow> string \<Rightarrow> obj" where
  "received_metadata key fp = [(''delivery_key'', JStr key), (''inbound_fingerprint'', JStr fp)]"

definition created_metadata :: obj where
  "created_metadata = [(''previous_case_revision_id'', JNull), (''revision'', JInt 1)]"

definition initial_state_metadata :: obj where
  "initial_state_metadata = [(''from_state'', JNull), (''to_state'', JStr INITIAL_CASE_STATE)]"

definition new_event ::
  "string \<Rightarrow> string \<Rightarrow> string \<Rightarrow> json \<Rightarrow> int \<Rightarrow> string \<times> string \<times> string \<times> json \<times> obj \<Rightarrow> obj" where
  "new_event tenant_id case_id revision_id correlation index d =
     (case d of (event_type, occurred_at, received_at, causation, metadata) \<Rightarrow>
       [(''schema_id'', JStr BUSINESS_EVENT_SCHEMA_ID), (''schema_version'', JStr ''v1''),
        (''tenant_id'', JStr tenant_id), (''event_id'', JStr (make_event_id case_id event_type index)),
        (''case_id'', JStr case_id), (''case_revision_id'', JStr revision_id),
        (''event_type'', JStr event_type), (''occurred_at'', JStr occurred_at),
        (''received_at'', JStr received_at), (''correlation_id'', correlation),
        (''causation_id'', causation), (''case_event_index'', JInt index),
        (''payload_sha256'', JStr (canonical_sha256 (JObj metadata)))])"

definition initial_events ::
  "string \<Rightarrow> string \<Rightarrow> string \<Rightarrow> string \<Rightarrow> string \<Rightarrow> obj \<Rightarrow> string \<Rightarrow> exn + (obj \<times> obj) list" where
  "initial_events tenant_id case_id revision_id key fp payload created_at =
     bind_res (obj_item payload ''occurred_at'') (\<lambda>occurred.
     bind_res (obj_item payload ''received_at'') (\<lambda>received.
     bind_res (obj_item payload ''correlation_id'') (\<lambda>correlation.
     let definitions =
       [(INBOUND_RECEIVED, py_str occurred, py_str received, JNull, received_metadata key fp),
        (REVISION_CREATED, created_at, created_at, JStr (make_event_id case_id INBOUND_RECEIVED 1),
         created_metadata),
        (STATE_TRANSITIONED, created_at, created_at, JStr (make_event_id case_id REVISION_CREATED 2),
         initial_state_metadata)]
     in Inr (map (\<lambda>(i, d). (new_event tenant_id case_id revision_id correlation i d,
                            snd (snd (snd (snd d)))))
               (zip [1, 2, 3] definitions)))))"

section \<open>Binding the records to rows\<close>

definition case_row_of :: "obj \<Rightarrow> exn + case_row" where
  "case_row_of p =
     bind_res (map_res (\<lambda>k. sql_text (obj_get p k))
       [''tenant_id'', ''case_id'', ''created_at'', ''source_event_id'', ''correlation_id'',
        ''channel'', ''conversation_id'', ''customer_id'']) (\<lambda>vs.
     Inr \<lparr>ca_tenant = vs ! 0, ca_id = vs ! 1, ca_created_at = vs ! 2, ca_source = vs ! 3,
          ca_correlation = vs ! 4, ca_channel = vs ! 5, ca_conversation = vs ! 6,
          ca_customer = vs ! 7\<rparr>)"

definition revision_row_of :: "obj \<Rightarrow> exn + revision_row" where
  "revision_row_of p =
     bind_res (map_res (\<lambda>k. sql_text (obj_get p k))
       [''tenant_id'', ''case_revision_id'', ''case_id'', ''created_at'', ''reason'',
        ''source_event_id'', ''source_event_fingerprint'']) (\<lambda>vs.
     bind_res (sql_int (obj_get p ''revision'')) (\<lambda>n.
     bind_res (sql_text_opt (obj_get p ''previous_case_revision_id'')) (\<lambda>previous.
     Inr \<lparr>rv_tenant = vs ! 0, rv_id = vs ! 1, rv_case = vs ! 2, rv_number = n,
          rv_previous = previous, rv_created_at = vs ! 3, rv_reason = vs ! 4,
          rv_source = vs ! 5, rv_fingerprint = vs ! 6\<rparr>)))"

definition event_row_of :: "obj \<times> obj \<Rightarrow> exn + event_row" where
  "event_row_of em =
     (case em of (p, metadata) \<Rightarrow>
     bind_res (map_res (\<lambda>k. sql_text (obj_get p k))
       [''tenant_id'', ''event_id'', ''case_id'', ''case_revision_id'', ''event_type'',
        ''occurred_at'', ''received_at'', ''correlation_id'', ''payload_sha256'']) (\<lambda>vs.
     bind_res (sql_int (obj_get p ''case_event_index'')) (\<lambda>n.
     bind_res (sql_text_opt (obj_get p ''causation_id'')) (\<lambda>causation.
     bind_res (sql_text_opt (obj_get p ''workflow_id'')) (\<lambda>workflow.
     bind_res (sql_text_opt (obj_get p ''workflow_checkpoint_id'')) (\<lambda>checkpoint.
     Inr \<lparr>ev_tenant = vs ! 0, ev_id = vs ! 1, ev_case = vs ! 2, ev_revision = vs ! 3,
          ev_type = vs ! 4, ev_occurred_at = vs ! 5, ev_received_at = vs ! 6,
          ev_correlation = vs ! 7, ev_causation = causation, ev_index = n, ev_sha256 = vs ! 8,
          ev_metadata = Some (JObj metadata), ev_workflow = workflow,
          ev_checkpoint = checkpoint\<rparr>))))))"

definition projection_row_of :: "obj \<Rightarrow> exn + projection_row" where
  "projection_row_of p =
     bind_res (map_res (\<lambda>k. sql_text (obj_get p k))
       [''tenant_id'', ''case_id'', ''latest_case_revision_id'', ''state'', ''source_event_id'',
        ''correlation_id'', ''created_at'', ''updated_at'']) (\<lambda>vs.
     bind_res (sql_int (obj_get p ''latest_revision'')) (\<lambda>n.
     bind_res (sql_int (obj_get p ''event_count'')) (\<lambda>count.
     Inr \<lparr>pj_tenant = vs ! 0, pj_case = vs ! 1, pj_revision = vs ! 2, pj_number = n,
          pj_state = vs ! 3, pj_source = vs ! 4, pj_count = count, pj_correlation = vs ! 5,
          pj_created_at = vs ! 6, pj_updated_at = vs ! 7\<rparr>)))"

section \<open>The read model of one Case\<close>

abbreviation ledger_invalid :: exn where
  "ledger_invalid \<equiv> LedgerIntegrityError ''ledger_invalid''"

definition resume_value :: "json \<Rightarrow> string option" where
  "resume_value v = (if v = JNull then None else Some (py_str v))"

definition state_metadata_keys :: "string list" where
  "state_metadata_keys = [''from_state'', ''resume_state'', ''to_state'', ''transition_kind'']"

text \<open>One workflow event applied to the state of the Case.\<close>

definition projection_step :: "string \<Rightarrow> obj \<times> obj \<Rightarrow> exn + string" where
  "projection_step state em =
     (case em of (event, m) \<Rightarrow>
       if obj_get event ''event_type'' \<noteq> JStr WORKFLOW_STATE_EVENT_TYPE \<or>
          \<not> is_jstr (obj_get event ''workflow_id'') \<or>
          \<not> is_jstr (obj_get event ''workflow_checkpoint_id'') \<or>
          set (map fst m) \<noteq> set state_metadata_keys \<or>
          obj_get m ''from_state'' \<noteq> JStr state
       then Inl ledger_invalid
       else catch_res (\<lambda>_. True) (\<lambda>_. Inl ledger_invalid)
         (bind_res (validate_transition state (py_str (obj_get m ''transition_kind''))
             (py_str (obj_get m ''to_state'')) (resume_value (obj_get m ''resume_state'')) False)
           (\<lambda>_. Inr (py_str (obj_get m ''to_state'')))))"

definition projection_from_records ::
  "obj \<Rightarrow> obj \<Rightarrow> obj list \<Rightarrow> obj list option \<Rightarrow> exn + obj" where
  "projection_from_records case_obj revision evs metadata =
     (if length evs < 3 \<or>
         map (\<lambda>e. obj_get e ''event_type'') (take 3 evs) \<noteq> map JStr INITIAL_EVENT_TYPES
      then Inl ledger_invalid
      else bind_res
        (case metadata of
           None \<Rightarrow> Inr INITIAL_CASE_STATE
         | Some ms \<Rightarrow>
             if length ms \<noteq> length evs then Inl ledger_invalid
             else fold_res projection_step INITIAL_CASE_STATE (zip (drop 3 evs) (drop 3 ms)))
        (\<lambda>state. Inr
          [(''schema_id'', JStr CASE_PROJECTION_SCHEMA_ID), (''schema_version'', JStr ''v1''),
           (''tenant_id'', obj_get case_obj ''tenant_id''), (''case_id'', obj_get case_obj ''case_id''),
           (''latest_case_revision_id'', obj_get revision ''case_revision_id''),
           (''latest_revision'', obj_get revision ''revision''), (''state'', JStr state),
           (''source_event_id'', obj_get case_obj ''source_event_id''),
           (''event_count'', JInt (int (length evs))),
           (''correlation_id'', obj_get case_obj ''correlation_id''),
           (''created_at'', obj_get case_obj ''created_at''),
           (''updated_at'', obj_get (last evs) ''occurred_at'')]))"

section \<open>Intake\<close>

record intake_result =
  ir_disposition :: string
  ir_case :: string
  ir_revision :: string
  ir_events :: "string list"

definition find_receipt :: "string \<Rightarrow> string \<Rightarrow> 'a ledger_db_scheme \<Rightarrow> receipt_row option" where
  "find_receipt tenant_id key s =
     first_row (filter (\<lambda>r. rc_tenant r = tenant_id \<and> rc_key r = key) (receipts s))"

text \<open>A retained receipt answers an exact retry; another payload under its key is a conflict.\<close>

definition deduplicate :: "receipt_row \<Rightarrow> string \<Rightarrow> exn + intake_result" where
  "deduplicate r fp =
     (if rc_fingerprint r \<noteq> fp then Inl (IntakeRejected ''inbound_event_conflict'')
      else case rc_events r of
             None \<Rightarrow> Inl (ValueError ''JSONDecodeError'')
           | Some v \<Rightarrow>
               (case v of
                  JList xs \<Rightarrow>
                    if list_all is_jstr xs
                    then Inr \<lparr>ir_disposition = ''deduplicated'', ir_case = rc_case r,
                              ir_revision = rc_revision r, ir_events = map py_str xs\<rparr>
                    else Inl ledger_invalid
                | _ \<Rightarrow> Inl ledger_invalid))"

definition last_sequence ::
  "string \<Rightarrow> string option \<Rightarrow> string option \<Rightarrow> 'a ledger_db_scheme \<Rightarrow> int option" where
  "last_sequence tenant_id channel conversation s =
     map_option cu_last (first_row (filter (\<lambda>c. cu_tenant c = tenant_id \<and>
       Some (cu_channel c) = channel \<and> Some (cu_conversation c) = conversation) (cursors s)))"

definition sequence_in_order :: "bool \<Rightarrow> int option \<Rightarrow> int \<Rightarrow> bool" where
  "sequence_in_order qq cursor n =
     (if qq then 1 \<le> n else (case cursor of None \<Rightarrow> n = 1 | Some l \<Rightarrow> n = l + 1))"

definition check_sequence :: "string \<Rightarrow> obj \<Rightarrow> 'a ledger_db_scheme \<Rightarrow> exn + unit" where
  "check_sequence tenant_id payload s =
     bind_res (obj_item payload ''channel'') (\<lambda>channel.
     bind_res (obj_item payload ''conversation_id'') (\<lambda>conversation.
     bind_res (sql_text_opt channel) (\<lambda>ch.
     bind_res (sql_text_opt conversation) (\<lambda>co.
     bind_res (bind_res (obj_item payload ''conversation_sequence'') py_int) (\<lambda>n.
     require (sequence_in_order (channel = JStr ''qq-sandbox'') (last_sequence tenant_id ch co s) n)
       (IntakeRejected ''inbound_out_of_order''))))))"

fun insert_events :: "event_row list \<Rightarrow> ('a ledger_db_scheme, unit) action" where
  "insert_events [] = ret ()"
| "insert_events (e # es) = bind (insert_event e) (\<lambda>_. insert_events es)"

definition accept_delivery ::
  "validators \<Rightarrow> instant \<Rightarrow> string \<Rightarrow> string \<Rightarrow> string \<Rightarrow> obj
    \<Rightarrow> ('a ledger_db_scheme, intake_result) action" where
  "accept_delivery V now tenant_id key fp payload =
     (let created_at = timestamp now;
          case_id = make_case_id tenant_id key;
          revision_id = make_revision_id case_id in
     bind (lift_res (new_case tenant_id case_id created_at payload)) (\<lambda>case_obj.
     bind (lift_res (new_revision tenant_id case_id revision_id created_at fp payload)) (\<lambda>revision.
     bind (lift_res (validate_payload V case_obj)) (\<lambda>_.
     bind (lift_res (validate_payload V revision)) (\<lambda>_.
     bind (lift_res (initial_events tenant_id case_id revision_id key fp payload created_at)) (\<lambda>evs.
     bind (lift_res (each_res (validate_generated_ledger_event V \<circ> fst) evs)) (\<lambda>_.
     bind (lift_res (case_row_of case_obj)) (\<lambda>crow.
     bind (insert_case crow) (\<lambda>_.
     bind (lift_res (revision_row_of revision)) (\<lambda>rrow.
     bind (insert_revision rrow) (\<lambda>_.
     bind (lift_res (map_res event_row_of evs)) (\<lambda>erows.
     bind (insert_events erows) (\<lambda>_.
     bind (lift_res (sql_text (obj_get payload ''channel''))) (\<lambda>channel.
     bind (lift_res (sql_text (obj_get payload ''conversation_id''))) (\<lambda>conversation.
     bind (lift_res (sql_int (obj_get payload ''conversation_sequence''))) (\<lambda>n.
     bind (insert_receipt \<lparr>rc_tenant = tenant_id, rc_key = key, rc_fingerprint = fp,
             rc_channel = channel, rc_conversation = conversation, rc_sequence = n,
             rc_case = case_id, rc_revision = revision_id,
             rc_events = Some (JList (map (\<lambda>e. obj_get (fst e) ''event_id'') evs)),
             rc_accepted_at = created_at\<rparr>) (\<lambda>_.
     bind (upsert_cursor \<lparr>cu_tenant = tenant_id, cu_channel = channel,
             cu_conversation = conversation, cu_last = n\<rparr>) (\<lambda>_.
     bind (lift_res (bind_res (projection_from_records case_obj revision (map fst evs) None)
             projection_row_of)) (\<lambda>prow.
     bind (insert_projection prow) (\<lambda>_.
     ret \<lparr>ir_disposition = ''accepted'', ir_case = case_id, ir_revision = revision_id,
          ir_events = map (\<lambda>e. py_str (obj_get (fst e) ''event_id'')) evs\<rparr>))))))))))))))))))))"

definition intake_validated ::
  "validators \<Rightarrow> instant \<Rightarrow> obj \<Rightarrow> string \<Rightarrow> ('a ledger_db_scheme, intake_result) action" where
  "intake_validated V now payload tenant_id =
     bind (lift_res (delivery_key tenant_id payload)) (\<lambda>key.
     let fp = fingerprint tenant_id payload in
     tx (rethrow (db_error_as (LedgerIntegrityError ''ledger_write_failed''))
       (bind (query (find_receipt tenant_id key)) (\<lambda>receipt.
          case receipt of
            Some r \<Rightarrow> lift_res (deduplicate r fp)
          | None \<Rightarrow>
              bind (query (check_sequence tenant_id payload)) (\<lambda>in_order.
              bind (lift_res in_order) (\<lambda>_.
              accept_delivery V now tenant_id key fp payload))))))"

definition validate_inbound :: "validators \<Rightarrow> obj \<Rightarrow> string \<Rightarrow> exn + unit" where
  "validate_inbound V envelope effective_tenant_id =
     bind_res (catch_res is_contract_error (\<lambda>_. Inl (IntakeRejected ''invalid_inbound_event''))
         (validate_inbound_message_event V envelope)) (\<lambda>_.
     require (obj_get envelope ''tenant_id'' = JStr effective_tenant_id)
       (IntakeRejected ''tenant_identity_mismatch''))"

definition intake ::
  "validators \<Rightarrow> instant \<Rightarrow> obj \<Rightarrow> string \<Rightarrow> ('a ledger_db_scheme, intake_result) action" where
  "intake V now envelope effective_tenant_id =
     bind (lift_res (validate_inbound V envelope effective_tenant_id)) (\<lambda>_.
     intake_validated V now envelope effective_tenant_id)"

text \<open>A QQ sandbox event, renamed into the internal delivery format.\<close>

definition qq_fields :: "(string \<times> string) list" where
  "qq_fields =
     [(''channel_event_id'', ''inbound_natural_key''), (''conversation_id'', ''conversation_id''),
      (''sender_id'', ''sender_openid_hash''), (''customer_id'', ''customer_id''),
      (''conversation_sequence'', ''gateway_sequence''), (''occurred_at'', ''occurred_at''),
      (''received_at'', ''received_at''), (''correlation_id'', ''correlation_id''),
      (''content_classification'', ''content_classification''),
      (''content_sha256'', ''content_sha256'')]"

definition qq_internal_payload :: "string \<Rightarrow> obj \<Rightarrow> exn + obj" where
  "qq_internal_payload tenant_id payload =
     bind_res (map_res (\<lambda>(k, k'). bind_res (obj_item payload k') (\<lambda>v. Inr (k, v))) qq_fields) (\<lambda>kvs.
     Inr ((''tenant_id'', JStr tenant_id) # (''channel'', JStr ''qq-sandbox'') # kvs))"

definition intake_qq ::
  "validators \<Rightarrow> instant \<Rightarrow> obj \<Rightarrow> string \<Rightarrow> ('a ledger_db_scheme, intake_result) action" where
  "intake_qq V now envelope effective_tenant_id =
     bind (lift_res (catch_res is_contract_error
             (\<lambda>_. Inl (IntakeRejected ''invalid_qq_inbound_event''))
             (validate_qq_sandbox_inbound_event V envelope))) (\<lambda>_.
     bind (lift_res (require (obj_get envelope ''tenant_id'' = JStr effective_tenant_id)
             (IntakeRejected ''tenant_identity_mismatch''))) (\<lambda>_.
     bind (lift_res (qq_internal_payload effective_tenant_id envelope)) (\<lambda>payload.
     intake_validated V now payload effective_tenant_id)))"

definition has_qq_receipt ::
  "obj \<Rightarrow> string \<Rightarrow> 'a ledger_db_scheme \<Rightarrow> exn + bool" where
  "has_qq_receipt envelope effective_tenant_id s =
     bind_res (require (obj_get envelope ''tenant_id'' = JStr effective_tenant_id)
       (IntakeRejected ''tenant_identity_mismatch'')) (\<lambda>_.
     bind_res (obj_item envelope ''inbound_natural_key'') (\<lambda>natural_key.
     bind_res (delivery_key effective_tenant_id
         [(''channel'', JStr ''qq-sandbox''), (''channel_event_id'', natural_key)]) (\<lambda>key.
     Inr (find_receipt effective_tenant_id key s \<noteq> None))))"

end
