(* ===== verification/LedgerRead.thy ===== *)
theory LedgerRead
  imports LedgerIntake
begin

text \<open>
  The read side of \<open>SQLiteCaseLedger\<close> and the rebuild of its read model: every Case projection is
  recomputed from the append-only records, which are checked on the way.
\<close>

section \<open>Rows as payloads\<close>

definition case_obj :: "case_row \<Rightarrow> obj" where
  "case_obj r =
     [(''schema_id'', JStr CASE_SCHEMA_ID), (''schema_version'', JStr ''v1''),
      (''tenant_id'', JStr (ca_tenant r)), (''case_id'', JStr (ca_id r)),
      (''created_at'', JStr (ca_created_at r)), (''source_event_id'', JStr (ca_source r)),
      (''correlation_id'', JStr (ca_correlation r)), (''channel'', JStr (ca_channel r)),
      (''conversation_id'', JStr (ca_conversation r)), (''customer_id'', JStr (ca_customer r))]"

definition revision_obj :: "revision_row \<Rightarrow> obj" where
  "revision_obj r =
     [(''schema_id'', JStr CASE_REVISION_SCHEMA_ID), (''schema_version'', JStr ''v1''),
      (''tenant_id'', JStr (rv_tenant r)), (''case_id'', JStr (rv_case r)),
      (''case_revision_id'', JStr (rv_id r)), (''revision'', JInt (rv_number r)),
      (''previous_case_revision_id'', jopt (rv_previous r)),
      (''created_at'', JStr (rv_created_at r)), (''reason'', JStr (rv_reason r)),
      (''source_event_id'', JStr (rv_source r)),
      (''source_event_fingerprint'', JStr (rv_fingerprint r))]"

definition optional_item :: "string \<Rightarrow> string option \<Rightarrow> obj" where
  "optional_item k v = (case v of None \<Rightarrow> [] | Some s \<Rightarrow> [(k, JStr s)])"

definition event_obj :: "event_row \<Rightarrow> obj" where
  "event_obj r =
     [(''schema_id'', JStr BUSINESS_EVENT_SCHEMA_ID), (''schema_version'', JStr ''v1''),
      (''tenant_id'', JStr (ev_tenant r)), (''event_id'', JStr (ev_id r)),
      (''case_id'', JStr (ev_case r)), (''case_revision_id'', JStr (ev_revision r)),
      (''event_type'', JStr (ev_type r)), (''occurred_at'', JStr (ev_occurred_at r)),
      (''received_at'', JStr (ev_received_at r)), (''correlation_id'', JStr (ev_correlation r)),
      (''causation_id'', jopt (ev_causation r)), (''case_event_index'', JInt (ev_index r)),
      (''payload_sha256'', JStr (ev_sha256 r))] @
     optional_item ''workflow_id'' (ev_workflow r) @
     optional_item ''workflow_checkpoint_id'' (ev_checkpoint r)"

definition projection_obj :: "projection_row \<Rightarrow> obj" where
  "projection_obj r =
     [(''schema_id'', JStr CASE_PROJECTION_SCHEMA_ID), (''schema_version'', JStr ''v1''),
      (''tenant_id'', JStr (pj_tenant r)), (''case_id'', JStr (pj_case r)),
      (''latest_case_revision_id'', JStr (pj_revision r)), (''latest_revision'', JInt (pj_number r)),
      (''state'', JStr (pj_state r)), (''source_event_id'', JStr (pj_source r)),
      (''event_count'', JInt (pj_count r)), (''correlation_id'', JStr (pj_correlation r)),
      (''created_at'', JStr (pj_created_at r)), (''updated_at'', JStr (pj_updated_at r))]"

section \<open>Queries\<close>

definition find_projection ::
  "string \<Rightarrow> string \<Rightarrow> 'a ledger_db_scheme \<Rightarrow> projection_row option" where
  "find_projection tenant_id case_id s =
     first_row (filter (\<lambda>r. pj_tenant r = tenant_id \<and> pj_case r = case_id) (projections s))"

definition case_revisions ::
  "string \<Rightarrow> string \<Rightarrow> 'a ledger_db_scheme \<Rightarrow> revision_row list" where
  "case_revisions tenant_id case_id s =
     sort_key rv_number (filter (\<lambda>r. rv_tenant r = tenant_id \<and> rv_case r = case_id) (revisions s))"

definition case_events :: "string \<Rightarrow> string \<Rightarrow> 'a ledger_db_scheme \<Rightarrow> event_row list" where
  "case_events tenant_id case_id s =
     sort_key ev_index (filter (\<lambda>r. ev_tenant r = tenant_id \<and> ev_case r = case_id) (events s))"

definition case_receipts :: "string \<Rightarrow> string \<Rightarrow> 'a ledger_db_scheme \<Rightarrow> receipt_row list" where
  "case_receipts tenant_id case_id s =
     filter (\<lambda>r. rc_tenant r = tenant_id \<and> rc_case r = case_id) (receipts s)"

definition get_case_projection ::
  "validators \<Rightarrow> string \<Rightarrow> string \<Rightarrow> 'a ledger_db_scheme \<Rightarrow> exn + projection_row option" where
  "get_case_projection V tenant_id case_id s =
     (case find_projection tenant_id case_id s of
        None \<Rightarrow> Inr None
      | Some r \<Rightarrow> bind_res (validate_case_projection V (projection_obj r)) (\<lambda>_. Inr (Some r)))"

definition list_case_revisions ::
  "validators \<Rightarrow> string \<Rightarrow> string \<Rightarrow> 'a ledger_db_scheme \<Rightarrow> exn + revision_row list" where
  "list_case_revisions V tenant_id case_id s =
     (let rows = case_revisions tenant_id case_id s in
      if rows = [] then Inr []
      else bind_res (validate_revision_chain V (map revision_obj rows)) (\<lambda>_. Inr rows))"

definition list_case_events ::
  "validators \<Rightarrow> string \<Rightarrow> string \<Rightarrow> 'a ledger_db_scheme \<Rightarrow> exn + event_row list" where
  "list_case_events V tenant_id case_id s =
     (let rows = case_events tenant_id case_id s in
      bind_res (each_res (validate_generated_ledger_event V \<circ> event_obj) rows) (\<lambda>_. Inr rows))"

text \<open>\<open>source_counts\<close>, in the order of its table list.\<close>

definition source_counts :: "string \<Rightarrow> 'a ledger_db_scheme \<Rightarrow> (string \<times> nat) list" where
  "source_counts tenant_id s =
     [(''inbound_receipts'', length (filter (\<lambda>r. rc_tenant r = tenant_id) (receipts s))),
      (''cases'', length (filter (\<lambda>r. ca_tenant r = tenant_id) (cases s))),
      (''case_revisions'', length (filter (\<lambda>r. rv_tenant r = tenant_id) (revisions s))),
      (''business_events'', length (filter (\<lambda>r. ev_tenant r = tenant_id) (events s))),
      (''case_projection'', length (filter (\<lambda>r. pj_tenant r = tenant_id) (projections s)))]"

section \<open>Rebuild\<close>

definition decode_metadata :: "event_row \<Rightarrow> exn + obj" where
  "decode_metadata r =
     (case ev_metadata r of
        None \<Rightarrow> Inl (ValueError ''JSONDecodeError'')
      | Some v \<Rightarrow> (case v of JObj m \<Rightarrow> Inr m | _ \<Rightarrow> Inl ledger_invalid))"

text \<open>Every event is valid and its index is its position, from 1.\<close>

definition check_indices :: "validators \<Rightarrow> event_row list \<Rightarrow> exn + unit" where
  "check_indices V evs =
     each_res (\<lambda>(i, r).
         bind_res (validate_generated_ledger_event V (event_obj r)) (\<lambda>_.
         require (ev_index r = int i) ledger_invalid)) (zip [1..<Suc (length evs)] evs)"

definition check_initial_metadata ::
  "receipt_row \<Rightarrow> event_row list \<Rightarrow> obj list \<Rightarrow> exn + unit" where
  "check_initial_metadata rc evs ms =
     each_res (\<lambda>(r, m, expected).
         require (obj_eq m expected \<and> canonical_sha256 (JObj m) = ev_sha256 r) ledger_invalid)
       (zip evs (zip ms
         [received_metadata (rc_key rc) (rc_fingerprint rc), created_metadata,
          initial_state_metadata]))"

definition check_metadata_hashes :: "event_row list \<Rightarrow> obj list \<Rightarrow> exn + unit" where
  "check_metadata_hashes evs ms =
     each_res (\<lambda>(r, m). require (canonical_sha256 (JObj m) = ev_sha256 r) ledger_invalid)
       (zip evs ms)"

definition rebuild_case ::
  "validators \<Rightarrow> 'a ledger_db_scheme \<Rightarrow> case_row \<Rightarrow> exn + projection_row" where
  "rebuild_case V s c =
     (let tenant_id = ca_tenant c; case_id = ca_id c;
          rvs = case_revisions tenant_id case_id s;
          evs = case_events tenant_id case_id s;
          rcs = case_receipts tenant_id case_id s in
     bind_res (validate_payload V (case_obj c)) (\<lambda>_.
     bind_res (require (length rvs = 1) ledger_invalid) (\<lambda>_.
     bind_res (validate_revision_chain V (map revision_obj rvs)) (\<lambda>_.
     let rv = hd rvs in
     bind_res (require (rv_number rv = 1 \<and> rv_previous rv = None \<and> rv_source rv = ca_source c)
       ledger_invalid) (\<lambda>_.
     bind_res (map_res decode_metadata evs) (\<lambda>ms.
     bind_res (check_indices V evs) (\<lambda>_.
     bind_res (require (3 \<le> length evs \<and> map ev_type (take 3 evs) = INITIAL_EVENT_TYPES)
       ledger_invalid) (\<lambda>_.
     bind_res (validate_tenant_reference (case_obj c # revision_obj rv # map event_obj evs)) (\<lambda>_.
     bind_res (require (length rcs = 1) ledger_invalid) (\<lambda>_.
     let rc = hd rcs in
     bind_res (require (rc_revision rc = rv_id rv) ledger_invalid) (\<lambda>_.
     bind_res (require (rc_events rc = Some (JList (map (JStr \<circ> ev_id) (take 3 evs))))
       ledger_invalid) (\<lambda>_.
     bind_res (check_initial_metadata rc (take 3 evs) (take 3 ms)) (\<lambda>_.
     bind_res (check_metadata_hashes (drop 3 evs) (drop 3 ms)) (\<lambda>_.
     bind_res (projection_from_records (case_obj c) (revision_obj rv) (map event_obj evs) (Some ms))
       (\<lambda>p.
     bind_res (validate_case_projection V p) (\<lambda>_. projection_row_of p))))))))))))))))"

definition rebuild_case_projection ::
  "validators \<Rightarrow> case_row \<Rightarrow> ('a ledger_db_scheme, unit) action" where
  "rebuild_case_projection V c =
     bind (query (\<lambda>s. rebuild_case V s c)) (\<lambda>p.
     bind (lift_res p) insert_projection)"

fun rebuild_cases :: "validators \<Rightarrow> case_row list \<Rightarrow> ('a ledger_db_scheme, unit) action" where
  "rebuild_cases V [] = ret ()"
| "rebuild_cases V (c # cs) = bind (rebuild_case_projection V c) (\<lambda>_. rebuild_cases V cs)"

type_synonym conversation = "string \<times> string \<times> string"

definition receipt_conversation :: "receipt_row \<Rightarrow> conversation" where
  "receipt_conversation r = (rc_tenant r, rc_channel r, rc_conversation r)"

definition cursor_conversation :: "cursor_row \<Rightarrow> conversation" where
  "cursor_conversation c = (cu_tenant c, cu_channel c, cu_conversation c)"

text \<open>One receipt read in order: the last sequence number of its conversation before and after.\<close>

definition expected_next :: "int option \<Rightarrow> receipt_row \<Rightarrow> exn + int" where
  "expected_next known r =
     (let n = rc_sequence r in
      if rc_channel r = ''qq-sandbox''
      then (if n < 1 then Inl ledger_invalid
            else Inr (max (case known of None \<Rightarrow> 0 | Some l \<Rightarrow> l) n))
      else (case known of
              None \<Rightarrow> if n \<noteq> 1 then Inl ledger_invalid else Inr n
            | Some l \<Rightarrow> if n \<noteq> l + 1 then Inl ledger_invalid else Inr n))"

definition cursor_step ::
  "(conversation \<times> int) list \<Rightarrow> receipt_row \<Rightarrow> exn + (conversation \<times> int) list" where
  "cursor_step expected r =
     bind_res (expected_next (map_of expected (receipt_conversation r)) r)
       (\<lambda>l. Inr (dict_set (receipt_conversation r) l expected))"

definition validate_cursors :: "'a ledger_db_scheme \<Rightarrow> exn + unit" where
  "validate_cursors s =
     bind_res (fold_res cursor_step []
         (sort_key (\<lambda>r. (receipt_conversation r, rc_sequence r)) (receipts s))) (\<lambda>expected.
       require (dict_eq (map (\<lambda>c. (cursor_conversation c, cu_last c)) (cursors s)) expected)
         ledger_invalid)"

text \<open>
  \<open>except (CaseLedgerError, ContractValidationError)\<close> and \<open>except sqlite3.DatabaseError\<close> both
  become \<open>ledger_invalid\<close>; any other exception passes through.
\<close>

definition rebuild_error :: "exn \<Rightarrow> exn" where
  "rebuild_error e = (if is_ledger_error e \<or> is_contract_error e then ledger_invalid
                      else db_error_as ledger_invalid e)"

definition rebuild_projection :: "validators \<Rightarrow> ('a ledger_db_scheme, unit) action" where
  "rebuild_projection V =
     tx (rethrow rebuild_error
       (bind (query (\<lambda>s. case schema_error s of None \<Rightarrow> Inr () | Some r \<Rightarrow> Inl (LedgerIntegrityError r))) (\<lambda>ok.
        bind (lift_res ok) (\<lambda>_.
        bind (modify (\<lambda>s. Inr (s\<lparr>projections := []\<rparr>))) (\<lambda>_.
        bind (query (\<lambda>s. sort_key (\<lambda>c. (ca_tenant c, ca_id c)) (cases s))) (\<lambda>cs.
        bind (rebuild_cases V cs) (\<lambda>_.
        bind (query validate_cursors) lift_res)))))))"

end
