(* ===== verification/LedgerEvents.thy ===== *)
theory LedgerEvents
  imports LedgerRead
begin

text \<open>
  \<open>_append_workflow_state_event\<close>: the internal port by which the durable workflow records a
  transition, already proved by an immutable checkpoint, as a Case event.
\<close>

record transition_fact =
  tf_tenant :: string
  tf_case :: string
  tf_revision :: string
  tf_workflow :: string
  tf_checkpoint :: string
  tf_kind :: string
  tf_from :: string
  tf_to :: string
  tf_resume :: "string option"
  tf_correlation :: string
  tf_occurred_at :: string

definition transition_metadata :: "transition_fact \<Rightarrow> obj" where
  "transition_metadata f =
     [(''from_state'', JStr (tf_from f)), (''resume_state'', jopt (tf_resume f)),
      (''to_state'', JStr (tf_to f)), (''transition_kind'', JStr (tf_kind f))]"

definition find_workflow_event ::
  "transition_fact \<Rightarrow> 'a ledger_db_scheme \<Rightarrow> event_row option" where
  "find_workflow_event f s =
     first_row (filter (\<lambda>r. ev_tenant r = tf_tenant f \<and> ev_case r = tf_case f \<and>
       ev_workflow r = Some (tf_workflow f) \<and> ev_checkpoint r = Some (tf_checkpoint f)) (events s))"

text \<open>\<open>COALESCE(MAX(column), 0) + 1\<close>\<close>

definition next_index :: "int list \<Rightarrow> int" where
  "next_index ns = (if ns = [] then 0 else Max (set ns)) + 1"

definition case_indices :: "string \<Rightarrow> string \<Rightarrow> 'a ledger_db_scheme \<Rightarrow> int list" where
  "case_indices tenant_id case_id s =
     map ev_index (filter (\<lambda>r. ev_tenant r = tenant_id \<and> ev_case r = case_id) (events s))"

definition same_transition :: "transition_fact \<Rightarrow> event_row \<Rightarrow> exn + unit" where
  "same_transition f r =
     (case ev_metadata r of
        None \<Rightarrow> Inl ledger_invalid
      | Some v \<Rightarrow>
          require (ev_type r = WORKFLOW_STATE_EVENT_TYPE \<and>
              (case v of JObj m \<Rightarrow> obj_eq m (transition_metadata f) | _ \<Rightarrow> False) \<and>
              ev_sha256 r = canonical_sha256 (JObj (transition_metadata f)))
            (LedgerIntegrityError ''workflow_event_conflict''))"

definition workflow_event :: "transition_fact \<Rightarrow> int \<Rightarrow> event_row" where
  "workflow_event f n =
     \<lparr>ev_tenant = tf_tenant f, ev_id = make_event_id (tf_case f) WORKFLOW_STATE_EVENT_TYPE n,
      ev_case = tf_case f, ev_revision = tf_revision f, ev_type = WORKFLOW_STATE_EVENT_TYPE,
      ev_occurred_at = tf_occurred_at f, ev_received_at = tf_occurred_at f,
      ev_correlation = tf_correlation f, ev_causation = Some (tf_checkpoint f), ev_index = n,
      ev_sha256 = canonical_sha256 (JObj (transition_metadata f)),
      ev_metadata = Some (JObj (transition_metadata f)), ev_workflow = Some (tf_workflow f),
      ev_checkpoint = Some (tf_checkpoint f)\<rparr>"

definition update_projection ::
  "transition_fact \<Rightarrow> int \<Rightarrow> projection_row \<Rightarrow> projection_row" where
  "update_projection f n p =
     (if pj_tenant p = tf_tenant f \<and> pj_case p = tf_case f
      then p\<lparr>pj_state := tf_to f, pj_count := n, pj_updated_at := tf_occurred_at f\<rparr> else p)"

definition record_transition ::
  "validators \<Rightarrow> transition_fact \<Rightarrow> ('a ledger_db_scheme, string) action" where
  "record_transition V f =
     bind (query (\<lambda>s. next_index (case_indices (tf_tenant f) (tf_case f) s))) (\<lambda>n.
     let e = workflow_event f n in
     bind (lift_res (validate_generated_ledger_event V (event_obj e))) (\<lambda>_.
     bind (lift_res (sql_int (JInt n))) (\<lambda>_.
     bind (insert_event e) (\<lambda>_.
     bind (modify (\<lambda>s. Inr (s\<lparr>projections := map (update_projection f n) (projections s)\<rparr>))) (\<lambda>_.
     ret (ev_id e))))))"

definition required_texts :: "transition_fact \<Rightarrow> string list" where
  "required_texts f =
     [tf_tenant f, tf_case f, tf_revision f, tf_workflow f, tf_checkpoint f, tf_correlation f,
      tf_occurred_at f]"

definition known_revision :: "transition_fact \<Rightarrow> 'a ledger_db_scheme \<Rightarrow> bool" where
  "known_revision f s =
     list_ex (\<lambda>r. rv_tenant r = tf_tenant f \<and> rv_case r = tf_case f \<and> rv_id r = tf_revision f)
       (revisions s)"

definition append_in_tx ::
  "validators \<Rightarrow> transition_fact \<Rightarrow> ('a ledger_db_scheme, string) action" where
  "append_in_tx V f s =
     (case find_projection (tf_tenant f) (tf_case f) s of
        None \<Rightarrow> throw ledger_invalid s
      | Some p \<Rightarrow>
          if \<not> known_revision f s \<or> pj_correlation p \<noteq> tf_correlation f
          then throw ledger_invalid s
          else case find_workflow_event f s of
                 Some r \<Rightarrow> bind (lift_res (same_transition f r)) (\<lambda>_. ret (ev_id r)) s
               | None \<Rightarrow>
                   if pj_state p \<noteq> tf_from f
                   then throw (LedgerIntegrityError ''workflow_event_predecessor_mismatch'') s
                   else record_transition V f s)"

definition append_workflow_state_event ::
  "validators \<Rightarrow> transition_fact \<Rightarrow> ('a ledger_db_scheme, string) action" where
  "append_workflow_state_event V f =
     bind (lift_res (catch_res (\<lambda>_. True) (\<lambda>e. Inl (CaseLedgerError (reason_code e)))
        (validate_transition (tf_from f) (tf_kind f) (tf_to f) (tf_resume f) False))) (\<lambda>_.
     bind (lift_res (require ([] \<notin> set (required_texts f)) (CaseLedgerError ''workflow_event_invalid''))) (\<lambda>_.
     tx (rethrow (db_error_as (LedgerIntegrityError ''ledger_write_failed'')) (append_in_tx V f))))"

end
