(* ===== verification/Recorder.thy ===== *)
theory Recorder
  imports Prelude
begin

text \<open>
  The contract every idempotent write of the program shares: a request is recorded under a
  natural key, a later request under the same key is answered from the retained record and
  changes nothing, a failing request changes nothing, and no request removes a record.  A
  \<open>recorder\<close> also leaves a record after every success; an operation that may succeed without one
  (a refused ticket hand-off) is only \<open>retained\<close>.
\<close>

locale retained =
  fixes submit :: "'q \<Rightarrow> 's \<Rightarrow> (exn + 'r) \<times> 's"
    and slot :: "'q \<Rightarrow> 'k option"
    and stored :: "'k \<Rightarrow> 's \<Rightarrow> 'v option"
    and answer :: "'q \<Rightarrow> 'v \<Rightarrow> exn + 'r"
  assumes replay: "slot q = Some k \<Longrightarrow> stored k s = Some v \<Longrightarrow> submit q s = (answer q v, s)"
    and failed: "submit q s = (Inl e, s') \<Longrightarrow> s' = s"
    and grows: "stored k s = Some v \<Longrightarrow> submit q s = (x, s') \<Longrightarrow> stored k s' = Some v"
begin

fun submit_all :: "'q list \<Rightarrow> 's \<Rightarrow> 's" where
  "submit_all [] s = s"
| "submit_all (q # qs) s = submit_all qs (snd (submit q s))"

lemma submit_all_stored: "stored k s = Some v \<Longrightarrow> stored k (submit_all qs s) = Some v"
proof (induction qs arbitrary: s)
  case (Cons q qs)
  then show ?case by (cases "submit q s") (auto dest: grows)
qed simp

text \<open>A known request is a no-op, whatever came in between and however often it is repeated.\<close>

lemma known_stable:
  assumes "slot q = Some k" and "stored k s = Some v"
  shows "submit q (submit_all qs s) = (answer q v, submit_all qs s)"
  using assms by (blast intro: replay submit_all_stored)

lemma known_repeat:
  assumes "slot q = Some k" and "stored k s = Some v"
  shows "submit_all (replicate n q) s = s"
  using assms by (induction n) (simp_all add: replay)

end

locale recorder = retained +
  assumes records: "submit q s = (Inr r, s') \<Longrightarrow> \<exists>k v. slot q = Some k \<and> stored k s' = Some v"
begin

lemma settled:
  assumes "submit q s = (Inr r, s')"
  obtains k v where "slot q = Some k" "stored k s' = Some v"
    "\<And>q' qs. slot q' = Some k \<Longrightarrow>
       submit q' (submit_all qs s') = (answer q' v, submit_all qs s')"
proof -
  from records [OF assms] obtain k v where "slot q = Some k" "stored k s' = Some v" by blast
  with that show thesis by (blast intro: replay submit_all_stored)
qed

end

end
