(* ===== verification/IntakeFacts.thy ===== *)
theory IntakeFacts
  imports LedgerEvents Recorder
begin

text \<open>
  What a successful intake does to the store, and the interpretation of the recording contract on
  intake: deliveries are recorded under their delivery key.
\<close>

lemma bind_inv: "bind m f s = (Inr b, t) \<Longrightarrow> (\<And>a s'. m s = (Inr a, s') \<Longrightarrow> f a s' = (Inr b, t) \<Longrightarrow> P) \<Longrightarrow> P"
  by (auto simp: bind_eq_Inr)

lemma insert_ok:
  "insert_case c s = (Inr u, s') \<longleftrightarrow>
     (\<forall>x\<in>set (cases s). \<not> case_clash c x) \<and> s' = s\<lparr>cases := cases s @ [c]\<rparr>"
  "insert_revision r s = (Inr u, s') \<longleftrightarrow>
     (\<forall>x\<in>set (revisions s). \<not> revision_clash r x) \<and> s' = s\<lparr>revisions := revisions s @ [r]\<rparr>"
  "insert_event e s = (Inr u, s') \<longleftrightarrow>
     (\<forall>x\<in>set (events s). \<not> event_clash e x) \<and> s' = s\<lparr>events := events s @ [e]\<rparr>"
  "insert_receipt q s = (Inr u, s') \<longleftrightarrow>
     (\<forall>x\<in>set (receipts s). \<not> receipt_clash q x) \<and> s' = s\<lparr>receipts := receipts s @ [q]\<rparr>"
  "insert_projection p s = (Inr u, s') \<longleftrightarrow>
     (\<forall>x\<in>set (projections s). \<not> projection_clash p x) \<and>
     s' = s\<lparr>projections := projections s @ [p]\<rparr>"
  by (auto simp: insert_case_def insert_revision_def insert_event_def insert_receipt_def
      insert_projection_def)

lemma insert_events_unit:
  "insert_events es s = (Inr (), s') \<longleftrightarrow>
     (\<forall>e\<in>set es. \<forall>x\<in>set (events s). \<not> event_clash e x) \<and>
     sorted_wrt (\<lambda>a b. \<not> event_clash b a) es \<and> s' = s\<lparr>events := events s @ es\<rparr>"
proof (induction es arbitrary: s)
  case (Cons e es)
  show ?case
    by (auto simp: bind_eq_Inr insert_ok Cons)
qed (auto simp: ret_def)

lemma insert_events_ok:
  "insert_events es s = (Inr u, s') \<longleftrightarrow>
     (\<forall>e\<in>set es. \<forall>x\<in>set (events s). \<not> event_clash e x) \<and>
     sorted_wrt (\<lambda>a b. \<not> event_clash b a) es \<and> s' = s\<lparr>events := events s @ es\<rparr>"
  using insert_events_unit [of es s s'] by simp

lemma upsert_cursor_ok:
  "upsert_cursor c s = (Inr u, s') \<longleftrightarrow> s' = s\<lparr>cursors := upsert_rows c (cursors s)\<rparr>"
  by (auto simp: upsert_cursor_def)

text \<open>The receipt a delivery leaves.\<close>

definition receipt_of ::
  "instant \<Rightarrow> string \<Rightarrow> string \<Rightarrow> string \<Rightarrow> string \<Rightarrow> string \<Rightarrow> int \<Rightarrow> receipt_row" where
  "receipt_of now tenant_id key fp channel conversation n =
     (let case_id = make_case_id tenant_id key in
      \<lparr>rc_tenant = tenant_id, rc_key = key, rc_fingerprint = fp, rc_channel = channel,
       rc_conversation = conversation, rc_sequence = n, rc_case = case_id,
       rc_revision = make_revision_id case_id,
       rc_events = Some (JList (map (\<lambda>(i, t). JStr (make_event_id case_id t i))
         (zip [1, 2, 3] INITIAL_EVENT_TYPES))),
       rc_accepted_at = timestamp now\<rparr>)"

definition accepted_result :: "string \<Rightarrow> string \<Rightarrow> intake_result" where
  "accepted_result tenant_id key =
     (let case_id = make_case_id tenant_id key in
      \<lparr>ir_disposition = ''accepted'', ir_case = case_id, ir_revision = make_revision_id case_id,
       ir_events = map (\<lambda>(i, t). make_event_id case_id t i) (zip [1, 2, 3] INITIAL_EVENT_TYPES)\<rparr>)"

lemma initial_events_ids:
  "initial_events t c rv key fp p created = Inr evs \<Longrightarrow>
   map (\<lambda>e. obj_get (fst e) ''event_id'') evs =
     map (\<lambda>(i, ty). JStr (make_event_id c ty i)) (zip [1, 2, 3] INITIAL_EVENT_TYPES)"
  by (auto simp: initial_events_def new_event_def INITIAL_EVENT_TYPES_def)

lemma initial_events_ids':
  "initial_events t c rv key fp p created = Inr evs \<Longrightarrow>
   map (\<lambda>e. py_str (obj_get (fst e) ''event_id'')) evs =
     map (\<lambda>(i, ty). make_event_id c ty i) (zip [1, 2, 3] INITIAL_EVENT_TYPES)"
  by (auto simp: initial_events_def new_event_def INITIAL_EVENT_TYPES_def py_str_def)

text \<open>The store after an accepted delivery.\<close>

definition accepted_store ::
  "case_row \<Rightarrow> revision_row \<Rightarrow> event_row list \<Rightarrow> receipt_row \<Rightarrow> projection_row
    \<Rightarrow> 'a ledger_db_scheme \<Rightarrow> 'a ledger_db_scheme" where
  "accepted_store c rv es rc pj s =
     s\<lparr>cases := cases s @ [c], revisions := revisions s @ [rv], events := events s @ es,
       receipts := receipts s @ [rc], cursors := upsert_rows
         \<lparr>cu_tenant = rc_tenant rc, cu_channel = rc_channel rc,
          cu_conversation = rc_conversation rc, cu_last = rc_sequence rc\<rparr> (cursors s),
       projections := projections s @ [pj]\<rparr>"

lemma accept_delivery_ok:
  assumes "accept_delivery V now t key fp p s = (Inr r, s')"
  obtains c rv evs crow rrow erows ch co n prow where
    "new_case t (make_case_id t key) (timestamp now) p = Inr c"
    "new_revision t (make_case_id t key) (make_revision_id (make_case_id t key)) (timestamp now) fp p = Inr rv"
    "validate_payload V c = Inr ()" "validate_payload V rv = Inr ()"
    "initial_events t (make_case_id t key) (make_revision_id (make_case_id t key)) key fp p
       (timestamp now) = Inr evs"
    "\<forall>e\<in>set evs. validate_generated_ledger_event V (fst e) = Inr ()"
    "case_row_of c = Inr crow" "\<forall>x\<in>set (cases s). \<not> case_clash crow x"
    "revision_row_of rv = Inr rrow" "\<forall>x\<in>set (revisions s). \<not> revision_clash rrow x"
    "map_res event_row_of evs = Inr erows"
    "\<forall>e\<in>set erows. \<forall>x\<in>set (events s). \<not> event_clash e x"
    "sorted_wrt (\<lambda>a b. \<not> event_clash b a) erows"
    "sql_text (obj_get p ''channel'') = Inr ch" "sql_text (obj_get p ''conversation_id'') = Inr co"
    "sql_int (obj_get p ''conversation_sequence'') = Inr n"
    "\<forall>x\<in>set (receipts s). \<not> receipt_clash (receipt_of now t key fp ch co n) x"
    "bind_res (projection_from_records c rv (map fst evs) None) projection_row_of = Inr prow"
    "\<forall>x\<in>set (projections s). \<not> projection_clash prow x"
    "s' = accepted_store crow rrow erows (receipt_of now t key fp ch co n) prow s"
    "r = accepted_result t key"
proof -
  from assms show thesis
    unfolding accept_delivery_def Let_def
    apply (elim bind_inv)
    apply (simp only: lift_res_apply insert_ok insert_events_ok upsert_cursor_ok
        ret_apply sum.inject prod.inject)
    apply (elim conjE)
    apply hypsubst
    apply (rule that)
                      apply assumption+
    apply (simp_all add: receipt_of_def accepted_result_def accepted_store_def Let_def
        initial_events_ids initial_events_ids')
    done
qed

lemma deduplicate_error: "deduplicate r fp = Inl e \<Longrightarrow> db_error_as e' e = e"
  by (auto simp: deduplicate_def split: if_splits option.splits json.splits)
    (simp add: db_error_as_def)

lemma intake_known:
  assumes "delivery_key t p = Inr key" and "find_receipt t key s = Some r"
  shows "intake_validated V now p t s = (deduplicate r (fingerprint t p), s)"
  using assms
  by (auto simp: intake_validated_def Let_def tx_def rethrow_def split: sum.splits
      dest: deduplicate_error)

lemma intake_failed: "intake_validated V now p t s = (Inl e, s') \<Longrightarrow> s' = s"
  by (cases "delivery_key t p") (auto simp: intake_validated_def Let_def dest: tx_error_unchanged)

lemma intake_cases:
  assumes "intake_validated V now p t s = (Inr r, s')"
  obtains (known) key q where "delivery_key t p = Inr key" "find_receipt t key s = Some q"
      "deduplicate q (fingerprint t p) = Inr r" "s' = s"
    | (new) key where "delivery_key t p = Inr key" "find_receipt t key s = None"
      "check_sequence t p s = Inr ()" "accept_delivery V now t key (fingerprint t p) p s = (Inr r, s')"
proof (cases "delivery_key t p")
  case (Inl e)
  with assms show thesis by (simp add: intake_validated_def)
next
  case (Inr key)
  show thesis
  proof (cases "find_receipt t key s")
    case None
    with Inr assms have "check_sequence t p s = Inr ()"
      "accept_delivery V now t key (fingerprint t p) p s = (Inr r, s')"
      by (simp_all add: intake_validated_def Let_def bind_eq_Inr)
    with Inr None show thesis by (rule new)
  next
    case (Some q)
    with Inr assms have "deduplicate q (fingerprint t p) = Inr r" "s' = s"
      by (simp_all add: intake_validated_def Let_def)
    with Inr Some show thesis by (rule known)
  qed
qed

lemma find_receipt_accepted_store [simp]:
  "find_receipt t k (accepted_store c rv es rc pj s) =
     (case find_receipt t k s of
        Some r \<Rightarrow> Some r
      | None \<Rightarrow> if rc_tenant rc = t \<and> rc_key rc = k then Some rc else None)"
  by (auto simp: find_receipt_def accepted_store_def first_row_append split: option.splits)

lemma receipt_of_fields [simp]:
  "rc_tenant (receipt_of now t k fp ch co n) = t" "rc_key (receipt_of now t k fp ch co n) = k"
  "rc_fingerprint (receipt_of now t k fp ch co n) = fp"
  "rc_channel (receipt_of now t k fp ch co n) = ch"
  "rc_conversation (receipt_of now t k fp ch co n) = co"
  "rc_sequence (receipt_of now t k fp ch co n) = n"
  "rc_case (receipt_of now t k fp ch co n) = make_case_id t k"
  "rc_revision (receipt_of now t k fp ch co n) = make_revision_id (make_case_id t k)"
  by (simp_all add: receipt_of_def Let_def)

text \<open>A new receipt answers with the identities the accepting intake returned.\<close>

lemma deduplicate_receipt_of:
  "deduplicate (receipt_of now t key fp ch co n) fp =
     Inr (accepted_result t key\<lparr>ir_disposition := ''deduplicated''\<rparr>)"
  by (simp add: deduplicate_def receipt_of_def accepted_result_def INITIAL_EVENT_TYPES_def Let_def
      is_jstr_def py_str_def)

lemma deduplicate_disposition: "deduplicate q fp = Inr r \<Longrightarrow> ir_disposition r = ''deduplicated''"
  by (auto simp: deduplicate_def split: if_splits option.splits json.splits)

lemma intake_recorded:
  assumes "intake_validated V now p t s = (Inr r, s')"
  obtains key q where "delivery_key t p = Inr key" "find_receipt t key s' = Some q"
    "deduplicate q (fingerprint t p) = Inr (r\<lparr>ir_disposition := ''deduplicated''\<rparr>)"
  using assms
proof (cases rule: intake_cases)
  case (known key q)
  then have "r\<lparr>ir_disposition := ''deduplicated''\<rparr> = r"
    using deduplicate_disposition [of q _ r] by (cases r) simp
  with known that show thesis by simp
next
  case (new key)
  then show thesis
    by (elim accept_delivery_ok) (rule that, auto simp: deduplicate_receipt_of)
qed

lemma intake_keeps_receipt:
  assumes "intake_validated V now p t s = (x, s')" and "find_receipt t' k s = Some q"
  shows "find_receipt t' k s' = Some q"
proof (cases x)
  case (Inl e)
  with assms show ?thesis by (auto dest: intake_failed)
next
  case (Inr r)
  with assms(1) have "intake_validated V now p t s = (Inr r, s')" by simp
  then show ?thesis
  proof (cases rule: intake_cases)
    case new
    then show ?thesis by (elim accept_delivery_ok) (simp add: assms(2))
  qed (simp add: assms(2))
qed

section \<open>The recording contract on intake\<close>

type_synonym delivery = "instant \<times> obj \<times> string"

definition submit_delivery ::
  "validators \<Rightarrow> delivery \<Rightarrow> 'a ledger_db_scheme \<Rightarrow> (exn + intake_result) \<times> 'a ledger_db_scheme" where
  "submit_delivery V q s = (case q of (now, p, t) \<Rightarrow> intake_validated V now p t s)"

definition delivery_slot :: "delivery \<Rightarrow> (string \<times> string) option" where
  "delivery_slot q = (case q of (now, p, t) \<Rightarrow>
     case delivery_key t p of Inl _ \<Rightarrow> None | Inr k \<Rightarrow> Some (t, k))"

definition stored_receipt :: "string \<times> string \<Rightarrow> 'a ledger_db_scheme \<Rightarrow> receipt_row option" where
  "stored_receipt k s = find_receipt (fst k) (snd k) s"

definition receipt_answer :: "delivery \<Rightarrow> receipt_row \<Rightarrow> exn + intake_result" where
  "receipt_answer q r = (case q of (now, p, t) \<Rightarrow> deduplicate r (fingerprint t p))"

interpretation intake_log: recorder "submit_delivery V" delivery_slot stored_receipt receipt_answer
  for V
proof unfold_locales
  fix q k s v
  show "delivery_slot q = Some k \<Longrightarrow> stored_receipt k s = Some v \<Longrightarrow>
      submit_delivery V q s = (receipt_answer q v, s)"
    by (auto simp: delivery_slot_def stored_receipt_def submit_delivery_def receipt_answer_def
        intake_known split: prod.splits sum.splits)
next
  fix q s e s'
  show "submit_delivery V q s = (Inl e, s') \<Longrightarrow> s' = s"
    by (auto simp: submit_delivery_def split: prod.splits dest: intake_failed)
next
  fix k s v q x s'
  show "stored_receipt k s = Some v \<Longrightarrow> submit_delivery V q s = (x, s') \<Longrightarrow>
      stored_receipt k s' = Some v"
    by (auto simp: stored_receipt_def submit_delivery_def split: prod.splits
        intro: intake_keeps_receipt)
next
  fix q s r s'
  show "submit_delivery V q s = (Inr r, s') \<Longrightarrow>
      \<exists>k v. delivery_slot q = Some k \<and> stored_receipt k s' = Some v"
    by (cases q) (force simp: submit_delivery_def delivery_slot_def stored_receipt_def
        elim!: intake_recorded)
qed

section \<open>Properties of intake\<close>

text \<open>
  C16.  Intake is exactly-once per delivery.  A failing intake changes nothing.  After a successful
  one, whatever deliveries \<open>qs\<close> of whatever tenants arrive next, the same payload answers with the
  same Case, revision and event identities as \<open>deduplicated\<close>, at any later time, and changes nothing.
\<close>

theorem intake_exactly_once:
  "case intake_validated V now p t s of
     (Inl e, s1) \<Rightarrow> s1 = s
   | (Inr r, s1) \<Rightarrow>
       (let s2 = intake_log.submit_all V qs s1 in
        intake_validated V now' p t s2 = (Inr (r\<lparr>ir_disposition := ''deduplicated''\<rparr>), s2))"
proof (cases "intake_validated V now p t s")
  case (Pair x s1)
  show ?thesis
  proof (cases x)
    case (Inl e)
    with Pair show ?thesis by (auto dest: intake_failed)
  next
    case (Inr r)
    with Pair have "intake_validated V now p t s = (Inr r, s1)" by simp
    then obtain key q where q: "delivery_key t p = Inr key" "find_receipt t key s1 = Some q"
      "deduplicate q (fingerprint t p) = Inr (r\<lparr>ir_disposition := ''deduplicated''\<rparr>)"
      by (rule intake_recorded)
    let ?s2 = "intake_log.submit_all V qs s1"
    from q(2) have "find_receipt t key ?s2 = Some q"
      using intake_log.submit_all_stored [of "(t, key)" s1 q V qs] by (simp add: stored_receipt_def)
    with q have "intake_validated V now' p t ?s2 =
        (Inr (r\<lparr>ir_disposition := ''deduplicated''\<rparr>), ?s2)"
      by (simp add: intake_known)
    with Pair Inr show ?thesis by simp
  qed
qed

text \<open>
  C19.  A key that has been used once is closed to any other content: a payload under the same
  delivery key with another fingerprint is rejected as a conflict after any further deliveries, and
  the store is unchanged.
\<close>

theorem intake_conflict_rejected:
  assumes "delivery_key t p = Inr key" and "find_receipt t key s = Some q"
    and "fingerprint t p \<noteq> rc_fingerprint q"
  shows "intake_validated V now p t (intake_log.submit_all V qs s) =
    (Inl (IntakeRejected ''inbound_event_conflict''), intake_log.submit_all V qs s)"
proof -
  from assms(2) have "find_receipt t key (intake_log.submit_all V qs s) = Some q"
    using intake_log.submit_all_stored [of "(t, key)" s q V qs] by (simp add: stored_receipt_def)
  with assms show ?thesis by (simp add: intake_known deduplicate_def)
qed

end
