(* ===== verification/CursorFacts.thy ===== *)
theory CursorFacts
  imports IntakeFacts "HOL-Library.Multiset"
begin

text \<open>
  The conversation cursors agree with the receipts: the check of \<open>_validate_cursors\<close>, split by
  conversation, and why an accepted delivery keeps it.
\<close>

fun last_known :: "int option \<Rightarrow> receipt_row list \<Rightarrow> int option option" where
  "last_known l [] = Some l"
| "last_known l (r # rs) =
     (case expected_next l r of Inl _ \<Rightarrow> None | Inr n \<Rightarrow> last_known (Some n) rs)"

definition conversation_receipts :: "conversation \<Rightarrow> receipt_row list \<Rightarrow> receipt_row list" where
  "conversation_receipts k rs = filter (\<lambda>r. receipt_conversation r = k) rs"

definition cursor_map :: "cursor_row list \<Rightarrow> conversation \<Rightarrow> int option" where
  "cursor_map cs = map_of (map (\<lambda>c. (cursor_conversation c, cu_last c)) cs)"

lemma last_known_append:
  "last_known l (xs @ ys) = (case last_known l xs of None \<Rightarrow> None | Some l' \<Rightarrow> last_known l' ys)"
  by (induction xs arbitrary: l) (auto split: sum.splits)

lemma cursor_map_simps [simp]:
  "cursor_map [] = Map.empty"
  "cursor_map (c # cs) = (cursor_map cs)(cursor_conversation c \<mapsto> cu_last c)"
  by (simp_all add: cursor_map_def)

lemma cursor_map_append: "cursor_map (cs @ ds) = cursor_map ds ++ cursor_map cs"
  by (simp add: cursor_map_def)

text \<open>The scan over all receipts is one scan per conversation.\<close>

lemma scan_split:
  "(\<exists>d'. fold_res cursor_step d rs = Inr d' \<and> map_of d' = m) \<longleftrightarrow>
     (\<forall>k. last_known (map_of d k) (conversation_receipts k rs) = Some (m k))"
proof (induction rs arbitrary: d)
  case Nil
  show ?case by (auto simp: conversation_receipts_def fun_eq_iff)
next
  case (Cons r rs)
  let ?k = "receipt_conversation r"
  have keep: "conversation_receipts k (r # rs) =
      (if k = ?k then r # conversation_receipts k rs else conversation_receipts k rs)" for k
    by (auto simp: conversation_receipts_def)
  show ?case
  proof (cases "expected_next (map_of d ?k) r")
    case (Inl e)
    then have "last_known (map_of d ?k) (conversation_receipts ?k (r # rs)) = None"
      by (simp add: keep)
    then have "\<not> (\<forall>k. last_known (map_of d k) (conversation_receipts k (r # rs)) = Some (m k))"
      by (metis option.distinct(1))
    moreover from Inl have "cursor_step d r = Inl e" by (simp add: cursor_step_def)
    ultimately show ?thesis by simp
  next
    case (Inr l)
    then have step: "cursor_step d r = Inr (dict_set ?k l d)" by (simp add: cursor_step_def)
    have "last_known (map_of d k) (conversation_receipts k (r # rs)) =
        last_known (map_of (dict_set ?k l d) k) (conversation_receipts k rs)" for k
      using Inr by (simp add: keep)
    with Cons [of "dict_set ?k l d"] step show ?thesis by simp
  qed
qed

lemma sort_key_fixed_first:
  "(\<And>x. x \<in> set xs \<Longrightarrow> c x = k) \<Longrightarrow> sort_key (\<lambda>x. (c x, n x)) xs = sort_key n xs"
proof (induction xs)
  case (Cons x xs)
  have "insort_key (\<lambda>x. (c x, n x)) y ys = insort_key n y ys"
    if "\<forall>z\<in>set (y # ys). c z = k" for y ys
    using that by (induction ys) auto
  with Cons show ?case by simp
qed simp

lemma validate_cursors_iff:
  "validate_cursors s = Inr () \<longleftrightarrow>
     (\<forall>k. last_known None (sort_key rc_sequence (conversation_receipts k (receipts s))) =
       Some (cursor_map (cursors s) k))"
proof -
  let ?rs = "sort_key (\<lambda>r. (receipt_conversation r, rc_sequence r)) (receipts s)"
  have one: "conversation_receipts k ?rs =
      sort_key rc_sequence (conversation_receipts k (receipts s))" for k
    unfolding conversation_receipts_def filter_sort
    by (rule sort_key_fixed_first) auto
  have "validate_cursors s = Inr () \<longleftrightarrow>
      (\<exists>d. fold_res cursor_step [] ?rs = Inr d \<and> map_of d = cursor_map (cursors s))"
    by (auto simp: validate_cursors_def dict_eq_iff cursor_map_def)
  then show ?thesis by (simp add: scan_split one)
qed

section \<open>One conversation\<close>

text \<open>On an ordinary channel the sequence numbers are consecutive, so none exceeds the last.\<close>

lemma last_known_bound:
  assumes "\<forall>r\<in>set rs. rc_channel r \<noteq> ''qq-sandbox''" and "last_known l rs = Some l'"
  shows "(\<forall>r\<in>set rs. case l' of None \<Rightarrow> False | Some n \<Rightarrow> rc_sequence r \<le> n) \<and>
    (\<forall>n. l = Some n \<longrightarrow> (\<exists>n'. l' = Some n' \<and> n \<le> n'))"
  using assms
proof (induction rs arbitrary: l)
  case (Cons r rs)
  then obtain n where n: "expected_next l r = Inr n" "last_known (Some n) rs = Some l'"
    by (auto split: sum.splits)
  with Cons have IH: "\<forall>r\<in>set rs. case l' of None \<Rightarrow> False | Some n \<Rightarrow> rc_sequence r \<le> n"
    "\<exists>n'. l' = Some n' \<and> n \<le> n'" by auto
  from n(1) Cons.prems(1) have "rc_sequence r = n" "\<forall>m. l = Some m \<longrightarrow> n = m + 1"
    by (auto simp: expected_next_def Let_def split: option.splits if_splits)
  with IH show ?case by auto
qed simp

text \<open>On the QQ channel only the largest number counts.\<close>

lemma last_known_qq:
  assumes "\<forall>r\<in>set rs. rc_channel r = ''qq-sandbox''"
  shows "last_known l rs =
    (if \<forall>r\<in>set rs. 1 \<le> rc_sequence r
     then Some (if rs = [] then l
                else Some (Max (insert (case l of None \<Rightarrow> 0 | Some n \<Rightarrow> n) (rc_sequence ` set rs))))
     else None)"
  using assms
proof (induction rs arbitrary: l)
  case (Cons r rs)
  show ?case
  proof (cases "1 \<le> rc_sequence r")
    case True
    with Cons.prems have "expected_next l r = Inr (max (case l of None \<Rightarrow> 0 | Some n \<Rightarrow> n) (rc_sequence r))"
      by (simp add: expected_next_def)
    with Cons True show ?thesis
      by (cases "rs = []") (auto simp: max.assoc)
  next
    case False
    with Cons.prems have "expected_next l r = Inl ledger_invalid" by (simp add: expected_next_def)
    with False show ?thesis by simp
  qed
qed simp

lemma last_known_qq_sort:
  assumes "\<forall>r\<in>set rs. rc_channel r = ''qq-sandbox''"
  shows "last_known None (sort_key rc_sequence rs) =
    (if \<forall>r\<in>set rs. 1 \<le> rc_sequence r
     then Some (if rs = [] then None else Some (Max (insert 0 (rc_sequence ` set rs)))) else None)"
proof -
  have "sort_key rc_sequence rs = [] \<longleftrightarrow> rs = []" by (metis length_0_conv length_sort)
  with assms show ?thesis by (simp add: last_known_qq)
qed

lemma cursor_map_upsert:
  "cursor_map (upsert_rows c cs) =
     (cursor_map cs)(cursor_conversation c \<mapsto>
       (case cursor_map cs (cursor_conversation c) of
          None \<Rightarrow> cu_last c
        | Some l \<Rightarrow> if cu_channel c = ''qq-sandbox'' then max l (cu_last c) else cu_last c))"
proof -
  let ?f = "\<lambda>d. if same_cursor c d then advance_cursor c d else d"
  have same: "same_cursor c d \<longleftrightarrow> cursor_conversation d = cursor_conversation c" for d
    by (auto simp: same_cursor_def cursor_conversation_def)
  have adv: "cursor_conversation (advance_cursor c d) = cursor_conversation d"
    "cu_last (advance_cursor c d) =
       (if cu_channel c = ''qq-sandbox'' then max (cu_last d) (cu_last c) else cu_last c)" for d
    by (simp_all add: cursor_conversation_def advance_cursor_def)
  have map: "cursor_map (map ?f ds) k =
      (if k = cursor_conversation c
       then map_option (\<lambda>l. if cu_channel c = ''qq-sandbox'' then max l (cu_last c) else cu_last c)
              (cursor_map ds k)
       else cursor_map ds k)" for ds k
    by (induction ds) (auto simp: adv same)
  show ?thesis
  proof (cases "list_ex (same_cursor c) cs")
    case True
    then have "cursor_map cs (cursor_conversation c) \<noteq> None"
      by (induction cs) (auto simp: same)
    with True show ?thesis by (auto simp: upsert_rows_def map fun_eq_iff)
  next
    case False
    then have "cursor_map cs (cursor_conversation c) = None"
      by (induction cs) (auto simp: same)
    with False show ?thesis
      by (auto simp: upsert_rows_def fun_eq_iff cursor_map_append map_add_def split: option.splits)
  qed
qed

text \<open>A receipt in order extends the scan of its conversation by exactly the cursor update.\<close>

lemma validate_cursors_accept:
  assumes ok: "validate_cursors s = Inr ()"
    and order: "sequence_in_order (rc_channel rc = ''qq-sandbox'')
      (cursor_map (cursors s) (receipt_conversation rc)) (rc_sequence rc)"
  shows "validate_cursors (accepted_store c rv es rc pj s) = Inr ()"
  unfolding validate_cursors_iff
proof
  fix k
  let ?n = "rc_sequence rc" and ?old = "conversation_receipts k (receipts s)"
  let ?cu = "\<lparr>cu_tenant = rc_tenant rc, cu_channel = rc_channel rc,
    cu_conversation = rc_conversation rc, cu_last = ?n\<rparr>"
  have conv: "cursor_conversation ?cu = receipt_conversation rc"
    by (simp add: cursor_conversation_def receipt_conversation_def)
  from ok have old: "last_known None (sort_key rc_sequence ?old) = Some (cursor_map (cursors s) k)"
    unfolding validate_cursors_iff by blast
  show "last_known None (sort_key rc_sequence
      (conversation_receipts k (receipts (accepted_store c rv es rc pj s)))) =
      Some (cursor_map (cursors (accepted_store c rv es rc pj s)) k)"
  proof (cases "k = receipt_conversation rc")
    case False
    with old show ?thesis
      by (simp add: accepted_store_def cursor_map_upsert conv conversation_receipts_def)
  next
    case True
    have new: "conversation_receipts k (receipts (accepted_store c rv es rc pj s)) = ?old @ [rc]"
      using True by (simp add: accepted_store_def conversation_receipts_def)
    have channel: "rc_channel r = rc_channel rc" if "r \<in> set ?old" for r
      using that True by (simp add: conversation_receipts_def receipt_conversation_def)
    have cursor: "cursor_map (cursors (accepted_store c rv es rc pj s)) k =
        Some (case cursor_map (cursors s) k of
            None \<Rightarrow> ?n
          | Some l \<Rightarrow> if rc_channel rc = ''qq-sandbox'' then max l ?n else ?n)"
      by (simp add: accepted_store_def cursor_map_upsert conv True split: option.splits)
    show ?thesis
    proof (cases "rc_channel rc = ''qq-sandbox''")
      case qq: True
      with channel have all: "\<forall>r\<in>set ?old. rc_channel r = ''qq-sandbox''" by simp
      from order qq have pos: "1 \<le> ?n" by (simp add: sequence_in_order_def)
      from old all have seqs: "\<forall>r\<in>set ?old. 1 \<le> rc_sequence r"
        and known: "cursor_map (cursors s) k =
          (if ?old = [] then None else Some (Max (insert 0 (rc_sequence ` set ?old))))"
        by (simp_all add: last_known_qq_sort split: if_splits)
      have "last_known None (sort_key rc_sequence (?old @ [rc])) =
          Some (Some (Max (insert 0 (insert ?n (rc_sequence ` set ?old)))))"
        using all qq seqs pos by (simp add: last_known_qq_sort)
      also have "Max (insert 0 (insert ?n (rc_sequence ` set ?old))) =
          (case cursor_map (cursors s) k of None \<Rightarrow> ?n | Some l \<Rightarrow> max l ?n)"
        using pos by (simp add: known insert_commute [of 0 ?n] max.commute)
      finally show ?thesis using qq by (simp add: new cursor split: option.splits)
    next
      case ordinary: False
      with channel have all: "\<forall>r\<in>set (sort_key rc_sequence ?old). rc_channel r \<noteq> ''qq-sandbox''"
        by simp
      have nxt: "expected_next (cursor_map (cursors s) k) rc = Inr ?n"
        using order ordinary True
        by (auto simp: expected_next_def sequence_in_order_def split: option.splits)
      have le: "rc_sequence r \<le> ?n" if "r \<in> set ?old" for r
        using last_known_bound [OF all old] that order ordinary True
        by (fastforce simp: sequence_in_order_def split: option.splits)
      show ?thesis
        unfolding new cursor using ordinary
        by (simp add: sort_key_snoc le last_known_append old nxt split: option.splits)
    qed
  qed
qed

end
