(* ===== verification/LedgerFacts.thy ===== *)
theory LedgerFacts
  imports CursorFacts
begin

text \<open>
  The read model of the ledger agrees with its append-only records: the invariant
  \<open>read_model_ok\<close>, what it gives for \<open>rebuild_projection\<close>, and that every operation keeps it.
\<close>

type_synonym case_key = "string \<times> string"

definition case_key :: "case_row \<Rightarrow> case_key" where "case_key c = (ca_tenant c, ca_id c)"

definition projection_key :: "projection_row \<Rightarrow> case_key" where
  "projection_key p = (pj_tenant p, pj_case p)"

definition referenced_cases :: "'a ledger_db_scheme \<Rightarrow> case_key set" where
  "referenced_cases s =
     (\<lambda>r. (rv_tenant r, rv_case r)) ` set (revisions s) \<union>
     (\<lambda>r. (ev_tenant r, ev_case r)) ` set (events s) \<union>
     (\<lambda>r. (rc_tenant r, rc_case r)) ` set (receipts s) \<union>
     projection_key ` set (projections s)"

definition case_projections :: "case_key \<Rightarrow> 'a ledger_db_scheme \<Rightarrow> projection_row list" where
  "case_projections k s = filter (\<lambda>p. projection_key p = k) (projections s)"

definition projection_texts :: "projection_row \<Rightarrow> string list" where
  "projection_texts p =
     [pj_tenant p, pj_case p, pj_revision p, pj_source p, pj_correlation p, pj_created_at p,
      pj_updated_at p]"

definition well_formed_projection :: "projection_row \<Rightarrow> bool" where
  "well_formed_projection p \<longleftrightarrow> list_all (\<lambda>x. x \<noteq> []) (projection_texts p) \<and> pj_number p = 1 \<and>
     3 \<le> pj_count p \<and> pj_count p < 2 ^ 63 \<and> pj_state p \<in> WORKFLOW_STATES"

definition read_model_ok :: "validators \<Rightarrow> 'a ledger_db_scheme \<Rightarrow> bool" where
  "read_model_ok V s \<longleftrightarrow>
     distinct (map case_key (cases s)) \<and> referenced_cases s \<subseteq> case_key ` set (cases s) \<and>
     (\<forall>c\<in>set (cases s). \<exists>p. rebuild_case V s c = Inr p \<and> well_formed_projection p \<and>
        case_projections (case_key c) s = [p]) \<and>
     validate_cursors s = Inr () \<and> schema_error s = None"

lemma find_projection_alt:
  "find_projection t c s = first_row (case_projections (t, c) s)"
  by (simp add: find_projection_def case_projections_def projection_key_def)

section \<open>Rebuilding\<close>

lemma rebuild_case_projections [simp]:
  "rebuild_case V (s\<lparr>projections := ps\<rparr>) c = rebuild_case V s c"
  by (simp add: rebuild_case_def case_revisions_def case_events_def case_receipts_def)

lemma projection_row_of_key:
  assumes "projection_from_records (case_obj c) rv evs ms = Inr p" and "projection_row_of p = Inr r"
  shows "projection_key r = case_key c"
  using assms
  by (auto simp: projection_from_records_def projection_row_of_def case_obj_def projection_key_def
      case_key_def split: if_splits option.splits)

lemma rebuild_case_key: "rebuild_case V s c = Inr p \<Longrightarrow> projection_key p = case_key c"
  by (auto simp: rebuild_case_def Let_def dest: projection_row_of_key)

lemma insert_projection_fresh:
  assumes "projection_key p \<notin> projection_key ` set (projections s)"
  shows "insert_projection p s = (Inr (), s\<lparr>projections := projections s @ [p]\<rparr>)"
  using assms by (auto simp: insert_ok projection_clash_def projection_key_def)

lemma rebuild_cases_ok:
  assumes "\<forall>c\<in>set cs. rebuild_case V s c = Inr (f c)" and "distinct (map case_key cs)"
    and "projection_key ` set ps \<inter> case_key ` set cs = {}"
  shows "rebuild_cases V cs (s\<lparr>projections := ps\<rparr>) = (Inr (), s\<lparr>projections := ps @ map f cs\<rparr>)"
  using assms
proof (induction cs arbitrary: ps)
  case (Cons c cs)
  from Cons.prems(1) have key: "projection_key (f c) = case_key c"
    by (auto dest: rebuild_case_key)
  with Cons.prems have "insert_projection (f c) (s\<lparr>projections := ps\<rparr>) =
      (Inr (), s\<lparr>projections := ps @ [f c]\<rparr>)"
    by (subst insert_projection_fresh) auto
  moreover from Cons.prems key have
    "rebuild_cases V cs (s\<lparr>projections := ps @ [f c]\<rparr>) =
       (Inr (), s\<lparr>projections := (ps @ [f c]) @ map f cs\<rparr>)"
    by (intro Cons.IH) auto
  ultimately show ?case
    using Cons.prems by (simp add: rebuild_case_projection_def bind_def)
qed simp

lemma validate_cursors_projections [simp]:
  "validate_cursors (s\<lparr>projections := ps\<rparr>) = validate_cursors s"
  by (simp add: validate_cursors_def)

text \<open>The rebuild succeeds and every Case keeps its projection.\<close>

lemma rebuild_agrees:
  assumes "read_model_ok V s"
  obtains s' where "rebuild_projection V s = (Inr (), s')"
    "\<And>k. case_projections k s' = case_projections k s" "\<exists>ps. s' = s\<lparr>projections := ps\<rparr>"
    "set (projections s') \<subseteq> set (projections s)"
proof -
  let ?cs = "sort_key (\<lambda>c. (ca_tenant c, ca_id c)) (cases s)"
  from assms obtain f where f: "\<forall>c\<in>set (cases s). rebuild_case V s c = Inr (f c) \<and>
      well_formed_projection (f c) \<and> case_projections (case_key c) s = [f c]"
    unfolding read_model_ok_def by metis
  from assms have d: "distinct (map case_key (cases s))" and r: "referenced_cases s \<subseteq> case_key ` set (cases s)"
    by (simp_all add: read_model_ok_def)
  have d': "distinct (map case_key ?cs)"
    using d by (simp add: distinct_map)
  let ?s' = "s\<lparr>projections := map f ?cs\<rparr>"
  have "rebuild_cases V ?cs (s\<lparr>projections := []\<rparr>) = (Inr (), s\<lparr>projections := [] @ map f ?cs\<rparr>)"
  proof (rule rebuild_cases_ok [OF _ d'])
    show "\<forall>c\<in>set ?cs. rebuild_case V s c = Inr (f c)" using f by simp
  qed simp
  then have run: "rebuild_projection V s = (Inr (), ?s')"
    using assms by (simp add: rebuild_projection_def tx_def rethrow_def bind_def modify_def
        read_model_ok_def)
  have fk: "projection_key (f x) = case_key x" if "x \<in> set (cases s)" for x
    using f that rebuild_case_key by blast
  have keep: "case_projections k ?s' = case_projections k s" for k
  proof (cases "k \<in> case_key ` set (cases s)")
    case True
    then obtain c where c: "c \<in> set (cases s)" "k = case_key c" by auto
    have "filter (\<lambda>x. case_key x = case_key c) ?cs = [c]"
      using d' c by (intro filter_eq_single) auto
    moreover have "filter (\<lambda>x. projection_key (f x) = case_key c) ?cs =
        filter (\<lambda>x. case_key x = case_key c) ?cs"
      using fk by (intro filter_cong) auto
    ultimately have "case_projections k ?s' = [f c]"
      using c by (simp add: case_projections_def filter_map comp_def)
    with f c show ?thesis by simp
  next
    case False
    moreover from r have "\<forall>p\<in>set (projections s). projection_key p \<in> case_key ` set (cases s)"
      by (auto simp: referenced_cases_def)
    ultimately have "case_projections k s = []"
      by (auto simp: case_projections_def filter_empty_conv)
    moreover have "case_projections k ?s' = []"
      using False fk by (auto simp: case_projections_def filter_empty_conv)
    ultimately show ?thesis by simp
  qed
  have "set (projections ?s') \<subseteq> set (projections s)"
  proof
    fix p assume "p \<in> set (projections ?s')"
    then obtain c where "c \<in> set (cases s)" "p = f c" by auto
    with f have "p \<in> set (case_projections (case_key c) s)" by simp
    then show "p \<in> set (projections s)" by (simp add: case_projections_def)
  qed
  with run keep that show thesis by blast
qed

section \<open>What a rebuilt Case looks like\<close>

definition project :: "case_row \<Rightarrow> revision_row \<Rightarrow> event_row list \<Rightarrow> string \<Rightarrow> projection_row" where
  "project c rv es state =
     \<lparr>pj_tenant = ca_tenant c, pj_case = ca_id c, pj_revision = rv_id rv, pj_number = rv_number rv,
      pj_state = state, pj_source = ca_source c, pj_count = int (length es),
      pj_correlation = ca_correlation c, pj_created_at = ca_created_at c,
      pj_updated_at = ev_occurred_at (last es)\<rparr>"

definition case_consistent ::
  "validators \<Rightarrow> case_row \<Rightarrow> revision_row \<Rightarrow> receipt_row \<Rightarrow> event_row list \<Rightarrow> obj list \<Rightarrow> string
    \<Rightarrow> bool" where
  "case_consistent V c rv rc es ms state \<longleftrightarrow>
     validate_payload V (case_obj c) = Inr () \<and>
     validate_revision_chain V [revision_obj rv] = Inr () \<and>
     rv_number rv = 1 \<and> rv_previous rv = None \<and> rv_source rv = ca_source c \<and>
     map_res decode_metadata es = Inr ms \<and>
     (\<forall>i<length es. validate_generated_ledger_event V (event_obj (es ! i)) = Inr () \<and>
        ev_index (es ! i) = int (Suc i)) \<and>
     3 \<le> length es \<and> map ev_type (take 3 es) = INITIAL_EVENT_TYPES \<and>
     validate_tenant_reference (case_obj c # revision_obj rv # map event_obj es) = Inr () \<and>
     rc_revision rc = rv_id rv \<and>
     rc_events rc = Some (JList (map (JStr \<circ> ev_id) (take 3 es))) \<and>
     check_initial_metadata rc (take 3 es) (take 3 ms) = Inr () \<and>
     check_metadata_hashes (drop 3 es) (drop 3 ms) = Inr () \<and>
     fold_res projection_step INITIAL_CASE_STATE (zip (map event_obj (drop 3 es)) (drop 3 ms)) =
       Inr state"

lemma event_obj_type [simp]: "obj_get (event_obj e) ''event_type'' = JStr (ev_type e)"
  by (simp add: event_obj_def)

lemma event_obj_occurred [simp]: "obj_get (event_obj e) ''occurred_at'' = JStr (ev_occurred_at e)"
  by (simp add: event_obj_def)

lemma projection_from_rows:
  assumes "3 \<le> length es" and "map ev_type (take 3 es) = INITIAL_EVENT_TYPES"
    and "length ms = length es"
  shows "projection_from_records (case_obj c) (revision_obj rv) (map event_obj es) (Some ms) =
     bind_res (fold_res projection_step INITIAL_CASE_STATE (zip (map event_obj (drop 3 es)) (drop 3 ms)))
       (\<lambda>state. Inr (projection_obj (project c rv es state)))"
proof -
  have "map (\<lambda>e. obj_get e ''event_type'') (take 3 (map event_obj es)) = map JStr INITIAL_EVENT_TYPES"
    unfolding assms(2) [symmetric] by (simp add: take_map)
  moreover have "obj_get (last (map event_obj es)) ''occurred_at'' = JStr (ev_occurred_at (last es))"
    using assms(1) by (subst last_map) auto
  ultimately show ?thesis
    using assms by (simp add: projection_from_records_def drop_map case_obj_def revision_obj_def
        projection_obj_def project_def)
qed

lemma py_int_JInt [simp]: "py_int (JInt n) = Inr n"
  by (simp add: py_int_def)

lemma sql_int_JInt: "sql_int (JInt n) = (if - (2 ^ 63) \<le> n \<and> n < 2 ^ 63 then Inr n
    else Inl (OverflowError ''Python int too large to convert to SQLite INTEGER''))"
  by (simp add: sql_int_def)

lemma row_of_obj:
  "case_row_of (case_obj c) = Inr c"
  "rv_number rv = 1 \<Longrightarrow> revision_row_of (revision_obj rv) = Inr rv"
  "1 \<le> ev_index e \<Longrightarrow> ev_index e < 2 ^ 63 \<Longrightarrow>
     event_row_of (event_obj e, m) = Inr (e\<lparr>ev_metadata := Some (JObj m)\<rparr>)"
  "pj_number p = 1 \<Longrightarrow> 1 \<le> pj_count p \<Longrightarrow>
     projection_row_of (projection_obj p) =
       (if pj_count p < 2 ^ 63 then Inr p
        else Inl (OverflowError ''Python int too large to convert to SQLite INTEGER''))"
  by (simp_all add: case_row_of_def case_obj_def revision_row_of_def revision_obj_def
      event_row_of_def event_obj_def projection_row_of_def projection_obj_def sql_int_JInt
      optional_item_def jopt_def split: option.splits)

lemma index_check:
  "check_indices V es = Inr u \<longleftrightarrow>
   (\<forall>i<length es. validate_generated_ledger_event V (event_obj (es ! i)) = Inr () \<and>
      ev_index (es ! i) = int (Suc i))"
proof -
  have "check_indices V es = Inr u \<longleftrightarrow>
      (\<forall>i<length es. (\<lambda>(i, r). bind_res (validate_generated_ledger_event V (event_obj r)) (\<lambda>_.
         require (ev_index r = int i) ledger_invalid)) (zip [1..<Suc (length es)] es ! i) = Inr ())"
    by (simp add: check_indices_def all_set_conv_all_nth del: upt_Suc)
  then show ?thesis by (simp del: upt_Suc)
qed

lemma project_fields [simp]:
  "pj_number (project c rv es state) = rv_number rv" "pj_count (project c rv es state) = int (length es)"
  "pj_state (project c rv es state) = state"
  by (simp_all add: project_def)

lemma rebuild_case_iff:
  "rebuild_case V s c = Inr p \<longleftrightarrow>
     (\<exists>rv rc ms state. case_revisions (ca_tenant c) (ca_id c) s = [rv] \<and>
        case_receipts (ca_tenant c) (ca_id c) s = [rc] \<and>
        case_consistent V c rv rc (case_events (ca_tenant c) (ca_id c) s) ms state \<and>
        p = project c rv (case_events (ca_tenant c) (ca_id c) s) state \<and>
        validate_case_projection V (projection_obj p) = Inr () \<and> pj_count p < 2 ^ 63)"
  (is "?lhs \<longleftrightarrow> ?rhs")
proof
  let ?es = "case_events (ca_tenant c) (ca_id c) s"
  assume ?lhs
  then obtain rv rc ms where lists: "case_revisions (ca_tenant c) (ca_id c) s = [rv]"
      "case_receipts (ca_tenant c) (ca_id c) s = [rc]" and ms: "map_res decode_metadata ?es = Inr ms"
    by (auto simp: rebuild_case_def Let_def length_Suc_conv)
  with \<open>?lhs\<close> show ?rhs
    by (auto simp: rebuild_case_def Let_def index_check projection_from_rows map_res_length
        case_consistent_def row_of_obj split: if_splits
        simp del: upt_Suc)
next
  assume ?rhs
  then show ?lhs 
    by (auto simp: rebuild_case_def Let_def index_check projection_from_rows map_res_length
        case_consistent_def row_of_obj simp del: upt_Suc)
qed

end
