(* ===== verification/LedgerInvariant.thy ===== *)
theory LedgerInvariant
  imports LedgerFacts
begin

text \<open>
  Every operation of the ledger keeps the agreement of the read model with the records, so it
  holds in every store the operations can reach from an empty file.
\<close>

section \<open>What the schemas give\<close>

text \<open>
  The two facts on the JSON Schemas of \<open>contracts/jsonschema/v1\<close> the invariant rests on: an
  accepted delivery has non-empty string fields and an integer sequence number
  (\<open>inbound-message-event\<close>, \<open>qq-sandbox-inbound-event\<close>), and a projection whose texts are non-empty
  and whose state is a known one is accepted (\<open>case-projection\<close>).
\<close>

definition text_field :: "obj \<Rightarrow> string \<Rightarrow> bool" where
  "text_field p k = (case obj_get p k of JStr s \<Rightarrow> s \<noteq> [] | _ \<Rightarrow> False)"

definition int_field :: "obj \<Rightarrow> string \<Rightarrow> bool" where
  "int_field p k = (case obj_get p k of JInt n \<Rightarrow> True | _ \<Rightarrow> False)"

definition typed_delivery :: "obj \<Rightarrow> bool" where
  "typed_delivery p \<longleftrightarrow>
     list_all (text_field p)
       [''channel'', ''channel_event_id'', ''conversation_id'', ''customer_id'', ''occurred_at'',
        ''received_at'', ''correlation_id''] \<and>
     int_field p ''conversation_sequence''"

definition accepts_projections :: "validators \<Rightarrow> bool" where
  "accepts_projections V \<longleftrightarrow>
     (\<forall>p. well_formed_projection p \<longrightarrow> validate_case_projection V (projection_obj p) = Inr ())"

definition types_deliveries :: "validators \<Rightarrow> bool" where
  "types_deliveries V \<longleftrightarrow>
     (\<forall>p. validate_inbound_message_event V p = Inr () \<longrightarrow> typed_delivery p \<and> text_field p ''tenant_id'') \<and>
     (\<forall>p. validate_qq_sandbox_inbound_event V p = Inr () \<longrightarrow>
        list_all (text_field p)
          [''tenant_id'', ''inbound_natural_key'', ''conversation_id'', ''customer_id'',
           ''occurred_at'', ''received_at'', ''correlation_id''] \<and>
        int_field p ''gateway_sequence'')"

definition text_of :: "obj \<Rightarrow> string \<Rightarrow> string" where
  "text_of p k = py_str (obj_get p k)"

lemma text_fieldD: "text_field p k \<Longrightarrow> obj_get p k = JStr (text_of p k) \<and> text_of p k \<noteq> []"
  by (auto simp: text_field_def text_of_def py_str_def split: json.splits)

lemma typed_delivery_texts:
  assumes "typed_delivery p"
    and "k \<in> {''channel'', ''channel_event_id'', ''conversation_id'', ''customer_id'', ''occurred_at'',
        ''received_at'', ''correlation_id''}"
  shows "obj_get p k = JStr (text_of p k)" and "obj_item p k = Inr (JStr (text_of p k))"
    and "text_of p k \<noteq> []"
proof -
  from assms have "text_field p k" by (auto simp: typed_delivery_def)
  from text_fieldD [OF this] show "obj_get p k = JStr (text_of p k)" "text_of p k \<noteq> []"
    "obj_item p k = Inr (JStr (text_of p k))" by (simp_all add: obj_item_str)
qed

section \<open>The rows of an accepted delivery\<close>

definition delivered_case :: "string \<Rightarrow> string \<Rightarrow> string \<Rightarrow> obj \<Rightarrow> case_row" where
  "delivered_case t cid ts p =
     \<lparr>ca_tenant = t, ca_id = cid, ca_created_at = ts, ca_source = text_of p ''channel_event_id'',
      ca_correlation = text_of p ''correlation_id'', ca_channel = text_of p ''channel'',
      ca_conversation = text_of p ''conversation_id'', ca_customer = text_of p ''customer_id''\<rparr>"

definition delivered_revision :: "string \<Rightarrow> string \<Rightarrow> string \<Rightarrow> string \<Rightarrow> obj \<Rightarrow> revision_row" where
  "delivered_revision t cid ts fp p =
     \<lparr>rv_tenant = t, rv_id = make_revision_id cid, rv_case = cid, rv_number = 1, rv_previous = None,
      rv_created_at = ts, rv_reason = ''initial-capture'',
      rv_source = text_of p ''channel_event_id'', rv_fingerprint = fp\<rparr>"

definition delivered_event ::
  "string \<Rightarrow> string \<Rightarrow> obj \<Rightarrow> int \<times> string \<times> string \<times> string \<times> string option \<times> obj \<Rightarrow> event_row" where
  "delivered_event t cid p d =
     (case d of (i, ty, occurred, received, causation, m) \<Rightarrow>
       \<lparr>ev_tenant = t, ev_id = make_event_id cid ty i, ev_case = cid,
        ev_revision = make_revision_id cid, ev_type = ty, ev_occurred_at = occurred,
        ev_received_at = received, ev_correlation = text_of p ''correlation_id'',
        ev_causation = causation, ev_index = i, ev_sha256 = canonical_sha256 (JObj m),
        ev_metadata = Some (JObj m), ev_workflow = None, ev_checkpoint = None\<rparr>)"

definition delivered_events ::
  "string \<Rightarrow> string \<Rightarrow> string \<Rightarrow> string \<Rightarrow> string \<Rightarrow> obj \<Rightarrow> event_row list" where
  "delivered_events t cid key fp ts p =
     map (delivered_event t cid p)
       [(1, INBOUND_RECEIVED, text_of p ''occurred_at'', text_of p ''received_at'', None,
         received_metadata key fp),
        (2, REVISION_CREATED, ts, ts, Some (make_event_id cid INBOUND_RECEIVED 1), created_metadata),
        (3, STATE_TRANSITIONED, ts, ts, Some (make_event_id cid REVISION_CREATED 2),
         initial_state_metadata)]"

definition delivered_metadata :: "string \<Rightarrow> string \<Rightarrow> obj list" where
  "delivered_metadata key fp = [received_metadata key fp, created_metadata, initial_state_metadata]"

lemma new_records:
  assumes p: "typed_delivery p"
  shows "new_case t cid ts p = Inr (case_obj (delivered_case t cid ts p))"
    and "new_revision t cid (make_revision_id cid) ts fp p =
      Inr (revision_obj (delivered_revision t cid ts fp p))"
    and "initial_events t cid (make_revision_id cid) key fp p ts =
      Inr (zip (map event_obj (delivered_events t cid key fp ts p)) (delivered_metadata key fp))"
  using typed_delivery_texts [OF p]
  by (simp_all add: new_case_def case_obj_def delivered_case_def new_revision_def revision_obj_def
      delivered_revision_def initial_events_def new_event_def event_obj_def delivered_events_def
      delivered_event_def delivered_metadata_def jopt_def optional_item_def py_str_def)

lemma delivered_rows:
  "map_res event_row_of (zip (map event_obj (delivered_events t cid key fp ts p))
       (delivered_metadata key fp)) = Inr (delivered_events t cid key fp ts p)"
  by (simp add: delivered_events_def delivered_metadata_def row_of_obj delivered_event_def)

lemma delivered_types: "map ev_type (take 3 (delivered_events t cid key fp ts p)) = INITIAL_EVENT_TYPES"
  by (simp add: delivered_events_def delivered_event_def INITIAL_EVENT_TYPES_def)

lemma length_delivered [simp]:
  "length (delivered_events t cid key fp ts p) = 3" "length (delivered_metadata key fp) = 3"
  by (simp_all add: delivered_events_def delivered_metadata_def)

lemma projection_initial:
  assumes "length es = 3" and "map ev_type (take 3 es) = INITIAL_EVENT_TYPES"
  shows "projection_from_records (case_obj c) (revision_obj rv) (map event_obj es) None =
    Inr (projection_obj (project c rv es INITIAL_CASE_STATE))"
proof -
  have "map (\<lambda>e. obj_get e ''event_type'') (take 3 (map event_obj es)) = map JStr INITIAL_EVENT_TYPES"
    unfolding assms(2) [symmetric] by (simp add: take_map)
  moreover have "obj_get (last (map event_obj es)) ''occurred_at'' = JStr (ev_occurred_at (last es))"
    using assms(1) by (subst last_map) auto
  ultimately show ?thesis
    using assms(1) by (simp add: projection_from_records_def case_obj_def revision_obj_def
        projection_obj_def project_def)
qed

lemma projection_initial_row:
  assumes "length es = 3" and "map ev_type (take 3 es) = INITIAL_EVENT_TYPES" and "rv_number rv = 1"
  shows "bind_res (projection_from_records (case_obj c) (revision_obj rv) (map event_obj es) None)
      projection_row_of = Inr (project c rv es INITIAL_CASE_STATE)"
  using assms by (simp add: projection_initial row_of_obj)

text \<open>An accepted delivery, with its rows spelled out.\<close>

lemma accept_typed:
  assumes p: "typed_delivery p" and run: "accept_delivery V now t key fp p s = (Inr r, s')"
  defines "cid \<equiv> make_case_id t key" and "ts \<equiv> timestamp now"
  defines "c \<equiv> delivered_case t cid ts p" and "rv \<equiv> delivered_revision t cid ts fp p"
    and "es \<equiv> delivered_events t cid key fp ts p"
  obtains n where
    "s' = accepted_store c rv es
       (receipt_of now t key fp (text_of p ''channel'') (text_of p ''conversation_id'') n)
       (project c rv es INITIAL_CASE_STATE) s"
    "obj_get p ''conversation_sequence'' = JInt n"
    "validate_payload V (case_obj c) = Inr ()" "validate_payload V (revision_obj rv) = Inr ()"
    "\<forall>e\<in>set es. validate_generated_ledger_event V (event_obj e) = Inr ()"
    "\<forall>x\<in>set (cases s). \<not> case_clash c x"
proof -
  have seq: "\<exists>n. obj_get p ''conversation_sequence'' = JInt n"
    using p by (auto simp: typed_delivery_def int_field_def split: json.splits)
  note texts = typed_delivery_texts [OF p]
  note records = new_records [OF p, folded cid_def ts_def]
  have zip: "map fst (zip (map event_obj es) (delivered_metadata key fp)) = map event_obj es"
    by (simp add: es_def)
  have mem: "set (map fst (zip (map event_obj es) (delivered_metadata key fp))) = event_obj ` set es"
    unfolding zip by simp
  have first: "bind_res (projection_from_records (case_obj c) (revision_obj rv) (map event_obj es) None)
      projection_row_of = Inr (project c rv es INITIAL_CASE_STATE)"
    unfolding es_def
    by (rule projection_initial_row [OF _ delivered_types]) (simp_all add: rv_def delivered_revision_def)
  from run show thesis
  proof (rule accept_delivery_ok, fold cid_def ts_def, goal_cases)
    case (1 c' rv' evs crow rrow erows ch co n prow)
    then have c': "c' = case_obj c" "rv' = revision_obj rv"
      "evs = zip (map event_obj es) (delivered_metadata key fp)"
      by (simp_all add: records c_def rv_def es_def)
    have rows: "crow = c" "rrow = rv" "erows = es"
      using 1(7,9,11) by (simp_all add: c' row_of_obj es_def delivered_rows)
        (simp add: rv_def delivered_revision_def row_of_obj)
    have cc: "ch = text_of p ''channel''" "co = text_of p ''conversation_id''"
      using 1(14,15) by (simp_all add: texts)
    have pr: "prow = project c rv es INITIAL_CASE_STATE"
      using 1(18) first by (simp add: c' zip del: bind_res_eq_Inr)
    from seq 1(16) have n: "obj_get p ''conversation_sequence'' = JInt n"
      by (auto simp: sql_int_JInt split: if_splits)
    have evs: "\<forall>e\<in>set es. validate_generated_ledger_event V (event_obj e) = Inr ()"
    proof
      fix e assume "e \<in> set es"
      then have "event_obj e \<in> fst ` set evs" using mem by (simp add: c')
      with 1(6) show "validate_generated_ledger_event V (event_obj e) = Inr ()" by auto
    qed
    from that [OF _ n _ _ evs] 1 show ?case
      by (simp add: c' rows cc pr)
  qed
qed

section \<open>Intake keeps the agreement\<close>

lemma tenant_reference_ok:
  assumes "\<forall>r\<in>set rs. obj_get r ''tenant_id'' = JStr t" and "rs \<noteq> []" and "t \<noteq> []"
  shows "validate_tenant_reference rs = Inr ()"
proof -
  have "set (map (\<lambda>r. obj_get r ''tenant_id'') rs) = {JStr t}"
    using assms by (cases rs) auto
  then show ?thesis
    using assms(3) by (simp add: validate_tenant_reference_def length_remdups_card_conv)
qed

lemma tenant_fields [simp]:
  "obj_get (case_obj c) ''tenant_id'' = JStr (ca_tenant c)"
  "obj_get (revision_obj rv) ''tenant_id'' = JStr (rv_tenant rv)"
  "obj_get (event_obj e) ''tenant_id'' = JStr (ev_tenant e)"
  by (simp_all add: case_obj_def revision_obj_def event_obj_def)

lemma revision_chain_first:
  assumes "validate_payload V (revision_obj rv) = Inr ()" and "rv_number rv = 1"
    and "rv_previous rv = None"
  shows "validate_revision_chain V [revision_obj rv] = Inr ()"
  using assms
  by (simp add: validate_revision_chain_def revision_step_def revision_obj_def jopt_def)

lemma timestamp_nonempty [simp]: "timestamp now \<noteq> []"
  by (simp add: timestamp_def Let_def)

lemma make_ids_nonempty [simp]: "make_case_id t key \<noteq> []" "make_revision_id c \<noteq> []"
  by (simp_all add: make_case_id_def make_revision_id_def)

lemma initial_state_known: "INITIAL_CASE_STATE \<in> WORKFLOW_STATES"
  by (simp add: WORKFLOW_STATES_def)

lemma delivered_projection:
  assumes "typed_delivery p" and "t \<noteq> []"
  shows "well_formed_projection (project (delivered_case t (make_case_id t key) (timestamp now) p)
      (delivered_revision t (make_case_id t key) (timestamp now) fp p)
      (delivered_events t (make_case_id t key) key fp (timestamp now) p) INITIAL_CASE_STATE)"
  using assms typed_delivery_texts(3) [OF assms(1)] initial_state_known
  by (simp add: well_formed_projection_def projection_texts_def project_def delivered_case_def
      delivered_revision_def)
    (simp add: delivered_events_def delivered_event_def)

lemma delivered_consistent:
  assumes "validate_payload V (case_obj (delivered_case t cid ts p)) = Inr ()"
    and "validate_payload V (revision_obj (delivered_revision t cid ts fp p)) = Inr ()"
    and "\<forall>e\<in>set (delivered_events t cid key fp ts p).
      validate_generated_ledger_event V (event_obj e) = Inr ()"
    and "t \<noteq> []" and "cid = make_case_id t key"
  shows "case_consistent V (delivered_case t cid ts p) (delivered_revision t cid ts fp p)
    (receipt_of now t key fp ch co n) (delivered_events t cid key fp ts p)
    (delivered_metadata key fp) INITIAL_CASE_STATE"
proof -
  have idx: "i < 3 \<Longrightarrow> i = 0 \<or> i = 1 \<or> i = (2::nat)" for i by arith
  let ?es = "delivered_events t cid key fp ts p"
  have "\<forall>i<length ?es. validate_generated_ledger_event V (event_obj (?es ! i)) = Inr () \<and>
      ev_index (?es ! i) = int (Suc i)"
  proof (intro allI impI conjI)
    fix i assume i: "i < length ?es"
    with assms(3) show "validate_generated_ledger_event V (event_obj (?es ! i)) = Inr ()" by simp
    from i idx [of i] show "ev_index (?es ! i) = int (Suc i)"
      by (auto simp: delivered_events_def delivered_event_def)
  qed
  moreover have "map_res decode_metadata ?es = Inr (delivered_metadata key fp)"
    by (simp add: delivered_events_def delivered_event_def delivered_metadata_def decode_metadata_def)
  moreover have "validate_tenant_reference (case_obj (delivered_case t cid ts p) #
      revision_obj (delivered_revision t cid ts fp p) # map event_obj ?es) = Inr ()"
    using assms(4) by (intro tenant_reference_ok [where t = t])
      (auto simp: delivered_case_def delivered_revision_def delivered_events_def delivered_event_def)
  moreover have "validate_revision_chain V [revision_obj (delivered_revision t cid ts fp p)] = Inr ()"
    using assms(2) by (intro revision_chain_first) (simp_all add: delivered_revision_def)
  moreover have "rc_events (receipt_of now t key fp ch co n) =
      Some (JList (map (JStr \<circ> ev_id) (take 3 ?es)))"
    using assms(5) by (simp add: receipt_of_def INITIAL_EVENT_TYPES_def delivered_events_def
        delivered_event_def Let_def)
  moreover have "check_initial_metadata (receipt_of now t key fp ch co n) (take 3 ?es)
      (take 3 (delivered_metadata key fp)) = Inr ()"
    by (simp add: check_initial_metadata_def delivered_events_def delivered_event_def
        delivered_metadata_def)
  ultimately show ?thesis
    using assms(1,5) delivered_types [of t cid key fp ts p]
    by (simp add: case_consistent_def check_metadata_hashes_def delivered_case_def
        delivered_revision_def)
qed

lemma accepted_store_fields [simp]:
  "cases (accepted_store c rv es rc pj s) = cases s @ [c]"
  "revisions (accepted_store c rv es rc pj s) = revisions s @ [rv]"
  "events (accepted_store c rv es rc pj s) = events s @ es"
  "receipts (accepted_store c rv es rc pj s) = receipts s @ [rc]"
  "projections (accepted_store c rv es rc pj s) = projections s @ [pj]"
  "schema_error (accepted_store c rv es rc pj s) = schema_error s"
  by (simp_all add: accepted_store_def)

lemma accepted_store_queries:
  "case_revisions t cid (accepted_store c rv es rc pj s) =
     sort_key rv_number (filter (\<lambda>r. rv_tenant r = t \<and> rv_case r = cid) (revisions s @ [rv]))"
  "case_events t cid (accepted_store c rv es rc pj s) =
     sort_key ev_index (filter (\<lambda>r. ev_tenant r = t \<and> ev_case r = cid) (events s @ es))"
  "case_receipts t cid (accepted_store c rv es rc pj s) =
     filter (\<lambda>r. rc_tenant r = t \<and> rc_case r = cid) (receipts s @ [rc])"
  "case_projections k (accepted_store c rv es rc pj s) =
     filter (\<lambda>p. projection_key p = k) (projections s @ [pj])"
  by (simp_all add: case_revisions_def case_events_def case_receipts_def
      case_projections_def)

lemma unreferenced_empty:
  assumes "k \<notin> referenced_cases s" and "k = (t, cid)"
  shows "filter (\<lambda>r. rv_tenant r = t \<and> rv_case r = cid) (revisions s) = []"
    and "filter (\<lambda>r. ev_tenant r = t \<and> ev_case r = cid) (events s) = []"
    and "filter (\<lambda>r. rc_tenant r = t \<and> rc_case r = cid) (receipts s) = []"
    and "filter (\<lambda>p. projection_key p = k) (projections s) = []"
  using assms by (force simp: referenced_cases_def filter_empty_conv)+

lemma rebuild_case_cong:
  assumes "case_events (ca_tenant c) (ca_id c) s' = case_events (ca_tenant c) (ca_id c) s"
    and "case_revisions (ca_tenant c) (ca_id c) s' = case_revisions (ca_tenant c) (ca_id c) s"
    and "case_receipts (ca_tenant c) (ca_id c) s' = case_receipts (ca_tenant c) (ca_id c) s"
  shows "rebuild_case V s' c = rebuild_case V s c"
  unfolding rebuild_case_def Let_def assms ..

lemma last_sequence_cursor:
  "last_sequence t (Some ch) (Some co) s = cursor_map (cursors s) (t, ch, co)"
proof -
  have "map_option cu_last (first_row (filter (\<lambda>c. cu_tenant c = t \<and> Some (cu_channel c) = Some ch \<and>
      Some (cu_conversation c) = Some co) cs)) = cursor_map cs (t, ch, co)" for cs
    by (induction cs) (auto simp: cursor_conversation_def)
  then show ?thesis by (simp add: last_sequence_def)
qed

lemma accept_keeps:
  assumes V: "accepts_projections V" and inv: "read_model_ok V s" and p: "typed_delivery p"
    and t: "t \<noteq> []" and order: "check_sequence t p s = Inr ()"
    and run: "accept_delivery V now t key fp p s = (Inr r, s')"
  shows "read_model_ok V s'"
proof -
  let ?cid = "make_case_id t key" and ?ts = "timestamp now"
  let ?c = "delivered_case t ?cid ?ts p" and ?rv = "delivered_revision t ?cid ?ts fp p"
    and ?es = "delivered_events t ?cid key fp ?ts p"
  let ?pj = "project ?c ?rv ?es INITIAL_CASE_STATE"
  from p run obtain n where s': "s' = accepted_store ?c ?rv ?es
       (receipt_of now t key fp (text_of p ''channel'') (text_of p ''conversation_id'') n) ?pj s"
    and n: "obj_get p ''conversation_sequence'' = JInt n"
    and valid: "validate_payload V (case_obj ?c) = Inr ()" "validate_payload V (revision_obj ?rv) = Inr ()"
    "\<forall>e\<in>set ?es. validate_generated_ledger_event V (event_obj e) = Inr ()"
    and fresh: "\<forall>x\<in>set (cases s). \<not> case_clash ?c x"
    by (rule accept_typed)
  let ?rc = "receipt_of now t key fp (text_of p ''channel'') (text_of p ''conversation_id'') n"
  let ?k = "(t, ?cid)"
  from fresh have new: "?k \<notin> case_key ` set (cases s)"
    by (force simp: case_clash_def case_key_def delivered_case_def)
  with inv have unref: "?k \<notin> referenced_cases s" by (auto simp: read_model_ok_def)
  note empty = unreferenced_empty [OF unref refl]
  have keys: "case_key ?c = ?k" "rv_tenant ?rv = t" "rv_case ?rv = ?cid" "projection_key ?pj = ?k"
    "\<forall>e\<in>set ?es. ev_tenant e = t \<and> ev_case e = ?cid"
    by (simp_all add: case_key_def delivered_case_def delivered_revision_def projection_key_def
        project_def delivered_events_def delivered_event_def)
  have pjs: "well_formed_projection ?pj" using p t by (rule delivered_projection)
  have this_case: "rebuild_case V s' ?c = Inr ?pj"
  proof -
    have "filter (\<lambda>r. ev_tenant r = t \<and> ev_case r = ?cid) ?es = ?es"
      using keys(5) by (simp add: filter_id_conv)
    moreover have "sort_key ev_index ?es = ?es"
      by (simp add: delivered_events_def delivered_event_def)
    ultimately have lists: "case_revisions t ?cid s' = [?rv]" "case_events t ?cid s' = ?es"
      "case_receipts t ?cid s' = [?rc]"
      by (simp_all add: s' accepted_store_queries empty keys)
    have c: "ca_tenant ?c = t" "ca_id ?c = ?cid" by (simp_all add: delivered_case_def)
    have "case_consistent V ?c ?rv ?rc ?es (delivered_metadata key fp) INITIAL_CASE_STATE"
      using valid t by (intro delivered_consistent) auto
    moreover have "validate_case_projection V (projection_obj ?pj) = Inr ()" "pj_count ?pj < 2 ^ 63"
      using V pjs by (simp_all add: accepts_projections_def)
    ultimately show ?thesis
      unfolding rebuild_case_iff c lists by blast
  qed
  have others: "rebuild_case V s' d = rebuild_case V s d \<and>
      case_projections (case_key d) s' = case_projections (case_key d) s"
    if "d \<in> set (cases s)" for d
  proof -
    from that new have "case_key d \<noteq> ?k" by (metis image_eqI)
    then have ne: "\<not> (t = ca_tenant d \<and> ?cid = ca_id d)" by (auto simp: case_key_def)
    then have "filter (\<lambda>r. ev_tenant r = ca_tenant d \<and> ev_case r = ca_id d) ?es = []"
      using keys(5) by (auto simp: filter_empty_conv)
    then have "case_events (ca_tenant d) (ca_id d) s' = case_events (ca_tenant d) (ca_id d) s"
      by (simp add: s' accepted_store_queries(2) case_events_def)
    moreover have "case_revisions (ca_tenant d) (ca_id d) s' = case_revisions (ca_tenant d) (ca_id d) s"
      using ne keys(2,3) by (auto simp: s' accepted_store_queries(1) case_revisions_def)
    moreover have "case_receipts (ca_tenant d) (ca_id d) s' = case_receipts (ca_tenant d) (ca_id d) s"
      using ne by (auto simp: s' accepted_store_queries(3) case_receipts_def)
    moreover have "case_projections (case_key d) s' = case_projections (case_key d) s"
      using \<open>case_key d \<noteq> ?k\<close> keys(4)
      by (simp add: s' accepted_store_queries(4) case_projections_def)
    ultimately show ?thesis by (blast intro: rebuild_case_cong)
  qed
  have refs: "referenced_cases s' \<subseteq> insert ?k (referenced_cases s)"
    using keys by (auto simp: s' accepted_store_def referenced_cases_def)
  have mine: "case_projections ?k s' = [?pj]"
    by (simp add: s' accepted_store_queries empty(4) keys)
  from n have "obj_item p ''conversation_sequence'' = Inr (JInt n)" by (simp add: obj_item_get)
  then have cursors: "validate_cursors s' = Inr ()"
    unfolding s' using inv order typed_delivery_texts [OF p] n
    by (intro validate_cursors_accept)
      (simp_all add: read_model_ok_def check_sequence_def last_sequence_cursor
        receipt_conversation_def)
  show ?thesis
    using inv refs new others this_case mine cursors pjs keys(1)
    by (auto simp: read_model_ok_def s' accepted_store_queries)
qed

lemma intake_validated_keeps:
  assumes "accepts_projections V" and "read_model_ok V s" and "typed_delivery p" and "t \<noteq> []"
    and run: "intake_validated V now p t s = (x, s')"
  shows "read_model_ok V s'"
proof (cases x)
  case (Inl e)
  with run assms(2) show ?thesis by (auto dest: intake_failed)
next
  case (Inr r)
  with run have "intake_validated V now p t s = (Inr r, s')" by simp
  then show ?thesis
    by (cases rule: intake_cases) (use assms in \<open>auto intro: accept_keeps\<close>)
qed

section \<open>The workflow port keeps the agreement\<close>

definition appended_store ::
  "transition_fact \<Rightarrow> int \<Rightarrow> 'a ledger_db_scheme \<Rightarrow> 'a ledger_db_scheme" where
  "appended_store f n s =
     s\<lparr>events := events s @ [workflow_event f n],
       projections := map (update_projection f n) (projections s)\<rparr>"

lemma append_failed: "append_workflow_state_event V f s = (Inl e, s') \<Longrightarrow> s' = s"
  by (auto simp: append_workflow_state_event_def bind_def split: prod.splits sum.splits
      dest: tx_error_unchanged)

lemma append_cases:
  assumes "append_workflow_state_event V f s = (Inr i, s')"
  obtains (known) r where "find_workflow_event f s = Some r" "same_transition f r = Inr ()"
      "i = ev_id r" "s' = s"
    | (new) p n where "find_workflow_event f s = None"
      "find_projection (tf_tenant f) (tf_case f) s = Some p"
      "pj_state p = tf_from f" "pj_correlation p = tf_correlation f"
      "validate_transition (tf_from f) (tf_kind f) (tf_to f) (tf_resume f) False = Inr ()"
      "[] \<notin> set (required_texts f)"
      "n = next_index (case_indices (tf_tenant f) (tf_case f) s)" "n < 2 ^ 63"
      "validate_generated_ledger_event V (event_obj (workflow_event f n)) = Inr ()"
      "\<forall>x\<in>set (events s). \<not> event_clash (workflow_event f n) x"
      "i = ev_id (workflow_event f n)" "s' = appended_store f n s"
proof -
  from assms have pre: "validate_transition (tf_from f) (tf_kind f) (tf_to f) (tf_resume f) False = Inr ()"
      "[] \<notin> set (required_texts f)"
    and run: "append_in_tx V f s = (Inr i, s')"
    by (auto simp: append_workflow_state_event_def bind_eq_Inr)
  from run obtain p where p: "find_projection (tf_tenant f) (tf_case f) s = Some p"
    "pj_correlation p = tf_correlation f"
    by (auto simp: append_in_tx_def split: option.splits if_splits)
  show thesis
  proof (cases "find_workflow_event f s")
    case None
    with run p have state: "pj_state p = tf_from f" and rt: "record_transition V f s = (Inr i, s')"
      by (auto simp: append_in_tx_def split: if_splits)
    let ?n = "next_index (case_indices (tf_tenant f) (tf_case f) s)"
    from rt have "validate_generated_ledger_event V (event_obj (workflow_event f ?n)) = Inr ()"
      "?n < 2 ^ 63" "\<forall>x\<in>set (events s). \<not> event_clash (workflow_event f ?n) x"
      "i = ev_id (workflow_event f ?n)" "s' = appended_store f ?n s"
      by (auto simp: record_transition_def Let_def bind_eq_Inr insert_ok appended_store_def
          sql_int_JInt split: if_splits)
    with None p state pre show thesis by (intro new) auto
  next
    case (Some r)
    with run p have "same_transition f r = Inr ()" "i = ev_id r" "s' = s"
      by (auto simp: append_in_tx_def bind_eq_Inr split: if_splits)
    with Some show thesis by (rule known)
  qed
qed

lemma consistent_append:
  assumes ok: "case_consistent V c rv rc es ms (tf_from f)"
    and valid: "validate_generated_ledger_event V (event_obj (workflow_event f (int (length es) + 1))) = Inr ()"
    and transition: "validate_transition (tf_from f) (tf_kind f) (tf_to f) (tf_resume f) False = Inr ()"
    and tenant: "tf_tenant f = ca_tenant c" "ca_tenant c \<noteq> []"
      "rv_tenant rv = ca_tenant c" "\<forall>e\<in>set es. ev_tenant e = ca_tenant c"
  shows "case_consistent V c rv rc (es @ [workflow_event f (int (length es) + 1)])
    (ms @ [transition_metadata f]) (tf_to f)"
proof -
  let ?e = "workflow_event f (int (length es) + 1)"
  have step: "projection_step (tf_from f) (event_obj ?e, transition_metadata f) = Inr (tf_to f)"
    using transition
    by (auto simp: projection_step_def event_obj_def workflow_event_def transition_metadata_def
        optional_item_def is_jstr_def state_metadata_keys_def py_str_def resume_value_def jopt_def
        split: option.splits)
  from ok have len: "length ms = length es" "3 \<le> length es"
    by (auto simp: case_consistent_def dest: map_res_length)
  have "map_res decode_metadata (es @ [?e]) = Inr (ms @ [transition_metadata f])"
    using ok by (simp add: map_res_append case_consistent_def decode_metadata_def workflow_event_def)
  moreover have "validate_tenant_reference
      (case_obj c # revision_obj rv # map event_obj (es @ [?e])) = Inr ()"
    using tenant by (intro tenant_reference_ok [where t = "ca_tenant c"])
      (auto simp: workflow_event_def)
  moreover have "check_metadata_hashes (drop 3 (es @ [?e])) (drop 3 (ms @ [transition_metadata f])) = Inr ()"
    using ok len by (auto simp: check_metadata_hashes_def case_consistent_def workflow_event_def)
  moreover have "fold_res projection_step INITIAL_CASE_STATE
      (zip (map event_obj (drop 3 (es @ [?e]))) (drop 3 (ms @ [transition_metadata f]))) = Inr (tf_to f)"
    using ok len step by (simp add: case_consistent_def fold_res_append)
  moreover have "\<forall>i<length (es @ [?e]).
      validate_generated_ledger_event V (event_obj ((es @ [?e]) ! i)) = Inr () \<and>
      ev_index ((es @ [?e]) ! i) = int (Suc i)"
    using ok valid by (auto simp: case_consistent_def nth_append less_Suc_eq workflow_event_def)
  ultimately show ?thesis
    using ok len by (simp add: case_consistent_def)
qed

lemma next_index_consecutive:
  assumes "\<forall>i<length es. ev_index (es ! i) = int (Suc i)" and "set ns = ev_index ` set es"
  shows "next_index ns = int (length es) + 1"
proof (cases "es = []")
  case True
  with assms(2) show ?thesis by (simp add: next_index_def)
next
  case False
  have "ev_index ` set es = (\<lambda>i. int (Suc i)) ` {..<length es}"
    using assms(1) by (force simp: in_set_conv_nth image_iff)
  also have "Max \<dots> = int (length es)"
  proof (rule Max_eqI)
    from False obtain m where "length es = Suc m" by (cases es) auto
    then show "int (length es) \<in> (\<lambda>i. int (Suc i)) ` {..<length es}"
      by (simp add: image_iff)
  qed auto
  finally show ?thesis using assms(2) False by (auto simp: next_index_def)
qed

lemma append_keeps:
  assumes V: "accepts_projections V" and inv: "read_model_ok V s"
    and run: "append_workflow_state_event V f s = (x, s')"
  shows "read_model_ok V s'"
proof (cases x)
  case (Inl e)
  with run inv show ?thesis by (auto dest: append_failed)
next
  case (Inr i)
  with run have "append_workflow_state_event V f s = (Inr i, s')" by simp
  then show ?thesis
  proof (cases rule: append_cases)
    case known
    with inv show ?thesis by simp
  next
    case (new p n)
    let ?k = "(tf_tenant f, tf_case f)"
    have pk: "p \<in> set (case_projections ?k s)"
      using new(2) first_row_mem by (fastforce simp: find_projection_alt)
    then have "p \<in> set (projections s)" "?k = projection_key p" by (simp_all add: case_projections_def)
    then have "?k \<in> referenced_cases s" unfolding referenced_cases_def by blast
    with inv obtain c where c: "c \<in> set (cases s)" "case_key c = ?k"
      by (auto simp: read_model_ok_def)
    with inv obtain p' where "rebuild_case V s c = Inr p'" "well_formed_projection p'"
      "case_projections ?k s = [p']" by (auto simp: read_model_ok_def)
    with pk have p: "rebuild_case V s c = Inr p" "well_formed_projection p" "case_projections ?k s = [p]"
      by simp_all
    have ck: "ca_tenant c = tf_tenant f" "ca_id c = tf_case f" using c by (simp_all add: case_key_def)
    let ?es = "case_events (tf_tenant f) (tf_case f) s"
    from p(1) obtain rv rc ms state where r: "case_revisions (tf_tenant f) (tf_case f) s = [rv]"
      "case_receipts (tf_tenant f) (tf_case f) s = [rc]" "case_consistent V c rv rc ?es ms state"
      "p = project c rv ?es state"
      by (auto simp: rebuild_case_iff ck)
    have n: "n = int (length ?es) + 1"
      using r(3) unfolding new(7)
      by (intro next_index_consecutive) (auto simp: case_consistent_def case_indices_def case_events_def)
    let ?e = "workflow_event f n"
    have tenants: "rv_tenant rv = ca_tenant c" "\<forall>e\<in>set ?es. ev_tenant e = ca_tenant c"
    proof -
      have "rv \<in> set (case_revisions (tf_tenant f) (tf_case f) s)" by (simp add: r(1))
      then show "rv_tenant rv = ca_tenant c" by (simp add: case_revisions_def ck)
      show "\<forall>e\<in>set ?es. ev_tenant e = ca_tenant c" by (simp add: case_events_def ck)
    qed
    have state: "state = tf_from f" using new(3) r(4) by simp
    have consistent: "case_consistent V c rv rc (?es @ [?e]) (ms @ [transition_metadata f]) (tf_to f)"
      using r(3) new(5,6,9) tenants ck unfolding n state
      by (intro consistent_append) (auto simp: required_texts_def)
    let ?p' = "project c rv (?es @ [?e]) (tf_to f)"
    have p': "update_projection f n p = ?p'"
      using n by (simp add: update_projection_def r(4) project_def ck workflow_event_def)
    have known_to: "tf_to f \<in> WORKFLOW_STATES"
      using new(5) by (simp add: allowed_target_known)
    have wf: "well_formed_projection ?p'"
      using p(2) new(6,8) n known_to r(3)
      by (auto simp: well_formed_projection_def projection_texts_def r(4) project_def
          workflow_event_def required_texts_def case_consistent_def)
    have sorted: "case_events (tf_tenant f) (tf_case f) s' = ?es @ [?e]"
    proof -
      let ?mine = "\<lambda>r. ev_tenant r = tf_tenant f \<and> ev_case r = tf_case f"
      have le: "ev_index r \<le> ev_index ?e"
        if "r \<in> set (filter (\<lambda>r. ev_tenant r = tf_tenant f \<and> ev_case r = tf_case f) (events s))" for r
      proof -
        from that have "r \<in> set ?es" by (simp add: case_events_def)
        then obtain i where "i < length ?es" "r = ?es ! i" by (metis in_set_conv_nth)
        with r(3) n show ?thesis by (simp add: case_consistent_def workflow_event_def)
      qed
      have "filter ?mine (events s') = filter ?mine (events s) @ [?e]"
        by (simp add: new(12) appended_store_def) (simp add: workflow_event_def)
      then show ?thesis by (simp only: case_events_def sort_key_snoc [where f = ev_index, OF le])
    qed
    have this_case: "rebuild_case V s' c = Inr ?p'"
    proof -
      have "case_revisions (ca_tenant c) (ca_id c) s' = [rv]" "case_receipts (ca_tenant c) (ca_id c) s' = [rc]"
        using r(1,2) by (simp_all add: new(12) appended_store_def case_revisions_def case_receipts_def ck)
      moreover have "validate_case_projection V (projection_obj ?p') = Inr ()" "pj_count ?p' < 2 ^ 63"
        using V wf by (simp_all add: accepts_projections_def well_formed_projection_def)
      ultimately show ?thesis
        using consistent sorted by (auto simp: rebuild_case_iff ck)
    qed
    have upd: "projection_key (update_projection f n q) = projection_key q" for q
      by (simp add: update_projection_def projection_key_def)
    have pjs: "case_projections k s' = map (update_projection f n) (case_projections k s)" for k
      by (simp add: new(12) appended_store_def case_projections_def filter_map comp_def upd)
    have others: "rebuild_case V s' d = rebuild_case V s d \<and>
        case_projections (case_key d) s' = case_projections (case_key d) s"
      if d: "d \<in> set (cases s)" "case_key d \<noteq> ?k" for d
    proof -
      have "case_events (ca_tenant d) (ca_id d) s' = case_events (ca_tenant d) (ca_id d) s"
        using d(2) by (auto simp: new(12) appended_store_def case_events_def workflow_event_def case_key_def)
      then have "rebuild_case V s' d = rebuild_case V s d"
        by (rule rebuild_case_cong)
          (simp_all add: new(12) appended_store_def case_revisions_def case_receipts_def)
      moreover have "map (update_projection f n) (case_projections (case_key d) s) =
          case_projections (case_key d) s"
        using d(2) by (intro map_idI)
          (auto simp: case_projections_def update_projection_def projection_key_def)
      ultimately show ?thesis by (simp add: pjs)
    qed
    have refs: "referenced_cases s' \<subseteq> insert ?k (referenced_cases s)"
      by (auto simp: new(12) appended_store_def referenced_cases_def upd workflow_event_def)
    have rest: "cases s' = cases s" "schema_error s' = schema_error s"
      "validate_cursors s' = validate_cursors s"
      by (simp_all add: new(12) appended_store_def validate_cursors_def)
    have same: "d = c" if "d \<in> set (cases s)" "case_key d = ?k" for d
      using inv that c by (metis read_model_ok_def distinct_map inj_onD)
    have mine: "case_projections ?k s' = [?p']" by (simp add: pjs p(3) p')
    have each: "\<exists>q. rebuild_case V s' d = Inr q \<and> well_formed_projection q \<and>
        case_projections (case_key d) s' = [q]" if "d \<in> set (cases s)" for d
    proof (cases "case_key d = ?k")
      case True
      with that same have "d = c" by blast
      with this_case wf mine c(2) show ?thesis by auto
    next
      case False
      with that others inv show ?thesis by (auto simp: read_model_ok_def)
    qed
    show ?thesis
      using inv refs rest each \<open>?k \<in> referenced_cases s\<close>
      by (auto simp: read_model_ok_def)
  qed
qed

section \<open>Reachable ledgers\<close>

lemma empty_ok: "read_model_ok V empty_ledger"
  by (simp add: read_model_ok_def empty_ledger_def referenced_cases_def validate_cursors_def
      dict_eq_def)

lemma rebuild_keeps:
  assumes inv: "read_model_ok V s" and run: "rebuild_projection V s = (x, s')"
  shows "read_model_ok V s'"
proof -
  obtain s'' where s'': "rebuild_projection V s = (Inr (), s'')"
    "\<And>k. case_projections k s'' = case_projections k s" "\<exists>ps. s'' = s\<lparr>projections := ps\<rparr>"
    "set (projections s'') \<subseteq> set (projections s)"
    using rebuild_agrees [OF inv] by blast
  with run have "s'' = s'" by simp
  with s'' obtain ps where ps: "s' = s\<lparr>projections := ps\<rparr>" "set ps \<subseteq> set (projections s)" by auto
  then have "referenced_cases s' \<subseteq> referenced_cases s"
    by (auto simp: referenced_cases_def)
  with inv ps s'' \<open>s'' = s'\<close> show ?thesis
    by (auto simp: read_model_ok_def)
qed

text \<open>The operations on the ledger, with every outcome, from an empty file.\<close>

inductive ledger_run :: "validators \<Rightarrow> ledger_db \<Rightarrow> bool" for V where
  opened: "ledger_run V empty_ledger"
| delivered: "ledger_run V s \<Longrightarrow> intake V now p t s = (x, s') \<Longrightarrow> ledger_run V s'"
| qq_delivered: "ledger_run V s \<Longrightarrow> intake_qq V now p t s = (x, s') \<Longrightarrow> ledger_run V s'"
| transitioned: "ledger_run V s \<Longrightarrow> append_workflow_state_event V f s = (i, s') \<Longrightarrow> ledger_run V s'"
| rebuilt: "ledger_run V s \<Longrightarrow> rebuild_projection V s = (u, s') \<Longrightarrow> ledger_run V s'"

lemma intake_keeps:
  assumes "types_deliveries V" "accepts_projections V" "read_model_ok V s"
    and run: "intake V now p t s = (x, s')"
  shows "read_model_ok V s'"
proof (cases "validate_inbound V p t")
  case (Inl e)
  with run assms(3) show ?thesis by (simp add: intake_def)
next
  case (Inr u)
  then have "validate_inbound_message_event V p = Inr ()" "obj_get p ''tenant_id'' = JStr t"
    by (simp_all add: validate_inbound_def)
  with assms(1) have "typed_delivery p" "t \<noteq> []"
    by (auto simp: types_deliveries_def text_field_def)
  with Inr run assms(2,3) show ?thesis
    by (auto simp: intake_def intro: intake_validated_keeps)
qed

lemma qq_payload_typed:
  assumes "types_deliveries V" and "validate_qq_sandbox_inbound_event V p = Inr ()"
    and "qq_internal_payload t p = Inr q"
  shows "typed_delivery q"
proof -
  from assms(1,2) have f: "list_all (text_field p)
      [''tenant_id'', ''inbound_natural_key'', ''conversation_id'', ''customer_id'', ''occurred_at'',
       ''received_at'', ''correlation_id'']" "int_field p ''gateway_sequence''"
    by (auto simp: types_deliveries_def)
  have item: "obj_item p k = Inr v \<Longrightarrow> obj_get p k = v" for k v
    by (auto simp: obj_item_def obj_get_def split: option.splits)
  from assms(3) f show ?thesis
    by (auto simp: qq_internal_payload_def qq_fields_def typed_delivery_def text_field_def
        int_field_def dest!: item)
qed

lemma intake_qq_keeps:
  assumes V: "types_deliveries V" "accepts_projections V" "read_model_ok V s"
    and run: "intake_qq V now p t s = (x, s')"
  shows "read_model_ok V s'"
proof (cases "validate_qq_sandbox_inbound_event V p = Inr () \<and> obj_get p ''tenant_id'' = JStr t")
  case True
  with V(1) have t: "t \<noteq> []" by (auto simp: types_deliveries_def text_field_def)
  show ?thesis
  proof (cases "qq_internal_payload t p")
    case (Inl e)
    with True run V(3) show ?thesis by (simp add: intake_qq_def)
  next
    case (Inr q)
    with True V(1) have "typed_delivery q" by (blast intro: qq_payload_typed)
    with True Inr run V t show ?thesis
      by (auto simp: intake_qq_def intro: intake_validated_keeps)
  qed
next
  case False
  then have "fst (intake_qq V now p t s) = x \<and> s' = s" using run
    by (auto simp: intake_qq_def bind_def catch_res_def require_def
        split: sum.splits prod.splits if_splits)
  with V(3) show ?thesis by simp
qed

lemma ledger_run_ok:
  assumes "types_deliveries V" and "accepts_projections V" and "ledger_run V s"
  shows "read_model_ok V s"
  using assms(3)
  by induction (use assms(1,2) in \<open>auto intro: empty_ok intake_keeps intake_qq_keeps append_keeps rebuild_keeps\<close>)

section \<open>A validator that follows the schema files\<close>

definition conforms :: "(obj \<Rightarrow> bool) \<Rightarrow> json \<Rightarrow> string option" where
  "conforms ok v =
     (case v of JObj p \<Rightarrow> if ok p then None else Some ''root:type'' | _ \<Rightarrow> Some ''root:type'')"

text \<open>The required members of the ledger schemas and their types.\<close>

definition ledger_schemas :: validators where
  "ledger_schemas sid = map_of
     [(INBOUND_MESSAGE_EVENT_SCHEMA_ID, conforms (\<lambda>p. typed_delivery p \<and> text_field p ''tenant_id'')),
      (QQ_SANDBOX_INBOUND_EVENT_SCHEMA_ID, conforms (\<lambda>p. list_all (text_field p)
         [''tenant_id'', ''inbound_natural_key'', ''conversation_id'', ''customer_id'',
          ''occurred_at'', ''received_at'', ''correlation_id''] \<and> int_field p ''gateway_sequence'')),
      (CASE_SCHEMA_ID, conforms (\<lambda>p. list_all (text_field p)
         [''tenant_id'', ''case_id'', ''created_at''])),
      (CASE_REVISION_SCHEMA_ID, conforms (\<lambda>p. list_all (text_field p)
         [''tenant_id'', ''case_id'', ''case_revision_id'', ''created_at''] \<and> int_field p ''revision'')),
      (BUSINESS_EVENT_SCHEMA_ID, conforms (\<lambda>p. list_all (text_field p)
         [''tenant_id'', ''event_id'', ''case_id'', ''case_revision_id'', ''event_type'',
          ''occurred_at'', ''received_at'', ''correlation_id''])),
      (CASE_PROJECTION_SCHEMA_ID, conforms (\<lambda>p. list_all (text_field p)
         [''tenant_id'', ''case_id'', ''latest_case_revision_id'', ''state'', ''source_event_id'',
          ''correlation_id'', ''created_at'', ''updated_at''] \<and>
         int_field p ''latest_revision'' \<and> int_field p ''event_count''))] sid"

lemma conforms_None [simp]: "conforms ok v = None \<longleftrightarrow> (\<exists>p. v = JObj p \<and> ok p)"
  by (auto simp: conforms_def split: json.splits)

lemma ledger_schemas_ok: "types_deliveries ledger_schemas" "accepts_projections ledger_schemas"
proof -
  have "validate_payload ledger_schemas p = Inr () \<Longrightarrow> obj_get p ''schema_id'' = JStr sid \<Longrightarrow>
      the (ledger_schemas sid) (JObj p) = None" for p sid
    by (auto simp: validate_payload_def split: if_splits option.splits)
  note accepted = this
  show "types_deliveries ledger_schemas"
    unfolding types_deliveries_def
    by (auto simp: validate_inbound_message_event_def validate_qq_sandbox_inbound_event_def
        require_schema_def Let_def dest!: accepted) (simp_all add: ledger_schemas_def)
  show "accepts_projections ledger_schemas"
    unfolding accepts_projections_def
    by (auto simp: validate_case_projection_def require_schema_def projection_obj_def
        validate_payload_def ledger_schemas_def conforms_def text_field_def int_field_def
        well_formed_projection_def projection_texts_def)
      (auto simp: WORKFLOW_STATES_def)
qed

section \<open>Properties of the read model\<close>

text \<open>
  C17.  Read-model agreement.  In every store that intakes, QQ intakes, workflow transitions and
  rebuilds reach from an empty file, with whatever errors on the way, recomputing the read model
  from the append-only records succeeds, passes all integrity checks, and gives every Case of every
  tenant the projection it already had; the records themselves are not touched.
\<close>

theorem read_model_agrees:
  assumes "types_deliveries V" and "accepts_projections V" and "ledger_run V s"
  shows "\<exists>ps. rebuild_projection V s = (Inr (), s\<lparr>projections := ps\<rparr>) \<and>
    (\<forall>t c. find_projection t c (s\<lparr>projections := ps\<rparr>) = find_projection t c s)"
proof -
  from assms have inv: "read_model_ok V s" by (rule ledger_run_ok)
  obtain s' where "rebuild_projection V s = (Inr (), s')"
    "\<And>k. case_projections k s' = case_projections k s" "\<exists>ps. s' = s\<lparr>projections := ps\<rparr>"
    "set (projections s') \<subseteq> set (projections s)"
    using rebuild_agrees [OF inv] by blast
  then obtain ps where "rebuild_projection V s = (Inr (), s\<lparr>projections := ps\<rparr>)"
    "\<And>k. case_projections k (s\<lparr>projections := ps\<rparr>) = case_projections k s" by auto
  then show ?thesis by (intro exI [of _ ps]) (simp add: find_projection_alt)
qed

definition sample_delivery :: obj where
  "sample_delivery =
     [(''schema_id'', JStr INBOUND_MESSAGE_EVENT_SCHEMA_ID), (''schema_version'', JStr ''v1''),
      (''tenant_id'', JStr ''tenant-alpha''), (''channel'', JStr ''synthetic-im''),
      (''channel_event_id'', JStr ''m-1''), (''conversation_id'', JStr ''conv-1''),
      (''sender_id'', JStr ''sender-1''), (''customer_id'', JStr ''customer-1''),
      (''conversation_sequence'', JInt 1), (''occurred_at'', JStr ''2026-01-01T00:00:00Z''),
      (''received_at'', JStr ''2026-01-01T00:00:01Z''), (''correlation_id'', JStr ''corr-1''),
      (''content_classification'', JStr ''synthetic'')]"

theorem read_model_agrees_witness:
  "let s = snd (intake ledger_schemas 0 sample_delivery ''tenant-alpha'' empty_ledger) in
   \<exists>ps. rebuild_projection ledger_schemas s = (Inr (), s\<lparr>projections := ps\<rparr>) \<and>
     (\<forall>t c. find_projection t c (s\<lparr>projections := ps\<rparr>) = find_projection t c s)"
  unfolding Let_def
  by (rule read_model_agrees [OF ledger_schemas_ok])
    (rule delivered [OF opened], rule prod.collapse [symmetric])

end
