(* ===== verification/LedgerProps.thy ===== *)
theory LedgerProps
  imports LedgerInvariant
begin

text \<open>
  Idempotence of the workflow port and tenant isolation of the ledger's writes, and the witnesses
  of the intake properties.
\<close>

section \<open>Idempotent workflow events\<close>

lemma find_event_appended:
  assumes "find_workflow_event f s = None"
  shows "find_workflow_event f (appended_store f n s) = Some (workflow_event f n)"
  using assms
  by (simp add: find_workflow_event_def appended_store_def) (simp add: workflow_event_def)

lemma find_projection_appended:
  "find_projection t c (appended_store f n s) = map_option (update_projection f n) (find_projection t c s)"
proof -
  have "first_row (map g xs) = map_option g (first_row xs)" for g and xs :: "projection_row list"
    by (cases xs) auto
  moreover have "filter (\<lambda>r. pj_tenant r = t \<and> pj_case r = c) (map (update_projection f n) xs) =
      map (update_projection f n) (filter (\<lambda>r. pj_tenant r = t \<and> pj_case r = c) xs)" for xs
    by (induction xs) (auto simp: update_projection_def)
  ultimately show ?thesis by (simp add: find_projection_def appended_store_def)
qed

lemma update_projection_correlation [simp]:
  "pj_correlation (update_projection f n p) = pj_correlation p"
  by (simp add: update_projection_def)

lemma known_event_replayed:
  assumes "find_projection (tf_tenant f) (tf_case f) s = Some p" "pj_correlation p = tf_correlation f"
    and "known_revision f s" "find_workflow_event f s = Some r" "same_transition f r = Inr ()"
    and "validate_transition (tf_from f) (tf_kind f) (tf_to f) (tf_resume f) False = Inr ()"
    and "[] \<notin> set (required_texts f)"
  shows "append_workflow_state_event V f s = (Inr (ev_id r), s)"
  unfolding append_workflow_state_event_def assms(6)
  using assms(1-5,7) by (simp add: append_in_tx_def tx_def rethrow_def)

lemma append_preconditions:
  assumes "append_workflow_state_event V f s = (Inr i, s')"
  obtains p where "find_projection (tf_tenant f) (tf_case f) s = Some p"
    "pj_correlation p = tf_correlation f" "known_revision f s"
    "validate_transition (tf_from f) (tf_kind f) (tf_to f) (tf_resume f) False = Inr ()"
    "[] \<notin> set (required_texts f)"
  using assms
  by (auto simp: append_workflow_state_event_def bind_eq_Inr append_in_tx_def
      split: option.splits if_splits)

text \<open>
  C18.  The internal workflow port is idempotent: a failing call changes nothing, and after a
  successful one the same transition fact is answered with the same event identity and no write, so
  a worker that crashed between the write and its acknowledgement cannot append a second event.
\<close>

theorem workflow_event_idempotent:
  "case append_workflow_state_event V f s of
     (Inl e, s1) \<Rightarrow> s1 = s
   | (Inr i, s1) \<Rightarrow> append_workflow_state_event V' f s1 = (Inr i, s1)"
proof (cases "append_workflow_state_event V f s")
  case (Pair x s1)
  show ?thesis
  proof (cases x)
    case (Inl e)
    with Pair show ?thesis by (auto dest: append_failed)
  next
    case (Inr i)
    with Pair have run: "append_workflow_state_event V f s = (Inr i, s1)" by simp
    then obtain p where p: "find_projection (tf_tenant f) (tf_case f) s = Some p"
      "pj_correlation p = tf_correlation f" "known_revision f s"
      "validate_transition (tf_from f) (tf_kind f) (tf_to f) (tf_resume f) False = Inr ()"
      "[] \<notin> set (required_texts f)" by (rule append_preconditions)
    from run have "append_workflow_state_event V' f s1 = (Inr i, s1)"
    proof (cases rule: append_cases)
      case (known r)
      with p show ?thesis by (simp add: known_event_replayed)
    next
      case (new q n)
      have "same_transition f (workflow_event f n) = Inr ()"
        by (simp add: same_transition_def workflow_event_def)
      moreover have "known_revision f (appended_store f n s)"
        using p(3) by (simp add: known_revision_def appended_store_def)
      ultimately show ?thesis
        using p new by (simp add: known_event_replayed [where p = "update_projection f n p"]
            find_event_appended find_projection_appended)
    qed
    with Pair Inr show ?thesis by simp
  qed
qed

section \<open>Tenant isolation\<close>

text \<open>All rows of the other tenants.\<close>

definition foreign_rows ::
  "string \<Rightarrow> 'a ledger_db_scheme \<Rightarrow> receipt_row list \<times> cursor_row list \<times> case_row list \<times>
    revision_row list \<times> event_row list \<times> projection_row list" where
  "foreign_rows t s =
     (filter (\<lambda>r. rc_tenant r \<noteq> t) (receipts s), filter (\<lambda>r. cu_tenant r \<noteq> t) (cursors s),
      filter (\<lambda>r. ca_tenant r \<noteq> t) (cases s), filter (\<lambda>r. rv_tenant r \<noteq> t) (revisions s),
      filter (\<lambda>r. ev_tenant r \<noteq> t) (events s), filter (\<lambda>r. pj_tenant r \<noteq> t) (projections s))"

lemma upsert_foreign:
  "filter (\<lambda>r. cu_tenant r \<noteq> cu_tenant c) (upsert_rows c cs) = filter (\<lambda>r. cu_tenant r \<noteq> cu_tenant c) cs"
proof -
  have "filter (\<lambda>r. cu_tenant r \<noteq> cu_tenant c) (map (\<lambda>d. if same_cursor c d then advance_cursor c d else d) xs) =
      filter (\<lambda>r. cu_tenant r \<noteq> cu_tenant c) xs" for xs
    by (induction xs) (auto simp: same_cursor_def advance_cursor_def)
  then show ?thesis by (simp add: upsert_rows_def)
qed

lemma row_tenants:
  "new_case t cid ts p = Inr c \<Longrightarrow> case_row_of c = Inr crow \<Longrightarrow> ca_tenant crow = t"
  "new_revision t cid rid ts fp p = Inr rv \<Longrightarrow> revision_row_of rv = Inr rrow \<Longrightarrow> rv_tenant rrow = t"
  "initial_events t cid rid key fp p ts = Inr evs \<Longrightarrow> map_res event_row_of evs = Inr erows \<Longrightarrow>
     \<forall>e\<in>set erows. ev_tenant e = t"
  "new_case t cid ts p = Inr c \<Longrightarrow> projection_from_records c rv evos m = Inr pj \<Longrightarrow>
     projection_row_of pj = Inr prow \<Longrightarrow> pj_tenant prow = t"
  by (auto simp: new_case_def case_row_of_def new_revision_def revision_row_of_def initial_events_def
      new_event_def event_row_of_def projection_from_records_def projection_row_of_def
      split: if_splits)

text \<open>
  C20.  Tenant isolation of intake: whatever a delivery of tenant \<open>t\<close> does, accepted, deduplicated or
  rejected, every receipt, cursor, Case, revision, event and projection of every other tenant stays
  as it was.
\<close>

theorem intake_tenant_isolation:
  "foreign_rows t (snd (intake_validated V now p t s)) = foreign_rows t s"
proof (cases "intake_validated V now p t s")
  case (Pair x s1)
  show ?thesis
  proof (cases x)
    case (Inl e)
    with Pair show ?thesis by (auto dest: intake_failed)
  next
    case (Inr r)
    with Pair have run: "intake_validated V now p t s = (Inr r, s1)" by simp
    then have "foreign_rows t s1 = foreign_rows t s"
    proof (cases rule: intake_cases)
      case (new key)
      then show ?thesis
      proof (elim accept_delivery_ok, goal_cases)
        case (1 c rv evs crow rrow erows ch co n prow)
        then have "ca_tenant crow = t" "rv_tenant rrow = t" "\<forall>e\<in>set erows. ev_tenant e = t"
          "pj_tenant prow = t"
          by (auto dest: row_tenants)
        moreover have "filter (\<lambda>r. cu_tenant r \<noteq> t) (upsert_rows
              \<lparr>cu_tenant = t, cu_channel = ch, cu_conversation = co, cu_last = n\<rparr> (cursors s)) =
            filter (\<lambda>r. cu_tenant r \<noteq> t) (cursors s)"
          using upsert_foreign [of "\<lparr>cu_tenant = t, cu_channel = ch, cu_conversation = co, cu_last = n\<rparr>"]
          by simp
        ultimately show ?case
          unfolding 1 by (simp add: foreign_rows_def accepted_store_def filter_empty_conv)
      qed
    qed simp
    with Pair show ?thesis by simp
  qed
qed

section \<open>Witnesses\<close>

definition sample_receipt :: receipt_row where
  "sample_receipt =
     \<lparr>rc_tenant = ''tenant-alpha'', rc_key = ''tenant-alpha:synthetic-im:m-1'',
      rc_fingerprint = ''another payload'', rc_channel = ''synthetic-im'',
      rc_conversation = ''conv-1'', rc_sequence = 1, rc_case = ''case-1'', rc_revision = ''rev-1'',
      rc_events = Some (JList [JStr ''e1'']), rc_accepted_at = ''2026-01-01T00:00:00Z''\<rparr>"

lemma fingerprint_length [simp]: "length (fingerprint t p) = 64"
  by (simp add: fingerprint_def Let_def)

theorem intake_conflict_rejected_witness:
  "intake_validated ledger_schemas 0 sample_delivery ''tenant-alpha''
     (empty_ledger\<lparr>receipts := [sample_receipt]\<rparr>) =
   (Inl (IntakeRejected ''inbound_event_conflict''), empty_ledger\<lparr>receipts := [sample_receipt]\<rparr>)"
proof -
  have k: "delivery_key ''tenant-alpha'' sample_delivery = Inr ''tenant-alpha:synthetic-im:m-1''"
    by (simp add: delivery_key_def sample_delivery_def py_str_def)
  have f: "find_receipt ''tenant-alpha'' ''tenant-alpha:synthetic-im:m-1''
      (empty_ledger\<lparr>receipts := [sample_receipt]\<rparr>) = Some sample_receipt"
    by (simp add: find_receipt_def sample_receipt_def)
  have d: "fingerprint ''tenant-alpha'' sample_delivery \<noteq> rc_fingerprint sample_receipt"
  proof
    assume "fingerprint ''tenant-alpha'' sample_delivery = rc_fingerprint sample_receipt"
    then have "length (fingerprint ''tenant-alpha'' sample_delivery) = length (rc_fingerprint sample_receipt)"
      by (rule arg_cong)
    then show False by (simp add: sample_receipt_def)
  qed
  show ?thesis
    using intake_conflict_rejected [OF k f d, of ledger_schemas 0 "[]"] by simp
qed

end
