(* ===== verification/WorkflowContracts.thy ===== *)
theory WorkflowContracts
  imports Contracts
begin

text \<open>
  \<open>weflow_contracts/workflow.py\<close>: the contracts of the durable workflow journal.  A checkpoint
  chain, a list of side-effect intents and the observation/completion chain of one intent are
  lists of payload dicts, validated in one pass each.
\<close>

abbreviation SIDE_EFFECT_COMPLETION_SCHEMA_ID :: string where
  "SIDE_EFFECT_COMPLETION_SCHEMA_ID \<equiv>
     ''https://weflow.local/contracts/v1/side-effect-completion.schema.json''"
abbreviation SIDE_EFFECT_INTENT_SCHEMA_ID :: string where
  "SIDE_EFFECT_INTENT_SCHEMA_ID \<equiv>
     ''https://weflow.local/contracts/v1/side-effect-intent.schema.json''"
abbreviation SIDE_EFFECT_OBSERVATION_SCHEMA_ID :: string where
  "SIDE_EFFECT_OBSERVATION_SCHEMA_ID \<equiv>
     ''https://weflow.local/contracts/v1/side-effect-observation.schema.json''"
abbreviation SYNTHETIC_SLA_POLICY_SCHEMA_ID :: string where
  "SYNTHETIC_SLA_POLICY_SCHEMA_ID \<equiv>
     ''https://weflow.local/contracts/v1/synthetic-sla-policy.schema.json''"
abbreviation WORKFLOW_CHECKPOINT_SCHEMA_ID :: string where
  "WORKFLOW_CHECKPOINT_SCHEMA_ID \<equiv>
     ''https://weflow.local/contracts/v1/workflow-checkpoint.schema.json''"
abbreviation WORKFLOW_COMMAND_SCHEMA_ID :: string where
  "WORKFLOW_COMMAND_SCHEMA_ID \<equiv>
     ''https://weflow.local/contracts/v1/workflow-command.schema.json''"
abbreviation WORKFLOW_PROJECTION_SCHEMA_ID :: string where
  "WORKFLOW_PROJECTION_SCHEMA_ID \<equiv>
     ''https://weflow.local/contracts/v1/workflow-projection.schema.json''"

definition validate_workflow_projection :: "validators \<Rightarrow> obj \<Rightarrow> exn + unit" where
  "validate_workflow_projection V p =
     require_schema V p WORKFLOW_PROJECTION_SCHEMA_ID ''workflow-projection''"

definition validate_workflow_checkpoint :: "validators \<Rightarrow> obj \<Rightarrow> exn + unit" where
  "validate_workflow_checkpoint V p =
     require_schema V p WORKFLOW_CHECKPOINT_SCHEMA_ID ''workflow-checkpoint''"

definition validate_workflow_command ::
  "validators \<Rightarrow> obj \<Rightarrow> string option \<Rightarrow> exn + unit" where
  "validate_workflow_command V p effective_tenant_id =
     bind_res (require_schema V p WORKFLOW_COMMAND_SCHEMA_ID ''workflow-command'') (\<lambda>_.
       case effective_tenant_id of
         None \<Rightarrow> Inr ()
       | Some t \<Rightarrow> require (obj_get p ''tenant_id'' = JStr t)
           (ContractValidationError ''workflow-command'' ''tenant_identity_mismatch''))"

definition validate_workflow_command_version ::
  "validators \<Rightarrow> obj \<Rightarrow> int \<Rightarrow> string option \<Rightarrow> exn + unit" where
  "validate_workflow_command_version V p current_workflow_version effective_tenant_id =
     bind_res (validate_workflow_command V p effective_tenant_id) (\<lambda>_.
       if current_workflow_version < 0 \<or>
          obj_get p ''expected_workflow_version'' \<noteq> JInt current_workflow_version
       then Inl (ContractValidationError ''workflow-command'' ''workflow_version_conflict'')
       else Inr ())"

definition validate_synthetic_sla_policy :: "validators \<Rightarrow> obj \<Rightarrow> exn + unit" where
  "validate_synthetic_sla_policy V p =
     require_schema V p SYNTHETIC_SLA_POLICY_SCHEMA_ID ''synthetic-sla-policy''"

definition validate_side_effect_intent :: "validators \<Rightarrow> obj \<Rightarrow> exn + unit" where
  "validate_side_effect_intent V p =
     require_schema V p SIDE_EFFECT_INTENT_SCHEMA_ID ''side-effect-intent''"

definition validate_side_effect_observation :: "validators \<Rightarrow> obj \<Rightarrow> exn + unit" where
  "validate_side_effect_observation V p =
     require_schema V p SIDE_EFFECT_OBSERVATION_SCHEMA_ID ''side-effect-observation''"

definition validate_side_effect_completion :: "validators \<Rightarrow> obj \<Rightarrow> exn + unit" where
  "validate_side_effect_completion V p =
     require_schema V p SIDE_EFFECT_COMPLETION_SCHEMA_ID ''side-effect-completion''"

section \<open>The checkpoint chain\<close>

definition workflow_identity :: "obj \<Rightarrow> exn + json list" where
  "workflow_identity p =
     map_res (obj_item p) [''tenant_id'', ''case_id'', ''case_revision_id'', ''workflow_id'']"

record checkpoint_scan =
  cs_expected :: int
  cs_previous :: json
  cs_identity :: "json list option"
  cs_version :: "int option"
  cs_completed :: "json list"
  cs_ids :: "string list"

definition checkpoint_error :: "string \<Rightarrow> exn" where
  "checkpoint_error reason = ContractValidationError ''workflow-checkpoint'' reason"

definition checkpoint_step :: "validators \<Rightarrow> checkpoint_scan \<Rightarrow> obj \<Rightarrow> exn + checkpoint_scan" where
  "checkpoint_step V s c =
     bind_res (validate_workflow_checkpoint V c) (\<lambda>_.
     bind_res (workflow_identity c) (\<lambda>ident.
     bind_res (require (case cs_identity s of None \<Rightarrow> True | Some i \<Rightarrow> i = ident)
       (checkpoint_error ''workflow_identity_mismatch'')) (\<lambda>_.
     bind_res (obj_item c ''checkpoint_sequence'') (\<lambda>sq.
     bind_res (require (sq = JInt (cs_expected s))
       (checkpoint_error ''checkpoint_not_monotonic'')) (\<lambda>_.
     bind_res (require (obj_get c ''previous_checkpoint_id'' = cs_previous s)
       (checkpoint_error ''checkpoint_predecessor_mismatch'')) (\<lambda>_.
     bind_res (obj_item c ''checkpoint_id'') (\<lambda>cid.
     bind_res (require (py_str cid \<notin> set (cs_ids s))
       (checkpoint_error ''checkpoint_id_duplicate'')) (\<lambda>_.
     bind_res (bind_res (obj_item c ''pending_intent_ids'') py_set) (\<lambda>pending.
     bind_res (bind_res (obj_item c ''completed_intent_ids'') py_set) (\<lambda>completed.
     bind_res (require (set pending \<inter> set completed = {})
       (checkpoint_error ''checkpoint_effect_overlap'')) (\<lambda>_.
     bind_res (require (set (cs_completed s) \<subseteq> set completed)
       (checkpoint_error ''completed_effect_regressed'')) (\<lambda>_.
     bind_res (bind_res (obj_item c ''workflow_version'') py_int) (\<lambda>version.
     bind_res (require (case cs_version s of None \<Rightarrow> True | Some v \<Rightarrow> v < version)
       (checkpoint_error ''workflow_version_not_monotonic'')) (\<lambda>_.
     Inr \<lparr>cs_expected = cs_expected s + 1, cs_previous = JStr (py_str cid),
          cs_identity = Some ident, cs_version = Some version, cs_completed = completed,
          cs_ids = py_str cid # cs_ids s\<rparr>))))))))))))))"

definition checkpoint_scan_start :: checkpoint_scan where
  "checkpoint_scan_start =
     \<lparr>cs_expected = 1, cs_previous = JNull, cs_identity = None, cs_version = None,
      cs_completed = [], cs_ids = []\<rparr>"

definition validate_checkpoint_sequence :: "validators \<Rightarrow> obj list \<Rightarrow> exn + unit" where
  "validate_checkpoint_sequence V checkpoints =
     (if checkpoints = [] then Inl (checkpoint_error ''checkpoint_chain_empty'')
      else bind_res (fold_res (checkpoint_step V) checkpoint_scan_start checkpoints)
             (\<lambda>_. Inr ()))"

section \<open>Side-effect intents\<close>

record intent_scan =
  is_ids :: "string list"
  is_keys :: "string list"
  is_identity :: "json list option"

definition intent_step :: "validators \<Rightarrow> intent_scan \<Rightarrow> obj \<Rightarrow> exn + intent_scan" where
  "intent_step V s i =
     bind_res (validate_side_effect_intent V i) (\<lambda>_.
     bind_res (workflow_identity i) (\<lambda>ident.
     bind_res (require (case is_identity s of None \<Rightarrow> True | Some j \<Rightarrow> j = ident)
       (ContractValidationError ''side-effect-intent'' ''workflow_identity_mismatch'')) (\<lambda>_.
     bind_res (obj_item i ''intent_id'') (\<lambda>iid.
     bind_res (obj_item i ''idempotency_key'') (\<lambda>key.
     bind_res (require (py_str iid \<notin> set (is_ids s) \<and> py_str key \<notin> set (is_keys s))
       (ContractValidationError ''side-effect-intent'' ''duplicate_intent'')) (\<lambda>_.
     Inr \<lparr>is_ids = py_str iid # is_ids s, is_keys = py_str key # is_keys s,
          is_identity = Some ident\<rparr>))))))"

definition validate_side_effect_intents :: "validators \<Rightarrow> obj list \<Rightarrow> exn + unit" where
  "validate_side_effect_intents V intents =
     bind_res (fold_res (intent_step V) \<lparr>is_ids = [], is_keys = [], is_identity = None\<rparr> intents)
       (\<lambda>_. Inr ())"

section \<open>The observation and completion chain of one intent\<close>

definition reference_fields :: "string list" where
  "reference_fields = [''case_id'', ''case_revision_id'', ''workflow_id'', ''checkpoint_id'']"

definition require_reference :: "obj \<Rightarrow> obj \<Rightarrow> string \<Rightarrow> exn + unit" where
  "require_reference intent r name =
     bind_res (each_res (\<lambda>f. require (obj_get intent f = obj_get r f)
         (ContractValidationError name ''intent_reference_mismatch'')) reference_fields) (\<lambda>_.
       require (obj_get r ''intent_id'' = obj_get intent ''intent_id'')
         (ContractValidationError name ''intent_reference_mismatch''))"

definition observation_step ::
  "validators \<Rightarrow> obj \<Rightarrow> string list \<Rightarrow> obj \<Rightarrow> exn + string list" where
  "observation_step V intent seen ob =
     bind_res (validate_side_effect_observation V ob) (\<lambda>_.
     bind_res (obj_item ob ''observation_id'') (\<lambda>oid.
     bind_res (require (py_str oid \<notin> set seen)
       (ContractValidationError ''side-effect-observation'' ''duplicate_observation'')) (\<lambda>_.
     bind_res (validate_tenant_reference [intent, ob]) (\<lambda>_.
     bind_res (require_reference intent ob ''side-effect-observation'') (\<lambda>_.
     Inr (py_str oid # seen))))))"

definition completion_check :: "validators \<Rightarrow> obj \<Rightarrow> obj list \<Rightarrow> obj \<Rightarrow> exn + unit" where
  "completion_check V intent observations c =
     bind_res (validate_side_effect_completion V c) (\<lambda>_.
     bind_res (validate_tenant_reference [intent, c]) (\<lambda>_.
     bind_res (require_reference intent c ''side-effect-completion'') (\<lambda>_.
       case find (\<lambda>ob. obj_get ob ''observation_id'' = obj_get c ''observation_id'' \<and>
                       obj_get ob ''status'' = JStr ''present'') observations of
         None \<Rightarrow> Inl (ContractValidationError ''side-effect-completion''
                        ''completion_observation_missing'')
       | Some ob \<Rightarrow>
           require (obj_get c ''observed_ticket_id'' = obj_get ob ''observed_ticket_id'' \<and>
                    obj_get c ''observed_version'' = obj_get ob ''observed_version'' \<and>
                    obj_get c ''result_sha256'' = obj_get ob ''outcome_sha256'')
             (ContractValidationError ''side-effect-completion''
                ''completion_observation_mismatch''))))"

definition validate_side_effect_chain ::
  "validators \<Rightarrow> obj \<Rightarrow> obj list \<Rightarrow> obj list \<Rightarrow> exn + unit" where
  "validate_side_effect_chain V intent observations completions =
     bind_res (validate_side_effect_intent V intent) (\<lambda>_.
     bind_res (require (length completions \<le> 1)
       (ContractValidationError ''side-effect-completion'' ''multiple_completions'')) (\<lambda>_.
     bind_res (fold_res (observation_step V intent) [] observations) (\<lambda>_.
     each_res (completion_check V intent observations) completions)))"

end
