(* ===== verification/JournalStore.thy ===== *)
theory JournalStore
  imports LedgerEvents WorkflowContracts
begin

text \<open>
  \<open>workflow_journal_schema.py\<close>: the tables of the durable workflow journal, as an extension of the
  ledger store.  Every table is append-only; \<open>CHECK\<close>, \<open>UNIQUE\<close> and \<open>FOREIGN KEY\<close> constraints are
  part of the insert statements.  A \<open>TEXT\<close> column holding a JSON list of strings is modelled by the
  list, \<open>None\<close> for a text that is not one.
\<close>

section \<open>Rows\<close>

record activation_row =
  ac_tenant :: string
  ac_workflow :: string
  ac_id :: string
  ac_case :: string
  ac_revision :: string
  ac_definition :: string
  ac_source :: string
  ac_correlation :: string
  ac_policy :: string
  ac_policy_version :: string
  ac_deadline_seconds :: int
  ac_deadline :: string
  ac_created_at :: string

record run_row =
  rn_tenant :: string
  rn_id :: string
  rn_workflow :: string
  rn_sequence :: int
  rn_state :: string
  rn_status :: string
  rn_reason :: string
  rn_created_at :: string

record command_row =
  cm_tenant :: string
  cm_workflow :: string
  cm_id :: string
  cm_type :: string
  cm_expected :: int
  cm_payload_sha256 :: string
  cm_fingerprint :: string
  cm_requested_at :: string
  cm_accepted_at :: string

record checkpoint_row =
  cp_tenant :: string
  cp_id :: string
  cp_workflow :: string
  cp_case :: string
  cp_revision :: string
  cp_definition :: string
  cp_sequence :: int
  cp_previous :: "string option"
  cp_state :: string
  cp_resume :: string
  cp_version :: int
  cp_deadline :: string
  cp_pending :: "string list option"
  cp_completed :: "string list option"
  cp_causation :: "string option"
  cp_correlation :: string
  cp_sha256 :: string
  cp_kind :: "string option"
  cp_created_at :: string

record sla_row =
  sl_tenant :: string
  sl_id :: string
  sl_workflow :: string
  sl_checkpoint :: string
  sl_deadline :: string
  sl_reason :: string
  sl_recorded_at :: string

record intent_row =
  in_tenant :: string
  in_id :: string
  in_workflow :: string
  in_checkpoint :: string
  in_case :: string
  in_revision :: string
  in_effect :: string
  in_operation :: string
  in_natural_key :: string
  in_state_hash :: string
  in_key :: string
  in_evidence :: "string list option"
  in_correlation :: string
  in_created_at :: string

record observation_row =
  ob_tenant :: string
  ob_id :: string
  ob_intent :: string
  ob_workflow :: string
  ob_checkpoint :: string
  ob_case :: string
  ob_revision :: string
  ob_status :: string
  ob_ticket :: "string option"
  ob_version :: "int option"
  ob_sha256 :: "string option"
  ob_reason :: "string option"
  ob_recorded_at :: string

record completion_row =
  co_tenant :: string
  co_id :: string
  co_intent :: string
  co_workflow :: string
  co_checkpoint :: string
  co_case :: string
  co_revision :: string
  co_observation :: string
  co_ticket :: string
  co_version :: int
  co_sha256 :: string
  co_completed_at :: string

record ticket_row =
  tk_tenant :: string
  tk_id :: string
  tk_natural_key :: string
  tk_version :: int
  tk_sha256 :: string
  tk_operation :: string
  tk_created_at :: string

record operation_row =
  op_tenant :: string
  op_key :: string
  op_operation :: string
  op_natural_key :: string
  op_expected :: "int option"
  op_ticket :: string
  op_version :: int
  op_sha256 :: string
  op_created_at :: string

record delivery_intent_row =
  dn_tenant :: string
  dn_id :: string
  dn_workflow :: string
  dn_checkpoint :: string
  dn_case :: string
  dn_revision :: string
  dn_binding :: string
  dn_candidate :: string
  dn_evidence :: "string list option"
  dn_channel :: string
  dn_conversation :: string
  dn_resource :: string
  dn_natural_key :: string
  dn_state_hash :: string
  dn_key :: string
  dn_correlation :: string
  dn_payload :: "json option"
  dn_created_at :: string

record delivery_completion_row =
  dc_tenant :: string
  dc_id :: string
  dc_intent :: string
  dc_workflow :: string
  dc_checkpoint :: string
  dc_observation :: string
  dc_delivery :: string
  dc_version :: int
  dc_sha256 :: string
  dc_payload :: "json option"
  dc_completed_at :: string

record workflow_projection_row =
  wp_tenant :: string
  wp_workflow :: string
  wp_case :: string
  wp_revision :: string
  wp_definition :: string
  wp_state :: string
  wp_status :: string
  wp_version :: int
  wp_checkpoint :: string
  wp_sequence :: int
  wp_deadline :: string
  wp_correlation :: string
  wp_created_at :: string
  wp_updated_at :: string

record journal_db = ledger_db +
  activations :: "activation_row list"
  runs :: "run_row list"
  commands :: "command_row list"
  checkpoints :: "checkpoint_row list"
  sla_events :: "sla_row list"
  intents :: "intent_row list"
  observations :: "observation_row list"
  completions :: "completion_row list"
  tickets :: "ticket_row list"
  operations :: "operation_row list"
  delivery_intents :: "delivery_intent_row list"
  delivery_completions :: "delivery_completion_row list"
  workflow_projections :: "workflow_projection_row list"

definition empty_journal :: journal_db where
  "empty_journal = ledger_db.extend empty_ledger
     \<lparr>activations = [], runs = [], commands = [], checkpoints = [], sla_events = [], intents = [],
      observations = [], completions = [], tickets = [], operations = [], delivery_intents = [],
      delivery_completions = [], workflow_projections = []\<rparr>"

section \<open>Constraints\<close>

definition activation_clash :: "activation_row \<Rightarrow> activation_row \<Rightarrow> bool" where
  "activation_clash r q \<longleftrightarrow> ac_tenant r = ac_tenant q \<and>
     (ac_workflow r = ac_workflow q \<or> ac_id r = ac_id q \<or>
      ac_case r = ac_case q \<and> ac_revision r = ac_revision q \<and> ac_definition r = ac_definition q)"

definition run_clash :: "run_row \<Rightarrow> run_row \<Rightarrow> bool" where
  "run_clash r q \<longleftrightarrow> rn_tenant r = rn_tenant q \<and>
     (rn_id r = rn_id q \<or> rn_workflow r = rn_workflow q \<and> rn_sequence r = rn_sequence q)"

definition command_clash :: "command_row \<Rightarrow> command_row \<Rightarrow> bool" where
  "command_clash r q \<longleftrightarrow> cm_tenant r = cm_tenant q \<and> cm_workflow r = cm_workflow q \<and> cm_id r = cm_id q"

definition checkpoint_clash :: "checkpoint_row \<Rightarrow> checkpoint_row \<Rightarrow> bool" where
  "checkpoint_clash r q \<longleftrightarrow> cp_tenant r = cp_tenant q \<and>
     (cp_id r = cp_id q \<or> cp_workflow r = cp_workflow q \<and> cp_sequence r = cp_sequence q)"

definition sla_clash :: "sla_row \<Rightarrow> sla_row \<Rightarrow> bool" where
  "sla_clash r q \<longleftrightarrow> sl_tenant r = sl_tenant q \<and> (sl_id r = sl_id q \<or> sl_workflow r = sl_workflow q)"

definition intent_clash :: "intent_row \<Rightarrow> intent_row \<Rightarrow> bool" where
  "intent_clash r q \<longleftrightarrow> in_tenant r = in_tenant q \<and>
     (in_id r = in_id q \<or> in_key r = in_key q \<or>
      in_workflow r = in_workflow q \<and> in_operation r = in_operation q)"

definition observation_clash :: "observation_row \<Rightarrow> observation_row \<Rightarrow> bool" where
  "observation_clash r q \<longleftrightarrow> ob_tenant r = ob_tenant q \<and> ob_id r = ob_id q"

definition completion_clash :: "completion_row \<Rightarrow> completion_row \<Rightarrow> bool" where
  "completion_clash r q \<longleftrightarrow> co_tenant r = co_tenant q \<and>
     (co_id r = co_id q \<or> co_intent r = co_intent q)"

definition ticket_clash :: "ticket_row \<Rightarrow> ticket_row \<Rightarrow> bool" where
  "ticket_clash r q \<longleftrightarrow> tk_tenant r = tk_tenant q \<and> tk_version r = tk_version q \<and>
     (tk_id r = tk_id q \<or> tk_natural_key r = tk_natural_key q)"

definition operation_clash :: "operation_row \<Rightarrow> operation_row \<Rightarrow> bool" where
  "operation_clash r q \<longleftrightarrow> op_tenant r = op_tenant q \<and> op_key r = op_key q"

text \<open>The referenced rows of the foreign keys.\<close>

definition has_revision :: "string \<Rightarrow> string \<Rightarrow> 'a journal_db_scheme \<Rightarrow> bool" where
  "has_revision t r s = list_ex (\<lambda>q. rv_tenant q = t \<and> rv_id q = r) (revisions s)"

definition has_activation :: "string \<Rightarrow> string \<Rightarrow> 'a journal_db_scheme \<Rightarrow> bool" where
  "has_activation t w s = list_ex (\<lambda>q. ac_tenant q = t \<and> ac_workflow q = w) (activations s)"

definition has_intent :: "string \<Rightarrow> string \<Rightarrow> 'a journal_db_scheme \<Rightarrow> bool" where
  "has_intent t i s = list_ex (\<lambda>q. in_tenant q = t \<and> in_id q = i) (intents s)"

definition has_ticket :: "string \<Rightarrow> string \<Rightarrow> int \<Rightarrow> 'a journal_db_scheme \<Rightarrow> bool" where
  "has_ticket t i v s =
     list_ex (\<lambda>q. tk_tenant q = t \<and> tk_id q = i \<and> tk_version q = v) (tickets s)"

section \<open>Statements\<close>

definition insert_activation :: "activation_row \<Rightarrow> ('a journal_db_scheme, unit) action" where
  "insert_activation r = modify (\<lambda>s. bind_res
     (insert_row (\<lambda>r. 0 < ac_deadline_seconds r \<and> has_revision (ac_tenant r) (ac_revision r) s)
        activation_clash r (activations s)) (\<lambda>rs. Inr (s\<lparr>activations := rs\<rparr>)))"

definition insert_run_row :: "run_row \<Rightarrow> ('a journal_db_scheme, unit) action" where
  "insert_run_row r = modify (\<lambda>s. bind_res
     (insert_row (\<lambda>r. 1 \<le> rn_sequence r \<and> has_activation (rn_tenant r) (rn_workflow r) s)
        run_clash r (runs s)) (\<lambda>rs. Inr (s\<lparr>runs := rs\<rparr>)))"

definition insert_command :: "command_row \<Rightarrow> ('a journal_db_scheme, unit) action" where
  "insert_command r = modify (\<lambda>s. bind_res
     (insert_row (\<lambda>r. 0 \<le> cm_expected r \<and> has_activation (cm_tenant r) (cm_workflow r) s)
        command_clash r (commands s)) (\<lambda>rs. Inr (s\<lparr>commands := rs\<rparr>)))"

definition insert_checkpoint :: "checkpoint_row \<Rightarrow> ('a journal_db_scheme, unit) action" where
  "insert_checkpoint r = modify (\<lambda>s. bind_res
     (insert_row (\<lambda>r. 1 \<le> cp_sequence r \<and> 0 \<le> cp_version r \<and>
          has_activation (cp_tenant r) (cp_workflow r) s)
        checkpoint_clash r (checkpoints s)) (\<lambda>rs. Inr (s\<lparr>checkpoints := rs\<rparr>)))"

definition insert_sla :: "sla_row \<Rightarrow> ('a journal_db_scheme, unit) action" where
  "insert_sla r = modify (\<lambda>s. bind_res
     (insert_row (\<lambda>r. has_activation (sl_tenant r) (sl_workflow r) s) sla_clash r (sla_events s))
     (\<lambda>rs. Inr (s\<lparr>sla_events := rs\<rparr>)))"

definition insert_intent :: "intent_row \<Rightarrow> ('a journal_db_scheme, unit) action" where
  "insert_intent r = modify (\<lambda>s. bind_res
     (insert_row (\<lambda>r. in_effect r = ''fixture-local-ticket'' \<and>
          has_activation (in_tenant r) (in_workflow r) s)
        intent_clash r (intents s)) (\<lambda>rs. Inr (s\<lparr>intents := rs\<rparr>)))"

definition insert_observation :: "observation_row \<Rightarrow> ('a journal_db_scheme, unit) action" where
  "insert_observation r = modify (\<lambda>s. bind_res
     (insert_row (\<lambda>r. has_intent (ob_tenant r) (ob_intent r) s) observation_clash r (observations s))
     (\<lambda>rs. Inr (s\<lparr>observations := rs\<rparr>)))"

definition insert_completion :: "completion_row \<Rightarrow> ('a journal_db_scheme, unit) action" where
  "insert_completion r = modify (\<lambda>s. bind_res
     (insert_row (\<lambda>r. 1 \<le> co_version r \<and> has_intent (co_tenant r) (co_intent r) s)
        completion_clash r (completions s)) (\<lambda>rs. Inr (s\<lparr>completions := rs\<rparr>)))"

definition insert_ticket :: "ticket_row \<Rightarrow> ('a journal_db_scheme, unit) action" where
  "insert_ticket r = modify (\<lambda>s. bind_res
     (insert_row (\<lambda>r. 1 \<le> tk_version r) ticket_clash r (tickets s)) (\<lambda>rs. Inr (s\<lparr>tickets := rs\<rparr>)))"

definition insert_operation :: "operation_row \<Rightarrow> ('a journal_db_scheme, unit) action" where
  "insert_operation r = modify (\<lambda>s. bind_res
     (insert_row (\<lambda>r. 1 \<le> op_version r \<and> has_ticket (op_tenant r) (op_ticket r) (op_version r) s)
        operation_clash r (operations s)) (\<lambda>rs. Inr (s\<lparr>operations := rs\<rparr>)))"

text \<open>
  One write transaction of the engine: \<open>WorkflowError\<close> and its subclasses roll back and propagate,
  a \<open>DatabaseError\<close> rolls back and becomes the operation's own \<open>WorkflowError\<close>, anything else rolls
  back when the connection closes.
\<close>

definition engine_tx :: "string \<Rightarrow> ('s, 'a) action \<Rightarrow> ('s, 'a) action" where
  "engine_tx reason m = tx (rethrow (db_error_as (WorkflowError reason)) m)"

text \<open>\<open>except ContractValidationError: raise WorkflowError(reason)\<close> around a validator.\<close>

definition contract_as :: "string \<Rightarrow> exn + 'a \<Rightarrow> exn + 'a" where
  "contract_as reason = catch_res is_contract_error (\<lambda>_. Inl (WorkflowError reason))"

lemma engine_tx_eq_Inr [simp]: "engine_tx r m s = (Inr a, s') \<longleftrightarrow> m s = (Inr a, s')"
  by (simp add: engine_tx_def)

lemma engine_tx_failed: "engine_tx r m s = (Inl e, s') \<Longrightarrow> s' = s"
  by (auto simp: engine_tx_def dest: tx_error_unchanged)

lemma contract_as_eq_Inr [simp]: "contract_as r m = Inr a \<longleftrightarrow> m = Inr a"
  by (cases m) (auto simp: contract_as_def catch_res_def)

lemma insert_journal_ok:
  "insert_checkpoint c s = (Inr u, s') \<longleftrightarrow> 1 \<le> cp_sequence c \<and> 0 \<le> cp_version c \<and>
     has_activation (cp_tenant c) (cp_workflow c) s \<and>
     (\<forall>x\<in>set (checkpoints s). \<not> checkpoint_clash c x) \<and> s' = s\<lparr>checkpoints := checkpoints s @ [c]\<rparr>"
  "insert_run_row r s = (Inr u, s') \<longleftrightarrow> 1 \<le> rn_sequence r \<and>
     has_activation (rn_tenant r) (rn_workflow r) s \<and>
     (\<forall>x\<in>set (runs s). \<not> run_clash r x) \<and> s' = s\<lparr>runs := runs s @ [r]\<rparr>"
  "insert_intent i s = (Inr u, s') \<longleftrightarrow> in_effect i = ''fixture-local-ticket'' \<and>
     has_activation (in_tenant i) (in_workflow i) s \<and>
     (\<forall>x\<in>set (intents s). \<not> intent_clash i x) \<and> s' = s\<lparr>intents := intents s @ [i]\<rparr>"
  "insert_observation b s = (Inr u, s') \<longleftrightarrow> has_intent (ob_tenant b) (ob_intent b) s \<and>
     (\<forall>x\<in>set (observations s). \<not> observation_clash b x) \<and>
     s' = s\<lparr>observations := observations s @ [b]\<rparr>"
  "insert_completion k s = (Inr u, s') \<longleftrightarrow> 1 \<le> co_version k \<and> has_intent (co_tenant k) (co_intent k) s \<and>
     (\<forall>x\<in>set (completions s). \<not> completion_clash k x) \<and>
     s' = s\<lparr>completions := completions s @ [k]\<rparr>"
  "insert_ticket t s = (Inr u, s') \<longleftrightarrow> 1 \<le> tk_version t \<and>
     (\<forall>x\<in>set (tickets s). \<not> ticket_clash t x) \<and> s' = s\<lparr>tickets := tickets s @ [t]\<rparr>"
  "insert_operation o' s = (Inr u, s') \<longleftrightarrow> 1 \<le> op_version o' \<and>
     has_ticket (op_tenant o') (op_ticket o') (op_version o') s \<and>
     (\<forall>x\<in>set (operations s). \<not> operation_clash o' x) \<and>
     s' = s\<lparr>operations := operations s @ [o']\<rparr>"
  "insert_activation a s = (Inr u, s') \<longleftrightarrow> 0 < ac_deadline_seconds a \<and>
     has_revision (ac_tenant a) (ac_revision a) s \<and>
     (\<forall>x\<in>set (activations s). \<not> activation_clash a x) \<and> s' = s\<lparr>activations := activations s @ [a]\<rparr>"
  by (auto simp: insert_checkpoint_def insert_run_row_def insert_intent_def insert_observation_def
      insert_completion_def insert_ticket_def insert_operation_def insert_activation_def)

end
