(* ===== verification/Checkpoints.thy ===== *)
theory Checkpoints
  imports JournalStore
begin

text \<open>
  \<open>durable_workflow.py\<close>, first part: the identity and activation of a workflow, its runs, and the
  hash-bound chain of checkpoints every later step is appended to.  \<open>now\<close> is what the clock returns
  during one operation (\<open>FixtureClock\<close> returns one value until it is advanced).
\<close>

section \<open>Activation\<close>

definition workflow_id :: "string \<Rightarrow> string \<Rightarrow> string \<Rightarrow> string \<Rightarrow> string" where
  "workflow_id tenant_id case_id case_revision_id definition_version =
     stable_identifier ''workflow'' (JObj
       [(''tenant_id'', JStr tenant_id), (''case_id'', JStr case_id),
        (''case_revision_id'', JStr case_revision_id),
        (''workflow_definition_version'', JStr definition_version)])"

definition default_sla_policy :: "validators \<Rightarrow> instant \<Rightarrow> string \<Rightarrow> string \<Rightarrow> exn + obj" where
  "default_sla_policy V now tenant_id created_at =
     (let policy =
        [(''schema_id'', JStr SYNTHETIC_SLA_POLICY_SCHEMA_ID), (''schema_version'', JStr ''v1''),
         (''tenant_id'', JStr tenant_id), (''policy_id'', JStr ''fixture-sla-default''),
         (''policy_version'', JStr ''v1''), (''deadline_seconds'', JInt 3600),
         (''created_at'', JStr (if created_at = [] then timestamp now else created_at))]
      in bind_res (validate_synthetic_sla_policy V policy) (\<lambda>_. Inr policy))"

text \<open>\<open>_parse_timestamp\<close>: a datetime without an offset is read in the local zone, UTC here.\<close>

definition parse_timestamp :: "string \<Rightarrow> exn + instant" where
  "parse_timestamp v = (case parse_iso v of
     None \<Rightarrow> Inl (ValueError ''Invalid isoformat string'')
   | Some (Naive t) \<Rightarrow> Inr t
   | Some (Aware t) \<Rightarrow>
       if valid_instant t then Inr t else Inl (OverflowError ''date value out of range''))"

text \<open>\<open>_row_dict(fetchone())\<close> of the activation of a Case revision, and of a workflow.\<close>

definition activation_for_case ::
  "string \<Rightarrow> string \<Rightarrow> string \<Rightarrow> 'a journal_db_scheme \<Rightarrow> activation_row option" where
  "activation_for_case t c r s =
     first_row (filter (\<lambda>a. ac_tenant a = t \<and> ac_case a = c \<and> ac_revision a = r \<and>
       ac_definition a = WORKFLOW_DEFINITION_VERSION) (activations s))"

definition activation_of :: "string \<Rightarrow> string \<Rightarrow> 'a journal_db_scheme \<Rightarrow> exn + activation_row" where
  "activation_of t w s =
     (case first_row (filter (\<lambda>a. ac_tenant a = t \<and> ac_workflow a = w) (activations s)) of
        None \<Rightarrow> Inl (WorkflowNotFound ''workflow_not_found'')
      | Some a \<Rightarrow> Inr a)"

section \<open>Runs\<close>

definition run_sequences :: "string \<Rightarrow> string \<Rightarrow> 'a journal_db_scheme \<Rightarrow> int list" where
  "run_sequences t w s =
     map rn_sequence (filter (\<lambda>r. rn_tenant r = t \<and> rn_workflow r = w) (runs s))"

definition new_run :: "string \<Rightarrow> string \<Rightarrow> string \<Rightarrow> string \<Rightarrow> string \<Rightarrow> int \<Rightarrow> run_row" where
  "new_run t w state reason created_at n =
     \<lparr>rn_tenant = t,
      rn_id = stable_identifier ''workflow_run'' (JObj
        [(''workflow_id'', JStr w), (''run_sequence'', JInt n), (''reason_code'', JStr reason)]),
      rn_workflow = w, rn_sequence = n, rn_state = state, rn_status = run_status state,
      rn_reason = reason, rn_created_at = created_at\<rparr>"

definition insert_run ::
  "string \<Rightarrow> string \<Rightarrow> string \<Rightarrow> string \<Rightarrow> string \<Rightarrow> ('a journal_db_scheme, unit) action" where
  "insert_run t w state reason created_at =
     bind (query (\<lambda>s. next_index (run_sequences t w s)))
       (\<lambda>n. insert_run_row (new_run t w state reason created_at n))"

section \<open>Activating a Case\<close>

text \<open>The row of a new activation: the policy values are bound to typed columns.\<close>

definition new_activation ::
  "instant \<Rightarrow> projection_row \<Rightarrow> string \<Rightarrow> string \<Rightarrow> obj \<Rightarrow> string \<Rightarrow> exn + activation_row" where
  "new_activation now p r source_event_id policy deadline =
     (let w = workflow_id (pj_tenant p) (pj_case p) r WORKFLOW_DEFINITION_VERSION in
     bind_res (bind_res (obj_item policy ''policy_id'') sql_text) (\<lambda>pid.
     bind_res (bind_res (obj_item policy ''policy_version'') sql_text) (\<lambda>pver.
     bind_res (bind_res (obj_item policy ''deadline_seconds'') sql_int) (\<lambda>secs.
     Inr \<lparr>ac_tenant = pj_tenant p, ac_workflow = w,
          ac_id = stable_identifier ''workflow_activation'' (JObj [(''workflow_id'', JStr w)]),
          ac_case = pj_case p, ac_revision = r, ac_definition = WORKFLOW_DEFINITION_VERSION,
          ac_source = source_event_id, ac_correlation = pj_correlation p, ac_policy = pid,
          ac_policy_version = pver, ac_deadline_seconds = secs, ac_deadline = deadline,
          ac_created_at = timestamp now\<rparr>))))"

text \<open>The transaction of \<open>activate_case\<close>.\<close>

definition persist_activation ::
  "instant \<Rightarrow> projection_row \<Rightarrow> string \<Rightarrow> string \<Rightarrow> obj \<Rightarrow> string \<Rightarrow>
   ('a journal_db_scheme, string \<times> bool) action" where
  "persist_activation now p r source_event_id policy deadline =
     (let w = workflow_id (pj_tenant p) (pj_case p) r WORKFLOW_DEFINITION_VERSION in
     engine_tx ''workflow_activation_failed''
       (bind (query schema_error) (\<lambda>schema.
        bind (lift_res (case schema of None \<Rightarrow> Inr () | Some reason \<Rightarrow> Inl (WorkflowError reason))) (\<lambda>_.
        bind (query (activation_for_case (pj_tenant p) (pj_case p) r)) (\<lambda>existing.
        case existing of
          Some a \<Rightarrow>
            bind (lift_res (require (ac_workflow a = w)
              (WorkflowError ''workflow_activation_conflict''))) (\<lambda>_. ret (w, False))
        | None \<Rightarrow>
            bind (lift_res (new_activation now p r source_event_id policy deadline)) (\<lambda>a.
            bind (insert_activation a) (\<lambda>_.
            bind (insert_run (pj_tenant p) w RECEIVED ''activated'' (timestamp now)) (\<lambda>_.
            ret (w, True)))))))))"

text \<open>The policy the caller gave, or the default of the Case, and the deadline it sets.\<close>

definition activation_policy ::
  "validators \<Rightarrow> instant \<Rightarrow> projection_row \<Rightarrow> obj option \<Rightarrow> exn + obj" where
  "activation_policy V now p given =
     bind_res (case given of
         None \<Rightarrow> default_sla_policy V now (pj_tenant p) (pj_created_at p)
       | Some policy \<Rightarrow>
           if policy = [] then default_sla_policy V now (pj_tenant p) (pj_created_at p)
           else Inr policy) (\<lambda>policy.
     bind_res (contract_as ''invalid_synthetic_sla_policy''
       (validate_synthetic_sla_policy V policy)) (\<lambda>_.
     bind_res (obj_item policy ''tenant_id'') (\<lambda>tenant.
     bind_res (require (tenant = JStr (pj_tenant p)) (WorkflowError ''tenant_identity_mismatch'')) (\<lambda>_.
     Inr policy))))"

definition sla_deadline :: "projection_row \<Rightarrow> obj \<Rightarrow> exn + string" where
  "sla_deadline p policy =
     bind_res (parse_timestamp (pj_created_at p)) (\<lambda>t0.
     bind_res (bind_res (obj_item policy ''deadline_seconds'') py_int) (\<lambda>secs.
     bind_res (add_seconds t0 secs) (\<lambda>t. Inr (timestamp t))))"

definition activate_case ::
  "validators \<Rightarrow> instant \<Rightarrow> string \<Rightarrow> string \<Rightarrow> string \<Rightarrow> obj option \<Rightarrow>
   ('a journal_db_scheme, string \<times> bool) action" where
  "activate_case V now t c r given =
     bind (bind (query (get_case_projection V t c)) lift_res) (\<lambda>projection.
     bind (bind (query (list_case_revisions V t c)) lift_res) (\<lambda>rvs.
     bind (bind (query (list_case_events V t c)) lift_res) (\<lambda>evs.
     case projection of
       None \<Rightarrow> throw (WorkflowNotFound ''workflow_not_found'')
     | Some p \<Rightarrow>
         if length rvs \<noteq> 1 \<or> evs = [] \<or> rv_id (hd rvs) \<noteq> r
         then throw (WorkflowNotFound ''workflow_not_found'')
         else if pj_state p \<noteq> RECEIVED then
           bind (query (activation_for_case t c r)) (\<lambda>existing.
           case existing of
             None \<Rightarrow> throw (WorkflowError ''workflow_activation_predecessor_invalid'')
           | Some a \<Rightarrow> ret (ac_workflow a, False))
         else
           bind (lift_res (activation_policy V now p given)) (\<lambda>policy.
           bind (lift_res (sla_deadline p policy)) (\<lambda>deadline.
           persist_activation now p r (ev_id (last evs)) policy deadline)))))"

section \<open>Checkpoints\<close>

text \<open>A checkpoint record read back from the store: the row and its two decoded intent lists.\<close>

record checkpoint =
  ck_row :: checkpoint_row
  ck_pending :: "string list"
  ck_completed :: "string list"

definition load_checkpoint :: "checkpoint_row \<Rightarrow> exn + checkpoint" where
  "load_checkpoint r =
     (case (cp_pending r, cp_completed r) of
        (Some p, Some c) \<Rightarrow> Inr \<lparr>ck_row = r, ck_pending = p, ck_completed = c\<rparr>
      | _ \<Rightarrow> Inl (WorkflowError ''workflow_journal_invalid''))"

definition checkpoint_fields :: "checkpoint_row \<Rightarrow> string list \<Rightarrow> string list \<Rightarrow> string \<Rightarrow> obj" where
  "checkpoint_fields r pending completed sha256 =
     [(''schema_id'', JStr WORKFLOW_CHECKPOINT_SCHEMA_ID), (''schema_version'', JStr ''v1''),
      (''tenant_id'', JStr (cp_tenant r)), (''case_id'', JStr (cp_case r)),
      (''case_revision_id'', JStr (cp_revision r)), (''workflow_id'', JStr (cp_workflow r)),
      (''workflow_definition_version'', JStr (cp_definition r)),
      (''checkpoint_id'', JStr (cp_id r)), (''checkpoint_sequence'', JInt (cp_sequence r)),
      (''previous_checkpoint_id'', jopt (cp_previous r)), (''current_state'', JStr (cp_state r)),
      (''resume_state'', JStr (cp_resume r)), (''workflow_version'', JInt (cp_version r)),
      (''sla_deadline_at'', JStr (cp_deadline r)), (''pending_intent_ids'', jlist pending),
      (''completed_intent_ids'', jlist completed), (''causation_event_id'', jopt (cp_causation r)),
      (''correlation_id'', JStr (cp_correlation r)), (''content_sha256'', JStr sha256),
      (''created_at'', JStr (cp_created_at r))]"

definition checkpoint_payload :: "checkpoint \<Rightarrow> obj" where
  "checkpoint_payload k = checkpoint_fields (ck_row k) (ck_pending k) (ck_completed k) (cp_sha256 (ck_row k))"

definition checkpoint_hash :: "obj \<Rightarrow> string" where
  "checkpoint_hash payload = canonical_sha256 (JObj (obj_without payload ''content_sha256''))"

definition checkpoint_rows :: "string \<Rightarrow> string \<Rightarrow> 'a journal_db_scheme \<Rightarrow> checkpoint_row list" where
  "checkpoint_rows t w s =
     sort_key cp_sequence (filter (\<lambda>r. cp_tenant r = t \<and> cp_workflow r = w) (checkpoints s))"

definition checkpoints_of ::
  "string \<Rightarrow> string \<Rightarrow> 'a journal_db_scheme \<Rightarrow> exn + checkpoint list" where
  "checkpoints_of t w s = map_res load_checkpoint (checkpoint_rows t w s)"

definition latest_checkpoint ::
  "string \<Rightarrow> string \<Rightarrow> 'a journal_db_scheme \<Rightarrow> exn + checkpoint option" where
  "latest_checkpoint t w s =
     bind_res (checkpoints_of t w s) (\<lambda>ks. Inr (if ks = [] then None else Some (last ks)))"

text \<open>\<open>sorted(set(xs))\<close>\<close>

definition sorted_set :: "string list \<Rightarrow> string list" where
  "sorted_set xs = sort (remdups xs)"

text \<open>The keyword arguments of \<open>_ensure_checkpoint\<close>.\<close>

record checkpoint_request =
  rq_state :: string
  rq_resume :: string
  rq_pending :: "string list"
  rq_completed :: "string list"
  rq_causation :: "string option"
  rq_kind :: "string option"

definition same_checkpoint :: "checkpoint_request \<Rightarrow> checkpoint \<Rightarrow> bool" where
  "same_checkpoint q k \<longleftrightarrow>
     cp_state (ck_row k) = rq_state q \<and> cp_resume (ck_row k) = rq_resume q \<and>
     ck_pending k = sorted_set (rq_pending q) \<and> ck_completed k = sorted_set (rq_completed q) \<and>
     cp_causation (ck_row k) = rq_causation q \<and> cp_kind (ck_row k) = rq_kind q"

definition checkpoint_id :: "string \<Rightarrow> int \<Rightarrow> string" where
  "checkpoint_id w n = stable_identifier ''workflow_checkpoint'' (JObj
     [(''workflow_id'', JStr w), (''checkpoint_sequence'', JInt n)])"

text \<open>The next checkpoint of a chain, with the digest of everything else in it.\<close>

definition unhashed_checkpoint ::
  "instant \<Rightarrow> activation_row \<Rightarrow> checkpoint option \<Rightarrow> checkpoint_request \<Rightarrow> checkpoint_row" where
  "unhashed_checkpoint now a prev q =
     (let n = (case prev of None \<Rightarrow> 1 | Some k \<Rightarrow> cp_sequence (ck_row k) + 1) in
      \<lparr>cp_tenant = ac_tenant a, cp_id = checkpoint_id (ac_workflow a) n,
       cp_workflow = ac_workflow a, cp_case = ac_case a, cp_revision = ac_revision a,
       cp_definition = ac_definition a, cp_sequence = n,
       cp_previous = map_option (\<lambda>k. cp_id (ck_row k)) prev, cp_state = rq_state q,
       cp_resume = rq_resume q,
       cp_version = (case prev of None \<Rightarrow> 0 | Some k \<Rightarrow> cp_version (ck_row k) + 1),
       cp_deadline = ac_deadline a, cp_pending = Some (sorted_set (rq_pending q)),
       cp_completed = Some (sorted_set (rq_completed q)), cp_causation = rq_causation q,
       cp_correlation = ac_correlation a, cp_sha256 = [], cp_kind = rq_kind q,
       cp_created_at = timestamp now\<rparr>)"

definition next_checkpoint ::
  "instant \<Rightarrow> activation_row \<Rightarrow> checkpoint option \<Rightarrow> checkpoint_request \<Rightarrow> checkpoint" where
  "next_checkpoint now a prev q =
     (let r = unhashed_checkpoint now a prev q;
          p = sorted_set (rq_pending q); c = sorted_set (rq_completed q)
      in \<lparr>ck_row = r\<lparr>cp_sha256 := checkpoint_hash (checkpoint_fields r p c [])\<rparr>,
          ck_pending = p, ck_completed = c\<rparr>)"

text \<open>
  The transaction that appends it.  Another writer that already stored this sequence number wins:
  its checkpoint is returned.
\<close>

definition taken_sequence :: "checkpoint_row \<Rightarrow> 'a journal_db_scheme \<Rightarrow> checkpoint_row option" where
  "taken_sequence r s = first_row (filter (\<lambda>x. cp_tenant x = cp_tenant r \<and>
     cp_workflow x = cp_workflow r \<and> cp_sequence x = cp_sequence r) (checkpoints s))"

definition present_checkpoint :: "checkpoint option \<Rightarrow> exn + checkpoint" where
  "present_checkpoint k = (case k of
     None \<Rightarrow> Inl (WorkflowError ''workflow_journal_invalid'') | Some k \<Rightarrow> Inr k)"

definition checkpoint_reason :: "string option \<Rightarrow> string" where
  "checkpoint_reason kind =
     ''checkpoint:'' @ (case kind of None \<Rightarrow> ''progress'' | Some x \<Rightarrow> if x = [] then ''progress'' else x)"

definition append_checkpoint :: "checkpoint \<Rightarrow> ('a journal_db_scheme, checkpoint) action" where
  "append_checkpoint k =
     (let r = ck_row k in
     engine_tx ''workflow_checkpoint_failed''
       (bind (query (taken_sequence r)) (\<lambda>taken.
        case taken of
          Some _ \<Rightarrow> bind (bind (query (latest_checkpoint (cp_tenant r) (cp_workflow r))) lift_res)
                      (\<lambda>k'. lift_res (present_checkpoint k'))
        | None \<Rightarrow>
            bind (insert_checkpoint r) (\<lambda>_.
            bind (insert_run (cp_tenant r) (cp_workflow r) (cp_state r)
                    (checkpoint_reason (cp_kind r)) (cp_created_at r)) (\<lambda>_. ret k)))))"

definition write_checkpoint ::
  "validators \<Rightarrow> checkpoint \<Rightarrow> ('a journal_db_scheme, checkpoint) action" where
  "write_checkpoint V k =
     bind (lift_res (contract_as ''workflow_checkpoint_invalid''
       (validate_workflow_checkpoint V (checkpoint_payload k)))) (\<lambda>_. append_checkpoint k)"

definition ensure_checkpoint ::
  "validators \<Rightarrow> instant \<Rightarrow> activation_row \<Rightarrow> checkpoint_request \<Rightarrow>
   ('a journal_db_scheme, checkpoint) action" where
  "ensure_checkpoint V now a q =
     bind (bind (query (latest_checkpoint (ac_tenant a) (ac_workflow a))) lift_res) (\<lambda>prev.
     bind (lift_res (require (set (rq_pending q) \<inter> set (rq_completed q) = {})
       (WorkflowError ''workflow_checkpoint_effect_overlap''))) (\<lambda>_.
     case prev of
       Some k \<Rightarrow>
         if same_checkpoint q k then ret k
         else write_checkpoint V (next_checkpoint now a (Some k) q)
     | None \<Rightarrow>
         bind (lift_res (require
             (rq_state q = RECEIVED \<and> rq_resume q = RECEIVED \<and> rq_kind q = None)
             (WorkflowError ''workflow_checkpoint_predecessor_invalid''))) (\<lambda>_.
         write_checkpoint V (next_checkpoint now a None q))))"

lemma cp_sha256_next [simp]:
  "cp_sha256 (ck_row (next_checkpoint now a prev q)) = checkpoint_hash
     (checkpoint_fields (unhashed_checkpoint now a prev q) (sorted_set (rq_pending q))
        (sorted_set (rq_completed q)) [])"
  by (simp add: next_checkpoint_def Let_def)

lemma set_sorted_set [simp]: "set (sorted_set xs) = set xs"
  by (simp add: sorted_set_def)

end
