(* ===== verification/TicketEffects.thy ===== *)
theory TicketEffects
  imports Checkpoints
begin

text \<open>
  \<open>durable_workflow.py\<close>, the effect protocol of the fixture-local ticket provider: an immutable
  intent, its reconciliation against the provider, at most one execution under the intent's
  idempotency key, and the observation and completion records.  A \<open>fault_profile\<close> interrupts the
  worker after a named durable boundary.
\<close>

section \<open>Fault profiles\<close>

record fault_profile =
  interrupt_after :: "string list"
  reconciliation_timeout :: bool

definition FAULT_POINTS :: "string list" where
  "FAULT_POINTS =
     [''activation'', ''checkpoint'', ''intent'', ''reconcile'', ''execute'', ''lost-response'',
      ''observation'', ''completion'', ''agent-action'', ''tool-result'', ''candidate'', ''verifier'',
      ''policy'', ''approval-request'', ''approval-decision'', ''delivery-intent'',
      ''delivery-execute'', ''delivery-lost-response'', ''delivery-observation'',
      ''delivery-completion'', ''delivery-transition'']"

definition fault_after :: "string list \<Rightarrow> exn + fault_profile" where
  "fault_after points =
     (if set points \<subseteq> set FAULT_POINTS
      then Inr \<lparr>interrupt_after = points, reconciliation_timeout = False\<rparr>
      else Inl (ValueError ''unsupported_fault_profile''))"

definition fault_named :: "string \<Rightarrow> exn + fault_profile" where
  "fault_named name =
     (if name = ''reconciliation-timeout''
      then Inr \<lparr>interrupt_after = [], reconciliation_timeout = True\<rparr> else fault_after [name])"

definition interrupt :: "fault_profile option \<Rightarrow> string \<Rightarrow> ('s, unit) action" where
  "interrupt fp point =
     (case fp of
        None \<Rightarrow> ret ()
      | Some p \<Rightarrow> if point \<in> set (interrupt_after p)
                  then throw (WorkflowInterrupted (''fault_injected:'' @ point)) else ret ())"

section \<open>Intents\<close>

abbreviation LOCAL_TICKET_EFFECT_KIND :: string where
  "LOCAL_TICKET_EFFECT_KIND \<equiv> ''fixture-local-ticket''"
abbreviation LOCAL_TICKET_PROVIDER_ID :: string where
  "LOCAL_TICKET_PROVIDER_ID \<equiv> ''fixture-local-ticket''"
abbreviation FIND_OR_CREATE :: string where "FIND_OR_CREATE \<equiv> ''find-or-create''"
abbreviation WORKFLOW_HANDOFF :: string where "WORKFLOW_HANDOFF \<equiv> ''workflow-handoff''"

definition load_intent :: "intent_row \<Rightarrow> exn + intent_row" where
  "load_intent i =
     (if in_evidence i = None then Inl (WorkflowError ''workflow_journal_invalid'') else Inr i)"

definition intent_payload :: "intent_row \<Rightarrow> obj" where
  "intent_payload i =
     [(''schema_id'', JStr SIDE_EFFECT_INTENT_SCHEMA_ID), (''schema_version'', JStr ''v1''),
      (''tenant_id'', JStr (in_tenant i)), (''case_id'', JStr (in_case i)),
      (''case_revision_id'', JStr (in_revision i)), (''workflow_id'', JStr (in_workflow i)),
      (''checkpoint_id'', JStr (in_checkpoint i)), (''intent_id'', JStr (in_id i)),
      (''effect_kind'', JStr (in_effect i)), (''operation'', JStr (in_operation i)),
      (''natural_key'', JStr (in_natural_key i)),
      (''intended_state_hash'', JStr (in_state_hash i)), (''idempotency_key'', JStr (in_key i)),
      (''evidence_references'', jlist (case in_evidence i of None \<Rightarrow> [] | Some es \<Rightarrow> es)),
      (''correlation_id'', JStr (in_correlation i)), (''created_at'', JStr (in_created_at i))]"

definition find_intent ::
  "string \<Rightarrow> string \<Rightarrow> string \<Rightarrow> 'a journal_db_scheme \<Rightarrow> intent_row option" where
  "find_intent t w op s =
     first_row (filter (\<lambda>i. in_tenant i = t \<and> in_workflow i = w \<and> in_operation i = op) (intents s))"

definition intent_for_operation ::
  "string \<Rightarrow> string \<Rightarrow> string \<Rightarrow> 'a journal_db_scheme \<Rightarrow> exn + intent_row option" where
  "intent_for_operation t w op s =
     (case find_intent t w op s of
        None \<Rightarrow> Inr None
      | Some i \<Rightarrow> bind_res (load_intent i) (\<lambda>i. Inr (Some i)))"

definition completion_for_intent ::
  "string \<Rightarrow> string \<Rightarrow> 'a journal_db_scheme \<Rightarrow> completion_row option" where
  "completion_for_intent t i s =
     first_row (filter (\<lambda>c. co_tenant c = t \<and> co_intent c = i) (completions s))"

definition completed_intent_ids :: "string \<Rightarrow> string \<Rightarrow> 'a journal_db_scheme \<Rightarrow> string list" where
  "completed_intent_ids t w s =
     sort (map co_intent (filter (\<lambda>c. co_tenant c = t \<and> co_workflow c = w) (completions s)))"

definition unresolved_intent_ids :: "string \<Rightarrow> string \<Rightarrow> 'a journal_db_scheme \<Rightarrow> string list" where
  "unresolved_intent_ids t w s =
     sort (map in_id (filter (\<lambda>i. in_tenant i = t \<and> in_workflow i = w \<and>
       \<not> list_ex (\<lambda>c. co_tenant c = in_tenant i \<and> co_intent c = in_id i) (completions s)) (intents s)))"

definition pending_delivery_intent_ids ::
  "string \<Rightarrow> string \<Rightarrow> 'a journal_db_scheme \<Rightarrow> string list" where
  "pending_delivery_intent_ids t w s =
     sort (map dn_id (filter (\<lambda>i. dn_tenant i = t \<and> dn_workflow i = w \<and>
       \<not> list_ex (\<lambda>c. dc_tenant c = dn_tenant i \<and> dc_intent c = dn_id i) (delivery_completions s))
       (delivery_intents s)))"

definition completed_delivery_intent_ids ::
  "string \<Rightarrow> string \<Rightarrow> 'a journal_db_scheme \<Rightarrow> string list" where
  "completed_delivery_intent_ids t w s =
     sort (map dn_id (filter (\<lambda>i. dn_tenant i = t \<and> dn_workflow i = w \<and>
       list_ex (\<lambda>c. dc_tenant c = dn_tenant i \<and> dc_intent c = dn_id i) (delivery_completions s))
       (delivery_intents s)))"

definition all_pending_intent_ids :: "string \<Rightarrow> string \<Rightarrow> 'a journal_db_scheme \<Rightarrow> string list" where
  "all_pending_intent_ids t w s =
     sorted_set (unresolved_intent_ids t w s @ pending_delivery_intent_ids t w s)"

definition all_completed_intent_ids :: "string \<Rightarrow> string \<Rightarrow> 'a journal_db_scheme \<Rightarrow> string list" where
  "all_completed_intent_ids t w s =
     sorted_set (completed_intent_ids t w s @ completed_delivery_intent_ids t w s)"

text \<open>The intent of an operation of a workflow: everything but the time of writing is derived.\<close>

definition effect_natural_key :: "activation_row \<Rightarrow> string" where
  "effect_natural_key a = ac_tenant a @ '':'' @ ac_case a @ '':'' @ ac_revision a"

definition intended_state_hash :: "string \<Rightarrow> string \<Rightarrow> string" where
  "intended_state_hash w op = canonical_sha256 (JObj
     [(''workflow_id'', JStr w), (''operation'', JStr op),
      (''content_reference'', JStr ''fixture-local-ticket-handoff.v1'')])"

definition effect_key :: "activation_row \<Rightarrow> string \<Rightarrow> string" where
  "effect_key a op = stable_idempotency_key (ac_tenant a) LOCAL_TICKET_PROVIDER_ID op
     (effect_natural_key a) (intended_state_hash (ac_workflow a) op)"

definition new_intent :: "instant \<Rightarrow> activation_row \<Rightarrow> string \<Rightarrow> string \<Rightarrow> intent_row" where
  "new_intent now a checkpoint op =
     \<lparr>in_tenant = ac_tenant a,
      in_id = stable_identifier ''side_effect_intent'' (JObj
        [(''workflow_id'', JStr (ac_workflow a)), (''operation'', JStr op),
         (''idempotency_key'', JStr (effect_key a op))]),
      in_workflow = ac_workflow a, in_checkpoint = checkpoint, in_case = ac_case a,
      in_revision = ac_revision a, in_effect = LOCAL_TICKET_EFFECT_KIND, in_operation = op,
      in_natural_key = effect_natural_key a,
      in_state_hash = intended_state_hash (ac_workflow a) op, in_key = effect_key a op,
      in_evidence = Some [''source-event:'' @ ac_source a], in_correlation = ac_correlation a,
      in_created_at = timestamp now\<rparr>"

definition intent_identity :: "intent_row \<Rightarrow> string list" where
  "intent_identity i =
     [in_id i, in_natural_key i, in_state_hash i, in_key i, in_case i, in_revision i]"

definition persist_intent :: "intent_row \<Rightarrow> ('a journal_db_scheme, intent_row \<times> bool) action" where
  "persist_intent i =
     engine_tx ''workflow_intent_failed''
       (bind (query (find_intent (in_tenant i) (in_workflow i) (in_operation i))) (\<lambda>existing.
        case existing of
          Some i' \<Rightarrow>
            bind (lift_res (load_intent i')) (\<lambda>i'.
            bind (lift_res (require (intent_identity i' = intent_identity i)
              (WorkflowError ''workflow_intent_conflict''))) (\<lambda>_. ret (i', False)))
        | None \<Rightarrow> bind (insert_intent i) (\<lambda>_. ret (i, True))))"

definition ensure_intent ::
  "validators \<Rightarrow> instant \<Rightarrow> activation_row \<Rightarrow> checkpoint \<Rightarrow> string \<Rightarrow>
   ('a journal_db_scheme, intent_row \<times> bool) action" where
  "ensure_intent V now a k op =
     bind (lift_res (require (op \<in> {FIND_OR_CREATE, WORKFLOW_HANDOFF})
       (WorkflowError ''workflow_effect_not_allowlisted''))) (\<lambda>_.
     let i = new_intent now a (cp_id (ck_row k)) op in
     bind (lift_res (contract_as ''workflow_intent_invalid''
       (validate_side_effect_intent V (intent_payload i)))) (\<lambda>_. persist_intent i))"

section \<open>The ticket provider\<close>

record ticket_outcome =
  to_status :: string
  to_ticket :: "string option"
  to_version :: "int option"
  to_sha256 :: "string option"
  to_reason :: "string option"

definition bare_outcome :: "string \<Rightarrow> string option \<Rightarrow> ticket_outcome" where
  "bare_outcome status reason =
     \<lparr>to_status = status, to_ticket = None, to_version = None, to_sha256 = None, to_reason = reason\<rparr>"

definition expected_handoff_version ::
  "intent_row \<Rightarrow> 'a journal_db_scheme \<Rightarrow> exn + int option" where
  "expected_handoff_version i s =
     (if in_operation i \<noteq> WORKFLOW_HANDOFF then Inr None
      else bind_res (intent_for_operation (in_tenant i) (in_workflow i) FIND_OR_CREATE s) (\<lambda>prior.
        case prior of
          None \<Rightarrow> Inr None
        | Some j \<Rightarrow> Inr (map_option co_version (completion_for_intent (in_tenant i) (in_id j) s))))"

definition ticket_digest :: "string \<Rightarrow> int \<Rightarrow> string \<Rightarrow> string \<Rightarrow> string" where
  "ticket_digest ticket_id version natural_key content_sha256 = canonical_sha256 (JObj
     [(''ticket_id'', JStr ticket_id), (''version'', JInt version),
      (''natural_key'', JStr natural_key), (''content_sha256'', JStr content_sha256)])"

definition ticket_sha256 :: "ticket_row \<Rightarrow> string" where
  "ticket_sha256 r = ticket_digest (tk_id r) (tk_version r) (tk_natural_key r) (tk_sha256 r)"

definition outcome_from_revision :: "ticket_row \<Rightarrow> ticket_outcome" where
  "outcome_from_revision r =
     \<lparr>to_status = ''present'', to_ticket = Some (tk_id r), to_version = Some (tk_version r),
      to_sha256 = Some (ticket_sha256 r), to_reason = None\<rparr>"

definition outcome_from_operation :: "operation_row \<Rightarrow> ticket_outcome" where
  "outcome_from_operation r =
     \<lparr>to_status = ''present'', to_ticket = Some (op_ticket r), to_version = Some (op_version r),
      to_sha256 = Some (op_sha256 r), to_reason = None\<rparr>"

definition last_row :: "'r list \<Rightarrow> 'r option" where
  "last_row rows = (if rows = [] then None else Some (last rows))"

definition latest_ticket :: "string \<Rightarrow> string \<Rightarrow> 'a journal_db_scheme \<Rightarrow> ticket_row option" where
  "latest_ticket t key s =
     last_row (sort_key tk_version
       (filter (\<lambda>r. tk_tenant r = t \<and> tk_natural_key r = key) (tickets s)))"

definition find_operation :: "string \<Rightarrow> string \<Rightarrow> 'a journal_db_scheme \<Rightarrow> operation_row option" where
  "find_operation t key s =
     first_row (filter (\<lambda>r. op_tenant r = t \<and> op_key r = key) (operations s))"

definition reconcile_handoff :: "ticket_row option \<Rightarrow> int option \<Rightarrow> ticket_outcome" where
  "reconcile_handoff latest expected =
     (case (latest, expected) of
        (Some r, Some v) \<Rightarrow>
          if tk_version r = v then bare_outcome ''absent'' None
          else (outcome_from_revision r)\<lparr>to_status := ''conflict'',
                 to_reason := Some ''expected_version_conflict''\<rparr>
      | _ \<Rightarrow> bare_outcome ''conflict'' (Some ''ticket_predecessor_missing''))"

definition reconcile_intent ::
  "intent_row \<Rightarrow> 'a journal_db_scheme \<Rightarrow> exn + ticket_outcome" where
  "reconcile_intent i s =
     (case find_operation (in_tenant i) (in_key i) s of
        Some r \<Rightarrow> Inr (outcome_from_operation r)
      | None \<Rightarrow>
          let latest = latest_ticket (in_tenant i) (in_natural_key i) s in
          if in_operation i = FIND_OR_CREATE then
            Inr (case latest of None \<Rightarrow> bare_outcome ''absent'' None
                              | Some r \<Rightarrow> outcome_from_revision r)
          else bind_res (expected_handoff_version i s) (\<lambda>expected.
            Inr (reconcile_handoff latest expected)))"

text \<open>The next revision of a ticket, the first one for \<open>latest = None\<close>.\<close>

definition created_ticket :: "instant \<Rightarrow> intent_row \<Rightarrow> ticket_row" where
  "created_ticket now i =
     \<lparr>tk_tenant = in_tenant i,
      tk_id = stable_identifier ''fixture_ticket'' (JObj
        [(''tenant_id'', JStr (in_tenant i)), (''natural_key'', JStr (in_natural_key i))]),
      tk_natural_key = in_natural_key i, tk_version = 1, tk_sha256 = in_state_hash i,
      tk_operation = FIND_OR_CREATE, tk_created_at = timestamp now\<rparr>"

definition handed_off_ticket :: "instant \<Rightarrow> intent_row \<Rightarrow> ticket_row \<Rightarrow> ticket_row" where
  "handed_off_ticket now i r =
     \<lparr>tk_tenant = in_tenant i, tk_id = tk_id r, tk_natural_key = in_natural_key i,
      tk_version = tk_version r + 1, tk_sha256 = in_state_hash i,
      tk_operation = WORKFLOW_HANDOFF, tk_created_at = timestamp now\<rparr>"

definition new_operation :: "instant \<Rightarrow> intent_row \<Rightarrow> int option \<Rightarrow> ticket_row \<Rightarrow> operation_row" where
  "new_operation now i expected r =
     \<lparr>op_tenant = in_tenant i, op_key = in_key i, op_operation = in_operation i,
      op_natural_key = in_natural_key i, op_expected = expected, op_ticket = tk_id r,
      op_version = tk_version r, op_sha256 = ticket_sha256 r, op_created_at = timestamp now\<rparr>"

definition record_operation ::
  "instant \<Rightarrow> intent_row \<Rightarrow> ticket_row \<Rightarrow> ('a journal_db_scheme, ticket_outcome) action" where
  "record_operation now i r =
     bind (bind (query (expected_handoff_version i)) lift_res) (\<lambda>expected.
     bind (insert_operation (new_operation now i expected r)) (\<lambda>_.
     ret (outcome_from_revision r)))"

definition find_or_create ::
  "instant \<Rightarrow> intent_row \<Rightarrow> ticket_row option \<Rightarrow> ('a journal_db_scheme, ticket_outcome) action" where
  "find_or_create now i latest =
     (case latest of
        Some r \<Rightarrow> record_operation now i r
      | None \<Rightarrow>
          let r = created_ticket now i in
          bind (insert_ticket r) (\<lambda>_. record_operation now i r))"

definition hand_off ::
  "instant \<Rightarrow> intent_row \<Rightarrow> ticket_row option \<Rightarrow> ('a journal_db_scheme, ticket_outcome) action" where
  "hand_off now i latest =
     bind (bind (query (expected_handoff_version i)) lift_res) (\<lambda>expected.
     case latest of
       None \<Rightarrow> ret (bare_outcome ''conflict'' (Some ''expected_version_conflict''))
     | Some r \<Rightarrow>
         if expected \<noteq> Some (tk_version r)
         then ret (bare_outcome ''conflict'' (Some ''expected_version_conflict''))
         else let r' = handed_off_ticket now i r in
              bind (insert_ticket r') (\<lambda>_. record_operation now i r'))"

definition execute_intent ::
  "instant \<Rightarrow> intent_row \<Rightarrow> ('a journal_db_scheme, ticket_outcome) action" where
  "execute_intent now i =
     engine_tx ''fixture_ticket_operation_failed''
       (bind (query (find_operation (in_tenant i) (in_key i))) (\<lambda>existing.
        case existing of
          Some r \<Rightarrow> ret (outcome_from_operation r)
        | None \<Rightarrow>
            bind (query (latest_ticket (in_tenant i) (in_natural_key i))) (\<lambda>latest.
            if in_operation i = FIND_OR_CREATE then find_or_create now i latest
            else if in_operation i = WORKFLOW_HANDOFF then hand_off now i latest
            else throw (WorkflowError ''workflow_effect_not_allowlisted''))))"

end
