(* ===== verification/EffectProtocol.thy ===== *)
theory EffectProtocol
  imports TicketEffects
begin

text \<open>
  \<open>durable_workflow.py\<close>: the observation and completion records of an intent, and
  \<open>_process_intent\<close>, the protocol that reconciles first, executes only a known absence, and completes
  only a known presence.
\<close>

section \<open>Observations\<close>

definition observation_payload :: "observation_row \<Rightarrow> obj" where
  "observation_payload r =
     [(''schema_id'', JStr SIDE_EFFECT_OBSERVATION_SCHEMA_ID), (''schema_version'', JStr ''v1''),
      (''tenant_id'', JStr (ob_tenant r)), (''case_id'', JStr (ob_case r)),
      (''case_revision_id'', JStr (ob_revision r)), (''workflow_id'', JStr (ob_workflow r)),
      (''checkpoint_id'', JStr (ob_checkpoint r)), (''observation_id'', JStr (ob_id r)),
      (''intent_id'', JStr (ob_intent r)), (''status'', JStr (ob_status r)),
      (''observed_ticket_id'', jopt (ob_ticket r)), (''observed_version'', jopt_int (ob_version r)),
      (''outcome_sha256'', jopt (ob_sha256 r)), (''reason_code'', jopt (ob_reason r)),
      (''recorded_at'', JStr (ob_recorded_at r))]"

definition observation_id :: "intent_row \<Rightarrow> string \<Rightarrow> ticket_outcome \<Rightarrow> string" where
  "observation_id i phase out =
     stable_identifier ''side_effect_observation'' (JObj
       [(''intent_id'', JStr (in_id i)), (''phase'', JStr phase), (''status'', JStr (to_status out)),
        (''ticket_id'', jopt (to_ticket out)), (''version'', jopt_int (to_version out)),
        (''outcome_sha256'', jopt (to_sha256 out)), (''reason_code'', jopt (to_reason out))])"

definition new_observation ::
  "instant \<Rightarrow> intent_row \<Rightarrow> string \<Rightarrow> ticket_outcome \<Rightarrow> observation_row" where
  "new_observation now i phase out =
     \<lparr>ob_tenant = in_tenant i, ob_id = observation_id i phase out, ob_intent = in_id i,
      ob_workflow = in_workflow i, ob_checkpoint = in_checkpoint i, ob_case = in_case i,
      ob_revision = in_revision i, ob_status = to_status out, ob_ticket = to_ticket out,
      ob_version = to_version out, ob_sha256 = to_sha256 out, ob_reason = to_reason out,
      ob_recorded_at = timestamp now\<rparr>"

definition find_observation ::
  "string \<Rightarrow> string \<Rightarrow> 'a journal_db_scheme \<Rightarrow> observation_row option" where
  "find_observation t oid s =
     first_row (filter (\<lambda>r. ob_tenant r = t \<and> ob_id r = oid) (observations s))"

definition same_observation :: "observation_row \<Rightarrow> observation_row \<Rightarrow> bool" where
  "same_observation r q \<longleftrightarrow> r\<lparr>ob_recorded_at := ob_recorded_at q\<rparr> = q"

definition OBSERVATION_STATUSES :: "string list" where
  "OBSERVATION_STATUSES = [''absent'', ''present'', ''unknown'', ''conflict'']"

definition persist_observation ::
  "observation_row \<Rightarrow> ('a journal_db_scheme, observation_row) action" where
  "persist_observation r =
     engine_tx ''workflow_observation_failed''
       (bind (query (find_observation (ob_tenant r) (ob_id r))) (\<lambda>existing.
        case existing of
          Some r' \<Rightarrow>
            bind (lift_res (require (same_observation r' r)
              (WorkflowError ''workflow_observation_conflict''))) (\<lambda>_. ret r')
        | None \<Rightarrow> bind (insert_observation r) (\<lambda>_. ret r)))"

definition record_observation ::
  "validators \<Rightarrow> instant \<Rightarrow> intent_row \<Rightarrow> string \<Rightarrow> ticket_outcome \<Rightarrow>
   ('a journal_db_scheme, observation_row) action" where
  "record_observation V now i phase out =
     bind (lift_res (require (to_status out \<in> set OBSERVATION_STATUSES)
       (WorkflowError ''workflow_observation_invalid''))) (\<lambda>_.
     let r = new_observation now i phase out in
     bind (lift_res (contract_as ''workflow_observation_invalid''
       (validate_side_effect_observation V (observation_payload r)))) (\<lambda>_. persist_observation r))"

section \<open>Completions\<close>

definition completion_payload :: "completion_row \<Rightarrow> obj" where
  "completion_payload r =
     [(''schema_id'', JStr SIDE_EFFECT_COMPLETION_SCHEMA_ID), (''schema_version'', JStr ''v1''),
      (''tenant_id'', JStr (co_tenant r)), (''case_id'', JStr (co_case r)),
      (''case_revision_id'', JStr (co_revision r)), (''workflow_id'', JStr (co_workflow r)),
      (''checkpoint_id'', JStr (co_checkpoint r)), (''completion_id'', JStr (co_id r)),
      (''intent_id'', JStr (co_intent r)), (''observation_id'', JStr (co_observation r)),
      (''observed_ticket_id'', JStr (co_ticket r)), (''observed_version'', JInt (co_version r)),
      (''result_sha256'', JStr (co_sha256 r)), (''completed_at'', JStr (co_completed_at r))]"

definition new_completion ::
  "instant \<Rightarrow> intent_row \<Rightarrow> string \<Rightarrow> string \<Rightarrow> int \<Rightarrow> string \<Rightarrow> completion_row" where
  "new_completion now i oid ticket version sha256 =
     \<lparr>co_tenant = in_tenant i,
      co_id = stable_identifier ''side_effect_completion'' (JObj
        [(''intent_id'', JStr (in_id i)), (''observation_id'', JStr oid)]),
      co_intent = in_id i, co_workflow = in_workflow i, co_checkpoint = in_checkpoint i,
      co_case = in_case i, co_revision = in_revision i, co_observation = oid, co_ticket = ticket,
      co_version = version, co_sha256 = sha256, co_completed_at = timestamp now\<rparr>"

text \<open>The comparison fields of a completion that is already there.\<close>

definition same_completion :: "completion_row \<Rightarrow> completion_row \<Rightarrow> bool" where
  "same_completion r q \<longleftrightarrow>
     co_id r = co_id q \<and> co_observation r = co_observation q \<and> co_ticket r = co_ticket q \<and>
     co_version r = co_version q \<and> co_sha256 r = co_sha256 q"

definition persist_completion :: "completion_row \<Rightarrow> ('a journal_db_scheme, completion_row) action" where
  "persist_completion r =
     engine_tx ''workflow_completion_failed''
       (bind (query (completion_for_intent (co_tenant r) (co_intent r))) (\<lambda>existing.
        case existing of
          Some r' \<Rightarrow>
            bind (lift_res (require (same_completion r' r)
              (WorkflowError ''workflow_completion_conflict''))) (\<lambda>_. ret r')
        | None \<Rightarrow> bind (insert_completion r) (\<lambda>_. ret r)))"

text \<open>The completion a present observation allows.\<close>

definition completion_of ::
  "validators \<Rightarrow> instant \<Rightarrow> intent_row \<Rightarrow> observation_row \<Rightarrow> exn + completion_row" where
  "completion_of V now i ob =
     (case (ob_status ob = ''present'', ob_ticket ob, ob_version ob, ob_sha256 ob) of
        (True, Some ticket, Some version, Some sha256) \<Rightarrow>
          (let r = new_completion now i (ob_id ob) ticket version sha256 in
           bind_res (contract_as ''workflow_completion_invalid''
             (validate_side_effect_completion V (completion_payload r))) (\<lambda>_. Inr r))
      | _ \<Rightarrow> Inl (WorkflowError ''workflow_completion_predecessor_invalid''))"

definition record_completion ::
  "validators \<Rightarrow> instant \<Rightarrow> intent_row \<Rightarrow> observation_row \<Rightarrow>
   ('a journal_db_scheme, completion_row) action" where
  "record_completion V now i ob = bind (lift_res (completion_of V now i ob)) persist_completion"

section \<open>The protocol of one intent\<close>

text \<open>After a known presence: complete.\<close>

definition complete_intent ::
  "validators \<Rightarrow> instant \<Rightarrow> fault_profile option \<Rightarrow> intent_row \<Rightarrow> observation_row \<Rightarrow>
   ('a journal_db_scheme, completion_row option) action" where
  "complete_intent V now fp i ob =
     bind (interrupt fp ''observation'') (\<lambda>_.
     bind (record_completion V now i ob) (\<lambda>c.
     bind (interrupt fp ''completion'') (\<lambda>_. ret (Some c))))"

text \<open>After a known absence: execute, observe, complete.\<close>

definition execute_and_complete ::
  "validators \<Rightarrow> instant \<Rightarrow> fault_profile option \<Rightarrow> intent_row \<Rightarrow>
   ('a journal_db_scheme, completion_row option) action" where
  "execute_and_complete V now fp i =
     bind (execute_intent now i) (\<lambda>out.
     bind (interrupt fp ''execute'') (\<lambda>_.
     if to_status out \<noteq> ''present'' then
       bind (record_observation V now i ''execute'' out) (\<lambda>_. ret None)
     else
       bind (interrupt fp ''lost-response'') (\<lambda>_.
       bind (record_observation V now i ''execute'' out) (\<lambda>ob.
       complete_intent V now fp i ob))))"

definition timed_out :: "fault_profile option \<Rightarrow> bool" where
  "timed_out fp = (case fp of None \<Rightarrow> False | Some p \<Rightarrow> reconciliation_timeout p)"

text \<open>\<open>Some c\<close> is the disposition \<open>complete\<close> with its completion, \<open>None\<close> is \<open>blocked\<close>.\<close>

definition process_intent ::
  "validators \<Rightarrow> instant \<Rightarrow> fault_profile option \<Rightarrow> intent_row \<Rightarrow>
   ('a journal_db_scheme, completion_row option) action" where
  "process_intent V now fp i =
     bind (query (completion_for_intent (in_tenant i) (in_id i))) (\<lambda>existing.
     case existing of
       Some c \<Rightarrow> ret (Some c)
     | None \<Rightarrow>
         if timed_out fp then
           bind (record_observation V now i ''reconcile-timeout''
             (bare_outcome ''unknown'' (Some ''reconciliation_timeout''))) (\<lambda>_. ret None)
         else
           bind (bind (query (reconcile_intent i)) lift_res) (\<lambda>out.
           bind (record_observation V now i ''reconcile'' out) (\<lambda>ob.
           bind (interrupt fp ''reconcile'') (\<lambda>_.
           if to_status out \<in> {''unknown'', ''conflict''} then ret None
           else if to_status out = ''absent'' then execute_and_complete V now fp i
           else if to_status out \<noteq> ''present'' then ret None
           else complete_intent V now fp i ob))))"

end
