(* ===== verification/Transitions.thy ===== *)
theory Transitions
  imports EffectProtocol
begin

text \<open>
  \<open>durable_workflow.py\<close>, the steps of the workflow itself: a validated transition appends a
  checkpoint and then records it as a Case event, the SLA expiry, entering reconciliation, and
  \<open>_drive_effect\<close>, which wraps one effect between its checkpoints.
\<close>

definition transition_of ::
  "activation_row \<Rightarrow> checkpoint \<Rightarrow> string \<Rightarrow> string \<Rightarrow> transition_fact" where
  "transition_of a k kind previous_state =
     \<lparr>tf_tenant = ac_tenant a, tf_case = ac_case a, tf_revision = ac_revision a,
      tf_workflow = ac_workflow a, tf_checkpoint = cp_id (ck_row k), tf_kind = kind,
      tf_from = previous_state, tf_to = cp_state (ck_row k), tf_resume = Some (cp_resume (ck_row k)),
      tf_correlation = ac_correlation a, tf_occurred_at = cp_created_at (ck_row k)\<rparr>"

definition ledger_error_as_workflow :: "exn \<Rightarrow> exn" where
  "ledger_error_as_workflow e = (if is_ledger_error e then WorkflowError (reason_code e) else e)"

text \<open>\<open>checkpoints[-2]\<close>\<close>

definition next_to_last :: "'c list \<Rightarrow> exn + 'c" where
  "next_to_last ks = (if length ks < 2 then Inl (IndexError ''list index out of range'')
                      else Inr (ks ! (length ks - 2)))"

definition sync_case_state ::
  "validators \<Rightarrow> activation_row \<Rightarrow> checkpoint \<Rightarrow> ('a journal_db_scheme, unit) action" where
  "sync_case_state V a k =
     (case cp_kind (ck_row k) of
        None \<Rightarrow> ret ()
      | Some kind \<Rightarrow>
          bind (lift_res (require (1 < cp_sequence (ck_row k))
            (WorkflowError ''workflow_checkpoint_predecessor_invalid''))) (\<lambda>_.
          bind (bind (query (checkpoints_of (ac_tenant a) (ac_workflow a))) lift_res) (\<lambda>ks.
          bind (lift_res (next_to_last ks)) (\<lambda>previous.
          bind (bind (query (get_case_projection V (ac_tenant a) (ac_case a))) lift_res) (\<lambda>p.
          case p of
            None \<Rightarrow> throw (WorkflowError ''workflow_not_found'')
          | Some p \<Rightarrow>
              if pj_state p = cp_state (ck_row k) then ret ()
              else bind (rethrow ledger_error_as_workflow
                     (append_workflow_state_event V
                        (transition_of a k kind (cp_state (ck_row previous))))) (\<lambda>_. ret ()))))))"

text \<open>The keyword arguments of \<open>_transition\<close>; \<open>None\<close> lists are those of the current checkpoint.\<close>

record move =
  mv_kind :: string
  mv_next :: string
  mv_resume :: string
  mv_causation :: "string option"
  mv_pending :: "string list option"
  mv_completed :: "string list option"

definition given_or :: "'x option \<Rightarrow> 'x \<Rightarrow> 'x" where
  "given_or x d = (case x of None \<Rightarrow> d | Some y \<Rightarrow> y)"

definition move_request :: "checkpoint \<Rightarrow> move \<Rightarrow> checkpoint_request" where
  "move_request k m =
     \<lparr>rq_state = mv_next m, rq_resume = mv_resume m,
      rq_pending = given_or (mv_pending m) (ck_pending k),
      rq_completed = given_or (mv_completed m) (ck_completed k),
      rq_causation = mv_causation m, rq_kind = Some (mv_kind m)\<rparr>"

definition workflow_transition ::
  "validators \<Rightarrow> instant \<Rightarrow> fault_profile option \<Rightarrow> activation_row \<Rightarrow> checkpoint \<Rightarrow> move \<Rightarrow>
   ('a journal_db_scheme, checkpoint) action" where
  "workflow_transition V now fp a k m =
     bind (lift_res (catch_res (\<lambda>_. True) (\<lambda>e. Inl (WorkflowError (reason_code e)))
       (validate_transition (cp_state (ck_row k)) (mv_kind m) (mv_next m) (Some (mv_resume m))
          (ck_pending k \<noteq> [])))) (\<lambda>_.
     bind (ensure_checkpoint V now a (move_request k m)) (\<lambda>k'.
     bind (interrupt fp ''checkpoint'') (\<lambda>_.
     bind (sync_case_state V a k') (\<lambda>_. ret k'))))"

section \<open>SLA expiry\<close>

definition find_sla :: "string \<Rightarrow> string \<Rightarrow> 'a journal_db_scheme \<Rightarrow> sla_row option" where
  "find_sla t w s = first_row (filter (\<lambda>r. sl_tenant r = t \<and> sl_workflow r = w) (sla_events s))"

definition sla_expiry :: "instant \<Rightarrow> activation_row \<Rightarrow> checkpoint \<Rightarrow> sla_row" where
  "sla_expiry now a k =
     \<lparr>sl_tenant = ac_tenant a,
      sl_id = stable_identifier ''workflow_sla'' (JObj [(''workflow_id'', JStr (ac_workflow a))]),
      sl_workflow = ac_workflow a, sl_checkpoint = cp_id (ck_row k), sl_deadline = ac_deadline a,
      sl_reason = ''synthetic_sla_expired'', sl_recorded_at = timestamp now\<rparr>"

definition record_sla_expiry ::
  "instant \<Rightarrow> activation_row \<Rightarrow> checkpoint \<Rightarrow> ('a journal_db_scheme, unit) action" where
  "record_sla_expiry now a k =
     (let r = sla_expiry now a k in
     engine_tx ''workflow_sla_failed''
       (bind (query (find_sla (ac_tenant a) (ac_workflow a))) (\<lambda>existing.
        case existing of
          Some r' \<Rightarrow> lift_res (require (sl_checkpoint r' = sl_checkpoint r \<and>
              sl_deadline r' = sl_deadline r \<and> sl_reason r' = sl_reason r)
            (WorkflowError ''workflow_sla_conflict''))
        | None \<Rightarrow> insert_sla r)))"

definition expire_sla ::
  "validators \<Rightarrow> instant \<Rightarrow> fault_profile option \<Rightarrow> activation_row \<Rightarrow> checkpoint \<Rightarrow>
   ('a journal_db_scheme, checkpoint) action" where
  "expire_sla V now fp a k =
     bind (record_sla_expiry now a k) (\<lambda>_.
     workflow_transition V now fp a k
       \<lparr>mv_kind = SLA_EXPIRED, mv_next = WAITING_FOR_OPERATOR, mv_resume = WAITING_FOR_OPERATOR,
        mv_causation = Some ''synthetic-sla-expired'', mv_pending = None, mv_completed = None\<rparr>)"

text \<open>
  The start of \<open>_recover_workflow\<close>: a workflow whose deadline has passed before its hand-off is
  completed expires; \<open>None\<close> continues with the work of the state.
\<close>

definition handoff_complete :: "activation_row \<Rightarrow> 'a journal_db_scheme \<Rightarrow> exn + bool" where
  "handoff_complete a s =
     bind_res (intent_for_operation (ac_tenant a) (ac_workflow a) WORKFLOW_HANDOFF s) (\<lambda>i.
     Inr (case i of None \<Rightarrow> False | Some i \<Rightarrow> completion_for_intent (ac_tenant a) (in_id i) s \<noteq> None))"

definition deadline_passed :: "instant \<Rightarrow> activation_row \<Rightarrow> exn + bool" where
  "deadline_passed now a =
     bind_res (parse_timestamp (timestamp now)) (\<lambda>t.
     bind_res (parse_timestamp (ac_deadline a)) (\<lambda>d. Inr (d \<le> t)))"

definition check_sla ::
  "validators \<Rightarrow> instant \<Rightarrow> fault_profile option \<Rightarrow> activation_row \<Rightarrow> checkpoint \<Rightarrow>
   ('a journal_db_scheme, checkpoint option) action" where
  "check_sla V now fp a k =
     bind (bind (query (handoff_complete a)) lift_res) (\<lambda>complete.
     bind (lift_res (deadline_passed now a)) (\<lambda>passed.
     if passed \<and> \<not> complete \<and>
        cp_state (ck_row k) \<notin> {WAITING_FOR_OPERATOR, NEEDS_RECONCILIATION, CANCELLED}
     then bind (expire_sla V now fp a k) (\<lambda>k'. ret (Some k'))
     else ret None))"

section \<open>Reconciliation\<close>

definition enter_reconciliation ::
  "validators \<Rightarrow> instant \<Rightarrow> fault_profile option \<Rightarrow> activation_row \<Rightarrow> checkpoint \<Rightarrow> string \<Rightarrow>
   ('a journal_db_scheme, checkpoint) action" where
  "enter_reconciliation V now fp a k causation =
     (if cp_state (ck_row k) = NEEDS_RECONCILIATION then ret k
      else
        bind (query (all_pending_intent_ids (ac_tenant a) (ac_workflow a))) (\<lambda>pending.
        bind (query (all_completed_intent_ids (ac_tenant a) (ac_workflow a))) (\<lambda>completed.
        workflow_transition V now fp a k
          \<lparr>mv_kind = RECONCILIATION_REQUIRED, mv_next = NEEDS_RECONCILIATION,
           mv_resume = cp_state (ck_row k), mv_causation = Some causation,
           mv_pending = Some pending, mv_completed = Some completed\<rparr>)))"

section \<open>One effect between its checkpoints\<close>

definition progress_checkpoint ::
  "validators \<Rightarrow> instant \<Rightarrow> fault_profile option \<Rightarrow> activation_row \<Rightarrow> checkpoint \<Rightarrow> string \<Rightarrow>
   ('a journal_db_scheme, checkpoint) action" where
  "progress_checkpoint V now fp a k causation =
     bind (query (completed_intent_ids (ac_tenant a) (ac_workflow a))) (\<lambda>completed.
     bind (query (unresolved_intent_ids (ac_tenant a) (ac_workflow a))) (\<lambda>pending.
     bind (ensure_checkpoint V now a
       \<lparr>rq_state = cp_state (ck_row k), rq_resume = cp_state (ck_row k), rq_pending = pending,
        rq_completed = completed, rq_causation = Some causation, rq_kind = None\<rparr>) (\<lambda>k'.
     bind (if cp_id (ck_row k') \<noteq> cp_id (ck_row k) then interrupt fp ''checkpoint'' else ret ())
       (\<lambda>_. ret k'))))"

definition drive_effect ::
  "validators \<Rightarrow> instant \<Rightarrow> fault_profile option \<Rightarrow> activation_row \<Rightarrow> checkpoint \<Rightarrow> string \<Rightarrow>
   ('a journal_db_scheme, checkpoint \<times> bool) action" where
  "drive_effect V now fp a k op =
     bind (ensure_intent V now a k op) (\<lambda>(i, created).
     bind (if created then interrupt fp ''intent'' else ret ()) (\<lambda>_.
     bind (progress_checkpoint V now fp a k (''intent:'' @ in_id i)) (\<lambda>k1.
     bind (process_intent V now fp i) (\<lambda>completion.
     case completion of
       None \<Rightarrow> bind (enter_reconciliation V now fp a k1 (''intent:'' @ in_id i)) (\<lambda>k2. ret (k2, False))
     | Some c \<Rightarrow>
         bind (progress_checkpoint V now fp a k1 (''completion:'' @ co_id c)) (\<lambda>k2. ret (k2, True))))))"

text \<open>The \<open>RECEIVED\<close> branch of \<open>_recover_workflow\<close>: both effects, then the ticket is handed off.\<close>

definition ticket_handoff ::
  "validators \<Rightarrow> instant \<Rightarrow> fault_profile option \<Rightarrow> activation_row \<Rightarrow> checkpoint \<Rightarrow>
   ('a journal_db_scheme, checkpoint) action" where
  "ticket_handoff V now fp a k =
     bind (drive_effect V now fp a k FIND_OR_CREATE) (\<lambda>(k1, found).
     if \<not> found then ret k1
     else bind (drive_effect V now fp a k1 WORKFLOW_HANDOFF) (\<lambda>(k2, handed).
          if \<not> handed then ret k2
          else workflow_transition V now fp a k2
                 \<lparr>mv_kind = TICKET_HANDOFF_COMPLETE, mv_next = TICKET_READY,
                  mv_resume = TICKET_READY, mv_causation = Some ''ticket-handoff:complete'',
                  mv_pending = None, mv_completed = None\<rparr>))"

text \<open>
  \<open>_recover_reconciliation\<close> up to the resumed checkpoint: the first unresolved intent is processed,
  and the workflow leaves reconciliation once none is left.  \<open>None\<close> is the case that stays blocked.
\<close>

definition resume_reconciled ::
  "validators \<Rightarrow> instant \<Rightarrow> fault_profile option \<Rightarrow> activation_row \<Rightarrow> checkpoint \<Rightarrow>
   ('a journal_db_scheme, checkpoint option) action" where
  "resume_reconciled V now fp a k =
     bind (query (unresolved_intent_ids (ac_tenant a) (ac_workflow a))) (\<lambda>unresolved.
     if unresolved \<noteq> [] then ret None
     else bind (query (completed_intent_ids (ac_tenant a) (ac_workflow a))) (\<lambda>completed.
          bind (workflow_transition V now fp a k
            \<lparr>mv_kind = RECONCILIATION_COMPLETE, mv_next = cp_resume (ck_row k),
             mv_resume = cp_resume (ck_row k), mv_causation = Some ''reconciliation:known-outcome'',
             mv_pending = Some [], mv_completed = Some completed\<rparr>) (\<lambda>k'. ret (Some k'))))"

definition intent_by_id :: "string \<Rightarrow> string \<Rightarrow> 'a journal_db_scheme \<Rightarrow> exn + intent_row" where
  "intent_by_id t j s =
     (case first_row (filter (\<lambda>i. in_tenant i = t \<and> in_id i = j) (intents s)) of
        None \<Rightarrow> Inl (WorkflowError ''workflow_journal_invalid'')
      | Some i \<Rightarrow> load_intent i)"

definition recover_reconciliation ::
  "validators \<Rightarrow> instant \<Rightarrow> fault_profile option \<Rightarrow> activation_row \<Rightarrow> checkpoint \<Rightarrow>
   ('a journal_db_scheme, checkpoint option) action" where
  "recover_reconciliation V now fp a k =
     bind (query (unresolved_intent_ids (ac_tenant a) (ac_workflow a))) (\<lambda>unresolved.
     case unresolved of
       [] \<Rightarrow> resume_reconciled V now fp a k
     | j # _ \<Rightarrow>
         bind (bind (query (intent_by_id (ac_tenant a) j)) lift_res) (\<lambda>i.
         bind (process_intent V now fp i) (\<lambda>completion.
         case completion of None \<Rightarrow> ret None | Some _ \<Rightarrow> resume_reconciled V now fp a k)))"

end
