(* ===== verification/Commands.thy ===== *)
theory Commands
  imports Transitions
begin

text \<open>
  \<open>durable_workflow.py\<close>, operator commands: \<open>submit_command\<close> stores a pause, resume or cancel command
  against an exact workflow version, and applying a stored command appends the checkpoint it causes.
  A stored command without such a checkpoint is applied by the next recovery.
\<close>

definition activation_for_tenant_case ::
  "string \<Rightarrow> string \<Rightarrow> 'a journal_db_scheme \<Rightarrow> activation_row option" where
  "activation_for_tenant_case t c s =
     (let rows = filter (\<lambda>a. ac_tenant a = t \<and> ac_case a = c) (activations s) in
      first_row (filter (\<lambda>a. list_all (\<lambda>b. ac_created_at b \<le> ac_created_at a) rows) rows))"

section \<open>Storing a command\<close>

definition command_payload_sha256 :: "string \<Rightarrow> string \<Rightarrow> int \<Rightarrow> string" where
  "command_payload_sha256 case_id command_type expected = canonical_sha256 (JObj
     [(''case_id'', JStr case_id), (''command_type'', JStr command_type),
      (''expected_workflow_version'', JInt expected)])"

definition new_command ::
  "instant \<Rightarrow> activation_row \<Rightarrow> string \<Rightarrow> string \<Rightarrow> int \<Rightarrow> command_row" where
  "new_command now a command_id command_type expected =
     (let digest = command_payload_sha256 (ac_case a) command_type expected in
     \<lparr>cm_tenant = ac_tenant a, cm_workflow = ac_workflow a, cm_id = command_id,
      cm_type = command_type, cm_expected = expected, cm_payload_sha256 = digest,
      cm_fingerprint = canonical_sha256 (JObj
        [(''command_id'', JStr command_id), (''command_type'', JStr command_type),
         (''expected_workflow_version'', JInt expected),
         (''command_payload_sha256'', JStr digest)]),
      cm_requested_at = timestamp now, cm_accepted_at = timestamp now\<rparr>)"

definition command_payload :: "activation_row \<Rightarrow> command_row \<Rightarrow> obj" where
  "command_payload a c =
     [(''schema_id'', JStr WORKFLOW_COMMAND_SCHEMA_ID), (''schema_version'', JStr ''v1''),
      (''tenant_id'', JStr (cm_tenant c)), (''case_id'', JStr (ac_case a)),
      (''case_revision_id'', JStr (ac_revision a)), (''workflow_id'', JStr (cm_workflow c)),
      (''command_id'', JStr (cm_id c)), (''command_type'', JStr (cm_type c)),
      (''expected_workflow_version'', JInt (cm_expected c)),
      (''command_payload_sha256'', JStr (cm_payload_sha256 c)),
      (''requested_at'', JStr (cm_requested_at c))]"

definition find_command ::
  "string \<Rightarrow> string \<Rightarrow> string \<Rightarrow> 'a journal_db_scheme \<Rightarrow> command_row option" where
  "find_command t w c s =
     first_row (filter (\<lambda>r. cm_tenant r = t \<and> cm_workflow r = w \<and> cm_id r = c) (commands s))"

definition same_command :: "command_row \<Rightarrow> command_row \<Rightarrow> bool" where
  "same_command r c \<longleftrightarrow> cm_type r = cm_type c \<and> cm_expected r = cm_expected c \<and>
     cm_payload_sha256 r = cm_payload_sha256 c \<and> cm_fingerprint r = cm_fingerprint c"

definition latest_version :: "string \<Rightarrow> string \<Rightarrow> 'a journal_db_scheme \<Rightarrow> exn + int" where
  "latest_version t w s =
     (case last_row (checkpoint_rows t w s) of
        None \<Rightarrow> Inl (TypeError ''object is not subscriptable'')
      | Some r \<Rightarrow> Inr (cp_version r))"

definition transition_as_workflow :: "exn + unit \<Rightarrow> exn + unit" where
  "transition_as_workflow = catch_res (\<lambda>_. True) (\<lambda>e. Inl (WorkflowError (reason_code e)))"

text \<open>
  Whether a new command may be stored: pause and resume must be transitions of the current state; a
  cancel only when nothing is unresolved and the workflow is not being reconciled.
\<close>

definition admissible_command :: "checkpoint \<Rightarrow> string list \<Rightarrow> string \<Rightarrow> exn + unit" where
  "admissible_command k unresolved command_type =
     (let state = cp_state (ck_row k); resume = cp_resume (ck_row k) in
      if command_type = PAUSE then validate_transition state PAUSE PAUSED (Some state) False
      else if command_type = RESUME then validate_transition state RESUME resume (Some resume) False
      else if unresolved = [] \<and> state \<noteq> NEEDS_RECONCILIATION
      then validate_transition state CANCEL CANCELLED (Some CANCELLED) False
      else Inr ())"

text \<open>The transaction: \<open>True\<close> for a command that was already there.\<close>

definition persist_command ::
  "validators \<Rightarrow> activation_row \<Rightarrow> checkpoint \<Rightarrow> command_row \<Rightarrow> ('a journal_db_scheme, bool) action" where
  "persist_command V a k c =
     engine_tx ''workflow_command_failed''
       (bind (query (find_command (cm_tenant c) (cm_workflow c) (cm_id c))) (\<lambda>existing.
        case existing of
          Some r \<Rightarrow> bind (lift_res (require (same_command r c)
              (WorkflowError ''workflow_command_conflict''))) (\<lambda>_. ret True)
        | None \<Rightarrow>
            bind (bind (query (latest_version (cm_tenant c) (cm_workflow c))) lift_res) (\<lambda>version.
            bind (lift_res (contract_as ''workflow_version_conflict''
              (validate_workflow_command_version V (command_payload a c) version
                 (Some (cm_tenant c))))) (\<lambda>_.
            bind (query (all_pending_intent_ids (cm_tenant c) (cm_workflow c))) (\<lambda>unresolved.
            bind (lift_res (transition_as_workflow (admissible_command k unresolved (cm_type c)))) (\<lambda>_.
            bind (insert_command c) (\<lambda>_. ret False)))))))"

section \<open>Applying a stored command\<close>

definition command_causation :: "string \<Rightarrow> string" where
  "command_causation command_id = ''command:'' @ command_id"

definition command_checkpoint_exists ::
  "string \<Rightarrow> string \<Rightarrow> string \<Rightarrow> 'a journal_db_scheme \<Rightarrow> bool" where
  "command_checkpoint_exists t w c s =
     list_ex (\<lambda>r. cp_tenant r = t \<and> cp_workflow r = w \<and>
       cp_causation r = Some (command_causation c)) (checkpoints s)"

definition command_move :: "checkpoint \<Rightarrow> command_row \<Rightarrow> string \<Rightarrow> move" where
  "command_move k c next_state =
     \<lparr>mv_kind = cm_type c, mv_next = next_state,
      mv_resume = (if cm_type c = PAUSE then cp_state (ck_row k)
                   else if cm_type c = RESUME then cp_resume (ck_row k) else CANCELLED),
      mv_causation = Some (command_causation (cm_id c)), mv_pending = None, mv_completed = None\<rparr>"

text \<open>
  The disposition of \<open>_apply_persisted_command\<close> and the checkpoint it appends; the read of the
  workflow projection that follows is not part of the model.
\<close>

definition apply_persisted_command ::
  "validators \<Rightarrow> instant \<Rightarrow> activation_row \<Rightarrow> command_row \<Rightarrow> ('a journal_db_scheme, string) action" where
  "apply_persisted_command V now a c =
     bind (query (command_checkpoint_exists (ac_tenant a) (ac_workflow a) (cm_id c))) (\<lambda>applied.
     if applied then ret ''deduplicated''
     else
       bind (bind (query (latest_checkpoint (ac_tenant a) (ac_workflow a))) lift_res) (\<lambda>latest.
       case latest of
         None \<Rightarrow> throw (WorkflowError ''workflow_command_recovery_conflict'')
       | Some k \<Rightarrow>
           bind (lift_res (require (cp_version (ck_row k) = cm_expected c)
             (WorkflowError ''workflow_command_recovery_conflict''))) (\<lambda>_.
           if cm_type c = PAUSE then
             bind (workflow_transition V now None a k (command_move k c PAUSED)) (\<lambda>_. ret ''accepted'')
           else if cm_type c = RESUME then
             bind (workflow_transition V now None a k (command_move k c (cp_resume (ck_row k))))
               (\<lambda>_. ret ''accepted'')
           else if cm_type c = CANCEL then
             bind (query (all_pending_intent_ids (ac_tenant a) (ac_workflow a))) (\<lambda>unresolved.
             if unresolved \<noteq> [] then
               bind (enter_reconciliation V now None a k (command_causation (cm_id c)))
                 (\<lambda>_. ret ''requires_reconciliation'')
             else if cp_state (ck_row k) = NEEDS_RECONCILIATION then ret ''requires_reconciliation''
             else bind (workflow_transition V now None a k (command_move k c CANCELLED))
                    (\<lambda>_. ret ''accepted''))
           else throw (WorkflowError ''workflow_command_not_allowlisted''))))"

definition stored_commands ::
  "string \<Rightarrow> string \<Rightarrow> 'a journal_db_scheme \<Rightarrow> command_row list" where
  "stored_commands t w s =
     sort_key (\<lambda>c. (cm_accepted_at c, cm_id c))
       (filter (\<lambda>c. cm_tenant c = t \<and> cm_workflow c = w) (commands s))"

text \<open>One stored command during recovery.\<close>

definition recover_command ::
  "validators \<Rightarrow> instant \<Rightarrow> activation_row \<Rightarrow> command_row \<Rightarrow> ('a journal_db_scheme, unit) action" where
  "recover_command V now a c =
     bind (bind (query (latest_checkpoint (ac_tenant a) (ac_workflow a))) lift_res) (\<lambda>latest.
     case latest of
       None \<Rightarrow> throw (WorkflowError ''workflow_command_recovery_conflict'')
     | Some k \<Rightarrow>
         if cm_type c = CANCEL \<and> cp_state (ck_row k) = NEEDS_RECONCILIATION then ret ()
         else
           bind (query (command_checkpoint_exists (ac_tenant a) (ac_workflow a) (cm_id c))) (\<lambda>applied.
           if applied then ret ()
           else bind (apply_persisted_command V now a c) (\<lambda>_. ret ())))"

fun recover_commands ::
  "validators \<Rightarrow> instant \<Rightarrow> activation_row \<Rightarrow> command_row list \<Rightarrow> ('a journal_db_scheme, unit) action" where
  "recover_commands V now a [] = ret ()"
| "recover_commands V now a (c # cs) =
     bind (recover_command V now a c) (\<lambda>_. recover_commands V now a cs)"

definition recover_pending_commands ::
  "validators \<Rightarrow> instant \<Rightarrow> activation_row \<Rightarrow> ('a journal_db_scheme, checkpoint) action" where
  "recover_pending_commands V now a =
     bind (query (stored_commands (ac_tenant a) (ac_workflow a))) (\<lambda>cs.
     bind (recover_commands V now a cs) (\<lambda>_.
     bind (bind (query (latest_checkpoint (ac_tenant a) (ac_workflow a))) lift_res) (\<lambda>k.
     lift_res (present_checkpoint k))))"

section \<open>submit_command\<close>

definition first_checkpoint ::
  "validators \<Rightarrow> instant \<Rightarrow> activation_row \<Rightarrow> ('a journal_db_scheme, checkpoint) action" where
  "first_checkpoint V now a = ensure_checkpoint V now a
     \<lparr>rq_state = RECEIVED, rq_resume = RECEIVED, rq_pending = [], rq_completed = [],
      rq_causation = Some (ac_source a), rq_kind = None\<rparr>"

definition submit_to ::
  "validators \<Rightarrow> instant \<Rightarrow> activation_row \<Rightarrow> string \<Rightarrow> string \<Rightarrow> int \<Rightarrow>
   ('a journal_db_scheme, string) action" where
  "submit_to V now a command_id command_type expected =
     bind (bind (query (latest_checkpoint (ac_tenant a) (ac_workflow a))) lift_res) (\<lambda>latest.
     bind (case latest of Some k \<Rightarrow> ret k | None \<Rightarrow> first_checkpoint V now a) (\<lambda>k.
     let c = new_command now a command_id command_type expected in
     bind (lift_res (contract_as ''workflow_command_invalid''
       (validate_workflow_command V (command_payload a c) None))) (\<lambda>_.
     bind (persist_command V a k c) (\<lambda>duplicate.
     bind (apply_persisted_command V now a c) (\<lambda>disposition.
     ret (if duplicate then ''deduplicated'' else disposition))))))"

definition submit_command ::
  "validators \<Rightarrow> instant \<Rightarrow> string \<Rightarrow> string \<Rightarrow> string \<Rightarrow> string \<Rightarrow> int \<Rightarrow>
   ('a journal_db_scheme, string) action" where
  "submit_command V now tenant_id case_id command_id command_type expected =
     bind (lift_res (require (command_type \<in> {PAUSE, RESUME, CANCEL} \<and> command_id \<noteq> [])
       (WorkflowError ''workflow_command_not_allowlisted''))) (\<lambda>_.
     bind (query (activation_for_tenant_case tenant_id case_id)) (\<lambda>activation.
     case activation of
       None \<Rightarrow> throw (WorkflowNotFound ''workflow_not_found'')
     | Some a \<Rightarrow> submit_to V now a command_id command_type expected))"

end
