(* ===== verification/EffectFacts.thy ===== *)
theory EffectFacts
  imports EffectProtocol Recorder
begin

text \<open>
  What one step of the effect protocol does to the journal, branch by branch, and the recording
  contract on each of its four writes: the provider operation under its idempotency key, the intent
  of a workflow's operation, the observation under its digest, the completion of an intent.
\<close>

section \<open>Branches\<close>

lemma effect_reads_stable [simp]:
  "completion_for_intent t j (s\<lparr>tickets := ts\<rparr>) = completion_for_intent t j s"
  "completion_for_intent t j (s\<lparr>operations := os\<rparr>) = completion_for_intent t j s"
  "completion_for_intent t j (s\<lparr>observations := obs\<rparr>) = completion_for_intent t j s"
  "intent_for_operation t w op (s\<lparr>tickets := ts\<rparr>) = intent_for_operation t w op s"
  "intent_for_operation t w op (s\<lparr>operations := os\<rparr>) = intent_for_operation t w op s"
  "intent_for_operation t w op (s\<lparr>observations := obs\<rparr>) = intent_for_operation t w op s"
  by (simp_all add: completion_for_intent_def intent_for_operation_def find_intent_def)

lemma expected_version_stable [simp]:
  "expected_handoff_version i (s\<lparr>tickets := ts\<rparr>) = expected_handoff_version i s"
  "expected_handoff_version i (s\<lparr>operations := os\<rparr>) = expected_handoff_version i s"
  "expected_handoff_version i (s\<lparr>observations := obs\<rparr>) = expected_handoff_version i s"
  by (simp_all add: expected_handoff_version_def cong: option.case_cong)

lemma expected_version_create [simp]:
  "in_operation i = FIND_OR_CREATE \<Longrightarrow> expected_handoff_version i s = Inr None"
  by (simp add: expected_handoff_version_def)

text \<open>What an execution that records an operation appends.\<close>

definition ticket_fits :: "ticket_row \<Rightarrow> 'a journal_db_scheme \<Rightarrow> bool" where
  "ticket_fits r s \<longleftrightarrow> 1 \<le> tk_version r \<and> (\<forall>x\<in>set (tickets s). \<not> ticket_clash r x)"

lemma record_operation_ok:
  "record_operation now i r s = (Inr out, s') \<longleftrightarrow>
     (\<exists>v. expected_handoff_version i s = Inr v \<and> 1 \<le> tk_version r \<and>
       has_ticket (in_tenant i) (tk_id r) (tk_version r) s \<and>
       (\<forall>x\<in>set (operations s). \<not> operation_clash (new_operation now i v r) x) \<and>
       out = outcome_from_revision r \<and>
       s' = s\<lparr>operations := operations s @ [new_operation now i v r]\<rparr>)"
  by (auto simp: record_operation_def state_simps insert_journal_ok new_operation_def)

lemma insert_and_record_ok:
  "bind (insert_ticket r) (\<lambda>_. record_operation now i r) s = (Inr out, s') \<Longrightarrow>
   \<exists>v. expected_handoff_version i s = Inr v \<and> ticket_fits r s \<and> out = outcome_from_revision r \<and>
     s' = s\<lparr>tickets := tickets s @ [r], operations := operations s @ [new_operation now i v r]\<rparr>"
  by (auto simp: state_simps insert_journal_ok record_operation_ok ticket_fits_def)

lemma find_or_create_ok:
  assumes "find_or_create now i latest s = (Inr out, s')" and "in_operation i = FIND_OR_CREATE"
  shows "case latest of
      Some r \<Rightarrow> out = outcome_from_revision r \<and>
        s' = s\<lparr>operations := operations s @ [new_operation now i None r]\<rparr>
    | None \<Rightarrow> ticket_fits (created_ticket now i) s \<and> out = outcome_from_revision (created_ticket now i) \<and>
        s' = s\<lparr>tickets := tickets s @ [created_ticket now i],
               operations := operations s @ [new_operation now i None (created_ticket now i)]\<rparr>"
  using assms
  by (cases latest) (auto simp: find_or_create_def record_operation_ok Let_def
      dest!: insert_and_record_ok)

lemma hand_off_ok:
  assumes "hand_off now i latest s = (Inr out, s')"
  shows "out = bare_outcome ''conflict'' (Some ''expected_version_conflict'') \<and> s' = s \<or>
    (\<exists>r. latest = Some r \<and> expected_handoff_version i s = Inr (Some (tk_version r)) \<and>
      ticket_fits (handed_off_ticket now i r) s \<and>
      out = outcome_from_revision (handed_off_ticket now i r) \<and>
      s' = s\<lparr>tickets := tickets s @ [handed_off_ticket now i r],
             operations := operations s @
               [new_operation now i (Some (tk_version r)) (handed_off_ticket now i r)]\<rparr>)"
proof -
  from assms obtain v where v: "expected_handoff_version i s = Inr v"
    by (cases "expected_handoff_version i s") (auto simp: hand_off_def bind_eq_Inr)
  show ?thesis
  proof (cases latest)
    case None
    with assms v show ?thesis by (simp add: hand_off_def bind_eq_Inr)
  next
    case (Some r)
    show ?thesis
    proof (cases "v = Some (tk_version r)")
      case False
      with assms v Some show ?thesis by (simp add: hand_off_def bind_eq_Inr)
    next
      case True
      with assms v Some have
        "bind (insert_ticket (handed_off_ticket now i r))
           (\<lambda>_. record_operation now i (handed_off_ticket now i r)) s = (Inr out, s')"
        by (simp add: hand_off_def bind_def Let_def)
      from insert_and_record_ok [OF this] v True Some show ?thesis by auto
    qed
  qed
qed

lemma execute_steps:
  "execute_intent now i s = (Inr out, s') \<Longrightarrow> find_operation (in_tenant i) (in_key i) s = None \<Longrightarrow>
   in_operation i = FIND_OR_CREATE \<and>
     find_or_create now i (latest_ticket (in_tenant i) (in_natural_key i) s) s = (Inr out, s') \<or>
   in_operation i = WORKFLOW_HANDOFF \<and>
     hand_off now i (latest_ticket (in_tenant i) (in_natural_key i) s) s = (Inr out, s')"
  by (auto simp: execute_intent_def split: if_splits)

lemma execute_known:
  "find_operation (in_tenant i) (in_key i) s = Some r \<Longrightarrow>
   execute_intent now i s = (Inr (outcome_from_operation r), s)"
  by (simp add: execute_intent_def)

lemma execute_cases [consumes 1, case_names known refused joined created handed]:
  assumes "execute_intent now i s = (Inr out, s')"
  obtains (known) r where "find_operation (in_tenant i) (in_key i) s = Some r"
      "out = outcome_from_operation r" "s' = s"
    | (refused) "find_operation (in_tenant i) (in_key i) s = None"
      "in_operation i = WORKFLOW_HANDOFF"
      "out = bare_outcome ''conflict'' (Some ''expected_version_conflict'')" "s' = s"
    | (joined) r where "find_operation (in_tenant i) (in_key i) s = None"
      "in_operation i = FIND_OR_CREATE" "latest_ticket (in_tenant i) (in_natural_key i) s = Some r"
      "out = outcome_from_revision r"
      "s' = s\<lparr>operations := operations s @ [new_operation now i None r]\<rparr>"
    | (created) "find_operation (in_tenant i) (in_key i) s = None"
      "in_operation i = FIND_OR_CREATE" "latest_ticket (in_tenant i) (in_natural_key i) s = None"
      "out = outcome_from_revision (created_ticket now i)" "ticket_fits (created_ticket now i) s"
      "s' = s\<lparr>tickets := tickets s @ [created_ticket now i],
              operations := operations s @ [new_operation now i None (created_ticket now i)]\<rparr>"
    | (handed) r where "find_operation (in_tenant i) (in_key i) s = None"
      "in_operation i = WORKFLOW_HANDOFF" "latest_ticket (in_tenant i) (in_natural_key i) s = Some r"
      "expected_handoff_version i s = Inr (Some (tk_version r))"
      "out = outcome_from_revision (handed_off_ticket now i r)"
      "ticket_fits (handed_off_ticket now i r) s"
      "s' = s\<lparr>tickets := tickets s @ [handed_off_ticket now i r],
              operations := operations s @
                [new_operation now i (Some (tk_version r)) (handed_off_ticket now i r)]\<rparr>"
proof (cases "find_operation (in_tenant i) (in_key i) s")
  case (Some r)
  with assms show thesis by (intro known) (auto simp: execute_known)
next
  case None
  from execute_steps [OF assms None] show thesis
  proof (elim disjE conjE)
    assume op: "in_operation i = FIND_OR_CREATE"
      and run: "find_or_create now i (latest_ticket (in_tenant i) (in_natural_key i) s) s = (Inr out, s')"
    show thesis
    proof (cases "latest_ticket (in_tenant i) (in_natural_key i) s")
      case None': None
      with find_or_create_ok [OF run op] None op created show thesis by simp
    next
      case (Some r)
      with find_or_create_ok [OF run op] None op joined show thesis by simp
    qed
  next
    assume "in_operation i = WORKFLOW_HANDOFF"
      and "hand_off now i (latest_ticket (in_tenant i) (in_natural_key i) s) s = (Inr out, s')"
    with hand_off_ok [OF this(2)] None refused handed show thesis by blast
  qed
qed

lemma execute_failed: "execute_intent now i s = (Inl e, s') \<Longrightarrow> s' = s"
  by (simp add: execute_intent_def engine_tx_failed)

end
