(* ===== verification/Growth.thy ===== *)
theory Growth
  imports Prelude "HOL-Library.Sublist"
begin

text \<open>
  Relations between the store before and after an action that are composed by sequencing: what an
  action keeps of the store on every path, errors included.  The rules are proved once for any
  reflexive and transitive relation and used for the append-only tables and for the frames of the
  engine's operations.
\<close>

definition keeps :: "('s \<Rightarrow> 's \<Rightarrow> bool) \<Rightarrow> ('s, 'a) action \<Rightarrow> bool" where
  "keeps R m \<longleftrightarrow> (\<forall>s. R s (snd (m s)))"

lemma keepsD: "keeps R m \<Longrightarrow> m s = (x, s') \<Longrightarrow> R s s'"
  by (auto simp: keeps_def dest: spec [of _ s])

lemma keepsI: "(\<And>s x s'. m s = (x, s') \<Longrightarrow> R s s') \<Longrightarrow> keeps R m"
  unfolding keeps_def by (metis prod.collapse)

locale store_order =
  fixes R :: "'s \<Rightarrow> 's \<Rightarrow> bool"
  assumes refl_R: "R s s" and trans_R: "R s t \<Longrightarrow> R t u \<Longrightarrow> R s u"
begin

lemma keeps_pure [intro]:
  "keeps R (ret a)" "keeps R (throw e)" "keeps R (query f)" "keeps R (lift_res x)"
  "keeps R get_state"
  by (simp_all add: keeps_def refl_R)

lemma keeps_bind [intro]:
  assumes "keeps R m" and "\<And>a. keeps R (f a)"
  shows "keeps R (bind m f)"
proof (rule keepsI)
  fix s x s'
  assume "bind m f s = (x, s')"
  with assms show "R s s'"
    by (auto simp: bind_def split: prod.splits sum.splits dest: keepsD intro: trans_R)
qed

text \<open>After a failure-free first action only the results it returns matter.\<close>

lemma keeps_tx [intro]: "keeps R m \<Longrightarrow> keeps R (tx m)"
  by (auto simp: keeps_def tx_def refl_R split: prod.splits sum.splits)
     (metis snd_conv)

lemma keeps_rethrow [intro]: "keeps R m \<Longrightarrow> keeps R (rethrow g m)"
  by (auto simp: keeps_def rethrow_def split: prod.splits sum.splits) (metis snd_conv)+

lemma keeps_modify:
  assumes "\<And>s s'. f s = Inr s' \<Longrightarrow> R s s'"
  shows "keeps R (modify f)"
  using assms by (auto simp: keeps_def modify_def refl_R split: sum.splits)

lemma keeps_if [intro]: "keeps R m \<Longrightarrow> keeps R m' \<Longrightarrow> keeps R (if b then m else m')"
  by simp

lemma keeps_option [intro]:
  "keeps R m \<Longrightarrow> (\<And>a. keeps R (f a)) \<Longrightarrow> keeps R (case x of None \<Rightarrow> m | Some a \<Rightarrow> f a)"
  by (cases x) auto

lemma keeps_prod [intro]:
  "(\<And>a b. keeps R (f a b)) \<Longrightarrow> keeps R (case p of (a, b) \<Rightarrow> f a b)"
  by (cases p) auto

end

text \<open>
  Partial correctness with an invariant \<open>J\<close> of the store that holds on every path: \<open>triple J P m Q\<close>
  says that from \<open>J\<close> and \<open>P\<close> the action ends in \<open>J\<close>, and in \<open>Q v\<close> if it returns \<open>v\<close>.
\<close>

definition triple ::
  "('s \<Rightarrow> bool) \<Rightarrow> ('s \<Rightarrow> bool) \<Rightarrow> ('s, 'a) action \<Rightarrow> ('a \<Rightarrow> 's \<Rightarrow> bool) \<Rightarrow> bool" where
  "triple J P m Q \<longleftrightarrow>
     (\<forall>s x s'. J s \<longrightarrow> P s \<longrightarrow> m s = (x, s') \<longrightarrow> J s' \<and> (\<forall>v. x = Inr v \<longrightarrow> Q v s'))"

lemma tripleI:
  assumes "\<And>s x s'. J s \<Longrightarrow> P s \<Longrightarrow> m s = (x, s') \<Longrightarrow> J s'"
    and "\<And>s v s'. J s \<Longrightarrow> P s \<Longrightarrow> m s = (Inr v, s') \<Longrightarrow> Q v s'"
  shows "triple J P m Q"
  using assms unfolding triple_def by blast

lemma tripleD: "triple J P m Q \<Longrightarrow> J s \<Longrightarrow> P s \<Longrightarrow> m s = (x, s') \<Longrightarrow> J s'"
  unfolding triple_def by blast

lemma triple_value: "triple J P m Q \<Longrightarrow> J s \<Longrightarrow> P s \<Longrightarrow> m s = (Inr v, s') \<Longrightarrow> Q v s'"
  unfolding triple_def by blast

lemma triple_bind:
  assumes "triple J P m Q" and "\<And>v. triple J (Q v) (f v) R"
  shows "triple J P (bind m f) R"
proof -
  have "J s' \<and> (\<forall>v. x = Inr v \<longrightarrow> R v s')" if "J s" "P s" "bind m f s = (x, s')" for s x s'
  proof (cases "m s")
    case (Pair y t)
    show ?thesis
    proof (cases y)
      case (Inl e)
      with Pair that assms(1) show ?thesis by (auto simp: bind_def triple_def)
    next
      case (Inr v)
      with Pair that assms(1) have "J t" "Q v t" "f v t = (x, s')"
        by (auto simp: bind_def triple_def)
      with assms(2) show ?thesis unfolding triple_def by blast
    qed
  qed
  then show ?thesis by (simp add: triple_def)
qed

lemma triple_pure:
  "triple J P (ret a) (\<lambda>_. P)" "triple J P (throw e) Q" "triple J P (query f) (\<lambda>_. P)"
  "triple J P (lift_res r) (\<lambda>_. P)" "triple J P (bind (query g) lift_res) (\<lambda>_. P)"
  by (auto simp: triple_def bind_eq_Inr bind_def split: sum.splits)

lemma triple_query: "triple J P (query f) (\<lambda>v s. P s \<and> v = f s)"
  by (simp add: triple_def)

lemma triple_lift: "triple J P (lift_res r) (\<lambda>v s. P s \<and> r = Inr v)"
  by (auto simp: triple_def)

lemma triple_pre: "(b \<Longrightarrow> triple J P m Q) \<Longrightarrow> triple J (\<lambda>s. P s \<and> b) m Q"
  by (auto simp: triple_def)

lemma triple_ret: "triple J (Q v) (ret v) Q"
  by (simp add: triple_def)

lemma triple_weaken:
  "triple J P' m Q' \<Longrightarrow> (\<And>s. P s \<Longrightarrow> P' s) \<Longrightarrow> (\<And>v s. Q' v s \<Longrightarrow> Q v s) \<Longrightarrow> triple J P m Q"
  unfolding triple_def by blast

text \<open>A condition that the relation kept by the action preserves can be carried along.\<close>

lemma triple_carry:
  assumes "triple J P m Q" and "keeps R m" and "\<And>s s'. R s s' \<Longrightarrow> C s \<Longrightarrow> C s'"
  shows "triple J (\<lambda>s. P s \<and> C s) m (\<lambda>v s. Q v s \<and> C s)"
proof (rule tripleI)
  fix s x s'
  assume "J s" "P s \<and> C s" "m s = (x, s')"
  then show "J s'" using tripleD [OF assms(1)] by blast
next
  fix s v s'
  assume s: "J s" "P s \<and> C s" "m s = (Inr v, s')"
  with assms(1) have "Q v s'" by (auto simp: triple_def)
  with s assms(3) keepsD [OF assms(2) s(3)] show "Q v s' \<and> C s'" by blast
qed

lemma triple_cases:
  "triple J P m Q \<Longrightarrow> triple J P m' Q \<Longrightarrow> triple J P (if b then m else m') Q"
  "triple J P m Q \<Longrightarrow> (\<And>a. triple J P (f a) Q) \<Longrightarrow>
     triple J P (case x of None \<Rightarrow> m | Some a \<Rightarrow> f a) Q"
  "(\<And>a b. triple J P (g a b) Q) \<Longrightarrow> triple J P (case p of (a, b) \<Rightarrow> g a b) Q"
  "triple J P m Q \<Longrightarrow> (\<And>y ys. triple J P (h y ys) Q) \<Longrightarrow>
     triple J P (case zs of [] \<Rightarrow> m | y # ys \<Rightarrow> h y ys) Q"
  by (auto split: option.split prod.split list.split)

end
