(* ===== verification/JournalGrowth.thy ===== *)
theory JournalGrowth
  imports EffectFacts Commands LedgerInvariant Growth
begin

text \<open>
  What every operation of the engine keeps because its single statements keep it: a relation of the
  store before and after that is kept by each INSERT of the journal and by the event port of the
  ledger is kept by every operation, on every path.  The first instance is growth: the journal is
  append-only.  In SQLite this is enforced by triggers; here it is a theorem about the operations.
\<close>

locale write_order = store_order R
  for R :: "'a journal_db_scheme \<Rightarrow> 'a journal_db_scheme \<Rightarrow> bool" +
  assumes inserts [intro]:
    "keeps R (insert_activation a)" "keeps R (insert_run_row r)" "keeps R (insert_command c)"
    "keeps R (insert_checkpoint k)" "keeps R (insert_sla l)" "keeps R (insert_intent i)"
    "keeps R (insert_observation b)" "keeps R (insert_ticket t)" "keeps R (insert_operation q)"
  and event [intro]: "keeps R (append_workflow_state_event V f)"
begin

lemma keeps_engine_tx [intro]: "keeps R m \<Longrightarrow> keeps R (engine_tx r m)"
  by (auto simp: engine_tx_def)

lemma keeps_interrupt [intro]: "keeps R (interrupt fp point)"
  unfolding interrupt_def by (auto split: option.split)

lemma keeps_list:
  "keeps R m \<Longrightarrow> (\<And>y ys. keeps R (h y ys)) \<Longrightarrow> keeps R (case zs of [] \<Rightarrow> m | y # ys \<Rightarrow> h y ys)"
  by (cases zs) auto

lemma keeps_checkpoint [intro]:
  "keeps R (insert_run t w st rs c)" "keeps R (append_checkpoint k)"
  "keeps R (write_checkpoint V k)" "keeps R (ensure_checkpoint V now a q)"
proof -
  show run: "keeps R (insert_run t w st rs c)" for t w st rs c
    by (auto simp: insert_run_def)
  then show app: "keeps R (append_checkpoint k)" for k
    unfolding append_checkpoint_def Let_def by (intro keeps_engine_tx keeps_bind keeps_option) auto
  then show w: "keeps R (write_checkpoint V k)" for k
    unfolding write_checkpoint_def by auto
  show "keeps R (ensure_checkpoint V now a q)"
    unfolding ensure_checkpoint_def by (intro keeps_bind keeps_option keeps_if w) auto
qed

lemma keeps_activate [intro]: "keeps R (activate_case V now t c r given)"
proof -
  have "keeps R (persist_activation now p r e policy d)" for p e policy d
    unfolding persist_activation_def Let_def by (intro keeps_engine_tx keeps_bind keeps_option) auto
  then show ?thesis
    unfolding activate_case_def by (intro keeps_bind keeps_option keeps_if) auto
qed

lemma keeps_persist [intro]: "keeps R (persist_intent i)" "keeps R (persist_observation ob)"
  unfolding persist_intent_def persist_observation_def
  by (intro keeps_engine_tx keeps_bind keeps_option; auto)+

lemma keeps_ensure_intent [intro]: "keeps R (ensure_intent V now a k op)"
  unfolding ensure_intent_def Let_def by (intro keeps_bind) auto

lemma keeps_execute [intro]: "keeps R (execute_intent now i)"
proof -
  have rec: "keeps R (record_operation now i r)" for r
    unfolding record_operation_def by (intro keeps_bind) auto
  then have "keeps R (find_or_create now i l)" "keeps R (hand_off now i l)" for l
    unfolding find_or_create_def hand_off_def Let_def
    by (intro keeps_bind keeps_option keeps_if rec; auto)+
  then show ?thesis
    unfolding execute_intent_def by (intro keeps_engine_tx keeps_bind keeps_option keeps_if) auto
qed

lemma keeps_record_observation [intro]: "keeps R (record_observation V now i phase out)"
  unfolding record_observation_def Let_def by (intro keeps_bind; auto)

section \<open>Transitions and the stages of a workflow\<close>

lemma keeps_sync [intro]: "keeps R (sync_case_state V a k)"
  unfolding sync_case_state_def
  by (intro keeps_bind keeps_option keeps_if keeps_rethrow event) auto

lemma keeps_sla [intro]: "keeps R (record_sla_expiry now a k)"
  unfolding record_sla_expiry_def Let_def by (intro keeps_engine_tx keeps_bind keeps_option) auto

lemma keeps_persist_command [intro]: "keeps R (persist_command V a k c)"
  unfolding persist_command_def by (intro keeps_engine_tx keeps_bind keeps_option) auto

end

text \<open>The composed operations also record completions.\<close>

locale journal_order = write_order R
  for R :: "'a journal_db_scheme \<Rightarrow> 'a journal_db_scheme \<Rightarrow> bool" +
  assumes completion [intro]: "keeps R (insert_completion p)"
begin

lemma keeps_record_completion [intro]: "keeps R (record_completion V now i ob)"
proof -
  have "keeps R (persist_completion c)" for c
    unfolding persist_completion_def by (intro keeps_engine_tx keeps_bind keeps_option) auto
  then show ?thesis
    unfolding record_completion_def Let_def by (intro keeps_bind; auto)
qed

lemma keeps_process_intent [intro]: "keeps R (process_intent V now fp i)"
proof -
  have c: "keeps R (complete_intent V now fp i ob)" for ob
    unfolding complete_intent_def by (intro keeps_bind) auto
  have e: "keeps R (execute_and_complete V now fp i)"
    unfolding execute_and_complete_def by (intro keeps_bind keeps_if c) auto
  show ?thesis
    unfolding process_intent_def by (intro keeps_bind keeps_option keeps_if c e) auto
qed

lemma keeps_transition [intro]: "keeps R (workflow_transition V now fp a k m)"
  unfolding workflow_transition_def by (intro keeps_bind) auto

lemma keeps_reconciliation [intro]: "keeps R (enter_reconciliation V now fp a k c)"
  unfolding enter_reconciliation_def by (intro keeps_bind keeps_if) auto

lemma keeps_progress [intro]: "keeps R (progress_checkpoint V now fp a k c)"
  unfolding progress_checkpoint_def by (intro keeps_bind keeps_if) auto

lemma keeps_drive [intro]: "keeps R (drive_effect V now fp a k op)"
  unfolding drive_effect_def by (intro keeps_bind keeps_prod keeps_option keeps_if) auto

lemma keeps_handoff [intro]: "keeps R (ticket_handoff V now fp a k)"
  unfolding ticket_handoff_def by (intro keeps_bind keeps_prod keeps_if) auto

lemma keeps_expire [intro]: "keeps R (expire_sla V now fp a k)"
  unfolding expire_sla_def by (intro keeps_bind) auto

lemma keeps_resume [intro]: "keeps R (resume_reconciled V now fp a k)"
  unfolding resume_reconciled_def by (intro keeps_bind keeps_if) auto

lemma keeps_recover_reconciliation [intro]: "keeps R (recover_reconciliation V now fp a k)"
  unfolding recover_reconciliation_def by (intro keeps_bind keeps_list keeps_option) auto

section \<open>Commands\<close>

lemma keeps_apply [intro]: "keeps R (apply_persisted_command V now a c)"
  unfolding apply_persisted_command_def by (intro keeps_bind keeps_option keeps_if) auto

lemma keeps_recover_command [intro]: "keeps R (recover_command V now a c)"
  unfolding recover_command_def by (intro keeps_bind keeps_option keeps_if) auto

lemma keeps_recover_commands [intro]: "keeps R (recover_commands V now a cs)"
proof (induction cs)
  case Nil
  show ?case unfolding recover_commands.simps by (rule keeps_pure)
next
  case (Cons c cs)
  then show ?case unfolding recover_commands.simps by (intro keeps_bind keeps_recover_command)
qed

lemma keeps_recover_pending [intro]: "keeps R (recover_pending_commands V now a)"
  unfolding recover_pending_commands_def by (intro keeps_bind) auto

lemma keeps_submit [intro]: "keeps R (submit_command V now t c i ty e)"
proof -
  have "keeps R (submit_to V now a i ty e)" for a
    unfolding submit_to_def first_checkpoint_def Let_def by (intro keeps_bind keeps_option) auto
  then show ?thesis
    unfolding submit_command_def by (intro keeps_bind keeps_option) auto
qed

end

section \<open>The journal is append-only\<close>

definition journal_le :: "'a journal_db_scheme \<Rightarrow> 'a journal_db_scheme \<Rightarrow> bool" where
  "journal_le s s' \<longleftrightarrow>
     prefix (receipts s) (receipts s') \<and> prefix (cases s) (cases s') \<and>
     prefix (revisions s) (revisions s') \<and> prefix (events s) (events s') \<and>
     prefix (activations s) (activations s') \<and> prefix (runs s) (runs s') \<and>
     prefix (commands s) (commands s') \<and> prefix (checkpoints s) (checkpoints s') \<and>
     prefix (sla_events s) (sla_events s') \<and> prefix (intents s) (intents s') \<and>
     prefix (observations s) (observations s') \<and> prefix (completions s) (completions s') \<and>
     prefix (tickets s) (tickets s') \<and> prefix (operations s) (operations s') \<and>
     prefix (delivery_intents s) (delivery_intents s') \<and>
     prefix (delivery_completions s) (delivery_completions s')"

lemma insert_grows:
  "keeps journal_le (insert_activation a)" "keeps journal_le (insert_run_row r)"
  "keeps journal_le (insert_command c)" "keeps journal_le (insert_checkpoint k)"
  "keeps journal_le (insert_sla l)" "keeps journal_le (insert_intent i)"
  "keeps journal_le (insert_observation b)" "keeps journal_le (insert_completion p)"
  "keeps journal_le (insert_ticket t)" "keeps journal_le (insert_operation q)"
  unfolding insert_activation_def insert_run_row_def insert_command_def insert_checkpoint_def
    insert_sla_def insert_intent_def insert_observation_def insert_completion_def
    insert_ticket_def insert_operation_def
  by (auto simp: keeps_def modify_def journal_le_def split: sum.splits)

lemma event_grows:
  "keeps (journal_le :: 'a journal_db_scheme \<Rightarrow> _) (append_workflow_state_event V f)"
proof (rule keepsI)
  fix s s' :: "'a journal_db_scheme" and x
  assume run: "append_workflow_state_event V f s = (x, s')"
  show "journal_le s s'"
  proof (cases x)
    case (Inl e)
    with run show ?thesis by (auto dest: append_failed simp: journal_le_def)
  next
    case (Inr i)
    with run have "append_workflow_state_event V f s = (Inr i, s')" by simp
    then show ?thesis
      by (cases rule: append_cases) (auto simp: journal_le_def appended_store_def)
  qed
qed

interpretation journal: journal_order journal_le
  by unfold_locales (auto simp: journal_le_def intro: prefix_order.trans intro!: insert_grows event_grows)

text \<open>The tables of the delivery protocol are not written by these operations.\<close>

definition same_delivery :: "'a journal_db_scheme \<Rightarrow> 'a journal_db_scheme \<Rightarrow> bool" where
  "same_delivery s s' \<longleftrightarrow> delivery_intents s' = delivery_intents s \<and>
     delivery_completions s' = delivery_completions s"

lemma insert_same_delivery:
  "keeps same_delivery (insert_activation a)" "keeps same_delivery (insert_run_row r)"
  "keeps same_delivery (insert_command c)" "keeps same_delivery (insert_checkpoint k)"
  "keeps same_delivery (insert_sla l)" "keeps same_delivery (insert_intent i)"
  "keeps same_delivery (insert_observation b)" "keeps same_delivery (insert_completion p)"
  "keeps same_delivery (insert_ticket t)" "keeps same_delivery (insert_operation q)"
  unfolding insert_activation_def insert_run_row_def insert_command_def insert_checkpoint_def
    insert_sla_def insert_intent_def insert_observation_def insert_completion_def
    insert_ticket_def insert_operation_def
  by (auto simp: keeps_def modify_def same_delivery_def split: sum.splits)

lemma event_same_delivery:
  "keeps (same_delivery :: 'a journal_db_scheme \<Rightarrow> _) (append_workflow_state_event V f)"
proof (rule keepsI)
  fix s s' :: "'a journal_db_scheme" and x
  assume run: "append_workflow_state_event V f s = (x, s')"
  show "same_delivery s s'"
  proof (cases x)
    case (Inl e)
    with run show ?thesis by (auto dest: append_failed simp: same_delivery_def)
  next
    case (Inr i)
    with run have "append_workflow_state_event V f s = (Inr i, s')" by simp
    then show ?thesis
      by (cases rule: append_cases) (auto simp: same_delivery_def appended_store_def)
  qed
qed

interpretation delivery_frame: journal_order same_delivery
  by unfold_locales (auto simp: same_delivery_def intro!: insert_same_delivery event_same_delivery)

text \<open>Only recording a completion writes one.\<close>

definition same_completions :: "'a journal_db_scheme \<Rightarrow> 'a journal_db_scheme \<Rightarrow> bool" where
  "same_completions s s' \<longleftrightarrow> completions s' = completions s \<and> prefix (intents s) (intents s')"

lemma insert_same_completions:
  "keeps same_completions (insert_activation a)" "keeps same_completions (insert_run_row r)"
  "keeps same_completions (insert_command c)" "keeps same_completions (insert_checkpoint k)"
  "keeps same_completions (insert_sla l)" "keeps same_completions (insert_intent i)"
  "keeps same_completions (insert_observation b)" "keeps same_completions (insert_ticket t)"
  "keeps same_completions (insert_operation q)"
  unfolding insert_activation_def insert_run_row_def insert_command_def insert_checkpoint_def
    insert_sla_def insert_intent_def insert_observation_def insert_ticket_def insert_operation_def
  by (auto simp: keeps_def modify_def same_completions_def split: sum.splits)

lemma event_same_completions:
  "keeps (same_completions :: 'a journal_db_scheme \<Rightarrow> _) (append_workflow_state_event V f)"
proof (rule keepsI)
  fix s s' :: "'a journal_db_scheme" and x
  assume run: "append_workflow_state_event V f s = (x, s')"
  show "same_completions s s'"
  proof (cases x)
    case (Inl e)
    with run show ?thesis by (auto dest: append_failed simp: same_completions_def)
  next
    case (Inr i)
    with run have "append_workflow_state_event V f s = (Inr i, s')" by simp
    then show ?thesis
      by (cases rule: append_cases) (auto simp: same_completions_def appended_store_def)
  qed
qed

interpretation completion_frame: write_order same_completions
  by unfold_locales
    (auto simp: same_completions_def intro: prefix_order.trans
      intro!: insert_same_completions event_same_completions)

section \<open>What growth preserves\<close>

lemma first_row_grows:
  "prefix xs ys \<Longrightarrow> first_row (filter P xs) = Some r \<Longrightarrow> first_row (filter P ys) = Some r"
  by (auto simp: prefix_def first_row_append split: if_splits)

lemma lookups_grow:
  assumes "journal_le s s'"
  shows "find_operation t key s = Some r \<Longrightarrow> find_operation t key s' = Some r"
    and "find_intent t w op s = Some i \<Longrightarrow> find_intent t w op s' = Some i"
    and "find_observation t oid s = Some ob \<Longrightarrow> find_observation t oid s' = Some ob"
    and "completion_for_intent t j s = Some c \<Longrightarrow> completion_for_intent t j s' = Some c"
    and "activation_for_case t cs rv s = Some a \<Longrightarrow> activation_for_case t cs rv s' = Some a"
  using assms
  by (auto simp: journal_le_def find_operation_def find_intent_def find_observation_def
      completion_for_intent_def activation_for_case_def elim: first_row_grows)

end
