(* ===== verification/EffectLog.thy ===== *)
theory EffectLog
  imports JournalGrowth
begin

text \<open>
  The recording contract on the four writes of the effect protocol: the provider operation under
  its idempotency key, the intent of a workflow's operation, the observation under its digest, the
  completion of an intent.
\<close>

lemma engine_tx_replay:
  "m s = (x, s) \<Longrightarrow> (\<And>e. x = Inl e \<Longrightarrow> db_error_as (WorkflowError r) e = e) \<Longrightarrow> engine_tx r m s = (x, s)"
  by (cases x) (auto simp: engine_tx_def tx_def rethrow_def)

section \<open>The provider\<close>

type_synonym execution = "instant \<times> intent_row"

definition submit_execution ::
  "execution \<Rightarrow> 'a journal_db_scheme \<Rightarrow> (exn + ticket_outcome) \<times> 'a journal_db_scheme" where
  "submit_execution q = (case q of (now, i) \<Rightarrow> execute_intent now i)"

definition execution_slot :: "execution \<Rightarrow> (string \<times> string) option" where
  "execution_slot q = (case q of (now, i) \<Rightarrow> Some (in_tenant i, in_key i))"

definition stored_operation ::
  "string \<times> string \<Rightarrow> 'a journal_db_scheme \<Rightarrow> operation_row option" where
  "stored_operation k = find_operation (fst k) (snd k)"

definition execution_answer :: "execution \<Rightarrow> operation_row \<Rightarrow> exn + ticket_outcome" where
  "execution_answer q r = Inr (outcome_from_operation r)"

interpretation provider: retained submit_execution execution_slot stored_operation execution_answer
proof unfold_locales
  fix q k s v
  show "execution_slot q = Some k \<Longrightarrow> stored_operation k s = Some v \<Longrightarrow>
      submit_execution q s = (execution_answer q v, s)"
    by (auto simp: execution_slot_def stored_operation_def submit_execution_def
        execution_answer_def execute_known split: prod.splits)
next
  fix q s e s'
  show "submit_execution q s = (Inl e, s') \<Longrightarrow> s' = s"
    by (auto simp: submit_execution_def split: prod.splits dest: execute_failed)
next
  fix k s v q x s'
  show "stored_operation k s = Some v \<Longrightarrow> submit_execution q s = (x, s') \<Longrightarrow>
      stored_operation k s' = Some v"
    by (auto simp: stored_operation_def submit_execution_def split: prod.splits
        intro: lookups_grow keepsD [OF journal.keeps_execute])
qed

section \<open>Intents\<close>

type_synonym intent_request = "instant \<times> activation_row \<times> checkpoint \<times> string"

definition submit_intent ::
  "validators \<Rightarrow> intent_request \<Rightarrow> 'a journal_db_scheme \<Rightarrow>
   (exn + intent_row \<times> bool) \<times> 'a journal_db_scheme" where
  "submit_intent V q = (case q of (now, a, k, op) \<Rightarrow> ensure_intent V now a k op)"

definition intent_slot :: "intent_request \<Rightarrow> (string \<times> string \<times> string) option" where
  "intent_slot q = (case q of (now, a, k, op) \<Rightarrow> Some (ac_tenant a, ac_workflow a, op))"

definition stored_intent ::
  "string \<times> string \<times> string \<Rightarrow> 'a journal_db_scheme \<Rightarrow> intent_row option" where
  "stored_intent k = (case k of (t, w, op) \<Rightarrow> find_intent t w op)"

definition intent_replay :: "intent_row \<Rightarrow> intent_row \<Rightarrow> exn + intent_row \<times> bool" where
  "intent_replay i i' =
     bind_res (load_intent i') (\<lambda>i'.
     bind_res (require (intent_identity i' = intent_identity i)
       (WorkflowError ''workflow_intent_conflict'')) (\<lambda>_. Inr (i', False)))"

definition intent_answer ::
  "validators \<Rightarrow> intent_request \<Rightarrow> intent_row \<Rightarrow> exn + intent_row \<times> bool" where
  "intent_answer V q i' = (case q of (now, a, k, op) \<Rightarrow>
     let i = new_intent now a (cp_id (ck_row k)) op in
     bind_res (require (op \<in> {FIND_OR_CREATE, WORKFLOW_HANDOFF})
       (WorkflowError ''workflow_effect_not_allowlisted'')) (\<lambda>_.
     bind_res (contract_as ''workflow_intent_invalid''
       (validate_side_effect_intent V (intent_payload i))) (\<lambda>_. intent_replay i i')))"

lemma persist_intent_known:
  "find_intent (in_tenant i) (in_workflow i) (in_operation i) s = Some i' \<Longrightarrow>
   persist_intent i s = (intent_replay i i', s)"
  unfolding persist_intent_def intent_replay_def
  by (rule engine_tx_replay) (auto simp: load_intent_def require_def split: if_splits)

lemma new_intent_slot [simp]:
  "in_tenant (new_intent now a c op) = ac_tenant a"
  "in_workflow (new_intent now a c op) = ac_workflow a"
  "in_operation (new_intent now a c op) = op"
  by (simp_all add: new_intent_def)

lemma lift_bind_answer:
  "(\<And>a. f a s = (g a, s)) \<Longrightarrow> bind (lift_res m) f s = (bind_res m g, s)"
  by (cases m) auto

lemma ensure_intent_known:
  assumes "find_intent (ac_tenant a) (ac_workflow a) op s = Some i'"
  shows "ensure_intent V now a k op s = (intent_answer V (now, a, k, op) i', s)"
  unfolding ensure_intent_def intent_answer_def Let_def split
  using assms by (intro lift_bind_answer persist_intent_known) simp

lemma ensure_intent_ok:
  assumes "ensure_intent V now a k op s = (Inr (i, b), s')"
  shows "op \<in> {FIND_OR_CREATE, WORKFLOW_HANDOFF} \<and>
     find_intent (ac_tenant a) (ac_workflow a) op s' = Some i \<and>
     intent_identity i = intent_identity (new_intent now a (cp_id (ck_row k)) op) \<and>
     (s' = s \<or> b \<and> i = new_intent now a (cp_id (ck_row k)) op \<and>
       (\<forall>x\<in>set (intents s). \<not> intent_clash i x) \<and>
       has_activation (ac_tenant a) (ac_workflow a) s \<and> s' = s\<lparr>intents := intents s @ [i]\<rparr>)"
proof (cases "find_intent (ac_tenant a) (ac_workflow a) op s")
  case (Some i')
  with assms have "i' = i" "s' = s" and ok: "intent_answer V (now, a, k, op) i' = Inr (i, b)"
    by (auto simp: ensure_intent_known intent_answer_def intent_replay_def Let_def load_intent_def
        split: if_splits)
  with Some show ?thesis
    by (auto simp: intent_answer_def intent_replay_def Let_def)
next
  case None
  with assms show ?thesis
    by (auto simp: ensure_intent_def persist_intent_def Let_def bind_eq_Inr lift_res_eq_Inr
        insert_journal_ok find_intent_def first_row_append)
qed

lemma lift_bind_failed:
  "(\<And>a. f a s = (Inl e, s') \<Longrightarrow> s' = s) \<Longrightarrow> bind (lift_res m) f s = (Inl e, s') \<Longrightarrow> s' = s"
  by (cases m) auto

lemma ensure_intent_failed:
  "ensure_intent V now a k op s = (Inl e, s') \<Longrightarrow> s' = s"
  unfolding ensure_intent_def persist_intent_def Let_def
  by (elim lift_bind_failed [rotated] engine_tx_failed)

interpretation intent_log: recorder "submit_intent V" intent_slot stored_intent "intent_answer V"
  for V
proof unfold_locales
  fix q k s v
  show "intent_slot q = Some k \<Longrightarrow> stored_intent k s = Some v \<Longrightarrow>
      submit_intent V q s = (intent_answer V q v, s)"
    by (auto simp: intent_slot_def stored_intent_def submit_intent_def ensure_intent_known
        split: prod.splits)
next
  fix q s e s'
  show "submit_intent V q s = (Inl e, s') \<Longrightarrow> s' = s"
    by (auto simp: submit_intent_def split: prod.splits dest: ensure_intent_failed)
next
  fix k s v q x s'
  show "stored_intent k s = Some v \<Longrightarrow> submit_intent V q s = (x, s') \<Longrightarrow>
      stored_intent k s' = Some v"
    by (auto simp: stored_intent_def submit_intent_def split: prod.splits
        intro: lookups_grow keepsD [OF journal.keeps_ensure_intent])
next
  fix q s r s'
  show "submit_intent V q s = (Inr r, s') \<Longrightarrow>
      \<exists>k v. intent_slot q = Some k \<and> stored_intent k s' = Some v"
    by (cases q; cases r) (auto simp: submit_intent_def intent_slot_def stored_intent_def
        dest!: ensure_intent_ok)
qed

section \<open>Observations\<close>

type_synonym observing = "instant \<times> intent_row \<times> string \<times> ticket_outcome"

definition submit_observation ::
  "validators \<Rightarrow> observing \<Rightarrow> 'a journal_db_scheme \<Rightarrow> (exn + observation_row) \<times> 'a journal_db_scheme" where
  "submit_observation V q = (case q of (now, i, phase, out) \<Rightarrow> record_observation V now i phase out)"

definition observation_slot :: "observing \<Rightarrow> (string \<times> string) option" where
  "observation_slot q = (case q of (now, i, phase, out) \<Rightarrow>
     Some (in_tenant i, observation_id i phase out))"

definition stored_observation ::
  "string \<times> string \<Rightarrow> 'a journal_db_scheme \<Rightarrow> observation_row option" where
  "stored_observation k = find_observation (fst k) (snd k)"

definition observation_replay :: "observation_row \<Rightarrow> observation_row \<Rightarrow> exn + observation_row" where
  "observation_replay r r' =
     bind_res (require (same_observation r' r) (WorkflowError ''workflow_observation_conflict''))
       (\<lambda>_. Inr r')"

definition observation_answer ::
  "validators \<Rightarrow> observing \<Rightarrow> observation_row \<Rightarrow> exn + observation_row" where
  "observation_answer V q r' = (case q of (now, i, phase, out) \<Rightarrow>
     let r = new_observation now i phase out in
     bind_res (require (to_status out \<in> set OBSERVATION_STATUSES)
       (WorkflowError ''workflow_observation_invalid'')) (\<lambda>_.
     bind_res (contract_as ''workflow_observation_invalid''
       (validate_side_effect_observation V (observation_payload r))) (\<lambda>_. observation_replay r r')))"

lemma new_observation_slot [simp]:
  "ob_tenant (new_observation now i phase out) = in_tenant i"
  "ob_id (new_observation now i phase out) = observation_id i phase out"
  "ob_intent (new_observation now i phase out) = in_id i"
  by (simp_all add: new_observation_def)

lemma persist_observation_known:
  "find_observation (ob_tenant r) (ob_id r) s = Some r' \<Longrightarrow>
   persist_observation r s = (observation_replay r r', s)"
  unfolding persist_observation_def observation_replay_def
  by (rule engine_tx_replay) (auto simp: require_def split: if_splits)

lemma record_observation_known:
  assumes "find_observation (in_tenant i) (observation_id i phase out) s = Some r'"
  shows "record_observation V now i phase out s = (observation_answer V (now, i, phase, out) r', s)"
  unfolding record_observation_def observation_answer_def Let_def split
  using assms by (intro lift_bind_answer persist_observation_known) simp

lemma record_observation_ok:
  assumes "record_observation V now i phase out s = (Inr ob, s')"
  shows "same_observation ob (new_observation now i phase out) \<and>
     find_observation (in_tenant i) (observation_id i phase out) s' = Some ob \<and>
     (s' = s \<or> ob = new_observation now i phase out \<and>
        has_intent (in_tenant i) (in_id i) s \<and> s' = s\<lparr>observations := observations s @ [ob]\<rparr>)"
proof (cases "find_observation (in_tenant i) (observation_id i phase out) s")
  case (Some r')
  with assms show ?thesis
    by (auto simp: record_observation_known observation_answer_def observation_replay_def Let_def)
next
  case None
  with assms show ?thesis
    by (auto simp: record_observation_def persist_observation_def Let_def bind_eq_Inr
        lift_res_eq_Inr insert_journal_ok find_observation_def first_row_append same_observation_def)
qed

lemma record_observation_failed:
  "record_observation V now i phase out s = (Inl e, s') \<Longrightarrow> s' = s"
  unfolding record_observation_def persist_observation_def Let_def
  by (elim lift_bind_failed [rotated] engine_tx_failed)

interpretation observation_log: recorder "submit_observation V" observation_slot stored_observation
  "observation_answer V" for V
proof unfold_locales
  fix q k s v
  show "observation_slot q = Some k \<Longrightarrow> stored_observation k s = Some v \<Longrightarrow>
      submit_observation V q s = (observation_answer V q v, s)"
    by (auto simp: observation_slot_def stored_observation_def submit_observation_def
        record_observation_known split: prod.splits)
next
  fix q s e s'
  show "submit_observation V q s = (Inl e, s') \<Longrightarrow> s' = s"
    by (auto simp: submit_observation_def split: prod.splits dest: record_observation_failed)
next
  fix k s v q x s'
  show "stored_observation k s = Some v \<Longrightarrow> submit_observation V q s = (x, s') \<Longrightarrow>
      stored_observation k s' = Some v"
    by (auto simp: stored_observation_def submit_observation_def split: prod.splits
        intro: lookups_grow keepsD [OF journal.keeps_record_observation])
next
  fix q s r s'
  show "submit_observation V q s = (Inr r, s') \<Longrightarrow>
      \<exists>k v. observation_slot q = Some k \<and> stored_observation k s' = Some v"
    by (cases q) (auto simp: submit_observation_def observation_slot_def stored_observation_def
        dest!: record_observation_ok)
qed

section \<open>Completions\<close>

type_synonym completing = "instant \<times> intent_row \<times> observation_row"

definition submit_completion ::
  "validators \<Rightarrow> completing \<Rightarrow> 'a journal_db_scheme \<Rightarrow> (exn + completion_row) \<times> 'a journal_db_scheme" where
  "submit_completion V q = (case q of (now, i, ob) \<Rightarrow> record_completion V now i ob)"

definition completion_slot :: "completing \<Rightarrow> (string \<times> string) option" where
  "completion_slot q = (case q of (now, i, ob) \<Rightarrow> Some (in_tenant i, in_id i))"

definition stored_completion ::
  "string \<times> string \<Rightarrow> 'a journal_db_scheme \<Rightarrow> completion_row option" where
  "stored_completion k = completion_for_intent (fst k) (snd k)"

definition completion_replay :: "completion_row \<Rightarrow> completion_row \<Rightarrow> exn + completion_row" where
  "completion_replay r r' =
     bind_res (require (same_completion r' r) (WorkflowError ''workflow_completion_conflict''))
       (\<lambda>_. Inr r')"

definition completion_answer ::
  "validators \<Rightarrow> completing \<Rightarrow> completion_row \<Rightarrow> exn + completion_row" where
  "completion_answer V q r' = (case q of (now, i, ob) \<Rightarrow>
     bind_res (completion_of V now i ob) (\<lambda>r. completion_replay r r'))"

lemma persist_completion_known:
  "completion_for_intent (co_tenant r) (co_intent r) s = Some r' \<Longrightarrow>
   persist_completion r s = (completion_replay r r', s)"
  unfolding persist_completion_def completion_replay_def
  by (rule engine_tx_replay) (auto simp: require_def split: if_splits)

lemma completion_of_ok:
  "completion_of V now i ob = Inr r \<Longrightarrow> ob_status ob = ''present'' \<and>
     (\<exists>ticket version sha256. ob_ticket ob = Some ticket \<and> ob_version ob = Some version \<and>
        ob_sha256 ob = Some sha256 \<and> r = new_completion now i (ob_id ob) ticket version sha256)"
  by (auto simp: completion_of_def Let_def split: bool.splits option.splits)

lemma completion_of_slot:
  "completion_of V now i ob = Inr r \<Longrightarrow> co_tenant r = in_tenant i \<and> co_intent r = in_id i"
  by (auto dest!: completion_of_ok simp: new_completion_def)

lemma record_completion_known:
  assumes "completion_for_intent (in_tenant i) (in_id i) s = Some r'"
  shows "record_completion V now i ob s = (completion_answer V (now, i, ob) r', s)"
  unfolding record_completion_def completion_answer_def split
proof (cases "completion_of V now i ob")
  case (Inr r)
  with assms show "bind (lift_res (completion_of V now i ob)) persist_completion s =
      (bind_res (completion_of V now i ob) (\<lambda>r. completion_replay r r'), s)"
    by (simp add: persist_completion_known completion_of_slot)
qed simp

lemma record_completion_ok:
  assumes "record_completion V now i ob s = (Inr c, s')"
  shows "\<exists>r. completion_of V now i ob = Inr r \<and> same_completion c r \<and>
     completion_for_intent (in_tenant i) (in_id i) s' = Some c \<and>
     (s' = s \<or> c = r \<and> 1 \<le> co_version c \<and> has_intent (in_tenant i) (in_id i) s \<and>
        completion_for_intent (in_tenant i) (in_id i) s = None \<and>
        s' = s\<lparr>completions := completions s @ [c]\<rparr>)"
proof (cases "completion_for_intent (in_tenant i) (in_id i) s")
  case (Some r')
  with assms show ?thesis
    by (auto simp: record_completion_known completion_answer_def completion_replay_def)
next
  case None
  from assms obtain r where r: "completion_of V now i ob = Inr r" "persist_completion r s = (Inr c, s')"
    by (auto simp: record_completion_def bind_eq_Inr lift_res_eq_Inr)
  with completion_of_slot [OF r(1)] None show ?thesis
    by (auto simp: persist_completion_def bind_eq_Inr insert_journal_ok completion_for_intent_def
        first_row_append same_completion_def)
qed

lemma record_completion_failed: "record_completion V now i ob s = (Inl e, s') \<Longrightarrow> s' = s"
  unfolding record_completion_def persist_completion_def
  by (elim lift_bind_failed [rotated] engine_tx_failed)

interpretation completion_log: recorder "submit_completion V" completion_slot stored_completion
  "completion_answer V" for V
proof unfold_locales
  fix q k s v
  show "completion_slot q = Some k \<Longrightarrow> stored_completion k s = Some v \<Longrightarrow>
      submit_completion V q s = (completion_answer V q v, s)"
    by (auto simp: completion_slot_def stored_completion_def submit_completion_def
        record_completion_known split: prod.splits)
next
  fix q s e s'
  show "submit_completion V q s = (Inl e, s') \<Longrightarrow> s' = s"
    by (auto simp: submit_completion_def split: prod.splits dest: record_completion_failed)
next
  fix k s v q x s'
  show "stored_completion k s = Some v \<Longrightarrow> submit_completion V q s = (x, s') \<Longrightarrow>
      stored_completion k s' = Some v"
    by (auto simp: stored_completion_def submit_completion_def split: prod.splits
        intro: lookups_grow keepsD [OF journal.keeps_record_completion])
next
  fix q s r s'
  show "submit_completion V q s = (Inr r, s') \<Longrightarrow>
      \<exists>k v. completion_slot q = Some k \<and> stored_completion k s' = Some v"
    by (cases q) (auto simp: submit_completion_def completion_slot_def stored_completion_def
        dest!: record_completion_ok)
qed

end
