(* ===== verification/JournalRun.thy ===== *)
theory JournalRun
  imports Commands EffectLog LedgerInvariant
begin

text \<open>
  The journals the program can reach: any sequence of its atomic writes, of any tenants and workers
  and at any times, each of them succeeding or failing.  A worker that crashes or is interrupted
  between two writes is a sequence that stops there; concurrent workers are interleaved sequences.
\<close>

text \<open>
  The journal tables are installed on an existing ledger file.  Its Cases have the identifiers the
  ledger generates, which contain no colon.
\<close>

definition fresh_journal :: "journal_db \<Rightarrow> bool" where
  "fresh_journal s \<longleftrightarrow> ledger_db.more s = ledger_db.more empty_journal \<and>
     (\<forall>r\<in>set (revisions s). CHR '':'' \<notin> set (rv_case r) \<and> CHR '':'' \<notin> set (rv_id r))"

inductive journal_run :: "validators \<Rightarrow> journal_db \<Rightarrow> bool" for V where
  opened: "fresh_journal s \<Longrightarrow> journal_run V s"
| delivered: "journal_run V s \<Longrightarrow> intake V now p t s = (x, s') \<Longrightarrow> journal_run V s'"
| qq_delivered: "journal_run V s \<Longrightarrow> intake_qq V now p t s = (x, s') \<Longrightarrow> journal_run V s'"
| rebuilt: "journal_run V s \<Longrightarrow> rebuild_projection V s = (u, s') \<Longrightarrow> journal_run V s'"
| activated: "journal_run V s \<Longrightarrow> activate_case V now t c r given s = (y, s') \<Longrightarrow> journal_run V s'"
| checkpointed: "journal_run V s \<Longrightarrow> a \<in> set (activations s) \<Longrightarrow>
    ensure_checkpoint V now a q s = (k, s') \<Longrightarrow> journal_run V s'"
| synced: "journal_run V s \<Longrightarrow> a \<in> set (activations s) \<Longrightarrow>
    sync_case_state V a ck s = (u, s') \<Longrightarrow> journal_run V s'"
| intended: "journal_run V s \<Longrightarrow> a \<in> set (activations s) \<Longrightarrow>
    ensure_intent V now a ck op s = (ib, s') \<Longrightarrow> journal_run V s'"
| executed: "journal_run V s \<Longrightarrow> i \<in> set (intents s) \<Longrightarrow>
    execute_intent now i s = (out, s') \<Longrightarrow> journal_run V s'"
| observed: "journal_run V s \<Longrightarrow> i \<in> set (intents s) \<Longrightarrow>
    record_observation V now i phase tout s = (ob, s') \<Longrightarrow> journal_run V s'"
| completed: "journal_run V s \<Longrightarrow> i \<in> set (intents s) \<Longrightarrow>
    record_completion V now i obs s = (cm, s') \<Longrightarrow> journal_run V s'"
| expired: "journal_run V s \<Longrightarrow> a \<in> set (activations s) \<Longrightarrow>
    record_sla_expiry now a ck s = (u, s') \<Longrightarrow> journal_run V s'"
| commanded: "journal_run V s \<Longrightarrow> a \<in> set (activations s) \<Longrightarrow>
    persist_command V a ck cmd s = (b, s') \<Longrightarrow> journal_run V s'"

section \<open>What each write leaves alone\<close>

text \<open>The tables of the ticket protocol, as one value.\<close>

definition ticket_part :: "'a journal_db_scheme \<Rightarrow>
    revision_row list \<times> activation_row list \<times> intent_row list \<times> ticket_row list \<times> operation_row list" where
  "ticket_part s = (revisions s, activations s, intents s, tickets s, operations s)"

lemma more_journal:
  "ledger_db.more s' = ledger_db.more s \<Longrightarrow> activations s' = activations s \<and>
     intents s' = intents s \<and> tickets s' = tickets s \<and> operations s' = operations s \<and>
     checkpoints s' = checkpoints s \<and> runs s' = runs s \<and> commands s' = commands s"
  for s s' :: "'a journal_db_scheme"
  by (cases s; cases s') simp

lemma intake_validated_journal:
  assumes "intake_validated V now p t s = (x, s')"
  shows "ledger_db.more s' = ledger_db.more s \<and>
    (revisions s' = revisions s \<or> (\<exists>key rv. revisions s' = revisions s @ [rv] \<and>
       rv_case rv = make_case_id t key \<and> rv_id rv = make_revision_id (make_case_id t key)))"
proof (cases x)
  case (Inl e)
  with assms show ?thesis by (auto dest: intake_failed)
next
  case (Inr r)
  with assms have "intake_validated V now p t s = (Inr r, s')" by simp
  then show ?thesis
  proof (cases rule: intake_cases)
    case (new key)
    then show ?thesis
      by (elim accept_delivery_ok)
        (auto simp: accepted_store_def new_revision_def revision_row_of_def)
  qed simp
qed

lemma intake_journal:
  assumes "intake V now p t s = (x, s')"
  shows "ledger_db.more s' = ledger_db.more s \<and>
    (revisions s' = revisions s \<or> (\<exists>key rv. revisions s' = revisions s @ [rv] \<and>
       rv_case rv = make_case_id t key \<and> rv_id rv = make_revision_id (make_case_id t key)))"
  using assms
  by (cases "validate_inbound V p t") (auto simp: intake_def dest: intake_validated_journal)

lemma intake_qq_journal:
  assumes "intake_qq V now p t s = (x, s')"
  shows "ledger_db.more s' = ledger_db.more s \<and>
    (revisions s' = revisions s \<or> (\<exists>key rv. revisions s' = revisions s @ [rv] \<and>
       rv_case rv = make_case_id t key \<and> rv_id rv = make_revision_id (make_case_id t key)))"
proof (cases "\<exists>payload. intake_validated V now payload t s = (x, s')")
  case True
  then show ?thesis by (auto dest: intake_validated_journal)
next
  case False
  with assms have "s' = s"
    by (auto simp: intake_qq_def bind_def split: prod.splits sum.splits)
  then show ?thesis by simp
qed

text \<open>Rebuilding the read model writes nothing else.\<close>

definition same_source :: "'a journal_db_scheme \<Rightarrow> 'a journal_db_scheme \<Rightarrow> bool" where
  "same_source s s' \<longleftrightarrow> ledger_db.more s' = ledger_db.more s \<and> revisions s' = revisions s"

interpretation source_frame: store_order same_source
  by unfold_locales (simp_all add: same_source_def)

lemma rebuild_frame: "keeps same_source (rebuild_projection V)"
proof -
  have "keeps same_source (insert_projection p)" for p
    unfolding insert_projection_def
    by (auto intro!: source_frame.keeps_modify simp: same_source_def)
  then have one: "keeps same_source (rebuild_case_projection V c)" for c
    unfolding rebuild_case_projection_def by (intro source_frame.keeps_bind) auto
  have cases: "keeps same_source (rebuild_cases V cs)" for cs
  proof (induction cs)
    case Nil
    show ?case unfolding rebuild_cases.simps by (rule source_frame.keeps_pure)
  next
    case (Cons c cs)
    then show ?case unfolding rebuild_cases.simps by (intro source_frame.keeps_bind one)
  qed
  have "keeps same_source (modify (\<lambda>s. Inr (s\<lparr>projections := []\<rparr>)))"
    by (auto intro!: source_frame.keeps_modify simp: same_source_def)
  then show ?thesis
    unfolding rebuild_projection_def
    by (intro source_frame.keeps_tx source_frame.keeps_rethrow source_frame.keeps_bind cases) auto
qed

lemma append_event_part:
  "append_workflow_state_event V f s = (x, s') \<Longrightarrow>
   ledger_db.more s' = ledger_db.more s \<and> revisions s' = revisions s"
  by (cases x) (auto dest: append_failed elim!: append_cases simp: appended_store_def)

text \<open>The operations that write none of these tables.\<close>

definition same_tickets :: "'a journal_db_scheme \<Rightarrow> 'a journal_db_scheme \<Rightarrow> bool" where
  "same_tickets s s' \<longleftrightarrow> ticket_part s' = ticket_part s"

interpretation ticket_frame: store_order same_tickets
  by unfold_locales (simp_all add: same_tickets_def)

lemma insert_frame [intro]:
  "keeps same_tickets (insert_run_row r)" "keeps same_tickets (insert_command c)"
  "keeps same_tickets (insert_checkpoint k)" "keeps same_tickets (insert_sla l)"
  "keeps same_tickets (insert_observation b)" "keeps same_tickets (insert_completion p)"
  unfolding insert_run_row_def insert_command_def insert_checkpoint_def insert_sla_def
    insert_observation_def insert_completion_def
  by (auto intro!: ticket_frame.keeps_modify simp: same_tickets_def ticket_part_def)

lemma engine_tx_frame [intro]: "keeps same_tickets m \<Longrightarrow> keeps same_tickets (engine_tx r m)"
  by (auto simp: engine_tx_def)

lemma checkpoint_frame: "keeps same_tickets (ensure_checkpoint V now a q)"
proof -
  have run: "keeps same_tickets (insert_run t w st rs c)" for t w st rs c
    by (auto simp: insert_run_def)
  then have app: "keeps same_tickets (append_checkpoint k)" for k
    unfolding append_checkpoint_def Let_def
    by (intro engine_tx_frame ticket_frame.keeps_bind ticket_frame.keeps_option) auto
  then have w: "keeps same_tickets (write_checkpoint V k)" for k
    unfolding write_checkpoint_def by auto
  show ?thesis
    unfolding ensure_checkpoint_def
    by (intro ticket_frame.keeps_bind ticket_frame.keeps_option ticket_frame.keeps_if w) auto
qed

lemma sync_frame: "keeps same_tickets (sync_case_state V a k)"
proof -
  have "keeps same_tickets (append_workflow_state_event V f)" for f
    by (rule keepsI)
      (auto dest!: append_event_part more_journal simp: same_tickets_def ticket_part_def)
  then show ?thesis
    unfolding sync_case_state_def
    by (intro ticket_frame.keeps_bind ticket_frame.keeps_option ticket_frame.keeps_if) auto
qed

lemma record_frame:
  "keeps same_tickets (record_observation V now i phase out)"
  "keeps same_tickets (record_completion V now i ob)"
  "keeps same_tickets (record_sla_expiry now a k)"
  "keeps same_tickets (persist_command V a k c)"
  unfolding record_observation_def persist_observation_def record_completion_def
    persist_completion_def record_sla_expiry_def persist_command_def Let_def
  by (intro engine_tx_frame ticket_frame.keeps_bind ticket_frame.keeps_option; auto)+

section \<open>The invariant of the ticket protocol\<close>

text \<open>Identifiers of Cases and revisions have no colon, so the natural key can be split.\<close>

definition keys_ok :: "'a journal_db_scheme \<Rightarrow> bool" where
  "keys_ok s \<longleftrightarrow>
     (\<forall>r\<in>set (revisions s). CHR '':'' \<notin> set (rv_case r) \<and> CHR '':'' \<notin> set (rv_id r)) \<and>
     (\<forall>a\<in>set (activations s). CHR '':'' \<notin> set (ac_case a) \<and> CHR '':'' \<notin> set (ac_revision a) \<and>
        ac_definition a = WORKFLOW_DEFINITION_VERSION) \<and>
     (\<forall>a\<in>set (activations s). \<forall>b\<in>set (activations s). activation_clash a b \<longrightarrow> a = b)"

definition intents_ok :: "'a journal_db_scheme \<Rightarrow> bool" where
  "intents_ok s \<longleftrightarrow>
     (\<forall>i\<in>set (intents s). \<exists>a\<in>set (activations s). in_tenant i = ac_tenant a \<and>
        in_workflow i = ac_workflow a \<and> in_natural_key i = effect_natural_key a) \<and>
     (\<forall>i\<in>set (intents s). \<forall>j\<in>set (intents s). intent_clash i j \<longrightarrow> i = j)"

text \<open>Each operation belongs to an intent and to the ticket revision it produced, and back.\<close>

definition operation_ok :: "'a journal_db_scheme \<Rightarrow> operation_row \<Rightarrow> bool" where
  "operation_ok s q \<longleftrightarrow>
     (\<exists>i\<in>set (intents s). in_tenant i = op_tenant q \<and> in_key i = op_key q \<and>
        in_operation i = op_operation q \<and> in_natural_key i = op_natural_key q) \<and>
     (\<exists>r\<in>set (tickets s). tk_tenant r = op_tenant q \<and> tk_id r = op_ticket q \<and>
        tk_version r = op_version q \<and> tk_natural_key r = op_natural_key q \<and>
        tk_operation r = op_operation q \<and> ticket_sha256 r = op_sha256 q) \<and>
     (op_operation q = FIND_OR_CREATE \<and> op_expected q = None \<and> op_version q = 1 \<or>
      op_operation q = WORKFLOW_HANDOFF \<and> op_expected q = Some (op_version q - 1))"

definition ticket_ok :: "'a journal_db_scheme \<Rightarrow> ticket_row \<Rightarrow> bool" where
  "ticket_ok s r \<longleftrightarrow>
     (\<exists>q\<in>set (operations s). op_tenant q = tk_tenant r \<and> op_natural_key q = tk_natural_key r \<and>
        op_operation q = tk_operation r \<and> op_version q = tk_version r) \<and>
     (\<exists>q\<in>set (operations s). op_tenant q = tk_tenant r \<and> op_natural_key q = tk_natural_key r \<and>
        op_operation q = FIND_OR_CREATE)"

definition tickets_ok :: "'a journal_db_scheme \<Rightarrow> bool" where
  "tickets_ok s \<longleftrightarrow> (\<forall>q\<in>set (operations s). operation_ok s q) \<and>
     (\<forall>r\<in>set (tickets s). ticket_ok s r) \<and>
     distinct (map (\<lambda>r. (tk_tenant r, tk_natural_key r, tk_version r)) (tickets s)) \<and>
     distinct (map (\<lambda>r. (tk_tenant r, tk_id r, tk_version r)) (tickets s)) \<and>
     distinct (map (\<lambda>q. (op_tenant q, op_key q)) (operations s))"

definition ticket_inv :: "'a journal_db_scheme \<Rightarrow> bool" where
  "ticket_inv s \<longleftrightarrow> keys_ok s \<and> intents_ok s \<and> tickets_ok s"

lemma ticket_inv_cong: "ticket_part s' = ticket_part s \<Longrightarrow> ticket_inv s \<Longrightarrow> ticket_inv s'"
  by (simp add: ticket_part_def ticket_inv_def keys_ok_def intents_ok_def tickets_ok_def
      operation_ok_def ticket_ok_def)

lemma keeps_ticket_inv:
  "keeps same_tickets m \<Longrightarrow> ticket_inv s \<Longrightarrow> m s = (x, s') \<Longrightarrow> ticket_inv s'"
  by (drule (1) keepsD) (auto simp: same_tickets_def intro: ticket_inv_cong)

lemma natural_key_inj:
  assumes "ac_tenant a = ac_tenant b" and "effect_natural_key a = effect_natural_key b"
    and "CHR '':'' \<notin> set (ac_case a)" "CHR '':'' \<notin> set (ac_case b)"
  shows "ac_case a = ac_case b \<and> ac_revision a = ac_revision b"
proof -
  have split: "takeWhile (\<lambda>c. c \<noteq> CHR '':'') (x @ CHR '':'' # y) = x"
    if "CHR '':'' \<notin> set x" for x y :: string
    using that by (induction x) auto
  from assms(1,2) have eq: "ac_case a @ CHR '':'' # ac_revision a = ac_case b @ CHR '':'' # ac_revision b"
    by (simp add: effect_natural_key_def)
  then have "takeWhile (\<lambda>c. c \<noteq> CHR '':'') (ac_case a @ CHR '':'' # ac_revision a) =
      takeWhile (\<lambda>c. c \<noteq> CHR '':'') (ac_case b @ CHR '':'' # ac_revision b)" by simp
  then have "ac_case a = ac_case b" using split assms(3,4) by simp
  with eq show ?thesis by simp
qed

text \<open>One intent per natural key and operation.\<close>

lemma intent_unique:
  assumes "ticket_inv s" and "i \<in> set (intents s)" "j \<in> set (intents s)"
    and "in_tenant i = in_tenant j" "in_natural_key i = in_natural_key j" "in_operation i = in_operation j"
  shows "i = j"
proof -
  from assms(1-3) obtain a b where ab: "a \<in> set (activations s)" "b \<in> set (activations s)"
    "in_tenant i = ac_tenant a" "in_workflow i = ac_workflow a" "in_natural_key i = effect_natural_key a"
    "in_tenant j = ac_tenant b" "in_workflow j = ac_workflow b" "in_natural_key j = effect_natural_key b"
    unfolding ticket_inv_def intents_ok_def by blast
  moreover from assms(1) ab(1,2) have "CHR '':'' \<notin> set (ac_case a)" "CHR '':'' \<notin> set (ac_case b)"
    "ac_definition a = ac_definition b" by (auto simp: ticket_inv_def keys_ok_def)
  ultimately have "activation_clash a b"
    using natural_key_inj [of a b] assms(4,5) by (auto simp: activation_clash_def)
  with assms(1) ab(1,2) have "a = b" by (auto simp: ticket_inv_def keys_ok_def)
  with ab assms(4,6) have "intent_clash i j" by (simp add: intent_clash_def)
  with assms(1-3) show ?thesis by (auto simp: ticket_inv_def intents_ok_def)
qed

section \<open>Each write keeps the invariant\<close>

lemma no_colon_identifier:
  assumes "CHR '':'' \<notin> set pre"
  shows "CHR '':'' \<notin> set (stable_identifier pre m)"
proof -
  have "CHR '':'' \<notin> set (sha256_hex x)" for x
    using sha256_hex_digits [of x] by auto
  then show ?thesis
    using assms by (auto simp: stable_identifier_def canonical_sha256_def dest: in_set_takeD)
qed

lemma delivered_inv:
  assumes inv: "ticket_inv s" and more: "ledger_db.more s' = ledger_db.more s"
    and revs: "revisions s' = revisions s \<or> (\<exists>key rv. revisions s' = revisions s @ [rv] \<and>
       rv_case rv = make_case_id t key \<and> rv_id rv = make_revision_id (make_case_id t key))"
  shows "ticket_inv s'"
proof -
  have c: "CHR '':'' \<notin> set (make_case_id t key)" "CHR '':'' \<notin> set (make_revision_id x)" for key x
    by (simp_all add: make_case_id_def make_revision_id_def no_colon_identifier)
  from more_journal [OF more] have
    "activations s' = activations s" "intents s' = intents s" "tickets s' = tickets s"
    "operations s' = operations s" by blast+
  with inv revs c show ?thesis
    by (auto simp: ticket_inv_def keys_ok_def intents_ok_def tickets_ok_def operation_ok_def
        ticket_ok_def)
qed

lemma new_activation_ok:
  "new_activation now p r e policy d = Inr a \<Longrightarrow> ac_tenant a = pj_tenant p \<and> ac_case a = pj_case p \<and>
     ac_revision a = r \<and> ac_definition a = WORKFLOW_DEFINITION_VERSION \<and>
     ac_workflow a = workflow_id (pj_tenant p) (pj_case p) r WORKFLOW_DEFINITION_VERSION \<and>
     ac_deadline a = d \<and> ac_source a = e \<and> ac_correlation a = pj_correlation p"
  by (auto simp: new_activation_def Let_def)

lemma persist_activation_ok:
  assumes "persist_activation now p r e policy d s = (Inr y, s')"
  shows "s' = s \<or> (\<exists>a run. new_activation now p r e policy d = Inr a \<and>
    (\<forall>x\<in>set (activations s). \<not> activation_clash a x) \<and>
    run = new_run (pj_tenant p) (ac_workflow a) RECEIVED ''activated'' (timestamp now)
      (next_index (run_sequences (pj_tenant p) (ac_workflow a) s)) \<and>
    s' = s\<lparr>activations := activations s @ [a], runs := runs s @ [run]\<rparr>)"
proof (cases "activation_for_case (pj_tenant p) (pj_case p) r s")
  case None
  let ?w = "workflow_id (pj_tenant p) (pj_case p) r WORKFLOW_DEFINITION_VERSION"
  from assms None obtain a where a: "new_activation now p r e policy d = Inr a"
    "\<forall>x\<in>set (activations s). \<not> activation_clash a x"
    "s' = s\<lparr>activations := activations s @ [a],
       runs := runs s @ [new_run (pj_tenant p) ?w RECEIVED ''activated'' (timestamp now)
         (next_index (run_sequences (pj_tenant p) ?w (s\<lparr>activations := activations s @ [a]\<rparr>)))]\<rparr>"
    by (auto simp: persist_activation_def Let_def bind_eq_Inr lift_res_eq_Inr insert_run_def
        insert_journal_ok)
  moreover from new_activation_ok [OF a(1)] have "ac_workflow a = ?w" by simp
  moreover have "run_sequences (pj_tenant p) ?w (s\<lparr>activations := activations s @ [a]\<rparr>) =
      run_sequences (pj_tenant p) ?w s" by (simp add: run_sequences_def)
  ultimately show ?thesis by auto
next
  case (Some a)
  with assms show ?thesis
    by (auto simp: persist_activation_def Let_def bind_eq_Inr lift_res_eq_Inr)
qed

lemma activate_failed: "activate_case V now t c r given s = (Inl e, s') \<Longrightarrow> s' = s"
proof -
  have "persist_activation now p r ev policy d s = (Inl e, s') \<Longrightarrow> s' = s" for p ev policy d
    by (simp add: persist_activation_def Let_def engine_tx_failed)
  then show "activate_case V now t c r given s = (Inl e, s') \<Longrightarrow> s' = s"
    unfolding activate_case_def
    by (auto elim!: bind_Inl_cases simp: lift_res_eq_Inr bind_eq_Inr split: option.splits if_splits)
qed

lemma activate_ok:
  assumes "activate_case V now t c r given s = (Inr y, s')"
  shows "s' = s \<or> (\<exists>a run p rv. find_projection t c s = Some p \<and> pj_state p = RECEIVED \<and>
    rv \<in> set (revisions s) \<and> rv_case rv = c \<and> rv_id rv = r \<and>
    ac_tenant a = t \<and> ac_case a = c \<and> ac_revision a = r \<and>
    ac_definition a = WORKFLOW_DEFINITION_VERSION \<and> ac_correlation a = pj_correlation p \<and>
    (\<forall>x\<in>set (activations s). \<not> activation_clash a x) \<and>
    run = new_run t (ac_workflow a) RECEIVED ''activated'' (timestamp now)
      (next_index (run_sequences t (ac_workflow a) s)) \<and>
    s' = s\<lparr>activations := activations s @ [a], runs := runs s @ [run]\<rparr>)"
proof -
  from assms obtain prj rvs evs where reads: "get_case_projection V t c s = Inr prj"
    "list_case_revisions V t c s = Inr rvs" "list_case_events V t c s = Inr evs"
    and rest: "(case prj of
       None \<Rightarrow> throw (WorkflowNotFound ''workflow_not_found'')
     | Some p \<Rightarrow>
         if length rvs \<noteq> 1 \<or> evs = [] \<or> rv_id (hd rvs) \<noteq> r
         then throw (WorkflowNotFound ''workflow_not_found'')
         else if pj_state p \<noteq> RECEIVED then
           bind (query (activation_for_case t c r)) (\<lambda>existing.
           case existing of
             None \<Rightarrow> throw (WorkflowError ''workflow_activation_predecessor_invalid'')
           | Some a \<Rightarrow> ret (ac_workflow a, False))
         else
           bind (lift_res (activation_policy V now p given)) (\<lambda>policy.
           bind (lift_res (sla_deadline p policy)) (\<lambda>deadline.
           persist_activation now p r (ev_id (last evs)) policy deadline))) s = (Inr y, s')"
    unfolding activate_case_def by (elim bind_inv) (auto simp: lift_res_eq_Inr)
  then obtain p where p: "prj = Some p" "length rvs = 1" "rv_id (hd rvs) = r"
    by (auto split: option.splits if_splits)
  show ?thesis
  proof (cases "pj_state p = RECEIVED")
    case False
    with rest p have "s' = s" by (auto split: if_splits option.splits)
    then show ?thesis by simp
  next
    case True
    with rest p obtain policy deadline where
      "persist_activation now p r (ev_id (last evs)) policy deadline s = (Inr y, s')"
      by (auto simp: bind_eq_Inr lift_res_eq_Inr split: if_splits)
    from persist_activation_ok [OF this] new_activation_ok
    have "s' = s \<or> (\<exists>a run. ac_tenant a = pj_tenant p \<and> ac_case a = pj_case p \<and> ac_revision a = r \<and>
      ac_definition a = WORKFLOW_DEFINITION_VERSION \<and> ac_correlation a = pj_correlation p \<and>
      (\<forall>x\<in>set (activations s). \<not> activation_clash a x) \<and>
      run = new_run (pj_tenant p) (ac_workflow a) RECEIVED ''activated'' (timestamp now)
        (next_index (run_sequences (pj_tenant p) (ac_workflow a) s)) \<and>
      s' = s\<lparr>activations := activations s @ [a], runs := runs s @ [run]\<rparr>)" by blast
    moreover from reads(1) p have pr: "find_projection t c s = Some p"
      by (auto simp: get_case_projection_def split: option.splits)
    moreover from this have "pj_tenant p = t" "pj_case p = c"
      by (auto simp: find_projection_def dest: first_row_filterD)
    moreover have "hd rvs \<in> set (revisions s) \<and> rv_case (hd rvs) = c"
    proof -
    from reads(2) p(2) have "rvs = case_revisions t c s"
      by (auto simp: list_case_revisions_def Let_def split: if_splits)
    moreover from p(2) have "hd rvs \<in> set rvs" by (cases rvs) auto
    ultimately have "hd rvs \<in> set (revisions s)" "rv_case (hd rvs) = c"
      by (auto simp: case_revisions_def)
    then show ?thesis by simp
    qed
    ultimately show ?thesis using True p(3) by blast
  qed
qed

lemma activated_inv:
  assumes inv: "ticket_inv s" and run: "activate_case V now t c r given s = (y, s')"
  shows "ticket_inv s'"
proof (cases y)
  case (Inl e)
  with inv run show ?thesis by (auto dest: activate_failed)
next
  case (Inr y')
  with run have "activate_case V now t c r given s = (Inr y', s')" by simp
  from activate_ok [OF this] show ?thesis
  proof (elim disjE exE conjE)
    fix a run' p rv
    assume a: "rv \<in> set (revisions s)" "rv_case rv = c" "rv_id rv = r" "ac_tenant a = t"
      "ac_case a = c" "ac_revision a = r" "ac_definition a = WORKFLOW_DEFINITION_VERSION"
      "\<forall>x\<in>set (activations s). \<not> activation_clash a x"
      "s' = s\<lparr>activations := activations s @ [a], runs := runs s @ [run']\<rparr>"
    have sym: "activation_clash x y = activation_clash y x" for x y
      by (auto simp: activation_clash_def)
    from inv a have "keys_ok s'" by (auto simp: ticket_inv_def keys_ok_def sym)
    with inv a(9) show ?thesis
      by (auto simp: ticket_inv_def intents_ok_def tickets_ok_def operation_ok_def ticket_ok_def)
  qed (use inv in simp)
qed

lemma intended_inv:
  assumes inv: "ticket_inv s" and a: "a \<in> set (activations s)"
    and run: "ensure_intent V now a k op s = (x, s')"
  shows "ticket_inv s'"
proof (cases x)
  case (Inl e)
  with inv run show ?thesis by (auto dest: ensure_intent_failed)
next
  case (Inr ib)
  with run have "ensure_intent V now a k op s = (Inr (fst ib, snd ib), s')" by simp
  from ensure_intent_ok [OF this] have "s' = s \<or> (\<exists>i. i = new_intent now a (cp_id (ck_row k)) op \<and>
      (\<forall>x\<in>set (intents s). \<not> intent_clash i x) \<and> s' = s\<lparr>intents := intents s @ [i]\<rparr>)"
    by blast
  then show ?thesis
  proof (elim disjE exE conjE)
    fix i
    assume i: "i = new_intent now a (cp_id (ck_row k)) op" "\<forall>x\<in>set (intents s). \<not> intent_clash i x"
      "s' = s\<lparr>intents := intents s @ [i]\<rparr>"
    have sym: "intent_clash x y = intent_clash y x" for x y by (auto simp: intent_clash_def)
    from i(1) have "in_tenant i = ac_tenant a" "in_workflow i = ac_workflow a"
      "in_natural_key i = effect_natural_key a" by (simp_all add: new_intent_def)
    with inv i a have "intents_ok s'" by (auto simp: ticket_inv_def intents_ok_def sym)
    with inv i(3) show ?thesis
      by (auto simp: ticket_inv_def keys_ok_def tickets_ok_def operation_ok_def ticket_ok_def)
  qed (use inv in simp)
qed

section \<open>Executing an intent\<close>

lemma latest_ticket_mem:
  "latest_ticket t key s = Some r \<Longrightarrow> r \<in> set (tickets s) \<and> tk_tenant r = t \<and> tk_natural_key r = key"
  using last_in_set [of "sort_key tk_version (filter (\<lambda>r. tk_tenant r = t \<and> tk_natural_key r = key) (tickets s))"]
  by (auto simp: latest_ticket_def last_row_def split: if_splits)

lemma latest_ticket_None:
  "latest_ticket t key s = None \<Longrightarrow> r \<in> set (tickets s) \<Longrightarrow> tk_tenant r = t \<Longrightarrow> tk_natural_key r \<noteq> key"
proof
  assume "latest_ticket t key s = None"
  then have "sort_key tk_version (filter (\<lambda>r. tk_tenant r = t \<and> tk_natural_key r = key) (tickets s)) = []"
    by (simp add: latest_ticket_def last_row_def split: if_splits)
  then have "set (filter (\<lambda>r. tk_tenant r = t \<and> tk_natural_key r = key) (tickets s)) = {}"
    by (metis set_sort set_empty)
  then show "r \<in> set (tickets s) \<Longrightarrow> tk_tenant r = t \<Longrightarrow> tk_natural_key r = key \<Longrightarrow> False"
    by auto
qed

text \<open>A ticket of the natural key means that its creating operation is there.\<close>

lemma created_known:
  assumes inv: "ticket_inv s" and i: "i \<in> set (intents s)" "in_operation i = FIND_OR_CREATE"
    and r: "r \<in> set (tickets s)" "tk_tenant r = in_tenant i" "tk_natural_key r = in_natural_key i"
  shows "find_operation (in_tenant i) (in_key i) s \<noteq> None"
proof
  assume none: "find_operation (in_tenant i) (in_key i) s = None"
  from inv r(1) have "ticket_ok s r" by (simp add: ticket_inv_def tickets_ok_def)
  then obtain q where q: "q \<in> set (operations s)" "op_tenant q = tk_tenant r"
    "op_natural_key q = tk_natural_key r" "op_operation q = FIND_OR_CREATE"
    unfolding ticket_ok_def by blast
  from inv q(1) have "operation_ok s q" by (simp add: ticket_inv_def tickets_ok_def)
  then obtain j where j: "j \<in> set (intents s)" "in_tenant j = op_tenant q" "in_key j = op_key q"
    "in_operation j = op_operation q" "in_natural_key j = op_natural_key q"
    unfolding operation_ok_def by blast
  with intent_unique [OF inv i(1) j(1)] i r q have "i = j" by simp
  with none j q(1) show False by (auto simp: find_operation_def filter_empty_conv)
qed

lemma recorded_inv:
  assumes inv: "ticket_inv s" and i: "i \<in> set (intents s)"
    and none: "find_operation (in_tenant i) (in_key i) s = None" and fits: "ticket_fits r s"
    and r: "tk_tenant r = in_tenant i" "tk_natural_key r = in_natural_key i"
      "tk_operation r = in_operation i"
    and kind: "in_operation i = FIND_OR_CREATE \<and> v = None \<and> tk_version r = 1 \<or>
      in_operation i = WORKFLOW_HANDOFF \<and> v = Some (tk_version r - 1) \<and>
      (\<exists>q\<in>set (operations s). op_tenant q = in_tenant i \<and> op_natural_key q = in_natural_key i \<and>
         op_operation q = FIND_OR_CREATE)"
    and s': "s' = s\<lparr>tickets := tickets s @ [r], operations := operations s @ [new_operation now i v r]\<rparr>"
  shows "ticket_inv s'"
proof -
  let ?q = "new_operation now i v r"
  have q: "op_tenant ?q = in_tenant i" "op_key ?q = in_key i" "op_operation ?q = in_operation i"
    "op_natural_key ?q = in_natural_key i" "op_expected ?q = v" "op_ticket ?q = tk_id r"
    "op_version ?q = tk_version r" "op_sha256 ?q = ticket_sha256 r"
    by (simp_all add: new_operation_def)
  have old: "operation_ok s x \<Longrightarrow> operation_ok s' x" "ticket_ok s y \<Longrightarrow> ticket_ok s' y" for x y
    by (auto simp: operation_ok_def ticket_ok_def s')
  have "operation_ok s' ?q" using i r kind by (auto simp: operation_ok_def s' q)
  moreover have "ticket_ok s' r" using r kind by (auto simp: ticket_ok_def s' q)
  ultimately have "\<forall>x\<in>set (operations s'). operation_ok s' x" "\<forall>y\<in>set (tickets s'). ticket_ok s' y"
    using inv old by (auto simp: s' ticket_inv_def tickets_ok_def)
  moreover from fits inv have
    "distinct (map (\<lambda>r. (tk_tenant r, tk_natural_key r, tk_version r)) (tickets s'))"
    "distinct (map (\<lambda>r. (tk_tenant r, tk_id r, tk_version r)) (tickets s'))"
    by (auto simp: s' ticket_inv_def tickets_ok_def ticket_fits_def ticket_clash_def)
  moreover from none inv have "distinct (map (\<lambda>q. (op_tenant q, op_key q)) (operations s'))"
    by (auto simp: s' q ticket_inv_def tickets_ok_def find_operation_def filter_empty_conv)
  ultimately have "tickets_ok s'" by (simp add: tickets_ok_def)
  with inv show ?thesis by (auto simp: s' ticket_inv_def keys_ok_def intents_ok_def)
qed

lemma executed_inv:
  assumes inv: "ticket_inv s" and i: "i \<in> set (intents s)"
    and run: "execute_intent now i s = (x, s')"
  shows "ticket_inv s'"
proof (cases x)
  case (Inl e)
  with inv run show ?thesis by (auto dest: execute_failed)
next
  case (Inr out)
  with run have "execute_intent now i s = (Inr out, s')" by simp
  then show ?thesis
  proof (cases rule: execute_cases)
    case (joined r)
    then show ?thesis using created_known [OF inv i] latest_ticket_mem by blast
  next
    case created
    with recorded_inv [OF inv i, of "created_ticket now i" None s' now] show ?thesis
      by (simp add: created_ticket_def)
  next
    case (handed r)
    from latest_ticket_mem [OF handed(3)] inv have "ticket_ok s r"
      by (simp add: ticket_inv_def tickets_ok_def)
    with latest_ticket_mem [OF handed(3)] have
      "\<exists>q\<in>set (operations s). op_tenant q = in_tenant i \<and> op_natural_key q = in_natural_key i \<and>
         op_operation q = FIND_OR_CREATE" by (auto simp: ticket_ok_def)
    with handed recorded_inv [OF inv i, of "handed_off_ticket now i r" "Some (tk_version r)" s' now]
    show ?thesis by (simp add: handed_off_ticket_def)
  qed (use inv in auto)
qed

lemma fresh_tables:
  assumes "fresh_journal s"
  shows "activations s = []" "intents s = []" "tickets s = []" "operations s = []" "checkpoints s = []"
    "runs s = []" "commands s = []"
proof -
  from assms have "ledger_db.more s = ledger_db.more empty_journal" by (simp add: fresh_journal_def)
  from more_journal [OF this] show "activations s = []" "intents s = []" "tickets s = []"
    "operations s = []" "checkpoints s = []" "runs s = []" "commands s = []"
    by (simp_all add: empty_journal_def empty_ledger_def ledger_db.defs)
qed

lemma empty_fresh: "fresh_journal empty_journal"
  by (simp add: fresh_journal_def empty_journal_def empty_ledger_def ledger_db.defs)

lemma fresh_inv: "fresh_journal s \<Longrightarrow> ticket_inv s"
  by (simp add: fresh_tables ticket_inv_def keys_ok_def intents_ok_def tickets_ok_def)
    (simp add: fresh_journal_def)

lemma journal_run_inv: "journal_run V s \<Longrightarrow> ticket_inv s"
proof (induction rule: journal_run.induct)
  case (delivered s now p t x s')
  with intake_journal [OF delivered(2)] show ?case by (auto intro: delivered_inv)
next
  case (qq_delivered s now p t x s')
  with intake_qq_journal [OF qq_delivered(2)] show ?case by (auto intro: delivered_inv)
next
  case (rebuilt s u s')
  with keepsD [OF rebuild_frame rebuilt(2)] show ?case
    by (auto intro: delivered_inv simp: same_source_def)
qed (auto intro: fresh_inv activated_inv intended_inv executed_inv
      keeps_ticket_inv [OF checkpoint_frame] keeps_ticket_inv [OF sync_frame]
      keeps_ticket_inv [OF record_frame(1)] keeps_ticket_inv [OF record_frame(2)]
      keeps_ticket_inv [OF record_frame(3)] keeps_ticket_inv [OF record_frame(4)])

end
