(* ===== verification/CheckpointChain.thy ===== *)
theory CheckpointChain
  imports JournalRun
begin

text \<open>
  The checkpoints of a workflow form one hash-bound chain, and its runs follow it state by state, in
  every reachable journal.
\<close>

section \<open>Chains\<close>

text \<open>Every row is related to the one before it.\<close>

fun linked :: "('r option \<Rightarrow> 'r \<Rightarrow> bool) \<Rightarrow> 'r option \<Rightarrow> 'r list \<Rightarrow> bool" where
  "linked P prev [] \<longleftrightarrow> True"
| "linked P prev (r # rs) \<longleftrightarrow> P prev r \<and> linked P (Some r) rs"

definition last_or :: "'r option \<Rightarrow> 'r list \<Rightarrow> 'r option" where
  "last_or prev rs = (if rs = [] then prev else Some (last rs))"

lemma last_or_simps [simp]:
  "last_or prev [] = prev" "last_or prev (rs @ [r]) = Some r"
  "last_or prev (r # rs) = last_or (Some r) rs"
  by (simp_all add: last_or_def)

lemma linked_append [simp]:
  "linked P prev (rs @ qs) \<longleftrightarrow> linked P prev rs \<and> linked P (last_or prev rs) qs"
  by (induction rs arbitrary: prev) auto

lemma linked_weaken:
  "linked P prev rs \<Longrightarrow> (\<And>p r. P p r \<Longrightarrow> Q p r) \<Longrightarrow> linked Q prev rs"
  by (induction rs arbitrary: prev) auto

lemma linked_all: "linked P prev rs \<Longrightarrow> (\<And>p r. P p r \<Longrightarrow> Q r) \<Longrightarrow> r \<in> set rs \<Longrightarrow> Q r"
  by (induction rs arbitrary: prev) auto

definition workflow_runs :: "string \<Rightarrow> string \<Rightarrow> 'a journal_db_scheme \<Rightarrow> run_row list" where
  "workflow_runs t w s =
     sort_key rn_sequence (filter (\<lambda>r. rn_tenant r = t \<and> rn_workflow r = w) (runs s))"

definition next_of :: "checkpoint_row option \<Rightarrow> int" where
  "next_of prev = (case prev of None \<Rightarrow> 1 | Some p \<Rightarrow> cp_sequence p + 1)"

text \<open>What the code promises of a checkpoint and the one before it.\<close>

definition sealed :: "validators \<Rightarrow> checkpoint_row \<Rightarrow> bool" where
  "sealed V r \<longleftrightarrow> (\<exists>p c. cp_pending r = Some p \<and> cp_completed r = Some c \<and>
     set p \<inter> set c = {} \<and>
     cp_sha256 r = checkpoint_hash (checkpoint_fields r p c []) \<and>
     validate_workflow_checkpoint V (checkpoint_fields r p c (cp_sha256 r)) = Inr ())"

definition link_ok ::
  "validators \<Rightarrow> activation_row \<Rightarrow> checkpoint_row option \<Rightarrow> checkpoint_row \<Rightarrow> bool" where
  "link_ok V a prev r \<longleftrightarrow>
     cp_tenant r = ac_tenant a \<and> cp_workflow r = ac_workflow a \<and> cp_case r = ac_case a \<and>
     cp_revision r = ac_revision a \<and> cp_definition r = ac_definition a \<and>
     cp_correlation r = ac_correlation a \<and> cp_deadline r = ac_deadline a \<and>
     cp_sequence r = next_of prev \<and> cp_id r = checkpoint_id (ac_workflow a) (next_of prev) \<and>
     cp_previous r = map_option cp_id prev \<and>
     cp_version r = (case prev of None \<Rightarrow> 0 | Some p \<Rightarrow> cp_version p + 1) \<and>
     (prev = None \<longrightarrow> cp_state r = RECEIVED \<and> cp_resume r = RECEIVED \<and> cp_kind r = None) \<and>
     sealed V r"

text \<open>A run follows the one before it and carries the state of its checkpoint.\<close>

definition runs_follow :: "run_row list \<Rightarrow> string list \<Rightarrow> bool" where
  "runs_follow rs states \<longleftrightarrow> map rn_state rs = states \<and>
     map rn_sequence rs = map int [1..<Suc (length rs)] \<and>
     (\<forall>r\<in>set rs. rn_status r = run_status (rn_state r))"

definition workflow_chain_ok :: "validators \<Rightarrow> activation_row \<Rightarrow> 'a journal_db_scheme \<Rightarrow> bool" where
  "workflow_chain_ok V a s \<longleftrightarrow>
     (let ks = checkpoint_rows (ac_tenant a) (ac_workflow a) s in
      linked (link_ok V a) None ks \<and>
      runs_follow (workflow_runs (ac_tenant a) (ac_workflow a) s) (RECEIVED # map cp_state ks))"

definition chain_inv :: "validators \<Rightarrow> 'a journal_db_scheme \<Rightarrow> bool" where
  "chain_inv V s \<longleftrightarrow>
     (\<forall>a\<in>set (activations s). workflow_chain_ok V a s) \<and>
     (\<forall>r\<in>set (checkpoints s). has_activation (cp_tenant r) (cp_workflow r) s) \<and>
     (\<forall>r\<in>set (runs s). has_activation (rn_tenant r) (rn_workflow r) s) \<and>
     distinct (map (\<lambda>r. (cp_tenant r, cp_id r)) (checkpoints s))"

section \<open>Reading the chain\<close>

lemma link_sequence: "link_ok V a prev r \<Longrightarrow> cp_sequence r = next_of prev"
  by (simp add: link_ok_def)

lemma chain_grows: "linked (link_ok V a) p xs \<Longrightarrow> next_of p \<le> next_of (last_or p xs)"
proof (induction xs arbitrary: p)
  case (Cons y ys)
  then have "link_ok V a p y" "next_of (Some y) \<le> next_of (last_or (Some y) ys)" by auto
  then show ?case by (auto dest: link_sequence simp: next_of_def [of "Some y"])
qed simp

text \<open>Sequence numbers count the rows.\<close>

lemma chain_sequences:
  assumes "linked (link_ok V a) prev rs" and "r \<in> set rs"
  shows "next_of prev \<le> cp_sequence r \<and> cp_sequence r < next_of (last_or prev rs)"
  using assms
proof (induction rs arbitrary: prev)
  case (Cons x xs)
  from Cons.prems have x: "cp_sequence x = next_of prev" "linked (link_ok V a) (Some x) xs"
    by (auto dest: link_sequence)
  show ?case
  proof (cases "r = x")
    case True
    with x chain_grows [OF x(2)] show ?thesis by (simp add: next_of_def)
  next
    case False
    with Cons.prems have "r \<in> set xs" by simp
    from Cons.IH [OF x(2) this] x(1) show ?thesis by (simp add: next_of_def)
  qed
qed simp

definition loaded :: "checkpoint_row \<Rightarrow> checkpoint" where
  "loaded r = \<lparr>ck_row = r, ck_pending = the (cp_pending r), ck_completed = the (cp_completed r)\<rparr>"

lemma loaded_row [simp]: "ck_row (loaded r) = r"
  by (simp add: loaded_def)

lemma load_sealed: "sealed V r \<Longrightarrow> load_checkpoint r = Inr (loaded r)"
  by (auto simp: sealed_def load_checkpoint_def loaded_def)

lemma chain_sealed: "linked (link_ok V a) prev rs \<Longrightarrow> \<forall>r\<in>set rs. sealed V r"
  by (induction rs arbitrary: prev) (auto simp: link_ok_def)

lemma checkpoints_of_chain:
  assumes "workflow_chain_ok V a s"
  shows "checkpoints_of (ac_tenant a) (ac_workflow a) s =
    Inr (map loaded (checkpoint_rows (ac_tenant a) (ac_workflow a) s))"
proof -
  have "\<forall>r\<in>set rs. sealed V r \<Longrightarrow> map_res load_checkpoint rs = Inr (map loaded rs)" for rs
    by (induction rs) (auto simp: load_sealed)
  moreover from assms have "\<forall>r\<in>set (checkpoint_rows (ac_tenant a) (ac_workflow a) s). sealed V r"
    by (intro chain_sealed [of V a None]) (simp add: workflow_chain_ok_def Let_def)
  ultimately show ?thesis by (simp add: checkpoints_of_def)
qed

lemma latest_of_chain:
  assumes "workflow_chain_ok V a s"
  shows "latest_checkpoint (ac_tenant a) (ac_workflow a) s =
    Inr (map_option loaded (last_or None (checkpoint_rows (ac_tenant a) (ac_workflow a) s)))"
  using checkpoints_of_chain [OF assms] by (simp add: latest_checkpoint_def last_or_def last_map)

section \<open>Appending to the chain\<close>

lemma next_index_count:
  assumes "map rn_sequence rs = map int [1..<Suc (length rs)]"
  shows "next_index (map rn_sequence rs) = int (length rs) + 1"
proof (cases rs)
  case (Cons x xs)
  have "set (map rn_sequence rs) = int ` {1..length rs}"
    by (simp only: assms) auto
  moreover from Cons have "Max (int ` {1..length rs}) = int (length rs)"
    by (intro Max_eqI imageI) auto
  ultimately show ?thesis using Cons by (auto simp: next_index_def)
qed (simp add: next_index_def)

lemma next_index_set: "set ns = set ms \<Longrightarrow> next_index ns = next_index ms"
  by (auto simp: next_index_def)

text \<open>The next run of a workflow extends its list.\<close>

lemma runs_follow_snoc:
  assumes "runs_follow (workflow_runs t w s) states"
    and run: "runs s' = runs s @ [new_run t w st reason at (next_index (run_sequences t w s))]"
  shows "runs_follow (workflow_runs t w s') (states @ [st])"
proof -
  let ?rs = "workflow_runs t w s" and ?r = "new_run t w st reason at (next_index (run_sequences t w s))"
  from assms(1) have seq: "map rn_sequence ?rs = map int [1..<Suc (length ?rs)]"
    by (simp add: runs_follow_def)
  have "next_index (run_sequences t w s) = next_index (map rn_sequence ?rs)"
    by (rule next_index_set) (simp add: run_sequences_def workflow_runs_def)
  with next_index_count [OF seq] have n: "rn_sequence ?r = int (length ?rs) + 1"
    by (simp add: new_run_def)
  have le: "rn_sequence x \<le> rn_sequence ?r"
    if "x \<in> set (filter (\<lambda>r. rn_tenant r = t \<and> rn_workflow r = w) (runs s))" for x
  proof -
    from that have "rn_sequence x \<in> set (map rn_sequence ?rs)" by (simp add: workflow_runs_def)
    then show ?thesis unfolding seq n by auto
  qed
  have "filter (\<lambda>r. rn_tenant r = t \<and> rn_workflow r = w) (runs s') =
      filter (\<lambda>r. rn_tenant r = t \<and> rn_workflow r = w) (runs s) @ [?r]"
    unfolding run by (simp add: new_run_def)
  then have "workflow_runs t w s' = ?rs @ [?r]"
    unfolding workflow_runs_def by (simp only: sort_key_snoc [where f = rn_sequence and y = ?r, OF le])
  with assms(1) n show ?thesis
    by (simp add: runs_follow_def new_run_def)
qed

section \<open>Writing a checkpoint\<close>

definition latest_row :: "activation_row \<Rightarrow> 'a journal_db_scheme \<Rightarrow> checkpoint_row option" where
  "latest_row a s = last_or None (checkpoint_rows (ac_tenant a) (ac_workflow a) s)"

lemma next_row_fields:
  "ck_row (next_checkpoint now a prev q) = (unhashed_checkpoint now a prev q)\<lparr>cp_sha256 :=
     checkpoint_hash (checkpoint_fields (unhashed_checkpoint now a prev q)
       (sorted_set (rq_pending q)) (sorted_set (rq_completed q)) [])\<rparr>"
  "ck_pending (next_checkpoint now a prev q) = sorted_set (rq_pending q)"
  "ck_completed (next_checkpoint now a prev q) = sorted_set (rq_completed q)"
  by (simp_all add: next_checkpoint_def Let_def)

lemma loaded_next [simp]: "loaded (ck_row (next_checkpoint now a prev q)) = next_checkpoint now a prev q"
  by (simp add: loaded_def next_checkpoint_def Let_def unhashed_checkpoint_def)

lemma unhashed_pending:
  "cp_pending (unhashed_checkpoint now a prev q) = Some (sorted_set (rq_pending q))"
  "cp_completed (unhashed_checkpoint now a prev q) = Some (sorted_set (rq_completed q))"
  by (simp_all add: unhashed_checkpoint_def Let_def)

lemma next_link_ok:
  assumes "set (rq_pending q) \<inter> set (rq_completed q) = {}"
    and "validate_workflow_checkpoint V (checkpoint_payload (next_checkpoint now a (map_option loaded p) q)) = Inr ()"
    and "p = None \<Longrightarrow> rq_state q = RECEIVED \<and> rq_resume q = RECEIVED \<and> rq_kind q = None"
  shows "link_ok V a p (ck_row (next_checkpoint now a (map_option loaded p) q))"
proof -
  have cong: "checkpoint_fields (r\<lparr>cp_sha256 := h\<rparr>) = checkpoint_fields r" for r h
    by (intro ext) (simp add: checkpoint_fields_def)
  let ?k = "next_checkpoint now a (map_option loaded p) q"
  have "sealed V (ck_row ?k)"
    using assms(1,2) unfolding sealed_def checkpoint_payload_def next_row_fields cong
    by (intro exI [of _ "sorted_set (rq_pending q)"] exI [of _ "sorted_set (rq_completed q)"])
      (simp add: unhashed_pending)
  with assms(3) show ?thesis
    by (cases p)
      (auto simp: link_ok_def next_row_fields(1) unhashed_checkpoint_def next_of_def Let_def)
qed

lemma write_failed: "write_checkpoint V k s = (Inl e, s') \<Longrightarrow> s' = s"
  unfolding write_checkpoint_def append_checkpoint_def Let_def
  by (auto simp: lift_res_eq_Inr elim!: bind_Inl_cases dest: engine_tx_failed)

lemma ensure_checkpoint_failed: "ensure_checkpoint V now a q s = (Inl e, s') \<Longrightarrow> s' = s"
  unfolding ensure_checkpoint_def
  by (auto elim!: bind_Inl_cases simp: bind_eq_Inr lift_res_eq_Inr split: option.splits if_splits)
    (erule write_failed)+

lemma untaken:
  assumes "workflow_chain_ok V a s" and "cp_tenant r = ac_tenant a" "cp_workflow r = ac_workflow a"
    and "cp_sequence r = next_of (latest_row a s)"
  shows "taken_sequence r s = None"
proof -
  have "cp_sequence x \<noteq> cp_sequence r"
    if "x \<in> set (checkpoints s)" "cp_tenant x = ac_tenant a" "cp_workflow x = ac_workflow a" for x
  proof -
    from that have "x \<in> set (checkpoint_rows (ac_tenant a) (ac_workflow a) s)"
      by (simp add: checkpoint_rows_def)
    with assms(1) have "cp_sequence x < next_of (latest_row a s)"
      using chain_sequences by (fastforce simp: workflow_chain_ok_def latest_row_def Let_def)
    with assms(4) show ?thesis by simp
  qed
  with assms(2,3) show ?thesis by (auto simp: taken_sequence_def filter_empty_conv)
qed

definition appended_checkpoint :: "checkpoint_row \<Rightarrow> 'a journal_db_scheme \<Rightarrow> 'a journal_db_scheme" where
  "appended_checkpoint r s = s\<lparr>checkpoints := checkpoints s @ [r],
     runs := runs s @ [new_run (cp_tenant r) (cp_workflow r) (cp_state r)
       (checkpoint_reason (cp_kind r)) (cp_created_at r)
       (next_index (run_sequences (cp_tenant r) (cp_workflow r) s))]\<rparr>"

lemma write_checkpoint_ok:
  assumes chain: "workflow_chain_ok V a s"
    and k: "cp_tenant (ck_row k) = ac_tenant a" "cp_workflow (ck_row k) = ac_workflow a"
      "cp_sequence (ck_row k) = next_of (latest_row a s)"
    and run: "write_checkpoint V k s = (Inr k', s')"
  shows "k' = k \<and> s' = appended_checkpoint (ck_row k) s \<and>
    validate_workflow_checkpoint V (checkpoint_payload k) = Inr () \<and>
    (\<forall>x\<in>set (checkpoints s). \<not> checkpoint_clash (ck_row k) x)"
  using run untaken [OF chain k]
  by (auto simp: write_checkpoint_def append_checkpoint_def bind_eq_Inr lift_res_eq_Inr Let_def
      insert_run_def insert_journal_ok appended_checkpoint_def run_sequences_def)

lemma ensure_checkpoint_cases [consumes 2, case_names same appended]:
  assumes chain: "workflow_chain_ok V a s" and run: "ensure_checkpoint V now a q s = (Inr k, s')"
  obtains "s' = s" "latest_row a s = Some (ck_row k)" "k = loaded (ck_row k)" "same_checkpoint q k"
  | "k = next_checkpoint now a (map_option loaded (latest_row a s)) q"
    "s' = appended_checkpoint (ck_row k) s" "link_ok V a (latest_row a s) (ck_row k)"
    "\<forall>x\<in>set (checkpoints s). \<not> checkpoint_clash (ck_row k) x"
proof -
  let ?p = "latest_row a s"
  have latest: "latest_checkpoint (ac_tenant a) (ac_workflow a) s = Inr (map_option loaded ?p)"
    using latest_of_chain [OF chain] by (simp add: latest_row_def)
  let ?k = "next_checkpoint now a (map_option loaded ?p) q"
  have fits: "cp_tenant (ck_row ?k) = ac_tenant a" "cp_workflow (ck_row ?k) = ac_workflow a"
    "cp_sequence (ck_row ?k) = next_of ?p"
    by (cases ?p; simp add: next_row_fields(1) unhashed_checkpoint_def next_of_def Let_def)+
  from run latest have dis: "set (rq_pending q) \<inter> set (rq_completed q) = {}"
    by (simp add: ensure_checkpoint_def bind_eq_Inr lift_res_eq_Inr)
  show thesis
  proof (cases "\<exists>r. ?p = Some r \<and> same_checkpoint q (loaded r)")
    case True
    then obtain r where r: "?p = Some r" "same_checkpoint q (loaded r)" by blast
    with run latest dis have "k = loaded r" "s' = s"
      by (simp_all add: ensure_checkpoint_def bind_eq_Inr lift_res_eq_Inr)
    with r that(1) show ?thesis by simp
  next
    case False
    with run latest have w: "write_checkpoint V ?k s = (Inr k, s')"
      "?p = None \<Longrightarrow> rq_state q = RECEIVED \<and> rq_resume q = RECEIVED \<and> rq_kind q = None"
      by (auto simp: ensure_checkpoint_def bind_eq_Inr lift_res_eq_Inr split: option.splits)
    from write_checkpoint_ok [OF chain fits w(1)] next_link_ok [OF dis _ w(2)] that(2)
    show ?thesis by auto
  qed
qed

section \<open>Every reachable journal\<close>

lemma rows_appended:
  assumes "workflow_chain_ok V a s" and "link_ok V a (latest_row a s) r"
    and "checkpoints s' = checkpoints s @ [r]"
  shows "checkpoint_rows (ac_tenant a) (ac_workflow a) s' =
    checkpoint_rows (ac_tenant a) (ac_workflow a) s @ [r]"
proof -
  let ?rows = "filter (\<lambda>r. cp_tenant r = ac_tenant a \<and> cp_workflow r = ac_workflow a) (checkpoints s)"
  from assms(2) have r: "cp_tenant r = ac_tenant a" "cp_workflow r = ac_workflow a"
    "cp_sequence r = next_of (latest_row a s)" by (simp_all add: link_ok_def)
  have le: "cp_sequence x \<le> cp_sequence r" if "x \<in> set ?rows" for x
  proof -
    from that have "x \<in> set (checkpoint_rows (ac_tenant a) (ac_workflow a) s)"
      by (simp add: checkpoint_rows_def)
    with assms(1) have "cp_sequence x < next_of (latest_row a s)"
      using chain_sequences by (fastforce simp: workflow_chain_ok_def latest_row_def Let_def)
    with r show ?thesis by simp
  qed
  have "filter (\<lambda>r. cp_tenant r = ac_tenant a \<and> cp_workflow r = ac_workflow a) (checkpoints s') =
      ?rows @ [r]" using r assms(3) by simp
  then show ?thesis
    unfolding checkpoint_rows_def by (simp only: sort_key_snoc [where f = cp_sequence and y = r, OF le])
qed

lemma appended_chain_ok:
  assumes "workflow_chain_ok V a s" and "link_ok V a (latest_row a s) r"
  shows "workflow_chain_ok V a (appended_checkpoint r s)"
proof -
  from assms(2) have r: "cp_tenant r = ac_tenant a" "cp_workflow r = ac_workflow a"
    by (simp_all add: link_ok_def)
  have "checkpoint_rows (ac_tenant a) (ac_workflow a) (appended_checkpoint r s) =
      checkpoint_rows (ac_tenant a) (ac_workflow a) s @ [r]"
    by (rule rows_appended [OF assms]) (simp add: appended_checkpoint_def)
  moreover have "runs_follow (workflow_runs (ac_tenant a) (ac_workflow a) (appended_checkpoint r s))
      ((RECEIVED # map cp_state (checkpoint_rows (ac_tenant a) (ac_workflow a) s)) @ [cp_state r])"
    by (rule runs_follow_snoc [where s = s and reason = "checkpoint_reason (cp_kind r)" and at = "cp_created_at r"])
      (use assms(1) in \<open>simp_all add: workflow_chain_ok_def Let_def appended_checkpoint_def r\<close>)
  ultimately show ?thesis
    using assms by (simp add: workflow_chain_ok_def Let_def latest_row_def)
qed

text \<open>A workflow whose rows did not change is as it was.\<close>

lemma chain_ok_cong:
  assumes "workflow_chain_ok V a s"
    and "filter (\<lambda>r. cp_tenant r = ac_tenant a \<and> cp_workflow r = ac_workflow a) (checkpoints s') =
      filter (\<lambda>r. cp_tenant r = ac_tenant a \<and> cp_workflow r = ac_workflow a) (checkpoints s)"
    and "filter (\<lambda>r. rn_tenant r = ac_tenant a \<and> rn_workflow r = ac_workflow a) (runs s') =
      filter (\<lambda>r. rn_tenant r = ac_tenant a \<and> rn_workflow r = ac_workflow a) (runs s)"
  shows "workflow_chain_ok V a s'"
  using assms by (simp add: workflow_chain_ok_def workflow_runs_def checkpoint_rows_def)

lemma new_run_fields [simp]:
  "rn_tenant (new_run t w st reason at n) = t" "rn_workflow (new_run t w st reason at n) = w"
  by (simp_all add: new_run_def)

lemma chain_ok_other:
  assumes "workflow_chain_ok V b s" and "ac_tenant b \<noteq> t \<or> ac_workflow b \<noteq> w"
    and "checkpoints s' = checkpoints s @ ks" "runs s' = runs s @ rs"
    and "\<And>k. k \<in> set ks \<Longrightarrow> cp_tenant k = t \<and> cp_workflow k = w"
    and "\<And>r. r \<in> set rs \<Longrightarrow> rn_tenant r = t \<and> rn_workflow r = w"
  shows "workflow_chain_ok V b s'"
proof (rule chain_ok_cong [OF assms(1)])
  show "filter (\<lambda>r. cp_tenant r = ac_tenant b \<and> cp_workflow r = ac_workflow b) (checkpoints s') =
      filter (\<lambda>r. cp_tenant r = ac_tenant b \<and> cp_workflow r = ac_workflow b) (checkpoints s)"
    unfolding assms(3) using assms(2,5) by (fastforce simp: filter_empty_conv)
  show "filter (\<lambda>r. rn_tenant r = ac_tenant b \<and> rn_workflow r = ac_workflow b) (runs s') =
      filter (\<lambda>r. rn_tenant r = ac_tenant b \<and> rn_workflow r = ac_workflow b) (runs s)"
    unfolding assms(4) using assms(2,6) by (fastforce simp: filter_empty_conv)
qed

lemma has_activation_cong: "activations s' = activations s \<Longrightarrow> has_activation t w s' = has_activation t w s"
  by (simp add: has_activation_def)

lemma checkpointed_chain:
  assumes inv: "chain_inv V s" "keys_ok s" and a: "a \<in> set (activations s)"
    and run: "ensure_checkpoint V now a q s = (x, s')"
  shows "chain_inv V s'"
proof (cases x)
  case (Inl e)
  with inv run show ?thesis by (auto dest: ensure_checkpoint_failed)
next
  case (Inr k)
  from inv a have chain: "workflow_chain_ok V a s" by (simp add: chain_inv_def)
  from run Inr have "ensure_checkpoint V now a q s = (Inr k, s')" by simp
  with chain show ?thesis
  proof (cases rule: ensure_checkpoint_cases)
    case appended
    let ?r = "ck_row k"
    from appended(3) have r: "cp_tenant ?r = ac_tenant a" "cp_workflow ?r = ac_workflow a"
      by (simp_all add: link_ok_def)
    have "workflow_chain_ok V b s'" if b: "b \<in> set (activations s)" for b
    proof (cases "b = a")
      case True
      with appended_chain_ok [OF chain appended(3)] appended(2) show ?thesis by simp
    next
      case False
      with inv(2) a b have "ac_tenant b \<noteq> ac_tenant a \<or> ac_workflow b \<noteq> ac_workflow a"
        by (auto simp: keys_ok_def activation_clash_def)
      moreover from inv(1) b have "workflow_chain_ok V b s" by (simp add: chain_inv_def)
      ultimately show ?thesis
        by (rule_tac chain_ok_other [of V b s "ac_tenant a" "ac_workflow a" s' "[?r]"])
          (auto simp: appended(2) appended_checkpoint_def r)
    qed
    moreover have "distinct (map (\<lambda>r. (cp_tenant r, cp_id r)) (checkpoints s @ [?r]))"
      using inv(1) appended(4) by (auto simp: chain_inv_def checkpoint_clash_def)
    moreover from a r have has: "has_activation (cp_tenant ?r) (cp_workflow ?r) s"
      by (auto simp: has_activation_def list_ex_iff)
    moreover have s': "activations s' = activations s" "checkpoints s' = checkpoints s @ [?r]"
      by (simp_all add: appended(2) appended_checkpoint_def)
    moreover have "\<forall>x\<in>set (runs s'). has_activation (rn_tenant x) (rn_workflow x) s"
      using inv(1) has by (auto simp: chain_inv_def appended(2) appended_checkpoint_def new_run_def)
    ultimately show ?thesis
      using inv(1) unfolding chain_inv_def has_activation_cong [OF s'(1)] s' by simp
  qed (use inv in simp)
qed

lemma activated_chain:
  assumes inv: "chain_inv V s" "keys_ok s" and run: "activate_case V now t c r given s = (y, s')"
  shows "chain_inv V s'"
proof (cases y)
  case (Inl e)
  with inv run show ?thesis by (auto dest: activate_failed)
next
  case (Inr y')
  with run have "activate_case V now t c r given s = (Inr y', s')" by simp
  from activate_ok [OF this] show ?thesis
  proof (elim disjE exE conjE)
    fix a rn p rv
    assume a: "ac_tenant a = t" "\<forall>x\<in>set (activations s). \<not> activation_clash a x"
      "rn = new_run t (ac_workflow a) RECEIVED ''activated'' (timestamp now)
        (next_index (run_sequences t (ac_workflow a) s))"
      and s': "s' = s\<lparr>activations := activations s @ [a], runs := runs s @ [rn]\<rparr>"
    have other: "ac_tenant x \<noteq> t \<or> ac_workflow x \<noteq> ac_workflow a" if "x \<in> set (activations s)" for x
      using a that by (auto simp: activation_clash_def)
    then have none: "filter (\<lambda>r. cp_tenant r = t \<and> cp_workflow r = ac_workflow a) (checkpoints s) = []"
      "filter (\<lambda>r. rn_tenant r = t \<and> rn_workflow r = ac_workflow a) (runs s) = []"
      using inv(1) by (auto simp: chain_inv_def filter_empty_conv has_activation_def list_ex_iff)
    have "runs_follow (workflow_runs t (ac_workflow a) s') ([] @ [RECEIVED])"
      by (rule runs_follow_snoc [where s = s and reason = "''activated''" and at = "timestamp now"])
        (simp_all add: runs_follow_def workflow_runs_def none s' a(3))
    then have "workflow_chain_ok V a s'"
      using none a(1) by (simp add: workflow_chain_ok_def checkpoint_rows_def s' Let_def)
    moreover have "workflow_chain_ok V b s'" if b: "b \<in> set (activations s)" for b
      by (rule chain_ok_other [of V b s t "ac_workflow a" s' "[]" "[rn]"])
        (use other [OF b] inv(1) b in \<open>simp_all add: chain_inv_def s' a(3)\<close>)
    moreover have mono: "has_activation t w s \<Longrightarrow> has_activation t w s'" for t w
      by (simp add: has_activation_def s')
    moreover have "has_activation t (ac_workflow a) s'" by (simp add: has_activation_def s' a(1))
    moreover have "activations s' = activations s @ [a]" "checkpoints s' = checkpoints s"
      "runs s' = runs s @ [rn]" "rn_tenant rn = t" "rn_workflow rn = ac_workflow a"
      by (simp_all add: s' a(3) new_run_def)
    ultimately show ?thesis
      using inv(1) unfolding chain_inv_def by simp
  qed (use inv in simp)
qed

text \<open>The operations that write neither activations, runs nor checkpoints.\<close>

definition same_chain :: "'a journal_db_scheme \<Rightarrow> 'a journal_db_scheme \<Rightarrow> bool" where
  "same_chain s s' \<longleftrightarrow> activations s' = activations s \<and> runs s' = runs s \<and> checkpoints s' = checkpoints s"

interpretation chain_frame: store_order same_chain
  by unfold_locales (simp_all add: same_chain_def)

lemma same_chain_inv: "same_chain s s' \<Longrightarrow> chain_inv V s \<Longrightarrow> chain_inv V s'"
  by (simp add: same_chain_def chain_inv_def workflow_chain_ok_def checkpoint_rows_def
      workflow_runs_def has_activation_def)

lemma insert_chain_frame [intro]:
  "keeps same_chain (insert_command c)" "keeps same_chain (insert_sla l)"
  "keeps same_chain (insert_intent i)" "keeps same_chain (insert_observation b)"
  "keeps same_chain (insert_completion p)" "keeps same_chain (insert_ticket r)"
  "keeps same_chain (insert_operation q)"
  unfolding insert_command_def insert_sla_def insert_intent_def insert_observation_def
    insert_completion_def insert_ticket_def insert_operation_def
  by (auto intro!: chain_frame.keeps_modify simp: same_chain_def)

lemma engine_tx_chain_frame [intro]: "keeps same_chain m \<Longrightarrow> keeps same_chain (engine_tx r m)"
  by (auto simp: engine_tx_def)

lemma sync_chain_frame [intro]: "keeps same_chain (sync_case_state V a k)"
proof -
  have "keeps same_chain (append_workflow_state_event V f)" for f
    by (rule keepsI) (auto dest!: append_event_part more_journal simp: same_chain_def)
  then show ?thesis
    unfolding sync_case_state_def
    by (intro chain_frame.keeps_bind chain_frame.keeps_option chain_frame.keeps_if) auto
qed

lemma execute_chain_frame [intro]: "keeps same_chain (execute_intent now i)"
proof -
  have rec: "keeps same_chain (record_operation now i r)" for r
    unfolding record_operation_def by (intro chain_frame.keeps_bind) auto
  then have "keeps same_chain (find_or_create now i l)" "keeps same_chain (hand_off now i l)" for l
    unfolding find_or_create_def hand_off_def Let_def
    by (intro chain_frame.keeps_bind chain_frame.keeps_option chain_frame.keeps_if rec; auto)+
  then show ?thesis
    unfolding execute_intent_def
    by (intro engine_tx_chain_frame chain_frame.keeps_bind chain_frame.keeps_option chain_frame.keeps_if) auto
qed

lemma record_chain_frame [intro]:
  "keeps same_chain (ensure_intent V now a k op)"
  "keeps same_chain (record_observation V now i phase out)"
  "keeps same_chain (record_completion V now i ob)"
  "keeps same_chain (record_sla_expiry now a k)"
  "keeps same_chain (persist_command V a k c)"
  unfolding ensure_intent_def persist_intent_def record_observation_def persist_observation_def
    record_completion_def persist_completion_def record_sla_expiry_def persist_command_def Let_def
  by (intro engine_tx_chain_frame chain_frame.keeps_bind chain_frame.keeps_option; auto)+

lemma keeps_chain_inv:
  "keeps same_chain m \<Longrightarrow> chain_inv V s \<Longrightarrow> m s = (x, s') \<Longrightarrow> chain_inv V s'"
  using same_chain_inv by (blast dest: keepsD)

lemma same_more_chain:
  "ledger_db.more s' = ledger_db.more s \<Longrightarrow> chain_inv V s \<Longrightarrow> chain_inv V s'"
  by (rule same_chain_inv) (auto dest: more_journal simp: same_chain_def)

lemma journal_run_chain: "journal_run V s \<Longrightarrow> chain_inv V s"
proof (induction rule: journal_run.induct)
  case (opened s)
  then show ?case by (simp add: fresh_tables chain_inv_def)
next
  case (delivered s now p t x s')
  with intake_journal [OF delivered(2)] show ?case by (auto intro: same_more_chain)
next
  case (qq_delivered s now p t x s')
  with intake_qq_journal [OF qq_delivered(2)] show ?case by (auto intro: same_more_chain)
next
  case (rebuilt s u s')
  with keepsD [OF rebuild_frame rebuilt(2)] show ?case
    by (auto intro: same_more_chain simp: same_source_def)
next
  case (activated s now t c r given y s')
  then show ?case
    using activated_chain [of V s] journal_run_inv [of V s] by (auto simp: ticket_inv_def)
next
  case (checkpointed s a now q k s')
  then show ?case
    using checkpointed_chain [of V s] journal_run_inv [of V s] by (auto simp: ticket_inv_def)
qed (blast intro: keeps_chain_inv sync_chain_frame execute_chain_frame record_chain_frame)+

section \<open>Completions belong to intents\<close>

definition completions_ok :: "'a journal_db_scheme \<Rightarrow> bool" where
  "completions_ok s \<longleftrightarrow> (\<forall>c\<in>set (completions s). \<exists>i\<in>set (intents s).
     in_tenant i = co_tenant c \<and> in_workflow i = co_workflow c \<and> in_id i = co_intent c)"

lemma keeps_completions_ok:
  "keeps same_completions m \<Longrightarrow> completions_ok s \<Longrightarrow> m s = (x, s') \<Longrightarrow> completions_ok s'"
  by (drule (1) keepsD)
    (fastforce simp: completions_ok_def same_completions_def dest: set_mono_prefix)

lemma same_more_completions:
  "ledger_db.more s' = ledger_db.more s \<Longrightarrow> completions_ok s \<Longrightarrow> completions_ok s'"
  by (cases s; cases s') (simp add: completions_ok_def)

lemma completed_ok:
  assumes "completions_ok s" and "i \<in> set (intents s)" and "record_completion V now i ob s = (x, s')"
  shows "completions_ok s'"
proof (cases x)
  case (Inl e)
  with assms show ?thesis by (auto dest: record_completion_failed)
next
  case (Inr c)
  with assms(3) have "record_completion V now i ob s = (Inr c, s')" by simp
  from record_completion_ok [OF this] assms(1,2) show ?thesis
    by (auto simp: completions_ok_def dest!: completion_of_ok) (auto simp: new_completion_def)
qed

lemma fresh_completions: "fresh_journal s \<Longrightarrow> completions s = []"
  by (cases s) (simp add: fresh_journal_def empty_journal_def empty_ledger_def ledger_db.defs)

lemma journal_run_completions: "journal_run V s \<Longrightarrow> completions_ok s"
proof (induction rule: journal_run.induct)
  case (opened s)
  then show ?case by (simp add: fresh_completions completions_ok_def)
next
  case (delivered s now p t x s')
  with intake_journal [OF delivered(2)] show ?case by (auto intro: same_more_completions)
next
  case (qq_delivered s now p t x s')
  with intake_qq_journal [OF qq_delivered(2)] show ?case by (auto intro: same_more_completions)
next
  case (rebuilt s u s')
  with keepsD [OF rebuild_frame rebuilt(2)] show ?case
    by (auto intro: same_more_completions simp: same_source_def)
next
  case (completed s i now obs cm s')
  then show ?case by (blast intro: completed_ok)
qed (blast intro: keeps_completions_ok completion_frame.keeps_activate
    completion_frame.keeps_checkpoint(4) completion_frame.keeps_sync
    completion_frame.keeps_ensure_intent completion_frame.keeps_execute
    completion_frame.keeps_record_observation completion_frame.keeps_sla
    completion_frame.keeps_persist_command)+

end
