(* ===== verification/EngineRuns.thy ===== *)
theory EngineRuns
  imports JournalRun
begin

text \<open>
  The operations the engine composes (the effect protocol, \<open>_drive_effect\<close>, the transitions, the
  commands and their recovery) only make the atomic writes of a journal run, whatever their outcome.
\<close>

definition has_act :: "activation_row \<Rightarrow> journal_db \<Rightarrow> bool" where
  "has_act a s \<longleftrightarrow> a \<in> set (activations s)"

definition has_int :: "activation_row \<Rightarrow> intent_row \<Rightarrow> journal_db \<Rightarrow> bool" where
  "has_int a i s \<longleftrightarrow> a \<in> set (activations s) \<and> i \<in> set (intents s)"

lemma has_act_grows: "journal_le s s' \<Longrightarrow> has_act a s \<Longrightarrow> has_act a s'"
  by (auto simp: journal_le_def has_act_def dest: set_mono_prefix)

lemma has_int_grows: "journal_le s s' \<Longrightarrow> has_int a i s \<Longrightarrow> has_int a i s'"
  by (auto simp: journal_le_def has_int_def dest: set_mono_prefix)

lemma act_triple:
  assumes "keeps journal_le m"
    and "\<And>s x s'. journal_run V s \<Longrightarrow> has_act a s \<Longrightarrow> m s = (x, s') \<Longrightarrow> journal_run V s'"
  shows "triple (journal_run V) (has_act a) m (\<lambda>_. has_act a)"
proof (rule tripleI)
  fix s x s'
  assume "journal_run V s" "has_act a s" "m s = (x, s')"
  then show "journal_run V s'" by (rule assms(2))
next
  fix s v s'
  assume "has_act a s" "m s = (Inr v, s')"
  then show "has_act a s'" using has_act_grows [OF keepsD [OF assms(1)]] by simp
qed

lemma int_triple:
  assumes "keeps journal_le m"
    and "\<And>s x s'. journal_run V s \<Longrightarrow> has_int a i s \<Longrightarrow> m s = (x, s') \<Longrightarrow> journal_run V s'"
  shows "triple (journal_run V) (has_int a i) m (\<lambda>_. has_int a i)"
proof (rule tripleI)
  fix s x s'
  assume "journal_run V s" "has_int a i s" "m s = (x, s')"
  then show "journal_run V s'" by (rule assms(2))
next
  fix s v s'
  assume "has_int a i s" "m s = (Inr v, s')"
  then show "has_int a i s'" using has_int_grows [OF keepsD [OF assms(1)]] by simp
qed

lemma interrupt_triple: "triple J P (interrupt fp p) (\<lambda>_. P)"
  by (auto simp: triple_def interrupt_def split: option.splits if_splits)

section \<open>Atomic writes\<close>

lemma atomic_triples:
  "triple (journal_run V) (has_act a) (ensure_checkpoint V now a q) (\<lambda>_. has_act a)"
  "triple (journal_run V) (has_act a) (sync_case_state V a k) (\<lambda>_. has_act a)"
  "triple (journal_run V) (has_act a) (record_sla_expiry now a k) (\<lambda>_. has_act a)"
  "triple (journal_run V) (has_act a) (persist_command V a k c) (\<lambda>_. has_act a)"
  by (rule act_triple; auto simp: has_act_def intro: journal_run.intros)+

lemma effect_triples:
  "triple (journal_run V) (has_int a i) (execute_intent now i) (\<lambda>_. has_int a i)"
  "triple (journal_run V) (has_int a i) (record_observation V now i phase out) (\<lambda>_. has_int a i)"
  "triple (journal_run V) (has_int a i) (record_completion V now i ob) (\<lambda>_. has_int a i)"
  by (rule int_triple; auto simp: has_int_def intro: journal_run.intros)+

lemma intent_triple:
  "triple (journal_run V) (has_act a) (ensure_intent V now a k op) (\<lambda>ib. has_int a (fst ib))"
proof (rule tripleI)
  fix s x s'
  assume s: "journal_run V s" "has_act a s" "ensure_intent V now a k op s = (x, s')"
  then show "journal_run V s'" by (auto simp: has_act_def intro: journal_run.intros)
next
  fix s v s'
  assume s: "has_act a s" "ensure_intent V now a k op s = (Inr v, s')"
  then have "ensure_intent V now a k op s = (Inr (fst v, snd v), s')" by simp
  from ensure_intent_ok [OF this] have "fst v \<in> set (intents s')"
    by (auto simp: find_intent_def dest: first_row_filterD)
  moreover have "has_act a s'"
    using s has_act_grows keepsD [OF journal.keeps_ensure_intent] by blast
  ultimately show "has_int a (fst v) s'" by (simp add: has_int_def has_act_def)
qed

section \<open>Compositions\<close>

lemma process_triple:
  "triple (journal_run V) (has_int a i) (process_intent V now fp i) (\<lambda>_. has_int a i)"
proof -
  let ?J = "journal_run V" and ?P = "has_int a i"
  have c: "triple ?J ?P (complete_intent V now fp i ob) (\<lambda>_. ?P)" for ob
    unfolding complete_intent_def
    by (intro triple_bind [where Q = "\<lambda>_. ?P"] interrupt_triple effect_triples triple_pure(1))
  have e: "triple ?J ?P (execute_and_complete V now fp i) (\<lambda>_. ?P)"
    unfolding execute_and_complete_def
    by (intro triple_bind [where Q = "\<lambda>_. ?P"] triple_cases(1) interrupt_triple effect_triples
        triple_pure(1) c)
  show ?thesis
    unfolding process_intent_def
    by (intro triple_bind [where Q = "\<lambda>_. ?P"] triple_cases(1,2) interrupt_triple effect_triples
        triple_pure c e)
qed

lemma process_act_triple:
  "triple (journal_run V) (has_int a i) (process_intent V now fp i) (\<lambda>_. has_act a)"
  by (rule triple_weaken [OF process_triple]) (auto simp: has_int_def has_act_def)

lemma transition_triple:
  "triple (journal_run V) (has_act a) (workflow_transition V now fp a k m) (\<lambda>_. has_act a)"
  unfolding workflow_transition_def
  by (intro triple_bind [where Q = "\<lambda>_. has_act a"] atomic_triples interrupt_triple triple_pure)

lemma reconciliation_triple:
  "triple (journal_run V) (has_act a) (enter_reconciliation V now fp a k c) (\<lambda>_. has_act a)"
  unfolding enter_reconciliation_def
  by (intro triple_bind [where Q = "\<lambda>_. has_act a"] triple_cases(1) transition_triple triple_pure)

lemma progress_triple:
  "triple (journal_run V) (has_act a) (progress_checkpoint V now fp a k c) (\<lambda>_. has_act a)"
  unfolding progress_checkpoint_def
  by (intro triple_bind [where Q = "\<lambda>_. has_act a"] triple_cases(1) atomic_triples
      interrupt_triple triple_pure)

lemma has_int_triple:
  assumes "keeps journal_le m" and "triple (journal_run V) (has_act a) m (\<lambda>_. has_act a)"
  shows "triple (journal_run V) (has_int a i) m (\<lambda>_. has_int a i)"
  by (rule int_triple [OF assms(1)]) (auto simp: has_int_def has_act_def dest: tripleD [OF assms(2)])

lemma drive_triple:
  "triple (journal_run V) (has_act a) (drive_effect V now fp a k op) (\<lambda>_. has_act a)"
  unfolding drive_effect_def
proof (rule triple_bind [OF intent_triple], goal_cases)
  case (1 ib)
  obtain i b where ib: "ib = (i, b)" by fastforce
  have p: "triple (journal_run V) (has_int a i) (progress_checkpoint V now fp a k c) (\<lambda>_. has_int a i)" for c
    by (rule has_int_triple [OF journal.keeps_progress progress_triple])
  show ?case
    unfolding ib split fst_conv
    by (intro triple_bind [OF _ triple_bind [OF p triple_bind [OF process_act_triple]]]
        triple_bind [where Q = "\<lambda>_. has_act a"] triple_cases(1,2) interrupt_triple
        reconciliation_triple progress_triple triple_pure)
qed

lemma handoff_triple:
  "triple (journal_run V) (has_act a) (ticket_handoff V now fp a k) (\<lambda>_. has_act a)"
  unfolding ticket_handoff_def
  by (intro triple_bind [where Q = "\<lambda>_. has_act a"] triple_cases(1,3) drive_triple
      transition_triple triple_pure)

end
