(* ===== verification/EffectRecovery.thy ===== *)
theory EffectRecovery
  imports EffectLog
begin

text \<open>
  Recovery of one effect: a run of the protocol interrupted at any of its durable boundaries leaves
  a journal from which the next run reaches the effect an uninterrupted run has, up to the times
  written.  Observation and completion identifiers are truncated SHA-256 digests; the only other
  outcome is that a row of another content is stored under the identifier the recovery needs.
\<close>

section \<open>Effects up to time\<close>

definition effects :: "'a journal_db_scheme \<Rightarrow> ticket_row list \<times> operation_row list" where
  "effects s = (map (\<lambda>r. r\<lparr>tk_created_at := []\<rparr>) (tickets s),
                map (\<lambda>r. r\<lparr>op_created_at := []\<rparr>) (operations s))"

definition digest_taken :: "intent_row \<Rightarrow> 'a journal_db_scheme \<Rightarrow> bool" where
  "digest_taken i s \<longleftrightarrow>
     (\<exists>now phase out. \<exists>ob\<in>set (observations s). ob_tenant ob = in_tenant i \<and>
        ob_id ob = observation_id i phase out \<and> \<not> same_observation ob (new_observation now i phase out)) \<or>
     (\<exists>now oid t v h. \<exists>c\<in>set (completions s). co_tenant c = in_tenant i \<and>
        co_id c = co_id (new_completion now i oid t v h) \<and> co_intent c \<noteq> in_id i)"

definition effect_schemas_accept :: "validators \<Rightarrow> bool" where
  "effect_schemas_accept V \<longleftrightarrow>
     V SIDE_EFFECT_OBSERVATION_SCHEMA_ID = Some (\<lambda>_. None) \<and>
     V SIDE_EFFECT_COMPLETION_SCHEMA_ID = Some (\<lambda>_. None)"

lemma accepted_payloads:
  assumes "effect_schemas_accept V"
  shows "validate_side_effect_observation V (observation_payload ob) = Inr ()"
    and "validate_side_effect_completion V (completion_payload c) = Inr ()"
  using assms
  by (auto simp: effect_schemas_accept_def validate_side_effect_observation_def
      validate_side_effect_completion_def observation_payload_def completion_payload_def
      require_schema_def validate_payload_accepting)

lemma effects_simps [simp]:
  "effects (s\<lparr>observations := obs\<rparr>) = effects s" "effects (s\<lparr>completions := cs\<rparr>) = effects s"
  by (simp_all add: effects_def)

section \<open>The provider outcome does not depend on the time\<close>

lemma created_time: "created_ticket now i = (created_ticket now' i)\<lparr>tk_created_at := timestamp now\<rparr>"
  by (simp add: created_ticket_def)

lemma handed_time: "handed_off_ticket now i r = (handed_off_ticket now' i r)\<lparr>tk_created_at := timestamp now\<rparr>"
  by (simp add: handed_off_ticket_def)

lemma fits_time [simp]:
  "ticket_fits (r\<lparr>tk_created_at := x\<rparr>) s = ticket_fits r s"
  "ticket_fits r (s\<lparr>observations := obs\<rparr>) = ticket_fits r s"
  by (simp_all add: ticket_fits_def ticket_clash_def)

lemma outcome_time [simp]:
  "outcome_from_revision (r\<lparr>tk_created_at := x\<rparr>) = outcome_from_revision r"
  by (simp add: outcome_from_revision_def ticket_sha256_def)

lemma outcome_recorded [simp]:
  "outcome_from_operation (new_operation now i v r) = outcome_from_revision r"
  by (simp add: outcome_from_operation_def outcome_from_revision_def new_operation_def)

lemma outcome_present [simp]:
  "to_status (outcome_from_revision r) = ''present''" "to_status (outcome_from_operation q) = ''present''"
  by (simp_all add: outcome_from_revision_def outcome_from_operation_def)

lemma reads_stable [simp]:
  "find_operation t key (s\<lparr>observations := obs\<rparr>) = find_operation t key s"
  "latest_ticket t key (s\<lparr>observations := obs\<rparr>) = latest_ticket t key s"
  by (simp_all add: find_operation_def latest_ticket_def)

lemma no_operation_clash:
  "find_operation (in_tenant i) (in_key i) s = None \<Longrightarrow> x \<in> set (operations s) \<Longrightarrow>
   \<not> operation_clash (new_operation now i v r) x"
  by (auto simp: find_operation_def operation_clash_def new_operation_def filter_empty_conv)

lemma insert_and_record:
  assumes "find_operation (in_tenant i) (in_key i) s = None" and "ticket_fits r s"
    and "expected_handoff_version i s = Inr v" and "tk_tenant r = in_tenant i"
  shows "bind (insert_ticket r) (\<lambda>_. record_operation now i r) s =
    (Inr (outcome_from_revision r),
     s\<lparr>tickets := tickets s @ [r], operations := operations s @ [new_operation now i v r]\<rparr>)"
  using assms
  by (simp add: bind_eq_Inr insert_journal_ok record_operation_ok ticket_fits_def has_ticket_def
      no_operation_clash)

lemma execute_created:
  assumes "find_operation (in_tenant i) (in_key i) s = None" and "in_operation i = FIND_OR_CREATE"
    and "latest_ticket (in_tenant i) (in_natural_key i) s = None"
    and "ticket_fits (created_ticket now i) s"
  shows "execute_intent now i s = (Inr (outcome_from_revision (created_ticket now i)),
    s\<lparr>tickets := tickets s @ [created_ticket now i],
      operations := operations s @ [new_operation now i None (created_ticket now i)]\<rparr>)"
  using assms insert_and_record [of i s "created_ticket now i" None now]
  by (simp add: execute_intent_def find_or_create_def Let_def created_ticket_def)

lemma execute_handed:
  assumes "find_operation (in_tenant i) (in_key i) s = None" and "in_operation i = WORKFLOW_HANDOFF"
    and "latest_ticket (in_tenant i) (in_natural_key i) s = Some r"
    and "expected_handoff_version i s = Inr (Some (tk_version r))"
    and "ticket_fits (handed_off_ticket now i r) s"
  shows "execute_intent now i s = (Inr (outcome_from_revision (handed_off_ticket now i r)),
    s\<lparr>tickets := tickets s @ [handed_off_ticket now i r],
      operations := operations s @
        [new_operation now i (Some (tk_version r)) (handed_off_ticket now i r)]\<rparr>)"
  using assms insert_and_record [of i s "handed_off_ticket now i r" "Some (tk_version r)" now]
  by (simp add: execute_intent_def hand_off_def Let_def handed_off_ticket_def bind_def)

lemma absent_outcome:
  assumes "reconcile_intent i s = Inr out" and "to_status out = ''absent''"
  shows "find_operation (in_tenant i) (in_key i) s = None \<and>
    (in_operation i = FIND_OR_CREATE \<longrightarrow> latest_ticket (in_tenant i) (in_natural_key i) s = None)"
  using assms
  by (auto simp: reconcile_intent_def Let_def split: option.splits if_splits)

text \<open>The same execution at another time, in a journal with other observations.\<close>

lemma execute_any_time:
  assumes rec: "reconcile_intent i s = Inr out0" "to_status out0 = ''absent''"
    and run: "execute_intent now i s = (Inr out, s')" and "to_status out = ''present''"
  shows "\<exists>s''. execute_intent now' i (s\<lparr>observations := obs\<rparr>) = (Inr out, s'') \<and>
    effects s'' = effects s' \<and> observations s'' = obs \<and> completions s'' = completions s \<and>
    intents s'' = intents s \<and> observations s' = observations s \<and>
    (\<exists>r. find_operation (in_tenant i) (in_key i) s'' = Some r \<and> outcome_from_operation r = out)"
  using run
proof (cases rule: execute_cases)
  case created
  then have "ticket_fits (created_ticket now' i) (s\<lparr>observations := obs\<rparr>)"
    by (simp add: created_time [of now' i now])
  with created show ?thesis
    by (subst execute_created)
      (auto simp: effects_def find_operation_def first_row_append new_operation_def
        created_time [of now' i now] outcome_from_operation_def outcome_from_revision_def
        ticket_sha256_def)
next
  case (handed r)
  then have "ticket_fits (handed_off_ticket now' i r) (s\<lparr>observations := obs\<rparr>)"
    by (simp add: handed_time [of now' i r now])
  with handed show ?thesis
    by (subst execute_handed)
      (auto simp: effects_def find_operation_def first_row_append new_operation_def
        handed_time [of now' i r now] outcome_from_operation_def outcome_from_revision_def
        ticket_sha256_def)
qed (use absent_outcome [OF rec] assms(4) in \<open>auto simp: bare_outcome_def\<close>)

section \<open>Recording, or a taken identifier\<close>

definition answers :: "completion_row \<Rightarrow> ticket_outcome \<Rightarrow> bool" where
  "answers c out \<longleftrightarrow> 1 \<le> co_version c \<and> to_status out = ''present'' \<and>
     to_ticket out = Some (co_ticket c) \<and> to_version out = Some (co_version c) \<and>
     to_sha256 out = Some (co_sha256 c)"

definition completable :: "ticket_outcome \<Rightarrow> bool" where
  "completable out \<longleftrightarrow> to_status out = ''present'' \<and> to_ticket out \<noteq> None \<and>
     (\<exists>v. to_version out = Some v \<and> 1 \<le> v) \<and> to_sha256 out \<noteq> None"

lemma answers_completable: "answers c out \<Longrightarrow> completable out"
  by (auto simp: answers_def completable_def)

lemma same_observation_fields:
  assumes "same_observation ob (new_observation now i phase out)"
  shows "ob_status ob = to_status out" "ob_ticket ob = to_ticket out" "ob_version ob = to_version out"
    "ob_sha256 ob = to_sha256 out"
  using assms unfolding same_observation_def new_observation_def by (cases ob; simp)+

lemma observation_or_taken:
  assumes V: "effect_schemas_accept V" and out: "to_status out \<in> set OBSERVATION_STATUSES"
    and i: "has_intent (in_tenant i) (in_id i) s"
  shows "(\<exists>ob obs. record_observation V now i phase out s = (Inr ob, s\<lparr>observations := obs\<rparr>) \<and>
      same_observation ob (new_observation now i phase out)) \<or>
    (\<exists>e. record_observation V now i phase out s = (Inl e, s) \<and> digest_taken i s)"
proof -
  let ?r = "new_observation now i phase out"
  have eq: "record_observation V now i phase out = persist_observation ?r"
    using out by (simp add: record_observation_def accepted_payloads [OF V] contract_as_def fun_eq_iff)
  show ?thesis
  proof (cases "find_observation (in_tenant i) (observation_id i phase out) s")
    case (Some ob)
    then have "ob \<in> set (observations s)" "ob_tenant ob = in_tenant i" "ob_id ob = observation_id i phase out"
      by (auto simp: find_observation_def dest!: first_row_filterD)
    with Some persist_observation_known [of ?r s ob]
    have run: "persist_observation ?r s = (observation_replay ?r ob, s)" by simp
    show ?thesis
    proof (cases "same_observation ob ?r")
      case True
      with run have "persist_observation ?r s = (Inr ob, s\<lparr>observations := observations s\<rparr>)"
        by (simp add: observation_replay_def)
      with True show ?thesis unfolding eq by blast
    next
      case False
      with \<open>ob \<in> set (observations s)\<close> \<open>ob_tenant ob = in_tenant i\<close>
        \<open>ob_id ob = observation_id i phase out\<close> have "digest_taken i s"
        unfolding digest_taken_def by blast
      with False run show ?thesis by (auto simp: eq observation_replay_def)
    qed
  next
    case None
    then have "persist_observation ?r s = (Inr ?r, s\<lparr>observations := observations s @ [?r]\<rparr>)"
      using i by (auto simp: persist_observation_def bind_eq_Inr insert_journal_ok
          find_observation_def filter_empty_conv observation_clash_def)
    moreover have "same_observation ?r ?r" by (simp add: same_observation_def)
    ultimately show ?thesis unfolding eq by blast
  qed
qed

lemma completion_or_taken:
  assumes V: "effect_schemas_accept V" and out: "completable out"
    and ob: "same_observation ob (new_observation now0 i phase out)"
    and i: "has_intent (in_tenant i) (in_id i) s"
    and none: "completion_for_intent (in_tenant i) (in_id i) s = None"
  shows "(\<exists>c. record_completion V now i ob s = (Inr c, s\<lparr>completions := completions s @ [c]\<rparr>) \<and>
      answers c out \<and> co_tenant c = in_tenant i \<and> co_intent c = in_id i) \<or>
    (\<exists>e. record_completion V now i ob s = (Inl e, s) \<and> digest_taken i s)"
proof -
  from out obtain t v h where f: "to_ticket out = Some t" "to_version out = Some v" "1 \<le> v"
      "to_sha256 out = Some h" "to_status out = ''present''"
    by (auto simp: completable_def)
  let ?c = "new_completion now i (ob_id ob) t v h"
  have eq: "record_completion V now i ob = persist_completion ?c"
    using f same_observation_fields [OF ob]
    by (simp add: record_completion_def completion_of_def Let_def accepted_payloads [OF V]
        contract_as_def fun_eq_iff)
  have c: "co_tenant ?c = in_tenant i" "co_intent ?c = in_id i" "answers ?c out"
    using f by (simp_all add: new_completion_def answers_def)
  show ?thesis
  proof (cases "\<exists>x\<in>set (completions s). completion_clash ?c x")
    case False
    then have "persist_completion ?c s = (Inr ?c, s\<lparr>completions := completions s @ [?c]\<rparr>)"
      using i f none c by (simp add: persist_completion_def bind_eq_Inr insert_journal_ok answers_def)
    with c show ?thesis by (auto simp: eq)
  next
    case True
    then obtain x where x: "x \<in> set (completions s)" "completion_clash ?c x" by blast
    with none c have "co_tenant x = in_tenant i" "co_intent x \<noteq> in_id i" "co_id x = co_id ?c"
      by (auto simp: completion_clash_def completion_for_intent_def filter_empty_conv)
    with x have d: "digest_taken i s" unfolding digest_taken_def by blast
    obtain y s' where run: "persist_completion ?c s = (y, s')" by fastforce
    have "y \<noteq> Inr z" for z
      using run x none c by (auto simp: persist_completion_def bind_eq_Inr insert_journal_ok)
    with run obtain e where "persist_completion ?c s = (Inl e, s')" by (cases y) auto
    moreover from this have "s' = s" by (simp add: persist_completion_def engine_tx_failed)
    ultimately show ?thesis using d by (auto simp: eq)
  qed
qed

section \<open>The protocol from a journal without the completion\<close>

definition recovered ::
  "intent_row \<Rightarrow> ticket_outcome \<Rightarrow> ticket_row list \<times> operation_row list \<Rightarrow>
   (exn + completion_row option) \<times> 'a journal_db_scheme \<Rightarrow> bool" where
  "recovered i out eff r = (case r of
     (Inr (Some c), s) \<Rightarrow> answers c out \<and> effects s = eff
   | (Inr None, s) \<Rightarrow> False
   | (Inl e, s) \<Rightarrow> digest_taken i s)"

definition open_intent :: "intent_row \<Rightarrow> 'a journal_db_scheme \<Rightarrow> bool" where
  "open_intent i s \<longleftrightarrow> has_intent (in_tenant i) (in_id i) s \<and>
     completion_for_intent (in_tenant i) (in_id i) s = None"

lemma open_intent_obs [simp]: "open_intent i (s\<lparr>observations := obs\<rparr>) = open_intent i s"
  by (simp add: open_intent_def has_intent_def completion_for_intent_def)

lemma reconcile_obs [simp]: "reconcile_intent i (s\<lparr>observations := obs\<rparr>) = reconcile_intent i s"
  by (simp add: reconcile_intent_def Let_def cong: option.case_cong)

lemma interrupt_none [simp]: "bind (interrupt None p) f = f ()"
  by (simp add: interrupt_def fun_eq_iff)

lemma complete_recovers:
  assumes V: "effect_schemas_accept V" and out: "completable out" and "open_intent i s"
    and ob: "same_observation ob (new_observation now0 i phase out)"
  shows "recovered i out (effects s) (complete_intent V now None i ob s)"
  using completion_or_taken [OF V out ob, of s now] assms(3)
  by (auto simp: complete_intent_def open_intent_def recovered_def bind_def)

lemma present_recovers:
  assumes V: "effect_schemas_accept V" and "open_intent i s" and "reconcile_intent i s = Inr out"
    and out: "completable out"
  shows "recovered i out (effects s) (process_intent V now None i s)"
proof -
  have st: "to_status out = ''present''" using out by (simp add: completable_def)
  have run: "process_intent V now None i s =
      bind (record_observation V now i ''reconcile'' out) (complete_intent V now None i) s"
    using assms st by (simp add: process_intent_def open_intent_def timed_out_def bind_read)
  from observation_or_taken [OF V, of out i s now "''reconcile''"] st assms(2)
  consider (ok) ob obs where
      "record_observation V now i ''reconcile'' out s = (Inr ob, s\<lparr>observations := obs\<rparr>)"
      "same_observation ob (new_observation now i ''reconcile'' out)"
    | (bad) e where "record_observation V now i ''reconcile'' out s = (Inl e, s)" "digest_taken i s"
    by (auto simp: OBSERVATION_STATUSES_def open_intent_def)
  then show ?thesis
  proof cases
    case ok
    with complete_recovers [OF V out _ ok(2), of "s\<lparr>observations := obs\<rparr>" now] assms(2) run
    show ?thesis by (simp add: bind_ok)
  next
    case bad
    with run show ?thesis by (simp add: bind_err recovered_def)
  qed
qed

lemma executed_present:
  assumes "find_operation (in_tenant i) (in_key i) s = Some r"
  shows "reconcile_intent i s = Inr (outcome_from_operation r)"
  using assms by (simp add: reconcile_intent_def)

lemma absent_recovers:
  assumes V: "effect_schemas_accept V" and op: "open_intent i s"
    and rec: "reconcile_intent i s = Inr out0" "to_status out0 = ''absent''"
    and exe: "execute_intent now0 i s = (Inr out, s')" and out: "completable out"
  shows "recovered i out (effects s') (process_intent V now None i s)"
proof -
  have st: "to_status out = ''present''" using out by (simp add: completable_def)
  have run: "process_intent V now None i s =
      bind (record_observation V now i ''reconcile'' out0) (\<lambda>_. execute_and_complete V now None i) s"
    using op rec by (simp add: process_intent_def open_intent_def timed_out_def bind_read)
  from observation_or_taken [OF V, of out0 i s now "''reconcile''"] rec(2) op
  consider (ok) ob obs where
      "record_observation V now i ''reconcile'' out0 s = (Inr ob, s\<lparr>observations := obs\<rparr>)"
    | (bad) e where "record_observation V now i ''reconcile'' out0 s = (Inl e, s)" "digest_taken i s"
    by (auto simp: OBSERVATION_STATUSES_def open_intent_def)
  then show ?thesis
  proof cases
    case ok
    from execute_any_time [OF rec exe st, of now obs] obtain s2 where
      s2: "execute_intent now i (s\<lparr>observations := obs\<rparr>) = (Inr out, s2)" "effects s2 = effects s'"
        "completions s2 = completions s" "intents s2 = intents s" by blast
    from s2(3,4) op have op2: "open_intent i s2"
      by (simp add: open_intent_def has_intent_def completion_for_intent_def)
    have run2: "process_intent V now None i s =
        bind (record_observation V now i ''execute'' out) (complete_intent V now None i) s2"
      using run ok s2(1) st by (simp add: execute_and_complete_def bind_ok)
    from observation_or_taken [OF V, of out i s2 now "''execute''"] st op2
    consider (ok2) ob2 obs2 where
        "record_observation V now i ''execute'' out s2 = (Inr ob2, s2\<lparr>observations := obs2\<rparr>)"
        "same_observation ob2 (new_observation now i ''execute'' out)"
      | (bad2) e where "record_observation V now i ''execute'' out s2 = (Inl e, s2)" "digest_taken i s2"
      by (auto simp: OBSERVATION_STATUSES_def open_intent_def)
    then show ?thesis
    proof cases
      case ok2
      with complete_recovers [OF V out _ ok2(2), of "s2\<lparr>observations := obs2\<rparr>" now] op2 run2 s2(2)
      show ?thesis by (simp add: bind_ok)
    next
      case bad2
      with run2 show ?thesis by (simp add: bind_err recovered_def)
    qed
  next
    case bad
    with run show ?thesis by (simp add: bind_err recovered_def)
  qed
qed

section \<open>The journals an interrupted run can leave\<close>

definition recoverable ::
  "validators \<Rightarrow> intent_row \<Rightarrow> ticket_outcome \<Rightarrow> ticket_row list \<times> operation_row list \<Rightarrow>
   'a journal_db_scheme \<Rightarrow> bool" where
  "recoverable V i out eff s \<longleftrightarrow> (\<forall>now. recovered i out eff (process_intent V now None i s))"

lemma done_recoverable:
  assumes "completion_for_intent (in_tenant i) (in_id i) s = Some c" and "answers c out"
  shows "recoverable V i out (effects s) s"
  using assms by (simp add: recoverable_def process_intent_def recovered_def)

lemma interrupt_cases:
  "interrupt fp p s = (x, t) \<Longrightarrow> t = s"
  by (auto simp: interrupt_def split: option.splits if_splits)

lemma complete_left:
  assumes V: "effect_schemas_accept V" and out: "completable out" and op: "open_intent i s"
    and ob: "same_observation ob (new_observation now0 i phase out)"
    and left: "complete_intent V now fp i ob s = (Inl e, t)"
    and now: "recoverable V i out (effects s) s"
  shows "recoverable V i out (effects s) t"
proof (cases "t = s")
  case False
  from completion_or_taken [OF V out ob, of s now] op
  consider (ok) c where "record_completion V now i ob s = (Inr c, s\<lparr>completions := completions s @ [c]\<rparr>)"
      "answers c out" "co_tenant c = in_tenant i" "co_intent c = in_id i"
    | (bad) e' where "record_completion V now i ob s = (Inl e', s)"
    by (auto simp: open_intent_def)
  then show ?thesis
  proof cases
    case ok
    let ?t = "s\<lparr>completions := completions s @ [c]\<rparr>"
    from left ok False have "t = ?t"
      unfolding complete_intent_def
      by (auto elim!: bind_Inl_cases dest!: interrupt_cases)
    moreover have "completion_for_intent (in_tenant i) (in_id i) ?t = Some c"
      using op ok by (auto simp: open_intent_def completion_for_intent_def first_row_append)
    ultimately show ?thesis
      using done_recoverable [OF _ ok(2), of i ?t V] by simp
  next
    case bad
    with left False show ?thesis
      unfolding complete_intent_def
      by (auto elim!: bind_Inl_cases dest!: interrupt_cases)
  qed
qed (use now in simp)

lemma open_left:
  assumes V: "effect_schemas_accept V" and op: "open_intent i s"
    and rec: "reconcile_intent i s = Inr out" and out: "completable out"
    and left: "process_intent V now' fp i s = (Inl e, t)" and fp: "\<not> timed_out fp"
  shows "recoverable V i out (effects s) t"
proof -
  have here: "recoverable V i out (effects s) (s\<lparr>observations := obs\<rparr>)" for obs
    using present_recovers [OF V _ _ out, of i "s\<lparr>observations := obs\<rparr>"] op rec
    by (simp add: recoverable_def)
  have st: "to_status out = ''present''" using out by (simp add: completable_def)
  from observation_or_taken [OF V, of out i s now' "''reconcile''"] st op
  consider (ok) ob obs where
      "record_observation V now' i ''reconcile'' out s = (Inr ob, s\<lparr>observations := obs\<rparr>)"
      "same_observation ob (new_observation now' i ''reconcile'' out)"
    | (bad) e where "record_observation V now' i ''reconcile'' out s = (Inl e, s)"
    by (auto simp: OBSERVATION_STATUSES_def open_intent_def)
  then show ?thesis
  proof cases
    case ok
    let ?s1 = "s\<lparr>observations := obs\<rparr>"
    from left ok(1) op rec st fp
    have "t = ?s1 \<or> complete_intent V now' fp i ob ?s1 = (Inl e, t)"
      by (auto simp: process_intent_def open_intent_def bind_read bind_ok
          elim!: bind_Inl_cases [of "interrupt fp _"] dest!: interrupt_cases)
    with complete_left [OF V out _ ok(2), of ?s1 now' fp e t] here [of obs] op show ?thesis
      by auto
  next
    case bad
    with left op rec fp have "t = s"
      by (simp add: process_intent_def open_intent_def bind_read bind_err)
    with here [of "observations s"] show ?thesis by simp
  qed
qed

lemma executed_left:
  assumes V: "effect_schemas_accept V" and op: "open_intent i s"
    and rec: "reconcile_intent i s = Inr out0" "to_status out0 = ''absent''"
    and exe: "execute_intent now0 i s = (Inr out, s')" and out: "completable out"
    and left: "execute_and_complete V now' fp i (s\<lparr>observations := obs\<rparr>) = (Inl e, t)"
  shows "recoverable V i out (effects s') t"
proof -
  have st: "to_status out = ''present''" using out by (simp add: completable_def)
  from execute_any_time [OF rec exe st, of now' obs] obtain s2 r where
    s2: "execute_intent now' i (s\<lparr>observations := obs\<rparr>) = (Inr out, s2)" "effects s2 = effects s'"
      "completions s2 = completions s" "intents s2 = intents s"
      and r: "find_operation (in_tenant i) (in_key i) s2 = Some r" "outcome_from_operation r = out"
    by blast
  from s2(3,4) op have op2: "open_intent i s2"
    by (simp add: open_intent_def has_intent_def completion_for_intent_def)
  have here: "recoverable V i out (effects s2) (s2\<lparr>observations := obs'\<rparr>)" for obs'
    using present_recovers [OF V _ _ out, of i "s2\<lparr>observations := obs'\<rparr>"] op2 r
    by (simp add: recoverable_def executed_present)
  from observation_or_taken [OF V, of out i s2 now' "''execute''"] st op2
  consider (ok) ob obs' where
      "record_observation V now' i ''execute'' out s2 = (Inr ob, s2\<lparr>observations := obs'\<rparr>)"
      "same_observation ob (new_observation now' i ''execute'' out)"
    | (bad) e where "record_observation V now' i ''execute'' out s2 = (Inl e, s2)"
    by (auto simp: OBSERVATION_STATUSES_def open_intent_def)
  then have "recoverable V i out (effects s2) t"
  proof cases
    case ok
    let ?s3 = "s2\<lparr>observations := obs'\<rparr>"
    from left s2(1) ok(1) st
    have "t = s2 \<or> complete_intent V now' fp i ob ?s3 = (Inl e, t)"
      by (auto simp: execute_and_complete_def bind_ok
          elim!: bind_Inl_cases [of "interrupt fp _"] dest!: interrupt_cases)
    with complete_left [OF V out _ ok(2), of ?s3 now' fp e t] here [of obs']
      here [of "observations s2"] op2 show ?thesis by auto
  next
    case bad
    with left s2(1) st have "t = s2"
      by (auto simp: execute_and_complete_def bind_ok bind_err
          elim!: bind_Inl_cases [of "interrupt fp _"] dest!: interrupt_cases)
    with here [of "observations s2"] show ?thesis by simp
  qed
  with s2(2) show ?thesis by simp
qed

lemma absent_left:
  assumes V: "effect_schemas_accept V" and op: "open_intent i s"
    and rec: "reconcile_intent i s = Inr out0" "to_status out0 = ''absent''"
    and exe: "execute_intent now0 i s = (Inr out, s')" and out: "completable out"
    and left: "process_intent V now' fp i s = (Inl e, t)" and fp: "\<not> timed_out fp"
  shows "recoverable V i out (effects s') t"
proof -
  have here: "recoverable V i out (effects s') (s\<lparr>observations := obs\<rparr>)" for obs
  proof -
    have st: "to_status out = ''present''" using out by (simp add: completable_def)
    from execute_any_time [OF rec exe st, of now0 obs] obtain s2 where
      "execute_intent now0 i (s\<lparr>observations := obs\<rparr>) = (Inr out, s2)" "effects s2 = effects s'"
      by blast
    with absent_recovers [OF V _ _ rec(2) _ out, of i "s\<lparr>observations := obs\<rparr>" now0 s2] op rec
    show ?thesis by (simp add: recoverable_def)
  qed
  from observation_or_taken [OF V, of out0 i s now' "''reconcile''"] rec(2) op
  consider (ok) ob obs where
      "record_observation V now' i ''reconcile'' out0 s = (Inr ob, s\<lparr>observations := obs\<rparr>)"
    | (bad) e where "record_observation V now' i ''reconcile'' out0 s = (Inl e, s)"
    by (auto simp: OBSERVATION_STATUSES_def open_intent_def)
  then show ?thesis
  proof cases
    case ok
    let ?s1 = "s\<lparr>observations := obs\<rparr>"
    from left ok(1) op rec fp
    have "t = ?s1 \<or> execute_and_complete V now' fp i ?s1 = (Inl e, t)"
      by (auto simp: process_intent_def open_intent_def bind_read bind_ok
          elim!: bind_Inl_cases [of "interrupt fp _"] dest!: interrupt_cases)
    with executed_left [OF V op rec exe out, of now' fp obs e t] here [of obs] show ?thesis
      by auto
  next
    case bad
    with left op rec fp have "t = s"
      by (simp add: process_intent_def open_intent_def bind_read bind_err)
    with here [of "observations s"] show ?thesis by simp
  qed
qed

section \<open>A run that completes\<close>

lemma completed_run:
  assumes run: "complete_intent V now None i ob s = (Inr (Some c), t)"
    and none: "completion_for_intent (in_tenant i) (in_id i) s = None"
    and ob: "same_observation ob (new_observation now0 i phase out)"
  shows "answers c out \<and> open_intent i s \<and> effects t = effects s"
proof -
  from run have rec: "record_completion V now i ob s = (Inr c, t)"
    by (auto simp: complete_intent_def bind_eq_Inr)
  from record_completion_ok [OF this] none obtain r where
    "completion_of V now i ob = Inr r" "c = r" "1 \<le> co_version c"
    "has_intent (in_tenant i) (in_id i) s" "t = s\<lparr>completions := completions s @ [c]\<rparr>" by auto
  with none same_observation_fields [OF ob] show ?thesis
    by (auto simp: answers_def open_intent_def new_completion_def dest!: completion_of_ok)
qed

lemma completion_reads:
  "record_observation V now i phase out s = (Inr ob, s') \<Longrightarrow>
   \<exists>obs. s' = s\<lparr>observations := obs\<rparr> \<and> same_observation ob (new_observation now i phase out)"
  by (drule record_observation_ok)
    (elim conjE disjE, rule exI [of _ "observations s"], auto)

lemma process_cases [consumes 1, case_names known present absent]:
  assumes run: "process_intent V now None i s = (Inr (Some c), t)"
  obtains (known) "completion_for_intent (in_tenant i) (in_id i) s = Some c" "t = s"
    | (present) out where "open_intent i s" "reconcile_intent i s = Inr out" "answers c out"
      "effects t = effects s"
    | (absent) out0 out s' where "open_intent i s" "reconcile_intent i s = Inr out0"
      "to_status out0 = ''absent''" "execute_intent now i s = (Inr out, s')" "answers c out"
      "effects t = effects s'"
proof (cases "completion_for_intent (in_tenant i) (in_id i) s")
  case (Some c')
  with run have "c' = c" and eq: "s = t" by (simp_all add: process_intent_def)
  with Some show thesis by (intro known) simp_all
next
  case none: None
  show thesis
  proof (cases "reconcile_intent i s")
    case (Inl e)
    with run none show thesis by (simp add: process_intent_def timed_out_def bind_read)
  next
    case rec: (Inr out0)
    let ?rest = "\<lambda>ob. if to_status out0 \<in> {''unknown'', ''conflict''} then ret None
      else if to_status out0 = ''absent'' then execute_and_complete V now None i
      else if to_status out0 \<noteq> ''present'' then ret None
      else complete_intent V now None i ob"
    from run none rec have "bind (record_observation V now i ''reconcile'' out0) ?rest s = (Inr (Some c), t)"
      by (simp add: process_intent_def timed_out_def bind_read)
    then obtain ob s1 where ro: "record_observation V now i ''reconcile'' out0 s = (Inr ob, s1)"
      and rest: "?rest ob s1 = (Inr (Some c), t)" unfolding bind_eq_Inr by blast
    from completion_reads [OF ro] obtain obs where s1: "s1 = s\<lparr>observations := obs\<rparr>"
      and ob: "same_observation ob (new_observation now i ''reconcile'' out0)" by blast
  show thesis
  proof (cases "to_status out0 = ''absent''")
    case False
    with rest have "complete_intent V now None i ob s1 = (Inr (Some c), t)"
      by (auto split: if_splits)
    from completed_run [OF this _ ob] none present [OF _ rec] show thesis
      by (simp add: s1)
  next
    case True
    with rest have "execute_and_complete V now None i s1 = (Inr (Some c), t)" by simp
    then obtain out s2 where exe1: "execute_intent now i s1 = (Inr out, s2)"
      and "(if to_status out \<noteq> ''present''
        then bind (record_observation V now i ''execute'' out) (\<lambda>_. ret None)
        else bind (record_observation V now i ''execute'' out) (complete_intent V now None i)) s2
        = (Inr (Some c), t)"
      unfolding execute_and_complete_def interrupt_none
      by (auto simp: bind_eq_Inr [of "execute_intent now i"])
    then have st: "to_status out = ''present''"
      and "bind (record_observation V now i ''execute'' out) (complete_intent V now None i) s2
        = (Inr (Some c), t)"
      by (auto simp: bind_eq_Inr split: if_split_asm)
    then obtain ob2 s3 where ro2: "record_observation V now i ''execute'' out s2 = (Inr ob2, s3)"
      and fin: "complete_intent V now None i ob2 s3 = (Inr (Some c), t)"
      unfolding bind_eq_Inr by blast
    from rec have "reconcile_intent i s1 = Inr out0" by (simp add: s1)
    with exe1 st obtain s' where exe: "execute_intent now i s = (Inr out, s')" "effects s' = effects s2"
        "completions s' = completions s1" "intents s' = intents s1" "completions s2 = completions s1"
      using execute_any_time [of i s1 out0 now out s2 now "observations s"] True
        execute_any_time [of i s1 out0 now out s2 now "observations s1"]
      by (auto simp: s1)
    from completion_reads [OF ro2]
    obtain obs3 where s3: "s3 = s2\<lparr>observations := obs3\<rparr>"
      and ob2: "same_observation ob2 (new_observation now i ''execute'' out)" by blast
    have "completion_for_intent (in_tenant i) (in_id i) s3 = None"
      using none exe(5) by (simp add: s3 s1 completion_for_intent_def)
    from completed_run [OF fin this ob2] have "answers c out" "open_intent i s3" "effects t = effects s2"
      by (simp_all add: s3)
    moreover have "open_intent i s"
      using exe1 \<open>open_intent i s3\<close> none
      by (cases rule: execute_cases) (auto simp: s1 s3 open_intent_def has_intent_def)
    ultimately show thesis
      using absent [OF _ rec True exe(1)] exe(2) by simp
  qed
  qed
qed

section \<open>Recovery\<close>


text \<open>A worker that crashed between the provider's answer and its observation.\<close>

definition sample_intent :: intent_row where
  "sample_intent =
     \<lparr>in_tenant = ''t'', in_id = ''i'', in_workflow = ''w'', in_checkpoint = ''k'', in_case = ''c'',
      in_revision = ''r'', in_effect = LOCAL_TICKET_EFFECT_KIND, in_operation = FIND_OR_CREATE,
      in_natural_key = ''t:c:r'', in_state_hash = ''h'', in_key = ''key'', in_evidence = Some [],
      in_correlation = ''x'', in_created_at = []\<rparr>"

definition sample_operation :: operation_row where
  "sample_operation =
     \<lparr>op_tenant = ''t'', op_key = ''key'', op_operation = FIND_OR_CREATE,
      op_natural_key = ''t:c:r'', op_expected = None, op_ticket = ''T'', op_version = 1,
      op_sha256 = ''o'', op_created_at = []\<rparr>"

definition lost_response :: journal_db where
  "lost_response = empty_journal\<lparr>intents := [sample_intent], operations := [sample_operation]\<rparr>"

definition sample_observation :: observation_row where
  "sample_observation =
     new_observation 0 sample_intent ''reconcile'' (outcome_from_operation sample_operation)"

definition sample_completion :: completion_row where
  "sample_completion = new_completion 0 sample_intent (ob_id sample_observation) ''T'' 1 ''o''"

lemma lost_response_simps [simp]:
  "intents lost_response = [sample_intent]" "operations lost_response = [sample_operation]"
  "observations lost_response = []" "completions lost_response = []"
  by (simp_all add: lost_response_def empty_journal_def ledger_db.defs)

lemma sample_simps [simp]:
  "in_tenant sample_intent = ''t''" "in_id sample_intent = ''i''" "in_key sample_intent = ''key''"
  "op_tenant sample_operation = ''t''" "op_key sample_operation = ''key''"
  by (simp_all add: sample_intent_def sample_operation_def)

abbreviation accept_all :: validators where
  "accept_all \<equiv> \<lambda>_. Some (\<lambda>_. None)"

lemma accept_all_effects: "effect_schemas_accept accept_all"
  by (simp add: effect_schemas_accept_def)

lemma lost_reconcile:
  "reconcile_intent sample_intent lost_response = Inr (outcome_from_operation sample_operation)"
  by (simp add: reconcile_intent_def find_operation_def)

lemma lost_observed:
  "record_observation accept_all 0 sample_intent ''reconcile'' (outcome_from_operation sample_operation)
     lost_response = (Inr sample_observation, lost_response\<lparr>observations := [sample_observation]\<rparr>)"
  by (simp add: record_observation_def accepted_payloads [OF accept_all_effects] Let_def
      persist_observation_def bind_eq_Inr find_observation_def insert_journal_ok has_intent_def
      contract_as_def sample_observation_def OBSERVATION_STATUSES_def)

lemma lost_clean_run:
  "process_intent accept_all 0 None sample_intent lost_response =
     (Inr (Some sample_completion), lost_response\<lparr>observations := [sample_observation],
        completions := [sample_completion]\<rparr>)"
proof -
  have "record_completion accept_all 0 sample_intent sample_observation
      (lost_response\<lparr>observations := [sample_observation]\<rparr>) =
    (Inr sample_completion, lost_response\<lparr>observations := [sample_observation],
        completions := [sample_completion]\<rparr>)"
    by (simp add: record_completion_def completion_of_def Let_def contract_as_def
        accepted_payloads [OF accept_all_effects] persist_completion_def bind_eq_Inr
        insert_journal_ok completion_for_intent_def has_intent_def sample_completion_def
        new_completion_def sample_observation_def new_observation_def outcome_from_operation_def
        sample_operation_def)
  then show ?thesis
    by (simp add: process_intent_def completion_for_intent_def timed_out_def lost_reconcile
        bind_read bind_ok lost_observed complete_intent_def)
qed

lemma lost_interrupted_run:
  "process_intent accept_all 0
     (Some \<lparr>interrupt_after = [''reconcile''], reconciliation_timeout = False\<rparr>) sample_intent
     lost_response = (Inl (WorkflowInterrupted ''fault_injected:reconcile''),
        lost_response\<lparr>observations := [sample_observation]\<rparr>)"
  by (simp add: process_intent_def completion_for_intent_def timed_out_def lost_reconcile
      bind_read bind_ok lost_observed interrupt_def)


end
