(* ===== verification/TicketProps.thy ===== *)
theory TicketProps
  imports JournalRun EffectRecovery
begin

text \<open>
  The guarantees of the ticket effects over every reachable journal: the rebuild's own check of the
  provider tables succeeds, and each business operation has at most one ticket revision.
\<close>

section \<open>The rebuild's check of the provider tables\<close>

definition journal_invalid :: exn where
  "journal_invalid = WorkflowError ''workflow_journal_invalid''"

definition validate_operation :: "string \<Rightarrow> 'a journal_db_scheme \<Rightarrow> operation_row \<Rightarrow> exn + unit" where
  "validate_operation t s q =
     (case (first_row (filter (\<lambda>r. tk_tenant r = t \<and> tk_id r = op_ticket q \<and>
              tk_version r = op_version q) (tickets s)),
            first_row (filter (\<lambda>i. in_tenant i = t \<and> in_key i = op_key q) (intents s))) of
        (Some r, Some i) \<Rightarrow>
          require (tk_natural_key r = op_natural_key q \<and>
            in_operation i = op_operation q \<and> in_natural_key i = op_natural_key q \<and>
            tk_operation r = op_operation q \<and>
            (if op_operation q = FIND_OR_CREATE then op_expected q = None \<and> op_version q = 1
             else if op_operation q = WORKFLOW_HANDOFF then
               (case op_expected q of None \<Rightarrow> False | Some e \<Rightarrow> op_version q = e + 1)
             else False) \<and>
            ticket_digest (op_ticket q) (op_version q) (op_natural_key q) (tk_sha256 r) = op_sha256 q)
            journal_invalid
      | _ \<Rightarrow> Inl journal_invalid)"

definition validate_ticket_source :: "string \<Rightarrow> 'a journal_db_scheme \<Rightarrow> exn + unit" where
  "validate_ticket_source t s =
     each_res (validate_operation t s) (filter (\<lambda>q. op_tenant q = t) (operations s))"

lemma first_row_unique:
  assumes "x \<in> set xs" "P x" and "\<And>y. y \<in> set xs \<Longrightarrow> P y \<Longrightarrow> y = x"
  shows "first_row (filter P xs) = Some x"
proof (cases "first_row (filter P xs)")
  case None
  with assms(1,2) show ?thesis by (auto simp: filter_empty_conv)
next
  case (Some y)
  with assms(3) show ?thesis by (auto dest: first_row_filterD)
qed

lemma operation_validates:
  assumes inv: "ticket_inv s" and q: "q \<in> set (operations s)"
  shows "validate_operation (op_tenant q) s q = Inr ()"
proof -
  from inv q have ok: "operation_ok s q" by (simp add: ticket_inv_def tickets_ok_def)
  then obtain i r where i: "i \<in> set (intents s)" "in_tenant i = op_tenant q" "in_key i = op_key q"
    "in_operation i = op_operation q" "in_natural_key i = op_natural_key q"
    and r: "r \<in> set (tickets s)" "tk_tenant r = op_tenant q" "tk_id r = op_ticket q"
    "tk_version r = op_version q" "tk_natural_key r = op_natural_key q"
    "tk_operation r = op_operation q" "ticket_sha256 r = op_sha256 q"
    unfolding operation_ok_def by blast
  have ur: "y = r" if "y \<in> set (tickets s)" "tk_tenant y = op_tenant q" "tk_id y = op_ticket q"
    "tk_version y = op_version q" for y
  proof -
    have "inj_on (\<lambda>r. (tk_tenant r, tk_id r, tk_version r)) (set (tickets s))"
      using inv by (simp add: ticket_inv_def tickets_ok_def distinct_map)
    then show ?thesis by (rule inj_onD) (use that r in simp_all)
  qed
  have "first_row (filter (\<lambda>r. tk_tenant r = op_tenant q \<and> tk_id r = op_ticket q \<and>
      tk_version r = op_version q) (tickets s)) = Some r"
    by (rule first_row_unique) (simp_all add: r, blast intro: ur)
  moreover have ui: "y = i" if "y \<in> set (intents s)" "in_tenant y = op_tenant q" "in_key y = op_key q" for y
  proof -
    have "intent_clash y i" using that i by (simp add: intent_clash_def)
    with inv that(1) i(1) show ?thesis by (auto simp: ticket_inv_def intents_ok_def)
  qed
  have "first_row (filter (\<lambda>i. in_tenant i = op_tenant q \<and> in_key i = op_key q) (intents s)) = Some i"
    by (rule first_row_unique) (simp_all add: i, blast intro: ui)
  ultimately show ?thesis
    using ok i(4,5) r
    by (auto simp: validate_operation_def operation_ok_def ticket_sha256_def)
qed

text \<open>
  C24.  In every reachable journal the check that the rebuild makes of the provider tables succeeds
  for every tenant: each operation has its intent and its ticket revision, with the version the
  intent expected and the digest the outcome was reported with.
\<close>

theorem ticket_source_valid:
  assumes "journal_run V s"
  shows "validate_ticket_source t s = Inr ()"
  using operation_validates [OF journal_run_inv [OF assms]]
  by (auto simp: validate_ticket_source_def)

section \<open>At most one effect per operation\<close>

text \<open>
  C3.  Exactly-once effects: whatever the order of intake, activation, retries, crashes, recoveries
  and concurrent workers, a Case revision never has more than one ticket created and never more than
  one hand-off, so a customer's ticket is not duplicated.
\<close>

theorem ticket_effects_once:
  assumes run: "journal_run V s" and a: "a \<in> set (activations s)"
  shows "length (filter (\<lambda>r. tk_tenant r = ac_tenant a \<and> tk_natural_key r = effect_natural_key a \<and>
      tk_operation r = op) (tickets s)) \<le> 1"
proof (rule distinct_filter_le_one)
  have inv: "ticket_inv s" by (rule journal_run_inv [OF run])
  then show "distinct (tickets s)"
    by (simp add: ticket_inv_def tickets_ok_def distinct_map)
  fix r r'
  assume r: "r \<in> set (tickets s)" "r' \<in> set (tickets s)"
    "tk_tenant r = ac_tenant a \<and> tk_natural_key r = effect_natural_key a \<and> tk_operation r = op"
    "tk_tenant r' = ac_tenant a \<and> tk_natural_key r' = effect_natural_key a \<and> tk_operation r' = op"
  then have "ticket_ok s r" "ticket_ok s r'"
    using inv by (auto simp: ticket_inv_def tickets_ok_def)
  then obtain q q' where q: "q \<in> set (operations s)" "q' \<in> set (operations s)"
    "op_tenant q = tk_tenant r" "op_natural_key q = tk_natural_key r"
    "op_operation q = tk_operation r" "op_version q = tk_version r"
    "op_tenant q' = tk_tenant r'" "op_natural_key q' = tk_natural_key r'"
    "op_operation q' = tk_operation r'" "op_version q' = tk_version r'"
    unfolding ticket_ok_def by blast
  then have "operation_ok s q" "operation_ok s q'"
    using inv by (auto simp: ticket_inv_def tickets_ok_def)
  then obtain i j where ij: "i \<in> set (intents s)" "j \<in> set (intents s)"
    "in_tenant i = op_tenant q" "in_key i = op_key q" "in_operation i = op_operation q"
    "in_natural_key i = op_natural_key q" "in_tenant j = op_tenant q'" "in_key j = op_key q'"
    "in_operation j = op_operation q'" "in_natural_key j = op_natural_key q'"
    unfolding operation_ok_def by blast
  with q r(3,4) have "i = j" by (intro intent_unique [OF inv]) auto
  with ij q r(3,4) have "(op_tenant q, op_key q) = (op_tenant q', op_key q')" by simp
  moreover have "inj_on (\<lambda>q. (op_tenant q, op_key q)) (set (operations s))"
    using inv by (simp add: ticket_inv_def tickets_ok_def distinct_map)
  ultimately have "q = q'" using q(1,2) by (auto dest: inj_onD)
  with q r(3,4) have "(tk_tenant r, tk_natural_key r, tk_version r) =
      (tk_tenant r', tk_natural_key r', tk_version r')" by simp
  moreover have "inj_on (\<lambda>r. (tk_tenant r, tk_natural_key r, tk_version r)) (set (tickets s))"
    using inv by (simp add: ticket_inv_def tickets_ok_def distinct_map)
  ultimately show "r = r'" using r(1,2) by (auto dest: inj_onD)
qed

section \<open>The provider port\<close>

text \<open>
  C25.  The provider operation is idempotent under its key.  A failing or refused execution changes
  nothing; after an execution that reports a present ticket, whatever executions \<open>qs\<close> of whatever
  intents follow, executing it again reports the same outcome and changes nothing.
\<close>

theorem execution_exactly_once:
  "case execute_intent now i s of
     (Inl e, s1) \<Rightarrow> s1 = s
   | (Inr out, s1) \<Rightarrow>
       if to_status out = ''present'' then
         (let s2 = provider.submit_all qs s1 in execute_intent now' i s2 = (Inr out, s2))
       else s1 = s"
proof (cases "execute_intent now i s")
  case (Pair x s1)
  show ?thesis
  proof (cases x)
    case (Inl e)
    with Pair show ?thesis by (auto dest: execute_failed)
  next
    case (Inr out)
    with Pair have run: "execute_intent now i s = (Inr out, s1)" by simp
    then have "s1 = s \<and> to_status out \<noteq> ''present'' \<or>
      (\<exists>r. find_operation (in_tenant i) (in_key i) s1 = Some r \<and> out = outcome_from_operation r)"
      by (cases rule: execute_cases)
        (auto simp: bare_outcome_def find_operation_def first_row_append new_operation_def
          outcome_from_operation_def outcome_from_revision_def)
    moreover have "to_status out = ''present''"
      if "find_operation (in_tenant i) (in_key i) s1 = Some r" "out = outcome_from_operation r" for r
      using that by simp
    moreover have "execute_intent now' i (provider.submit_all qs s1) =
        (Inr out, provider.submit_all qs s1)"
      if "find_operation (in_tenant i) (in_key i) s1 = Some r" "out = outcome_from_operation r" for r
      using that provider.known_stable [of "(now', i)" "(in_tenant i, in_key i)" s1 r qs]
      by (simp add: execution_slot_def stored_operation_def submit_execution_def execution_answer_def)
    ultimately show ?thesis using Pair Inr by auto
  qed
qed

section \<open>A workflow that gets its ticket\<close>

definition sample_revision :: revision_row where
  "sample_revision = \<lparr>rv_tenant = ''t'', rv_id = ''r'', rv_case = ''c'', rv_number = 1,
     rv_previous = None, rv_created_at = [], rv_reason = [], rv_source = [], rv_fingerprint = []\<rparr>"

definition sample_event :: event_row where
  "sample_event = \<lparr>ev_tenant = ''t'', ev_id = ''e'', ev_case = ''c'', ev_revision = ''r'',
     ev_type = STATE_TRANSITIONED, ev_occurred_at = [], ev_received_at = [], ev_correlation = ''x'',
     ev_causation = None, ev_index = 1, ev_sha256 = replicate 64 CHR ''a'', ev_metadata = None,
     ev_workflow = None, ev_checkpoint = None\<rparr>"

definition sample_projection :: projection_row where
  "sample_projection = \<lparr>pj_tenant = ''t'', pj_case = ''c'', pj_revision = ''r'', pj_number = 1,
     pj_state = RECEIVED, pj_source = ''e'', pj_count = 1, pj_correlation = ''x'',
     pj_created_at = ''2026-01-01T00:00:00Z'', pj_updated_at = ''2026-01-01T00:00:00Z''\<rparr>"

definition sample_journal :: journal_db where
  "sample_journal = empty_journal\<lparr>revisions := [sample_revision], events := [sample_event],
     projections := [sample_projection]\<rparr>"

definition sample_policy :: obj where
  "sample_policy = [(''schema_id'', JStr SYNTHETIC_SLA_POLICY_SCHEMA_ID), (''tenant_id'', JStr ''t''),
     (''policy_id'', JStr ''p''), (''policy_version'', JStr ''v1''), (''deadline_seconds'', JInt 60)]"

lemma sample_journal_fresh: "fresh_journal sample_journal"
  by (simp add: fresh_journal_def sample_journal_def sample_revision_def)

lemma sample_journal_tables [simp]:
  "revisions sample_journal = [sample_revision]" "events sample_journal = [sample_event]"
  "projections sample_journal = [sample_projection]" "schema_error sample_journal = None"
  by (simp_all add: sample_journal_def empty_journal_def empty_ledger_def ledger_db.defs)

declare fresh_tables [OF sample_journal_fresh, simp]

lemma sample_reads:
  "get_case_projection accept_all ''t'' ''c'' sample_journal = Inr (Some sample_projection)"
  "list_case_revisions accept_all ''t'' ''c'' sample_journal = Inr [sample_revision]"
  "list_case_events accept_all ''t'' ''c'' sample_journal = Inr [sample_event]"
proof -
  show "get_case_projection accept_all ''t'' ''c'' sample_journal = Inr (Some sample_projection)"
    by (simp add: get_case_projection_def find_projection_def sample_projection_def
        validate_case_projection_def require_schema_def projection_obj_def validate_payload_accepting)
  have "validate_revision_chain accept_all [revision_obj sample_revision] = Inr ()"
    by (intro revision_chain_first)
      (simp_all add: sample_revision_def revision_obj_def validate_payload_accepting)
  then show "list_case_revisions accept_all ''t'' ''c'' sample_journal = Inr [sample_revision]"
    by (simp add: list_case_revisions_def case_revisions_def sample_revision_def)
  show "list_case_events accept_all ''t'' ''c'' sample_journal = Inr [sample_event]"
    by (simp add: list_case_events_def case_events_def sample_event_def Let_def
        validate_generated_ledger_event_def require_schema_def event_obj_def validate_payload_accepting
        is_sha256_text_def optional_item_def list_all_iff)
qed

lemma sample_deadline: "\<exists>d. sla_deadline sample_projection sample_policy = Inr d"
proof -
  have "parse_timestamp (pj_created_at sample_projection) = Inr 63902822400000000" by code_simp
  then show ?thesis
    by (simp add: sla_deadline_def sample_policy_def add_seconds_def valid_instant_def
        max_instant_def us_per_day_def us_per_second_def Let_def)
qed

definition sample_activation :: "string \<Rightarrow> activation_row" where
  "sample_activation d = \<lparr>ac_tenant = ''t'', ac_workflow = workflow_id ''t'' ''c'' ''r'' WORKFLOW_DEFINITION_VERSION,
     ac_id = stable_identifier ''workflow_activation''
       (JObj [(''workflow_id'', JStr (workflow_id ''t'' ''c'' ''r'' WORKFLOW_DEFINITION_VERSION))]),
     ac_case = ''c'', ac_revision = ''r'', ac_definition = WORKFLOW_DEFINITION_VERSION,
     ac_source = ''e'', ac_correlation = ''x'', ac_policy = ''p'', ac_policy_version = ''v1'',
     ac_deadline_seconds = 60, ac_deadline = d, ac_created_at = timestamp 0\<rparr>"

lemma sample_activated:
  "\<exists>d rs. activate_case accept_all 0 ''t'' ''c'' ''r'' (Some sample_policy) sample_journal =
     (Inr (workflow_id ''t'' ''c'' ''r'' WORKFLOW_DEFINITION_VERSION, True),
      sample_journal\<lparr>activations := [sample_activation d], runs := rs\<rparr>)"
proof -
  from sample_deadline obtain d where d: "sla_deadline sample_projection sample_policy = Inr d" ..
  have pol: "activation_policy accept_all 0 sample_projection (Some sample_policy) = Inr sample_policy"
    by (simp add: activation_policy_def sample_policy_def validate_synthetic_sla_policy_def
        require_schema_def validate_payload_accepting sample_projection_def contract_as_def)
  have new: "new_activation 0 sample_projection ''r'' ''e'' sample_policy d = Inr (sample_activation d)"
    by (simp add: new_activation_def sample_policy_def sample_projection_def sample_activation_def
        Let_def sql_int_JInt)
  have pj: "pj_tenant sample_projection = ''t''" "pj_case sample_projection = ''c''"
    "pj_state sample_projection = RECEIVED" by (simp_all add: sample_projection_def)
  have sub: "has_revision ''t'' ''r'' sample_journal"
    by (simp add: has_revision_def sample_revision_def)
  have "\<exists>rs. persist_activation 0 sample_projection ''r'' ''e'' sample_policy d sample_journal =
      (Inr (workflow_id ''t'' ''c'' ''r'' WORKFLOW_DEFINITION_VERSION, True),
       sample_journal\<lparr>activations := [sample_activation d], runs := rs\<rparr>)"
    using sub
    by (simp add: persist_activation_def pj Let_def bind_eq_Inr activation_for_case_def
        lift_res_eq_Inr new insert_journal_ok insert_run_def new_run_def run_sequences_def
        next_index_def has_activation_def)
      (simp add: sample_activation_def, rule exI, rule refl)
  then show ?thesis
    by (simp add: activate_case_def bind_read sample_reads pj sample_event_def pol d)
      (simp add: sample_revision_def, blast)
qed

text \<open>
  The witness run: the Case is activated, its first intent is stored and executed, the response is
  lost, and the intent is executed again.
\<close>

lemma sample_run:
  "\<exists>s d. journal_run accept_all s \<and> sample_activation d \<in> set (activations s) \<and>
     length (tickets s) = 1 \<and> length (operations s) = 1"
proof -
  from sample_activated obtain d rs y where act:
    "activate_case accept_all 0 ''t'' ''c'' ''r'' (Some sample_policy) sample_journal =
      (Inr y, sample_journal\<lparr>activations := [sample_activation d], runs := rs\<rparr>)" by blast
  let ?a = "sample_activation d"
  let ?s1 = "sample_journal\<lparr>activations := [?a], runs := rs\<rparr>"
  let ?k = "\<lparr>ck_row = unhashed_checkpoint 0 ?a None
      \<lparr>rq_state = RECEIVED, rq_resume = RECEIVED, rq_pending = [], rq_completed = [],
       rq_causation = None, rq_kind = None\<rparr>, ck_pending = [], ck_completed = []\<rparr>"
  let ?i = "new_intent 0 ?a (cp_id (ck_row ?k)) FIND_OR_CREATE"
  let ?s2 = "?s1\<lparr>intents := [?i]\<rparr>"
  have r1: "journal_run accept_all ?s1" by (rule activated [OF opened [OF sample_journal_fresh] act])
  have "ensure_intent accept_all 0 ?a ?k FIND_OR_CREATE ?s1 = (Inr (?i, True), ?s2)"
    by (simp add: ensure_intent_def Let_def contract_as_def validate_side_effect_intent_def
        require_schema_def validate_payload_accepting intent_payload_def persist_intent_def
        bind_eq_Inr find_intent_def insert_journal_ok has_activation_def new_intent_def)
  then have r2: "journal_run accept_all ?s2" by (intro intended [OF r1]) auto
  have "execute_intent 0 ?i ?s2 = (Inr (outcome_from_revision (created_ticket 0 ?i)),
      ?s2\<lparr>tickets := [created_ticket 0 ?i],
          operations := [new_operation 0 ?i None (created_ticket 0 ?i)]\<rparr>)" (is "_ = (_, ?s3)")
    by (subst execute_created)
      (simp_all add: find_operation_def latest_ticket_def last_row_def ticket_fits_def
        created_ticket_def)
  then have r3: "journal_run accept_all ?s3" by (intro executed [OF r2]) auto
  then show ?thesis by (intro exI [of _ ?s3] exI [of _ d]) simp
qed

theorem ticket_source_valid_witness:
  "\<exists>s. journal_run accept_all s \<and> length (operations s) = 1 \<and> validate_ticket_source ''t'' s = Inr ()"
  using sample_run ticket_source_valid [of accept_all _ "''t''"] by blast

theorem ticket_effects_once_witness:
  "\<exists>s d. journal_run accept_all s \<and> length (tickets s) = 1 \<and>
     length (filter (\<lambda>r. tk_tenant r = ''t'' \<and> tk_natural_key r = ''t:c:r'' \<and>
       tk_operation r = FIND_OR_CREATE) (tickets s)) \<le> 1"
proof -
  from sample_run obtain s d where s: "journal_run accept_all s"
    "sample_activation d \<in> set (activations s)" "length (tickets s) = 1" by blast
  from ticket_effects_once [OF s(1,2), of FIND_OR_CREATE] s show ?thesis
    by (auto simp: sample_activation_def effect_natural_key_def)
qed

end
