(* ===== verification/CommandRuns.thy ===== *)
theory CommandRuns
  imports EngineRuns TicketProps
begin

text \<open>
  The entry points of the engine (the ticket hand-off, reconciliation, the operator commands and
  their recovery): they only append to the source tables, and from a reachable journal they lead to
  a reachable one on every path.
\<close>

section \<open>They stay among the reachable journals\<close>

lemma expire_triple:
  "triple (journal_run V) (has_act a) (expire_sla V now fp a k) (\<lambda>_. has_act a)"
  unfolding expire_sla_def
  by (intro triple_bind [where Q = "\<lambda>_. has_act a"] atomic_triples transition_triple)

lemma resume_triple:
  "triple (journal_run V) (has_act a) (resume_reconciled V now fp a k) (\<lambda>_. has_act a)"
  unfolding resume_reconciled_def
  by (intro triple_bind [where Q = "\<lambda>_. has_act a"] triple_cases(1) transition_triple triple_pure)

lemma intent_by_id_mem: "intent_by_id t j s = Inr i \<Longrightarrow> i \<in> set (intents s)"
  by (auto simp: intent_by_id_def load_intent_def split: option.splits if_splits dest: first_row_filterD)

lemma read_intent_triple:
  "triple J (has_act a) (bind (query (intent_by_id t j)) lift_res) (\<lambda>i. has_int a i)"
  by (auto simp: triple_def bind_eq_Inr bind_def lift_res_eq_Inr has_int_def has_act_def
      intent_by_id_mem split: sum.splits)

lemma recover_reconciliation_triple:
  "triple (journal_run V) (has_act a) (recover_reconciliation V now fp a k) (\<lambda>_. has_act a)"
  unfolding recover_reconciliation_def
  by (intro triple_bind [OF triple_pure(3)] triple_cases(4) resume_triple
      triple_bind [OF read_intent_triple] triple_bind [OF process_act_triple]
      triple_cases(2) triple_pure(1))

lemma apply_triple:
  "triple (journal_run V) (has_act a) (apply_persisted_command V now a c) (\<lambda>_. has_act a)"
  unfolding apply_persisted_command_def
  by (intro triple_bind [where Q = "\<lambda>_. has_act a"] triple_cases(1,2) transition_triple
      reconciliation_triple triple_pure)

lemma recover_command_triple:
  "triple (journal_run V) (has_act a) (recover_command V now a c) (\<lambda>_. has_act a)"
  unfolding recover_command_def
  by (intro triple_bind [where Q = "\<lambda>_. has_act a"] triple_cases(1,2) apply_triple triple_pure)

lemma recover_commands_triple:
  "triple (journal_run V) (has_act a) (recover_commands V now a cs) (\<lambda>_. has_act a)"
proof (induction cs)
  case Nil
  show ?case unfolding recover_commands.simps by (rule triple_pure)
next
  case (Cons c cs)
  then show ?case
    unfolding recover_commands.simps
    by (intro triple_bind [where Q = "\<lambda>_. has_act a"] recover_command_triple)
qed

lemma recover_pending_triple:
  "triple (journal_run V) (has_act a) (recover_pending_commands V now a) (\<lambda>_. has_act a)"
  unfolding recover_pending_commands_def
  by (intro triple_bind [where Q = "\<lambda>_. has_act a"] recover_commands_triple triple_pure)

lemma activation_for_tenant_case_mem:
  "activation_for_tenant_case t c s = Some a \<Longrightarrow> a \<in> set (activations s)"
  by (auto simp: activation_for_tenant_case_def Let_def dest!: first_row_filterD)

lemma submit_to_triple:
  "triple (journal_run V) (has_act a) (submit_to V now a i ty e) (\<lambda>_. has_act a)"
  unfolding submit_to_def Let_def first_checkpoint_def
  by (intro triple_bind [where Q = "\<lambda>_. has_act a"] triple_cases(2) atomic_triples apply_triple
      triple_pure)

lemma find_workflow_triple:
  "triple J (\<lambda>_. True) (query (activation_for_tenant_case t c))
     (\<lambda>found s. \<forall>a. found = Some a \<longrightarrow> has_act a s)"
  by (auto simp: triple_def query_def has_act_def activation_for_tenant_case_mem)

lemma submit_triple:
  "triple (journal_run V) (\<lambda>_. True) (submit_command V now t c i ty e) (\<lambda>_ _. True)"
  unfolding submit_command_def
proof (intro triple_bind [OF triple_pure(4)] triple_bind [OF find_workflow_triple], goal_cases)
  case (1 _ found)
  show ?case
  proof (cases found)
    case None
    then show ?thesis by (simp only: option.case triple_pure)
  next
    case (Some a)
    have "triple (journal_run V) (\<lambda>s. \<forall>b. Some a = Some b \<longrightarrow> has_act b s)
        (submit_to V now a i ty e) (\<lambda>_ _. True)"
      by (rule triple_weaken [OF submit_to_triple [of V a]]) auto
    with Some show ?thesis by (simp only: option.case)
  qed
qed

lemma run_and_append:
  assumes "triple (journal_run V) (has_act a) m (\<lambda>_. has_act a)" and "keeps journal_le m"
    and "journal_run V s" and "a \<in> set (activations s)"
  shows "journal_run V (snd (m s)) \<and> journal_le s (snd (m s))"
proof -
  have "has_act a s" using assms(4) by (simp add: has_act_def)
  with assms(1,3) have "journal_run V (snd (m s))" by (metis tripleD prod.collapse)
  with assms(2) show ?thesis by (simp add: keeps_def)
qed

lemma submit_and_append:
  assumes "journal_run V s"
  shows "journal_run V (snd (submit_command V now t c i ty e s)) \<and>
    journal_le s (snd (submit_command V now t c i ty e s))"
proof
  show "journal_run V (snd (submit_command V now t c i ty e s))"
    using tripleD [OF submit_triple assms TrueI] by (metis prod.collapse)
  show "journal_le s (snd (submit_command V now t c i ty e s))"
    using journal.keeps_submit unfolding keeps_def by (rule spec)
qed



end
