(* ===== verification/ChainDiscipline.thy ===== *)
theory ChainDiscipline
  imports CheckpointChain CommandRuns
begin

text \<open>
  What the engine adds to the checkpoint chain of a reachable journal when it works from its current
  checkpoint: each new state is a transition the table allows, and no completed effect is forgotten.
\<close>

section \<open>The discipline\<close>

text \<open>A checkpoint continues the one before it: progress in the same state, or a transition.\<close>

definition step_ok :: "activation_row \<Rightarrow> checkpoint_row option \<Rightarrow> checkpoint_row \<Rightarrow> bool" where
  "step_ok a prev r \<longleftrightarrow>
     (case prev of
        None \<Rightarrow> cp_causation r = Some (ac_source a)
      | Some p \<Rightarrow>
          set (the (cp_completed p)) \<subseteq> set (the (cp_completed r)) \<and>
          (if cp_state r = cp_state p
           then cp_kind r = None \<and> cp_resume r = cp_state r \<and> cp_resume p = cp_state p
           else \<exists>kind. cp_kind r = Some kind \<and>
             engine_move kind (cp_state p, cp_resume p) = Some (cp_state r, cp_resume r) \<and>
             validate_transition (cp_state p) kind (cp_state r) (Some (cp_resume r))
               (the (cp_pending p) \<noteq> []) = Inr ()))"

definition request_ok :: "activation_row \<Rightarrow> checkpoint_row option \<Rightarrow> checkpoint_request \<Rightarrow> bool" where
  "request_ok a prev q \<longleftrightarrow>
     (case prev of
        None \<Rightarrow> rq_causation q = Some (ac_source a)
      | Some p \<Rightarrow>
          set (the (cp_completed p)) \<subseteq> set (rq_completed q) \<and>
          (if rq_state q = cp_state p
           then rq_kind q = None \<and> rq_resume q = rq_state q \<and> cp_resume p = cp_state p
           else \<exists>kind. rq_kind q = Some kind \<and>
             engine_move kind (cp_state p, cp_resume p) = Some (rq_state q, rq_resume q) \<and>
             validate_transition (cp_state p) kind (rq_state q) (Some (rq_resume q))
               (the (cp_pending p) \<noteq> []) = Inr ()))"

lemma request_step:
  "request_ok a prev q \<Longrightarrow> step_ok a prev (ck_row (next_checkpoint now a prev' q))"
  by (auto simp: request_ok_def step_ok_def next_row_fields(1) unhashed_checkpoint_def Let_def
      split: option.splits if_splits)

text \<open>The intents a checkpoint names exist, and the ones it calls completed are.\<close>

definition effects_known :: "activation_row \<Rightarrow> string list \<Rightarrow> string list \<Rightarrow> 'a journal_db_scheme \<Rightarrow> bool" where
  "effects_known a pending completed s \<longleftrightarrow>
     set completed \<subseteq> set (completed_intent_ids (ac_tenant a) (ac_workflow a) s) \<and>
     set pending \<subseteq> in_id ` {i \<in> set (intents s). in_tenant i = ac_tenant a \<and> in_workflow i = ac_workflow a}"

definition disciplined :: "activation_row \<Rightarrow> 'a journal_db_scheme \<Rightarrow> bool" where
  "disciplined a s \<longleftrightarrow>
     linked (step_ok a) None (checkpoint_rows (ac_tenant a) (ac_workflow a) s) \<and>
     (\<forall>r. latest_row a s = Some r \<longrightarrow> effects_known a (the (cp_pending r)) (the (cp_completed r)) s)"

definition engine_ok :: "validators \<Rightarrow> journal_db \<Rightarrow> bool" where
  "engine_ok V s \<longleftrightarrow> journal_run V s \<and> delivery_intents s = [] \<and> delivery_completions s = [] \<and>
     (\<forall>a\<in>set (activations s). disciplined a s)"

text \<open>The current checkpoint of a workflow.\<close>

definition at :: "activation_row \<Rightarrow> checkpoint \<Rightarrow> journal_db \<Rightarrow> bool" where
  "at a k s \<longleftrightarrow> has_act a s \<and> latest_row a s = Some (ck_row k) \<and> k = loaded (ck_row k)"

lemma at_fields: "at a k s \<Longrightarrow> the (cp_pending (ck_row k)) = ck_pending k \<and> the (cp_completed (ck_row k)) = ck_completed k"
  unfolding at_def loaded_def by (metis checkpoint.select_convs(2,3))

lemma engine_chain: "engine_ok V s \<Longrightarrow> has_act a s \<Longrightarrow> workflow_chain_ok V a s"
  using journal_run_chain by (auto simp: engine_ok_def chain_inv_def has_act_def)

lemma effects_grow:
  assumes "journal_le s s'" and "effects_known a p c s"
  shows "effects_known a p c s'"
proof -
  from assms(1) have le: "set (completions s) \<subseteq> set (completions s')" "set (intents s) \<subseteq> set (intents s')"
    by (auto simp: journal_le_def dest: set_mono_prefix)
  have "set (completed_intent_ids t w s) \<subseteq> set (completed_intent_ids t w s')" for t w
    using le(1) by (auto simp: completed_intent_ids_def)
  with assms(2) le(2) show ?thesis unfolding effects_known_def by blast
qed

text \<open>Only a paused or blocked workflow has a state to resume other than its own.\<close>

lemma move_resumes:
  "engine_move kind cr = Some (c', r') \<Longrightarrow> c' \<noteq> PAUSED \<Longrightarrow> c' \<noteq> NEEDS_RECONCILIATION \<Longrightarrow> r' = c'"
  by (cases cr) (auto simp: engine_move_def split: if_splits)

lemma linked_both:
  "linked P prev rs \<Longrightarrow> linked Q prev rs \<Longrightarrow> r \<in> set rs \<Longrightarrow> \<exists>p. P p r \<and> Q p r"
  by (induction rs arbitrary: prev) auto

lemma chain_resumes:
  assumes "linked (link_ok V a) prev rs" and "linked (step_ok a) prev rs" and "r \<in> set rs"
    and "cp_state r \<noteq> PAUSED" "cp_state r \<noteq> NEEDS_RECONCILIATION"
  shows "cp_resume r = cp_state r"
proof -
  from linked_both [OF assms(1-3)] obtain p where p: "link_ok V a p r" "step_ok a p r" by blast
  show ?thesis
  proof (cases p)
    case None
    with p(1) show ?thesis by (simp add: link_ok_def)
  next
    case (Some q)
    show ?thesis
    proof (cases "cp_state r = cp_state q")
      case True
      with p(2) Some show ?thesis by (simp add: step_ok_def)
    next
      case False
      from p(2) Some have "step_ok a (Some q) r" by simp
      then obtain kind where
        "engine_move kind (cp_state q, cp_resume q) = Some (cp_state r, cp_resume r)"
        unfolding step_ok_def option.case if_not_P [OF False] by blast
      from move_resumes [OF this assms(4,5)] show ?thesis .
    qed
  qed
qed

lemma at_resumes:
  assumes "engine_ok V s" and "at a k s"
    and "cp_state (ck_row k) \<noteq> PAUSED" "cp_state (ck_row k) \<noteq> NEEDS_RECONCILIATION"
  shows "cp_resume (ck_row k) = cp_state (ck_row k)"
proof -
  let ?rows = "checkpoint_rows (ac_tenant a) (ac_workflow a) s"
  have "workflow_chain_ok V a s" using engine_chain assms(1,2) by (simp add: at_def)
  moreover have "disciplined a s" using assms(1,2) by (simp add: engine_ok_def at_def has_act_def)
  moreover have "ck_row k \<in> set ?rows"
    using assms(2) by (auto simp: at_def latest_row_def last_or_def split: if_splits dest: last_in_set)
  ultimately show ?thesis
    using chain_resumes [of V a None ?rows "ck_row k"] assms(3,4)
    by (simp add: workflow_chain_ok_def disciplined_def Let_def)
qed

section \<open>Operations that write no checkpoint\<close>

lemma quiet_engine_ok:
  assumes ok: "engine_ok V s" and run: "journal_run V s'"
    and frames: "same_chain s s'" "same_delivery s s'" "journal_le s s'"
  shows "engine_ok V s'"
proof -
  have "disciplined a s'" if "a \<in> set (activations s')" for a
    using that ok frames effects_grow [OF frames(3)]
    by (auto simp: engine_ok_def disciplined_def same_chain_def checkpoint_rows_def latest_row_def)
  with ok run frames show ?thesis by (auto simp: engine_ok_def same_delivery_def)
qed

lemma quiet_at: "same_chain s s' \<Longrightarrow> at a k s \<Longrightarrow> at a k s'"
  by (simp add: at_def same_chain_def has_act_def latest_row_def checkpoint_rows_def)

lemma quiet_triple:
  assumes "keeps same_chain m" "keeps same_delivery m" "keeps journal_le m"
    and "triple (journal_run V) (has_act a) m (\<lambda>_. has_act a)"
  shows "triple (engine_ok V) (at a k) m (\<lambda>_. at a k)"
proof (rule tripleI)
  fix s x s'
  assume s: "engine_ok V s" "at a k s" "m s = (x, s')"
  then have "journal_run V s'"
    using tripleD [OF assms(4)] by (auto simp: engine_ok_def at_def)
  with s show "engine_ok V s'"
    using assms(1-3) [THEN keepsD, OF s(3)] by (blast intro: quiet_engine_ok)
next
  fix s v s'
  assume "at a k s" "m s = (Inr v, s')"
  then show "at a k s'" using assms(1) [THEN keepsD] quiet_at by blast
qed

lemma process_chain_frame: "keeps same_chain (process_intent V now fp i)"
proof -
  have "keeps same_chain (interrupt fp point)" for point
    unfolding interrupt_def by (auto split: option.split)
  moreover from this have c: "keeps same_chain (complete_intent V now fp i ob)" for ob
    unfolding complete_intent_def by (intro chain_frame.keeps_bind) auto
  moreover from calculation have e: "keeps same_chain (execute_and_complete V now fp i)"
    unfolding execute_and_complete_def
    by (intro chain_frame.keeps_bind chain_frame.keeps_if c) auto
  ultimately show ?thesis
    unfolding process_intent_def
    by (intro chain_frame.keeps_bind chain_frame.keeps_option chain_frame.keeps_if c e) auto
qed

section \<open>Writing the next checkpoint\<close>

lemma ensure_engine_ok:
  assumes ok: "engine_ok V s" and a: "has_act a s" and q: "request_ok a (latest_row a s) q"
    and known: "effects_known a (rq_pending q) (rq_completed q) s"
    and run: "ensure_checkpoint V now a q s = (x, s')"
  shows "engine_ok V s' \<and> (\<forall>k. x = Inr k \<longrightarrow> at a k s' \<and> cp_state (ck_row k) = rq_state q)"
proof (cases x)
  case (Inl e)
  with ok run show ?thesis by (auto dest: ensure_checkpoint_failed)
next
  case (Inr k)
  have chain: "workflow_chain_ok V a s" by (rule engine_chain [OF ok a])
  have jr: "journal_run V s'"
    using ok a run by (auto simp: engine_ok_def has_act_def intro: journal_run.intros)
  from run Inr have "ensure_checkpoint V now a q s = (Inr k, s')" by simp
  with chain show ?thesis
  proof (cases rule: ensure_checkpoint_cases)
    case same
    with ok a Inr show ?thesis by (simp add: at_def same_checkpoint_def)
  next
    case appended
    let ?r = "ck_row k"
    have acts: "activations s' = activations s" by (simp add: appended(2) appended_checkpoint_def)
    have rows: "checkpoint_rows (ac_tenant a) (ac_workflow a) s' =
        checkpoint_rows (ac_tenant a) (ac_workflow a) s @ [?r]"
      by (rule rows_appended [OF chain appended(3)]) (simp add: appended(2) appended_checkpoint_def)
    then have last: "latest_row a s' = Some ?r" by (simp add: latest_row_def)
    have step: "step_ok a (latest_row a s) ?r"
      using request_step [OF q] appended(1) by simp
    have k: "k = loaded ?r" using appended(1) loaded_next by metis
    have le: "journal_le s s'" by (rule keepsD [OF journal.keeps_checkpoint(4) run])
    have "ck_pending k = sorted_set (rq_pending q)" "ck_completed k = sorted_set (rq_completed q)"
      using appended(1) by (simp_all add: next_row_fields)
    then have "effects_known a (ck_pending k) (ck_completed k) s'"
      using effects_grow [OF le known] by (simp add: effects_known_def)
    moreover have "the (cp_pending ?r) = ck_pending k" "the (cp_completed ?r) = ck_completed k"
      using k by (metis loaded_def checkpoint.select_convs(2,3))+
    ultimately have "disciplined a s'"
      using ok a step unfolding disciplined_def rows last
      by (auto simp: engine_ok_def has_act_def disciplined_def latest_row_def)
    moreover have "disciplined b s'" if b: "b \<in> set (activations s)" "b \<noteq> a" for b
    proof -
      from ok have "keys_ok s" using journal_run_inv by (auto simp: engine_ok_def ticket_inv_def)
      with a b have "ac_tenant b \<noteq> ac_tenant a \<or> ac_workflow b \<noteq> ac_workflow a"
        by (auto simp: keys_ok_def activation_clash_def has_act_def)
      moreover from appended(3) have "cp_tenant ?r = ac_tenant a" "cp_workflow ?r = ac_workflow a"
        by (simp_all add: link_ok_def)
      ultimately have "checkpoint_rows (ac_tenant b) (ac_workflow b) s' =
          checkpoint_rows (ac_tenant b) (ac_workflow b) s"
        by (auto simp: checkpoint_rows_def appended(2) appended_checkpoint_def)
      then show ?thesis
        using ok b(1) effects_grow [OF le] by (auto simp: engine_ok_def disciplined_def latest_row_def)
    qed
    ultimately have "\<forall>b\<in>set (activations s'). disciplined b s'" by (auto simp: acts)
    moreover have "same_delivery s s'" by (rule keepsD [OF delivery_frame.keeps_checkpoint(4) run])
    ultimately have "engine_ok V s'" using ok jr by (auto simp: engine_ok_def same_delivery_def)
    moreover have "cp_state ?r = rq_state q"
      using appended(1) by (simp add: next_row_fields(1) unhashed_checkpoint_def Let_def)
    ultimately show ?thesis using a last k acts Inr by (auto simp: at_def has_act_def)
  qed
qed

lemma ensure_triple:
  assumes "\<And>s. engine_ok V s \<Longrightarrow> P s \<Longrightarrow> has_act a s \<and> request_ok a (latest_row a s) q \<and>
    effects_known a (rq_pending q) (rq_completed q) s"
  shows "triple (engine_ok V) P (ensure_checkpoint V now a q)
    (\<lambda>k s. at a k s \<and> cp_state (ck_row k) = rq_state q)"
  by (rule tripleI) (use assms ensure_engine_ok in blast)+

end
