(* ===== verification/DisciplinedRuns.thy ===== *)
theory DisciplinedRuns
  imports ChainDiscipline
begin

text \<open>
  The operations of the engine, started from the current checkpoint of a workflow, keep the
  discipline of the chain on every path and return the checkpoint that is then current.
\<close>

lemma sync_at: "triple (engine_ok V) (at a k) (sync_case_state V a k') (\<lambda>_. at a k)"
  by (rule quiet_triple [OF sync_chain_frame delivery_frame.keeps_sync journal.keeps_sync atomic_triples(2)])

lemma sla_at: "triple (engine_ok V) (at a k) (record_sla_expiry now a k') (\<lambda>_. at a k)"
  by (rule quiet_triple [OF record_chain_frame(4) delivery_frame.keeps_sla journal.keeps_sla atomic_triples(3)])

lemma persist_at: "triple (engine_ok V) (at a k) (persist_command V a k' c) (\<lambda>_. at a k)"
  by (rule quiet_triple [OF record_chain_frame(5) delivery_frame.keeps_persist_command
        journal.keeps_persist_command atomic_triples(4)])

text \<open>The effects the current checkpoint names are known to the store.\<close>

lemma at_effects:
  assumes "engine_ok V s" and "at a k s"
  shows "effects_known a (ck_pending k) (ck_completed k) s"
proof -
  from assms have "disciplined a s" by (simp add: engine_ok_def at_def has_act_def)
  with assms(2) at_fields [OF assms(2)] show ?thesis by (auto simp: disciplined_def at_def)
qed

lemma unresolved_known:
  "effects_known a (unresolved_intent_ids (ac_tenant a) (ac_workflow a) s)
     (completed_intent_ids (ac_tenant a) (ac_workflow a) s) s"
  by (auto simp: effects_known_def unresolved_intent_ids_def)

lemma all_effects:
  assumes "engine_ok V s"
  shows "set (all_pending_intent_ids t w s) = set (unresolved_intent_ids t w s)"
    and "set (all_completed_intent_ids t w s) = set (completed_intent_ids t w s)"
  using assms by (simp_all add: engine_ok_def all_pending_intent_ids_def all_completed_intent_ids_def
      pending_delivery_intent_ids_def completed_delivery_intent_ids_def)

section \<open>Transitions\<close>

text \<open>The two transitions the table allows from a state to itself.\<close>

definition stands_still :: "checkpoint \<Rightarrow> string \<Rightarrow> bool" where
  "stands_still k kind \<longleftrightarrow>
     kind = SLA_EXPIRED \<and> cp_state (ck_row k) = WAITING_FOR_OPERATOR \<or>
     kind = RECONCILIATION_REQUIRED \<and> cp_state (ck_row k) = NEEDS_RECONCILIATION"

lemma transition_moves:
  assumes "validate_transition (cp_state (ck_row k)) kind n r u = Inr ()" and "\<not> stands_still k kind"
  shows "n \<noteq> cp_state (ck_row k)"
  using assms
  by (auto simp: stands_still_def allowed_targets_def TERMINAL_STATES_def split: if_splits option.splits)

definition lists_ok :: "activation_row \<Rightarrow> checkpoint \<Rightarrow> move \<Rightarrow> journal_db \<Rightarrow> bool" where
  "lists_ok a k m s \<longleftrightarrow>
     effects_known a (given_or (mv_pending m) (ck_pending k)) (given_or (mv_completed m) (ck_completed k)) s \<and>
     set (ck_completed k) \<subseteq> set (given_or (mv_completed m) (ck_completed k))"

lemma lists_kept:
  "engine_ok V s \<Longrightarrow> at a k s \<Longrightarrow> mv_pending m = None \<Longrightarrow> mv_completed m = None \<Longrightarrow> lists_ok a k m s"
  using at_effects [of V s a k] by (simp add: lists_ok_def given_or_def)

lemma lists_queried:
  assumes "engine_ok V s" and "at a k s" and "mv_pending m = Some p" and "mv_completed m = Some c"
    and "set p \<subseteq> set (unresolved_intent_ids (ac_tenant a) (ac_workflow a) s)"
    and "set c = set (completed_intent_ids (ac_tenant a) (ac_workflow a) s)"
  shows "lists_ok a k m s"
  using at_effects [OF assms(1,2)] unresolved_known [of a s] assms(3-6)
  by (auto simp: lists_ok_def given_or_def effects_known_def)

lemma transition_at:
  assumes still: "\<not> stands_still k (mv_kind m)"
    and move: "engine_move (mv_kind m) (cp_state (ck_row k), cp_resume (ck_row k)) =
      Some (mv_next m, mv_resume m)"
    and lists: "\<And>s. engine_ok V s \<Longrightarrow> P s \<Longrightarrow> at a k s \<and> lists_ok a k m s"
  shows "triple (engine_ok V) P (workflow_transition V now fp a k m) (\<lambda>k'. at a k')"
proof -
  have "triple (engine_ok V) P (ensure_checkpoint V now a (move_request k m)) (\<lambda>k'. at a k')"
    if valid: "validate_transition (cp_state (ck_row k)) (mv_kind m) (mv_next m) (Some (mv_resume m))
        (ck_pending k \<noteq> []) = Inr ()"
  proof (rule triple_weaken [OF ensure_triple [of V P]])
    fix s assume s: "engine_ok V s" "P s"
    from lists [OF s] have l: "at a k s" "lists_ok a k m s" by simp_all
    have "request_ok a (Some (ck_row k)) (move_request k m)"
      using l transition_moves [OF valid still] valid move at_fields [OF l(1)]
      by (simp add: request_ok_def move_request_def lists_ok_def)
    with l show "has_act a s \<and> request_ok a (latest_row a s) (move_request k m) \<and>
        effects_known a (rq_pending (move_request k m)) (rq_completed (move_request k m)) s"
      by (simp add: at_def lists_ok_def move_request_def)
  qed simp_all
  then have step: "triple (engine_ok V) (\<lambda>s. P s \<and> catch_res (\<lambda>_. True) (\<lambda>e. Inl (WorkflowError (reason_code e)))
      (validate_transition (cp_state (ck_row k)) (mv_kind m) (mv_next m) (Some (mv_resume m))
        (ck_pending k \<noteq> [])) = Inr u)
    (ensure_checkpoint V now a (move_request k m)) (\<lambda>k'. at a k')" for u
    by (intro triple_pre) auto
  show ?thesis
    unfolding workflow_transition_def
    by (intro triple_bind [OF triple_lift] triple_bind [OF step] triple_bind [OF interrupt_triple]
        triple_bind [OF sync_at] triple_ret)
qed

section \<open>SLA expiry and reconciliation\<close>

lemma expire_at:
  assumes "cp_state (ck_row k) \<noteq> WAITING_FOR_OPERATOR"
  shows "triple (engine_ok V) (at a k) (expire_sla V now fp a k) (at a)"
  unfolding expire_sla_def
  by (intro triple_bind [OF sla_at] transition_at)
    (use assms in \<open>auto simp: stands_still_def intro: lists_kept\<close>)

lemma check_sla_at:
  "triple (engine_ok V) (at a k) (check_sla V now fp a k) (\<lambda>_ _. True)"
proof -
  have e: "triple (engine_ok V) (at a k) (bind (expire_sla V now fp a k) (\<lambda>k'. ret (Some k'))) (\<lambda>_ _. True)"
    if "cp_state (ck_row k) \<noteq> WAITING_FOR_OPERATOR"
    by (rule triple_bind [OF expire_at [OF that]]) (simp add: triple_def)
  have n: "triple (engine_ok V) (at a k) (ret (None :: checkpoint option)) (\<lambda>_ _. True)"
    by (simp add: triple_def)
  have "triple (engine_ok V) (at a k)
      (if passed \<and> \<not> complete \<and>
          cp_state (ck_row k) \<notin> {WAITING_FOR_OPERATOR, NEEDS_RECONCILIATION, CANCELLED}
       then bind (expire_sla V now fp a k) (\<lambda>k'. ret (Some k'))
       else ret None) (\<lambda>_ _. True)" for passed complete
    using e n by (cases "cp_state (ck_row k) = WAITING_FOR_OPERATOR") simp_all
  then show ?thesis
    unfolding check_sla_def by (intro triple_bind [OF triple_pure(5)] triple_bind [OF triple_pure(4)])
qed

lemma reconciliation_at:
  "triple (engine_ok V) (at a k) (enter_reconciliation V now fp a k c) (at a)"
  unfolding enter_reconciliation_def
proof (cases "cp_state (ck_row k) = NEEDS_RECONCILIATION", goal_cases)
  case 1
  then show ?case by (simp only: if_True refl triple_ret)
next
  case 2
  then show ?case
    unfolding if_not_P [OF 2]
    by (intro triple_bind [OF triple_query] transition_at)
      (auto simp: stands_still_def all_effects intro!: lists_queried)
qed

lemma resume_at:
  "triple (engine_ok V) (at a k) (resume_reconciled V now fp a k)
     (\<lambda>out. at a (case out of None \<Rightarrow> k | Some k' \<Rightarrow> k'))"
proof -
  have "triple (engine_ok V) (at a k')
    (ret (Some k')) (\<lambda>out. at a (case out of None \<Rightarrow> k | Some k' \<Rightarrow> k'))" for k'
    by (simp add: triple_def)
  moreover have "triple (engine_ok V) (\<lambda>s. at a k s \<and> u = unresolved_intent_ids (ac_tenant a) (ac_workflow a) s)
    (ret None) (\<lambda>out. at a (case out of None \<Rightarrow> k | Some k' \<Rightarrow> k'))" for u
    by (simp add: triple_def)
  ultimately show ?thesis
    unfolding resume_reconciled_def
    by (intro triple_bind [OF triple_query] triple_cases(1) triple_bind [OF transition_at])
      (auto simp: stands_still_def intro!: lists_queried)
qed

section \<open>One effect\<close>

definition at_state :: "activation_row \<Rightarrow> string \<Rightarrow> checkpoint \<Rightarrow> journal_db \<Rightarrow> bool" where
  "at_state a st k s \<longleftrightarrow> at a k s \<and> cp_state (ck_row k) = st"

lemma ensure_state:
  assumes "\<And>s. engine_ok V s \<Longrightarrow> P s \<Longrightarrow> has_act a s \<and> request_ok a (latest_row a s) q \<and>
    effects_known a (rq_pending q) (rq_completed q) s \<and> rq_state q = st"
  shows "triple (engine_ok V) P (ensure_checkpoint V now a q) (at_state a st)"
  using ensure_triple [of V P a q now] assms unfolding triple_def at_state_def by blast

lemma progress_at:
  assumes st: "st \<noteq> PAUSED" "st \<noteq> NEEDS_RECONCILIATION"
  shows "triple (engine_ok V) (at_state a st k) (progress_checkpoint V now fp a k c) (at_state a st)"
proof -
  let ?w = "unresolved_intent_ids (ac_tenant a) (ac_workflow a)"
  let ?d = "completed_intent_ids (ac_tenant a) (ac_workflow a)"
  have e: "triple (engine_ok V) (\<lambda>s. (at_state a st k s \<and> d = ?d s) \<and> u = ?w s)
    (ensure_checkpoint V now a
       \<lparr>rq_state = cp_state (ck_row k), rq_resume = cp_state (ck_row k), rq_pending = u,
        rq_completed = d, rq_causation = Some c, rq_kind = None\<rparr>) (at_state a st)" for u d
  proof (rule ensure_state)
    fix s assume ok: "engine_ok V s" and s: "(at_state a st k s \<and> d = ?d s) \<and> u = ?w s"
    then have k: "at a k s" "cp_state (ck_row k) = st" by (simp_all add: at_state_def)
    with s st ok at_effects [of V s a k] at_fields [of a k s] unresolved_known [of a s]
      at_resumes [of V s a k]
    show "has_act a s \<and> request_ok a (latest_row a s)
       \<lparr>rq_state = cp_state (ck_row k), rq_resume = cp_state (ck_row k), rq_pending = u,
        rq_completed = d, rq_causation = Some c, rq_kind = None\<rparr> \<and>
       effects_known a (rq_pending \<lparr>rq_state = cp_state (ck_row k), rq_resume = cp_state (ck_row k),
         rq_pending = u, rq_completed = d, rq_causation = Some c, rq_kind = None\<rparr>)
       (rq_completed \<lparr>rq_state = cp_state (ck_row k), rq_resume = cp_state (ck_row k), rq_pending = u,
        rq_completed = d, rq_causation = Some c, rq_kind = None\<rparr>) s \<and>
       rq_state \<lparr>rq_state = cp_state (ck_row k), rq_resume = cp_state (ck_row k), rq_pending = u,
        rq_completed = d, rq_causation = Some c, rq_kind = None\<rparr> = st"
      by (simp add: at_def request_ok_def effects_known_def)
  qed
  have i: "triple (engine_ok V) (at_state a st k')
      (bind (if cp_id (ck_row k') \<noteq> cp_id (ck_row k) then interrupt fp ''checkpoint'' else ret ())
        (\<lambda>_. ret k')) (at_state a st)" for k'
    by (intro triple_bind [where Q = "\<lambda>_. at_state a st k'"] triple_cases(1) interrupt_triple triple_ret)
  show ?thesis
    unfolding progress_checkpoint_def
    by (intro triple_bind [OF triple_query] triple_bind [OF e] i)
qed

lemma process_at:
  "triple (engine_ok V) (\<lambda>s. at a k s \<and> has_int a i s) (process_intent V now fp i) (\<lambda>_. at a k)"
proof (rule tripleI)
  fix s x s'
  assume s: "engine_ok V s" "at a k s \<and> has_int a i s" "process_intent V now fp i s = (x, s')"
  then have "journal_run V s'"
    using tripleD [OF process_triple] by (auto simp: engine_ok_def)
  with s show "engine_ok V s'"
    using keepsD [OF process_chain_frame s(3)] keepsD [OF delivery_frame.keeps_process_intent s(3)]
      keepsD [OF journal.keeps_process_intent s(3)]
    by (intro quiet_engine_ok [of V s s']) simp_all
next
  fix s v s'
  assume "at a k s \<and> has_int a i s" "process_intent V now fp i s = (Inr v, s')"
  then show "at a k s'" using keepsD [OF process_chain_frame] quiet_at by blast
qed

lemma process_at_state:
  "triple (engine_ok V) (\<lambda>s. at_state a st k s \<and> has_int a i s) (process_intent V now fp i)
     (\<lambda>_. at_state a st k)"
  using process_at [of V a k i now fp] unfolding triple_def at_state_def by blast

lemma intent_act:
  "triple (journal_run V) (has_act a) (ensure_intent V now a k op) (\<lambda>_. has_act a)"
  by (rule triple_weaken [OF intent_triple]) (auto simp: has_int_def has_act_def)

lemma intent_at:
  "triple (engine_ok V) (at a k) (ensure_intent V now a k op) (\<lambda>ib s. at a k s \<and> has_int a (fst ib) s)"
proof (rule tripleI)
  fix s x s'
  assume s: "engine_ok V s" "at a k s" "ensure_intent V now a k op s = (x, s')"
  then show "engine_ok V s'"
    using tripleD [OF quiet_triple [OF record_chain_frame(1) delivery_frame.keeps_ensure_intent
          journal.keeps_ensure_intent intent_act]] by blast
next
  fix s v s'
  assume s: "engine_ok V s" "at a k s" "ensure_intent V now a k op s = (Inr v, s')"
  have "has_int a (fst v) s'"
    using s intent_triple [of V a now k op] unfolding triple_def engine_ok_def at_def by blast
  moreover have "at a k s'"
    using s keepsD [OF record_chain_frame(1)] quiet_at by blast
  ultimately show "at a k s' \<and> has_int a (fst v) s'" by simp
qed

lemma intent_at_state:
  "triple (engine_ok V) (at_state a st k) (ensure_intent V now a k op)
     (\<lambda>ib s. at_state a st k s \<and> has_int a (fst ib) s)"
  using intent_at [of V a k now op] unfolding triple_def at_state_def by blast

text \<open>A driven effect stays in the state it started in, unless it enters reconciliation.\<close>

lemma drive_at:
  assumes st: "st \<noteq> PAUSED" "st \<noteq> NEEDS_RECONCILIATION"
  shows "triple (engine_ok V) (at_state a st k) (drive_effect V now fp a k op)
    (\<lambda>(k', done). if done then at_state a st k' else at a k')"
  unfolding drive_effect_def
proof (rule triple_bind [OF intent_at_state], goal_cases)
  case (1 ib)
  obtain i b where ib: "ib = (i, b)" by fastforce
  have p: "triple (engine_ok V) (\<lambda>s. at_state a st k s \<and> has_int a i s) (progress_checkpoint V now fp a k c)
      (\<lambda>k' s. at_state a st k' s \<and> has_int a i s)" for c
    by (rule triple_carry [OF progress_at [OF st] journal.keeps_progress]) (rule has_int_grows)
  have last: "triple (engine_ok V) (at_state a st k1)
      (case completion of
         None \<Rightarrow> bind (enter_reconciliation V now fp a k1 c1) (\<lambda>k2. ret (k2, False))
       | Some c \<Rightarrow> bind (progress_checkpoint V now fp a k1 (c2 c)) (\<lambda>k2. ret (k2, True)))
      (\<lambda>(k', done). if done then at_state a st k' else at a k')" for completion k1 c1 c2
  proof -
    have r: "triple (engine_ok V) (at a k2) (ret (k2, False))
        (\<lambda>(k', done). if done then at_state a st k' else at a k')" for k2
      by (simp add: triple_def)
    have r': "triple (engine_ok V) (at_state a st k2) (ret (k2, True))
        (\<lambda>(k', done). if done then at_state a st k' else at a k')" for k2
      by (simp add: triple_def)
    have e: "triple (engine_ok V) (at_state a st k1) (enter_reconciliation V now fp a k1 c1) (at a)"
      by (rule triple_weaken [OF reconciliation_at]) (simp_all add: at_state_def)
    show ?thesis
      by (intro triple_cases(2) triple_bind [OF e] triple_bind [OF progress_at [OF st]] r r')
  qed
  have first: "triple (engine_ok V) (\<lambda>s. at_state a st k s \<and> has_int a i s)
      (if b then interrupt fp ''intent'' else ret ()) (\<lambda>_ s. at_state a st k s \<and> has_int a i s)"
    by (intro triple_cases(1) interrupt_triple triple_pure)
  show ?case
    unfolding ib split fst_conv
    by (intro triple_bind [OF first] triple_bind [OF p] triple_bind [OF process_at_state] last)
qed

lemma handoff_at:
  "triple (engine_ok V) (at_state a RECEIVED k) (ticket_handoff V now fp a k) (at a)"
proof -
  have t: "triple (engine_ok V) (at_state a RECEIVED k2) (workflow_transition V now fp a k2
      \<lparr>mv_kind = TICKET_HANDOFF_COMPLETE, mv_next = TICKET_READY, mv_resume = TICKET_READY,
       mv_causation = Some ''ticket-handoff:complete'', mv_pending = None, mv_completed = None\<rparr>) (at a)" for k2
    by (rule transition_at) (auto simp: stands_still_def at_state_def intro: lists_kept)
  have w: "triple (engine_ok V) (at_state a st k2) (ret k2) (at a)" for k2 st
    by (simp add: triple_def at_state_def)
  have d: "RECEIVED \<noteq> PAUSED" "RECEIVED \<noteq> NEEDS_RECONCILIATION" by simp_all
  have second: "triple (engine_ok V) (at_state a RECEIVED k1)
    (bind (drive_effect V now fp a k1 WORKFLOW_HANDOFF) (\<lambda>(k2, handed).
          if \<not> handed then ret k2
          else workflow_transition V now fp a k2
                 \<lparr>mv_kind = TICKET_HANDOFF_COMPLETE, mv_next = TICKET_READY,
                  mv_resume = TICKET_READY, mv_causation = Some ''ticket-handoff:complete'',
                  mv_pending = None, mv_completed = None\<rparr>)) (at a)" for k1
    by (rule triple_bind [OF drive_at [OF d]]) (auto intro!: triple_ret t)
  show ?thesis
    unfolding ticket_handoff_def
    by (rule triple_bind [OF drive_at [OF d]]) (auto intro!: triple_ret second)
qed

lemma recover_reconciliation_at:
  "triple (engine_ok V) (at a k) (recover_reconciliation V now fp a k)
     (\<lambda>out. at a (case out of None \<Rightarrow> k | Some k' \<Rightarrow> k'))"
proof -
  have i: "triple (engine_ok V) (\<lambda>s. at a k s \<and> u = unresolved_intent_ids (ac_tenant a) (ac_workflow a) s)
    (bind (query (intent_by_id (ac_tenant a) j)) lift_res) (\<lambda>i s. at a k s \<and> has_int a i s)" for u j
    by (auto simp: triple_def bind_eq_Inr bind_def lift_res_eq_Inr has_int_def has_act_def at_def
        intent_by_id_mem split: sum.splits)
  have r: "triple (engine_ok V) (\<lambda>s. at a k s \<and> u = unresolved_intent_ids (ac_tenant a) (ac_workflow a) s)
    (resume_reconciled V now fp a k) (\<lambda>out. at a (case out of None \<Rightarrow> k | Some k' \<Rightarrow> k'))" for u
    by (rule triple_weaken [OF resume_at]) auto
  have n: "triple (engine_ok V) (at a k) (ret None) (\<lambda>out. at a (case out of None \<Rightarrow> k | Some k' \<Rightarrow> k'))"
    by (simp add: triple_def)
  show ?thesis
    unfolding recover_reconciliation_def
    by (intro triple_bind [OF triple_query] triple_cases(4) r triple_bind [OF i]
        triple_bind [OF process_at] triple_cases(2) n resume_at)
qed

section \<open>Commands\<close>

lemma at_act: "at a k s \<Longrightarrow> has_act a s"
  by (simp add: at_def)

lemma read_latest_at:
  "triple (engine_ok V) (has_act a)
     (bind (query (latest_checkpoint (ac_tenant a) (ac_workflow a))) lift_res)
     (\<lambda>found s. has_act a s \<and> (case found of None \<Rightarrow> latest_row a s = None | Some k \<Rightarrow> at a k s))"
proof (rule tripleI)
  fix s x s'
  assume s: "engine_ok V s" "has_act a s"
    "bind (query (latest_checkpoint (ac_tenant a) (ac_workflow a))) lift_res s = (x, s')"
  then show "engine_ok V s'" by (simp add: lift_res_def)
next
  fix s v s'
  assume s: "engine_ok V s" "has_act a s"
    "bind (query (latest_checkpoint (ac_tenant a) (ac_workflow a))) lift_res s = (Inr v, s')"
  then have "s' = s" "v = map_option loaded (latest_row a s)"
    using latest_of_chain [OF engine_chain [OF s(1,2)]] by (auto simp: lift_res_def latest_row_def)
  with s(2) show "has_act a s' \<and> (case v of None \<Rightarrow> latest_row a s' = None | Some k \<Rightarrow> at a k s')"
    by (cases "latest_row a s") (simp_all add: at_def)
qed

text \<open>A step after the latest checkpoint was read.\<close>

lemma latest_step:
  assumes "\<And>k. found = Some k \<Longrightarrow> triple (engine_ok V) (at a k) (f k) Q"
    and "triple (engine_ok V) (has_act a) m Q"
  shows "triple (engine_ok V)
    (\<lambda>s. has_act a s \<and> (case found of None \<Rightarrow> latest_row a s = None | Some k \<Rightarrow> at a k s))
    (case found of None \<Rightarrow> m | Some k \<Rightarrow> f k) Q"
proof (cases found)
  case None
  with assms(2) show ?thesis by (simp add: triple_weaken)
next
  case (Some k)
  with assms(1) [OF Some] show ?thesis by (simp add: triple_weaken)
qed

lemma apply_at:
  "triple (engine_ok V) (has_act a) (apply_persisted_command V now a c) (\<lambda>_. has_act a)"
proof -
  have t: "triple (engine_ok V) (at a k) (workflow_transition V now None a k (command_move k c n)) (at a)"
    if "cm_type c = PAUSE \<and> n = PAUSED \<or> cm_type c = RESUME \<and> n = cp_resume (ck_row k) \<or>
      cm_type c = CANCEL \<and> n = CANCELLED" for k n
    by (rule transition_at) (use that in \<open>auto simp: stands_still_def command_move_def intro: lists_kept\<close>)
  have d: "triple (engine_ok V) (at a k) (ret x) (\<lambda>_. has_act a)" for k and x :: string
    by (simp add: triple_def at_def)
  have e: "triple (engine_ok V) (at a k) (throw err) (\<lambda>_. has_act a)" for k and err
    by (simp add: triple_def)
  have r: "triple (engine_ok V) (at a k)
      (if cm_type c = PAUSE then
         bind (workflow_transition V now None a k (command_move k c PAUSED)) (\<lambda>_. ret ''accepted'')
       else if cm_type c = RESUME then
         bind (workflow_transition V now None a k (command_move k c (cp_resume (ck_row k))))
           (\<lambda>_. ret ''accepted'')
       else if cm_type c = CANCEL then
         bind (query (all_pending_intent_ids (ac_tenant a) (ac_workflow a))) (\<lambda>unresolved.
         if unresolved \<noteq> [] then
           bind (enter_reconciliation V now None a k (command_causation (cm_id c)))
             (\<lambda>_. ret ''requires_reconciliation'')
         else if cp_state (ck_row k) = NEEDS_RECONCILIATION then ret ''requires_reconciliation''
         else bind (workflow_transition V now None a k (command_move k c CANCELLED))
                (\<lambda>_. ret ''accepted''))
       else throw (WorkflowError ''workflow_command_not_allowlisted''))
      (\<lambda>_. has_act a)" for k
  proof -
    consider "cm_type c = PAUSE" | "cm_type c = RESUME" | "cm_type c = CANCEL"
      | "cm_type c \<noteq> PAUSE" "cm_type c \<noteq> RESUME" "cm_type c \<noteq> CANCEL" by blast
    then show ?thesis
    proof cases
      case 1
      then show ?thesis by (simp only: if_True simp_thms) (intro triple_bind [OF t] d, simp)
    next
      case 2
      then have "cm_type c \<noteq> PAUSE" by simp
      then show ?thesis using 2 by (simp only: if_False if_True simp_thms) (intro triple_bind [OF t] d, simp)
    next
      case 3
      then have ne: "cm_type c \<noteq> PAUSE" "cm_type c \<noteq> RESUME" by simp_all
      show ?thesis
        unfolding if_not_P [OF ne(1)] if_not_P [OF ne(2)] if_P [OF 3]
        by (intro triple_cases(1) triple_bind [OF t] triple_bind [OF triple_pure(3)]
            triple_bind [OF reconciliation_at] d) (simp add: 3)
    next
      case 4
      then show ?thesis by (simp only: if_False e)
    qed
  qed
  show ?thesis
    unfolding apply_persisted_command_def
    by (intro triple_bind [OF triple_pure(3)] triple_cases(1) triple_pure(1) triple_bind [OF read_latest_at]
        latest_step triple_pure(2) triple_bind [OF triple_pure(4)] r)
qed

lemma recover_command_at:
  "triple (engine_ok V) (has_act a) (recover_command V now a c) (\<lambda>_. has_act a)"
proof -
  have d: "triple (engine_ok V) (at a k) (ret ()) (\<lambda>_. has_act a)" for k
    by (simp add: triple_def at_def)
  have w: "triple (engine_ok V) (at a k) (bind (apply_persisted_command V now a c) (\<lambda>_. ret ()))
      (\<lambda>_. has_act a)" for k
    by (rule triple_weaken [OF triple_bind [OF apply_at triple_pure(1)]]) (auto simp: at_act)
  show ?thesis
    unfolding recover_command_def
    by (intro triple_bind [OF read_latest_at] latest_step triple_pure(2) triple_cases(1) d
        triple_bind [OF triple_pure(3)] w)
qed

lemma recover_commands_at:
  "triple (engine_ok V) (has_act a) (recover_commands V now a cs) (\<lambda>_. has_act a)"
proof (induction cs)
  case Nil
  show ?case unfolding recover_commands.simps by (rule triple_pure)
next
  case (Cons c cs)
  then show ?case
    unfolding recover_commands.simps
    by (intro triple_bind [where Q = "\<lambda>_. has_act a"] recover_command_at)
qed

lemma recover_pending_at:
  "triple (engine_ok V) (has_act a) (recover_pending_commands V now a) (at a)"
proof -
  have "triple (engine_ok V)
      (\<lambda>s. has_act a s \<and> (case found of None \<Rightarrow> latest_row a s = None | Some k \<Rightarrow> at a k s))
      (lift_res (present_checkpoint found)) (at a)" for found
    by (cases found) (auto simp: triple_def present_checkpoint_def)
  then show ?thesis
    unfolding recover_pending_commands_def
    by (intro triple_bind [OF triple_pure(3)] triple_bind [OF recover_commands_at]
        triple_bind [OF read_latest_at])
qed

lemma first_at:
  "triple (engine_ok V) (\<lambda>s. has_act a s \<and> latest_row a s = None) (first_checkpoint V now a) (at a)"
  unfolding first_checkpoint_def
  by (rule triple_weaken [OF ensure_triple [of V "\<lambda>s. has_act a s \<and> latest_row a s = None"]])
    (simp_all add: request_ok_def effects_known_def)

lemma submit_to_at:
  "triple (engine_ok V) (has_act a) (submit_to V now a i ty e) (\<lambda>_. has_act a)"
proof -
  have l: "triple (engine_ok V)
      (\<lambda>s. has_act a s \<and> (case found of None \<Rightarrow> latest_row a s = None | Some k \<Rightarrow> at a k s))
      (case found of Some k \<Rightarrow> ret k | None \<Rightarrow> first_checkpoint V now a) (at a)" for found
    by (cases found) (auto simp: triple_def dest: triple_value [OF first_at] tripleD [OF first_at])
  have f: "triple (engine_ok V) (at a k) (bind (apply_persisted_command V now a c) g) (\<lambda>_. has_act a)"
    if "\<And>d. triple (engine_ok V) (has_act a) (g d) (\<lambda>_. has_act a)" for c k g
    by (rule triple_weaken [OF triple_bind [OF apply_at that]]) (auto simp: at_act)
  show ?thesis
    unfolding submit_to_def Let_def
    by (intro triple_bind [OF read_latest_at] triple_bind [OF l] triple_bind [OF triple_pure(4)]
        triple_bind [OF persist_at] f triple_pure)
qed

lemma submit_at:
  "triple (engine_ok V) (\<lambda>_. True) (submit_command V now t c i ty e) (\<lambda>_ _. True)"
  unfolding submit_command_def
proof (intro triple_bind [OF triple_pure(4)] triple_bind [OF find_workflow_triple], goal_cases)
  case (1 _ found)
  show ?case
  proof (cases found)
    case None
    then show ?thesis by (simp only: option.case triple_pure)
  next
    case (Some a)
    have "triple (engine_ok V) (\<lambda>s. \<forall>b. Some a = Some b \<longrightarrow> has_act b s)
        (submit_to V now a i ty e) (\<lambda>_ _. True)"
      by (rule triple_weaken [OF submit_to_at [of V a]]) auto
    with Some show ?thesis by (simp only: option.case)
  qed
qed

end
