(* ===== verification/RebuildChecks.thy ===== *)
theory RebuildChecks
  imports DisciplinedRuns
begin

text \<open>
  The checks \<open>_validate_workflow_source\<close> makes of the runs and checkpoints of a workflow before it
  rebuilds the read model, and the journals the engine produces: they always pass.
\<close>

section \<open>The checks\<close>

definition check_runs :: "run_row list \<Rightarrow> exn + unit" where
  "check_runs rs =
     bind_res (require (rs \<noteq> [] \<and> map rn_sequence rs = map int [1..<Suc (length rs)]) journal_invalid)
       (\<lambda>_. each_res (\<lambda>r. require (rn_status r = run_status (rn_state r)) journal_invalid) rs)"

definition check_identity :: "activation_row \<Rightarrow> checkpoint \<Rightarrow> run_row \<Rightarrow> exn + unit" where
  "check_identity a k run =
     (let r = ck_row k in
      require (cp_tenant r = ac_tenant a \<and> cp_case r = ac_case a \<and> cp_revision r = ac_revision a \<and>
        cp_workflow r = ac_workflow a \<and> cp_definition r = ac_definition a \<and>
        cp_correlation r = ac_correlation a \<and> cp_deadline r = ac_deadline a \<and>
        cp_sha256 r = checkpoint_hash (checkpoint_payload k) \<and> rn_state run = cp_state r) journal_invalid)"

definition check_step :: "activation_row \<Rightarrow> checkpoint option \<Rightarrow> checkpoint \<Rightarrow> exn + unit" where
  "check_step a previous k =
     (let r = ck_row k in
      case previous of
        None \<Rightarrow> require (cp_state r = RECEIVED \<and> cp_resume r = RECEIVED \<and> cp_version r = 0 \<and>
          cp_kind r = None \<and> cp_causation r = Some (ac_source a)) journal_invalid
      | Some p \<Rightarrow>
          bind_res (require (cp_version r = cp_version (ck_row p) + 1) journal_invalid) (\<lambda>_.
          if cp_state r = cp_state (ck_row p)
          then require (cp_kind r = None \<and> cp_resume r = cp_state r) journal_invalid
          else case cp_kind r of
                 None \<Rightarrow> Inl journal_invalid
               | Some kind \<Rightarrow> catch_res (\<lambda>_. True) (\<lambda>_. Inl journal_invalid)
                   (validate_transition (cp_state (ck_row p)) kind (cp_state r) (Some (cp_resume r))
                      (ck_pending p \<noteq> []))))"

fun check_checkpoints ::
  "activation_row \<Rightarrow> checkpoint option \<Rightarrow> checkpoint list \<Rightarrow> run_row list \<Rightarrow> exn + unit" where
  "check_checkpoints a previous [] rs = Inr ()"
| "check_checkpoints a previous (k # ks) [] = Inl (IndexError ''list index out of range'')"
| "check_checkpoints a previous (k # ks) (r # rs) =
     bind_res (check_identity a k r) (\<lambda>_.
     bind_res (check_step a previous k) (\<lambda>_. check_checkpoints a (Some k) ks rs))"

definition as_invalid_journal :: "exn + unit \<Rightarrow> exn + unit" where
  "as_invalid_journal = catch_res is_contract_error (\<lambda>_. Inl journal_invalid)"

definition validate_checkpoint_source ::
  "validators \<Rightarrow> activation_row \<Rightarrow> checkpoint list \<Rightarrow> 'a journal_db_scheme \<Rightarrow> exn + unit" where
  "validate_checkpoint_source V a ks s =
     (let rs = workflow_runs (ac_tenant a) (ac_workflow a) s in
      bind_res (check_runs rs) (\<lambda>_.
      if ks = [] then require (rn_state (last rs) = RECEIVED) journal_invalid
      else
        bind_res (as_invalid_journal (validate_checkpoint_sequence V (map checkpoint_payload ks))) (\<lambda>_.
        bind_res (require (length rs = length ks + 1) journal_invalid) (\<lambda>_.
        bind_res (check_checkpoints a None ks (tl rs)) (\<lambda>_.
        require (rn_state (last rs) = cp_state (ck_row (last ks))) journal_invalid)))))"

text \<open>What the checks say of the effects the latest checkpoint names.\<close>

definition validate_latest_effects ::
  "activation_row \<Rightarrow> checkpoint \<Rightarrow> 'a journal_db_scheme \<Rightarrow> exn + unit" where
  "validate_latest_effects a k s =
     (let t = ac_tenant a; w = ac_workflow a;
          intent_ids = in_id ` set (filter (\<lambda>i. in_tenant i = t \<and> in_workflow i = w) (intents s)) \<union>
            dn_id ` set (filter (\<lambda>i. dn_tenant i = t \<and> dn_workflow i = w) (delivery_intents s));
          completed = set (completed_intent_ids t w s) \<union> set (completed_delivery_intent_ids t w s) in
      bind_res (require (set (ck_pending k) \<union> set (ck_completed k) \<subseteq> intent_ids) journal_invalid) (\<lambda>_.
      bind_res (require (set (ck_completed k) \<subseteq> completed) journal_invalid) (\<lambda>_.
      require (set (ck_pending k) \<inter> set (ck_completed k) = {}) journal_invalid)))"

section \<open>The chain passes the checkpoint contract\<close>

lemma hash_ignores_itself:
  "checkpoint_hash (checkpoint_fields r p c x) = checkpoint_hash (checkpoint_fields r p c y)"
  by (simp add: checkpoint_hash_def checkpoint_fields_def obj_without_def)

lemma payload_loaded:
  assumes "sealed V r"
  shows "validate_workflow_checkpoint V (checkpoint_payload (loaded r)) = Inr ()"
    and "cp_sha256 r = checkpoint_hash (checkpoint_payload (loaded r))"
    and "set (ck_pending (loaded r)) \<inter> set (ck_completed (loaded r)) = {}"
  using assms hash_ignores_itself
  by (auto simp: sealed_def checkpoint_payload_def loaded_def)

lemma payload_items:
  "obj_item (checkpoint_payload k) ''checkpoint_sequence'' = Inr (JInt (cp_sequence (ck_row k)))"
  "obj_get (checkpoint_payload k) ''previous_checkpoint_id'' = jopt (cp_previous (ck_row k))"
  "obj_item (checkpoint_payload k) ''checkpoint_id'' = Inr (JStr (cp_id (ck_row k)))"
  "obj_item (checkpoint_payload k) ''pending_intent_ids'' = Inr (jlist (ck_pending k))"
  "obj_item (checkpoint_payload k) ''completed_intent_ids'' = Inr (jlist (ck_completed k))"
  "obj_item (checkpoint_payload k) ''workflow_version'' = Inr (JInt (cp_version (ck_row k)))"
  "workflow_identity (checkpoint_payload k) = Inr [JStr (cp_tenant (ck_row k)), JStr (cp_case (ck_row k)),
     JStr (cp_revision (ck_row k)), JStr (cp_workflow (ck_row k))]"
  by (simp_all add: checkpoint_payload_def checkpoint_fields_def obj_item_def obj_get_def
      workflow_identity_def)

lemma py_set_jlist [simp]: "py_set (jlist xs) = Inr (map JStr xs)"
  by (simp add: py_set_def py_iter_def jlist_def list_all_iff)

definition activation_identity :: "activation_row \<Rightarrow> json list" where
  "activation_identity a = [JStr (ac_tenant a), JStr (ac_case a), JStr (ac_revision a), JStr (ac_workflow a)]"

text \<open>The scan of \<open>validate_checkpoint_sequence\<close> after the checkpoints \<open>ids\<close>, the last one \<open>prev\<close>.\<close>

definition scanned :: "activation_row \<Rightarrow> checkpoint_row option \<Rightarrow> string list \<Rightarrow> checkpoint_scan \<Rightarrow> bool" where
  "scanned a prev ids sc \<longleftrightarrow> cs_expected sc = next_of prev \<and>
     cs_previous sc = jopt (map_option cp_id prev) \<and>
     cs_identity sc = map_option (\<lambda>_. activation_identity a) prev \<and>
     cs_version sc = map_option cp_version prev \<and>
     set (cs_completed sc) = (case prev of None \<Rightarrow> {} | Some p \<Rightarrow> JStr ` set (the (cp_completed p))) \<and>
     set (cs_ids sc) = set ids"

lemma scan_step:
  assumes "scanned a prev ids sc" and "link_ok V a prev r" and "step_ok a prev r" and "cp_id r \<notin> set ids"
  shows "\<exists>sc'. checkpoint_step V sc (checkpoint_payload (loaded r)) = Inr sc' \<and>
    scanned a (Some r) (cp_id r # ids) sc'"
proof -
  from assms(2) have s: "sealed V r" by (simp add: link_ok_def)
  let ?k = "loaded r"
  have prev: "set (cs_completed sc) \<subseteq> JStr ` set (ck_completed ?k)"
    using assms(1,3) by (cases prev) (auto simp: scanned_def step_ok_def loaded_def)
  have disj: "JStr ` set (ck_pending ?k) \<inter> JStr ` set (ck_completed ?k) = {}"
    using payload_loaded(3) [OF s] by auto
  have r: "cp_sequence r = cs_expected sc" "jopt (cp_previous r) = cs_previous sc"
    "(case cs_identity sc of None \<Rightarrow> True | Some i \<Rightarrow> i = activation_identity a)"
    "(case cs_version sc of None \<Rightarrow> True | Some v \<Rightarrow> v < cp_version r)"
    using assms(1,2) by (cases prev; simp add: scanned_def link_ok_def)+
  have ident: "[JStr (cp_tenant r), JStr (cp_case r), JStr (cp_revision r), JStr (cp_workflow r)] =
      activation_identity a"
    using assms(2) by (simp add: activation_identity_def link_ok_def)
  have fresh: "cp_id r \<notin> set (cs_ids sc)" using assms(1,4) by (simp add: scanned_def)
  show ?thesis
  proof (intro exI conjI)
    show "checkpoint_step V sc (checkpoint_payload ?k) = Inr
        \<lparr>cs_expected = cs_expected sc + 1, cs_previous = JStr (cp_id r),
         cs_identity = Some (activation_identity a), cs_version = Some (cp_version r),
         cs_completed = map JStr (ck_completed ?k), cs_ids = cp_id r # cs_ids sc\<rparr>"
      using payload_loaded(1) [OF s] prev disj r fresh
      by (simp add: checkpoint_step_def payload_items ident py_int_def py_str_def)
    show "scanned a (Some r) (cp_id r # ids)
        \<lparr>cs_expected = cs_expected sc + 1, cs_previous = JStr (cp_id r),
         cs_identity = Some (activation_identity a), cs_version = Some (cp_version r),
         cs_completed = map JStr (ck_completed ?k), cs_ids = cp_id r # cs_ids sc\<rparr>"
      using assms(1) r(1) by (simp add: scanned_def next_of_def loaded_def jopt_def)
  qed
qed

lemma scan_chain:
  assumes "scanned a prev ids sc" and "linked (link_ok V a) prev rs" and "linked (step_ok a) prev rs"
    and "distinct (map cp_id rs)" and "set ids \<inter> set (map cp_id rs) = {}"
  shows "\<exists>sc'. fold_res (checkpoint_step V) sc (map (\<lambda>r. checkpoint_payload (loaded r)) rs) = Inr sc'"
  using assms
proof (induction rs arbitrary: prev ids sc)
  case (Cons r rs)
  then obtain sc' where sc': "checkpoint_step V sc (checkpoint_payload (loaded r)) = Inr sc'"
    "scanned a (Some r) (cp_id r # ids) sc'"
    using scan_step [of a prev ids sc V r] by auto
  from Cons.prems Cons.IH [OF sc'(2)] sc'(1) show ?case by auto
qed simp

lemma chain_contract:
  assumes "linked (link_ok V a) None rs" and "linked (step_ok a) None rs" and "distinct (map cp_id rs)"
    and "rs \<noteq> []"
  shows "validate_checkpoint_sequence V (map (checkpoint_payload \<circ> loaded) rs) = Inr ()"
proof -
  have "scanned a None [] checkpoint_scan_start"
    by (simp add: scanned_def checkpoint_scan_start_def next_of_def jopt_def)
  from scan_chain [OF this assms(1-3)] assms(4) show ?thesis
    by (auto simp: validate_checkpoint_sequence_def comp_def)
qed

section \<open>The journals the engine produces\<close>

text \<open>
  Any sequence of calls of the engine, each of them working from the checkpoint it read and running
  to its end, to an injected crash or to an error.
\<close>

inductive engine_run :: "validators \<Rightarrow> journal_db \<Rightarrow> bool" for V where
  opened: "fresh_journal s \<Longrightarrow> engine_run V s"
| delivered: "engine_run V s \<Longrightarrow> intake V now p t s = (x, s') \<Longrightarrow> engine_run V s'"
| qq_delivered: "engine_run V s \<Longrightarrow> intake_qq V now p t s = (x, s') \<Longrightarrow> engine_run V s'"
| rebuilt: "engine_run V s \<Longrightarrow> rebuild_projection V s = (u, s') \<Longrightarrow> engine_run V s'"
| activated: "engine_run V s \<Longrightarrow> activate_case V now t c r given s = (y, s') \<Longrightarrow> engine_run V s'"
| started: "engine_run V s \<Longrightarrow> a \<in> set (activations s) \<Longrightarrow>
    latest_checkpoint (ac_tenant a) (ac_workflow a) s = Inr None \<Longrightarrow>
    first_checkpoint V now a s = (k, s') \<Longrightarrow> engine_run V s'"
| synced: "engine_run V s \<Longrightarrow> a \<in> set (activations s) \<Longrightarrow>
    latest_checkpoint (ac_tenant a) (ac_workflow a) s = Inr (Some k) \<Longrightarrow>
    sync_case_state V a k s = (u, s') \<Longrightarrow> engine_run V s'"
| commanded: "engine_run V s \<Longrightarrow> submit_command V now t c i ty e s = (d, s') \<Longrightarrow> engine_run V s'"
| commands_recovered: "engine_run V s \<Longrightarrow> a \<in> set (activations s) \<Longrightarrow>
    recover_pending_commands V now a s = (k', s') \<Longrightarrow> engine_run V s'"
| handed_off: "engine_run V s \<Longrightarrow> a \<in> set (activations s) \<Longrightarrow>
    latest_checkpoint (ac_tenant a) (ac_workflow a) s = Inr (Some k) \<Longrightarrow>
    cp_state (ck_row k) = RECEIVED \<Longrightarrow>
    ticket_handoff V now fp a k s = (k', s') \<Longrightarrow> engine_run V s'"
| sla_expired: "engine_run V s \<Longrightarrow> a \<in> set (activations s) \<Longrightarrow>
    latest_checkpoint (ac_tenant a) (ac_workflow a) s = Inr (Some k) \<Longrightarrow>
    check_sla V now fp a k s = (k', s') \<Longrightarrow> engine_run V s'"
| reconciled: "engine_run V s \<Longrightarrow> a \<in> set (activations s) \<Longrightarrow>
    latest_checkpoint (ac_tenant a) (ac_workflow a) s = Inr (Some k) \<Longrightarrow>
    cp_state (ck_row k) = NEEDS_RECONCILIATION \<Longrightarrow>
    recover_reconciliation V now fp a k s = (out, s') \<Longrightarrow> engine_run V s'"

lemma more_engine_ok:
  assumes "engine_ok V s" and "journal_run V s'" and "ledger_db.more s' = ledger_db.more s"
  shows "engine_ok V s'"
proof -
  from assms(3) have "activations s' = activations s" "checkpoints s' = checkpoints s"
    "intents s' = intents s" "completions s' = completions s"
    "delivery_intents s' = delivery_intents s" "delivery_completions s' = delivery_completions s"
    by (cases s; cases s'; simp)+
  with assms(1,2) show ?thesis
    by (simp add: engine_ok_def disciplined_def checkpoint_rows_def latest_row_def effects_known_def
        completed_intent_ids_def)
qed

lemma ledger_step:
  assumes "engine_ok V s" and "journal_run V s \<Longrightarrow> journal_run V s'"
    and "ledger_db.more s' = ledger_db.more s"
  shows "engine_ok V s'"
proof (rule more_engine_ok [OF assms(1) _ assms(3)])
  from assms(1) have "journal_run V s" by (simp add: engine_ok_def)
  then show "journal_run V s'" by (rule assms(2))
qed

lemma activated_engine_ok:
  assumes ok: "engine_ok V s" and run: "activate_case V now t c r given s = (y, s')"
  shows "engine_ok V s'"
proof -
  have jr: "journal_run V s'" using ok run by (auto simp: engine_ok_def intro: journal_run.intros)
  consider "s' = s" | a rn where "\<forall>x\<in>set (activations s). \<not> activation_clash a x"
      "s' = s\<lparr>activations := activations s @ [a], runs := runs s @ [rn]\<rparr>"
  proof (cases y)
    case (Inl e)
    with run show ?thesis using that(1) by (auto dest: activate_failed)
  next
    case (Inr y')
    with run have "activate_case V now t c r given s = (Inr y', s')" by simp
    from activate_ok [OF this] that show ?thesis by blast
  qed
  then show ?thesis
  proof cases
    case (2 a rn)
    have "chain_inv V s" using ok journal_run_chain by (simp add: engine_ok_def)
    then have "cp_tenant r \<noteq> ac_tenant a \<or> cp_workflow r \<noteq> ac_workflow a"
      if "r \<in> set (checkpoints s)" for r
    proof -
      from \<open>chain_inv V s\<close> that obtain q where "q \<in> set (activations s)"
        "ac_tenant q = cp_tenant r" "ac_workflow q = cp_workflow r"
        by (auto simp: chain_inv_def has_activation_def list_ex_iff)
      with 2(1) show ?thesis by (fastforce simp: activation_clash_def)
    qed
    then have "filter (\<lambda>r. cp_tenant r = ac_tenant a \<and> cp_workflow r = ac_workflow a) (checkpoints s') = []"
      using 2(2) by (auto simp: filter_empty_conv)
    then have "checkpoint_rows (ac_tenant a) (ac_workflow a) s' = []" by (simp add: checkpoint_rows_def)
    then have "disciplined a s'" by (simp add: disciplined_def latest_row_def)
    moreover have "disciplined b s'" if "b \<in> set (activations s)" for b
      using ok that 2(2)
      by (simp add: engine_ok_def disciplined_def checkpoint_rows_def latest_row_def effects_known_def
          completed_intent_ids_def)
    ultimately show ?thesis using ok jr 2(2) by (auto simp: engine_ok_def)
  qed (use ok in simp)
qed

lemma latest_at:
  assumes "engine_ok V s" and "a \<in> set (activations s)"
    and "latest_checkpoint (ac_tenant a) (ac_workflow a) s = Inr found"
  shows "case found of None \<Rightarrow> has_act a s \<and> latest_row a s = None | Some k \<Rightarrow> at a k s"
proof -
  have "has_act a s" using assms(2) by (simp add: has_act_def)
  with latest_of_chain [OF engine_chain [OF assms(1)]] assms(3) show ?thesis
    by (cases "latest_row a s") (auto simp: at_def latest_row_def)
qed

lemma engine_run_ok: "engine_run V s \<Longrightarrow> engine_ok V s"
proof (induction rule: engine_run.induct)
  case (opened s)
  moreover from this have "delivery_intents s = [] \<and> delivery_completions s = []"
    by (cases s) (simp add: fresh_journal_def empty_journal_def empty_ledger_def ledger_db.defs)
  ultimately show ?case by (simp add: engine_ok_def journal_run.opened fresh_tables)
next
  case (delivered s now p t x s')
  then show ?case
    using intake_journal [OF delivered(2)] by (blast intro: ledger_step journal_run.delivered)
next
  case (qq_delivered s now p t x s')
  then show ?case
    using intake_qq_journal [OF qq_delivered(2)] by (blast intro: ledger_step journal_run.qq_delivered)
next
  case (rebuilt s u s')
  then show ?case
    using keepsD [OF rebuild_frame rebuilt(2)] unfolding same_source_def
    by (blast intro: ledger_step journal_run.rebuilt)
next
  case (activated s now t c r given y s')
  then show ?case by (blast intro: activated_engine_ok)
next
  case (started s a now k s')
  with latest_at [OF started(5,2,3)] show ?case by (auto intro: tripleD [OF first_at])
next
  case (synced s a k u s')
  with latest_at [OF synced(5,2,3)] show ?case by (auto intro: tripleD [OF sync_at])
next
  case (commanded s now t c i ty e d s')
  then show ?case by (blast intro: tripleD [OF submit_at])
next
  case (commands_recovered s a now k' s')
  then show ?case by (auto intro: tripleD [OF recover_pending_at] simp: has_act_def)
next
  case (handed_off s a k now fp k' s')
  with latest_at [OF handed_off(6,2,3)] show ?case
    by (auto intro: tripleD [OF handoff_at] simp: at_state_def)
next
  case (sla_expired s a k now fp k' s')
  with latest_at [OF sla_expired(5,2,3)] show ?case by (auto intro: tripleD [OF check_sla_at])
next
  case (reconciled s a k now fp out s')
  with latest_at [OF reconciled(6,2,3)] show ?case
    by (auto intro: tripleD [OF recover_reconciliation_at])
qed

section \<open>The checks pass\<close>

lemma check_chain:
  assumes "linked (link_ok V a) prev rs" and "linked (step_ok a) prev rs"
    and "map rn_state ms = map cp_state rs"
  shows "check_checkpoints a (map_option loaded prev) (map loaded rs) ms = Inr ()"
  using assms
proof (induction rs arbitrary: prev ms)
  case (Cons r rs)
  then obtain n ns where runs: "ms = n # ns" "rn_state n = cp_state r" "map rn_state ns = map cp_state rs"
    by (cases ms) auto
  from Cons.prems have l: "link_ok V a prev r" "step_ok a prev r" by simp_all
  then have "check_identity a (loaded r) n = Inr ()"
    using payload_loaded(2) runs(2) by (auto simp: check_identity_def link_ok_def Let_def)
  moreover from l have "check_step a (map_option loaded prev) (loaded r) = Inr ()"
    by (cases prev) (auto simp: check_step_def link_ok_def step_ok_def Let_def loaded_def split: if_splits)
  ultimately show ?case using Cons.IH [of "Some r" ns] Cons.prems runs by simp
qed simp

lemma runs_pass: "runs_follow rs states \<Longrightarrow> states \<noteq> [] \<Longrightarrow> check_runs rs = Inr ()"
  by (auto simp: runs_follow_def check_runs_def)

lemma distinct_rows:
  assumes "chain_inv V s"
  shows "distinct (map cp_id (checkpoint_rows t w s))"
proof -
  from assms have d: "distinct (map (\<lambda>r. (cp_tenant r, cp_id r)) (checkpoints s))"
    by (simp add: chain_inv_def)
  have "distinct (map cp_id (filter (\<lambda>r. cp_tenant r = t \<and> cp_workflow r = w) (checkpoints s)))"
    using d by (auto simp: distinct_map inj_on_def)
  then show ?thesis
    by (simp add: checkpoint_rows_def distinct_map)
qed

lemma completed_intents:
  assumes "completions_ok s"
  shows "set (completed_intent_ids t w s) \<subseteq>
    in_id ` set (filter (\<lambda>i. in_tenant i = t \<and> in_workflow i = w) (intents s))"
proof
  fix j assume "j \<in> set (completed_intent_ids t w s)"
  then obtain c where c: "c \<in> set (completions s)" "co_tenant c = t" "co_workflow c = w" "j = co_intent c"
    by (auto simp: completed_intent_ids_def)
  with assms obtain i where "i \<in> set (intents s)" "in_tenant i = t" "in_workflow i = w" "in_id i = j"
    by (auto simp: completions_ok_def)
  then show "j \<in> in_id ` set (filter (\<lambda>i. in_tenant i = t \<and> in_workflow i = w) (intents s))" by force
qed


text \<open>A workflow that was activated and asked for its first checkpoint.\<close>

lemma sample_started:
  obtains d s where "engine_run accept_all (snd (first_checkpoint accept_all 0 (sample_activation d) s))"
    and "sample_activation d \<in> set (activations (snd (first_checkpoint accept_all 0 (sample_activation d) s)))"
proof -
  from sample_activated obtain d rs y where act:
    "activate_case accept_all 0 ''t'' ''c'' ''r'' (Some sample_policy) sample_journal =
      (Inr y, sample_journal\<lparr>activations := [sample_activation d], runs := rs\<rparr>)" by blast
  let ?a = "sample_activation d"
  let ?s = "sample_journal\<lparr>activations := [?a], runs := rs\<rparr>"
  obtain k s' where k: "first_checkpoint accept_all 0 ?a ?s = (k, s')" by fastforce
  have r1: "engine_run accept_all ?s"
    by (rule engine_run.activated [OF engine_run.opened [OF sample_journal_fresh] act])
  have "latest_checkpoint (ac_tenant ?a) (ac_workflow ?a) ?s = Inr None"
    by (simp add: latest_checkpoint_def checkpoints_of_def checkpoint_rows_def)
  then have "engine_run accept_all s'" by (intro started [OF r1 _ _ k]) auto
  moreover have "?a \<in> set (activations s')"
    using keepsD [OF journal.keeps_checkpoint(4) k [unfolded first_checkpoint_def]]
    by (auto simp: journal_le_def dest: set_mono_prefix)
  ultimately show thesis using k that [of d ?s] by simp
qed


end
