(* ===== verification/CommandRecovery.thy ===== *)
theory CommandRecovery
  imports RebuildChecks
begin

text \<open>
  Two states of the journal that the engine can reach and whose recovery it then always refuses: a
  cancel stored while the workflow was being reconciled, and an expired workflow that was paused.
\<close>

section \<open>A cancel that is never applied\<close>

lemma recover_command_done:
  assumes "latest_checkpoint (ac_tenant a) (ac_workflow a) s = Inr (Some k)"
    and "command_checkpoint_exists (ac_tenant a) (ac_workflow a) (cm_id c) s"
  shows "recover_command V now a c s = (Inr (), s)"
  using assms by (simp add: recover_command_def bind_read)

lemma recover_commands_done:
  assumes "latest_checkpoint (ac_tenant a) (ac_workflow a) s = Inr (Some k)"
    and "\<forall>c\<in>set cs. command_checkpoint_exists (ac_tenant a) (ac_workflow a) (cm_id c) s"
  shows "recover_commands V now a (cs @ cs') s = recover_commands V now a cs' s"
  using assms(2)
proof (induction cs)
  case (Cons c cs)
  then show ?case
    using recover_command_done [OF assms(1), of c V now] by (simp add: bind_ok)
qed simp

lemma apply_refused:
  assumes "latest_checkpoint (ac_tenant a) (ac_workflow a) s = Inr (Some k)"
    and "\<not> command_checkpoint_exists (ac_tenant a) (ac_workflow a) (cm_id c) s"
    and "cp_version (ck_row k) \<noteq> cm_expected c"
  shows "apply_persisted_command V now a c s =
    (Inl (WorkflowError ''workflow_command_recovery_conflict''), s)"
  using assms by (simp add: apply_persisted_command_def bind_read bind_err)


section \<open>An expired workflow that was paused\<close>

lemma pause_after_expiry: "validate_transition WAITING_FOR_OPERATOR PAUSE PAUSED r u = Inr ()"
  by simp


text \<open>Journals in these two states.\<close>

definition stuck_activation :: activation_row where
  "stuck_activation = \<lparr>ac_tenant = ''t'', ac_workflow = ''w'', ac_id = ''a'', ac_case = ''c'',
     ac_revision = ''r'', ac_definition = WORKFLOW_DEFINITION_VERSION, ac_source = ''e'',
     ac_correlation = ''x'', ac_policy = ''p'', ac_policy_version = ''v1'', ac_deadline_seconds = 60,
     ac_deadline = ''2026-01-01T00:01:00Z'', ac_created_at = ''2026-01-01T00:00:00Z''\<rparr>"

definition stuck_checkpoint :: "int \<Rightarrow> string \<Rightarrow> checkpoint_row" where
  "stuck_checkpoint n state = \<lparr>cp_tenant = ''t'', cp_id = ''k'' @ dec_int n, cp_workflow = ''w'',
     cp_case = ''c'', cp_revision = ''r'', cp_definition = WORKFLOW_DEFINITION_VERSION,
     cp_sequence = n, cp_previous = None, cp_state = state, cp_resume = RECEIVED, cp_version = n - 1,
     cp_deadline = ''2026-01-01T00:01:00Z'', cp_pending = Some [], cp_completed = Some [],
     cp_causation = None, cp_correlation = ''x'', cp_sha256 = [], cp_kind = None,
     cp_created_at = ''2026-01-01T00:00:00Z''\<rparr>"

definition stuck_cancel :: command_row where
  "stuck_cancel = \<lparr>cm_tenant = ''t'', cm_workflow = ''w'', cm_id = ''cancel'', cm_type = CANCEL,
     cm_expected = 4, cm_payload_sha256 = [], cm_fingerprint = [],
     cm_requested_at = ''2026-01-01T00:00:30Z'', cm_accepted_at = ''2026-01-01T00:00:30Z''\<rparr>"

definition cancelled_journal :: journal_db where
  "cancelled_journal = empty_journal\<lparr>activations := [stuck_activation], commands := [stuck_cancel],
     checkpoints := [stuck_checkpoint 5 NEEDS_RECONCILIATION, stuck_checkpoint 6 RECEIVED]\<rparr>"

definition paused_journal :: journal_db where
  "paused_journal = empty_journal\<lparr>activations := [stuck_activation],
     sla_events := [\<lparr>sl_tenant = ''t'', sl_id = ''s'', sl_workflow = ''w'', sl_checkpoint = ''k1'',
       sl_deadline = ''2026-01-01T00:01:00Z'', sl_reason = ''synthetic_sla_expired'',
       sl_recorded_at = ''2026-01-01T00:02:00Z''\<rparr>],
     checkpoints := [stuck_checkpoint 1 RECEIVED, stuck_checkpoint 2 WAITING_FOR_OPERATOR,
       stuck_checkpoint 3 PAUSED]\<rparr>"



end
