(* ===== verification/MachineRefinement.thy ===== *)
theory MachineRefinement
  imports RebuildChecks
begin

text \<open>
  The journal refines the state machine of \<open>WorkflowState\<close>: read as transition kinds, the checkpoints
  of a workflow are a run of it that ends in the state of the latest checkpoint.
\<close>

definition recorded_kinds :: "checkpoint_row list \<Rightarrow> string list" where
  "recorded_kinds rs = List.map_filter cp_kind rs"

lemma recorded_kinds_snoc [simp]:
  "recorded_kinds [] = []"
  "recorded_kinds (rs @ [r]) = recorded_kinds rs @ (case cp_kind r of None \<Rightarrow> [] | Some k \<Rightarrow> [k])"
  by (simp_all add: recorded_kinds_def map_filter_def split: option.splits)

text \<open>One checkpoint is at most one step of the machine.\<close>

lemma step_refines:
  assumes "step_ok a (Some p) r" and "wf_run ks (cp_state p, cp_resume p)"
  shows "wf_run (ks @ (case cp_kind r of None \<Rightarrow> [] | Some k \<Rightarrow> [k])) (cp_state r, cp_resume r)"
proof (cases "cp_state r = cp_state p")
  case True
  with assms show ?thesis by (simp add: step_ok_def)
next
  case False
  from assms(1) obtain kind where kind: "cp_kind r = Some kind"
    "engine_move kind (cp_state p, cp_resume p) = Some (cp_state r, cp_resume r)"
    "validate_transition (cp_state p) kind (cp_state r) (Some (cp_resume r)) (the (cp_pending p) \<noteq> []) = Inr ()"
    unfolding step_ok_def option.case if_not_P [OF False] by blast
  from wf_step.step [OF kind(2,3)] advance [OF assms(2)] kind(1) show ?thesis by simp
qed

lemma chain_refines:
  assumes "linked (link_ok V a) None rs" and "linked (step_ok a) None rs" and "rs \<noteq> []"
  shows "wf_run (recorded_kinds rs) (cp_state (last rs), cp_resume (last rs))"
  using assms
proof (induction rs rule: rev_induct)
  case (snoc r rs)
  show ?case
  proof (cases "rs = []")
    case True
    with snoc.prems(1) recorded_kinds_snoc(2) [of "[]" r] show ?thesis
      by (auto simp: link_ok_def intro: wf_run.activated)
  next
    case False
    with snoc have "step_ok a (Some (last rs)) r" "wf_run (recorded_kinds rs) (cp_state (last rs), cp_resume (last rs))"
      by (auto simp: last_or_def)
    from step_refines [OF this] show ?thesis by simp
  qed
qed simp

text \<open>The state a journal records for a workflow; before its first checkpoint it is \<open>RECEIVED\<close>.\<close>

definition recorded_state :: "checkpoint list \<Rightarrow> string \<times> string" where
  "recorded_state ks = (if ks = [] then (RECEIVED, RECEIVED)
     else (cp_state (ck_row (last ks)), cp_resume (ck_row (last ks))))"



end
