(* ===== verification/TimestampFacts.thy ===== *)
theory TimestampFacts
  imports Timestamps
begin

text \<open>
  The calendar of \<open>Timestamps\<close> is right: the split of a day number into cycles inverts the day
  count of a date, and \<open>fromisoformat\<close> reads back every timestamp the program writes.
\<close>

section \<open>The calendar\<close>

lemma split_months_sum:
  assumes "0 \<le> d" and "d < sum_list ls" and "split_months ls m0 d = (m, dd)"
  shows "m0 \<le> m \<and> m < m0 + int (length ls) \<and> 0 \<le> dd \<and> dd < ls ! nat (m - m0) \<and>
         d = sum_list (take (nat (m - m0)) ls) + dd"
  using assms
proof (induction ls m0 d rule: split_months.induct)
  case (2 l ls m0 d)
  show ?case
  proof (cases "d < l")
    case True
    with 2 show ?thesis by auto
  next
    case False
    with 2 have ih: "m0 + 1 \<le> m \<and> m < m0 + 1 + int (length ls) \<and> 0 \<le> dd \<and>
        dd < ls ! nat (m - (m0 + 1)) \<and> d - l = sum_list (take (nat (m - (m0 + 1))) ls) + dd"
      by auto
    then have "nat (m - m0) = Suc (nat (m - (m0 + 1)))" by (simp add: Suc_nat_eq_nat_zadd1)
    with ih show ?thesis by simp
  qed
qed simp

lemma days_before_cycles:
  assumes "0 \<le> c" "c \<le> 24" "0 \<le> b" "b \<le> 3" "0 \<le> d" "d \<le> 3"
  shows "days_before_year (400 * a + 100 * b + 4 * c + d + 1) =
           146097 * a + 36524 * b + 1461 * c + 365 * d"
proof -
  let ?p = "400 * a + 100 * b + 4 * c + d"
  have "?p div 4 = 100 * a + 25 * b + c" by (rule int_div_pos_eq [of _ _ _ d]) (use assms in simp_all)
  moreover have "?p div 100 = 4 * a + b"
    by (rule int_div_pos_eq [of _ _ _ "4 * c + d"]) (use assms in simp_all)
  moreover have "?p div 400 = a"
    by (rule int_div_pos_eq [of _ _ _ "100 * b + 4 * c + d"]) (use assms in simp_all)
  ultimately show ?thesis by (simp add: days_before_year_def Let_def)
qed

lemma leap_cycle_end:
  assumes "0 \<le> c" "c \<le> 24" "0 \<le> b" "b \<le> 3" and "c = 24 \<longrightarrow> b = 3"
  shows "is_leap (400 * a + 100 * b + 4 * c + 4)"
proof -
  let ?y = "400 * a + 100 * b + 4 * c + 4"
  have y4: "?y mod 4 = 0"
    by (rule int_mod_pos_eq [of _ _ "100 * a + 25 * b + c + 1"]) simp_all
  show ?thesis
  proof (cases "c = 24")
    case True
    with assms have "?y = 400 * (a + 1)" by simp
    then show ?thesis using y4 by (simp only: is_leap_def mod_mult_self1_is_0) simp
  next
    case False
    have "?y mod 100 = 4 * c + 4"
      by (rule int_mod_pos_eq [of _ _ "4 * a + b"]) (use assms False in simp_all)
    with y4 assms show ?thesis by (simp add: is_leap_def)
  qed
qed

definition valid_date :: "int \<Rightarrow> int \<Rightarrow> int \<Rightarrow> bool" where
  "valid_date y m d \<longleftrightarrow>
     1 \<le> y \<and> y \<le> 9999 \<and> 1 \<le> m \<and> m \<le> 12 \<and> 1 \<le> d \<and> d \<le> month_lengths (is_leap y) ! nat (m - 1)"

lemma last_of_leap_year:
  "is_leap y \<Longrightarrow> ymd_to_day y 12 31 = days_before_year y + 365"
  by (simp add: ymd_to_day_def month_lengths_def eval_nat_numeral)

lemma day_within_year:
  assumes "0 \<le> r" "r < 365" and "split_months (month_lengths (is_leap y)) 1 r = (m, d)"
  shows "1 \<le> m \<and> m \<le> 12 \<and> 0 \<le> d \<and> d < month_lengths (is_leap y) ! nat (m - 1) \<and>
         ymd_to_day y m (d + 1) = days_before_year y + r"
proof -
  have "r < sum_list (month_lengths (is_leap y))" "length (month_lengths (is_leap y)) = 12"
    using assms(2) by (simp_all add: month_lengths_def)
  with split_months_sum [OF assms(1) _ assms(3)] show ?thesis by (simp add: ymd_to_day_def)
qed

lemma day_to_ymd_inverse:
  assumes "0 \<le> n" "n < 3652059" and "day_to_ymd n = (y, m, d)"
  shows "valid_date y m d \<and> ymd_to_day y m d = n"
proof -
  define a where "a = n div 146097"
  define r1 where "r1 = n mod 146097"
  define b where "b = r1 div 36524"
  define r2 where "r2 = r1 mod 36524"
  define c where "c = r2 div 1461"
  define r3 where "r3 = r2 mod 1461"
  define e where "e = r3 div 365"
  define r where "r = r3 mod 365"
  note defs = a_def r1_def b_def r2_def c_def r3_def e_def r_def
  have n: "n = 146097 * a + r1" and r1: "r1 = 36524 * b + r2" and r2: "r2 = 1461 * c + r3"
    and r3: "r3 = 365 * e + r" unfolding defs by simp_all
  have ab: "0 \<le> a" "a \<le> 24" "0 \<le> r1" "r1 < 146097" using assms(1,2) unfolding defs by auto
  have bb: "0 \<le> b" "b \<le> 4" "0 \<le> r2" "r2 < 36524"
    using ab(3,4) unfolding b_def r2_def by auto
  have cb: "0 \<le> c" "c \<le> 24" "0 \<le> r3" "r3 < 1461"
    using bb(3,4) unfolding c_def r3_def by auto
  have eb: "0 \<le> e" "e \<le> 4" "0 \<le> r" "r < 365"
    using cb(3,4) unfolding e_def r_def by auto
  let ?y = "400 * a + 100 * b + 4 * c + e + 1"
  have split: "day_to_ymd n = (if e = 4 \<or> b = 4 then (?y - 1, 12, 31)
      else (case split_months (month_lengths (is_leap ?y)) 1 r of (m, d) \<Rightarrow> (?y, m, d + 1)))"
    unfolding day_to_ymd_def Let_def defs ..
  consider (last) "b = 4" | (leap) "b \<noteq> 4" "e = 4" | (normal) "b \<noteq> 4" "e \<noteq> 4" by blast
  then show ?thesis
  proof cases
    case last
    with ab r1 r2 r3 cb eb have z: "c = 0" "e = 0" "r = 0" by auto
    have y: "y = 400 * a + 400" "m = 12" "d = 31" using last z split assms(3) by simp_all
    have "days_before_year (400 * a + 400) = 146097 * a + 36524 * 3 + 1461 * 24 + 365 * 3"
      using days_before_cycles [of 24 3 3 a] by (simp add: add.commute)
    moreover have leap: "is_leap (400 * a + 400)" using leap_cycle_end [of 24 3 a] by (simp add: add.commute)
    ultimately have "ymd_to_day y m d = n"
      using y last_of_leap_year [OF leap] last z n r1 r2 r3 by simp
    moreover have "valid_date y m d" using y leap ab last n r1 assms(2) bb
      by (simp add: valid_date_def month_lengths_def eval_nat_numeral)
    ultimately show ?thesis by simp
  next
    case leap
    from leap eb cb r3 have z: "r = 0" by auto
    have c3: "c \<noteq> 24" using leap(2) z r2 r3 bb by auto
    have y: "y = 400 * a + 100 * b + 4 * c + 4" "m = 12" "d = 31"
      using leap split assms(3) by simp_all
    have l: "is_leap (400 * a + 100 * b + 4 * c + 4)"
      using leap_cycle_end [of c b a] cb bb leap(1) c3 by simp
    have "400 * a + 100 * b + 4 * c + 3 + 1 = 400 * a + 100 * b + 4 * c + 4" by simp
    with days_before_cycles [of c b 3 a] cb bb leap(1)
    have "days_before_year (400 * a + 100 * b + 4 * c + 4) =
        146097 * a + 36524 * b + 1461 * c + 365 * 3" by simp
    then have "ymd_to_day y m d = n"
      using y last_of_leap_year [OF l] leap z n r1 r2 r3 by simp
    moreover have "valid_date y m d" using y l ab bb cb leap(1) c3
      by (simp add: valid_date_def month_lengths_def eval_nat_numeral)
    ultimately show ?thesis by simp
  next
    case normal
    obtain m' d' where s: "split_months (month_lengths (is_leap ?y)) 1 r = (m', d')" by fastforce
    have y: "y = ?y" "m = m'" "d = d' + 1" using normal split assms(3) s by simp_all
    note within = day_within_year [OF eb(3,4) s]
    have db: "days_before_year ?y = 146097 * a + 36524 * b + 1461 * c + 365 * e"
      using days_before_cycles [of c b e a] cb bb eb normal by simp
    have "ymd_to_day y m d = n" using within y db n r1 r2 r3 by simp
    moreover have "?y \<le> 9999"
    proof (rule ccontr)
      assume "\<not> ?y \<le> 9999"
      then have "100 * b + 4 * c + e \<ge> 399" "a = 24" using ab bb cb eb normal by auto
      then have "b = 3" "c = 24" "e = 3" using bb cb eb normal by auto
      with \<open>a = 24\<close> n r1 r2 r3 assms(2) eb show False by auto
    qed
    then have "valid_date y m d" using within y ab bb cb eb by (simp add: valid_date_def)
    ultimately show ?thesis by simp
  qed
qed

section \<open>Digits\<close>

lemma char_digit_char [simp]: "n < 10 \<Longrightarrow> char_digit (digit_char n) = Some (int n)"
  by (simp add: char_digit_def digit_char_def Let_def)

lemma char_digit_mod [simp]:
  "char_digit (digit_char (nat (k mod 10))) = Some (k mod 10)"
proof -
  have "nat (k mod 10) < 10" by (simp add: nat_less_iff)
  then show ?thesis by (simp add: char_digit_char)
qed

lemma length_pads [simp]: "length (pad2 n) = 2" "length (pad4 n) = 4" "length (pad6 n) = 6"
  by (simp_all add: pad2_def pad4_def pad6_def)

text \<open>The digits written for the powers of ten below \<open>k\<close> are those of the number modulo \<open>k\<close>.\<close>

lemma mod_step: "m = 10 * k \<Longrightarrow> n mod m = k * (n div k mod 10) + n mod k" for m n k :: int
  by (simp only: mult.commute [of 10 k]) (simp add: zmod_zmult2_eq)

lemma mod_steps:
  "n mod 100 = 10 * (n div 10 mod 10) + n mod 10"
  "n mod 1000 = 100 * (n div 100 mod 10) + n mod 100"
  "n mod 10000 = 1000 * (n div 1000 mod 10) + n mod 1000"
  "n mod 100000 = 10000 * (n div 10000 mod 10) + n mod 10000"
  "n mod 1000000 = 100000 * (n div 100000 mod 10) + n mod 100000" for n :: int
  by (rule mod_step, simp)+

lemma horner:
  fixes n :: int
  assumes "m2 = 10 * b + a"
  shows "m2 = n \<Longrightarrow> 10 * (10 * 0 + b) + a = n"
    and "m4 = 1000 * d + m3 \<Longrightarrow> m3 = 100 * c + m2 \<Longrightarrow> m4 = n \<Longrightarrow>
      10 * (10 * (10 * (10 * 0 + d) + c) + b) + a = n"
    and "m6 = 100000 * f + m5 \<Longrightarrow> m5 = 10000 * e + m4 \<Longrightarrow> m4 = 1000 * d + m3 \<Longrightarrow>
      m3 = 100 * c + m2 \<Longrightarrow> m6 = n \<Longrightarrow>
      10 * (10 * (10 * (10 * (10 * (10 * 0 + f) + e) + d) + c) + b) + a = n"
  using assms by simp_all

lemma digits_value_mod:
  "digits_value acc (digit_char (nat (n mod 10)) # cs) = digits_value (10 * acc + n mod 10) cs"
  by simp

lemmas digits_pad = digits_value_mod digits_value.simps(1) list.map div_by_1 option.inject

lemma digits_pad2:
  assumes "0 \<le> n" "n < 100"
  shows "digits_value 0 (pad2 n) = Some n"
proof -
  have "n mod 100 = n" by (rule mod_pos_pos_trivial) (fact assms)+
  then show ?thesis unfolding pad2_def digits_pad by (rule horner(1) [OF mod_steps(1)])
qed

lemma digits_pad4:
  assumes "0 \<le> n" "n < 10000"
  shows "digits_value 0 (pad4 n) = Some n"
proof -
  have "n mod 10000 = n" by (rule mod_pos_pos_trivial) (fact assms)+
  then show ?thesis unfolding pad4_def digits_pad by (rule horner(2) [OF mod_steps(1,3,2)])
qed

lemma digits_pad6:
  assumes "0 \<le> n" "n < 1000000"
  shows "digits_value 0 (pad6 n) = Some n"
proof -
  have "n mod 1000000 = n" by (rule mod_pos_pos_trivial) (fact assms)+
  then show ?thesis unfolding pad6_def digits_pad by (rule horner(3) [OF mod_steps(1,5,4,3,2)])
qed

lemma fixed_pad2 [simp]: "0 \<le> n \<Longrightarrow> n < 100 \<Longrightarrow> fixed_digits 2 (pad2 n @ s) = Some (n, s)"
  by (simp add: fixed_digits_def digits_pad2)

lemma fixed_pad4 [simp]: "0 \<le> n \<Longrightarrow> n < 10000 \<Longrightarrow> fixed_digits 4 (pad4 n @ s) = Some (n, s)"
  by (simp add: fixed_digits_def digits_pad4)

lemma expect_simps [simp]: "expect c (c # s) = Some s" "c' \<noteq> c \<Longrightarrow> expect c (c' # s) = None"
  by (simp_all add: expect_def)

text \<open>Neither digits nor the separators are \<open>Z\<close>.\<close>

lemma digit_not_z: "n < 10 \<Longrightarrow> digit_char n \<noteq> CHR ''Z''"
  using char_digit_char [of n] by (auto simp: char_digit_def Let_def)

lemma replace_z_append [simp]: "replace_z (s @ t) = replace_z s @ replace_z t"
  by (simp add: replace_z_def)

lemma replace_z_Cons [simp]:
  "replace_z (c # s) = (if c = CHR ''Z'' then ''+00:00'' else [c]) @ replace_z s"
  "replace_z [] = []"
  by (simp_all add: replace_z_def)

lemma replace_z_digits: "replace_z (map (\<lambda>i. digit_char (nat (n div i mod 10))) is) =
    map (\<lambda>i. digit_char (nat (n div i mod 10))) is"
  by (induction "is") (simp_all add: digit_not_z nat_less_iff)

lemma replace_z_pads [simp]:
  "replace_z (pad2 n) = pad2 n" "replace_z (pad4 n) = pad4 n" "replace_z (pad6 n) = pad6 n"
  by (simp_all only: pad2_def pad4_def pad6_def replace_z_digits)

section \<open>The round trip\<close>

lemma parse_iso_date:
  assumes "0 \<le> n" "n < 3652059"
  shows "parse_date (iso_date n @ s) = Some (n, s)"
proof -
  obtain y m d where ymd: "day_to_ymd n = (y, m, d)" by (cases "day_to_ymd n")
  note inv = day_to_ymd_inverse [OF assms ymd]
  have len: "\<And>i. i < 12 \<Longrightarrow> month_lengths (is_leap y) ! i \<le> 31"
    by (auto simp: month_lengths_def less_Suc_eq eval_nat_numeral)
  have b: "1 \<le> y" "y < 10000" "1 \<le> m" "m \<le> 12" "1 \<le> d" "d \<le> month_lengths (is_leap y) ! nat (m - 1)"
    using inv by (simp_all add: valid_date_def)
  have "nat (m - 1) < 12" using b by (simp add: nat_less_iff)
  with len b have "d < 100" by force
  with b inv show ?thesis by (simp add: iso_date_def ymd parse_date_def)
qed

lemma parse_fraction_pad6:
  assumes "0 \<le> f" "f < 1000000" and "char_digit c = None"
  shows "parse_fraction (CHR ''.'' # pad6 f @ c # s) = Some (f, c # s)"
proof -
  have all: "\<And>x. x \<in> set (pad6 f) \<Longrightarrow> char_digit x \<noteq> None" by (auto simp: pad6_def)
  have tw: "takeWhile (\<lambda>c. char_digit c \<noteq> None) (pad6 f @ c # s) = pad6 f"
    using all assms(3) by (subst takeWhile_append2) auto
  have ne: "pad6 f \<noteq> []" using length_pads(3) [of f] by force
  show ?thesis
    by (simp only: parse_fraction_def list.simps char.simps tw Let_def)
       (simp add: ne digits_pad6 assms)
qed

definition clock_text :: "int \<Rightarrow> string" where
  "clock_text us =
     (let s = us div us_per_second; f = us mod us_per_second
      in pad2 (s div 3600) @ '':'' @ pad2 (s div 60 mod 60) @ '':'' @
         pad2 (s mod 60) @ (if f = 0 then [] else ''.'' @ pad6 f))"

lemma parse_clock_parts:
  assumes "0 \<le> h" "h < 24" "0 \<le> mi" "mi < 60" "0 \<le> sec" "sec < 60"
    and "parse_fraction rest = Some (f, s)"
  shows "parse_clock (pad2 h @ CHR '':'' # pad2 mi @ CHR '':'' # pad2 sec @ rest) =
      Some ((h * 3600 + mi * 60 + sec) * us_per_second + f, s)"
  using assms by (simp add: parse_clock_def)

lemma parse_clock_text:
  assumes "0 \<le> us" "us < us_per_day"
  shows "parse_clock (clock_text us @ ''+00:00'') = Some (us, ''+00:00'')"
proof -
  define s where "s = us div us_per_second"
  define f where "f = us mod us_per_second"
  have us: "us = s * us_per_second + f" unfolding s_def f_def by simp
  have f: "0 \<le> f" "f < 1000000" unfolding f_def us_per_second_def by simp_all
  have s: "0 \<le> s" "s < 86400"
    using assms unfolding s_def us_per_second_def us_per_day_def by auto
  have h: "0 \<le> s div 3600" "s div 3600 < 24" and mi: "0 \<le> s div 60 mod 60" "s div 60 mod 60 < 60"
    and se: "0 \<le> s mod 60" "s mod 60 < 60" using s by auto
  have sum: "s div 3600 * 3600 + s div 60 mod 60 * 60 + s mod 60 = s"
  proof -
    have "s mod 3600 = 60 * (s div 60 mod 60) + s mod 60" using zmod_zmult2_eq [of 60 s 60] by simp
    then show ?thesis using div_mult_mod_eq [of s 3600] by linarith
  qed
  have frac: "parse_fraction ((if f = 0 then [] else ''.'' @ pad6 f) @ ''+00:00'') =
      Some (f, ''+00:00'')"
    using parse_fraction_pad6 [OF f, of "CHR ''+''" "''00:00''"]
    by (simp add: parse_fraction_def char_digit_def)
  have ct: "clock_text us = pad2 (s div 3600) @ CHR '':'' # pad2 (s div 60 mod 60) @ CHR '':'' #
      pad2 (s mod 60) @ (if f = 0 then [] else ''.'' @ pad6 f)"
    by (simp add: clock_text_def Let_def s_def f_def)
  show ?thesis
    using parse_clock_parts [OF h mi se frac]
    unfolding ct sum us [symmetric] append_assoc append_Cons .
qed

lemma timestamp_text: "timestamp t =
    iso_date (t div us_per_day) @ CHR ''T'' # clock_text (t mod us_per_day) @ ''Z''"
  by (simp add: timestamp_def clock_text_def Let_def)

lemma replace_z_texts: "replace_z (iso_date n) = iso_date n" "replace_z (clock_text us) = clock_text us"
  by (simp_all add: iso_date_def clock_text_def Let_def split: prod.splits)

lemma parse_timestamp:
  assumes "valid_instant t"
  shows "parse_iso (timestamp t) = Some (Aware t)"
proof -
  have "0 \<le> t" "t < max_instant" using assms by (simp_all add: valid_instant_def)
  then have day: "0 \<le> t div us_per_day" "t div us_per_day < 3652059"
    by (simp_all add: max_instant_def us_per_day_def us_per_second_def)
  have us: "0 \<le> t mod us_per_day" "t mod us_per_day < us_per_day"
    by (simp_all add: us_per_day_def us_per_second_def)
  have off: "parse_offset ''00:00'' = Some 0"
    by (simp add: parse_offset_def fixed_digits_def char_digit_def expect_def)
  show ?thesis
    by (simp add: parse_iso_def timestamp_text replace_z_texts fromisoformat_def
        parse_iso_date [OF day] parse_clock_text [OF us] off)
qed

text \<open>
  C32.  Timestamps round trip: for every instant a \<open>datetime\<close> can hold, the ISO text the program
  stores is read back by \<open>datetime.fromisoformat(value.replace("Z", "+00:00"))\<close> as the same aware
  instant.
\<close>

theorem timestamp_roundtrip:
  assumes "valid_instant t"
  shows "parse_iso (timestamp t) = Some (Aware t)"
  using assms by (rule parse_timestamp)

theorem timestamp_roundtrip_witness:
  "parse_iso (timestamp 63902174400000001) = Some (Aware 63902174400000001)"
  by (rule timestamp_roundtrip)
     (simp add: valid_instant_def max_instant_def us_per_day_def us_per_second_def)

end
