(* ===== verification/Policy.thy ===== *)
theory Policy
  imports Authorization TimestampFacts
begin

text \<open>
  \<open>weflow_control_kernel/policy.py\<close>: the fixture-owned capability grant, the default-deny policy
  evaluation and the content-addressed records built from it (authorization binding, approval
  request, approval decision).  Each builder validates what it built, so it returns
  \<open>exn + obj\<close>.  The keyword-only arguments of \<open>evaluate_fixture_policy\<close> are a record.
\<close>

definition API_503_POLICY_FIXTURE_ID :: string where
  "API_503_POLICY_FIXTURE_ID = ''api-503-policy-approval-delivery''"
definition API_503_DELIVERY_RESOURCE_ID :: string where
  "API_503_DELIVERY_RESOURCE_ID = ''fixture-local-im:api-503''"
definition API_503_DELIVERY_RESOURCE_SCOPE :: string where
  "API_503_DELIVERY_RESOURCE_SCOPE = API_503_DELIVERY_RESOURCE_ID"
definition API_503_POLICY_VERSION :: string where
  "API_503_POLICY_VERSION = ''fixture-policy.v1''"
definition API_503_DELIVERY_BUDGET :: int where
  "API_503_DELIVERY_BUDGET = 1"
definition FIXTURE_CONTROLLER_ROLE :: string where
  "FIXTURE_CONTROLLER_ROLE = ''fixture-controller''"
definition FIXTURE_APPROVER_ROLE :: string where
  "FIXTURE_APPROVER_ROLE = ''fixture-approver''"

definition ALLOWLISTED_ACTIONS :: "string list" where
  "ALLOWLISTED_ACTIONS = [''approval.request'', ''approval.decide'', ''outbound_delivery.execute'']"

definition api_503_policy_fixture :: "instant \<Rightarrow> obj" where
  "api_503_policy_fixture now =
     [(''fixture_id'', JStr API_503_POLICY_FIXTURE_ID),
      (''tenant_id'', JStr ''tenant-alpha''),
      (''policy_version'', JStr API_503_POLICY_VERSION),
      (''delivery_resource_id'', JStr API_503_DELIVERY_RESOURCE_ID),
      (''delivery_resource_scope'', JStr API_503_DELIVERY_RESOURCE_SCOPE),
      (''data_classification'', JStr ''synthetic''),
      (''delivery_budget'', JInt API_503_DELIVERY_BUDGET),
      (''fixed_at'', JStr (timestamp now)),
      (''network_required'', JBool False),
      (''credentials_required'', JBool False)]"

section \<open>The capability grant\<close>

definition grant_record ::
  "string \<Rightarrow> string \<Rightarrow> string \<Rightarrow> instant \<Rightarrow> string \<Rightarrow> instant \<Rightarrow> obj" where
  "grant_record tenant_id subject_id role now status expiry =
     [(''schema_id'', JStr CAPABILITY_GRANT_SCHEMA_ID),
      (''schema_version'', JStr ''v1''),
      (''tenant_id'', JStr tenant_id),
      (''grant_id'', JStr (stable_identifier ''fixture_grant'' (JObj
         [(''fixture_id'', JStr API_503_POLICY_FIXTURE_ID), (''tenant_id'', JStr tenant_id),
          (''subject_id'', JStr subject_id), (''role'', JStr role)]))),
      (''subject_id'', JStr subject_id),
      (''capability'', JStr ''fixture-policy-approval-delivery''),
      (''scopes'', jlist (sort ALLOWLISTED_ACTIONS)),
      (''issued_at'', JStr (timestamp now)),
      (''expires_at'', JStr (timestamp expiry)),
      (''status'', JStr status),
      (''grant_version'', JStr ''fixture-v1''),
      (''role'', JStr role),
      (''resource_scope'', JStr API_503_DELIVERY_RESOURCE_SCOPE),
      (''data_classifications'', jlist [''synthetic''])]"

definition issue_fixture_grant ::
  "validators \<Rightarrow> string \<Rightarrow> string \<Rightarrow> string \<Rightarrow> instant \<Rightarrow> string \<Rightarrow> instant option \<Rightarrow> exn + obj"
where
  "issue_fixture_grant V tenant_id subject_id role now status expires_at =
     bind_res (case expires_at of Some e \<Rightarrow> Inr e | None \<Rightarrow> add_seconds now 1800) (\<lambda>expiry.
     let grant = grant_record tenant_id subject_id role now status expiry;
         grant = obj_set grant ''grant_sha256'' (JStr (content_hash grant ''grant_sha256''))
     in bind_res (validate_capability_grant V grant) (\<lambda>_. Inr grant))"

section \<open>The policy decision\<close>

record policy_input =
  pi_tenant_id :: string
  pi_subject_id :: string
  pi_role :: string
  pi_action :: string
  pi_case_id :: string
  pi_case_revision_id :: string
  pi_workflow_id :: string
  pi_checkpoint_id :: string
  pi_workflow_version :: int
  pi_candidate_hash :: string
  pi_evidence_hashes :: "string list"
  pi_grant :: "obj option"
  pi_resource_id :: string
  pi_data_classification :: string
  pi_remaining_budget :: int

definition grant_hash_of :: "obj option \<Rightarrow> string" where
  "grant_hash_of g = (let zero = replicate 64 CHR ''0'' in
     case g of None \<Rightarrow> zero | Some grant \<Rightarrow> py_str (obj_get_or grant ''grant_sha256'' (JStr zero)))"

definition grant_id_of :: "obj option \<Rightarrow> string" where
  "grant_id_of g = (case g of None \<Rightarrow> ''grant-unavailable''
     | Some grant \<Rightarrow> py_str (obj_get_or grant ''grant_id'' (JStr ''grant-unavailable'')))"

definition policy_input_material :: "policy_input \<Rightarrow> json" where
  "policy_input_material q = JObj
     [(''tenant_id'', JStr (pi_tenant_id q)),
      (''subject_id'', JStr (pi_subject_id q)),
      (''role'', JStr (pi_role q)),
      (''action'', JStr (pi_action q)),
      (''case_id'', JStr (pi_case_id q)),
      (''case_revision_id'', JStr (pi_case_revision_id q)),
      (''workflow_id'', JStr (pi_workflow_id q)),
      (''checkpoint_id'', JStr (pi_checkpoint_id q)),
      (''workflow_version'', JInt (pi_workflow_version q)),
      (''candidate_hash'', JStr (pi_candidate_hash q)),
      (''evidence_hashes'', jlist (pi_evidence_hashes q)),
      (''resource_id'', JStr (pi_resource_id q)),
      (''data_classification'', JStr (pi_data_classification q)),
      (''remaining_budget'', JInt (pi_remaining_budget q)),
      (''policy_version'', JStr API_503_POLICY_VERSION),
      (''grant_id'', JStr (grant_id_of (pi_grant q))),
      (''grant_sha256'', JStr (grant_hash_of (pi_grant q)))]"

text \<open>The refusals that look at the grant; \<open>scopes\<close> and \<open>data_classifications\<close> may not be iterable.\<close>

definition grant_denied :: "policy_input \<Rightarrow> obj \<Rightarrow> exn + bool" where
  "grant_denied q grant =
     or_else (Inr (obj_get grant ''tenant_id'' \<noteq> JStr (pi_tenant_id q) \<or>
                   obj_get grant ''subject_id'' \<noteq> JStr (pi_subject_id q) \<or>
                   obj_get grant ''role'' \<noteq> JStr (pi_role q) \<or>
                   obj_get grant ''status'' \<noteq> JStr ''active''))
     (or_else (bind_res (py_in (JStr (pi_action q)) (obj_get_or grant ''scopes'' (JList [])))
                 (\<lambda>b. Inr (\<not> b)))
     (or_else (Inr (obj_get grant ''resource_scope'' \<noteq> JStr (pi_resource_id q)))
        (bind_res (py_in (JStr (pi_data_classification q))
                     (obj_get_or grant ''data_classifications'' (JList [])))
           (\<lambda>b. Inr (\<not> b)))))"

text \<open>
  The \<open>try\<close> block reads the expiry: a missing, malformed or naive one is \<open>None\<close>.
  \<open>expiry.astimezone(UTC)\<close> raises when the offset takes it out of the supported years.
\<close>

definition grant_expiry :: "obj \<Rightarrow> instant option" where
  "grant_expiry grant =
     (case obj_item grant ''expires_at'' of
        Inl _ \<Rightarrow> None
      | Inr v \<Rightarrow> (case parse_iso (py_str v) of Some (Aware t) \<Rightarrow> Some t | _ \<Rightarrow> None))"

definition astimezone_utc :: "instant \<Rightarrow> exn + instant" where
  "astimezone_utc t =
     (if valid_instant t then Inr t else Inl (OverflowError ''date value out of range''))"

definition expected_role :: "string \<Rightarrow> string" where
  "expected_role action =
     (if action = ''approval.decide'' then FIXTURE_APPROVER_ROLE else FIXTURE_CONTROLLER_ROLE)"

definition grant_verdict :: "policy_input \<Rightarrow> obj \<Rightarrow> instant \<Rightarrow> exn + bool \<times> string" where
  "grant_verdict q grant now =
     (case grant_expiry grant of
        None \<Rightarrow> Inr (False, ''policy_grant_invalid'')
      | Some expiry \<Rightarrow>
          bind_res (astimezone_utc expiry) (\<lambda>expiry.
            if expiry \<le> now then Inr (False, ''policy_grant_expired'')
            else if pi_role q \<noteq> expected_role (pi_action q) then Inr (False, ''policy_role_denied'')
            else Inr (True, ''fixture_policy_allowed'')))"

text \<open>\<open>allow\<close> and \<open>reason_code\<close>, in the order of the branches.\<close>

definition policy_verdict :: "policy_input \<Rightarrow> instant \<Rightarrow> exn + bool \<times> string" where
  "policy_verdict q now =
     (if pi_tenant_id q \<noteq> ''tenant-alpha'' \<or> pi_action q \<notin> set ALLOWLISTED_ACTIONS \<or>
         pi_case_id q = [] \<or> pi_case_revision_id q = [] \<or> pi_workflow_id q = [] \<or>
         pi_checkpoint_id q = [] \<or> pi_workflow_version q < 0 \<or> length (pi_evidence_hashes q) = 0
      then Inr (False, ''policy_identity_or_causation_denied'')
      else if pi_resource_id q \<noteq> API_503_DELIVERY_RESOURCE_ID
      then Inr (False, ''policy_resource_denied'')
      else if pi_data_classification q \<noteq> ''synthetic''
      then Inr (False, ''policy_classification_denied'')
      else if pi_remaining_budget q < 1 then Inr (False, ''policy_budget_denied'')
      else case pi_grant q of
        None \<Rightarrow> Inr (False, ''policy_grant_missing'')
      | Some grant \<Rightarrow>
          bind_res (grant_denied q grant) (\<lambda>denied.
            if denied then Inr (False, ''policy_grant_denied'') else grant_verdict q grant now))"

definition decision_record :: "policy_input \<Rightarrow> bool \<Rightarrow> string \<Rightarrow> instant \<Rightarrow> obj" where
  "decision_record q allow reason now =
     (let policy_input_sha256 = canonical_sha256 (policy_input_material q) in
     [(''schema_id'', JStr POLICY_DECISION_SCHEMA_ID),
      (''schema_version'', JStr ''v1''),
      (''tenant_id'', JStr (pi_tenant_id q)),
      (''policy_decision_id'', JStr (stable_identifier ''policy_decision'' (JObj
         [(''policy_input_sha256'', JStr policy_input_sha256), (''decision'', JBool allow)]))),
      (''case_id'', JStr (pi_case_id q)),
      (''case_revision_id'', JStr (pi_case_revision_id q)),
      (''decision'', JStr (if allow then ''allow'' else ''deny'')),
      (''reason_code'', JStr reason),
      (''evidence_hashes'', jlist (pi_evidence_hashes q)),
      (''decided_at'', JStr (timestamp now)),
      (''checkpoint_id'', JStr (pi_checkpoint_id q)),
      (''workflow_id'', JStr (pi_workflow_id q)),
      (''workflow_version'', JInt (pi_workflow_version q)),
      (''candidate_hash'', JStr (pi_candidate_hash q)),
      (''action'', JStr (pi_action q)),
      (''policy_version'', JStr API_503_POLICY_VERSION),
      (''policy_input_sha256'', JStr policy_input_sha256),
      (''grant_id'', JStr (grant_id_of (pi_grant q))),
      (''grant_sha256'', JStr (grant_hash_of (pi_grant q))),
      (''subject_id'', JStr (pi_subject_id q)),
      (''role'', JStr (pi_role q)),
      (''resource_id'', JStr (pi_resource_id q)),
      (''data_classification'', JStr (pi_data_classification q))])"

definition evaluate_fixture_policy :: "validators \<Rightarrow> policy_input \<Rightarrow> instant \<Rightarrow> exn + obj" where
  "evaluate_fixture_policy V q now =
     bind_res (policy_verdict q now) (\<lambda>(allow, reason).
     let decision = decision_record q allow reason now;
         decision = obj_set decision ''policy_decision_sha256''
           (JStr (content_hash decision ''policy_decision_sha256''))
     in bind_res (validate_policy_decision V decision) (\<lambda>_. Inr decision))"

section \<open>The records bound to a decision\<close>

text \<open>\<open>list(record[key])\<close>\<close>

definition list_item :: "obj \<Rightarrow> string \<Rightarrow> exn + json list" where
  "list_item p k = bind_res (obj_item p k) py_iter"

definition bind_fixture_authorization ::
  "validators \<Rightarrow> obj \<Rightarrow> obj \<Rightarrow> int \<Rightarrow> instant \<Rightarrow> instant \<Rightarrow> exn + obj" where
  "bind_fixture_authorization V decision grant remaining_budget expires_at created_at =
     bind_res (obj_item decision ''policy_decision_sha256'') (\<lambda>decision_hash.
     bind_res (obj_item grant ''grant_sha256'') (\<lambda>grant_hash.
     bind_res (obj_item decision ''candidate_hash'') (\<lambda>candidate_hash.
     bind_res (list_item decision ''evidence_hashes'') (\<lambda>evidence.
     bind_res (obj_item decision ''tenant_id'') (\<lambda>tenant_id.
     bind_res (obj_item decision ''case_id'') (\<lambda>case_id.
     bind_res (obj_item decision ''case_revision_id'') (\<lambda>case_revision_id.
     bind_res (obj_item decision ''workflow_id'') (\<lambda>workflow_id.
     bind_res (obj_item decision ''checkpoint_id'') (\<lambda>checkpoint_id.
     bind_res (obj_item decision ''workflow_version'') (\<lambda>workflow_version.
     bind_res (obj_item decision ''action'') (\<lambda>action.
     bind_res (obj_item decision ''policy_decision_id'') (\<lambda>policy_decision_id.
     bind_res (obj_item decision ''policy_version'') (\<lambda>policy_version.
     bind_res (obj_item grant ''grant_id'') (\<lambda>grant_id.
     bind_res (obj_item grant ''grant_version'') (\<lambda>grant_version.
     bind_res (obj_item grant ''subject_id'') (\<lambda>subject_id.
     bind_res (obj_item grant ''role'') (\<lambda>role.
     let binding =
       [(''schema_id'', JStr AUTHORIZATION_BINDING_SCHEMA_ID),
        (''schema_version'', JStr ''v1''),
        (''tenant_id'', tenant_id),
        (''authorization_binding_id'', JStr (stable_identifier ''authorization_binding'' (JObj
           [(''policy_decision_sha256'', decision_hash), (''grant_sha256'', grant_hash),
            (''candidate_hash'', candidate_hash), (''evidence_hashes'', JList evidence)]))),
        (''case_id'', case_id),
        (''case_revision_id'', case_revision_id),
        (''workflow_id'', workflow_id),
        (''checkpoint_id'', checkpoint_id),
        (''workflow_version'', workflow_version),
        (''candidate_hash'', candidate_hash),
        (''evidence_hashes'', JList evidence),
        (''action'', action),
        (''policy_decision_id'', policy_decision_id),
        (''policy_version'', policy_version),
        (''policy_decision_sha256'', decision_hash),
        (''grant_id'', grant_id),
        (''grant_version'', grant_version),
        (''grant_sha256'', grant_hash),
        (''subject_id'', subject_id),
        (''role'', role),
        (''delivery_resource_id'', JStr API_503_DELIVERY_RESOURCE_ID),
        (''delivery_resource_scope'', JStr API_503_DELIVERY_RESOURCE_SCOPE),
        (''data_classification'', JStr ''synthetic''),
        (''remaining_budget'', JInt remaining_budget),
        (''expires_at'', JStr (timestamp expires_at)),
        (''created_at'', JStr (timestamp created_at))];
       binding = obj_set binding ''authorization_binding_sha256''
         (JStr (content_hash binding ''authorization_binding_sha256''))
     in bind_res (validate_authorization_binding V binding) (\<lambda>_. Inr binding))))))))))))))))))"

definition build_approval_request :: "validators \<Rightarrow> obj \<Rightarrow> instant \<Rightarrow> exn + obj" where
  "build_approval_request V binding created_at =
     bind_res (obj_item binding ''tenant_id'') (\<lambda>tenant_id.
     bind_res (obj_item binding ''authorization_binding_sha256'') (\<lambda>binding_hash.
     bind_res (obj_item binding ''case_id'') (\<lambda>case_id.
     bind_res (obj_item binding ''case_revision_id'') (\<lambda>case_revision_id.
     bind_res (obj_item binding ''candidate_hash'') (\<lambda>candidate_hash.
     bind_res (obj_item binding ''policy_decision_id'') (\<lambda>policy_decision_id.
     bind_res (list_item binding ''evidence_hashes'') (\<lambda>evidence.
     bind_res (obj_item binding ''expires_at'') (\<lambda>expires_at.
     bind_res (obj_item binding ''workflow_id'') (\<lambda>workflow_id.
     bind_res (obj_item binding ''checkpoint_id'') (\<lambda>checkpoint_id.
     bind_res (obj_item binding ''workflow_version'') (\<lambda>workflow_version.
     bind_res (obj_item binding ''policy_decision_sha256'') (\<lambda>decision_hash.
     bind_res (obj_item binding ''policy_version'') (\<lambda>policy_version.
     bind_res (obj_item binding ''grant_sha256'') (\<lambda>grant_hash.
     let request =
       [(''schema_id'', JStr APPROVAL_REQUEST_SCHEMA_ID),
        (''schema_version'', JStr ''v1''),
        (''tenant_id'', tenant_id),
        (''approval_request_id'', JStr (stable_identifier ''approval_request''
           (JObj [(''authorization_binding_sha256'', binding_hash)]))),
        (''case_id'', case_id),
        (''case_revision_id'', case_revision_id),
        (''candidate_hash'', candidate_hash),
        (''policy_decision_id'', policy_decision_id),
        (''evidence_hashes'', JList evidence),
        (''created_at'', JStr (timestamp created_at)),
        (''expires_at'', expires_at),
        (''workflow_id'', workflow_id),
        (''checkpoint_id'', checkpoint_id),
        (''workflow_version'', workflow_version),
        (''authorization_binding_sha256'', binding_hash),
        (''policy_decision_sha256'', decision_hash),
        (''policy_version'', policy_version),
        (''grant_sha256'', grant_hash)]
     in bind_res (validate_approval_request V request) (\<lambda>_. Inr request)))))))))))))))"

definition build_approval_decision ::
  "validators \<Rightarrow> obj \<Rightarrow> string \<Rightarrow> string \<Rightarrow> string \<Rightarrow> instant \<Rightarrow> exn + obj" where
  "build_approval_decision V request approver_id approver_role decision decided_at =
     bind_res (obj_item request ''tenant_id'') (\<lambda>tenant_id.
     bind_res (obj_item request ''approval_request_id'') (\<lambda>request_id.
     bind_res (obj_item request ''case_id'') (\<lambda>case_id.
     bind_res (obj_item request ''case_revision_id'') (\<lambda>case_revision_id.
     bind_res (obj_item request ''candidate_hash'') (\<lambda>candidate_hash.
     bind_res (list_item request ''evidence_hashes'') (\<lambda>evidence.
     bind_res (obj_item request ''expires_at'') (\<lambda>expires_at.
     bind_res (obj_item request ''workflow_id'') (\<lambda>workflow_id.
     bind_res (obj_item request ''checkpoint_id'') (\<lambda>checkpoint_id.
     bind_res (obj_item request ''workflow_version'') (\<lambda>workflow_version.
     bind_res (obj_item request ''authorization_binding_sha256'') (\<lambda>binding_hash.
     let result =
       [(''schema_id'', JStr APPROVAL_DECISION_SCHEMA_ID),
        (''schema_version'', JStr ''v1''),
        (''tenant_id'', tenant_id),
        (''approval_decision_id'', JStr (stable_identifier ''approval_decision'' (JObj
           [(''approval_request_id'', request_id), (''decision'', JStr decision),
            (''approver_id'', JStr approver_id)]))),
        (''approval_request_id'', request_id),
        (''case_id'', case_id),
        (''case_revision_id'', case_revision_id),
        (''candidate_hash'', candidate_hash),
        (''evidence_hashes'', JList evidence),
        (''decision'', JStr decision),
        (''decided_at'', JStr (timestamp decided_at)),
        (''expires_at'', expires_at),
        (''workflow_id'', workflow_id),
        (''checkpoint_id'', checkpoint_id),
        (''workflow_version'', workflow_version),
        (''authorization_binding_sha256'', binding_hash),
        (''approver_id'', JStr approver_id),
        (''approver_role'', JStr approver_role)];
       result = obj_set result ''decision_sha256'' (JStr (content_hash result ''decision_sha256''))
     in bind_res (validate_approval_decision V result) (\<lambda>_. Inr result))))))))))))"

end
