(* ===== verification/PolicyStore.thy ===== *)
theory PolicyStore
  imports Commands Policy
begin

text \<open>
  The Change 3 and Change 4 tables of \<open>workflow_journal_schema.py\<close>: the investigation journal, the
  policy, grant, binding and approval records, and the outbound delivery journal with its
  fixture-local provider, as an extension of the journal store.  A \<open>payload_json\<close> column is modelled
  by the JSON value it decodes to, \<open>None\<close> for a text that is not JSON.
\<close>

section \<open>Rows\<close>

record investigation_row =
  iv_tenant :: string
  iv_id :: string
  iv_workflow :: string
  iv_checkpoint :: string
  iv_case :: string
  iv_revision :: string
  iv_manifest :: string
  iv_context_sha256 :: string
  iv_environment :: string
  iv_evidence :: "string list option"
  iv_transcript :: string
  iv_action_budget :: int
  iv_tool_budget :: int
  iv_no_progress :: int
  iv_created_at :: string

record agent_step_row =
  as_tenant :: string
  as_id :: string
  as_workflow :: string
  as_checkpoint :: string
  as_manifest :: string
  as_step :: string
  as_action :: string
  as_sha256 :: string
  as_created_at :: string

record tool_request_row =
  tq_tenant :: string
  tq_id :: string
  tq_workflow :: string
  tq_checkpoint :: string
  tq_manifest :: string
  tq_step :: string
  tq_tool :: string
  tq_sha256 :: string
  tq_created_at :: string

record tool_result_row =
  tr_tenant :: string
  tr_id :: string
  tr_workflow :: string
  tr_checkpoint :: string
  tr_manifest :: string
  tr_tool :: string
  tr_request :: string
  tr_evidence :: string
  tr_sha256 :: string
  tr_redaction :: string
  tr_recorded_at :: string

record candidate_row =
  ca_tenant :: string
  ca_id :: string
  ca_workflow :: string
  ca_checkpoint :: string
  ca_manifest :: string
  ca_context :: string
  ca_evidence :: "string list option"
  ca_sha256 :: string
  ca_risk :: string
  ca_next_step :: string
  ca_created_at :: string

record outcome_row =
  vo_tenant :: string
  vo_id :: string
  vo_workflow :: string
  vo_checkpoint :: string
  vo_manifest :: string
  vo_candidate :: string
  vo_sha256 :: string
  vo_outcome :: string
  vo_reason :: string
  vo_recorded_at :: string

record policy_activation_row =
  pa_tenant :: string
  pa_id :: string
  pa_workflow :: string
  pa_case :: string
  pa_revision :: string
  pa_checkpoint :: string
  pa_fixture :: string
  pa_version :: string
  pa_resource :: string
  pa_scope :: string
  pa_classification :: string
  pa_budget :: int
  pa_subject :: string
  pa_role :: string
  pa_candidate :: string
  pa_evidence :: "string list option"
  pa_activated_at :: string

record grant_row =
  gr_tenant :: string
  gr_id :: string
  gr_workflow :: string
  gr_sha256 :: string
  gr_version :: string
  gr_subject :: string
  gr_role :: string
  gr_scope :: string
  gr_classifications :: "string list option"
  gr_issued_at :: string
  gr_expires_at :: string
  gr_payload :: "json option"

record grant_status_row =
  gs_tenant :: string
  gs_id :: string
  gs_grant :: string
  gs_status :: string
  gs_reason :: string
  gs_recorded_at :: string

record policy_decision_row =
  pd_tenant :: string
  pd_id :: string
  pd_workflow :: string
  pd_checkpoint :: string
  pd_action :: string
  pd_sha256 :: string
  pd_input :: string
  pd_decision :: string
  pd_reason :: string
  pd_version :: string
  pd_grant :: string
  pd_grant_sha256 :: string
  pd_candidate :: string
  pd_evidence :: "string list option"
  pd_subject :: string
  pd_role :: string
  pd_resource :: string
  pd_classification :: string
  pd_workflow_version :: int
  pd_payload :: "json option"
  pd_decided_at :: string

record binding_row =
  ab_tenant :: string
  ab_id :: string
  ab_sha256 :: string
  ab_workflow :: string
  ab_decision :: string
  ab_grant :: string
  ab_checkpoint :: string
  ab_workflow_version :: int
  ab_candidate :: string
  ab_evidence :: "string list option"
  ab_expires_at :: string
  ab_payload :: "json option"
  ab_created_at :: string

record approval_request_row =
  ar_tenant :: string
  ar_id :: string
  ar_workflow :: string
  ar_binding :: string
  ar_checkpoint :: string
  ar_workflow_version :: int
  ar_payload :: "json option"
  ar_created_at :: string
  ar_expires_at :: string

record approval_row =
  ap_tenant :: string
  ap_id :: string
  ap_request :: string
  ap_workflow :: string
  ap_binding :: string
  ap_workflow_version :: int
  ap_decision :: string
  ap_sha256 :: string
  ap_approver :: string
  ap_role :: string
  ap_payload :: "json option"
  ap_decided_at :: string

record delivery_observation_row =
  dv_tenant :: string
  dv_id :: string
  dv_intent :: string
  dv_workflow :: string
  dv_checkpoint :: string
  dv_status :: string
  dv_delivery :: "string option"
  dv_version :: "int option"
  dv_sha256 :: "string option"
  dv_reason :: "string option"
  dv_payload :: "json option"
  dv_recorded_at :: string

record delivery_record_row =
  dr_tenant :: string
  dr_id :: string
  dr_natural_key :: string
  dr_version :: int
  dr_sha256 :: string
  dr_classification :: string
  dr_created_at :: string

record delivery_operation_row =
  dp_tenant :: string
  dp_key :: string
  dp_natural_key :: string
  dp_delivery :: string
  dp_version :: int
  dp_sha256 :: string
  dp_created_at :: string

record policy_db = journal_db +
  investigations :: "investigation_row list"
  agent_steps :: "agent_step_row list"
  tool_requests :: "tool_request_row list"
  tool_results :: "tool_result_row list"
  candidates :: "candidate_row list"
  outcomes :: "outcome_row list"
  policy_activations :: "policy_activation_row list"
  grants :: "grant_row list"
  grant_status_events :: "grant_status_row list"
  policy_decisions :: "policy_decision_row list"
  bindings :: "binding_row list"
  approval_requests :: "approval_request_row list"
  approvals :: "approval_row list"
  delivery_observations :: "delivery_observation_row list"
  delivery_records :: "delivery_record_row list"
  delivery_operations :: "delivery_operation_row list"

section \<open>Constraints of the policy tables\<close>

definition policy_activation_clash :: "policy_activation_row \<Rightarrow> policy_activation_row \<Rightarrow> bool" where
  "policy_activation_clash r q \<longleftrightarrow> pa_tenant r = pa_tenant q \<and>
     (pa_id r = pa_id q \<or> pa_workflow r = pa_workflow q)"

definition grant_clash :: "grant_row \<Rightarrow> grant_row \<Rightarrow> bool" where
  "grant_clash r q \<longleftrightarrow> gr_tenant r = gr_tenant q \<and> (gr_id r = gr_id q \<or> gr_sha256 r = gr_sha256 q)"

definition grant_status_clash :: "grant_status_row \<Rightarrow> grant_status_row \<Rightarrow> bool" where
  "grant_status_clash r q \<longleftrightarrow> gs_tenant r = gs_tenant q \<and>
     (gs_id r = gs_id q \<or> gs_grant r = gs_grant q \<and> gs_status r = gs_status q)"

definition policy_decision_clash :: "policy_decision_row \<Rightarrow> policy_decision_row \<Rightarrow> bool" where
  "policy_decision_clash r q \<longleftrightarrow> pd_tenant r = pd_tenant q \<and>
     (pd_id r = pd_id q \<or> pd_sha256 r = pd_sha256 q \<or>
      pd_workflow r = pd_workflow q \<and> pd_action r = pd_action q \<and> pd_input r = pd_input q)"

definition binding_clash :: "binding_row \<Rightarrow> binding_row \<Rightarrow> bool" where
  "binding_clash r q \<longleftrightarrow> ab_tenant r = ab_tenant q \<and>
     (ab_id r = ab_id q \<or> ab_sha256 r = ab_sha256 q \<or>
      ab_workflow r = ab_workflow q \<and> ab_decision r = ab_decision q)"

definition approval_request_clash :: "approval_request_row \<Rightarrow> approval_request_row \<Rightarrow> bool" where
  "approval_request_clash r q \<longleftrightarrow> ar_tenant r = ar_tenant q \<and>
     (ar_id r = ar_id q \<or> ar_workflow r = ar_workflow q)"

definition approval_clash :: "approval_row \<Rightarrow> approval_row \<Rightarrow> bool" where
  "approval_clash r q \<longleftrightarrow> ap_tenant r = ap_tenant q \<and>
     (ap_id r = ap_id q \<or> ap_request r = ap_request q \<or> ap_sha256 r = ap_sha256 q)"

definition delivery_intent_clash :: "delivery_intent_row \<Rightarrow> delivery_intent_row \<Rightarrow> bool" where
  "delivery_intent_clash r q \<longleftrightarrow> dn_tenant r = dn_tenant q \<and>
     (dn_id r = dn_id q \<or> dn_key r = dn_key q \<or> dn_workflow r = dn_workflow q)"

definition delivery_observation_clash ::
  "delivery_observation_row \<Rightarrow> delivery_observation_row \<Rightarrow> bool" where
  "delivery_observation_clash r q \<longleftrightarrow> dv_tenant r = dv_tenant q \<and> dv_id r = dv_id q"

definition delivery_completion_clash ::
  "delivery_completion_row \<Rightarrow> delivery_completion_row \<Rightarrow> bool" where
  "delivery_completion_clash r q \<longleftrightarrow> dc_tenant r = dc_tenant q \<and>
     (dc_id r = dc_id q \<or> dc_intent r = dc_intent q)"

definition delivery_record_clash :: "delivery_record_row \<Rightarrow> delivery_record_row \<Rightarrow> bool" where
  "delivery_record_clash r q \<longleftrightarrow> dr_tenant r = dr_tenant q \<and> dr_version r = dr_version q \<and>
     (dr_id r = dr_id q \<or> dr_natural_key r = dr_natural_key q)"

definition delivery_operation_clash :: "delivery_operation_row \<Rightarrow> delivery_operation_row \<Rightarrow> bool" where
  "delivery_operation_clash r q \<longleftrightarrow> dp_tenant r = dp_tenant q \<and> dp_key r = dp_key q"

definition has_grant :: "string \<Rightarrow> string \<Rightarrow> 'a policy_db_scheme \<Rightarrow> bool" where
  "has_grant t g s = list_ex (\<lambda>q. gr_tenant q = t \<and> gr_id q = g) (grants s)"

definition has_request :: "string \<Rightarrow> string \<Rightarrow> 'a policy_db_scheme \<Rightarrow> bool" where
  "has_request t r s = list_ex (\<lambda>q. ar_tenant q = t \<and> ar_id q = r) (approval_requests s)"

definition has_delivery_intent :: "string \<Rightarrow> string \<Rightarrow> 'a policy_db_scheme \<Rightarrow> bool" where
  "has_delivery_intent t i s = list_ex (\<lambda>q. dn_tenant q = t \<and> dn_id q = i) (delivery_intents s)"

definition has_delivery_record :: "string \<Rightarrow> string \<Rightarrow> int \<Rightarrow> 'a policy_db_scheme \<Rightarrow> bool" where
  "has_delivery_record t i v s =
     list_ex (\<lambda>q. dr_tenant q = t \<and> dr_id q = i \<and> dr_version q = v) (delivery_records s)"

section \<open>Statements on the policy tables\<close>

definition insert_policy_activation ::
  "policy_activation_row \<Rightarrow> ('a policy_db_scheme, unit) action" where
  "insert_policy_activation r = modify (\<lambda>s. bind_res
     (insert_row (\<lambda>r. pa_fixture r = ''api-503-policy-approval-delivery'' \<and>
          pa_resource r = ''fixture-local-im:api-503'' \<and> pa_scope r = ''fixture-local-im:api-503'' \<and>
          pa_classification r = ''synthetic'' \<and> 0 \<le> pa_budget r \<and>
          pa_role r = ''fixture-controller'' \<and> has_activation (pa_tenant r) (pa_workflow r) s)
        policy_activation_clash r (policy_activations s)) (\<lambda>rs. Inr (s\<lparr>policy_activations := rs\<rparr>)))"

definition insert_grant :: "grant_row \<Rightarrow> ('a policy_db_scheme, unit) action" where
  "insert_grant r = modify (\<lambda>s. bind_res
     (insert_row (\<lambda>r. has_activation (gr_tenant r) (gr_workflow r) s) grant_clash r (grants s))
     (\<lambda>rs. Inr (s\<lparr>grants := rs\<rparr>)))"

definition insert_grant_status :: "grant_status_row \<Rightarrow> ('a policy_db_scheme, unit) action" where
  "insert_grant_status r = modify (\<lambda>s. bind_res
     (insert_row (\<lambda>r. gs_status r \<in> {''revoked'', ''expired''} \<and> has_grant (gs_tenant r) (gs_grant r) s)
        grant_status_clash r (grant_status_events s)) (\<lambda>rs. Inr (s\<lparr>grant_status_events := rs\<rparr>)))"

definition insert_policy_decision :: "policy_decision_row \<Rightarrow> ('a policy_db_scheme, unit) action" where
  "insert_policy_decision r = modify (\<lambda>s. bind_res
     (insert_row (\<lambda>r. pd_action r \<in> set ALLOWLISTED_ACTIONS \<and> pd_decision r \<in> {''allow'', ''deny''} \<and>
          0 \<le> pd_workflow_version r \<and> has_activation (pd_tenant r) (pd_workflow r) s)
        policy_decision_clash r (policy_decisions s)) (\<lambda>rs. Inr (s\<lparr>policy_decisions := rs\<rparr>)))"

definition insert_binding :: "binding_row \<Rightarrow> ('a policy_db_scheme, unit) action" where
  "insert_binding r = modify (\<lambda>s. bind_res
     (insert_row (\<lambda>r. 0 \<le> ab_workflow_version r \<and> has_activation (ab_tenant r) (ab_workflow r) s)
        binding_clash r (bindings s)) (\<lambda>rs. Inr (s\<lparr>bindings := rs\<rparr>)))"

definition insert_approval_request :: "approval_request_row \<Rightarrow> ('a policy_db_scheme, unit) action" where
  "insert_approval_request r = modify (\<lambda>s. bind_res
     (insert_row (\<lambda>r. 0 \<le> ar_workflow_version r \<and> has_activation (ar_tenant r) (ar_workflow r) s)
        approval_request_clash r (approval_requests s)) (\<lambda>rs. Inr (s\<lparr>approval_requests := rs\<rparr>)))"

definition insert_approval :: "approval_row \<Rightarrow> ('a policy_db_scheme, unit) action" where
  "insert_approval r = modify (\<lambda>s. bind_res
     (insert_row (\<lambda>r. 0 \<le> ap_workflow_version r \<and> ap_decision r \<in> {''approved'', ''rejected''} \<and>
          has_request (ap_tenant r) (ap_request r) s)
        approval_clash r (approvals s)) (\<lambda>rs. Inr (s\<lparr>approvals := rs\<rparr>)))"

definition insert_delivery_intent :: "delivery_intent_row \<Rightarrow> ('a policy_db_scheme, unit) action" where
  "insert_delivery_intent r = modify (\<lambda>s. bind_res
     (insert_row (\<lambda>r. dn_channel r = ''fixture-local-im'' \<and>
          dn_resource r = ''fixture-local-im:api-503'' \<and> has_activation (dn_tenant r) (dn_workflow r) s)
        delivery_intent_clash r (delivery_intents s)) (\<lambda>rs. Inr (s\<lparr>delivery_intents := rs\<rparr>)))"

definition insert_delivery_observation ::
  "delivery_observation_row \<Rightarrow> ('a policy_db_scheme, unit) action" where
  "insert_delivery_observation r = modify (\<lambda>s. bind_res
     (insert_row (\<lambda>r. dv_status r \<in> {''absent'', ''present'', ''unknown'', ''conflict''} \<and>
          has_delivery_intent (dv_tenant r) (dv_intent r) s)
        delivery_observation_clash r (delivery_observations s))
     (\<lambda>rs. Inr (s\<lparr>delivery_observations := rs\<rparr>)))"

definition insert_delivery_completion ::
  "delivery_completion_row \<Rightarrow> ('a policy_db_scheme, unit) action" where
  "insert_delivery_completion r = modify (\<lambda>s. bind_res
     (insert_row (\<lambda>r. 1 \<le> dc_version r \<and> has_delivery_intent (dc_tenant r) (dc_intent r) s)
        delivery_completion_clash r (delivery_completions s))
     (\<lambda>rs. Inr (s\<lparr>delivery_completions := rs\<rparr>)))"

definition insert_delivery_record :: "delivery_record_row \<Rightarrow> ('a policy_db_scheme, unit) action" where
  "insert_delivery_record r = modify (\<lambda>s. bind_res
     (insert_row (\<lambda>r. 1 \<le> dr_version r \<and> dr_classification r = ''synthetic'')
        delivery_record_clash r (delivery_records s)) (\<lambda>rs. Inr (s\<lparr>delivery_records := rs\<rparr>)))"

definition insert_delivery_operation ::
  "delivery_operation_row \<Rightarrow> ('a policy_db_scheme, unit) action" where
  "insert_delivery_operation r = modify (\<lambda>s. bind_res
     (insert_row (\<lambda>r. 1 \<le> dp_version r \<and> has_delivery_record (dp_tenant r) (dp_delivery r) (dp_version r) s)
        delivery_operation_clash r (delivery_operations s))
     (\<lambda>rs. Inr (s\<lparr>delivery_operations := rs\<rparr>)))"

section \<open>Reading payloads\<close>

text \<open>\<open>_change4_payload\<close>\<close>

definition change4_payload :: "json option \<Rightarrow> exn + obj" where
  "change4_payload v = (case v of
     Some (JObj p) \<Rightarrow> Inr p | _ \<Rightarrow> Inl (WorkflowError ''policy_journal_invalid''))"

definition payload_row :: "('r \<Rightarrow> json option) \<Rightarrow> 'r option \<Rightarrow> exn + obj option" where
  "payload_row f r = (case r of
     None \<Rightarrow> Inr None | Some r \<Rightarrow> bind_res (change4_payload (f r)) (\<lambda>p. Inr (Some p)))"

text \<open>Binding a field of a record to a \<open>TEXT\<close> or \<open>INTEGER\<close> column; a list is bound as JSON text.\<close>

definition text_col :: "obj \<Rightarrow> string \<Rightarrow> exn + string" where
  "text_col p k = bind_res (obj_item p k) sql_text"

definition int_col :: "obj \<Rightarrow> string \<Rightarrow> exn + int" where
  "int_col p k = bind_res (obj_item p k) sql_int"

definition json_strings :: "json \<Rightarrow> string list option" where
  "json_strings v = (case v of
     JList xs \<Rightarrow> if list_all is_jstr xs
                then Some (map (\<lambda>x. case x of JStr t \<Rightarrow> t | _ \<Rightarrow> []) xs) else None
   | _ \<Rightarrow> None)"

definition list_col :: "obj \<Rightarrow> string \<Rightarrow> exn + string list option" where
  "list_col p k = bind_res (obj_item p k) (\<lambda>v. Inr (json_strings v))"

end
