(* ===== verification/PolicyApproval.thy ===== *)
theory PolicyApproval
  imports PolicyStore
begin

text \<open>
  \<open>durable_workflow.py\<close>, the Change 4 policy path up to the approval request: the explicit opt-in
  of a verified candidate, the fixture grant and its revocation, the policy decision, the
  authorization binding, the approval request and the approval decision.  Every \<open>_ensure\<close> method
  returns what is already stored or stores what it built, in one transaction.
\<close>

section \<open>Lookups\<close>

definition last_row :: "'r list \<Rightarrow> 'r option" where
  "last_row xs = (if xs = [] then None else Some (last xs))"

definition checkpoint_by_id ::
  "string \<Rightarrow> string \<Rightarrow> 'a journal_db_scheme \<Rightarrow> exn + checkpoint" where
  "checkpoint_by_id t c s =
     (case first_row (filter (\<lambda>r. cp_tenant r = t \<and> cp_id r = c) (checkpoints s)) of
        None \<Rightarrow> Inl (WorkflowError ''workflow_journal_invalid'')
      | Some r \<Rightarrow> load_checkpoint r)"

definition policy_activation_for_workflow ::
  "string \<Rightarrow> string \<Rightarrow> 'a policy_db_scheme \<Rightarrow> policy_activation_row option" where
  "policy_activation_for_workflow t w s =
     first_row (filter (\<lambda>r. pa_tenant r = t \<and> pa_workflow r = w) (policy_activations s))"

definition grant_for_workflow :: "string \<Rightarrow> string \<Rightarrow> 'a policy_db_scheme \<Rightarrow> exn + obj option" where
  "grant_for_workflow t w s =
     payload_row gr_payload (first_row (filter (\<lambda>r. gr_tenant r = t \<and> gr_workflow r = w) (grants s)))"

definition grant_is_active :: "string \<Rightarrow> string \<Rightarrow> 'a policy_db_scheme \<Rightarrow> bool" where
  "grant_is_active t g s \<longleftrightarrow>
     \<not> list_ex (\<lambda>r. gs_tenant r = t \<and> gs_grant r = g) (grant_status_events s)"

definition policy_decision_for_workflow ::
  "string \<Rightarrow> string \<Rightarrow> 'a policy_db_scheme \<Rightarrow> exn + obj option" where
  "policy_decision_for_workflow t w s =
     payload_row pd_payload (last_row (filter (\<lambda>r. pd_tenant r = t \<and> pd_workflow r = w \<and>
       pd_action r = ''outbound_delivery.execute'') (policy_decisions s)))"

definition authorization_binding_for_workflow ::
  "string \<Rightarrow> string \<Rightarrow> 'a policy_db_scheme \<Rightarrow> exn + obj option" where
  "authorization_binding_for_workflow t w s =
     payload_row ab_payload (last_row (filter (\<lambda>r. ab_tenant r = t \<and> ab_workflow r = w) (bindings s)))"

definition approval_request_for_workflow ::
  "string \<Rightarrow> string \<Rightarrow> 'a policy_db_scheme \<Rightarrow> exn + obj option" where
  "approval_request_for_workflow t w s =
     payload_row ar_payload
       (first_row (filter (\<lambda>r. ar_tenant r = t \<and> ar_workflow r = w) (approval_requests s)))"

definition approval_decision_for_request ::
  "string \<Rightarrow> string \<Rightarrow> 'a policy_db_scheme \<Rightarrow> exn + obj option" where
  "approval_decision_for_request t r s =
     payload_row ap_payload (first_row (filter (\<lambda>q. ap_tenant q = t \<and> ap_request q = r) (approvals s)))"

section \<open>The verified candidate\<close>

definition manifest_evidence :: "investigation_row \<Rightarrow> exn + string list" where
  "manifest_evidence r = (case iv_evidence r of
     None \<Rightarrow> Inl (WorkflowError ''investigation_journal_invalid'')
   | Some es \<Rightarrow> if [] \<in> set es then Inl (WorkflowError ''investigation_journal_invalid'') else Inr es)"

definition investigation_activation ::
  "string \<Rightarrow> string \<Rightarrow> 'a policy_db_scheme \<Rightarrow> exn + investigation_row option" where
  "investigation_activation t w s =
     (case first_row (filter (\<lambda>r. iv_tenant r = t \<and> iv_workflow r = w) (investigations s)) of
        None \<Rightarrow> Inr None
      | Some r \<Rightarrow> bind_res (manifest_evidence r) (\<lambda>_. Inr (Some r)))"

definition load_candidate :: "candidate_row \<Rightarrow> exn + candidate_row" where
  "load_candidate r = (if ca_evidence r = None then Inl (WorkflowError ''investigation_journal_invalid'')
                       else Inr r)"

text \<open>
  The candidate and the verifier outcome in \<open>investigation_facts_for_case\<close>; \<open>None\<close> when the Case
  has no activation or no investigation.
\<close>

definition investigation_facts ::
  "string \<Rightarrow> string \<Rightarrow> 'a policy_db_scheme \<Rightarrow> exn + (candidate_row option \<times> outcome_row option) option"
where
  "investigation_facts t c s =
     (case activation_for_tenant_case t c s of
        None \<Rightarrow> Inr None
      | Some a \<Rightarrow>
          bind_res (investigation_activation t (ac_workflow a) s) (\<lambda>investigation.
          case investigation of
            None \<Rightarrow> Inr None
          | Some _ \<Rightarrow>
              (case last_row (filter (\<lambda>r. ca_tenant r = t \<and> ca_workflow r = ac_workflow a) (candidates s)) of
                 None \<Rightarrow> Inr (Some (None,
                   last_row (filter (\<lambda>r. vo_tenant r = t \<and> vo_workflow r = ac_workflow a) (outcomes s))))
               | Some r \<Rightarrow> bind_res (load_candidate r) (\<lambda>r. Inr (Some (Some r,
                   last_row (filter (\<lambda>r. vo_tenant r = t \<and> vo_workflow r = ac_workflow a)
                     (outcomes s))))))))"

text \<open>\<open>_change4_candidate_material\<close>: the candidate hash and the evidence hashes.\<close>

definition candidate_material ::
  "activation_row \<Rightarrow> 'a policy_db_scheme \<Rightarrow> exn + string \<times> string list" where
  "candidate_material a s =
     bind_res (investigation_facts (ac_tenant a) (ac_case a) s) (\<lambda>facts.
     case facts of
       Some (Some c, Some v) \<Rightarrow>
         (case ca_evidence c of
            Some (e # es) \<Rightarrow>
              if vo_outcome v = ''verified'' \<and> ca_sha256 c = vo_sha256 v
              then Inr (ca_sha256 c, e # es)
              else Inl (WorkflowError ''policy_continuation_predecessor_invalid'')
          | _ \<Rightarrow> Inl (WorkflowError ''policy_continuation_predecessor_invalid''))
     | _ \<Rightarrow> Inl (WorkflowError ''policy_continuation_predecessor_invalid''))"

section \<open>The opt-in\<close>

definition new_policy_activation ::
  "instant \<Rightarrow> activation_row \<Rightarrow> checkpoint \<Rightarrow> string \<Rightarrow> string list \<Rightarrow> policy_activation_row" where
  "new_policy_activation now a k candidate evidence =
     \<lparr>pa_tenant = ac_tenant a,
      pa_id = stable_identifier ''policy_approval_activation'' (JObj
        [(''workflow_id'', JStr (ac_workflow a)), (''fixture_id'', JStr API_503_POLICY_FIXTURE_ID)]),
      pa_workflow = ac_workflow a, pa_case = ac_case a, pa_revision = ac_revision a,
      pa_checkpoint = cp_id (ck_row k), pa_fixture = API_503_POLICY_FIXTURE_ID,
      pa_version = API_503_POLICY_VERSION, pa_resource = API_503_DELIVERY_RESOURCE_ID,
      pa_scope = API_503_DELIVERY_RESOURCE_SCOPE, pa_classification = ''synthetic'',
      pa_budget = API_503_DELIVERY_BUDGET, pa_subject = ''fixture-controller-alpha'',
      pa_role = FIXTURE_CONTROLLER_ROLE, pa_candidate = candidate, pa_evidence = Some evidence,
      pa_activated_at = timestamp now\<rparr>"

definition same_policy_activation :: "policy_activation_row \<Rightarrow> policy_activation_row \<Rightarrow> bool" where
  "same_policy_activation r q \<longleftrightarrow>
     pa_checkpoint r = pa_checkpoint q \<and> pa_fixture r = pa_fixture q \<and>
     pa_candidate r = pa_candidate q \<and> pa_evidence r = pa_evidence q \<and>
     pa_resource r = pa_resource q \<and> pa_classification r = pa_classification q"

definition ensure_policy_approval_activation ::
  "instant \<Rightarrow> activation_row \<Rightarrow> checkpoint \<Rightarrow> ('a policy_db_scheme, policy_activation_row) action" where
  "ensure_policy_approval_activation now a k =
     (if cp_state (ck_row k) \<noteq> RESPONSE_READY then
        bind (query (policy_activation_for_workflow (ac_tenant a) (ac_workflow a))) (\<lambda>existing.
        case existing of
          None \<Rightarrow> throw (WorkflowError ''policy_continuation_not_available'')
        | Some r \<Rightarrow> ret r)
      else
        bind (lift_res (require (ac_tenant a = ''tenant-alpha'')
          (WorkflowError ''policy_fixture_tenant_denied''))) (\<lambda>_.
        bind (bind (query (candidate_material a)) lift_res) (\<lambda>(candidate, evidence).
        let r = new_policy_activation now a k candidate evidence in
        engine_tx ''policy_activation_persist_failed''
          (bind (query (policy_activation_for_workflow (ac_tenant a) (ac_workflow a))) (\<lambda>existing.
           case existing of
             Some q \<Rightarrow> bind (lift_res (require (same_policy_activation q r)
                 (WorkflowError ''policy_activation_conflict''))) (\<lambda>_. ret q)
           | None \<Rightarrow> bind (insert_policy_activation r) (\<lambda>_. ret r))))))"

section \<open>The grant\<close>

definition grant_row_of :: "string \<Rightarrow> string \<Rightarrow> obj \<Rightarrow> exn + grant_row" where
  "grant_row_of t w g =
     bind_res (text_col g ''grant_id'') (\<lambda>i.
     bind_res (text_col g ''grant_sha256'') (\<lambda>sha256.
     bind_res (text_col g ''grant_version'') (\<lambda>version.
     bind_res (text_col g ''subject_id'') (\<lambda>subject.
     bind_res (text_col g ''role'') (\<lambda>role.
     bind_res (text_col g ''resource_scope'') (\<lambda>scope.
     bind_res (list_col g ''data_classifications'') (\<lambda>classifications.
     bind_res (text_col g ''issued_at'') (\<lambda>issued.
     bind_res (text_col g ''expires_at'') (\<lambda>expires.
     Inr \<lparr>gr_tenant = t, gr_id = i, gr_workflow = w, gr_sha256 = sha256, gr_version = version,
          gr_subject = subject, gr_role = role, gr_scope = scope,
          gr_classifications = classifications, gr_issued_at = issued, gr_expires_at = expires,
          gr_payload = Some (JObj g)\<rparr>)))))))))"

definition ensure_fixture_grant ::
  "validators \<Rightarrow> instant \<Rightarrow> activation_row \<Rightarrow> policy_activation_row \<Rightarrow> ('a policy_db_scheme, obj) action"
where
  "ensure_fixture_grant V now a p =
     bind (bind (query (grant_for_workflow (ac_tenant a) (ac_workflow a))) lift_res) (\<lambda>existing.
     case existing of
       Some g \<Rightarrow> ret g
     | None \<Rightarrow>
         bind (lift_res (issue_fixture_grant V (ac_tenant a) (pa_subject p) (pa_role p) now ''active'' None))
           (\<lambda>g. engine_tx ''capability_grant_persist_failed''
             (bind (bind (query (grant_for_workflow (ac_tenant a) (ac_workflow a))) lift_res) (\<lambda>existing.
              case existing of
                Some g' \<Rightarrow> ret g'
              | None \<Rightarrow>
                  bind (lift_res (grant_row_of (ac_tenant a) (ac_workflow a) g)) (\<lambda>r.
                  bind (insert_grant r) (\<lambda>_. ret g))))))"

section \<open>The policy decision\<close>

definition decision_row_of :: "string \<Rightarrow> string \<Rightarrow> obj \<Rightarrow> exn + policy_decision_row" where
  "decision_row_of t w d =
     bind_res (text_col d ''policy_decision_id'') (\<lambda>i.
     bind_res (text_col d ''checkpoint_id'') (\<lambda>checkpoint.
     bind_res (text_col d ''action'') (\<lambda>action.
     bind_res (text_col d ''policy_decision_sha256'') (\<lambda>sha256.
     bind_res (text_col d ''policy_input_sha256'') (\<lambda>input.
     bind_res (text_col d ''decision'') (\<lambda>decision.
     bind_res (text_col d ''reason_code'') (\<lambda>reason.
     bind_res (text_col d ''policy_version'') (\<lambda>version.
     bind_res (text_col d ''grant_id'') (\<lambda>grant.
     bind_res (text_col d ''grant_sha256'') (\<lambda>grant_sha256.
     bind_res (text_col d ''candidate_hash'') (\<lambda>candidate.
     bind_res (list_col d ''evidence_hashes'') (\<lambda>evidence.
     bind_res (text_col d ''subject_id'') (\<lambda>subject.
     bind_res (text_col d ''role'') (\<lambda>role.
     bind_res (text_col d ''resource_id'') (\<lambda>resource.
     bind_res (text_col d ''data_classification'') (\<lambda>classification.
     bind_res (int_col d ''workflow_version'') (\<lambda>workflow_version.
     bind_res (text_col d ''decided_at'') (\<lambda>decided_at.
     Inr \<lparr>pd_tenant = t, pd_id = i, pd_workflow = w, pd_checkpoint = checkpoint, pd_action = action,
          pd_sha256 = sha256, pd_input = input, pd_decision = decision, pd_reason = reason,
          pd_version = version, pd_grant = grant, pd_grant_sha256 = grant_sha256,
          pd_candidate = candidate, pd_evidence = evidence, pd_subject = subject, pd_role = role,
          pd_resource = resource, pd_classification = classification,
          pd_workflow_version = workflow_version, pd_payload = Some (JObj d),
          pd_decided_at = decided_at\<rparr>))))))))))))))))))"

definition find_policy_decision ::
  "string \<Rightarrow> string \<Rightarrow> policy_decision_row \<Rightarrow> 'a policy_db_scheme \<Rightarrow> policy_decision_row option" where
  "find_policy_decision t w r s =
     first_row (filter (\<lambda>q. pd_tenant q = t \<and> pd_workflow q = w \<and> pd_action q = pd_action r \<and>
       pd_input q = pd_input r) (policy_decisions s))"

definition policy_input_of ::
  "activation_row \<Rightarrow> policy_activation_row \<Rightarrow> obj \<Rightarrow> string \<times> string list \<Rightarrow> checkpoint \<Rightarrow> bool \<Rightarrow>
   policy_input" where
  "policy_input_of a p grant material k active =
     \<lparr>pi_tenant_id = ac_tenant a, pi_subject_id = pa_subject p, pi_role = pa_role p,
      pi_action = ''outbound_delivery.execute'', pi_case_id = ac_case a,
      pi_case_revision_id = ac_revision a, pi_workflow_id = ac_workflow a,
      pi_checkpoint_id = pa_checkpoint p, pi_workflow_version = cp_version (ck_row k),
      pi_candidate_hash = fst material, pi_evidence_hashes = snd material,
      pi_grant = (if active then Some grant else None), pi_resource_id = pa_resource p,
      pi_data_classification = pa_classification p, pi_remaining_budget = pa_budget p\<rparr>"

definition ensure_policy_decision ::
  "validators \<Rightarrow> instant \<Rightarrow> activation_row \<Rightarrow> policy_activation_row \<Rightarrow> obj \<Rightarrow>
   ('a policy_db_scheme, obj) action" where
  "ensure_policy_decision V now a p grant =
     bind (bind (query (candidate_material a)) lift_res) (\<lambda>material.
     bind (bind (query (checkpoint_by_id (ac_tenant a) (pa_checkpoint p))) lift_res) (\<lambda>k.
     bind (lift_res (obj_item grant ''grant_id'')) (\<lambda>gid.
     bind (query (grant_is_active (ac_tenant a) (py_str gid))) (\<lambda>active.
     bind (lift_res (evaluate_fixture_policy V (policy_input_of a p grant material k active) now)) (\<lambda>d.
     engine_tx ''policy_decision_persist_failed''
       (bind (lift_res (decision_row_of (ac_tenant a) (ac_workflow a) d)) (\<lambda>r.
        bind (query (find_policy_decision (ac_tenant a) (ac_workflow a) r)) (\<lambda>existing.
        case existing of
          Some q \<Rightarrow> lift_res (change4_payload (pd_payload q))
        | None \<Rightarrow> bind (insert_policy_decision r) (\<lambda>_. ret d))))))))) "

section \<open>The authorization binding\<close>

definition binding_row_of :: "string \<Rightarrow> string \<Rightarrow> obj \<Rightarrow> exn + binding_row" where
  "binding_row_of t w b =
     bind_res (text_col b ''authorization_binding_id'') (\<lambda>i.
     bind_res (text_col b ''authorization_binding_sha256'') (\<lambda>sha256.
     bind_res (text_col b ''policy_decision_id'') (\<lambda>decision.
     bind_res (text_col b ''grant_id'') (\<lambda>grant.
     bind_res (text_col b ''checkpoint_id'') (\<lambda>checkpoint.
     bind_res (int_col b ''workflow_version'') (\<lambda>version.
     bind_res (text_col b ''candidate_hash'') (\<lambda>candidate.
     bind_res (list_col b ''evidence_hashes'') (\<lambda>evidence.
     bind_res (text_col b ''expires_at'') (\<lambda>expires.
     bind_res (text_col b ''created_at'') (\<lambda>created.
     Inr \<lparr>ab_tenant = t, ab_id = i, ab_sha256 = sha256, ab_workflow = w, ab_decision = decision,
          ab_grant = grant, ab_checkpoint = checkpoint, ab_workflow_version = version,
          ab_candidate = candidate, ab_evidence = evidence, ab_expires_at = expires,
          ab_payload = Some (JObj b), ab_created_at = created\<rparr>))))))))))"

definition first_binding :: "string \<Rightarrow> string \<Rightarrow> 'a policy_db_scheme \<Rightarrow> binding_row option" where
  "first_binding t w s = first_row (filter (\<lambda>r. ab_tenant r = t \<and> ab_workflow r = w) (bindings s))"

definition ensure_authorization_binding ::
  "validators \<Rightarrow> instant \<Rightarrow> activation_row \<Rightarrow> policy_activation_row \<Rightarrow> obj \<Rightarrow> obj \<Rightarrow>
   ('a policy_db_scheme, obj) action" where
  "ensure_authorization_binding V now a p grant decision =
     bind (lift_res (require (obj_get decision ''decision'' = JStr ''allow'')
       (WorkflowError ''policy_denied''))) (\<lambda>_.
     bind (lift_res (add_seconds now 900)) (\<lambda>expires.
     bind (lift_res (bind_fixture_authorization V decision grant (pa_budget p) expires now)) (\<lambda>b.
     engine_tx ''authorization_binding_persist_failed''
       (bind (query (first_binding (ac_tenant a) (ac_workflow a))) (\<lambda>existing.
        case existing of
          Some r \<Rightarrow> lift_res (change4_payload (ab_payload r))
        | None \<Rightarrow>
            bind (lift_res (binding_row_of (ac_tenant a) (ac_workflow a) b)) (\<lambda>r.
            bind (insert_binding r) (\<lambda>_. ret b)))))))"

section \<open>The approval request and the approval\<close>

definition request_row_of :: "string \<Rightarrow> string \<Rightarrow> obj \<Rightarrow> exn + approval_request_row" where
  "request_row_of t w r =
     bind_res (text_col r ''approval_request_id'') (\<lambda>i.
     bind_res (text_col r ''authorization_binding_sha256'') (\<lambda>binding.
     bind_res (text_col r ''checkpoint_id'') (\<lambda>checkpoint.
     bind_res (int_col r ''workflow_version'') (\<lambda>version.
     bind_res (text_col r ''created_at'') (\<lambda>created.
     bind_res (text_col r ''expires_at'') (\<lambda>expires.
     Inr \<lparr>ar_tenant = t, ar_id = i, ar_workflow = w, ar_binding = binding, ar_checkpoint = checkpoint,
          ar_workflow_version = version, ar_payload = Some (JObj r), ar_created_at = created,
          ar_expires_at = expires\<rparr>))))))"

definition ensure_approval_request ::
  "validators \<Rightarrow> instant \<Rightarrow> activation_row \<Rightarrow> obj \<Rightarrow> ('a policy_db_scheme, obj) action" where
  "ensure_approval_request V now a binding =
     bind (lift_res (build_approval_request V binding now)) (\<lambda>request.
     engine_tx ''approval_request_persist_failed''
       (bind (bind (query (approval_request_for_workflow (ac_tenant a) (ac_workflow a))) lift_res)
          (\<lambda>existing.
        case existing of
          Some r \<Rightarrow> ret r
        | None \<Rightarrow>
            bind (lift_res (request_row_of (ac_tenant a) (ac_workflow a) request)) (\<lambda>r.
            bind (insert_approval_request r) (\<lambda>_. ret request)))))"

definition approval_row_of :: "string \<Rightarrow> string \<Rightarrow> obj \<Rightarrow> obj \<Rightarrow> exn + approval_row" where
  "approval_row_of t w request d =
     bind_res (text_col d ''approval_decision_id'') (\<lambda>i.
     bind_res (text_col request ''approval_request_id'') (\<lambda>rid.
     bind_res (text_col d ''authorization_binding_sha256'') (\<lambda>binding.
     bind_res (int_col d ''workflow_version'') (\<lambda>version.
     bind_res (text_col d ''decision'') (\<lambda>decision.
     bind_res (text_col d ''decision_sha256'') (\<lambda>sha256.
     bind_res (text_col d ''approver_id'') (\<lambda>approver.
     bind_res (text_col d ''approver_role'') (\<lambda>role.
     bind_res (text_col d ''decided_at'') (\<lambda>decided_at.
     Inr \<lparr>ap_tenant = t, ap_id = i, ap_request = rid, ap_workflow = w, ap_binding = binding,
          ap_workflow_version = version, ap_decision = decision, ap_sha256 = sha256,
          ap_approver = approver, ap_role = role, ap_payload = Some (JObj d),
          ap_decided_at = decided_at\<rparr>)))))))))"

text \<open>The decision that counts, and whether this call stored it.\<close>

definition same_approval :: "obj \<Rightarrow> obj \<Rightarrow> bool" where
  "same_approval p d \<longleftrightarrow>
     obj_get p ''decision'' = obj_get d ''decision'' \<and>
     obj_get p ''approver_id'' = obj_get d ''approver_id'' \<and>
     obj_get p ''approver_role'' = obj_get d ''approver_role'' \<and>
     obj_get p ''decision_sha256'' = obj_get d ''decision_sha256''"

definition persist_approval_decision ::
  "activation_row \<Rightarrow> obj \<Rightarrow> obj \<Rightarrow> ('a policy_db_scheme, obj \<times> bool) action" where
  "persist_approval_decision a request d =
     engine_tx ''approval_decision_persist_failed''
       (bind (lift_res (text_col request ''approval_request_id'')) (\<lambda>rid.
        bind (bind (query (approval_decision_for_request (ac_tenant a) rid)) lift_res) (\<lambda>existing.
        case existing of
          Some p \<Rightarrow>
            bind (lift_res (require (same_approval p d) (WorkflowError ''approval_decision_conflict'')))
              (\<lambda>_. ret (p, False))
        | None \<Rightarrow>
            bind (lift_res (approval_row_of (ac_tenant a) (ac_workflow a) request d)) (\<lambda>r.
            bind (insert_approval r) (\<lambda>_. ret (d, True))))))"

section \<open>Revocation\<close>

definition revocation :: "instant \<Rightarrow> string \<Rightarrow> string \<Rightarrow> grant_status_row" where
  "revocation now t gid =
     \<lparr>gs_tenant = t,
      gs_id = stable_identifier ''grant_status'' (JObj
        [(''grant_id'', JStr gid), (''status'', JStr ''revoked'')]),
      gs_grant = gid, gs_status = ''revoked'', gs_reason = ''fixture_grant_revoked'',
      gs_recorded_at = timestamp now\<rparr>"

definition is_revoked :: "string \<Rightarrow> string \<Rightarrow> 'a policy_db_scheme \<Rightarrow> bool" where
  "is_revoked t gid s = list_ex (\<lambda>r. gs_tenant r = t \<and> gs_grant r = gid \<and> gs_status r = ''revoked'')
     (grant_status_events s)"

definition revoke_fixture_grant ::
  "instant \<Rightarrow> string \<Rightarrow> string \<Rightarrow> ('a policy_db_scheme, unit) action" where
  "revoke_fixture_grant now t c =
     bind (query (activation_for_tenant_case t c)) (\<lambda>activation.
     case activation of
       None \<Rightarrow> throw (WorkflowNotFound ''workflow_not_found'')
     | Some a \<Rightarrow>
         bind (bind (query (grant_for_workflow t (ac_workflow a))) lift_res) (\<lambda>grant.
         case grant of
           None \<Rightarrow> throw (WorkflowError ''capability_grant_not_found'')
         | Some g \<Rightarrow>
             engine_tx ''capability_grant_revocation_failed''
               (bind (lift_res (text_col g ''grant_id'')) (\<lambda>gid.
                bind (query (is_revoked t gid)) (\<lambda>revoked.
                exec_if (\<not> revoked) (insert_grant_status (revocation now t gid)))))))"

end
