(* ===== verification/DeliveryProtocol.thy ===== *)
theory DeliveryProtocol
  imports PolicyApproval
begin

text \<open>
  \<open>durable_workflow.py\<close>, the outbound delivery effect: its intent, reconciliation against the
  fixture-local provider, at most one execution under the idempotency key, the observation and
  completion records and \<open>_process_delivery_intent\<close>.  Intents, observations and completions are
  the decoded payloads of their rows.
\<close>

record delivery_outcome =
  do_status :: string
  do_delivery :: "string option"
  do_version :: "int option"
  do_sha256 :: "string option"
  do_reason :: string

definition no_delivery :: "string \<Rightarrow> string \<Rightarrow> delivery_outcome" where
  "no_delivery status reason =
     \<lparr>do_status = status, do_delivery = None, do_version = None, do_sha256 = None, do_reason = reason\<rparr>"

definition delivered_as :: "string \<Rightarrow> int \<Rightarrow> string \<Rightarrow> string \<Rightarrow> delivery_outcome" where
  "delivered_as d v sha256 reason =
     \<lparr>do_status = ''present'', do_delivery = Some d, do_version = Some v, do_sha256 = Some sha256,
      do_reason = reason\<rparr>"

section \<open>Lookups\<close>

definition delivery_intent_for_workflow ::
  "string \<Rightarrow> string \<Rightarrow> 'a journal_db_scheme \<Rightarrow> exn + obj option" where
  "delivery_intent_for_workflow t w s =
     payload_row dn_payload
       (first_row (filter (\<lambda>r. dn_tenant r = t \<and> dn_workflow r = w) (delivery_intents s)))"

definition delivery_observations_of ::
  "string \<Rightarrow> string \<Rightarrow> 'a policy_db_scheme \<Rightarrow> exn + obj list" where
  "delivery_observations_of t i s =
     map_res (\<lambda>r. change4_payload (dv_payload r))
       (sort_key (\<lambda>r. (dv_recorded_at r, dv_id r))
         (filter (\<lambda>r. dv_tenant r = t \<and> dv_intent r = i) (delivery_observations s)))"

definition delivery_completion_for_intent ::
  "string \<Rightarrow> string \<Rightarrow> 'a journal_db_scheme \<Rightarrow> exn + obj option" where
  "delivery_completion_for_intent t i s =
     payload_row dc_payload
       (first_row (filter (\<lambda>r. dc_tenant r = t \<and> dc_intent r = i) (delivery_completions s)))"

section \<open>The intent\<close>

definition CONVERSATION_ID :: string where
  "CONVERSATION_ID = ''conversation-api-503''"

definition delivery_natural_key :: "activation_row \<Rightarrow> string \<Rightarrow> string \<Rightarrow> string" where
  "delivery_natural_key a candidate binding_hash =
     join_with CHR '':'' [ac_tenant a, ''fixture-local-im'', CONVERSATION_ID, ac_case a, ac_revision a,
       candidate, binding_hash]"

definition delivery_intent_payload ::
  "instant \<Rightarrow> activation_row \<Rightarrow> checkpoint \<Rightarrow> obj \<Rightarrow> exn + obj" where
  "delivery_intent_payload now a k binding =
     bind_res (obj_item binding ''candidate_hash'') (\<lambda>candidate.
     bind_res (obj_item binding ''authorization_binding_sha256'') (\<lambda>binding_hash.
     bind_res (list_item binding ''evidence_hashes'') (\<lambda>evidence.
     let natural_key = delivery_natural_key a (py_str candidate) (py_str binding_hash);
         intended_state_hash = canonical_sha256 (JObj
           [(''candidate_hash'', candidate), (''authorization_binding_sha256'', binding_hash),
            (''delivery_resource_id'', JStr API_503_DELIVERY_RESOURCE_ID)])
     in Inr
       [(''schema_id'', JStr OUTBOUND_DELIVERY_INTENT_SCHEMA_ID),
        (''schema_version'', JStr ''v1''),
        (''tenant_id'', JStr (ac_tenant a)),
        (''case_id'', JStr (ac_case a)),
        (''case_revision_id'', JStr (ac_revision a)),
        (''workflow_id'', JStr (ac_workflow a)),
        (''checkpoint_id'', JStr (cp_id (ck_row k))),
        (''intent_id'', JStr (stable_identifier ''outbound_delivery_intent'' (JObj
           [(''workflow_id'', JStr (ac_workflow a)), (''natural_key'', JStr natural_key)]))),
        (''effect_kind'', JStr ''fixture-local-outbound-delivery''),
        (''operation'', JStr ''deliver''),
        (''channel'', JStr ''fixture-local-im''),
        (''conversation_id'', JStr CONVERSATION_ID),
        (''delivery_resource_id'', JStr API_503_DELIVERY_RESOURCE_ID),
        (''candidate_hash'', candidate),
        (''authorization_binding_sha256'', binding_hash),
        (''natural_key'', JStr natural_key),
        (''intended_state_hash'', JStr intended_state_hash),
        (''idempotency_key'', JStr (stable_idempotency_key (ac_tenant a) ''fixture-local-im''
           ''deliver'' natural_key intended_state_hash)),
        (''evidence_hashes'', JList evidence),
        (''correlation_id'', JStr (ac_correlation a)),
        (''created_at'', JStr (timestamp now))])))"

definition delivery_intent_row_of :: "string \<Rightarrow> string \<Rightarrow> obj \<Rightarrow> exn + delivery_intent_row" where
  "delivery_intent_row_of t w p =
     bind_res (text_col p ''intent_id'') (\<lambda>i.
     bind_res (text_col p ''checkpoint_id'') (\<lambda>checkpoint.
     bind_res (text_col p ''case_id'') (\<lambda>case_id.
     bind_res (text_col p ''case_revision_id'') (\<lambda>revision.
     bind_res (text_col p ''authorization_binding_sha256'') (\<lambda>binding.
     bind_res (text_col p ''candidate_hash'') (\<lambda>candidate.
     bind_res (list_col p ''evidence_hashes'') (\<lambda>evidence.
     bind_res (text_col p ''channel'') (\<lambda>channel.
     bind_res (text_col p ''conversation_id'') (\<lambda>conversation.
     bind_res (text_col p ''delivery_resource_id'') (\<lambda>resource.
     bind_res (text_col p ''natural_key'') (\<lambda>natural_key.
     bind_res (text_col p ''intended_state_hash'') (\<lambda>state_hash.
     bind_res (text_col p ''idempotency_key'') (\<lambda>key.
     bind_res (text_col p ''correlation_id'') (\<lambda>correlation.
     bind_res (text_col p ''created_at'') (\<lambda>created.
     Inr \<lparr>dn_tenant = t, dn_id = i, dn_workflow = w, dn_checkpoint = checkpoint, dn_case = case_id,
          dn_revision = revision, dn_binding = binding, dn_candidate = candidate,
          dn_evidence = evidence, dn_channel = channel, dn_conversation = conversation,
          dn_resource = resource, dn_natural_key = natural_key, dn_state_hash = state_hash,
          dn_key = key, dn_correlation = correlation, dn_payload = Some (JObj p),
          dn_created_at = created\<rparr>)))))))))))))))"

definition ensure_delivery_intent ::
  "validators \<Rightarrow> instant \<Rightarrow> activation_row \<Rightarrow> checkpoint \<Rightarrow> obj \<Rightarrow>
   ('a policy_db_scheme, obj \<times> bool) action" where
  "ensure_delivery_intent V now a k binding =
     bind (bind (query (delivery_intent_for_workflow (ac_tenant a) (ac_workflow a))) lift_res) (\<lambda>existing.
     case existing of
       Some p \<Rightarrow> ret (p, False)
     | None \<Rightarrow>
         bind (lift_res (delivery_intent_payload now a k binding)) (\<lambda>p.
         bind (lift_res (contract_as ''outbound_delivery_intent_invalid''
           (validate_outbound_delivery_intent V p))) (\<lambda>_.
         engine_tx ''outbound_delivery_intent_persist_failed''
           (bind (bind (query (delivery_intent_for_workflow (ac_tenant a) (ac_workflow a))) lift_res)
              (\<lambda>existing.
            case existing of
              Some q \<Rightarrow> ret (q, False)
            | None \<Rightarrow>
                bind (lift_res (delivery_intent_row_of (ac_tenant a) (ac_workflow a) p)) (\<lambda>r.
                bind (insert_delivery_intent r) (\<lambda>_. ret (p, True))))))))"

section \<open>The fixture-local provider\<close>

definition delivery_records_for ::
  "string \<Rightarrow> string \<Rightarrow> 'a policy_db_scheme \<Rightarrow> delivery_record_row list" where
  "delivery_records_for t key s =
     sort_key dr_version (filter (\<lambda>r. dr_tenant r = t \<and> dr_natural_key r = key) (delivery_records s))"

definition reconcile_delivery_intent :: "obj \<Rightarrow> 'a policy_db_scheme \<Rightarrow> exn + delivery_outcome" where
  "reconcile_delivery_intent i s =
     bind_res (text_col i ''tenant_id'') (\<lambda>t.
     bind_res (text_col i ''natural_key'') (\<lambda>key.
     Inr (case delivery_records_for t key s of
            [] \<Rightarrow> no_delivery ''absent'' ''fixture_delivery_absent''
          | [r] \<Rightarrow> if dr_version r \<noteq> 1 then no_delivery ''conflict'' ''fixture_delivery_conflict''
                  else delivered_as (dr_id r) (dr_version r) (dr_sha256 r) ''fixture_delivery_present''
          | _ \<Rightarrow> no_delivery ''conflict'' ''fixture_delivery_conflict'')))"

definition find_delivery_operation ::
  "string \<Rightarrow> string \<Rightarrow> 'a policy_db_scheme \<Rightarrow> delivery_operation_row option" where
  "find_delivery_operation t key s =
     first_row (filter (\<lambda>r. dp_tenant r = t \<and> dp_key r = key) (delivery_operations s))"

definition new_delivery_record :: "instant \<Rightarrow> string \<Rightarrow> string \<Rightarrow> string \<Rightarrow> delivery_record_row" where
  "new_delivery_record now t natural_key sha256 =
     \<lparr>dr_tenant = t,
      dr_id = stable_identifier ''fixture_delivery'' (JObj
        [(''tenant_id'', JStr t), (''natural_key'', JStr natural_key)]),
      dr_natural_key = natural_key, dr_version = 1, dr_sha256 = sha256,
      dr_classification = ''synthetic'', dr_created_at = timestamp now\<rparr>"

definition record_delivery ::
  "instant \<Rightarrow> string \<Rightarrow> string \<Rightarrow> string \<Rightarrow> string \<Rightarrow> ('a policy_db_scheme, delivery_outcome) action" where
  "record_delivery now t key natural_key sha256 =
     (let r = new_delivery_record now t natural_key sha256 in
      bind (insert_delivery_record r) (\<lambda>_.
      bind (insert_delivery_operation
        \<lparr>dp_tenant = t, dp_key = key, dp_natural_key = natural_key, dp_delivery = dr_id r,
         dp_version = 1, dp_sha256 = sha256, dp_created_at = timestamp now\<rparr>) (\<lambda>_.
      ret (delivered_as (dr_id r) 1 sha256 ''fixture_delivery_recorded''))))"

definition execute_delivery_intent ::
  "instant \<Rightarrow> obj \<Rightarrow> ('a policy_db_scheme, delivery_outcome) action" where
  "execute_delivery_intent now i =
     engine_tx ''fixture_delivery_execute_failed''
       (bind (lift_res (text_col i ''tenant_id'')) (\<lambda>t.
        bind (lift_res (text_col i ''idempotency_key'')) (\<lambda>key.
        bind (query (find_delivery_operation t key)) (\<lambda>existing.
        case existing of
          Some p \<Rightarrow> ret (delivered_as (dp_delivery p) (dp_version p) (dp_sha256 p)
                     ''fixture_delivery_idempotent'')
        | None \<Rightarrow>
            bind (lift_res (text_col i ''natural_key'')) (\<lambda>natural_key.
            bind (query (\<lambda>s. first_row (delivery_records_for t natural_key s))) (\<lambda>existing.
            case existing of
              Some r \<Rightarrow> ret (delivered_as (dr_id r) (dr_version r) (dr_sha256 r)
                         ''fixture_delivery_reconciled'')
            | None \<Rightarrow>
                bind (lift_res (obj_item i ''candidate_hash'')) (\<lambda>candidate.
                record_delivery now t key natural_key (py_str candidate))))))))"

section \<open>Observations and completions\<close>

definition delivery_observation_payload ::
  "instant \<Rightarrow> obj \<Rightarrow> string \<Rightarrow> delivery_outcome \<Rightarrow> exn + obj" where
  "delivery_observation_payload now i phase out =
     bind_res (obj_item i ''tenant_id'') (\<lambda>t.
     bind_res (obj_item i ''case_id'') (\<lambda>case_id.
     bind_res (obj_item i ''case_revision_id'') (\<lambda>revision.
     bind_res (obj_item i ''workflow_id'') (\<lambda>w.
     bind_res (obj_item i ''checkpoint_id'') (\<lambda>checkpoint.
     bind_res (obj_item i ''intent_id'') (\<lambda>iid.
     Inr
       [(''schema_id'', JStr OUTBOUND_DELIVERY_OBSERVATION_SCHEMA_ID), (''schema_version'', JStr ''v1''),
        (''tenant_id'', t), (''case_id'', case_id), (''case_revision_id'', revision),
        (''workflow_id'', w), (''checkpoint_id'', checkpoint),
        (''observation_id'', JStr (stable_identifier ''outbound_delivery_observation'' (JObj
           [(''intent_id'', iid), (''phase'', JStr phase), (''status'', JStr (do_status out)),
            (''delivery_id'', jopt (do_delivery out))]))),
        (''intent_id'', iid), (''status'', JStr (do_status out)),
        (''observed_delivery_id'', jopt (do_delivery out)),
        (''observed_version'', jopt_int (do_version out)),
        (''content_sha256'', jopt (do_sha256 out)), (''reason_code'', JStr (do_reason out)),
        (''recorded_at'', JStr (timestamp now))]))))))"

definition int_opt_col :: "obj \<Rightarrow> string \<Rightarrow> exn + int option" where
  "int_opt_col p k = bind_res (obj_item p k) (\<lambda>v.
     if v = JNull then Inr None else bind_res (sql_int v) (\<lambda>n. Inr (Some n)))"

definition text_opt_col :: "obj \<Rightarrow> string \<Rightarrow> exn + string option" where
  "text_opt_col p k = bind_res (obj_item p k) sql_text_opt"

definition delivery_observation_row_of :: "obj \<Rightarrow> exn + delivery_observation_row" where
  "delivery_observation_row_of p =
     bind_res (text_col p ''tenant_id'') (\<lambda>t.
     bind_res (text_col p ''observation_id'') (\<lambda>i.
     bind_res (text_col p ''intent_id'') (\<lambda>iid.
     bind_res (text_col p ''workflow_id'') (\<lambda>w.
     bind_res (text_col p ''checkpoint_id'') (\<lambda>checkpoint.
     bind_res (text_col p ''status'') (\<lambda>status.
     bind_res (text_opt_col p ''observed_delivery_id'') (\<lambda>delivery.
     bind_res (int_opt_col p ''observed_version'') (\<lambda>version.
     bind_res (text_opt_col p ''content_sha256'') (\<lambda>sha256.
     bind_res (text_opt_col p ''reason_code'') (\<lambda>reason.
     bind_res (text_col p ''recorded_at'') (\<lambda>recorded_at.
     Inr \<lparr>dv_tenant = t, dv_id = i, dv_intent = iid, dv_workflow = w, dv_checkpoint = checkpoint,
          dv_status = status, dv_delivery = delivery, dv_version = version, dv_sha256 = sha256,
          dv_reason = reason, dv_payload = Some (JObj p), dv_recorded_at = recorded_at\<rparr>)))))))))))"

definition find_delivery_observation ::
  "string \<Rightarrow> string \<Rightarrow> 'a policy_db_scheme \<Rightarrow> delivery_observation_row option" where
  "find_delivery_observation t oid s =
     first_row (filter (\<lambda>r. dv_tenant r = t \<and> dv_id r = oid) (delivery_observations s))"

definition record_delivery_observation ::
  "validators \<Rightarrow> instant \<Rightarrow> obj \<Rightarrow> string \<Rightarrow> delivery_outcome \<Rightarrow> ('a policy_db_scheme, obj) action"
where
  "record_delivery_observation V now i phase out =
     bind (lift_res (delivery_observation_payload now i phase out)) (\<lambda>p.
     bind (lift_res (contract_as ''outbound_delivery_observation_invalid''
       (validate_outbound_delivery_observation V p))) (\<lambda>_.
     engine_tx ''outbound_delivery_observation_persist_failed''
       (bind (lift_res (delivery_observation_row_of p)) (\<lambda>r.
        bind (query (find_delivery_observation (dv_tenant r) (dv_id r))) (\<lambda>existing.
        case existing of
          Some q \<Rightarrow> lift_res (change4_payload (dv_payload q))
        | None \<Rightarrow> bind (insert_delivery_observation r) (\<lambda>_. ret p))))))"

text \<open>\<open>isinstance(value, int)\<close>, which holds for a \<open>bool\<close>, too.\<close>

definition is_jint :: "json \<Rightarrow> bool" where
  "is_jint v = (case v of JInt _ \<Rightarrow> True | JBool _ \<Rightarrow> True | _ \<Rightarrow> False)"

definition delivery_completion_payload :: "instant \<Rightarrow> obj \<Rightarrow> obj \<Rightarrow> exn + obj" where
  "delivery_completion_payload now i ob =
     bind_res (require (obj_get ob ''status'' = JStr ''present'' \<and>
         is_jstr (obj_get ob ''observed_delivery_id'') \<and> is_jint (obj_get ob ''observed_version'') \<and>
         is_jstr (obj_get ob ''content_sha256''))
       (WorkflowError ''outbound_delivery_completion_predecessor_invalid'')) (\<lambda>_.
     bind_res (obj_item i ''tenant_id'') (\<lambda>t.
     bind_res (obj_item i ''case_id'') (\<lambda>case_id.
     bind_res (obj_item i ''case_revision_id'') (\<lambda>revision.
     bind_res (obj_item i ''workflow_id'') (\<lambda>w.
     bind_res (obj_item i ''checkpoint_id'') (\<lambda>checkpoint.
     bind_res (obj_item i ''intent_id'') (\<lambda>iid.
     bind_res (obj_item ob ''observation_id'') (\<lambda>oid.
     Inr
       [(''schema_id'', JStr OUTBOUND_DELIVERY_COMPLETION_SCHEMA_ID), (''schema_version'', JStr ''v1''),
        (''tenant_id'', t), (''case_id'', case_id), (''case_revision_id'', revision),
        (''workflow_id'', w), (''checkpoint_id'', checkpoint),
        (''completion_id'', JStr (stable_identifier ''outbound_delivery_completion''
           (JObj [(''intent_id'', iid)]))),
        (''intent_id'', iid), (''observation_id'', oid),
        (''observed_delivery_id'', obj_get ob ''observed_delivery_id''),
        (''observed_version'', obj_get ob ''observed_version''),
        (''content_sha256'', obj_get ob ''content_sha256''),
        (''completed_at'', JStr (timestamp now))]))))))))"

definition delivery_completion_row_of :: "obj \<Rightarrow> exn + delivery_completion_row" where
  "delivery_completion_row_of p =
     bind_res (text_col p ''tenant_id'') (\<lambda>t.
     bind_res (text_col p ''completion_id'') (\<lambda>i.
     bind_res (text_col p ''intent_id'') (\<lambda>iid.
     bind_res (text_col p ''workflow_id'') (\<lambda>w.
     bind_res (text_col p ''checkpoint_id'') (\<lambda>checkpoint.
     bind_res (text_col p ''observation_id'') (\<lambda>oid.
     bind_res (text_col p ''observed_delivery_id'') (\<lambda>delivery.
     bind_res (int_col p ''observed_version'') (\<lambda>version.
     bind_res (text_col p ''content_sha256'') (\<lambda>sha256.
     bind_res (text_col p ''completed_at'') (\<lambda>completed_at.
     Inr \<lparr>dc_tenant = t, dc_id = i, dc_intent = iid, dc_workflow = w, dc_checkpoint = checkpoint,
          dc_observation = oid, dc_delivery = delivery, dc_version = version, dc_sha256 = sha256,
          dc_payload = Some (JObj p), dc_completed_at = completed_at\<rparr>))))))))))"

text \<open>The transaction; \<open>Inl\<close> is the completion that was already there, \<open>Inr\<close> the one stored now.\<close>

definition persist_delivery_completion :: "obj \<Rightarrow> ('a policy_db_scheme, obj + obj) action" where
  "persist_delivery_completion p =
     engine_tx ''outbound_delivery_completion_persist_failed''
       (bind (lift_res (delivery_completion_row_of p)) (\<lambda>r.
        bind (bind (query (delivery_completion_for_intent (dc_tenant r) (dc_intent r))) lift_res)
          (\<lambda>existing.
        case existing of
          Some q \<Rightarrow> ret (Inl q)
        | None \<Rightarrow> bind (insert_delivery_completion r) (\<lambda>_. ret (Inr p)))))"

definition check_delivery_chain :: "validators \<Rightarrow> obj \<Rightarrow> obj \<Rightarrow> ('a policy_db_scheme, obj) action" where
  "check_delivery_chain V i p =
     bind (lift_res (obj_item i ''tenant_id'')) (\<lambda>t.
     bind (lift_res (obj_item i ''workflow_id'')) (\<lambda>w.
     bind (bind (query (authorization_binding_for_workflow (py_str t) (py_str w))) lift_res) (\<lambda>binding.
     case binding of
       None \<Rightarrow> throw (WorkflowError ''policy_journal_invalid'')
     | Some b \<Rightarrow>
         bind (lift_res (obj_item i ''intent_id'')) (\<lambda>iid.
         bind (bind (query (delivery_observations_of (py_str t) (py_str iid))) lift_res) (\<lambda>obs.
         bind (lift_res (contract_as ''outbound_delivery_chain_invalid''
           (validate_outbound_delivery_chain V i obs [p] b))) (\<lambda>_. ret p))))))"

definition record_delivery_completion ::
  "validators \<Rightarrow> instant \<Rightarrow> obj \<Rightarrow> obj \<Rightarrow> ('a policy_db_scheme, obj) action" where
  "record_delivery_completion V now i ob =
     bind (lift_res (delivery_completion_payload now i ob)) (\<lambda>p.
     bind (lift_res (contract_as ''outbound_delivery_completion_invalid''
       (validate_outbound_delivery_completion V p))) (\<lambda>_.
     bind (persist_delivery_completion p) (\<lambda>stored.
     case stored of Inl q \<Rightarrow> ret q | Inr p \<Rightarrow> check_delivery_chain V i p)))"

section \<open>The protocol of the delivery intent\<close>

definition complete_delivery ::
  "validators \<Rightarrow> instant \<Rightarrow> fault_profile option \<Rightarrow> obj \<Rightarrow> obj \<Rightarrow>
   ('a policy_db_scheme, obj option) action" where
  "complete_delivery V now fp i ob =
     bind (interrupt fp ''delivery-observation'') (\<lambda>_.
     bind (record_delivery_completion V now i ob) (\<lambda>c.
     bind (interrupt fp ''delivery-completion'') (\<lambda>_. ret (Some c))))"

definition deliver_and_complete ::
  "validators \<Rightarrow> instant \<Rightarrow> fault_profile option \<Rightarrow> obj \<Rightarrow> ('a policy_db_scheme, obj option) action"
where
  "deliver_and_complete V now fp i =
     bind (execute_delivery_intent now i) (\<lambda>out.
     bind (interrupt fp ''delivery-execute'') (\<lambda>_.
     if do_status out \<noteq> ''present'' then
       bind (record_delivery_observation V now i ''execute'' out) (\<lambda>_. ret None)
     else
       bind (interrupt fp ''delivery-lost-response'') (\<lambda>_.
       bind (record_delivery_observation V now i ''execute'' out) (\<lambda>ob.
       complete_delivery V now fp i ob))))"

text \<open>\<open>Some c\<close> is the disposition \<open>complete\<close> with its completion, \<open>None\<close> is \<open>blocked\<close>.\<close>

definition process_delivery_intent ::
  "validators \<Rightarrow> instant \<Rightarrow> fault_profile option \<Rightarrow> obj \<Rightarrow> ('a policy_db_scheme, obj option) action"
where
  "process_delivery_intent V now fp i =
     bind (lift_res (obj_item i ''tenant_id'')) (\<lambda>t.
     bind (lift_res (obj_item i ''intent_id'')) (\<lambda>iid.
     bind (bind (query (delivery_completion_for_intent (py_str t) (py_str iid))) lift_res) (\<lambda>existing.
     case existing of
       Some c \<Rightarrow> ret (Some c)
     | None \<Rightarrow>
         if timed_out fp then
           bind (record_delivery_observation V now i ''reconcile-timeout''
             (no_delivery ''unknown'' ''reconciliation_timeout'')) (\<lambda>_. ret None)
         else
           bind (bind (query (reconcile_delivery_intent i)) lift_res) (\<lambda>out.
           bind (record_delivery_observation V now i ''reconcile'' out) (\<lambda>ob.
           if do_status out \<in> {''unknown'', ''conflict''} then ret None
           else if do_status out = ''absent'' then deliver_and_complete V now fp i
           else if do_status out \<noteq> ''present'' then ret None
           else complete_delivery V now fp i ob)))))"

end
