(* ===== verification/InvestigationRecords.thy ===== *)
theory InvestigationRecords
  imports DeliveryProtocol AgentContracts
begin

text \<open>
  \<open>durable_workflow.py\<close>, the records of the investigation journal as the payloads the contracts
  validate: the context manifest, agent actions, tool requests and results, response candidates and
  verifier outcomes.
\<close>

definition manifest_payload :: "investigation_row \<Rightarrow> exn + obj" where
  "manifest_payload r =
     bind_res (manifest_evidence r) (\<lambda>evidence. Inr
       [(''schema_id'', JStr CONTEXT_MANIFEST_SCHEMA_ID), (''schema_version'', JStr ''v1''),
        (''tenant_id'', JStr (iv_tenant r)), (''case_id'', JStr (iv_case r)),
        (''case_revision_id'', JStr (iv_revision r)), (''workflow_id'', JStr (iv_workflow r)),
        (''checkpoint_id'', JStr (iv_checkpoint r)), (''context_manifest_id'', JStr (iv_manifest r)),
        (''context_sha256'', JStr (iv_context_sha256 r)),
        (''environment_snapshot_sha256'', JStr (iv_environment r)),
        (''evidence_references'', jlist evidence), (''action_budget'', JInt (iv_action_budget r)),
        (''tool_budget'', JInt (iv_tool_budget r)), (''no_progress_limit'', JInt (iv_no_progress r)),
        (''created_at'', JStr (iv_created_at r))])"

definition action_payload :: "activation_row \<Rightarrow> agent_step_row \<Rightarrow> obj" where
  "action_payload a r =
     [(''schema_id'', JStr AGENT_ACTION_SCHEMA_ID), (''schema_version'', JStr ''v1''),
      (''tenant_id'', JStr (ac_tenant a)), (''case_id'', JStr (ac_case a)),
      (''case_revision_id'', JStr (ac_revision a)), (''workflow_id'', JStr (ac_workflow a)),
      (''checkpoint_id'', JStr (as_checkpoint r)), (''context_manifest_id'', JStr (as_manifest r)),
      (''step_id'', JStr (as_step r)), (''action_type'', JStr (as_action r)),
      (''action_sha256'', JStr (as_sha256 r)), (''created_at'', JStr (as_created_at r))]"

definition tool_request_payload :: "activation_row \<Rightarrow> tool_request_row \<Rightarrow> obj" where
  "tool_request_payload a r =
     [(''schema_id'', JStr TOOL_REQUEST_SCHEMA_ID), (''schema_version'', JStr ''v1''),
      (''tenant_id'', JStr (ac_tenant a)), (''case_id'', JStr (ac_case a)),
      (''case_revision_id'', JStr (ac_revision a)), (''workflow_id'', JStr (ac_workflow a)),
      (''checkpoint_id'', JStr (tq_checkpoint r)), (''context_manifest_id'', JStr (tq_manifest r)),
      (''tool_request_id'', JStr (tq_id r)), (''step_id'', JStr (tq_step r)),
      (''tool_name'', JStr (tq_tool r)), (''request_sha256'', JStr (tq_sha256 r)),
      (''created_at'', JStr (tq_created_at r))]"

text \<open>The result payload takes checkpoint, manifest and tool name from the request it joins.\<close>

definition tool_result_payload :: "activation_row \<Rightarrow> tool_request_row \<Rightarrow> tool_result_row \<Rightarrow> obj" where
  "tool_result_payload a q r =
     [(''schema_id'', JStr TOOL_RESULT_SCHEMA_ID), (''schema_version'', JStr ''v1''),
      (''tenant_id'', JStr (ac_tenant a)), (''case_id'', JStr (ac_case a)),
      (''case_revision_id'', JStr (ac_revision a)), (''workflow_id'', JStr (ac_workflow a)),
      (''checkpoint_id'', JStr (tq_checkpoint q)), (''context_manifest_id'', JStr (tq_manifest q)),
      (''tool_name'', JStr (tq_tool q)), (''tool_result_id'', JStr (tr_id r)),
      (''tool_request_id'', JStr (tq_id q)), (''evidence_id'', JStr (tr_evidence r)),
      (''content_sha256'', JStr (tr_sha256 r)),
      (''redaction_classification'', JStr (tr_redaction r)),
      (''recorded_at'', JStr (tr_recorded_at r))]"

definition candidate_payload :: "activation_row \<Rightarrow> candidate_row \<Rightarrow> exn + obj" where
  "candidate_payload a r =
     bind_res (load_candidate r) (\<lambda>r. Inr
       [(''schema_id'', JStr RESPONSE_CANDIDATE_SCHEMA_ID), (''schema_version'', JStr ''v1''),
        (''tenant_id'', JStr (ca_tenant r)), (''case_id'', JStr (ac_case a)),
        (''case_revision_id'', JStr (ac_revision a)), (''workflow_id'', JStr (ca_workflow r)),
        (''checkpoint_id'', JStr (ca_checkpoint r)), (''context_manifest_id'', JStr (ca_manifest r)),
        (''candidate_id'', JStr (ca_id r)), (''context_sha256'', JStr (ca_context r)),
        (''evidence_hashes'', jlist (case ca_evidence r of None \<Rightarrow> [] | Some es \<Rightarrow> es)),
        (''candidate_sha256'', JStr (ca_sha256 r)), (''risk'', JStr (ca_risk r)),
        (''next_step'', JStr (ca_next_step r)), (''created_at'', JStr (ca_created_at r))])"

definition verifier_outcome_payload :: "activation_row \<Rightarrow> outcome_row \<Rightarrow> obj" where
  "verifier_outcome_payload a r =
     [(''schema_id'', JStr VERIFIER_OUTCOME_SCHEMA_ID), (''schema_version'', JStr ''v1''),
      (''tenant_id'', JStr (vo_tenant r)), (''case_id'', JStr (ac_case a)),
      (''case_revision_id'', JStr (ac_revision a)), (''workflow_id'', JStr (vo_workflow r)),
      (''checkpoint_id'', JStr (vo_checkpoint r)), (''context_manifest_id'', JStr (vo_manifest r)),
      (''verifier_outcome_id'', JStr (vo_id r)), (''candidate_id'', JStr (vo_candidate r)),
      (''candidate_sha256'', JStr (vo_sha256 r)), (''outcome'', JStr (vo_outcome r)),
      (''reason_code'', JStr (vo_reason r)), (''recorded_at'', JStr (vo_recorded_at r))]"

end
