(* ===== verification/SourceChecks.thy ===== *)
theory SourceChecks
  imports InvestigationRecords RebuildChecks
begin

text \<open>
  \<open>durable_workflow.py\<close>, \<open>rebuild_workflow_projection\<close>: the checks of the workflow, investigation and
  policy records of every activation, and the read model derived from the checkpoints that pass.
\<close>

abbreviation policy_invalid :: exn where
  "policy_invalid \<equiv> WorkflowError ''policy_journal_invalid''"
abbreviation investigation_invalid :: exn where
  "investigation_invalid \<equiv> WorkflowError ''investigation_journal_invalid''"

text \<open>\<open>value in {str, ...}\<close>: a JSON list or object is not hashable.\<close>

definition in_strings :: "json \<Rightarrow> string list \<Rightarrow> exn + bool" where
  "in_strings v xs = (case v of
     JStr x \<Rightarrow> Inr (x \<in> set xs)
   | JList _ \<Rightarrow> Inl (TypeError ''unhashable type'')
   | JObj _ \<Rightarrow> Inl (TypeError ''unhashable type'')
   | _ \<Rightarrow> Inr False)"

section \<open>Workflow records\<close>

definition source_event_exists :: "activation_row \<Rightarrow> 'a journal_db_scheme \<Rightarrow> bool" where
  "source_event_exists a s =
     list_ex (\<lambda>e. ev_tenant e = ac_tenant a \<and> ev_id e = ac_source a \<and> ev_case e = ac_case a \<and>
       ev_revision e = ac_revision a) (events s)"

definition workflow_commands :: "string \<Rightarrow> string \<Rightarrow> 'a journal_db_scheme \<Rightarrow> command_row list" where
  "workflow_commands t w s = sort_key (\<lambda>c. (cm_accepted_at c, cm_id c))
     (filter (\<lambda>c. cm_tenant c = t \<and> cm_workflow c = w) (commands s))"

definition check_command ::
  "validators \<Rightarrow> activation_row \<Rightarrow> checkpoint list \<Rightarrow> command_row \<Rightarrow> exn + unit" where
  "check_command V a ks c =
     bind_res (as_invalid_journal (validate_workflow_command V (command_payload a c) None)) (\<lambda>_.
     bind_res (require
       (cm_payload_sha256 c = command_payload_sha256 (ac_case a) (cm_type c) (cm_expected c) \<and>
        cm_fingerprint c = canonical_sha256 (JObj
          [(''command_id'', JStr (cm_id c)), (''command_type'', JStr (cm_type c)),
           (''expected_workflow_version'', JInt (cm_expected c)),
           (''command_payload_sha256'', JStr (cm_payload_sha256 c))])) journal_invalid) (\<lambda>_.
     require (length (filter (\<lambda>k. cp_causation (ck_row k) = Some (command_causation (cm_id c))) ks) \<le> 1)
       journal_invalid))"

definition workflow_intents ::
  "string \<Rightarrow> string \<Rightarrow> 'a journal_db_scheme \<Rightarrow> exn + intent_row list" where
  "workflow_intents t w s = map_res load_intent (sort_key (\<lambda>i. (in_created_at i, in_id i))
     (filter (\<lambda>i. in_tenant i = t \<and> in_workflow i = w) (intents s)))"

definition intent_observations ::
  "string \<Rightarrow> string \<Rightarrow> 'a journal_db_scheme \<Rightarrow> obj list" where
  "intent_observations t i s = map observation_payload (sort_key (\<lambda>r. (ob_recorded_at r, ob_id r))
     (filter (\<lambda>r. ob_tenant r = t \<and> ob_intent r = i) (observations s)))"

definition intent_completions ::
  "string \<Rightarrow> string \<Rightarrow> 'a journal_db_scheme \<Rightarrow> obj list" where
  "intent_completions t i s = map completion_payload (sort_key (\<lambda>r. (co_completed_at r, co_id r))
     (filter (\<lambda>r. co_tenant r = t \<and> co_intent r = i) (completions s)))"

text \<open>One effect intent: its identity, and whether it is completed.\<close>

definition check_effect ::
  "validators \<Rightarrow> activation_row \<Rightarrow> string list \<Rightarrow> 'a journal_db_scheme \<Rightarrow> string list \<Rightarrow> intent_row \<Rightarrow>
   exn + string list" where
  "check_effect V a checkpoint_ids s completed i =
     bind_res (require (in_case i = ac_case a \<and> in_revision i = ac_revision a \<and>
         in_workflow i = ac_workflow a \<and> in_checkpoint i \<in> set checkpoint_ids \<and>
         in_natural_key i = effect_natural_key a) journal_invalid) (\<lambda>_.
     let cs = intent_completions (ac_tenant a) (in_id i) s in
     bind_res (as_invalid_journal (validate_side_effect_chain V (intent_payload i)
       (intent_observations (ac_tenant a) (in_id i) s) cs)) (\<lambda>_.
     Inr (if cs \<noteq> [] then in_id i # completed else completed)))"

section \<open>Delivery records\<close>

text \<open>\<open>WHERE tenant_id = ? AND authorization_binding_sha256 = ?\<close>\<close>

definition binding_by_hash ::
  "string \<Rightarrow> json \<Rightarrow> 'a policy_db_scheme \<Rightarrow> exn + binding_row option" where
  "binding_by_hash t h s =
     bind_res (sql_text_opt h) (\<lambda>h.
     Inr (first_row (filter (\<lambda>r. ab_tenant r = t \<and> Some (ab_sha256 r) = h) (bindings s))))"

definition delivery_observations_for ::
  "string \<Rightarrow> json \<Rightarrow> 'a policy_db_scheme \<Rightarrow> exn + obj list" where
  "delivery_observations_for t i s =
     bind_res (sql_text_opt i) (\<lambda>i.
     case i of None \<Rightarrow> Inr [] | Some i \<Rightarrow> delivery_observations_of t i s)"

definition delivery_completions_for ::
  "string \<Rightarrow> json \<Rightarrow> 'a journal_db_scheme \<Rightarrow> exn + obj list" where
  "delivery_completions_for t i s =
     bind_res (sql_text_opt i) (\<lambda>i.
     map_res (\<lambda>r. change4_payload (dc_payload r)) (sort_key (\<lambda>r. (dc_completed_at r, dc_id r))
       (filter (\<lambda>r. dc_tenant r = t \<and> Some (dc_intent r) = i) (delivery_completions s))))"

definition check_delivery ::
  "validators \<Rightarrow> activation_row \<Rightarrow> string list \<Rightarrow> 'a policy_db_scheme \<Rightarrow> string list \<times> string list \<Rightarrow>
   delivery_intent_row \<Rightarrow> exn + string list \<times> string list" where
  "check_delivery V a checkpoint_ids s known r =
     (let t = ac_tenant a in
     bind_res (change4_payload (dn_payload r)) (\<lambda>p.
     bind_res (contract_as ''policy_journal_invalid'' (validate_outbound_delivery_intent V p)) (\<lambda>_.
     bind_res (require (obj_get p ''case_id'' = JStr (ac_case a) \<and>
         obj_get p ''case_revision_id'' = JStr (ac_revision a) \<and>
         obj_get p ''workflow_id'' = JStr (ac_workflow a)) policy_invalid) (\<lambda>_.
     bind_res (in_strings (obj_get p ''checkpoint_id'') checkpoint_ids) (\<lambda>at_checkpoint.
     bind_res (require at_checkpoint policy_invalid) (\<lambda>_.
     bind_res (bind_res (obj_item p ''authorization_binding_sha256'') (\<lambda>h. binding_by_hash t h s))
       (\<lambda>row.
     case row of
       None \<Rightarrow> Inl policy_invalid
     | Some row \<Rightarrow>
         bind_res (change4_payload (ab_payload row)) (\<lambda>b.
         bind_res (contract_as ''policy_journal_invalid'' (validate_authorization_binding V b)) (\<lambda>_.
         bind_res (obj_item p ''intent_id'') (\<lambda>i.
         bind_res (delivery_observations_for t i s) (\<lambda>obs.
         bind_res (delivery_completions_for t i s) (\<lambda>cs.
         bind_res (contract_as ''policy_journal_invalid'' (validate_outbound_delivery_chain V p obs cs b)) (\<lambda>_.
         Inr (py_str i # fst known, if cs \<noteq> [] then py_str i # snd known else snd known))))))))))))))"

definition workflow_deliveries ::
  "string \<Rightarrow> string \<Rightarrow> 'a journal_db_scheme \<Rightarrow> delivery_intent_row list" where
  "workflow_deliveries t w s = sort_key (\<lambda>r. (dn_created_at r, dn_id r))
     (filter (\<lambda>r. dn_tenant r = t \<and> dn_workflow r = w) (delivery_intents s))"

text \<open>The part of \<open>_validate_workflow_source\<close> behind the checkpoint chain.\<close>

definition validate_effect_source ::
  "validators \<Rightarrow> activation_row \<Rightarrow> checkpoint list \<Rightarrow> 'a policy_db_scheme \<Rightarrow> exn + unit" where
  "validate_effect_source V a ks s =
     (let t = ac_tenant a; w = ac_workflow a; latest = last ks;
          checkpoint_ids = map (\<lambda>k. cp_id (ck_row k)) ks in
     bind_res (each_res (check_command V a ks) (workflow_commands t w s)) (\<lambda>_.
     bind_res (workflow_intents t w s) (\<lambda>rows.
     bind_res (as_invalid_journal (validate_side_effect_intents V (map intent_payload rows))) (\<lambda>_.
     bind_res (fold_res (check_delivery V a checkpoint_ids s) (map in_id rows, [])
       (workflow_deliveries t w s)) (\<lambda>(ids, delivered).
     bind_res (require (set (ck_pending latest) \<union> set (ck_completed latest) \<subseteq> set ids) journal_invalid)
       (\<lambda>_.
     bind_res (fold_res (check_effect V a checkpoint_ids s) [] rows) (\<lambda>completed.
     bind_res (require (set (ck_completed latest) \<subseteq> set (completed @ delivered)) journal_invalid) (\<lambda>_.
     bind_res (require (set (ck_pending latest) \<subseteq> set ids) journal_invalid) (\<lambda>_.
     bind_res (require (set (ck_pending latest) \<inter> set (ck_completed latest) = {}) journal_invalid) (\<lambda>_.
     validate_ticket_source t s))))))))))"

definition validate_workflow_source ::
  "validators \<Rightarrow> activation_row \<Rightarrow> checkpoint list \<Rightarrow> 'a policy_db_scheme \<Rightarrow> exn + unit" where
  "validate_workflow_source V a ks s =
     bind_res (require (source_event_exists a s) journal_invalid) (\<lambda>_.
     bind_res (validate_checkpoint_source V a ks s) (\<lambda>_.
     if ks = [] then Inr () else validate_effect_source V a ks s))"

section \<open>The investigation journal\<close>

definition check_agent_step :: "validators \<Rightarrow> activation_row \<Rightarrow> obj \<Rightarrow> agent_step_row \<Rightarrow> exn + unit" where
  "check_agent_step V a manifest r =
     contract_as ''investigation_journal_invalid''
       (validate_agent_action V (action_payload a r) (Some manifest))"

text \<open>One request of the \<open>LEFT JOIN\<close> with its results: a request without a result is invalid.\<close>

definition check_tool_exchange ::
  "validators \<Rightarrow> activation_row \<Rightarrow> obj \<Rightarrow> 'a policy_db_scheme \<Rightarrow> tool_request_row \<Rightarrow> exn + unit" where
  "check_tool_exchange V a manifest s q =
     (let request = tool_request_payload a q;
          results = filter (\<lambda>r. tr_tenant r = tq_tenant q \<and> tr_request r = tq_id q) (tool_results s) in
     bind_res (contract_as ''investigation_journal_invalid''
       (validate_tool_request V request (Some manifest))) (\<lambda>_.
     bind_res (require (results \<noteq> []) investigation_invalid) (\<lambda>_.
     each_res (\<lambda>r. contract_as ''investigation_journal_invalid''
       (validate_tool_result V (tool_result_payload a q r) (Some request))) results)))"

definition check_candidate ::
  "validators \<Rightarrow> activation_row \<Rightarrow> obj \<Rightarrow> candidate_row \<Rightarrow> exn + string \<times> obj" where
  "check_candidate V a manifest r =
     bind_res (candidate_payload a r) (\<lambda>c.
     bind_res (contract_as ''investigation_journal_invalid''
       (validate_response_candidate V c (Some manifest) None)) (\<lambda>_. Inr (ca_id r, c)))"

text \<open>\<open>candidates[id] = candidate\<close>: of two candidates of one identifier the later one counts.\<close>

definition check_outcome ::
  "validators \<Rightarrow> activation_row \<Rightarrow> (string \<times> obj) list \<Rightarrow> outcome_row \<Rightarrow> exn + unit" where
  "check_outcome V a known r =
     (case map_of (rev known) (vo_candidate r) of
        None \<Rightarrow> Inl investigation_invalid
      | Some c \<Rightarrow> contract_as ''investigation_journal_invalid''
          (validate_verifier_outcome V (verifier_outcome_payload a r) (Some c)))"

definition check_investigation ::
  "validators \<Rightarrow> activation_row \<Rightarrow> string list \<Rightarrow> 'a policy_db_scheme \<Rightarrow> investigation_row \<Rightarrow> exn + unit"
where
  "check_investigation V a checkpoint_ids s iv =
     (let t = ac_tenant a; w = ac_workflow a in
     bind_res (manifest_payload iv) (\<lambda>manifest.
     bind_res (contract_as ''investigation_journal_invalid'' (validate_context_manifest V manifest)) (\<lambda>_.
     bind_res (require (iv_tenant iv = t \<and> iv_case iv = ac_case a \<and> iv_revision iv = ac_revision a \<and>
         iv_workflow iv = w \<and> iv_checkpoint iv \<in> set checkpoint_ids) investigation_invalid) (\<lambda>_.
     bind_res (each_res (check_agent_step V a manifest)
       (filter (\<lambda>r. as_tenant r = t \<and> as_workflow r = w) (agent_steps s))) (\<lambda>_.
     bind_res (each_res (check_tool_exchange V a manifest s)
       (filter (\<lambda>r. tq_tenant r = t \<and> tq_workflow r = w) (tool_requests s))) (\<lambda>_.
     bind_res (map_res (check_candidate V a manifest)
       (filter (\<lambda>r. ca_tenant r = t \<and> ca_workflow r = w) (candidates s))) (\<lambda>known.
     each_res (check_outcome V a known)
       (filter (\<lambda>r. vo_tenant r = t \<and> vo_workflow r = w) (outcomes s)))))))))"

definition validate_investigation_source ::
  "validators \<Rightarrow> activation_row \<Rightarrow> checkpoint list \<Rightarrow> 'a policy_db_scheme \<Rightarrow> exn + unit" where
  "validate_investigation_source V a ks s =
     (case filter (\<lambda>r. iv_tenant r = ac_tenant a \<and> iv_workflow r = ac_workflow a) (investigations s) of
        [] \<Rightarrow> Inr ()
      | [iv] \<Rightarrow> check_investigation V a (map (\<lambda>k. cp_id (ck_row k)) ks) s iv
      | _ \<Rightarrow> Inl investigation_invalid)"

section \<open>The policy records\<close>

text \<open>The rows of one workflow in a policy table: at most one.\<close>

definition single_row :: "'r list \<Rightarrow> exn + 'r option" where
  "single_row rs = (case rs of [] \<Rightarrow> Inr None | [r] \<Rightarrow> Inr (Some r) | _ \<Rightarrow> Inl policy_invalid)"

text \<open>The payload of the single row, checked by \<open>f\<close>; \<open>None\<close> without a row.\<close>

definition checked_row ::
  "('r \<Rightarrow> json option) \<Rightarrow> (obj \<Rightarrow> exn + unit) \<Rightarrow> (obj \<Rightarrow> bool) \<Rightarrow> 'r list \<Rightarrow> exn + obj option" where
  "checked_row payload validate ok rs =
     bind_res (single_row rs) (\<lambda>row.
     bind_res (payload_row payload row) (\<lambda>p.
     case p of
       None \<Rightarrow> Inr None
     | Some p \<Rightarrow>
         bind_res (contract_as ''policy_journal_invalid'' (validate p)) (\<lambda>_.
         bind_res (require (ok p) policy_invalid) (\<lambda>_. Inr (Some p)))))"

definition same_item :: "obj \<Rightarrow> obj option \<Rightarrow> string \<Rightarrow> bool" where
  "same_item p q k = (case q of None \<Rightarrow> False | Some q \<Rightarrow> obj_get p k = obj_get q k)"

definition grant_source :: "validators \<Rightarrow> string \<Rightarrow> string \<Rightarrow> 'a policy_db_scheme \<Rightarrow> exn + obj option" where
  "grant_source V t w s =
     checked_row gr_payload (validate_capability_grant V)
       (\<lambda>g. obj_get g ''tenant_id'' = JStr t \<and>
            obj_get g ''grant_sha256'' = JStr (content_hash g ''grant_sha256''))
       (filter (\<lambda>r. gr_tenant r = t \<and> gr_workflow r = w) (grants s))"

definition decision_source ::
  "validators \<Rightarrow> string \<Rightarrow> string \<Rightarrow> string \<Rightarrow> 'a policy_db_scheme \<Rightarrow> exn + obj option" where
  "decision_source V t w checkpoint s =
     checked_row pd_payload (validate_policy_decision V)
       (\<lambda>d. obj_get d ''tenant_id'' = JStr t \<and> obj_get d ''workflow_id'' = JStr w \<and>
            obj_get d ''checkpoint_id'' = JStr checkpoint \<and>
            obj_get d ''policy_decision_sha256'' = JStr (content_hash d ''policy_decision_sha256''))
       (filter (\<lambda>r. pd_tenant r = t \<and> pd_workflow r = w) (policy_decisions s))"

definition binding_source ::
  "validators \<Rightarrow> string \<Rightarrow> string \<Rightarrow> obj option \<Rightarrow> obj option \<Rightarrow> 'a policy_db_scheme \<Rightarrow> exn + obj option"
where
  "binding_source V t w grant decision s =
     checked_row ab_payload (validate_authorization_binding V)
       (\<lambda>b. grant \<noteq> None \<and> decision \<noteq> None \<and> obj_get b ''workflow_id'' = JStr w \<and>
            same_item b grant ''grant_id'' \<and> same_item b decision ''policy_decision_id'')
       (filter (\<lambda>r. ab_tenant r = t \<and> ab_workflow r = w) (bindings s))"

definition request_source ::
  "validators \<Rightarrow> string \<Rightarrow> string \<Rightarrow> obj option \<Rightarrow> 'a policy_db_scheme \<Rightarrow> exn + obj option" where
  "request_source V t w binding s =
     checked_row ar_payload (validate_approval_request V)
       (\<lambda>r. same_item r binding ''authorization_binding_sha256'')
       (filter (\<lambda>r. ar_tenant r = t \<and> ar_workflow r = w) (approval_requests s))"

definition approval_source ::
  "validators \<Rightarrow> string \<Rightarrow> string \<Rightarrow> obj option \<Rightarrow> 'a policy_db_scheme \<Rightarrow> exn + obj option" where
  "approval_source V t w request s =
     checked_row ap_payload (validate_approval_decision V)
       (\<lambda>d. same_item d request ''approval_request_id'' \<and>
            obj_get d ''decision_sha256'' = JStr (content_hash d ''decision_sha256''))
       (filter (\<lambda>r. ap_tenant r = t \<and> ap_workflow r = w) (approvals s))"

text \<open>A workflow without the opt-in holds no record of the policy path.\<close>

definition policy_untouched :: "string \<Rightarrow> string \<Rightarrow> 'a policy_db_scheme \<Rightarrow> bool" where
  "policy_untouched t w s \<longleftrightarrow>
     \<not> list_ex (\<lambda>r. gr_tenant r = t \<and> gr_workflow r = w) (grants s) \<and>
     \<not> list_ex (\<lambda>r. pd_tenant r = t \<and> pd_workflow r = w) (policy_decisions s) \<and>
     \<not> list_ex (\<lambda>r. ab_tenant r = t \<and> ab_workflow r = w) (bindings s) \<and>
     \<not> list_ex (\<lambda>r. ar_tenant r = t \<and> ar_workflow r = w) (approval_requests s) \<and>
     \<not> list_ex (\<lambda>r. ap_tenant r = t \<and> ap_workflow r = w) (approvals s) \<and>
     \<not> list_ex (\<lambda>r. dn_tenant r = t \<and> dn_workflow r = w) (delivery_intents s)"

definition delivery_states :: "string list" where
  "delivery_states = [AWAITING_APPROVAL, DELIVERING, DELIVERY_RECORDED]"

definition check_policy_activation ::
  "activation_row \<Rightarrow> string list \<Rightarrow> policy_activation_row \<Rightarrow> exn + unit" where
  "check_policy_activation a checkpoint_ids p =
     require (pa_case p = ac_case a \<and> pa_revision p = ac_revision a \<and>
       pa_checkpoint p \<in> set checkpoint_ids \<and> pa_fixture p = API_503_POLICY_FIXTURE_ID \<and>
       pa_resource p = API_503_DELIVERY_RESOURCE_ID \<and> pa_classification p = ''synthetic'' \<and>
       pa_evidence p \<noteq> None \<and> pa_evidence p \<noteq> Some []) policy_invalid"

definition check_fixture_delivery ::
  "'a policy_db_scheme \<Rightarrow> delivery_operation_row \<Rightarrow> exn + unit" where
  "check_fixture_delivery s q =
     (case (first_row (filter (\<lambda>r. dr_tenant r = dp_tenant q \<and> dr_id r = dp_delivery q \<and>
              dr_version r = dp_version q) (delivery_records s)),
            first_row (filter (\<lambda>i. dn_tenant i = dp_tenant q \<and> dn_key i = dp_key q)
              (delivery_intents s))) of
        (Some r, Some i) \<Rightarrow>
          require (dr_natural_key r = dp_natural_key q \<and> dn_natural_key i = dp_natural_key q \<and>
            dr_sha256 r = dp_sha256 q \<and> dn_candidate i = dp_sha256 q \<and>
            dr_classification r = ''synthetic'') policy_invalid
      | _ \<Rightarrow> Inl policy_invalid)"

definition validate_fixture_delivery_source :: "string \<Rightarrow> 'a policy_db_scheme \<Rightarrow> exn + unit" where
  "validate_fixture_delivery_source t s =
     each_res (check_fixture_delivery s) (filter (\<lambda>q. dp_tenant q = t) (delivery_operations s))"

definition validate_change4_source ::
  "validators \<Rightarrow> activation_row \<Rightarrow> checkpoint list \<Rightarrow> 'a policy_db_scheme \<Rightarrow> exn + unit" where
  "validate_change4_source V a ks s =
     (let t = ac_tenant a; w = ac_workflow a; checkpoint_ids = map (\<lambda>k. cp_id (ck_row k)) ks;
          delivers = list_ex (\<lambda>k. cp_state (ck_row k) \<in> set delivery_states) ks in
     bind_res (single_row (filter (\<lambda>r. pa_tenant r = t \<and> pa_workflow r = w) (policy_activations s)))
       (\<lambda>row.
     case row of
       None \<Rightarrow> require (\<not> delivers \<and> policy_untouched t w s) policy_invalid
     | Some p \<Rightarrow>
         bind_res (check_policy_activation a checkpoint_ids p) (\<lambda>_.
         bind_res (grant_source V t w s) (\<lambda>grant.
         bind_res (decision_source V t w (pa_checkpoint p) s) (\<lambda>decision.
         bind_res (binding_source V t w grant decision s) (\<lambda>binding.
         bind_res (request_source V t w binding s) (\<lambda>request.
         bind_res (approval_source V t w request s) (\<lambda>_.
         bind_res (require (delivers \<longrightarrow> grant \<noteq> None \<and> decision \<noteq> None \<and> binding \<noteq> None \<and> request \<noteq> None)
           policy_invalid) (\<lambda>_.
         validate_fixture_delivery_source t s)))))))))"

end
