(* ===== verification/WorkflowRebuild.thy ===== *)
theory WorkflowRebuild
  imports SourceChecks
begin

text \<open>
  \<open>durable_workflow.py\<close>, the workflow read model: \<open>rebuild_workflow_projection\<close> deletes it and derives
  it again from the immutable journal, in one transaction; the read methods rebuild before they read.
\<close>

section \<open>The projection of one workflow\<close>

definition project_workflow :: "activation_row \<Rightarrow> checkpoint \<Rightarrow> workflow_projection_row" where
  "project_workflow a k =
     (let r = ck_row k in
     \<lparr>wp_tenant = ac_tenant a, wp_workflow = ac_workflow a, wp_case = ac_case a,
      wp_revision = ac_revision a, wp_definition = ac_definition a, wp_state = cp_state r,
      wp_status = run_status (cp_state r), wp_version = cp_version r, wp_checkpoint = cp_id r,
      wp_sequence = cp_sequence r, wp_deadline = ac_deadline a, wp_correlation = ac_correlation a,
      wp_created_at = ac_created_at a, wp_updated_at = cp_created_at r\<rparr>)"

definition workflow_projection_payload :: "workflow_projection_row \<Rightarrow> obj" where
  "workflow_projection_payload p =
     [(''schema_id'', JStr WORKFLOW_PROJECTION_SCHEMA_ID), (''schema_version'', JStr ''v1''),
      (''tenant_id'', JStr (wp_tenant p)), (''case_id'', JStr (wp_case p)),
      (''case_revision_id'', JStr (wp_revision p)), (''workflow_id'', JStr (wp_workflow p)),
      (''workflow_definition_version'', JStr (wp_definition p)), (''state'', JStr (wp_state p)),
      (''run_status'', JStr (wp_status p)), (''workflow_version'', JInt (wp_version p)),
      (''latest_checkpoint_id'', JStr (wp_checkpoint p)),
      (''latest_checkpoint_sequence'', JInt (wp_sequence p)),
      (''sla_deadline_at'', JStr (wp_deadline p)), (''correlation_id'', JStr (wp_correlation p)),
      (''created_at'', JStr (wp_created_at p)), (''updated_at'', JStr (wp_updated_at p))]"

definition workflow_projection_clash :: "workflow_projection_row \<Rightarrow> workflow_projection_row \<Rightarrow> bool" where
  "workflow_projection_clash p q \<longleftrightarrow> wp_tenant p = wp_tenant q \<and>
     (wp_workflow p = wp_workflow q \<or> wp_case p = wp_case q \<and> wp_revision p = wp_revision q \<and>
      wp_definition p = wp_definition q)"

definition insert_workflow_projection ::
  "workflow_projection_row \<Rightarrow> ('a journal_db_scheme, unit) action" where
  "insert_workflow_projection p = modify (\<lambda>s. bind_res
     (insert_row (\<lambda>_. True) workflow_projection_clash p (workflow_projections s))
     (\<lambda>ps. Inr (s\<lparr>workflow_projections := ps\<rparr>)))"

section \<open>The rebuild\<close>

text \<open>Every check of one activation and its checkpoints.\<close>

definition validate_sources ::
  "validators \<Rightarrow> activation_row \<Rightarrow> checkpoint list \<Rightarrow> 'a policy_db_scheme \<Rightarrow> exn + unit" where
  "validate_sources V a ks s =
     bind_res (validate_workflow_source V a ks s) (\<lambda>_.
     bind_res (validate_investigation_source V a ks s) (\<lambda>_.
     validate_change4_source V a ks s))"

definition rebuild_workflow :: "validators \<Rightarrow> activation_row \<Rightarrow> ('a policy_db_scheme, unit) action" where
  "rebuild_workflow V a =
     bind (bind (query (checkpoints_of (ac_tenant a) (ac_workflow a))) lift_res) (\<lambda>ks.
     bind (bind (query (validate_sources V a ks)) lift_res) (\<lambda>_.
     if ks = [] then ret ()
     else
       let p = project_workflow a (last ks) in
       bind (lift_res (contract_as ''workflow_journal_invalid''
         (validate_workflow_projection V (workflow_projection_payload p)))) (\<lambda>_.
       insert_workflow_projection p)))"

fun rebuild_workflows ::
  "validators \<Rightarrow> activation_row list \<Rightarrow> ('a policy_db_scheme, unit) action" where
  "rebuild_workflows V [] = ret ()"
| "rebuild_workflows V (a # as) = bind (rebuild_workflow V a) (\<lambda>_. rebuild_workflows V as)"

definition sorted_activations :: "'a journal_db_scheme \<Rightarrow> activation_row list" where
  "sorted_activations s = sort_key (\<lambda>a. (ac_tenant a, ac_workflow a)) (activations s)"

definition rebuild_workflow_projection :: "validators \<Rightarrow> ('a policy_db_scheme, unit) action" where
  "rebuild_workflow_projection V =
     engine_tx ''workflow_journal_invalid''
       (bind (query schema_error) (\<lambda>schema.
        bind (lift_res (case schema of None \<Rightarrow> Inr () | Some r \<Rightarrow> Inl (WorkflowError r))) (\<lambda>_.
        bind (modify (\<lambda>s. Inr (s\<lparr>workflow_projections := []\<rparr>))) (\<lambda>_.
        bind (query sorted_activations) (rebuild_workflows V)))))"

section \<open>Reading the projection\<close>

definition get_workflow_projection ::
  "validators \<Rightarrow> string \<Rightarrow> string \<Rightarrow> ('a policy_db_scheme, obj option) action" where
  "get_workflow_projection V t w =
     bind (rebuild_workflow_projection V) (\<lambda>_.
     bind (query (\<lambda>s. first_row (filter (\<lambda>p. wp_tenant p = t \<and> wp_workflow p = w)
       (workflow_projections s)))) (\<lambda>row.
     case row of
       None \<Rightarrow> ret None
     | Some p \<Rightarrow>
         bind (lift_res (validate_workflow_projection V (workflow_projection_payload p))) (\<lambda>_.
         ret (Some (workflow_projection_payload p)))))"

definition get_workflow_for_case ::
  "validators \<Rightarrow> string \<Rightarrow> string \<Rightarrow> string option \<Rightarrow> ('a policy_db_scheme, obj option) action" where
  "get_workflow_for_case V t c revision =
     bind (rebuild_workflow_projection V) (\<lambda>_.
     bind (query (\<lambda>s. first_row (filter (\<lambda>p. wp_tenant p = t \<and> wp_case p = c \<and>
         (case revision of None \<Rightarrow> True | Some r \<Rightarrow> wp_revision p = r)) (workflow_projections s)))) (\<lambda>row.
     ret (map_option workflow_projection_payload row)))"

definition list_workflow_checkpoints_for_case ::
  "string \<Rightarrow> string \<Rightarrow> 'a journal_db_scheme \<Rightarrow> exn + obj list option" where
  "list_workflow_checkpoints_for_case t c s =
     (case activation_for_tenant_case t c s of
        None \<Rightarrow> Inr None
      | Some a \<Rightarrow> bind_res (checkpoints_of t (ac_workflow a) s) (\<lambda>ks. Inr (Some (map checkpoint_payload ks))))"

end
