(* ===== verification/EvidenceStore.thy ===== *)
theory EvidenceStore
  imports WorkflowRebuild LedgerRead
begin

text \<open>
  \<open>evidence_trajectory.py\<close>, first part: the four append-only evidence tables and the nodes of a
  trajectory, derived from the facts the ledger and the workflow journal retain.

  The tables live beside the tables of the engine; \<open>engine\<close> is the rest of the database.  The
  operations of this module write the evidence tables only, and the read model through
  \<open>get_workflow_projection\<close>.
\<close>

abbreviation EVIDENCE_PROFILE_ID :: string where
  "EVIDENCE_PROFILE_ID \<equiv> ''fixture-local-evidence.v1''"
abbreviation EVIDENCE_FIXTURE_ID :: string where
  "EVIDENCE_FIXTURE_ID \<equiv> ''api-503-policy-approval-delivery''"

definition ZERO_HASH :: string where
  "ZERO_HASH = replicate 64 CHR ''0''"

abbreviation lineage_invalid :: exn where
  "lineage_invalid \<equiv> EvidenceLineageError ''lineage_invalid''"

section \<open>Tables\<close>

record artifact_row =
  ea_tenant :: string
  ea_id :: string
  ea_trajectory :: string
  ea_sha256 :: string
  ea_payload :: "json option"
  ea_created_at :: string

record trajectory_row =
  et_tenant :: string
  et_id :: string
  et_case :: string
  et_revision :: string
  et_workflow :: string
  et_profile :: string
  et_root :: string
  et_payload :: "json option"
  et_created_at :: string

record report_row =
  er_tenant :: string
  er_id :: string
  er_artifact :: string
  er_trajectory :: string
  er_sha256 :: string
  er_payload :: "json option"
  er_created_at :: string

record replay_row =
  ry_tenant :: string
  ry_id :: string
  ry_trajectory :: string
  ry_sha256 :: string
  ry_payload :: "json option"
  ry_recorded_at :: string

record evidence_store =
  engine :: policy_db
  artifacts :: "artifact_row list"
  trajectories :: "trajectory_row list"
  reports :: "report_row list"
  replays :: "replay_row list"

definition artifact_clash :: "artifact_row \<Rightarrow> artifact_row \<Rightarrow> bool" where
  "artifact_clash r q \<longleftrightarrow> ea_tenant r = ea_tenant q \<and>
     (ea_id r = ea_id q \<or> ea_trajectory r = ea_trajectory q)"

definition trajectory_clash :: "trajectory_row \<Rightarrow> trajectory_row \<Rightarrow> bool" where
  "trajectory_clash r q \<longleftrightarrow> et_tenant r = et_tenant q \<and>
     (et_id r = et_id q \<or> et_case r = et_case q \<and> et_revision r = et_revision q \<and>
      et_workflow r = et_workflow q \<and> et_profile r = et_profile q)"

definition report_clash :: "report_row \<Rightarrow> report_row \<Rightarrow> bool" where
  "report_clash r q \<longleftrightarrow> er_tenant r = er_tenant q \<and>
     (er_id r = er_id q \<or> er_artifact r = er_artifact q \<or> er_trajectory r = er_trajectory q)"

definition replay_clash :: "replay_row \<Rightarrow> replay_row \<Rightarrow> bool" where
  "replay_clash r q \<longleftrightarrow> ry_tenant r = ry_tenant q \<and>
     (ry_id r = ry_id q \<or> ry_trajectory r = ry_trajectory q \<and> ry_sha256 r = ry_sha256 q)"

definition insert_artifact :: "artifact_row \<Rightarrow> (evidence_store, unit) action" where
  "insert_artifact r = modify (\<lambda>s. bind_res
     (insert_row (\<lambda>_. True) artifact_clash r (artifacts s)) (\<lambda>rs. Inr (s\<lparr>artifacts := rs\<rparr>)))"

definition insert_trajectory :: "trajectory_row \<Rightarrow> (evidence_store, unit) action" where
  "insert_trajectory r = modify (\<lambda>s. bind_res
     (insert_row (\<lambda>_. True) trajectory_clash r (trajectories s)) (\<lambda>rs. Inr (s\<lparr>trajectories := rs\<rparr>)))"

definition insert_report :: "report_row \<Rightarrow> (evidence_store, unit) action" where
  "insert_report r = modify (\<lambda>s. bind_res
     (insert_row (\<lambda>_. True) report_clash r (reports s)) (\<lambda>rs. Inr (s\<lparr>reports := rs\<rparr>)))"

definition insert_replay :: "replay_row \<Rightarrow> (evidence_store, unit) action" where
  "insert_replay r = modify (\<lambda>s. bind_res
     (insert_row (\<lambda>_. True) replay_clash r (replays s)) (\<lambda>rs. Inr (s\<lparr>replays := rs\<rparr>)))"

text \<open>An operation of the engine or the ledger, on its part of the database.\<close>

definition on_engine :: "(policy_db, 'a) action \<Rightarrow> (evidence_store, 'a) action" where
  "on_engine m s = (case m (engine s) of (x, e) \<Rightarrow> (x, s\<lparr>engine := e\<rparr>))"

text \<open>\<open>_payload\<close> and \<open>_load_payload\<close>: the text is decoded, and must be an object.\<close>

definition evidence_payload :: "json option \<Rightarrow> exn + obj" where
  "evidence_payload v = (case v of Some (JObj p) \<Rightarrow> Inr p | _ \<Rightarrow> Inl lineage_invalid)"

definition load_payload :: "('r \<Rightarrow> json option) \<Rightarrow> 'r option \<Rightarrow> exn + obj option" where
  "load_payload payload row = (case row of
     None \<Rightarrow> Inr None | Some r \<Rightarrow> bind_res (evidence_payload (payload r)) (\<lambda>p. Inr (Some p)))"

section \<open>Nodes\<close>

text \<open>A source fact: the arguments of one call of \<open>_append_node\<close>.\<close>

record source_fact =
  sf_kind :: string
  sf_identifier :: string
  sf_digest :: string
  sf_classification :: string

definition redacted_fact :: "string \<Rightarrow> string \<Rightarrow> string \<Rightarrow> source_fact" where
  "redacted_fact kind i digest =
     \<lparr>sf_kind = kind, sf_identifier = i, sf_digest = digest, sf_classification = ''redacted''\<rparr>"

definition synthetic_fact :: "string \<Rightarrow> string \<Rightarrow> string \<Rightarrow> source_fact" where
  "synthetic_fact kind i digest =
     \<lparr>sf_kind = kind, sf_identifier = i, sf_digest = digest, sf_classification = ''synthetic''\<rparr>"

definition fact_source_id :: "source_fact \<Rightarrow> string" where
  "fact_source_id f = sf_kind f @ '':'' @ sf_identifier f"

definition evidence_node :: "obj list \<Rightarrow> source_fact \<Rightarrow> obj" where
  "evidence_node nodes f =
     (let source_id = fact_source_id f; sequence = int (length nodes) + 1 in
     [(''node_id'', JStr (stable_identifier ''evidence_node'' (JObj
         [(''source_id'', JStr source_id), (''sequence'', JInt sequence)]))),
      (''sequence'', JInt sequence), (''source_kind'', JStr (sf_kind f)),
      (''source_id'', JStr source_id),
      (''predecessor_node_id'', if nodes = [] then JNull else obj_get (last nodes) ''node_id''),
      (''content_sha256'', JStr (sf_digest f)), (''classification'', JStr (sf_classification f))])"

definition append_node :: "obj list \<Rightarrow> source_fact \<Rightarrow> exn + obj list" where
  "append_node nodes f =
     bind_res (require (sf_identifier f \<noteq> []) lineage_invalid) (\<lambda>_.
     bind_res (require (length (sf_digest f) = 64) lineage_invalid) (\<lambda>_.
     bind_res (require
       (\<not> list_ex (\<lambda>n. obj_get n ''source_id'' = JStr (fact_source_id f)) nodes) lineage_invalid) (\<lambda>_.
     Inr (nodes @ [evidence_node nodes f]))))"

text \<open>The next fact, where reading it may fail.\<close>

definition append_fact :: "obj list \<Rightarrow> exn + source_fact \<Rightarrow> exn + obj list" where
  "append_fact nodes f = bind_res f (append_node nodes)"

section \<open>The facts of the ledger\<close>

definition safe_hash :: "obj \<Rightarrow> string" where
  "safe_hash material = canonical_sha256 (JObj material)"

definition ledger_facts ::
  "revision_row \<Rightarrow> event_row list \<Rightarrow> activation_row \<Rightarrow> source_fact list" where
  "ledger_facts rv evs a =
     [synthetic_fact ''accepted_intake'' (ev_id (hd evs)) (ev_sha256 (hd evs)),
      synthetic_fact ''case_revision'' (rv_id rv) (rv_fingerprint rv)] @
     map (\<lambda>e. synthetic_fact ''case_event'' (ev_id e) (ev_sha256 e)) (tl evs) @
     [redacted_fact ''workflow_activation'' (ac_id a) (safe_hash
        [(''workflow_id'', JStr (ac_workflow a)), (''activation_id'', JStr (ac_id a)),
         (''source_event_id'', JStr (ac_source a)), (''created_at'', JStr (ac_created_at a))])]"

section \<open>The facts of the workflow\<close>

text \<open>
  The rows of one workflow, as the queries of \<open>_source_nodes\<close> order them.  \<open>UNIQUE\<close> keys leave at most one
  investigation and one policy activation per workflow.
\<close>

record retained_rows =
  rt_checkpoints :: "checkpoint_row list"
  rt_investigation :: "investigation_row option"
  rt_steps :: "agent_step_row list"
  rt_requests :: "tool_request_row list"
  rt_results :: "tool_result_row list"
  rt_candidates :: "candidate_row list"
  rt_outcomes :: "outcome_row list"
  rt_policy :: "policy_activation_row option"
  rt_grants :: "grant_row list"
  rt_decisions :: "policy_decision_row list"
  rt_bindings :: "binding_row list"
  rt_approvals :: "approval_request_row list"
  rt_approval_decisions :: "approval_row list"
  rt_intents :: "delivery_intent_row list"
  rt_completions :: "delivery_completion_row list"

definition lineage_rows :: "string \<Rightarrow> string \<Rightarrow> 'a policy_db_scheme \<Rightarrow> retained_rows" where
  "lineage_rows t w s =
     \<lparr>rt_checkpoints = checkpoint_rows t w s,
      rt_investigation = first_row (filter (\<lambda>r. iv_tenant r = t \<and> iv_workflow r = w) (investigations s)),
      rt_steps = sort_key as_step (filter (\<lambda>r. as_tenant r = t \<and> as_workflow r = w) (agent_steps s)),
      rt_requests = sort_key (\<lambda>r. (tq_step r, tq_tool r))
        (filter (\<lambda>r. tq_tenant r = t \<and> tq_workflow r = w) (tool_requests s)),
      rt_results = sort_key tr_request (filter (\<lambda>r. tr_tenant r = t \<and> tr_workflow r = w) (tool_results s)),
      rt_candidates = sort_key ca_id (filter (\<lambda>r. ca_tenant r = t \<and> ca_workflow r = w) (candidates s)),
      rt_outcomes = sort_key vo_id (filter (\<lambda>r. vo_tenant r = t \<and> vo_workflow r = w) (outcomes s)),
      rt_policy = first_row (filter (\<lambda>r. pa_tenant r = t \<and> pa_workflow r = w) (policy_activations s)),
      rt_grants = sort_key gr_id (filter (\<lambda>r. gr_tenant r = t \<and> gr_workflow r = w) (grants s)),
      rt_decisions = sort_key pd_id
        (filter (\<lambda>r. pd_tenant r = t \<and> pd_workflow r = w) (policy_decisions s)),
      rt_bindings = sort_key ab_id (filter (\<lambda>r. ab_tenant r = t \<and> ab_workflow r = w) (bindings s)),
      rt_approvals = sort_key ar_id
        (filter (\<lambda>r. ar_tenant r = t \<and> ar_workflow r = w) (approval_requests s)),
      rt_approval_decisions = sort_key ap_id
        (filter (\<lambda>r. ap_tenant r = t \<and> ap_workflow r = w) (approvals s)),
      rt_intents = sort_key dn_id
        (filter (\<lambda>r. dn_tenant r = t \<and> dn_workflow r = w) (delivery_intents s)),
      rt_completions = sort_key dc_id
        (filter (\<lambda>r. dc_tenant r = t \<and> dc_workflow r = w) (delivery_completions s))\<rparr>"

text \<open>The rows without which there is no lineage.\<close>

definition lineage_complete :: "retained_rows \<Rightarrow> bool" where
  "lineage_complete r \<longleftrightarrow> rt_checkpoints r \<noteq> [] \<and> rt_investigation r \<noteq> None \<and> rt_steps r \<noteq> [] \<and>
     rt_requests r \<noteq> [] \<and> rt_results r \<noteq> [] \<and> rt_candidates r \<noteq> [] \<and> rt_outcomes r \<noteq> [] \<and>
     rt_policy r \<noteq> None \<and> rt_grants r \<noteq> [] \<and> rt_decisions r \<noteq> [] \<and> rt_bindings r \<noteq> [] \<and>
     rt_approvals r \<noteq> []"

text \<open>
  \<open>_checkpoint_payload\<close> may refuse the row; the digest in the payload is the one of the row, so the
  comparison of the two never fails.
\<close>

definition checkpoint_fact :: "checkpoint_row \<Rightarrow> exn + source_fact" where
  "checkpoint_fact k = bind_res (load_checkpoint k) (\<lambda>c.
     bind_res (require (obj_get (checkpoint_payload c) ''content_sha256'' = JStr (cp_sha256 k))
       lineage_invalid) (\<lambda>_.
     Inr (redacted_fact ''workflow_checkpoint'' (cp_id k) (cp_sha256 k))))"

definition investigation_facts_of :: "retained_rows \<Rightarrow> source_fact list" where
  "investigation_facts_of r =
     (case rt_investigation r of None \<Rightarrow> []
      | Some iv \<Rightarrow> [redacted_fact ''context_manifest'' (iv_manifest iv) (iv_context_sha256 iv)]) @
     map (\<lambda>x. redacted_fact ''agent_step'' (as_id x) (as_sha256 x)) (rt_steps r) @
     map (\<lambda>x. redacted_fact ''tool_request'' (tq_id x) (tq_sha256 x)) (rt_requests r) @
     concat (map (\<lambda>x. [synthetic_fact ''tool_result'' (tr_id x) (tr_sha256 x),
       synthetic_fact ''evidence'' (tr_evidence x) (tr_sha256 x)]) (rt_results r)) @
     map (\<lambda>x. redacted_fact ''response_candidate'' (ca_id x) (ca_sha256 x)) (rt_candidates r) @
     map (\<lambda>x. redacted_fact ''verifier_outcome'' (vo_id x) (safe_hash
       [(''candidate_sha256'', JStr (vo_sha256 x)), (''outcome'', JStr (vo_outcome x)),
        (''reason_code'', JStr (vo_reason x)), (''recorded_at'', JStr (vo_recorded_at x))]))
       (rt_outcomes r)"

text \<open>
  The stored text of \<open>evidence_hashes_json\<close>: what the engine writes for the list it decodes to.  For a
  text that does not decode the value is of no account, because the rebuild behind the facts refuses
  the activation.
\<close>

definition evidence_text :: "string list option \<Rightarrow> string" where
  "evidence_text es = (case es of None \<Rightarrow> '''' | Some es \<Rightarrow> dumps (jlist es))"

definition policy_facts_of :: "retained_rows \<Rightarrow> source_fact list" where
  "policy_facts_of r =
     (case rt_policy r of None \<Rightarrow> []
      | Some p \<Rightarrow> [redacted_fact ''policy_activation'' (pa_id p) (safe_hash
          [(''candidate_hash'', JStr (pa_candidate p)),
           (''evidence_hashes_json'', JStr (evidence_text (pa_evidence p))),
           (''activated_at'', JStr (pa_activated_at p))])]) @
     map (\<lambda>x. redacted_fact ''capability_grant'' (gr_id x) (gr_sha256 x)) (rt_grants r) @
     map (\<lambda>x. redacted_fact ''policy_decision'' (pd_id x) (pd_sha256 x)) (rt_decisions r) @
     map (\<lambda>x. redacted_fact ''authorization_binding'' (ab_id x) (ab_sha256 x)) (rt_bindings r) @
     map (\<lambda>x. redacted_fact ''approval_request'' (ar_id x) (safe_hash
       [(''authorization_binding_sha256'', JStr (ar_binding x)),
        (''checkpoint_id'', JStr (ar_checkpoint x)), (''created_at'', JStr (ar_created_at x))]))
       (rt_approvals r) @
     map (\<lambda>x. redacted_fact ''approval_decision'' (ap_id x) (ap_sha256 x)) (rt_approval_decisions r)"

definition intent_fact :: "delivery_intent_row \<Rightarrow> exn + source_fact" where
  "intent_fact x = bind_res (evidence_payload (dn_payload x)) (\<lambda>p.
     Inr (redacted_fact ''delivery_intent'' (dn_id x)
       (py_str (obj_get_or p ''intended_state_hash'' (JStr '''')))))"

definition workflow_facts :: "retained_rows \<Rightarrow> (exn + source_fact) list" where
  "workflow_facts r =
     map checkpoint_fact (rt_checkpoints r) @
     map Inr (investigation_facts_of r @ policy_facts_of r) @
     map intent_fact (rt_intents r) @
     map (\<lambda>x. Inr (synthetic_fact ''delivery_completion'' (dc_id x) (dc_sha256 x))) (rt_completions r)"

section \<open>\<open>_source_nodes\<close>\<close>

text \<open>Everything before the state of the workflow is read.\<close>

definition retained_nodes ::
  "validators \<Rightarrow> string \<Rightarrow> string \<Rightarrow> 'a policy_db_scheme \<Rightarrow> exn + activation_row \<times> obj list \<times> retained_rows"
where
  "retained_nodes V t c s =
     bind_res (get_case_projection V t c s) (\<lambda>projection.
     bind_res (list_case_revisions V t c s) (\<lambda>rvs.
     bind_res (list_case_events V t c s) (\<lambda>evs.
     bind_res (require (projection \<noteq> None \<and> length rvs = 1 \<and> evs \<noteq> []) lineage_invalid) (\<lambda>_.
     case activation_for_tenant_case t c s of
       None \<Rightarrow> Inl lineage_invalid
     | Some a \<Rightarrow>
         bind_res (require (ac_revision a = rv_id (hd rvs)) lineage_invalid) (\<lambda>_.
         bind_res (fold_res append_node [] (ledger_facts (hd rvs) evs a)) (\<lambda>nodes.
         let rows = lineage_rows t (ac_workflow a) s in
         bind_res (require (lineage_complete rows) lineage_invalid) (\<lambda>_.
         bind_res (fold_res append_fact nodes (workflow_facts rows)) (\<lambda>nodes.
         Inr (a, nodes, rows)))))))))"

text \<open>\<open>str(projection["state"])\<close>: without a projection the subscript raises \<open>TypeError\<close>.\<close>

definition state_of_projection :: "obj option \<Rightarrow> exn + string" where
  "state_of_projection p = (case p of
     None \<Rightarrow> Inl (TypeError ''NoneType is not subscriptable'')
   | Some p \<Rightarrow> bind_res (obj_item p ''state'') (\<lambda>v. Inr (py_str v)))"

definition source_nodes ::
  "validators \<Rightarrow> string \<Rightarrow> string \<Rightarrow> ('a policy_db_scheme, activation_row \<times> obj list \<times> string) action"
where
  "source_nodes V t c =
     bind (bind (query (retained_nodes V t c)) lift_res) (\<lambda>(a, nodes, rows).
     bind (get_workflow_projection V t (ac_workflow a)) (\<lambda>p.
     bind (lift_res (state_of_projection p)) (\<lambda>final_state.
     bind (lift_res (require (\<not> (final_state = DELIVERY_RECORDED \<and>
         (length (rt_intents rows) \<noteq> 1 \<or> length (rt_completions rows) \<noteq> 1))) lineage_invalid)) (\<lambda>_.
     ret (a, nodes, final_state)))))"

end
