(* ===== verification/EvidenceTrajectory.thy ===== *)
theory EvidenceTrajectory
  imports EvidenceStore
begin

text \<open>
  \<open>evidence_trajectory.py\<close>, second part: extraction of a trajectory with its report and artifact,
  verification replay of a stored trajectory, and the report of a case.
\<close>

section \<open>Documents\<close>

definition outcome_for :: "string \<Rightarrow> string option \<Rightarrow> exn + string \<times> string option" where
  "outcome_for state requested =
     (if state = DELIVERY_RECORDED then
        Inr (case requested of
               Some r \<Rightarrow> if r \<in> {''fixture_delivery_recorded'', ''recovered_after_interruption''} then r
                         else ''fixture_delivery_recorded''
             | None \<Rightarrow> ''fixture_delivery_recorded'', None)
      else if state = WAITING_FOR_OPERATOR then
        Inr (''authorization_denied'', Some ''authorization_denied_grant_revoked'')
      else if state = NEEDS_RECONCILIATION then
        Inr (''needs_reconciliation'', Some ''needs_reconciliation'')
      else Inl lineage_invalid)"

definition offline_capabilities :: json where
  "offline_capabilities = JObj
     [(''network_required'', JBool False), (''model_invocation'', JBool False),
      (''external_write'', JBool False), (''docker_required'', JBool False)]"

definition safe_failure :: obj where
  "safe_failure =
     [(''outcome'', JStr ''lineage_invalid''), (''failure_code'', JStr ''lineage_invalid''),
      (''network_required'', JBool False), (''model_invocation'', JBool False),
      (''external_write'', JBool False), (''docker_required'', JBool False)]"

text \<open>\<open>document[field] = content_hash(document, without=field)\<close>\<close>

definition sealed :: "obj \<Rightarrow> string \<Rightarrow> obj" where
  "sealed p k = obj_set p k (JStr (content_hash p k))"

definition trajectory_id_of :: "string \<Rightarrow> string \<Rightarrow> activation_row \<Rightarrow> string" where
  "trajectory_id_of t c a = stable_identifier ''evidence_trajectory'' (JObj
     [(''tenant_id'', JStr t), (''case_id'', JStr c), (''case_revision_id'', JStr (ac_revision a)),
      (''workflow_id'', JStr (ac_workflow a)), (''report_profile_id'', JStr EVIDENCE_PROFILE_ID)])"

definition trajectory_document :: "string \<Rightarrow> string \<Rightarrow> activation_row \<Rightarrow> obj list \<Rightarrow> obj" where
  "trajectory_document t c a nodes = sealed
     [(''schema_id'', JStr EVIDENCE_TRAJECTORY_SCHEMA_ID), (''schema_version'', JStr ''v1''),
      (''tenant_id'', JStr t), (''trajectory_id'', JStr (trajectory_id_of t c a)),
      (''case_id'', JStr c), (''case_revision_id'', JStr (ac_revision a)),
      (''workflow_id'', JStr (ac_workflow a)), (''report_profile_id'', JStr EVIDENCE_PROFILE_ID),
      (''root_sha256'', JStr ''''), (''nodes'', JList (map JObj nodes)),
      (''created_at'', JStr (ac_created_at a))] ''root_sha256''"

definition report_id_of :: "json \<Rightarrow> string \<Rightarrow> string" where
  "report_id_of root outcome = stable_identifier ''evidence_report'' (JObj
     [(''trajectory_root_sha256'', root), (''outcome'', JStr outcome),
      (''report_profile_id'', JStr EVIDENCE_PROFILE_ID)])"

definition artifact_id_of :: "json \<Rightarrow> string \<Rightarrow> string" where
  "artifact_id_of root report_id = stable_identifier ''evidence_artifact'' (JObj
     [(''report_id'', JStr report_id), (''trajectory_root_sha256'', root)])"

definition report_document ::
  "string \<Rightarrow> activation_row \<Rightarrow> string \<Rightarrow> json \<Rightarrow> nat \<Rightarrow> string \<times> string option \<Rightarrow> obj" where
  "report_document t a trajectory_id root n v = (case v of (outcome, failure_code) \<Rightarrow>
     let report_id = report_id_of root outcome in sealed
     [(''schema_id'', JStr EVIDENCE_REPORT_SCHEMA_ID), (''schema_version'', JStr ''v1''),
      (''tenant_id'', JStr t), (''report_id'', JStr report_id),
      (''artifact_id'', JStr (artifact_id_of root report_id)),
      (''trajectory_id'', JStr trajectory_id), (''trajectory_root_sha256'', root),
      (''report_profile_id'', JStr EVIDENCE_PROFILE_ID), (''fixture_id'', JStr EVIDENCE_FIXTURE_ID),
      (''outcome'', JStr outcome), (''failure_code'', jopt failure_code),
      (''node_count'', JInt (int n)), (''capabilities'', offline_capabilities),
      (''content_sha256'', JStr ''''), (''created_at'', JStr (ac_created_at a))] ''content_sha256'')"

definition artifact_document :: "string \<Rightarrow> string \<Rightarrow> activation_row \<Rightarrow> string \<Rightarrow> obj \<Rightarrow> obj" where
  "artifact_document t c a trajectory_id report =
     [(''schema_id'', JStr ARTIFACT_SCHEMA_ID), (''schema_version'', JStr ''v1''),
      (''tenant_id'', JStr t), (''artifact_id'', obj_get report ''artifact_id''),
      (''artifact_kind'', JStr ''evidence_report''), (''case_id'', JStr c),
      (''case_revision_id'', JStr (ac_revision a)), (''workflow_id'', JStr (ac_workflow a)),
      (''trajectory_id'', JStr trajectory_id), (''report_profile_id'', JStr EVIDENCE_PROFILE_ID),
      (''content_sha256'', obj_get report ''content_sha256''),
      (''media_type'', JStr ''application/vnd.weflow.evidence-report+json''),
      (''redaction_classification'', JStr ''redacted''), (''created_at'', JStr (ac_created_at a)),
      (''producer'', JStr ''fixture-local-evidence'')]"

text \<open>The three documents of one extraction: trajectory, report, artifact.\<close>

definition evidence_documents ::
  "string \<Rightarrow> string \<Rightarrow> activation_row \<Rightarrow> obj list \<Rightarrow> string \<times> string option \<Rightarrow> obj \<times> obj \<times> obj" where
  "evidence_documents t c a nodes v =
     (let trajectory = trajectory_document t c a nodes;
          trajectory_id = trajectory_id_of t c a;
          report = report_document t a trajectory_id (obj_get trajectory ''root_sha256'')
            (length nodes) v
      in (trajectory, report, artifact_document t c a trajectory_id report))"

definition validate_documents :: "validators \<Rightarrow> obj \<times> obj \<times> obj \<Rightarrow> exn + unit" where
  "validate_documents V d = (case d of (trajectory, report, artifact) \<Rightarrow>
     bind_res (validate_evidence_trajectory V trajectory) (\<lambda>_.
     bind_res (validate_evidence_report V report (Some trajectory)) (\<lambda>_.
     validate_artifact V artifact)))"

section \<open>Extraction\<close>

text \<open>\<open>try: m except p: None\<close>: what \<open>m\<close> wrote before it raised stays.\<close>

definition attempt :: "(exn \<Rightarrow> bool) \<Rightarrow> ('s, 'a) action \<Rightarrow> ('s, 'a option) action" where
  "attempt p m s = (case m s of
     (Inl e, s') \<Rightarrow> if p e then (Inr None, s') else (Inl e, s')
   | (Inr a, s') \<Rightarrow> (Inr (Some a), s'))"

text \<open>\<open>except (EvidenceLineageError, KeyError, TypeError)\<close>\<close>

fun is_lineage_failure :: "exn \<Rightarrow> bool" where
  "is_lineage_failure (EvidenceLineageError _) = True"
| "is_lineage_failure (KeyError _) = True"
| "is_lineage_failure (TypeError _) = True"
| "is_lineage_failure _ = False"

fun is_database_error :: "exn \<Rightarrow> bool" where
  "is_database_error (DatabaseError _) = True"
| "is_database_error _ = False"

definition evidence_result :: "obj \<Rightarrow> obj \<Rightarrow> obj \<Rightarrow> bool \<Rightarrow> obj" where
  "evidence_result trajectory report artifact idempotent =
     [(''trajectory'', JObj trajectory), (''report'', JObj report), (''artifact'', JObj artifact),
      (''idempotent'', JBool idempotent)]"

definition stored_trajectory :: "string \<Rightarrow> string \<Rightarrow> evidence_store \<Rightarrow> trajectory_row option" where
  "stored_trajectory t i s = first_row (filter (\<lambda>r. et_tenant r = t \<and> et_id r = i) (trajectories s))"

definition stored_report :: "string \<Rightarrow> string \<Rightarrow> evidence_store \<Rightarrow> report_row option" where
  "stored_report t i s = first_row (filter (\<lambda>r. er_tenant r = t \<and> er_trajectory r = i) (reports s))"

definition stored_artifact :: "string \<Rightarrow> string \<Rightarrow> evidence_store \<Rightarrow> artifact_row option" where
  "stored_artifact t i s = first_row (filter (\<lambda>r. ea_tenant r = t \<and> ea_trajectory r = i) (artifacts s))"

text \<open>The artifact and report rows, and the answer with the stored or the new trajectory.\<close>

definition write_report ::
  "string \<Rightarrow> activation_row \<Rightarrow> string \<Rightarrow> obj \<Rightarrow> obj \<Rightarrow> obj \<Rightarrow> (evidence_store, obj) action" where
  "write_report t a trajectory_id trajectory report artifact =
     bind (insert_artifact \<lparr>ea_tenant = t, ea_id = py_str (obj_get artifact ''artifact_id''),
       ea_trajectory = trajectory_id, ea_sha256 = py_str (obj_get artifact ''content_sha256''),
       ea_payload = Some (JObj artifact), ea_created_at = ac_created_at a\<rparr>) (\<lambda>_.
     bind (insert_report \<lparr>er_tenant = t, er_id = py_str (obj_get report ''report_id''),
       er_artifact = py_str (obj_get artifact ''artifact_id''), er_trajectory = trajectory_id,
       er_sha256 = py_str (obj_get report ''content_sha256''), er_payload = Some (JObj report),
       er_created_at = ac_created_at a\<rparr>) (\<lambda>_.
     ret (evidence_result trajectory report artifact False)))"

definition store_evidence ::
  "validators \<Rightarrow> string \<Rightarrow> string \<Rightarrow> activation_row \<Rightarrow> obj \<times> obj \<times> obj \<Rightarrow> (evidence_store, obj) action"
where
  "store_evidence V t c a d = (case d of (trajectory, report, artifact) \<Rightarrow>
     let trajectory_id = trajectory_id_of t c a in
     bind (bind (query (\<lambda>s. load_payload et_payload (stored_trajectory t trajectory_id s))) lift_res)
       (\<lambda>existing.
     case existing of
       Some old \<Rightarrow>
         (case validate_evidence_trajectory V old of
            Inl e \<Rightarrow> if is_contract_error e then ret safe_failure else throw e
          | Inr _ \<Rightarrow>
              bind (query (stored_report t trajectory_id)) (\<lambda>rr.
              bind (query (stored_artifact t trajectory_id)) (\<lambda>ar.
              case (rr, ar) of
                (Some rr, Some ar) \<Rightarrow>
                  bind (lift_res (evidence_payload (er_payload rr))) (\<lambda>report.
                  bind (lift_res (evidence_payload (ea_payload ar))) (\<lambda>artifact.
                  ret (evidence_result old report artifact True)))
              | _ \<Rightarrow> write_report t a trajectory_id old report artifact)))
     | None \<Rightarrow>
         bind (insert_trajectory \<lparr>et_tenant = t, et_id = trajectory_id, et_case = c,
           et_revision = ac_revision a, et_workflow = ac_workflow a, et_profile = EVIDENCE_PROFILE_ID,
           et_root = py_str (obj_get trajectory ''root_sha256''),
           et_payload = Some (JObj trajectory), et_created_at = ac_created_at a\<rparr>) (\<lambda>_.
         write_report t a trajectory_id trajectory report artifact)))"

definition extraction_sources ::
  "validators \<Rightarrow> string \<Rightarrow> string \<Rightarrow> string option \<Rightarrow>
   ('a policy_db_scheme, activation_row \<times> obj list \<times> string \<times> string option) action" where
  "extraction_sources V t c requested =
     bind (source_nodes V t c) (\<lambda>(a, nodes, state).
     bind (lift_res (outcome_for state requested)) (\<lambda>v. ret (a, nodes, v)))"

definition or_failure :: "obj option \<Rightarrow> obj" where
  "or_failure r = (case r of None \<Rightarrow> safe_failure | Some r \<Rightarrow> r)"

definition extract_evidence_trajectory ::
  "validators \<Rightarrow> string \<Rightarrow> string \<Rightarrow> string option \<Rightarrow> (evidence_store, obj) action" where
  "extract_evidence_trajectory V t c requested =
     bind (attempt is_lineage_failure (on_engine (extraction_sources V t c requested))) (\<lambda>found.
     case found of
       None \<Rightarrow> ret safe_failure
     | Some (a, nodes, v) \<Rightarrow>
         let d = evidence_documents t c a nodes v in
         bind (attempt is_contract_error (lift_res (validate_documents V d))) (\<lambda>valid.
         if valid = None then ret safe_failure
         else bind (attempt is_database_error (tx (store_evidence V t c a d))) (\<lambda>r.
              ret (or_failure r))))"

section \<open>Verification replay\<close>

text \<open>\<open>except (ContractValidationError, EvidenceLineageError, KeyError, TypeError)\<close>\<close>

definition is_replay_failure :: "exn \<Rightarrow> bool" where
  "is_replay_failure e \<longleftrightarrow> is_contract_error e \<or> is_lineage_failure e"

text \<open>\<open>{**trajectory, "nodes": nodes, "root_sha256": ""}\<close>, sealed: its root, and whether it is the recorded one.\<close>

definition replayed_root :: "obj \<Rightarrow> obj list \<Rightarrow> string" where
  "replayed_root trajectory nodes =
     content_hash (obj_set (obj_set trajectory ''nodes'' (JList (map JObj nodes)))
       ''root_sha256'' (JStr '''')) ''root_sha256''"

definition replay_sources ::
  "validators \<Rightarrow> string \<Rightarrow> obj \<times> obj \<times> obj \<Rightarrow> ('a policy_db_scheme, bool \<times> string) action" where
  "replay_sources V t d = (case d of (trajectory, report, artifact) \<Rightarrow>
     bind (lift_res (validate_documents V d)) (\<lambda>_.
     bind (lift_res (obj_item trajectory ''case_id'')) (\<lambda>c.
     bind (source_nodes V t (py_str c)) (\<lambda>(a, nodes, state).
     bind (lift_res (obj_item trajectory ''root_sha256'')) (\<lambda>root.
     ret (root = JStr (replayed_root trajectory nodes), replayed_root trajectory nodes))))))"

definition replay_result_document ::
  "string \<Rightarrow> string \<Rightarrow> obj \<Rightarrow> obj \<Rightarrow> bool \<Rightarrow> string \<Rightarrow> exn + obj" where
  "replay_result_document t trajectory_id trajectory report verified root =
     bind_res (obj_item report ''report_id'') (\<lambda>report_id.
     bind_res (obj_item report ''content_sha256'') (\<lambda>report_sha256.
     bind_res (obj_item trajectory ''root_sha256'') (\<lambda>recorded.
     bind_res (obj_item trajectory ''created_at'') (\<lambda>recorded_at.
     Inr (sealed
     [(''schema_id'', JStr TRAJECTORY_REPLAY_RESULT_SCHEMA_ID), (''schema_version'', JStr ''v1''),
      (''tenant_id'', JStr t),
      (''replay_result_id'', JStr (stable_identifier ''trajectory_replay'' (JObj
         [(''trajectory_id'', JStr trajectory_id),
          (''recorded_root'', obj_get trajectory ''root_sha256''),
          (''replayed_root'', JStr root)]))),
      (''trajectory_id'', JStr trajectory_id), (''report_id'', report_id),
      (''report_sha256'', report_sha256), (''recorded_root_sha256'', recorded),
      (''replayed_root_sha256'', JStr root), (''mode'', JStr ''verification_replay''),
      (''verification_outcome'', JStr (if verified then ''verified'' else ''lineage_invalid'')),
      (''failure_code'', if verified then JNull else JStr ''lineage_invalid''),
      (''capabilities'', offline_capabilities), (''result_sha256'', JStr ''''),
      (''recorded_at'', recorded_at)] ''result_sha256'')))))"

definition validate_replay ::
  "validators \<Rightarrow> obj \<times> obj \<times> obj \<Rightarrow> bool \<Rightarrow> obj \<Rightarrow> exn + unit" where
  "validate_replay V d verified result = (case d of (trajectory, report, artifact) \<Rightarrow>
     bind_res (validate_trajectory_replay_result V result (Some trajectory) (Some report)) (\<lambda>_.
     if verified then validate_evidence_chain V artifact trajectory report result else Inr ()))"

definition stored_replay :: "string \<Rightarrow> string \<Rightarrow> string \<Rightarrow> evidence_store \<Rightarrow> replay_row option" where
  "stored_replay t i h s =
     first_row (filter (\<lambda>r. ry_tenant r = t \<and> ry_trajectory r = i \<and> ry_sha256 r = h) (replays s))"

text \<open>The result row, or the result stored before under the same digest.\<close>

definition store_replay :: "string \<Rightarrow> string \<Rightarrow> obj \<Rightarrow> (evidence_store, obj) action" where
  "store_replay t trajectory_id result =
     (let digest = py_str (obj_get result ''result_sha256'') in
     bind (bind (query (\<lambda>s. load_payload ry_payload (stored_replay t trajectory_id digest s))) lift_res)
       (\<lambda>existing.
     case existing of
       Some old \<Rightarrow> ret old
     | None \<Rightarrow>
         bind (lift_res (text_col result ''recorded_at'')) (\<lambda>recorded_at.
         bind (insert_replay \<lparr>ry_tenant = t, ry_id = py_str (obj_get result ''replay_result_id''),
           ry_trajectory = trajectory_id, ry_sha256 = digest, ry_payload = Some (JObj result),
           ry_recorded_at = recorded_at\<rparr>) (\<lambda>_.
         ret result))))"

definition replay_documents ::
  "validators \<Rightarrow> string \<Rightarrow> string \<Rightarrow> obj \<times> obj \<times> obj \<Rightarrow> (evidence_store, obj) action" where
  "replay_documents V t trajectory_id d = (case d of (trajectory, report, artifact) \<Rightarrow>
     bind (attempt is_replay_failure (on_engine (replay_sources V t d))) (\<lambda>found.
     let (verified, root) = (case found of None \<Rightarrow> (False, ZERO_HASH) | Some f \<Rightarrow> f) in
     bind (lift_res (replay_result_document t trajectory_id trajectory report verified root)) (\<lambda>result.
     bind (attempt is_contract_error (lift_res (validate_replay V d verified result))) (\<lambda>valid.
     if valid = None then ret safe_failure
     else
       bind (attempt is_database_error (tx (store_replay t trajectory_id result))) (\<lambda>r.
       case r of
         None \<Rightarrow> ret safe_failure
       | Some result \<Rightarrow> ret
           [(''trajectory'', JObj trajectory), (''report'', JObj report),
            (''artifact'', JObj artifact), (''replay_result'', JObj result)])))))"

definition replay_evidence_trajectory ::
  "validators \<Rightarrow> string \<Rightarrow> string \<Rightarrow> (evidence_store, obj) action" where
  "replay_evidence_trajectory V t trajectory_id =
     bind (bind (query (\<lambda>s. load_payload et_payload (stored_trajectory t trajectory_id s))) lift_res)
       (\<lambda>trajectory.
     bind (bind (query (\<lambda>s. load_payload er_payload (stored_report t trajectory_id s))) lift_res)
       (\<lambda>report.
     bind (bind (query (\<lambda>s. load_payload ea_payload (stored_artifact t trajectory_id s))) lift_res)
       (\<lambda>artifact.
     case (trajectory, report, artifact) of
       (Some trajectory, Some report, Some artifact) \<Rightarrow>
         replay_documents V t trajectory_id (trajectory, report, artifact)
     | _ \<Rightarrow> ret safe_failure)))"

section \<open>The report of a case\<close>

text \<open>The \<open>JOIN\<close> of the reports with the trajectories of the case; nothing is extracted.\<close>

definition evidence_report_for_case :: "string \<Rightarrow> string \<Rightarrow> evidence_store \<Rightarrow> exn + obj option" where
  "evidence_report_for_case t c s =
     (case activation_for_tenant_case t c (engine s) of
        None \<Rightarrow> Inr None
      | Some _ \<Rightarrow> load_payload er_payload (first_row (sort_key er_id (filter (\<lambda>r. er_tenant r = t \<and>
          list_ex (\<lambda>q. et_tenant q = er_tenant r \<and> et_id q = er_trajectory r \<and> et_case q = c)
            (trajectories s)) (reports s)))))"

end
