(* ===== verification/InvestigationStore.thy ===== *)
theory InvestigationStore
  imports WorkflowRebuild
begin

text \<open>
  \<open>workflow_journal_schema.py\<close>, the tables of the investigation journal: their keys, checks and
  foreign keys, and the rows \<open>durable_workflow.py\<close> inserts into them.
\<close>

section \<open>Keys\<close>

definition investigation_clash :: "investigation_row \<Rightarrow> investigation_row \<Rightarrow> bool" where
  "investigation_clash r q \<longleftrightarrow> iv_tenant r = iv_tenant q \<and>
     (iv_id r = iv_id q \<or> iv_workflow r = iv_workflow q \<or> iv_manifest r = iv_manifest q)"

definition agent_step_clash :: "agent_step_row \<Rightarrow> agent_step_row \<Rightarrow> bool" where
  "agent_step_clash r q \<longleftrightarrow> as_tenant r = as_tenant q \<and>
     (as_id r = as_id q \<or> as_workflow r = as_workflow q \<and> as_step r = as_step q)"

definition tool_request_clash :: "tool_request_row \<Rightarrow> tool_request_row \<Rightarrow> bool" where
  "tool_request_clash r q \<longleftrightarrow> tq_tenant r = tq_tenant q \<and>
     (tq_id r = tq_id q \<or> tq_workflow r = tq_workflow q \<and> tq_step r = tq_step q \<and> tq_tool r = tq_tool q)"

definition tool_result_clash :: "tool_result_row \<Rightarrow> tool_result_row \<Rightarrow> bool" where
  "tool_result_clash r q \<longleftrightarrow> tr_tenant r = tr_tenant q \<and> (tr_id r = tr_id q \<or> tr_request r = tr_request q)"

definition candidate_clash :: "candidate_row \<Rightarrow> candidate_row \<Rightarrow> bool" where
  "candidate_clash r q \<longleftrightarrow> ca_tenant r = ca_tenant q \<and>
     (ca_id r = ca_id q \<or> ca_workflow r = ca_workflow q \<and> ca_sha256 r = ca_sha256 q)"

definition outcome_clash :: "outcome_row \<Rightarrow> outcome_row \<Rightarrow> bool" where
  "outcome_clash r q \<longleftrightarrow> vo_tenant r = vo_tenant q \<and>
     (vo_id r = vo_id q \<or> vo_candidate r = vo_candidate q)"

section \<open>Statements\<close>

definition TOOL_NAMES :: "string list" where
  "TOOL_NAMES = [''crm'', ''monitoring'', ''knowledge'']"

definition AGENT_ACTIONS :: "string list" where
  "AGENT_ACTIONS = [''read_crm'', ''read_monitoring'', ''read_knowledge'', ''needs_information'',
     ''needs_operator'', ''response_candidate'']"

definition has_tool_request :: "string \<Rightarrow> string \<Rightarrow> 'a policy_db_scheme \<Rightarrow> bool" where
  "has_tool_request t i s = list_ex (\<lambda>q. tq_tenant q = t \<and> tq_id q = i) (tool_requests s)"

definition has_candidate :: "string \<Rightarrow> string \<Rightarrow> 'a policy_db_scheme \<Rightarrow> bool" where
  "has_candidate t i s = list_ex (\<lambda>q. ca_tenant q = t \<and> ca_id q = i) (candidates s)"

definition insert_investigation :: "investigation_row \<Rightarrow> ('a policy_db_scheme, unit) action" where
  "insert_investigation r = modify (\<lambda>s. bind_res
     (insert_row (\<lambda>r. 1 \<le> iv_action_budget r \<and> 1 \<le> iv_tool_budget r \<and> 1 \<le> iv_no_progress r \<and>
          has_activation (iv_tenant r) (iv_workflow r) s)
        investigation_clash r (investigations s)) (\<lambda>rs. Inr (s\<lparr>investigations := rs\<rparr>)))"

definition insert_agent_step :: "agent_step_row \<Rightarrow> ('a policy_db_scheme, unit) action" where
  "insert_agent_step r = modify (\<lambda>s. bind_res
     (insert_row (\<lambda>r. as_action r \<in> set AGENT_ACTIONS \<and> has_activation (as_tenant r) (as_workflow r) s)
        agent_step_clash r (agent_steps s)) (\<lambda>rs. Inr (s\<lparr>agent_steps := rs\<rparr>)))"

definition insert_tool_request :: "tool_request_row \<Rightarrow> ('a policy_db_scheme, unit) action" where
  "insert_tool_request r = modify (\<lambda>s. bind_res
     (insert_row (\<lambda>r. tq_tool r \<in> set TOOL_NAMES \<and> has_activation (tq_tenant r) (tq_workflow r) s)
        tool_request_clash r (tool_requests s)) (\<lambda>rs. Inr (s\<lparr>tool_requests := rs\<rparr>)))"

definition insert_tool_result :: "tool_result_row \<Rightarrow> ('a policy_db_scheme, unit) action" where
  "insert_tool_result r = modify (\<lambda>s. bind_res
     (insert_row (\<lambda>r. tr_tool r \<in> set TOOL_NAMES \<and> tr_redaction r = ''synthetic'' \<and>
          has_tool_request (tr_tenant r) (tr_request r) s)
        tool_result_clash r (tool_results s)) (\<lambda>rs. Inr (s\<lparr>tool_results := rs\<rparr>)))"

definition insert_candidate :: "candidate_row \<Rightarrow> ('a policy_db_scheme, unit) action" where
  "insert_candidate r = modify (\<lambda>s. bind_res
     (insert_row (\<lambda>r. ca_risk r \<in> {''low'', ''medium'', ''high''} \<and>
          ca_next_step r \<in> {''operator_review'', ''awaiting_information''} \<and>
          has_activation (ca_tenant r) (ca_workflow r) s)
        candidate_clash r (candidates s)) (\<lambda>rs. Inr (s\<lparr>candidates := rs\<rparr>)))"

definition insert_outcome :: "outcome_row \<Rightarrow> ('a policy_db_scheme, unit) action" where
  "insert_outcome r = modify (\<lambda>s. bind_res
     (insert_row (\<lambda>r. vo_outcome r \<in> {''verified'', ''rejected''} \<and>
          has_candidate (vo_tenant r) (vo_candidate r) s)
        outcome_clash r (outcomes s)) (\<lambda>rs. Inr (s\<lparr>outcomes := rs\<rparr>)))"

section \<open>The rows of the payloads\<close>

definition investigation_row_of :: "string \<Rightarrow> string \<Rightarrow> string \<Rightarrow> obj \<Rightarrow> exn + investigation_row" where
  "investigation_row_of t w transcript m =
     bind_res (obj_item m ''context_manifest_id'') (\<lambda>manifest_id.
     bind_res (obj_item m ''context_sha256'') (\<lambda>context.
     bind_res (text_col m ''checkpoint_id'') (\<lambda>checkpoint.
     bind_res (text_col m ''case_id'') (\<lambda>case_id.
     bind_res (text_col m ''case_revision_id'') (\<lambda>revision.
     bind_res (sql_text manifest_id) (\<lambda>manifest.
     bind_res (sql_text context) (\<lambda>context_sha256.
     bind_res (text_col m ''environment_snapshot_sha256'') (\<lambda>environment.
     bind_res (list_col m ''evidence_references'') (\<lambda>evidence.
     bind_res (int_col m ''action_budget'') (\<lambda>action_budget.
     bind_res (int_col m ''tool_budget'') (\<lambda>tool_budget.
     bind_res (int_col m ''no_progress_limit'') (\<lambda>no_progress.
     bind_res (text_col m ''created_at'') (\<lambda>created_at.
     Inr \<lparr>iv_tenant = t,
       iv_id = stable_identifier ''investigation'' (JObj [(''workflow_id'', JStr w),
         (''context_manifest_id'', manifest_id), (''context_sha256'', context)]),
       iv_workflow = w, iv_checkpoint = checkpoint, iv_case = case_id, iv_revision = revision,
       iv_manifest = manifest, iv_context_sha256 = context_sha256, iv_environment = environment,
       iv_evidence = evidence, iv_transcript = transcript, iv_action_budget = action_budget,
       iv_tool_budget = tool_budget, iv_no_progress = no_progress, iv_created_at = created_at\<rparr>)))))))))))))"

definition agent_step_row_of :: "string \<Rightarrow> string \<Rightarrow> obj \<Rightarrow> exn + agent_step_row" where
  "agent_step_row_of t w p =
     bind_res (obj_item p ''step_id'') (\<lambda>step_id.
     bind_res (text_col p ''checkpoint_id'') (\<lambda>checkpoint.
     bind_res (text_col p ''context_manifest_id'') (\<lambda>manifest.
     bind_res (sql_text step_id) (\<lambda>step.
     bind_res (text_col p ''action_type'') (\<lambda>action.
     bind_res (text_col p ''action_sha256'') (\<lambda>sha256.
     bind_res (text_col p ''created_at'') (\<lambda>created_at.
     Inr \<lparr>as_tenant = t,
       as_id = stable_identifier ''agent_step'' (JObj [(''workflow_id'', JStr w), (''step_id'', step_id)]),
       as_workflow = w, as_checkpoint = checkpoint, as_manifest = manifest, as_step = step,
       as_action = action, as_sha256 = sha256, as_created_at = created_at\<rparr>)))))))"

definition tool_request_row_of :: "string \<Rightarrow> string \<Rightarrow> obj \<Rightarrow> exn + tool_request_row" where
  "tool_request_row_of t w p =
     bind_res (text_col p ''tool_request_id'') (\<lambda>i.
     bind_res (text_col p ''checkpoint_id'') (\<lambda>checkpoint.
     bind_res (text_col p ''context_manifest_id'') (\<lambda>manifest.
     bind_res (text_col p ''step_id'') (\<lambda>step.
     bind_res (text_col p ''tool_name'') (\<lambda>tool.
     bind_res (text_col p ''request_sha256'') (\<lambda>sha256.
     bind_res (text_col p ''created_at'') (\<lambda>created_at.
     Inr \<lparr>tq_tenant = t, tq_id = i, tq_workflow = w, tq_checkpoint = checkpoint,
          tq_manifest = manifest, tq_step = step, tq_tool = tool, tq_sha256 = sha256,
          tq_created_at = created_at\<rparr>)))))))"

definition tool_result_row_of :: "string \<Rightarrow> string \<Rightarrow> obj \<Rightarrow> exn + tool_result_row" where
  "tool_result_row_of t w p =
     bind_res (text_col p ''tool_result_id'') (\<lambda>i.
     bind_res (text_col p ''checkpoint_id'') (\<lambda>checkpoint.
     bind_res (text_col p ''context_manifest_id'') (\<lambda>manifest.
     bind_res (text_col p ''tool_name'') (\<lambda>tool.
     bind_res (text_col p ''tool_request_id'') (\<lambda>request.
     bind_res (text_col p ''evidence_id'') (\<lambda>evidence.
     bind_res (text_col p ''content_sha256'') (\<lambda>sha256.
     bind_res (text_col p ''redaction_classification'') (\<lambda>redaction.
     bind_res (text_col p ''recorded_at'') (\<lambda>recorded_at.
     Inr \<lparr>tr_tenant = t, tr_id = i, tr_workflow = w, tr_checkpoint = checkpoint,
          tr_manifest = manifest, tr_tool = tool, tr_request = request, tr_evidence = evidence,
          tr_sha256 = sha256, tr_redaction = redaction, tr_recorded_at = recorded_at\<rparr>)))))))))"

definition candidate_row_of :: "string \<Rightarrow> string \<Rightarrow> obj \<Rightarrow> exn + candidate_row" where
  "candidate_row_of t w p =
     bind_res (text_col p ''candidate_id'') (\<lambda>i.
     bind_res (text_col p ''checkpoint_id'') (\<lambda>checkpoint.
     bind_res (text_col p ''context_manifest_id'') (\<lambda>manifest.
     bind_res (text_col p ''context_sha256'') (\<lambda>context.
     bind_res (list_col p ''evidence_hashes'') (\<lambda>evidence.
     bind_res (text_col p ''candidate_sha256'') (\<lambda>sha256.
     bind_res (text_col p ''risk'') (\<lambda>risk.
     bind_res (text_col p ''next_step'') (\<lambda>next_step.
     bind_res (text_col p ''created_at'') (\<lambda>created_at.
     Inr \<lparr>ca_tenant = t, ca_id = i, ca_workflow = w, ca_checkpoint = checkpoint,
          ca_manifest = manifest, ca_context = context, ca_evidence = evidence, ca_sha256 = sha256,
          ca_risk = risk, ca_next_step = next_step, ca_created_at = created_at\<rparr>)))))))))"

end
