(* ===== verification/DeliveryEngine.thy ===== *)
theory DeliveryEngine
  imports DeliveryProtocol
begin

text \<open>
  \<open>durable_workflow.py\<close>, the Change 4 continuation: whether the authorization is still current,
  the denial, \<open>_recover_delivery\<close>, the application of a stored approval, \<open>_recover_policy_approval\<close>
  and its two entry points.  As for the commands, the read of the workflow projection the methods
  end with is not part of the model; they return \<open>()\<close> or the disposition.
\<close>

section \<open>Current authorization\<close>

text \<open>\<open>except (ContractValidationError, WorkflowError, KeyError, TypeError, ValueError)\<close>\<close>

fun profile_refusal :: "exn \<Rightarrow> bool" where
  "profile_refusal (KeyError _) = True"
| "profile_refusal (TypeError _) = True"
| "profile_refusal (ValueError _) = True"
| "profile_refusal e = (is_contract_error e \<or> is_workflow_error e)"

definition current_profile ::
  "validators \<Rightarrow> instant \<Rightarrow> activation_row \<Rightarrow> obj \<Rightarrow> obj \<Rightarrow> obj \<Rightarrow> 'a policy_db_scheme \<Rightarrow> exn + unit"
where
  "current_profile V now a b d g s =
     bind_res (candidate_material a s) (\<lambda>(candidate, evidence).
     bind_res (obj_item b ''checkpoint_id'') (\<lambda>checkpoint.
     bind_res (bind_res (obj_item b ''workflow_version'') py_int) (\<lambda>version.
     validate_change4_authorization_profile V b g d
       \<lparr>pq_action = ''outbound_delivery.execute'', pq_case_revision_id = ac_revision a,
        pq_checkpoint_id = py_str checkpoint, pq_workflow_version = version,
        pq_candidate_hash = candidate, pq_evidence_hashes = evidence,
        pq_resource_id = API_503_DELIVERY_RESOURCE_ID, pq_data_classification = ''synthetic'',
        pq_tenant_id = Some (ac_tenant a), pq_subject_id = None, pq_role = None,
        pq_require_allow = True\<rparr> now)))"

definition authorization_profile_is_current ::
  "validators \<Rightarrow> instant \<Rightarrow> activation_row \<Rightarrow> obj \<Rightarrow> obj \<Rightarrow> obj \<Rightarrow> 'a policy_db_scheme \<Rightarrow> exn + bool"
where
  "authorization_profile_is_current V now a b d g s =
     bind_res (obj_item g ''grant_id'') (\<lambda>gid.
     if \<not> grant_is_active (ac_tenant a) (py_str gid) s then Inr False
     else catch_res profile_refusal (\<lambda>_. Inr False)
            (bind_res (current_profile V now a b d g s) (\<lambda>_. Inr True)))"

text \<open>
  The \<open>try\<close> block around \<open>validate_hash_bound_approval\<close>: \<open>False\<close> for a contract error, anything else
  is raised.
\<close>

definition approval_is_current ::
  "validators \<Rightarrow> instant \<Rightarrow> activation_row \<Rightarrow> obj \<Rightarrow> obj \<Rightarrow> obj \<Rightarrow> 'a policy_db_scheme \<Rightarrow> exn + bool"
where
  "approval_is_current V now a request approval b s =
     catch_res is_contract_error (\<lambda>_. Inr False)
       (bind_res (candidate_material a s) (\<lambda>(candidate, evidence).
        bind_res (obj_item b ''checkpoint_id'') (\<lambda>checkpoint.
        bind_res (bind_res (obj_item b ''workflow_version'') py_int) (\<lambda>version.
        bind_res (obj_item approval ''approver_id'') (\<lambda>approver.
        bind_res (validate_hash_bound_approval V request approval b
          \<lparr>aq_case_revision_id = ac_revision a, aq_checkpoint_id = py_str checkpoint,
           aq_workflow_version = version, aq_candidate_hash = candidate,
           aq_evidence_hashes = evidence, aq_tenant_id = ac_tenant a,
           aq_approver_id = py_str approver, aq_approver_role = FIXTURE_APPROVER_ROLE\<rparr> now)
          (\<lambda>_. Inr True))))))"

section \<open>Denial\<close>

definition deny_move :: "string \<Rightarrow> string list option \<Rightarrow> string list option \<Rightarrow> move" where
  "deny_move causation pending completed =
     \<lparr>mv_kind = AUTHORIZATION_DENIED, mv_next = WAITING_FOR_OPERATOR,
      mv_resume = WAITING_FOR_OPERATOR, mv_causation = Some causation, mv_pending = pending,
      mv_completed = completed\<rparr>"

definition authorization_denial ::
  "validators \<Rightarrow> instant \<Rightarrow> fault_profile option \<Rightarrow> activation_row \<Rightarrow> checkpoint \<Rightarrow> string \<Rightarrow>
   ('a policy_db_scheme, unit) action" where
  "authorization_denial V now fp a k reason =
     (if cp_state (ck_row k) \<notin> {AWAITING_APPROVAL, DELIVERING} then ret ()
      else
        bind (query (all_pending_intent_ids (ac_tenant a) (ac_workflow a))) (\<lambda>pending.
        bind (query (all_completed_intent_ids (ac_tenant a) (ac_workflow a))) (\<lambda>completed.
        bind (workflow_transition V now fp a k
          (deny_move (''authorization-denied:'' @ reason) (Some pending) (Some completed))) (\<lambda>_.
        ret ()))))"

section \<open>Delivery\<close>

definition delivery_checkpoint ::
  "validators \<Rightarrow> instant \<Rightarrow> activation_row \<Rightarrow> string \<Rightarrow> ('a policy_db_scheme, checkpoint) action" where
  "delivery_checkpoint V now a causation =
     bind (query (all_pending_intent_ids (ac_tenant a) (ac_workflow a))) (\<lambda>pending.
     bind (query (all_completed_intent_ids (ac_tenant a) (ac_workflow a))) (\<lambda>completed.
     ensure_checkpoint V now a
       \<lparr>rq_state = DELIVERING, rq_resume = DELIVERING, rq_pending = pending,
        rq_completed = completed, rq_causation = Some causation, rq_kind = None\<rparr>))"

definition delivery_reconciliation ::
  "validators \<Rightarrow> instant \<Rightarrow> fault_profile option \<Rightarrow> activation_row \<Rightarrow> checkpoint \<Rightarrow> string \<Rightarrow>
   ('a policy_db_scheme, unit) action" where
  "delivery_reconciliation V now fp a k causation =
     bind (query (all_pending_intent_ids (ac_tenant a) (ac_workflow a))) (\<lambda>pending.
     bind (query (all_completed_intent_ids (ac_tenant a) (ac_workflow a))) (\<lambda>completed.
     bind (workflow_transition V now fp a k
       \<lparr>mv_kind = RECONCILIATION_REQUIRED, mv_next = NEEDS_RECONCILIATION, mv_resume = DELIVERING,
        mv_causation = Some causation, mv_pending = Some pending, mv_completed = Some completed\<rparr>)
       (\<lambda>_. ret ())))"

definition finish_delivery ::
  "validators \<Rightarrow> instant \<Rightarrow> fault_profile option \<Rightarrow> activation_row \<Rightarrow> obj \<Rightarrow>
   ('a policy_db_scheme, unit) action" where
  "finish_delivery V now fp a completion =
     bind (lift_res (obj_item completion ''completion_id'')) (\<lambda>cid.
     let causation = ''delivery-completion:'' @ py_str cid in
     bind (delivery_checkpoint V now a causation) (\<lambda>k.
     bind (workflow_transition V now fp a k
       \<lparr>mv_kind = DELIVERY_COMPLETE, mv_next = DELIVERY_RECORDED, mv_resume = DELIVERY_RECORDED,
        mv_causation = Some causation, mv_pending = None, mv_completed = None\<rparr>) (\<lambda>_.
     interrupt fp ''delivery-transition'')))"

text \<open>The part of \<open>_recover_delivery\<close> behind the authorization checks.\<close>

definition deliver ::
  "validators \<Rightarrow> instant \<Rightarrow> fault_profile option \<Rightarrow> activation_row \<Rightarrow> checkpoint \<Rightarrow> obj \<Rightarrow>
   ('a policy_db_scheme, unit) action" where
  "deliver V now fp a k binding =
     bind (ensure_delivery_intent V now a k binding) (\<lambda>(i, created).
     bind (if created then interrupt fp ''delivery-intent'' else ret ()) (\<lambda>_.
     bind (lift_res (obj_item i ''intent_id'')) (\<lambda>iid.
     bind (delivery_checkpoint V now a (''delivery-intent:'' @ py_str iid)) (\<lambda>k1.
     bind (process_delivery_intent V now fp i) (\<lambda>completion.
     case completion of
       None \<Rightarrow> delivery_reconciliation V now fp a k1 (''delivery-reconciliation:'' @ py_str iid)
     | Some c \<Rightarrow> finish_delivery V now fp a c)))))"

definition recover_delivery ::
  "validators \<Rightarrow> instant \<Rightarrow> fault_profile option \<Rightarrow> activation_row \<Rightarrow> checkpoint \<Rightarrow>
   ('a policy_db_scheme, unit) action" where
  "recover_delivery V now fp a k =
     (let t = ac_tenant a; w = ac_workflow a in
      if cp_state (ck_row k) \<noteq> DELIVERING then ret ()
      else
        bind (bind (query (authorization_binding_for_workflow t w)) lift_res) (\<lambda>binding.
        bind (bind (query (grant_for_workflow t w)) lift_res) (\<lambda>grant.
        bind (bind (query (policy_decision_for_workflow t w)) lift_res) (\<lambda>policy.
        bind (bind (query (approval_request_for_workflow t w)) lift_res) (\<lambda>request.
        case (binding, grant, policy, request) of
          (Some b, Some g, Some d, Some r) \<Rightarrow>
            bind (lift_res (obj_item r ''approval_request_id'')) (\<lambda>rid.
            bind (bind (query (approval_decision_for_request t (py_str rid))) lift_res) (\<lambda>approval.
            case approval of
              None \<Rightarrow> authorization_denial V now fp a k ''stale''
            | Some p \<Rightarrow>
                bind (bind (query (authorization_profile_is_current V now a b d g)) lift_res) (\<lambda>current.
                if \<not> current then authorization_denial V now fp a k ''stale''
                else
                  bind (bind (query (approval_is_current V now a r p b)) lift_res) (\<lambda>approved.
                  if \<not> approved then authorization_denial V now fp a k ''approval''
                  else deliver V now fp a k b))))
        | _ \<Rightarrow> authorization_denial V now fp a k ''missing'')))))"

text \<open>The stored intent of a workflow, processed again.\<close>

definition process_stored_delivery ::
  "validators \<Rightarrow> instant \<Rightarrow> fault_profile option \<Rightarrow> activation_row \<Rightarrow>
   ('a policy_db_scheme, obj option) action" where
  "process_stored_delivery V now fp a =
     bind (bind (query (delivery_intent_for_workflow (ac_tenant a) (ac_workflow a))) lift_res) (\<lambda>intent.
     case intent of
       None \<Rightarrow> throw (WorkflowError ''policy_journal_invalid'')
     | Some i \<Rightarrow> process_delivery_intent V now fp i)"

definition recover_delivery_reconciliation ::
  "validators \<Rightarrow> instant \<Rightarrow> fault_profile option \<Rightarrow> activation_row \<Rightarrow> checkpoint \<Rightarrow>
   ('a policy_db_scheme, unit) action" where
  "recover_delivery_reconciliation V now fp a k =
     bind (process_stored_delivery V now fp a) (\<lambda>completion.
     case completion of
       None \<Rightarrow> ret ()
     | Some c \<Rightarrow>
         bind (lift_res (obj_item c ''completion_id'')) (\<lambda>cid.
         bind (query (all_pending_intent_ids (ac_tenant a) (ac_workflow a))) (\<lambda>pending.
         bind (query (all_completed_intent_ids (ac_tenant a) (ac_workflow a))) (\<lambda>completed.
         bind (workflow_transition V now fp a k
           \<lparr>mv_kind = RECONCILIATION_COMPLETE, mv_next = DELIVERING, mv_resume = DELIVERING,
            mv_causation = Some (''delivery-reconciled:'' @ py_str cid),
            mv_pending = Some pending, mv_completed = Some completed\<rparr>) (\<lambda>k'.
         recover_delivery V now fp a k')))))"

section \<open>Applying a stored approval\<close>

definition deny_approval ::
  "validators \<Rightarrow> instant \<Rightarrow> fault_profile option \<Rightarrow> activation_row \<Rightarrow> checkpoint \<Rightarrow> string \<Rightarrow> obj \<Rightarrow>
   ('a policy_db_scheme, unit) action" where
  "deny_approval V now fp a k tag decision =
     bind (lift_res (obj_item decision ''approval_decision_id'')) (\<lambda>did.
     bind (workflow_transition V now fp a k (deny_move (tag @ py_str did) None None)) (\<lambda>_. ret ()))"

definition apply_persisted_approval_decision ::
  "validators \<Rightarrow> instant \<Rightarrow> fault_profile option \<Rightarrow> activation_row \<Rightarrow> checkpoint \<Rightarrow> obj \<Rightarrow> obj \<Rightarrow>
   ('a policy_db_scheme, unit) action" where
  "apply_persisted_approval_decision V now fp a k request decision =
     (let t = ac_tenant a; w = ac_workflow a in
      if cp_state (ck_row k) \<noteq> AWAITING_APPROVAL then ret ()
      else if obj_get decision ''decision'' \<noteq> JStr ''approved'' then
        deny_approval V now fp a k ''approval:'' decision
      else
        bind (bind (query (authorization_binding_for_workflow t w)) lift_res) (\<lambda>binding.
        bind (bind (query (grant_for_workflow t w)) lift_res) (\<lambda>grant.
        bind (bind (query (policy_decision_for_workflow t w)) lift_res) (\<lambda>policy.
        case (binding, grant, policy) of
          (Some b, Some g, Some d) \<Rightarrow>
            bind (bind (query (authorization_profile_is_current V now a b d g)) lift_res) (\<lambda>current.
            if \<not> current then deny_approval V now fp a k ''approval-invalid:'' decision
            else
              bind (bind (query (approval_is_current V now a request decision b)) lift_res) (\<lambda>approved.
              if \<not> approved then deny_approval V now fp a k ''approval-invalid:'' decision
              else
                bind (lift_res (obj_item decision ''approval_decision_id'')) (\<lambda>did.
                bind (workflow_transition V now fp a k
                  \<lparr>mv_kind = APPROVAL_GRANTED, mv_next = DELIVERING, mv_resume = DELIVERING,
                   mv_causation = Some (''approval:'' @ py_str did), mv_pending = None,
                   mv_completed = None\<rparr>) (\<lambda>k'.
                recover_delivery V now fp a k'))))
        | _ \<Rightarrow> throw (WorkflowError ''policy_journal_invalid'')))))"

section \<open>Recovering the policy continuation\<close>

text \<open>From \<open>state\<close> on: what follows the checkpoint of the approval request.\<close>

definition continue_approval ::
  "validators \<Rightarrow> instant \<Rightarrow> fault_profile option \<Rightarrow> activation_row \<Rightarrow> checkpoint \<Rightarrow> obj \<Rightarrow>
   ('a policy_db_scheme, unit) action" where
  "continue_approval V now fp a k request =
     (if cp_state (ck_row k) = AWAITING_APPROVAL then
        bind (lift_res (obj_item request ''approval_request_id'')) (\<lambda>rid.
        bind (bind (query (approval_decision_for_request (ac_tenant a) (py_str rid))) lift_res)
          (\<lambda>persisted.
        case persisted of
          None \<Rightarrow> ret ()
        | Some p \<Rightarrow> apply_persisted_approval_decision V now fp a k request p))
      else if cp_state (ck_row k) = DELIVERING then recover_delivery V now fp a k
      else ret ())"

definition request_approval ::
  "validators \<Rightarrow> instant \<Rightarrow> fault_profile option \<Rightarrow> activation_row \<Rightarrow> obj \<Rightarrow>
   ('a policy_db_scheme, unit) action" where
  "request_approval V now fp a request =
     bind (bind (query (latest_checkpoint (ac_tenant a) (ac_workflow a))) lift_res) (\<lambda>latest.
     case latest of
       None \<Rightarrow> throw (WorkflowError ''workflow_journal_invalid'')
     | Some k \<Rightarrow>
         if cp_state (ck_row k) = RESPONSE_READY then
           bind (lift_res (obj_item request ''approval_request_id'')) (\<lambda>rid.
           bind (workflow_transition V now fp a k
             \<lparr>mv_kind = POLICY_APPROVAL_ACTIVATED, mv_next = AWAITING_APPROVAL,
              mv_resume = AWAITING_APPROVAL,
              mv_causation = Some (''approval-request:'' @ py_str rid), mv_pending = None,
              mv_completed = None\<rparr>) (\<lambda>k'.
           continue_approval V now fp a k' request))
         else continue_approval V now fp a k request)"

definition recover_policy_approval ::
  "validators \<Rightarrow> instant \<Rightarrow> fault_profile option \<Rightarrow> activation_row \<Rightarrow> ('a policy_db_scheme, unit) action"
where
  "recover_policy_approval V now fp a =
     bind (query (policy_activation_for_workflow (ac_tenant a) (ac_workflow a))) (\<lambda>activated.
     case activated of
       None \<Rightarrow> ret ()
     | Some p \<Rightarrow>
         bind (ensure_fixture_grant V now a p) (\<lambda>g.
         bind (ensure_policy_decision V now a p g) (\<lambda>d.
         bind (interrupt fp ''policy'') (\<lambda>_.
         if obj_get d ''decision'' \<noteq> JStr ''allow'' then ret ()
         else
           bind (ensure_authorization_binding V now a p g d) (\<lambda>b.
           bind (ensure_approval_request V now a b) (\<lambda>r.
           bind (interrupt fp ''approval-request'') (\<lambda>_.
           request_approval V now fp a r)))))))"

definition activate_policy_approval ::
  "validators \<Rightarrow> instant \<Rightarrow> fault_profile option \<Rightarrow> string \<Rightarrow> string \<Rightarrow> string \<Rightarrow>
   ('a policy_db_scheme, unit) action" where
  "activate_policy_approval V now fp t c fixture_id =
     bind (lift_res (require (fixture_id = API_503_POLICY_FIXTURE_ID)
       (WorkflowError ''policy_fixture_not_allowlisted''))) (\<lambda>_.
     bind (query (activation_for_tenant_case t c)) (\<lambda>activation.
     case activation of
       None \<Rightarrow> throw (WorkflowNotFound ''workflow_not_found'')
     | Some a \<Rightarrow>
         bind (bind (query (latest_checkpoint t (ac_workflow a))) lift_res) (\<lambda>latest.
         case latest of
           None \<Rightarrow> throw (WorkflowError ''workflow_journal_invalid'')
         | Some k \<Rightarrow>
             bind (ensure_policy_approval_activation now a k) (\<lambda>_.
             recover_policy_approval V now fp a))))"

section \<open>Submitting an approval\<close>

text \<open>A decision for a request that is still open, of an approver in the fixture role.\<close>

definition submit_new_approval ::
  "validators \<Rightarrow> instant \<Rightarrow> fault_profile option \<Rightarrow> activation_row \<Rightarrow> checkpoint \<Rightarrow> obj \<Rightarrow> string \<Rightarrow>
   int \<Rightarrow> string \<Rightarrow> string \<Rightarrow> ('a policy_db_scheme, string) action" where
  "submit_new_approval V now fp a k request decision expected who role =
     bind (lift_res (require (cp_version (ck_row k) = expected)
       (WorkflowError ''workflow_version_conflict''))) (\<lambda>_.
     bind (lift_res (require (cp_state (ck_row k) = AWAITING_APPROVAL)
       (WorkflowError ''approval_decision_not_available''))) (\<lambda>_.
     bind (lift_res (build_approval_decision V request who role decision now)) (\<lambda>d.
     bind (persist_approval_decision a request d) (\<lambda>(persisted, created).
     bind (if created then interrupt fp ''approval-decision'' else ret ()) (\<lambda>_.
     bind (apply_persisted_approval_decision V now fp a k request persisted) (\<lambda>_.
     ret (if created then ''accepted'' else ''deduplicated'')))))))"

definition resubmit_approval ::
  "validators \<Rightarrow> instant \<Rightarrow> fault_profile option \<Rightarrow> activation_row \<Rightarrow> checkpoint \<Rightarrow> obj \<Rightarrow> obj \<Rightarrow>
   string \<Rightarrow> string \<Rightarrow> string \<Rightarrow> ('a policy_db_scheme, string) action" where
  "resubmit_approval V now fp a k request existing decision who role =
     bind (lift_res (require (obj_get existing ''decision'' = JStr decision \<and>
         obj_get existing ''approver_id'' = JStr who \<and> obj_get existing ''approver_role'' = JStr role)
       (WorkflowError ''approval_decision_conflict''))) (\<lambda>_.
     bind (apply_persisted_approval_decision V now fp a k request existing) (\<lambda>_.
     ret ''deduplicated''))"

definition submit_approval_decision ::
  "validators \<Rightarrow> instant \<Rightarrow> fault_profile option \<Rightarrow> string \<Rightarrow> string \<Rightarrow> string \<Rightarrow> string \<Rightarrow> int \<Rightarrow>
   string \<Rightarrow> string \<Rightarrow> ('a policy_db_scheme, string) action" where
  "submit_approval_decision V now fp t c request_id decision expected who role =
     bind (lift_res (require (decision \<in> {''approved'', ''rejected''})
       (WorkflowError ''approval_decision_invalid''))) (\<lambda>_.
     bind (lift_res (require (role = FIXTURE_APPROVER_ROLE)
       (WorkflowError ''approval_actor_not_authorized''))) (\<lambda>_.
     bind (query (activation_for_tenant_case t c)) (\<lambda>activation.
     case activation of
       None \<Rightarrow> throw (WorkflowNotFound ''workflow_not_found'')
     | Some a \<Rightarrow>
         bind (bind (query (approval_request_for_workflow t (ac_workflow a))) lift_res) (\<lambda>request.
         case request of
           None \<Rightarrow> throw (WorkflowNotFound ''workflow_not_found'')
         | Some r \<Rightarrow>
             bind (lift_res (require (obj_get r ''approval_request_id'' = JStr request_id)
               (WorkflowNotFound ''workflow_not_found''))) (\<lambda>_.
             bind (bind (query (latest_checkpoint t (ac_workflow a))) lift_res) (\<lambda>latest.
             case latest of
               None \<Rightarrow> throw (WorkflowError ''workflow_journal_invalid'')
             | Some k \<Rightarrow>
                 bind (bind (query (approval_decision_for_request t request_id)) lift_res) (\<lambda>existing.
                 case existing of
                   Some p \<Rightarrow> resubmit_approval V now fp a k r p decision who role
                 | None \<Rightarrow> submit_new_approval V now fp a k r decision expected who role)))))))"

end
