(* ===== verification/Investigation.thy ===== *)
theory Investigation
  imports InvestigationStore DeliveryEngine
begin

text \<open>
  \<open>durable_workflow.py\<close>, the investigation: a context manifest opens it, agent actions and tool
  exchanges are recorded once each, a response candidate is recorded and verified by the kernel, and
  a verified candidate moves the workflow to \<open>RESPONSE_READY\<close>.
\<close>

section \<open>The open investigation of a Case\<close>

definition require_investigation ::
  "validators \<Rightarrow> string \<Rightarrow> string \<Rightarrow>
   ('a policy_db_scheme, activation_row \<times> investigation_row \<times> obj) action" where
  "require_investigation V t c =
     bind (query (activation_for_tenant_case t c)) (\<lambda>activation.
     case activation of
       None \<Rightarrow> throw (WorkflowNotFound ''workflow_not_found'')
     | Some a \<Rightarrow>
         bind (bind (query (investigation_activation t (ac_workflow a))) lift_res) (\<lambda>investigation.
         case investigation of
           None \<Rightarrow> throw (WorkflowError ''investigation_not_found'')
         | Some iv \<Rightarrow>
             bind (get_workflow_projection V t (ac_workflow a)) (\<lambda>projection.
             case projection of
               None \<Rightarrow> throw (WorkflowNotFound ''workflow_not_found'')
             | Some p \<Rightarrow> ret (a, iv, p))))"

text \<open>\<open>_require_manifest_link\<close>\<close>

definition link_reason :: "string \<Rightarrow> string \<Rightarrow> string" where
  "link_reason name field = name @ ''_'' @
     (if field = ''tenant_id'' then ''tenant_identity_mismatch'' else ''causation_mismatch'')"

definition require_manifest_link :: "obj \<Rightarrow> obj \<Rightarrow> string \<Rightarrow> exn + unit" where
  "require_manifest_link payload manifest name =
     each_res (\<lambda>field. require (obj_get payload field = obj_get manifest field)
         (WorkflowError (link_reason name field)))
       [''tenant_id'', ''case_id'', ''case_revision_id'', ''workflow_id'', ''checkpoint_id'',
        ''context_manifest_id'']"

text \<open>\<open>stored[k] == payload[k]\<close> for every key, up to the first that differs.\<close>

fun same_items :: "(string \<times> string) list \<Rightarrow> obj \<Rightarrow> exn + bool" where
  "same_items [] p = Inr True"
| "same_items ((k, v) # kvs) p =
     bind_res (obj_item p k) (\<lambda>x. if x = JStr v then same_items kvs p else Inr False)"

definition require_same :: "(string \<times> string) list \<Rightarrow> obj \<Rightarrow> string \<Rightarrow> exn + unit" where
  "require_same kvs p reason = bind_res (same_items kvs p) (\<lambda>same. require same (WorkflowError reason))"

definition investigating :: "obj \<Rightarrow> exn + unit" where
  "investigating projection = require (obj_get projection ''state'' = JStr INVESTIGATING)
     (WorkflowError ''investigation_state_not_allowlisted'')"

section \<open>Opening\<close>

definition manifest_identity :: "activation_row \<Rightarrow> (string \<times> string) list" where
  "manifest_identity a = [(''tenant_id'', ac_tenant a), (''case_id'', ac_case a),
     (''case_revision_id'', ac_revision a), (''workflow_id'', ac_workflow a)]"

definition check_manifest_identity :: "activation_row \<Rightarrow> obj \<Rightarrow> exn + unit" where
  "check_manifest_identity a m =
     each_res (\<lambda>(field, value).
       bind_res (obj_item m field) (\<lambda>v.
       require (v = JStr value) (WorkflowError
         (if field = ''tenant_id'' then ''tenant_identity_mismatch'' else ''causation_mismatch''))))
       (manifest_identity a)"

definition start_move :: "investigation_row \<Rightarrow> move" where
  "start_move iv =
     \<lparr>mv_kind = INVESTIGATION_STARTED, mv_next = INVESTIGATING, mv_resume = INVESTIGATING,
      mv_causation = Some (''investigation:'' @ iv_id iv), mv_pending = None, mv_completed = None\<rparr>"

text \<open>The new activation of the manifest at the latest checkpoint.\<close>

definition open_investigation ::
  "activation_row \<Rightarrow> obj \<Rightarrow> string \<Rightarrow> ('a policy_db_scheme, investigation_row) action" where
  "open_investigation a m transcript =
     (let t = ac_tenant a; w = ac_workflow a in
     bind (bind (query (latest_checkpoint t w)) lift_res) (\<lambda>latest.
     case latest of
       None \<Rightarrow> throw (WorkflowError ''investigation_predecessor_invalid'')
     | Some k \<Rightarrow>
         bind (lift_res (require (cp_state (ck_row k) = TICKET_READY)
           (WorkflowError ''investigation_predecessor_invalid''))) (\<lambda>_.
         bind (lift_res (obj_item m ''checkpoint_id'')) (\<lambda>checkpoint.
         bind (lift_res (require (checkpoint = JStr (cp_id (ck_row k)))
           (WorkflowError ''investigation_checkpoint_mismatch''))) (\<lambda>_.
         bind (engine_tx ''investigation_activation_failed''
           (bind (lift_res (investigation_row_of t w transcript m)) insert_investigation)) (\<lambda>_.
         bind (bind (query (investigation_activation t w)) lift_res) (\<lambda>opened.
         case opened of
           None \<Rightarrow> throw (WorkflowError ''investigation_journal_invalid'')
         | Some iv \<Rightarrow> ret iv))))))) "

definition same_investigation :: "investigation_row \<Rightarrow> obj \<Rightarrow> string \<Rightarrow> exn + bool" where
  "same_investigation iv m transcript =
     bind_res (same_items [(''context_manifest_id'', iv_manifest iv),
       (''context_sha256'', iv_context_sha256 iv)] m) (\<lambda>same. Inr (same \<and> transcript = iv_transcript iv))"

definition begin_investigation ::
  "validators \<Rightarrow> instant \<Rightarrow> fault_profile option \<Rightarrow> string \<Rightarrow> string \<Rightarrow> obj \<Rightarrow> string \<Rightarrow>
   ('a policy_db_scheme, obj) action" where
  "begin_investigation V now fp t c m transcript =
     bind (lift_res (require (transcript \<noteq> []) (WorkflowError ''investigation_transcript_invalid''))) (\<lambda>_.
     bind (lift_res (contract_as ''context_manifest_invalid'' (validate_context_manifest V m))) (\<lambda>_.
     bind (query (activation_for_tenant_case t c)) (\<lambda>activation.
     case activation of
       None \<Rightarrow> throw (WorkflowNotFound ''workflow_not_found'')
     | Some a \<Rightarrow>
         bind (lift_res (check_manifest_identity a m)) (\<lambda>_.
         bind (bind (query (investigation_activation t (ac_workflow a))) lift_res) (\<lambda>existing.
         bind (case existing of
             Some iv \<Rightarrow>
               bind (lift_res (same_investigation iv m transcript)) (\<lambda>same.
               bind (lift_res (require same (WorkflowError ''investigation_activation_conflict'')))
                 (\<lambda>_. ret iv))
           | None \<Rightarrow> open_investigation a m transcript) (\<lambda>iv.
         bind (get_workflow_projection V t (ac_workflow a)) (\<lambda>projection.
         case projection of
           None \<Rightarrow> throw (WorkflowNotFound ''workflow_not_found'')
         | Some p \<Rightarrow>
             bind (if obj_get p ''state'' = JStr TICKET_READY then
                 bind (bind (query (latest_checkpoint t (ac_workflow a))) lift_res) (\<lambda>latest.
                 case latest of
                   None \<Rightarrow> throw (WorkflowError ''investigation_journal_invalid'')
                 | Some k \<Rightarrow> bind (workflow_transition V now fp a k (start_move iv)) (\<lambda>_. ret ()))
               else lift_res (require (obj_get p ''state'' \<in> {JStr INVESTIGATING, JStr RESPONSE_READY})
                 (WorkflowError ''investigation_state_not_allowlisted''))) (\<lambda>_.
             lift_res (manifest_payload iv))))))))) "

section \<open>Agent actions\<close>

definition existing_agent_step ::
  "string \<Rightarrow> string \<Rightarrow> string \<Rightarrow> 'a policy_db_scheme \<Rightarrow> agent_step_row option" where
  "existing_agent_step t w step s =
     first_row (filter (\<lambda>r. as_tenant r = t \<and> as_workflow r = w \<and> as_step r = step) (agent_steps s))"

definition agent_step_items :: "agent_step_row \<Rightarrow> (string \<times> string) list" where
  "agent_step_items r = [(''action_type'', as_action r), (''action_sha256'', as_sha256 r),
     (''context_manifest_id'', as_manifest r)]"

definition persist_agent_step :: "string \<Rightarrow> string \<Rightarrow> obj \<Rightarrow> ('a policy_db_scheme, unit) action" where
  "persist_agent_step t w p =
     engine_tx ''agent_step_persist_failed''
       (bind (lift_res (agent_step_row_of t w p)) insert_agent_step)"

definition record_agent_action ::
  "validators \<Rightarrow> fault_profile option \<Rightarrow> string \<Rightarrow> string \<Rightarrow> obj \<Rightarrow> ('a policy_db_scheme, obj) action"
where
  "record_agent_action V fp t c p =
     bind (require_investigation V t c) (\<lambda>(a, iv, projection).
     bind (lift_res (manifest_payload iv)) (\<lambda>manifest.
     bind (lift_res (contract_as ''agent_action_invalid'' (validate_agent_action V p (Some manifest)))) (\<lambda>_.
     bind (lift_res (require_manifest_link p manifest ''agent_action'')) (\<lambda>_.
     bind (lift_res (obj_item p ''step_id'')) (\<lambda>step.
     bind (query (existing_agent_step t (ac_workflow a) (py_str step))) (\<lambda>existing.
     case existing of
       Some r \<Rightarrow>
         bind (lift_res (require_same (agent_step_items r) p ''agent_step_conflict'')) (\<lambda>_. ret p)
     | None \<Rightarrow>
         bind (lift_res (investigating projection)) (\<lambda>_.
         bind (persist_agent_step t (ac_workflow a) p) (\<lambda>_.
         bind (interrupt fp ''agent-action'') (\<lambda>_. ret p)))))))))"

section \<open>Tool exchanges\<close>

definition existing_tool_result ::
  "string \<Rightarrow> string \<Rightarrow> 'a policy_db_scheme \<Rightarrow> tool_result_row option" where
  "existing_tool_result t i s =
     first_row (filter (\<lambda>r. tr_tenant r = t \<and> tr_request r = i) (tool_results s))"

definition tool_result_items :: "tool_result_row \<Rightarrow> (string \<times> string) list" where
  "tool_result_items r = [(''content_sha256'', tr_sha256 r), (''evidence_id'', tr_evidence r),
     (''context_manifest_id'', tr_manifest r)]"

definition tool_request_items :: "tool_request_row \<Rightarrow> (string \<times> string) list" where
  "tool_request_items r = [(''request_sha256'', tq_sha256 r), (''tool_name'', tq_tool r),
     (''context_manifest_id'', tq_manifest r)]"

text \<open>The action the request answers, and the count of requests before the transaction.\<close>

definition requested_action :: "string \<Rightarrow> string \<Rightarrow> obj \<Rightarrow> 'a policy_db_scheme \<Rightarrow> exn + unit" where
  "requested_action t w q s =
     bind_res (obj_item q ''step_id'') (\<lambda>step.
     bind_res (obj_item q ''tool_name'') (\<lambda>tool.
     require (case existing_agent_step t w (py_str step) s of
         None \<Rightarrow> False | Some r \<Rightarrow> as_action r = ''read_'' @ py_str tool)
       (WorkflowError ''tool_request_action_mismatch'')))"

definition tool_count :: "string \<Rightarrow> string \<Rightarrow> 'a policy_db_scheme \<Rightarrow> int" where
  "tool_count t w s = int (length (filter (\<lambda>r. tq_tenant r = t \<and> tq_workflow r = w) (tool_requests s)))"

definition tool_budget_left :: "string \<Rightarrow> string \<Rightarrow> investigation_row \<Rightarrow> 'a policy_db_scheme \<Rightarrow> exn + unit" where
  "tool_budget_left t w iv s = require (tool_count t w s < iv_tool_budget iv)
     (WorkflowError ''investigation_tool_budget_exceeded'')"

definition persist_tool_exchange ::
  "string \<Rightarrow> string \<Rightarrow> obj \<Rightarrow> obj \<Rightarrow> ('a policy_db_scheme, unit) action" where
  "persist_tool_exchange t w q r =
     engine_tx ''tool_result_persist_failed''
       (bind (lift_res (text_col q ''tool_request_id'')) (\<lambda>i.
        bind (query (\<lambda>s. first_row (filter (\<lambda>x. tq_tenant x = t \<and> tq_id x = i) (tool_requests s))))
          (\<lambda>existing.
        bind (case existing of
            None \<Rightarrow> bind (lift_res (tool_request_row_of t w q)) insert_tool_request
          | Some x \<Rightarrow> lift_res (require_same (tool_request_items x) q ''tool_request_conflict'')) (\<lambda>_.
        bind (lift_res (tool_result_row_of t w r)) insert_tool_result))))"

definition record_tool_exchange ::
  "validators \<Rightarrow> fault_profile option \<Rightarrow> string \<Rightarrow> string \<Rightarrow> obj \<Rightarrow> obj \<Rightarrow>
   ('a policy_db_scheme, obj \<times> obj) action" where
  "record_tool_exchange V fp t c q r =
     bind (require_investigation V t c) (\<lambda>(a, iv, projection).
     bind (lift_res (manifest_payload iv)) (\<lambda>manifest.
     bind (lift_res (contract_as ''investigation_tool_contract_invalid''
       (bind_res (validate_tool_request V q (Some manifest)) (\<lambda>_. validate_tool_result V r (Some q))))) (\<lambda>_.
     bind (lift_res (require_manifest_link q manifest ''tool_request'')) (\<lambda>_.
     bind (lift_res (require_manifest_link r manifest ''tool_result'')) (\<lambda>_.
     bind (lift_res (obj_item q ''tool_request_id'')) (\<lambda>i.
     bind (query (existing_tool_result t (py_str i))) (\<lambda>existing.
     case existing of
       Some x \<Rightarrow>
         bind (lift_res (require_same (tool_result_items x) r ''tool_result_conflict''))
           (\<lambda>_. ret (q, r))
     | None \<Rightarrow>
         bind (lift_res (investigating projection)) (\<lambda>_.
         bind (bind (query (requested_action t (ac_workflow a) q)) lift_res) (\<lambda>_.
         bind (bind (query (tool_budget_left t (ac_workflow a) iv)) lift_res) (\<lambda>_.
         bind (persist_tool_exchange t (ac_workflow a) q r) (\<lambda>_.
         bind (interrupt fp ''tool-result'') (\<lambda>_. ret (q, r)))))))))))))"

section \<open>Response candidates\<close>

definition response_actions :: "string \<Rightarrow> string \<Rightarrow> 'a policy_db_scheme \<Rightarrow> agent_step_row list" where
  "response_actions t w s = filter (\<lambda>r. as_tenant r = t \<and> as_workflow r = w \<and>
     as_action r = ''response_candidate'') (agent_steps s)"

text \<open>\<open>Inl\<close> is the candidate that was already there, \<open>Inr\<close> says this call stored it.\<close>

definition persist_candidate ::
  "activation_row \<Rightarrow> string \<Rightarrow> obj \<Rightarrow> obj \<Rightarrow> ('a policy_db_scheme, obj + unit) action" where
  "persist_candidate a t projection p =
     engine_tx ''response_candidate_persist_failed''
       (bind (lift_res (text_col p ''candidate_id'')) (\<lambda>i.
        bind (query (\<lambda>s. first_row (filter (\<lambda>r. ca_tenant r = t \<and> ca_id r = i) (candidates s))))
          (\<lambda>existing.
        case existing of
          Some r \<Rightarrow>
            bind (lift_res (candidate_payload a r)) (\<lambda>stored.
            bind (lift_res (require_same [(''candidate_sha256'', ca_sha256 r)] p
              ''response_candidate_conflict'')) (\<lambda>_. ret (Inl stored)))
        | None \<Rightarrow>
            bind (lift_res (investigating projection)) (\<lambda>_.
            bind (query (response_actions t (ac_workflow a))) (\<lambda>actions.
            bind (lift_res (require (length actions = 1)
              (WorkflowError ''response_candidate_action_missing''))) (\<lambda>_.
            bind (lift_res (candidate_row_of t (ac_workflow a) p)) (\<lambda>r.
            bind (insert_candidate r) (\<lambda>_. ret (Inr ())))))))))"

definition record_response_candidate ::
  "validators \<Rightarrow> fault_profile option \<Rightarrow> string \<Rightarrow> string \<Rightarrow> obj \<Rightarrow> ('a policy_db_scheme, obj) action"
where
  "record_response_candidate V fp t c p =
     bind (require_investigation V t c) (\<lambda>(a, iv, projection).
     bind (lift_res (manifest_payload iv)) (\<lambda>manifest.
     bind (lift_res (contract_as ''response_candidate_invalid''
       (validate_response_candidate V p (Some manifest) None))) (\<lambda>_.
     bind (lift_res (require_manifest_link p manifest ''response_candidate'')) (\<lambda>_.
     bind (persist_candidate a t projection p) (\<lambda>stored.
     case stored of
       Inl q \<Rightarrow> ret q
     | Inr _ \<Rightarrow> bind (interrupt fp ''candidate'') (\<lambda>_. ret p))))))"

section \<open>The verifier\<close>

definition steps_of :: "string \<Rightarrow> string \<Rightarrow> 'a policy_db_scheme \<Rightarrow> agent_step_row list" where
  "steps_of t w s = filter (\<lambda>r. as_tenant r = t \<and> as_workflow r = w) (agent_steps s)"

definition results_of :: "string \<Rightarrow> string \<Rightarrow> 'a policy_db_scheme \<Rightarrow> tool_result_row list" where
  "results_of t w s = filter (\<lambda>r. tr_tenant r = t \<and> tr_workflow r = w) (tool_results s)"

definition deterministic_verifier_reason ::
  "investigation_row \<Rightarrow> candidate_row \<Rightarrow> agent_step_row list \<Rightarrow> tool_result_row list \<Rightarrow> string \<times> string"
where
  "deterministic_verifier_reason iv c steps results =
     (if int (length steps) > iv_action_budget iv then (''rejected'', ''action_budget_exceeded'')
      else if int (length results) > iv_tool_budget iv then (''rejected'', ''tool_budget_exceeded'')
      else if steps = [] \<or> as_action (last steps) \<noteq> ''response_candidate'' then
        (''rejected'', ''response_candidate_action_missing'')
      else if list_ex (\<lambda>r. tr_manifest r \<noteq> iv_manifest iv) results then
        (''rejected'', ''evidence_context_mismatch'')
      else if list_ex (\<lambda>r. tr_redaction r \<noteq> ''synthetic'') results then
        (''rejected'', ''evidence_redaction_invalid'')
      else if map tr_tool results \<noteq> TOOL_NAMES then (''rejected'', ''required_evidence_missing'')
      else if ca_evidence c \<noteq> Some (map tr_sha256 results) then
        (''rejected'', ''evidence_reference_mismatch'')
      else if ca_context c \<noteq> iv_context_sha256 iv then (''rejected'', ''context_hash_mismatch'')
      else (''verified'', ''evidence_complete''))"

definition new_outcome ::
  "instant \<Rightarrow> activation_row \<Rightarrow> string \<Rightarrow> candidate_row \<Rightarrow> string \<times> string \<Rightarrow> outcome_row" where
  "new_outcome now a t c verdict =
     \<lparr>vo_tenant = t,
      vo_id = stable_identifier ''verifier_outcome'' (JObj
        [(''workflow_id'', JStr (ac_workflow a)), (''candidate_id'', JStr (ca_id c)),
         (''candidate_sha256'', JStr (ca_sha256 c)), (''outcome'', JStr (fst verdict))]),
      vo_workflow = ac_workflow a, vo_checkpoint = ca_checkpoint c, vo_manifest = ca_manifest c,
      vo_candidate = ca_id c, vo_sha256 = ca_sha256 c, vo_outcome = fst verdict,
      vo_reason = snd verdict, vo_recorded_at = timestamp now\<rparr>"

definition verified_move :: "string \<Rightarrow> move" where
  "verified_move outcome_id =
     \<lparr>mv_kind = RESPONSE_CANDIDATE_VERIFIED, mv_next = RESPONSE_READY, mv_resume = RESPONSE_READY,
      mv_causation = Some (''verifier:'' @ outcome_id), mv_pending = None, mv_completed = None\<rparr>"

text \<open>\<open>_advance_verified_candidate\<close> up to its last statement, the read of the projection.\<close>

definition advance_verified_candidate ::
  "validators \<Rightarrow> instant \<Rightarrow> fault_profile option \<Rightarrow> activation_row \<Rightarrow> outcome_row \<Rightarrow>
   ('a policy_db_scheme, unit) action" where
  "advance_verified_candidate V now fp a v =
     (if vo_outcome v \<noteq> ''verified'' then ret ()
      else
        bind (bind (query (latest_checkpoint (ac_tenant a) (ac_workflow a))) lift_res) (\<lambda>latest.
        case latest of
          None \<Rightarrow> throw (WorkflowError ''investigation_journal_invalid'')
        | Some k \<Rightarrow>
            if cp_state (ck_row k) = RESPONSE_READY then ret ()
            else
              bind (lift_res (require (cp_state (ck_row k) = INVESTIGATING)
                (WorkflowError ''investigation_state_not_allowlisted''))) (\<lambda>_.
              bind (workflow_transition V now fp a k (verified_move (vo_id v))) (\<lambda>_. ret ()))))"

definition finish_verification ::
  "validators \<Rightarrow> instant \<Rightarrow> fault_profile option \<Rightarrow> activation_row \<Rightarrow> outcome_row \<Rightarrow>
   ('a policy_db_scheme, obj) action" where
  "finish_verification V now fp a v =
     bind (advance_verified_candidate V now fp a v) (\<lambda>_.
     bind (get_workflow_projection V (ac_tenant a) (ac_workflow a)) (\<lambda>_.
     ret (verifier_outcome_payload a v)))"

definition persist_outcome :: "outcome_row \<Rightarrow> ('a policy_db_scheme, unit) action" where
  "persist_outcome v = engine_tx ''verifier_outcome_persist_failed'' (insert_outcome v)"

definition decide_candidate ::
  "validators \<Rightarrow> instant \<Rightarrow> activation_row \<Rightarrow> string \<Rightarrow> investigation_row \<Rightarrow> candidate_row \<Rightarrow> obj \<Rightarrow>
   ('a policy_db_scheme, outcome_row) action" where
  "decide_candidate V now a t iv c payload =
     bind (query (steps_of t (ac_workflow a))) (\<lambda>steps.
     bind (query (results_of t (ac_workflow a))) (\<lambda>results.
     let v = new_outcome now a t c (deterministic_verifier_reason iv c steps results) in
     bind (lift_res (contract_as ''verifier_outcome_invalid''
       (validate_verifier_outcome V (verifier_outcome_payload a v) (Some payload)))) (\<lambda>_.
     bind (persist_outcome v) (\<lambda>_. ret v))))"

definition verify_response_candidate ::
  "validators \<Rightarrow> instant \<Rightarrow> fault_profile option \<Rightarrow> string \<Rightarrow> string \<Rightarrow> string \<Rightarrow>
   ('a policy_db_scheme, obj) action" where
  "verify_response_candidate V now fp t c candidate_id =
     bind (require_investigation V t c) (\<lambda>(a, iv, _).
     bind (query (\<lambda>s. first_row (filter (\<lambda>r. ca_tenant r = t \<and> ca_workflow r = ac_workflow a \<and>
       ca_id r = candidate_id) (candidates s)))) (\<lambda>row.
     case row of
       None \<Rightarrow> throw (WorkflowError ''response_candidate_not_found'')
     | Some r \<Rightarrow>
         bind (lift_res (candidate_payload a r)) (\<lambda>payload.
         bind (query (\<lambda>s. first_row (filter (\<lambda>v. vo_tenant v = t \<and> vo_candidate v = candidate_id)
           (outcomes s)))) (\<lambda>existing.
         bind (lift_res (manifest_payload iv)) (\<lambda>manifest.
         bind (lift_res (contract_as ''response_candidate_invalid''
           (validate_response_candidate V payload (Some manifest) None))) (\<lambda>_.
         case existing of
           Some v \<Rightarrow> finish_verification V now fp a v
         | None \<Rightarrow>
             bind (decide_candidate V now a t iv r payload) (\<lambda>v.
             bind (interrupt fp ''verifier'') (\<lambda>_. finish_verification V now fp a v))))))))"

section \<open>Recovery\<close>

definition verified_outcome ::
  "string \<Rightarrow> string \<Rightarrow> 'a policy_db_scheme \<Rightarrow> outcome_row option" where
  "verified_outcome t w s = last_row (filter (\<lambda>r. vo_tenant r = t \<and> vo_workflow r = w \<and>
     vo_outcome r = ''verified'') (outcomes s))"

text \<open>\<open>_recover_investigation\<close> up to the read of the projection every branch ends with.\<close>

definition recover_investigation ::
  "validators \<Rightarrow> instant \<Rightarrow> fault_profile option \<Rightarrow> activation_row \<Rightarrow> checkpoint \<Rightarrow>
   ('a policy_db_scheme, unit) action" where
  "recover_investigation V now fp a k =
     (let t = ac_tenant a; w = ac_workflow a in
     bind (bind (query (investigation_activation t w)) lift_res) (\<lambda>investigation.
     case investigation of
       None \<Rightarrow> ret ()
     | Some iv \<Rightarrow>
         bind (if cp_state (ck_row k) = TICKET_READY then
             bind (workflow_transition V now fp a k (start_move iv)) (\<lambda>_.
             bind (bind (query (latest_checkpoint t w)) lift_res) (\<lambda>latest.
             case latest of
               None \<Rightarrow> throw (WorkflowError ''investigation_journal_invalid'')
             | Some k' \<Rightarrow> ret (cp_state (ck_row k'))))
           else ret (cp_state (ck_row k))) (\<lambda>state.
         if state \<noteq> INVESTIGATING then ret ()
         else
           bind (query (verified_outcome t w)) (\<lambda>verified.
           case verified of
             None \<Rightarrow> ret ()
           | Some v \<Rightarrow> advance_verified_candidate V now fp a v))))"

end
