(* ===== verification/PolicyGrowth.thy ===== *)
theory PolicyGrowth
  imports DeliveryEngine JournalGrowth
begin

text \<open>
  The Change 4 operations keep every relation of the store that their single INSERT statements
  keep.  \<open>policy_order\<close> covers the operations that do not write the delivery intents and the
  provider's tables, \<open>delivery_order\<close> all of them.  The first instance is growth: the policy and
  delivery journals are append-only, too.
\<close>

locale policy_order = journal_order R
  for R :: "'a policy_db_scheme \<Rightarrow> 'a policy_db_scheme \<Rightarrow> bool" +
  assumes policy_inserts [intro]:
    "keeps R (insert_policy_activation p)" "keeps R (insert_grant g)" "keeps R (insert_grant_status e)"
    "keeps R (insert_policy_decision d)" "keeps R (insert_binding b)"
    "keeps R (insert_approval_request r)" "keeps R (insert_approval v)"
    "keeps R (insert_delivery_observation w)" "keeps R (insert_delivery_completion c)"
begin

lemma keeps_ensure_policy [intro]:
  "keeps R (ensure_policy_approval_activation now a k)" "keeps R (ensure_fixture_grant V now a p)"
  "keeps R (ensure_policy_decision V now a p g)" "keeps R (ensure_authorization_binding V now a p g d)"
  "keeps R (ensure_approval_request V now a b)" "keeps R (persist_approval_decision a q d)"
  unfolding ensure_policy_approval_activation_def ensure_fixture_grant_def ensure_policy_decision_def
    ensure_authorization_binding_def ensure_approval_request_def persist_approval_decision_def Let_def
  by (intro keeps_engine_tx keeps_bind keeps_option keeps_if keeps_prod; auto)+

lemma keeps_revoke [intro]: "keeps R (revoke_fixture_grant now t c)"
  unfolding revoke_fixture_grant_def exec_if_def
  by (intro keeps_engine_tx keeps_bind keeps_option keeps_if; auto)

lemma keeps_delivery_records [intro]:
  "keeps R (record_delivery_observation V now i phase out)"
  "keeps R (record_delivery_completion V now i ob)"
proof -
  show "keeps R (record_delivery_observation V now i phase out)"
    unfolding record_delivery_observation_def
    by (intro keeps_engine_tx keeps_bind keeps_option; auto)
  have "keeps R (persist_delivery_completion p)" for p
    unfolding persist_delivery_completion_def by (intro keeps_engine_tx keeps_bind keeps_option; auto)
  moreover have "keeps R (check_delivery_chain V i p)" for p
    unfolding check_delivery_chain_def by (intro keeps_bind keeps_option; auto)
  ultimately show "keeps R (record_delivery_completion V now i ob)"
    unfolding record_delivery_completion_def
    by (intro keeps_bind) (auto split: sum.split)
qed

lemma keeps_complete_delivery [intro]: "keeps R (complete_delivery V now fp i ob)"
  unfolding complete_delivery_def by (intro keeps_bind; auto)

lemma keeps_delivery_steps [intro]:
  "keeps R (authorization_denial V now fp a k reason)" "keeps R (delivery_checkpoint V now a c)"
  "keeps R (delivery_reconciliation V now fp a k c)" "keeps R (deny_approval V now fp a k tag d)"
  unfolding authorization_denial_def delivery_checkpoint_def delivery_reconciliation_def
    deny_approval_def
  by (intro keeps_bind keeps_if; auto)+

lemma keeps_finish [intro]: "keeps R (finish_delivery V now fp a c)"
  unfolding finish_delivery_def Let_def by (intro keeps_bind; auto)

end

text \<open>
  What the two steps that deliver keep, the entry points keep: the delivery behind the
  authorization checks, and the stored intent processed again.
\<close>

locale delivery_engine = policy_order R
  for R :: "'a policy_db_scheme \<Rightarrow> 'a policy_db_scheme \<Rightarrow> bool" +
  assumes delivers [intro]:
    "keeps R (deliver V now fp a k b)" "keeps R (process_stored_delivery V now fp a)"
begin

lemma keeps_recover_delivery [intro]: "keeps R (recover_delivery V now fp a k)"
  unfolding recover_delivery_def Let_def
  by (intro keeps_bind keeps_if keeps_prod keeps_option; auto)

lemma keeps_recover_delivery_reconciliation [intro]:
  "keeps R (recover_delivery_reconciliation V now fp a k)"
  unfolding recover_delivery_reconciliation_def by (intro keeps_bind keeps_option; auto)

lemma keeps_apply_approval [intro]:
  "keeps R (apply_persisted_approval_decision V now fp a k q d)"
  unfolding apply_persisted_approval_decision_def Let_def
  by (intro keeps_bind keeps_if keeps_prod keeps_option; auto)

lemma keeps_recover_policy [intro]: "keeps R (recover_policy_approval V now fp a)"
proof -
  have c: "keeps R (continue_approval V now fp a k q)" for k q
    unfolding continue_approval_def by (intro keeps_bind keeps_if keeps_option; auto)
  have "keeps R (request_approval V now fp a q)" for q
    unfolding request_approval_def by (intro keeps_bind keeps_if keeps_option c; auto)
  then show ?thesis
    unfolding recover_policy_approval_def by (intro keeps_bind keeps_if keeps_option; auto)
qed

lemma keeps_activate_policy [intro]: "keeps R (activate_policy_approval V now fp t c f)"
  unfolding activate_policy_approval_def by (intro keeps_bind keeps_option; auto)

lemma keeps_submit_approval [intro]: "keeps R (submit_approval_decision V now fp t c r d n who role)"
proof -
  have "keeps R (submit_new_approval V now fp a k q d n who role)"
    "keeps R (resubmit_approval V now fp a k q p d who role)" for a k q p
    unfolding submit_new_approval_def resubmit_approval_def
    by (intro keeps_bind keeps_prod keeps_if; auto)+
  then show ?thesis
    unfolding submit_approval_decision_def by (intro keeps_bind keeps_option; auto)
qed

end

text \<open>In particular, what every INSERT keeps.\<close>

locale delivery_order = policy_order R
  for R :: "'a policy_db_scheme \<Rightarrow> 'a policy_db_scheme \<Rightarrow> bool" +
  assumes delivery_inserts [intro]:
    "keeps R (insert_delivery_intent i)" "keeps R (insert_delivery_record r)"
    "keeps R (insert_delivery_operation q)"
begin

lemma keeps_ensure_delivery [intro]: "keeps R (ensure_delivery_intent V now a k b)"
  unfolding ensure_delivery_intent_def
  by (intro keeps_engine_tx keeps_bind keeps_option; auto)

lemma keeps_execute_delivery [intro]: "keeps R (execute_delivery_intent now i)"
  unfolding execute_delivery_intent_def record_delivery_def Let_def
  by (intro keeps_engine_tx keeps_bind keeps_option; auto)

lemma keeps_process_delivery [intro]: "keeps R (process_delivery_intent V now fp i)"
proof -
  have "keeps R (deliver_and_complete V now fp i)"
    unfolding deliver_and_complete_def by (intro keeps_bind keeps_if; auto)
  then show ?thesis
    unfolding process_delivery_intent_def by (intro keeps_bind keeps_option keeps_if; auto)
qed

lemma keeps_delivers:
  "keeps R (deliver V now fp a k b)" "keeps R (process_stored_delivery V now fp a)"
  unfolding deliver_def process_stored_delivery_def
  by (intro keeps_bind keeps_prod keeps_if keeps_option; auto)+

end

sublocale delivery_order \<subseteq> delivery_engine R
  by unfold_locales (fact keeps_delivers)+

section \<open>The policy journal is append-only\<close>

definition policy_le :: "'a policy_db_scheme \<Rightarrow> 'a policy_db_scheme \<Rightarrow> bool" where
  "policy_le s s' \<longleftrightarrow> journal_le s s' \<and>
     prefix (investigations s) (investigations s') \<and> prefix (agent_steps s) (agent_steps s') \<and>
     prefix (tool_requests s) (tool_requests s') \<and> prefix (tool_results s) (tool_results s') \<and>
     prefix (candidates s) (candidates s') \<and> prefix (outcomes s) (outcomes s') \<and>
     prefix (policy_activations s) (policy_activations s') \<and> prefix (grants s) (grants s') \<and>
     prefix (grant_status_events s) (grant_status_events s') \<and>
     prefix (policy_decisions s) (policy_decisions s') \<and> prefix (bindings s) (bindings s') \<and>
     prefix (approval_requests s) (approval_requests s') \<and> prefix (approvals s) (approvals s') \<and>
     prefix (delivery_observations s) (delivery_observations s') \<and>
     prefix (delivery_records s) (delivery_records s') \<and>
     prefix (delivery_operations s) (delivery_operations s')"

text \<open>The statements and the event port of the engine do not write the policy tables.\<close>

definition same_policy :: "'a policy_db_scheme \<Rightarrow> 'a policy_db_scheme \<Rightarrow> bool" where
  "same_policy s s' \<longleftrightarrow> journal_db.more s' = journal_db.more s"

lemma insert_same_policy:
  "keeps same_policy (insert_activation a)" "keeps same_policy (insert_run_row r)"
  "keeps same_policy (insert_command c)" "keeps same_policy (insert_checkpoint k)"
  "keeps same_policy (insert_sla l)" "keeps same_policy (insert_intent i)"
  "keeps same_policy (insert_observation b)" "keeps same_policy (insert_completion p)"
  "keeps same_policy (insert_ticket t)" "keeps same_policy (insert_operation q)"
  unfolding insert_activation_def insert_run_row_def insert_command_def insert_checkpoint_def
    insert_sla_def insert_intent_def insert_observation_def insert_completion_def
    insert_ticket_def insert_operation_def
  by (auto simp: keeps_def modify_def same_policy_def split: sum.splits)

lemma event_same_policy:
  "keeps (same_policy :: 'a policy_db_scheme \<Rightarrow> _) (append_workflow_state_event V f)"
proof (rule keepsI)
  fix s s' :: "'a policy_db_scheme" and x
  assume run: "append_workflow_state_event V f s = (x, s')"
  show "same_policy s s'"
  proof (cases x)
    case (Inl e)
    with run show ?thesis by (auto dest: append_failed simp: same_policy_def)
  next
    case (Inr i)
    with run have "append_workflow_state_event V f s = (Inr i, s')" by simp
    then show ?thesis
      by (cases rule: append_cases) (auto simp: same_policy_def appended_store_def)
  qed
qed

interpretation engine_frame: journal_order same_policy
  by unfold_locales (auto simp: same_policy_def intro!: insert_same_policy event_same_policy)

lemma same_policy_tables:
  assumes "same_policy s s'"
  shows "investigations s' = investigations s" "agent_steps s' = agent_steps s"
    "tool_requests s' = tool_requests s" "tool_results s' = tool_results s"
    "candidates s' = candidates s" "outcomes s' = outcomes s"
    "policy_activations s' = policy_activations s" "grants s' = grants s"
    "grant_status_events s' = grant_status_events s" "policy_decisions s' = policy_decisions s"
    "bindings s' = bindings s" "approval_requests s' = approval_requests s"
    "approvals s' = approvals s" "delivery_observations s' = delivery_observations s"
    "delivery_records s' = delivery_records s" "delivery_operations s' = delivery_operations s"
  using assms unfolding same_policy_def by (cases s; cases s'; simp)+

lemma keeps_policy_le:
  assumes "keeps journal_le m" and "keeps same_policy m"
  shows "keeps policy_le m"
proof (rule keepsI)
  fix s x s'
  assume "m s = (x, s')"
  with assms have "journal_le s s'" "same_policy s s'" by (auto dest: keepsD)
  then show "policy_le s s'" by (simp add: policy_le_def same_policy_tables)
qed

lemma policy_insert_grows:
  "keeps policy_le (insert_policy_activation p)" "keeps policy_le (insert_grant g)"
  "keeps policy_le (insert_grant_status e)" "keeps policy_le (insert_policy_decision d)"
  "keeps policy_le (insert_binding b)" "keeps policy_le (insert_approval_request r)"
  "keeps policy_le (insert_approval v)" "keeps policy_le (insert_delivery_observation w)"
  "keeps policy_le (insert_delivery_completion c)" "keeps policy_le (insert_delivery_intent i)"
  "keeps policy_le (insert_delivery_record dr)" "keeps policy_le (insert_delivery_operation q)"
  unfolding insert_policy_activation_def insert_grant_def insert_grant_status_def
    insert_policy_decision_def insert_binding_def insert_approval_request_def insert_approval_def
    insert_delivery_observation_def insert_delivery_completion_def insert_delivery_intent_def
    insert_delivery_record_def insert_delivery_operation_def
  by (auto simp: keeps_def modify_def policy_le_def journal_le_def split: sum.splits)

interpretation policy_growth: delivery_order policy_le
proof unfold_locales
  show "policy_le s s" for s :: "'a policy_db_scheme"
    by (simp add: policy_le_def journal_le_def)
  show "policy_le s t \<Longrightarrow> policy_le t u \<Longrightarrow> policy_le s u" for s t u :: "'a policy_db_scheme"
    unfolding policy_le_def by (blast intro: prefix_order.trans journal.trans_R)
qed (intro keeps_policy_le policy_insert_grows insert_grows event_grows insert_same_policy
      event_same_policy)+

end
