(* ===== verification/PolicyProps.thy ===== *)
theory PolicyProps
  imports Policy
begin

text \<open>
  What the fixture policy guarantees: a decision is \<open>allow\<close> exactly under the positive list of
  conditions \<open>policy_allows\<close>, and the records built from an \<open>allow\<close> decision are the ones the
  contract validators of \<open>Authorization\<close> accept.
\<close>

section \<open>Sealed records\<close>

lemma without_overwrite:
  "obj_without (map (\<lambda>(k', v'). if k' = k then (k', v) else (k', v')) p) k = obj_without p k"
  by (induction p) auto

lemma without_set: "obj_without (obj_set p k v) k = obj_without p k"
  by (simp add: obj_set_def without_overwrite)

lemma content_hash_set [simp]: "content_hash (obj_set p k v) k = content_hash p k"
  by (simp add: content_hash_def without_set)

lemma content_hash_nonempty [simp]: "content_hash p k \<noteq> []"
  by (simp add: content_hash_def)

lemma sealed_hash [simp]: "require_hash (obj_set p k (JStr (content_hash p k))) k name = Inr ()"
  by (simp add: require_hash_def)

lemma map_of_overwrite:
  "map_of (map (\<lambda>(k', v'). if k' = k then (k', v) else (k', v')) p) k'' =
     (if k'' = k \<and> k \<in> fst ` set p then Some v else map_of p k'')"
proof (induction p)
  case (Cons x p)
  obtain a b where x: "x = (a, b)" by fastforce
  show ?case by (cases "k'' = k"; cases "a = k") (use Cons.IH x in auto)
qed simp

lemma map_of_set [simp]: "map_of (obj_set p k v) k' = (if k' = k then Some v else map_of p k')"
proof (cases "k \<in> fst ` set p")
  case True
  then show ?thesis by (simp add: obj_set_def map_of_overwrite)
next
  case False
  then have "map_of p k = None" by (simp add: map_of_eq_None_iff)
  with False show ?thesis by (simp add: obj_set_def map_add_def split: option.splits)
qed

lemma obj_item_set [simp]:
  "obj_item (obj_set p k v) k' = (if k' = k then Inr v else obj_item p k')"
  by (simp add: obj_item_def)

lemma or_else_False [simp]:
  "or_else a b = Inr False \<longleftrightarrow> a = Inr False \<and> b = Inr False"
  by (auto simp: or_else_def bind_res_def split: sum.splits)

lemma raise_if_eq_Inr [simp]: "raise_if c e = Inr u \<longleftrightarrow> c = Inr False"
  by (auto simp: raise_if_def bind_res_def split: sum.splits)

section \<open>Default deny\<close>

definition grant_covers :: "policy_input \<Rightarrow> obj \<Rightarrow> instant \<Rightarrow> bool" where
  "grant_covers q g now \<longleftrightarrow>
     obj_get g ''tenant_id'' = JStr (pi_tenant_id q) \<and>
     obj_get g ''subject_id'' = JStr (pi_subject_id q) \<and>
     obj_get g ''role'' = JStr (pi_role q) \<and>
     obj_get g ''status'' = JStr ''active'' \<and>
     py_in (JStr (pi_action q)) (obj_get g ''scopes'') = Inr True \<and>
     obj_get g ''resource_scope'' = JStr (pi_resource_id q) \<and>
     py_in (JStr (pi_data_classification q)) (obj_get g ''data_classifications'') = Inr True \<and>
     (case parse_iso (py_str (obj_get g ''expires_at'')) of
        Some (Aware e) \<Rightarrow> valid_instant e \<and> now < e | _ \<Rightarrow> False)"

definition policy_allows :: "policy_input \<Rightarrow> instant \<Rightarrow> bool" where
  "policy_allows q now \<longleftrightarrow>
     pi_tenant_id q = ''tenant-alpha'' \<and>
     (pi_action q = ''approval.decide'' \<and> pi_role q = FIXTURE_APPROVER_ROLE \<or>
      pi_action q \<in> {''approval.request'', ''outbound_delivery.execute''} \<and>
        pi_role q = FIXTURE_CONTROLLER_ROLE) \<and>
     pi_case_id q \<noteq> [] \<and> pi_case_revision_id q \<noteq> [] \<and> pi_workflow_id q \<noteq> [] \<and>
     pi_checkpoint_id q \<noteq> [] \<and> 0 \<le> pi_workflow_version q \<and> pi_evidence_hashes q \<noteq> [] \<and>
     pi_resource_id q = API_503_DELIVERY_RESOURCE_ID \<and>
     pi_data_classification q = ''synthetic'' \<and> 1 \<le> pi_remaining_budget q \<and>
     (\<exists>g. pi_grant q = Some g \<and> grant_covers q g now)"

lemma py_in_default:
  "py_in x (obj_get_or g k (JList [])) = Inr True \<longleftrightarrow> py_in x (obj_get g k) = Inr True"
  by (simp add: obj_get_or_def obj_get_def py_in_def split: option.splits)

lemma returns_True [simp]: "(\<exists>a. m = Inr a \<and> a) \<longleftrightarrow> m = Inr True"
  by auto

lemma grant_denied_False:
  "grant_denied q g = Inr False \<longleftrightarrow>
     obj_get g ''tenant_id'' = JStr (pi_tenant_id q) \<and>
     obj_get g ''subject_id'' = JStr (pi_subject_id q) \<and>
     obj_get g ''role'' = JStr (pi_role q) \<and>
     obj_get g ''status'' = JStr ''active'' \<and>
     py_in (JStr (pi_action q)) (obj_get g ''scopes'') = Inr True \<and>
     obj_get g ''resource_scope'' = JStr (pi_resource_id q) \<and>
     py_in (JStr (pi_data_classification q)) (obj_get g ''data_classifications'') = Inr True"
  by (auto simp: grant_denied_def py_in_default)


lemma parse_iso_None_text: "parse_iso ''None'' = None"
  by (simp add: parse_iso_def replace_z_def fromisoformat_def parse_date_def fixed_digits_def
      char_digit_def Let_def)

lemma grant_verdict_allow:
  "grant_verdict q g now = Inr (True, r) \<longleftrightarrow>
     r = ''fixture_policy_allowed'' \<and> pi_role q = expected_role (pi_action q) \<and>
     (case parse_iso (py_str (obj_get g ''expires_at'')) of
        Some (Aware e) \<Rightarrow> valid_instant e \<and> now < e | _ \<Rightarrow> False)"
  by (auto simp: grant_verdict_def grant_expiry_def obj_item_def obj_get_def astimezone_utc_def
      parse_iso_None_text py_str_def [of JNull] split: option.splits pytime.splits)

lemma expected_roles:
  "a \<in> set ALLOWLISTED_ACTIONS \<and> role = expected_role a \<longleftrightarrow>
     a = ''approval.decide'' \<and> role = FIXTURE_APPROVER_ROLE \<or>
     a \<in> {''approval.request'', ''outbound_delivery.execute''} \<and> role = FIXTURE_CONTROLLER_ROLE"
  by (auto simp: ALLOWLISTED_ACTIONS_def expected_role_def)

lemma policy_verdict_allow:
  "policy_verdict q now = Inr (True, r) \<longleftrightarrow> policy_allows q now \<and> r = ''fixture_policy_allowed''"
  (is "?l \<longleftrightarrow> ?r")
proof (cases "pi_tenant_id q \<noteq> ''tenant-alpha'' \<or> pi_action q \<notin> set ALLOWLISTED_ACTIONS \<or>
         pi_case_id q = [] \<or> pi_case_revision_id q = [] \<or> pi_workflow_id q = [] \<or>
         pi_checkpoint_id q = [] \<or> pi_workflow_version q < 0 \<or> length (pi_evidence_hashes q) = 0")
  case True
  then show ?thesis by (auto simp: policy_verdict_def policy_allows_def ALLOWLISTED_ACTIONS_def)
next
  case identity: False
  show ?thesis
  proof (cases "pi_resource_id q = API_503_DELIVERY_RESOURCE_ID \<and>
      pi_data_classification q = ''synthetic'' \<and> 1 \<le> pi_remaining_budget q \<and> pi_grant q \<noteq> None")
    case True
    then obtain g where g: "pi_grant q = Some g" by blast
    have "?l \<longleftrightarrow> grant_denied q g = Inr False \<and> grant_verdict q g now = Inr (True, r)"
      using identity True g by (auto simp: policy_verdict_def split: if_splits)
    also have "\<dots> \<longleftrightarrow> r = ''fixture_policy_allowed'' \<and> grant_covers q g now \<and>
        pi_role q = expected_role (pi_action q)"
      by (auto simp: grant_denied_False grant_verdict_allow grant_covers_def)
    finally show ?thesis
      using identity True g expected_roles [of "pi_action q" "pi_role q"]
      by (auto simp: policy_allows_def)
  next
    case False
    then show ?thesis using identity by (auto simp: policy_verdict_def policy_allows_def)
  qed
qed

lemma decision_verdict:
  assumes "evaluate_fixture_policy V q now = Inr d"
  shows "obj_get d ''decision'' = JStr (if policy_allows q now then ''allow'' else ''deny'') \<and>
         (obj_get d ''reason_code'' = JStr ''fixture_policy_allowed'' \<longleftrightarrow> policy_allows q now)"
proof -
  obtain a r where v: "policy_verdict q now = Inr (a, r)"
    and d: "d = obj_set (decision_record q a r now) ''policy_decision_sha256''
      (JStr (content_hash (decision_record q a r now) ''policy_decision_sha256''))"
    using assms by (auto simp: evaluate_fixture_policy_def Let_def)
  have fields: "obj_get d ''decision'' = JStr (if a then ''allow'' else ''deny'')"
      "obj_get d ''reason_code'' = JStr r"
    by (simp_all add: d decision_record_def Let_def)
  have "a \<longleftrightarrow> policy_allows q now"
    using v policy_verdict_allow [of q now r] policy_verdict_allow [of q now "''fixture_policy_allowed''"]
    by (cases a) auto
  moreover have "r = ''fixture_policy_allowed'' \<longleftrightarrow> a"
  proof (cases a)
    case True
    with v policy_verdict_allow show ?thesis by simp
  next
    case False
    with v show ?thesis
      by (auto simp: policy_verdict_def grant_verdict_def split: if_splits option.splits)
  qed
  ultimately show ?thesis using fields by simp
qed


text \<open>
  C9.  Default deny: when the policy evaluation returns, its decision is \<open>allow\<close> exactly when the
  tenant, the action with the role that may perform it, the identities, the resource, the
  classification, the budget and an active, unexpired grant for this subject all match; in every
  other case it is \<open>deny\<close>, and the reason code is \<open>fixture_policy_allowed\<close> only for an allow.
\<close>

theorem policy_default_deny:
  assumes "evaluate_fixture_policy V q now = Inr d"
  shows "obj_get d ''decision'' = JStr (if policy_allows q now then ''allow'' else ''deny'') \<and>
         (obj_get d ''reason_code'' = JStr ''fixture_policy_allowed'' \<longleftrightarrow> policy_allows q now)"
  using assms by (rule decision_verdict)

section \<open>From the grant to the authorized approval\<close>

lemma obj_item_eq: "obj_item p k = Inr v \<Longrightarrow> obj_get p k = v"
  by (simp add: obj_item_def obj_get_def split: option.splits)

lemma list_item_eq:
  "list_item p k = Inr xs \<Longrightarrow> obj_get p k = JList ys \<Longrightarrow> xs = ys"
  by (auto simp: list_item_def py_iter_def dest: obj_item_eq)

lemma issued_record:
  assumes "issue_fixture_grant V tenant subject role t status expires = Inr g"
  obtains e where "(case expires of Some e \<Rightarrow> Inr e | None \<Rightarrow> add_seconds t 1800) = Inr e"
    and "g = obj_set (grant_record tenant subject role t status e) ''grant_sha256''
      (JStr (content_hash (grant_record tenant subject role t status e) ''grant_sha256''))"
    and "validate_capability_grant V g = Inr ()"
  using assms unfolding issue_fixture_grant_def bind_res_eq_Inr Let_def by auto

lemma issued:
  assumes "issue_fixture_grant V tenant subject role t status expires = Inr g"
  shows "\<exists>h. obj_get g ''grant_sha256'' = JStr h \<and> h \<noteq> []"
    "\<exists>i. obj_get g ''grant_id'' = JStr i \<and> i \<noteq> []"
    "obj_get g ''grant_version'' = JStr ''fixture-v1''"
    "obj_get g ''data_classifications'' = jlist [''synthetic'']"
    "require_hash g ''grant_sha256'' ''capability-grant'' = Inr ()"
    "validate_capability_grant V g = Inr ()"
    "\<exists>e. (case expires of Some e \<Rightarrow> Inr e | None \<Rightarrow> add_seconds t 1800) = Inr e \<and>
       obj_get g ''expires_at'' = JStr (timestamp e)"
  by (rule issued_record [OF assms], simp add: grant_record_def)+

lemma decided:
  assumes "evaluate_fixture_policy V q now = Inr d"
  shows "obj_get d ''tenant_id'' = JStr (pi_tenant_id q)" "obj_get d ''case_id'' = JStr (pi_case_id q)"
    "obj_get d ''case_revision_id'' = JStr (pi_case_revision_id q)"
    "obj_get d ''workflow_id'' = JStr (pi_workflow_id q)"
    "obj_get d ''checkpoint_id'' = JStr (pi_checkpoint_id q)"
    "obj_get d ''workflow_version'' = JInt (pi_workflow_version q)"
    "obj_get d ''candidate_hash'' = JStr (pi_candidate_hash q)"
    "obj_get d ''evidence_hashes'' = jlist (pi_evidence_hashes q)"
    "obj_get d ''action'' = JStr (pi_action q)"
    "obj_get d ''policy_version'' = JStr API_503_POLICY_VERSION"
    "\<exists>h. obj_get d ''policy_input_sha256'' = JStr h \<and> h \<noteq> []"
    "\<exists>h. obj_get d ''policy_decision_sha256'' = JStr h \<and> h \<noteq> []"
    "obj_get d ''grant_id'' = JStr (grant_id_of (pi_grant q))"
    "obj_get d ''grant_sha256'' = JStr (grant_hash_of (pi_grant q))"
    "obj_get d ''subject_id'' = JStr (pi_subject_id q)" "obj_get d ''role'' = JStr (pi_role q)"
    "obj_get d ''resource_id'' = JStr (pi_resource_id q)"
    "obj_get d ''data_classification'' = JStr (pi_data_classification q)"
    "require_hash d ''policy_decision_sha256'' ''policy-decision'' = Inr ()"
    "validate_policy_decision V d = Inr ()"
proof -
  obtain a r where d: "d = obj_set (decision_record q a r now) ''policy_decision_sha256''
      (JStr (content_hash (decision_record q a r now) ''policy_decision_sha256''))"
    and "validate_policy_decision V d = Inr ()"
    using assms by (auto simp: evaluate_fixture_policy_def Let_def)
  then show "validate_policy_decision V d = Inr ()" by simp
qed (use assms in \<open>auto simp: evaluate_fixture_policy_def decision_record_def Let_def\<close>)

lemma obj_item_iff: "obj_item p k = Inr v \<longleftrightarrow> k \<in> fst ` set p \<and> v = obj_get p k"
  by (auto simp: obj_item_def obj_get_def map_of_eq_None_iff split: option.splits)
     (metis map_of_eq_None_iff option.distinct(1))

definition binding_record :: "obj \<Rightarrow> obj \<Rightarrow> json list \<Rightarrow> int \<Rightarrow> instant \<Rightarrow> instant \<Rightarrow> obj" where
  "binding_record d g evidence budget expires_at created_at =
     [(''schema_id'', JStr AUTHORIZATION_BINDING_SCHEMA_ID),
      (''schema_version'', JStr ''v1''),
      (''tenant_id'', obj_get d ''tenant_id''),
      (''authorization_binding_id'', JStr (stable_identifier ''authorization_binding'' (JObj
         [(''policy_decision_sha256'', obj_get d ''policy_decision_sha256''),
          (''grant_sha256'', obj_get g ''grant_sha256''),
          (''candidate_hash'', obj_get d ''candidate_hash''),
          (''evidence_hashes'', JList evidence)]))),
      (''case_id'', obj_get d ''case_id''),
      (''case_revision_id'', obj_get d ''case_revision_id''),
      (''workflow_id'', obj_get d ''workflow_id''),
      (''checkpoint_id'', obj_get d ''checkpoint_id''),
      (''workflow_version'', obj_get d ''workflow_version''),
      (''candidate_hash'', obj_get d ''candidate_hash''),
      (''evidence_hashes'', JList evidence),
      (''action'', obj_get d ''action''),
      (''policy_decision_id'', obj_get d ''policy_decision_id''),
      (''policy_version'', obj_get d ''policy_version''),
      (''policy_decision_sha256'', obj_get d ''policy_decision_sha256''),
      (''grant_id'', obj_get g ''grant_id''),
      (''grant_version'', obj_get g ''grant_version''),
      (''grant_sha256'', obj_get g ''grant_sha256''),
      (''subject_id'', obj_get g ''subject_id''),
      (''role'', obj_get g ''role''),
      (''delivery_resource_id'', JStr API_503_DELIVERY_RESOURCE_ID),
      (''delivery_resource_scope'', JStr API_503_DELIVERY_RESOURCE_SCOPE),
      (''data_classification'', JStr ''synthetic''),
      (''remaining_budget'', JInt budget),
      (''expires_at'', JStr (timestamp expires_at)),
      (''created_at'', JStr (timestamp created_at))]"

lemma bound_record:
  assumes "bind_fixture_authorization V d g budget e t = Inr b"
  obtains es where "list_item d ''evidence_hashes'' = Inr es"
    and "b = obj_set (binding_record d g es budget e t) ''authorization_binding_sha256''
      (JStr (content_hash (binding_record d g es budget e t) ''authorization_binding_sha256''))"
    and "validate_authorization_binding V b = Inr ()"
  using assms unfolding bind_fixture_authorization_def bind_res_eq_Inr obj_item_iff Let_def
proof (clarify, goal_cases)
  case (1 es)
  then show ?case unfolding binding_record_def [symmetric] by (intro that) simp_all
qed

lemma bound:
  assumes "bind_fixture_authorization V d g budget e t = Inr b"
  shows "\<forall>f\<in>{''tenant_id'', ''case_id'', ''case_revision_id'', ''workflow_id'', ''checkpoint_id'',
      ''workflow_version'', ''candidate_hash'', ''policy_decision_id'', ''policy_version'',
      ''policy_decision_sha256'', ''action''}. obj_get b f = obj_get d f"
    "\<forall>f\<in>{''grant_id'', ''grant_version'', ''grant_sha256'', ''subject_id'', ''role''}.
      obj_get b f = obj_get g f"
    "list_item d ''evidence_hashes'' = Inr es \<Longrightarrow> obj_get b ''evidence_hashes'' = JList es"
    "obj_get b ''delivery_resource_id'' = JStr API_503_DELIVERY_RESOURCE_ID"
    "obj_get b ''data_classification'' = JStr ''synthetic''"
    "obj_get b ''expires_at'' = JStr (timestamp e)"
    "\<exists>h. obj_get b ''authorization_binding_sha256'' = JStr h \<and> h \<noteq> []"
    "validate_authorization_binding V b = Inr ()"
  by (rule bound_record [OF assms], simp add: binding_record_def)+


lemma allow_facts:
  assumes "evaluate_fixture_policy V q now = Inr d" and "obj_get d ''decision'' = JStr ''allow''"
    and "pi_grant q = Some g"
  shows "policy_allows q now" and "grant_covers q g now"
proof -
  show "policy_allows q now" using decision_verdict [OF assms(1)] assms(2) by (auto split: if_splits)
  then show "grant_covers q g now" using assms(3) by (auto simp: policy_allows_def)
qed

definition profile_of :: "policy_input \<Rightarrow> profile_query" where
  "profile_of q =
     \<lparr>pq_action = pi_action q, pq_case_revision_id = pi_case_revision_id q,
      pq_checkpoint_id = pi_checkpoint_id q, pq_workflow_version = pi_workflow_version q,
      pq_candidate_hash = pi_candidate_hash q, pq_evidence_hashes = pi_evidence_hashes q,
      pq_resource_id = pi_resource_id q, pq_data_classification = pi_data_classification q,
      pq_tenant_id = Some (pi_tenant_id q), pq_subject_id = Some (pi_subject_id q),
      pq_role = Some (pi_role q), pq_require_allow = True\<rparr>"

lemma parse_time_timestamp: "valid_instant e \<Longrightarrow> parse_time (JStr (timestamp e)) = Some (Aware e)"
  by (simp add: parse_time_def parse_timestamp)

lemma expiry_open: "valid_instant e \<Longrightarrow> now < e \<Longrightarrow> expired (parse_time (JStr (timestamp e))) now = Inr False"
  by (simp add: parse_time_def parse_timestamp expired_def not_after_def)

lemma jlist_iter: "py_iter (jlist xs) = Inr (map JStr xs)"
  by (simp add: jlist_def py_iter_def)

lemma obj_get_or_get: "obj_get p k \<noteq> JNull \<Longrightarrow> obj_get_or p k v = obj_get p k"
  by (auto simp: obj_get_or_def obj_get_def split: option.splits)

lemma sorted_actions: "a \<in> set ALLOWLISTED_ACTIONS \<Longrightarrow> JStr a \<in> JStr ` set (sort ALLOWLISTED_ACTIONS)"
  by simp

lemma authorized_profile:
  assumes g: "issue_fixture_grant V tenant subject role t0 status expires = Inr g"
    and q: "pi_grant q = Some g"
    and d: "evaluate_fixture_policy V q t1 = Inr d" and allow: "obj_get d ''decision'' = JStr ''allow''"
    and b: "bind_fixture_authorization V d g budget e t2 = Inr b"
    and open': "valid_instant e" "now < e"
      "\<exists>ge. obj_get g ''expires_at'' = JStr (timestamp ge) \<and> valid_instant ge \<and> now < ge"
    and texts: "pi_subject_id q \<noteq> []" "pi_candidate_hash q \<noteq> []"
    and p: "p = profile_of q \<or> p = (profile_of q)\<lparr>pq_subject_id := None, pq_role := None\<rparr>"
  shows "validate_change4_authorization_profile V b g d p now = Inr ()"
proof -
  note pol = allow_facts [OF d allow q]
  obtain ge where ge: "obj_get g ''expires_at'' = JStr (timestamp ge)" "valid_instant ge" "now < ge"
    using open'(3) by blast
  note D = decided [OF d]
  obtain gf: "obj_get g ''tenant_id'' = JStr (pi_tenant_id q)"
      "obj_get g ''subject_id'' = JStr (pi_subject_id q)" "obj_get g ''role'' = JStr (pi_role q)"
      "obj_get g ''status'' = JStr ''active''"
      "obj_get g ''resource_scope'' = JStr (pi_resource_id q)"
    using pol(2) by (auto simp: grant_covers_def)
  have act: "pi_action q \<in> set CHANGE4_ACTIONS"
    using pol(1) by (auto simp: policy_allows_def CHANGE4_ACTIONS_def)
  have ids: "pi_checkpoint_id q \<noteq> []" "pi_workflow_id q \<noteq> []" "pi_role q \<noteq> []" "pi_action q \<noteq> []"
      "pi_resource_id q = API_503_DELIVERY_RESOURCE_ID" "pi_data_classification q = ''synthetic''"
    using pol(1)
    by (auto simp: policy_allows_def FIXTURE_APPROVER_ROLE_def FIXTURE_CONTROLLER_ROLE_def)
  obtain gh gi where gh: "obj_get g ''grant_sha256'' = JStr gh" "gh \<noteq> []"
      and gi: "obj_get g ''grant_id'' = JStr gi" "gi \<noteq> []"
      and gv: "obj_get g ''grant_version'' = JStr ''fixture-v1''"
      and gc: "obj_get g ''data_classifications'' = jlist [''synthetic'']"
      and gs: "require_hash g ''grant_sha256'' ''capability-grant'' = Inr ()"
      and gV: "validate_capability_grant V g = Inr ()"
    using issued [OF g] by blast
  have dg: "grant_id_of (pi_grant q) = gi" "grant_hash_of (pi_grant q) = gh"
    using q gh gi by (simp_all add: grant_id_of_def grant_hash_of_def obj_get_or_get py_str_def)
  have es: "list_item d ''evidence_hashes'' = Inr (map JStr (pi_evidence_hashes q))"
    using D(8) by (simp add: list_item_def obj_item_get jlist_def py_iter_def)
  note B = bound(1,2,4-8) [OF b] bound(3) [OF b es]
  have fields: "require_fields g grant_fields ''capability-grant'' = Inr ()"
    using gh gv gf gc ids
    by (simp add: require_fields_def grant_fields_def jlist_def API_503_DELIVERY_RESOURCE_ID_def)
  have dfields: "require_fields d decision_fields ''policy-decision'' = Inr ()"
    using D dg gh gi ids texts
    by (auto simp: require_fields_def decision_fields_def API_503_POLICY_VERSION_def
        API_503_DELIVERY_RESOURCE_ID_def)
  have bg: "same_fields b g binding_grant_fields ''authorization-binding'' = Inr ()"
    using B(1,2) D gf by (simp add: same_fields_def binding_grant_fields_def)
  have bd: "same_fields b d binding_decision_fields ''authorization-binding'' = Inr ()"
    using B(1,2,8) D gf gh gi dg by (simp add: same_fields_def binding_decision_fields_def jlist_def)
  have scope: "scope_denied p g = Inr False"
    using p pol(2) ids gf
    by (auto simp add: scope_denied_def profile_of_def grant_covers_def py_in_default
        SAFE_DATA_CLASSIFICATIONS_def)
  have stale: "stale_evidence b (pi_evidence_hashes q) = Inr False"
    using B(8) by (simp add: stale_evidence_def obj_get_or_get py_iter_def)
  have pf: "pq_action p = pi_action q" "pq_case_revision_id p = pi_case_revision_id q"
      "pq_checkpoint_id p = pi_checkpoint_id q" "pq_workflow_version p = pi_workflow_version q"
      "pq_candidate_hash p = pi_candidate_hash q" "pq_evidence_hashes p = pi_evidence_hashes q"
      "pq_resource_id p = pi_resource_id q" "pq_data_classification p = pi_data_classification q"
      "pq_tenant_id p = Some (pi_tenant_id q)"
    using p by (auto simp: profile_of_def)
  have actor: "pq_subject_id p = None \<or> obj_get b ''subject_id'' = jopt (pq_subject_id p)"
      "pq_role p = None \<or> obj_get b ''role'' = jopt (pq_role p)"
    using p B(2) gf by (auto simp: profile_of_def jopt_def)
  show ?thesis
    unfolding validate_change4_authorization_profile_def Let_def
    using act B D gV gs fields dfields bg bd scope stale gf ids allow ge open' actor
    by (simp add: pf parse_time_timestamp expired_def not_after_def or_else_def jopt_def [of "Some _"])
qed

definition request_record :: "obj \<Rightarrow> json list \<Rightarrow> instant \<Rightarrow> obj" where
  "request_record b evidence created_at =
     [(''schema_id'', JStr APPROVAL_REQUEST_SCHEMA_ID),
      (''schema_version'', JStr ''v1''),
      (''tenant_id'', obj_get b ''tenant_id''),
      (''approval_request_id'', JStr (stable_identifier ''approval_request''
         (JObj [(''authorization_binding_sha256'', obj_get b ''authorization_binding_sha256'')]))),
      (''case_id'', obj_get b ''case_id''),
      (''case_revision_id'', obj_get b ''case_revision_id''),
      (''candidate_hash'', obj_get b ''candidate_hash''),
      (''policy_decision_id'', obj_get b ''policy_decision_id''),
      (''evidence_hashes'', JList evidence),
      (''created_at'', JStr (timestamp created_at)),
      (''expires_at'', obj_get b ''expires_at''),
      (''workflow_id'', obj_get b ''workflow_id''),
      (''checkpoint_id'', obj_get b ''checkpoint_id''),
      (''workflow_version'', obj_get b ''workflow_version''),
      (''authorization_binding_sha256'', obj_get b ''authorization_binding_sha256''),
      (''policy_decision_sha256'', obj_get b ''policy_decision_sha256''),
      (''policy_version'', obj_get b ''policy_version''),
      (''grant_sha256'', obj_get b ''grant_sha256'')]"

lemma requested_record:
  assumes "build_approval_request V b t = Inr r"
  obtains es where "list_item b ''evidence_hashes'' = Inr es" and "r = request_record b es t"
    and "validate_approval_request V r = Inr ()"
  using assms unfolding build_approval_request_def bind_res_eq_Inr obj_item_iff Let_def
proof (clarify, goal_cases)
  case (1 es)
  then show ?case unfolding request_record_def [symmetric] by (intro that) simp_all
qed

definition approval_record :: "obj \<Rightarrow> json list \<Rightarrow> string \<Rightarrow> string \<Rightarrow> string \<Rightarrow> instant \<Rightarrow> obj" where
  "approval_record r evidence approver_id approver_role decision decided_at =
     [(''schema_id'', JStr APPROVAL_DECISION_SCHEMA_ID),
      (''schema_version'', JStr ''v1''),
      (''tenant_id'', obj_get r ''tenant_id''),
      (''approval_decision_id'', JStr (stable_identifier ''approval_decision'' (JObj
         [(''approval_request_id'', obj_get r ''approval_request_id''),
          (''decision'', JStr decision), (''approver_id'', JStr approver_id)]))),
      (''approval_request_id'', obj_get r ''approval_request_id''),
      (''case_id'', obj_get r ''case_id''),
      (''case_revision_id'', obj_get r ''case_revision_id''),
      (''candidate_hash'', obj_get r ''candidate_hash''),
      (''evidence_hashes'', JList evidence),
      (''decision'', JStr decision),
      (''decided_at'', JStr (timestamp decided_at)),
      (''expires_at'', obj_get r ''expires_at''),
      (''workflow_id'', obj_get r ''workflow_id''),
      (''checkpoint_id'', obj_get r ''checkpoint_id''),
      (''workflow_version'', obj_get r ''workflow_version''),
      (''authorization_binding_sha256'', obj_get r ''authorization_binding_sha256''),
      (''approver_id'', JStr approver_id),
      (''approver_role'', JStr approver_role)]"

lemma approved_record:
  assumes "build_approval_decision V r who role decision t = Inr a"
  obtains es where "list_item r ''evidence_hashes'' = Inr es"
    and "a = obj_set (approval_record r es who role decision t) ''decision_sha256''
      (JStr (content_hash (approval_record r es who role decision t) ''decision_sha256''))"
    and "validate_approval_decision V a = Inr ()"
  using assms unfolding build_approval_decision_def bind_res_eq_Inr obj_item_iff Let_def
proof (clarify, goal_cases)
  case (1 es)
  then show ?case unfolding approval_record_def [symmetric] by (intro that) simp_all
qed

end
