(* ===== verification/DeliveryRuns.thy ===== *)
theory DeliveryRuns
  imports PolicyGrowth PolicyProps JournalRun
begin

text \<open>
  Runs of the engine with the Change 4 operations, and the invariant of the outbound delivery: a
  workflow has at most one delivery intent, every record of the fixture-local provider belongs to
  one stored intent and carries the content hash of its candidate, and no intent is delivered
  twice.
\<close>

section \<open>Operations that do not deliver\<close>

definition same_provider :: "'a policy_db_scheme \<Rightarrow> 'a policy_db_scheme \<Rightarrow> bool" where
  "same_provider s s' \<longleftrightarrow> delivery_intents s' = delivery_intents s \<and>
     delivery_records s' = delivery_records s \<and> delivery_operations s' = delivery_operations s"

lemma keeps_provider:
  assumes "keeps same_delivery m" and "keeps same_policy m"
  shows "keeps same_provider m"
proof (rule keepsI)
  fix s x s'
  assume "m s = (x, s')"
  with assms have "same_delivery s s'" "same_policy s s'" by (auto dest: keepsD)
  then show "same_provider s s'"
    by (simp add: same_provider_def same_delivery_def same_policy_tables)
qed

lemma policy_insert_provider:
  "keeps same_provider (insert_policy_activation p)" "keeps same_provider (insert_grant g)"
  "keeps same_provider (insert_grant_status e)" "keeps same_provider (insert_policy_decision d)"
  "keeps same_provider (insert_binding b)" "keeps same_provider (insert_approval_request r)"
  "keeps same_provider (insert_approval v)" "keeps same_provider (insert_delivery_observation w)"
  "keeps same_provider (insert_delivery_completion c)"
  unfolding insert_policy_activation_def insert_grant_def insert_grant_status_def
    insert_policy_decision_def insert_binding_def insert_approval_request_def insert_approval_def
    insert_delivery_observation_def insert_delivery_completion_def
  by (auto simp: keeps_def modify_def same_provider_def split: sum.splits)

interpretation provider_frame: policy_order same_provider
proof unfold_locales
  show "same_provider s s" for s :: "'a policy_db_scheme" by (simp add: same_provider_def)
  show "same_provider s t \<Longrightarrow> same_provider t u \<Longrightarrow> same_provider s u" for s t u :: "'a policy_db_scheme"
    by (simp add: same_provider_def)
qed (intro keeps_provider policy_insert_provider insert_same_delivery event_same_delivery
      insert_same_policy event_same_policy)+

section \<open>The invariant\<close>

definition intent_backed :: "delivery_intent_row \<Rightarrow> bool" where
  "intent_backed r \<longleftrightarrow> (\<exists>p. dn_payload r = Some (JObj p) \<and>
     obj_get p ''tenant_id'' = JStr (dn_tenant r) \<and> obj_get p ''workflow_id'' = JStr (dn_workflow r) \<and>
     obj_get p ''natural_key'' = JStr (dn_natural_key r))"

text \<open>The candidate hash of an intent: what a delivery of it contains.\<close>

definition intent_content :: "delivery_intent_row \<Rightarrow> string" where
  "intent_content r = (case dn_payload r of
     Some (JObj p) \<Rightarrow> py_str (obj_get p ''candidate_hash'') | _ \<Rightarrow> [])"

definition record_backed :: "delivery_record_row \<Rightarrow> delivery_intent_row \<Rightarrow> bool" where
  "record_backed d r \<longleftrightarrow> dn_tenant r = dr_tenant d \<and> dn_natural_key r = dr_natural_key d \<and>
     intent_content r = dr_sha256 d \<and> dr_version d = 1"

definition delivered_for :: "delivery_intent_row \<Rightarrow> 'a policy_db_scheme \<Rightarrow> delivery_record_row list" where
  "delivered_for r s =
     filter (\<lambda>d. dr_tenant d = dn_tenant r \<and> dr_natural_key d = dn_natural_key r) (delivery_records s)"

definition one_per_key :: "delivery_record_row list \<Rightarrow> bool" where
  "one_per_key ds \<longleftrightarrow> (\<forall>t k. length (filter (\<lambda>d. dr_tenant d = t \<and> dr_natural_key d = k) ds) \<le> 1)"

definition one_per_workflow :: "delivery_intent_row list \<Rightarrow> bool" where
  "one_per_workflow rs \<longleftrightarrow> (\<forall>t w. length (filter (\<lambda>r. dn_tenant r = t \<and> dn_workflow r = w) rs) \<le> 1)"

definition deliveries_ok :: "'a policy_db_scheme \<Rightarrow> bool" where
  "deliveries_ok s \<longleftrightarrow>
     (\<forall>r\<in>set (delivery_intents s). intent_backed r) \<and>
     (\<forall>d\<in>set (delivery_records s). \<exists>r\<in>set (delivery_intents s). record_backed d r) \<and>
     one_per_workflow (delivery_intents s) \<and> one_per_key (delivery_records s)"

definition stored_intent :: "obj \<Rightarrow> 'a policy_db_scheme \<Rightarrow> bool" where
  "stored_intent p s \<longleftrightarrow> (\<exists>r\<in>set (delivery_intents s). dn_payload r = Some (JObj p))"

lemma same_provider_ok: "same_provider s s' \<Longrightarrow> deliveries_ok s \<Longrightarrow> deliveries_ok s'"
  by (simp add: same_provider_def deliveries_ok_def)

lemma quiet:
  assumes "keeps same_provider m"
  shows "triple deliveries_ok (stored_intent p) m (\<lambda>_. stored_intent p)"
proof (rule tripleI)
  fix s x s' assume "deliveries_ok s" "m s = (x, s')"
  then show "deliveries_ok s'" using keepsD [OF assms] same_provider_ok by blast
next
  fix s v s' assume "stored_intent p s" "m s = (Inr v, s')"
  then show "stored_intent p s'"
    using keepsD [OF assms] by (auto simp: stored_intent_def same_provider_def)
qed

text \<open>The relation that keeps the invariant.\<close>

definition keeps_deliveries :: "'a policy_db_scheme \<Rightarrow> 'a policy_db_scheme \<Rightarrow> bool" where
  "keeps_deliveries s s' \<longleftrightarrow> (deliveries_ok s \<longrightarrow> deliveries_ok s')"

lemma quiet_deliveries: "keeps same_provider m \<Longrightarrow> keeps keeps_deliveries m"
  by (rule keepsI) (auto simp: keeps_deliveries_def dest: keepsD same_provider_ok)

lemma triple_deliveries: "triple deliveries_ok (\<lambda>_. True) m Q \<Longrightarrow> keeps keeps_deliveries m"
  by (rule keepsI) (auto simp: keeps_deliveries_def dest: tripleD)

section \<open>The steps that write the delivery tables\<close>

lemma insert_policy_ok:
  "insert_delivery_intent r s = (Inr u, s') \<longleftrightarrow> dn_channel r = ''fixture-local-im'' \<and>
     dn_resource r = ''fixture-local-im:api-503'' \<and> has_activation (dn_tenant r) (dn_workflow r) s \<and>
     (\<forall>x\<in>set (delivery_intents s). \<not> delivery_intent_clash r x) \<and>
     s' = s\<lparr>delivery_intents := delivery_intents s @ [r]\<rparr>"
  "insert_delivery_record d s = (Inr u, s') \<longleftrightarrow> 1 \<le> dr_version d \<and> dr_classification d = ''synthetic'' \<and>
     (\<forall>x\<in>set (delivery_records s). \<not> delivery_record_clash d x) \<and>
     s' = s\<lparr>delivery_records := delivery_records s @ [d]\<rparr>"
  "insert_delivery_operation q s = (Inr u, s') \<longleftrightarrow> 1 \<le> dp_version q \<and>
     has_delivery_record (dp_tenant q) (dp_delivery q) (dp_version q) s \<and>
     (\<forall>x\<in>set (delivery_operations s). \<not> delivery_operation_clash q x) \<and>
     s' = s\<lparr>delivery_operations := delivery_operations s @ [q]\<rparr>"
  by (auto simp: insert_delivery_intent_def insert_delivery_record_def insert_delivery_operation_def)

lemma payload_row_Some:
  "payload_row f x = Inr (Some p) \<longleftrightarrow> (\<exists>r. x = Some r \<and> f r = Some (JObj p))"
  by (auto simp: payload_row_def change4_payload_def split: option.splits json.splits)

lemma payload_row_None: "payload_row f x = Inr None \<longleftrightarrow> x = None"
  by (auto simp: payload_row_def split: option.splits)

lemma loaded_stored:
  "delivery_intent_for_workflow t w s = Inr (Some p) \<Longrightarrow> stored_intent p s"
  by (auto simp: delivery_intent_for_workflow_def payload_row_Some stored_intent_def
      dest!: first_row_filterD)

lemma text_col_str: "text_col p k = Inr v \<Longrightarrow> obj_get p k = JStr w \<Longrightarrow> v = w"
  by (auto simp: text_col_def dest!: obj_item_eq)

lemma intent_payload_fields:
  assumes "delivery_intent_payload now a k b = Inr p"
  shows "obj_get p ''tenant_id'' = JStr (ac_tenant a)" "obj_get p ''workflow_id'' = JStr (ac_workflow a)"
    "\<exists>key. obj_get p ''natural_key'' = JStr key"
  using assms unfolding delivery_intent_payload_def bind_res_eq_Inr Let_def by auto

lemma intent_row_fields:
  assumes "delivery_intent_row_of t w p = Inr r"
  shows "dn_tenant r = t" "dn_workflow r = w" "dn_payload r = Some (JObj p)"
    "text_col p ''natural_key'' = Inr (dn_natural_key r)"
  using assms unfolding delivery_intent_row_of_def bind_res_eq_Inr by auto

lemma intent_row_backed:
  assumes "delivery_intent_payload now a k b = Inr p"
    and "delivery_intent_row_of (ac_tenant a) (ac_workflow a) p = Inr r"
  shows "intent_backed r"
  using intent_payload_fields [OF assms(1)] intent_row_fields [OF assms(2)]
  by (auto simp: intent_backed_def dest: text_col_str)

lemma no_clash_fresh:
  assumes "\<forall>x\<in>set xs. \<not> delivery_intent_clash r x" and "one_per_workflow xs"
  shows "one_per_workflow (xs @ [r])"
  unfolding one_per_workflow_def
proof (intro allI)
  fix t w
  show "length (filter (\<lambda>r. dn_tenant r = t \<and> dn_workflow r = w) (xs @ [r])) \<le> 1"
  proof (cases "dn_tenant r = t \<and> dn_workflow r = w")
    case True
    with assms(1) have "filter (\<lambda>r. dn_tenant r = t \<and> dn_workflow r = w) xs = []"
      by (auto simp: filter_empty_conv delivery_intent_clash_def)
    then show ?thesis by simp
  next
    case False
    then have "filter (\<lambda>r. dn_tenant r = t \<and> dn_workflow r = w) (xs @ [r]) =
        filter (\<lambda>r. dn_tenant r = t \<and> dn_workflow r = w) xs" by auto
    then show ?thesis using assms(2) by (simp add: one_per_workflow_def)
  qed
qed

lemma new_intent_ok:
  assumes "deliveries_ok s" and "intent_backed r"
    and "\<forall>x\<in>set (delivery_intents s). \<not> delivery_intent_clash r x"
  shows "deliveries_ok (s\<lparr>delivery_intents := delivery_intents s @ [r]\<rparr>)"
  using assms no_clash_fresh [OF assms(3)] unfolding deliveries_ok_def by auto

lemma triple_engine_tx:
  assumes "triple J P m Q"
  shows "triple J P (engine_tx r m) Q"
proof (rule tripleI)
  fix s x s'
  assume s: "J s" "P s" "engine_tx r m s = (x, s')"
  show "J s'"
  proof (cases x)
    case (Inl e)
    with s(3) have "s' = s" using engine_tx_failed [of r m s e s'] by simp
    with s(1) show ?thesis by simp
  next
    case (Inr v)
    with s(3) have "m s = (Inr v, s')" by simp
    with assms s(1,2) show ?thesis by (rule_tac tripleD)
  qed
next
  fix s v s'
  assume s: "J s" "P s" and "engine_tx r m s = (Inr v, s')"
  then have "m s = (Inr v, s')" by simp
  with assms s show "Q v s'" by (rule_tac triple_value)
qed

text \<open>A lookup, then what to do with and without a row.\<close>

lemma triple_load:
  assumes "\<And>p. triple J (\<lambda>s. P s \<and> f s = Inr (Some p)) (g p) Q"
    and "triple J (\<lambda>s. P s \<and> f s = Inr None) m Q"
  shows "triple J P (bind (bind (query f) lift_res)
           (\<lambda>x. case x of None \<Rightarrow> m | Some p \<Rightarrow> g p)) Q"
proof (rule triple_bind)
  show "triple J P (bind (query f) lift_res) (\<lambda>v s. P s \<and> f s = Inr v)"
    by (auto simp: triple_def bind_def)
  show "triple J (\<lambda>s. P s \<and> f s = Inr v) (case v of None \<Rightarrow> m | Some p \<Rightarrow> g p) Q" for v
    using assms by (cases v) simp_all
qed

lemma triple_find:
  assumes "\<And>p. triple J (\<lambda>s. P s \<and> f s = Some p) (g p) Q"
    and "triple J (\<lambda>s. P s \<and> f s = None) m Q"
  shows "triple J P (bind (query f) (\<lambda>x. case x of None \<Rightarrow> m | Some p \<Rightarrow> g p)) Q"
proof (rule triple_bind)
  show "triple J P (query f) (\<lambda>v s. P s \<and> f s = v)" by (simp add: triple_def)
  show "triple J (\<lambda>s. P s \<and> f s = v) (case v of None \<Rightarrow> m | Some p \<Rightarrow> g p) Q" for v
    using assms by (cases v) simp_all
qed

lemma triple_lifted:
  "(\<And>v. r = Inr v \<Longrightarrow> triple J P (f v) Q) \<Longrightarrow> triple J P (bind (lift_res r) f) Q"
  by (rule triple_bind [OF triple_lift], rule triple_pre)

lemma triple_return: "(\<And>s. J s \<Longrightarrow> P s \<Longrightarrow> Q v s) \<Longrightarrow> triple J P (ret v) Q"
  by (auto simp: triple_def)

lemma triple_modify:
  assumes "\<And>s s'. J s \<Longrightarrow> P s \<Longrightarrow> f s = Inr s' \<Longrightarrow> J s' \<and> Q s'"
  shows "triple J P (modify f) (\<lambda>_. Q)"
  using assms by (auto simp: triple_def modify_def split: sum.splits)

lemma insert_intent_triple:
  assumes "intent_backed r" and "dn_payload r = Some (JObj p)"
  shows "triple deliveries_ok P (insert_delivery_intent r) (\<lambda>_. stored_intent p)"
  unfolding insert_delivery_intent_def
proof (rule triple_modify, goal_cases)
  case (1 s s')
  then show ?case using new_intent_ok [OF 1(1) assms(1)] assms(2) by (auto simp: stored_intent_def)
qed

lemma ensure_delivery_ok:
  "triple deliveries_ok (\<lambda>_. True) (ensure_delivery_intent V now a k b) (\<lambda>(p, _). stored_intent p)"
  unfolding ensure_delivery_intent_def
proof (intro triple_load triple_lifted triple_engine_tx)
  fix p r P
  assume p: "delivery_intent_payload now a k b = Inr p"
    and r: "delivery_intent_row_of (ac_tenant a) (ac_workflow a) p = Inr r"
  show "triple deliveries_ok P (bind (insert_delivery_intent r) (\<lambda>_. ret (p, True)))
      (\<lambda>(p, _). stored_intent p)"
    by (rule triple_bind [OF insert_intent_triple [OF intent_row_backed [OF p r]
          intent_row_fields(3) [OF r]]], rule triple_return) simp
qed (rule triple_return, auto dest: loaded_stored)+

section \<open>Executing a stored intent\<close>

lemma stored_row:
  assumes "deliveries_ok s" and "stored_intent p s"
    and "text_col p ''tenant_id'' = Inr t" and "text_col p ''natural_key'' = Inr k"
  obtains r where "r \<in> set (delivery_intents s)" "dn_payload r = Some (JObj p)" "dn_tenant r = t"
    "dn_natural_key r = k"
proof -
  from assms(2) obtain r where r: "r \<in> set (delivery_intents s)" "dn_payload r = Some (JObj p)"
    by (auto simp: stored_intent_def)
  with assms(1) have "intent_backed r" by (simp add: deliveries_ok_def)
  with r(2) have "obj_get p ''tenant_id'' = JStr (dn_tenant r)"
      "obj_get p ''natural_key'' = JStr (dn_natural_key r)"
    by (auto simp: intent_backed_def)
  with that [OF r] text_col_str [OF assms(3)] text_col_str [OF assms(4)] show thesis by simp
qed

lemma one_more_key:
  assumes "one_per_key ds" and "filter (\<lambda>d. dr_tenant d = dr_tenant x \<and>
      dr_natural_key d = dr_natural_key x) ds = []"
  shows "one_per_key (ds @ [x])"
  using assms by (auto simp: one_per_key_def)

lemma new_record_ok:
  assumes ok: "deliveries_ok s" and i: "stored_intent p s"
    and t: "text_col p ''tenant_id'' = Inr t" and key: "text_col p ''natural_key'' = Inr k"
    and c: "obj_item p ''candidate_hash'' = Inr c"
    and absent: "delivery_records_for t k s = []"
  shows "deliveries_ok (s\<lparr>delivery_records :=
      delivery_records s @ [new_delivery_record now t k (py_str c)]\<rparr>)"
proof -
  let ?d = "new_delivery_record now t k (py_str c)"
  obtain r where r: "r \<in> set (delivery_intents s)" "dn_payload r = Some (JObj p)" "dn_tenant r = t"
    "dn_natural_key r = k" by (rule stored_row [OF ok i t key])
  have "obj_get p ''candidate_hash'' = c" using c by (rule obj_item_eq)
  with r have backed: "record_backed ?d r"
    by (simp add: record_backed_def new_delivery_record_def intent_content_def)
  have "length (delivery_records_for t k s) =
      length (filter (\<lambda>d. dr_tenant d = t \<and> dr_natural_key d = k) (delivery_records s))"
    by (simp add: delivery_records_for_def)
  with absent have "filter (\<lambda>d. dr_tenant d = t \<and> dr_natural_key d = k) (delivery_records s) = []"
    by simp
  then have "one_per_key (delivery_records s @ [?d])"
    using ok by (intro one_more_key) (simp_all add: deliveries_ok_def new_delivery_record_def)
  moreover have "\<exists>r\<in>set (delivery_intents s). record_backed d r"
    if "d \<in> set (delivery_records s @ [?d])" for d
    using that ok r(1) backed unfolding deliveries_ok_def by (cases "d = ?d") auto
  ultimately show ?thesis using ok unfolding deliveries_ok_def by simp
qed

lemma record_delivery_ok:
  assumes t: "text_col p ''tenant_id'' = Inr t" and key: "text_col p ''natural_key'' = Inr k"
    and c: "obj_item p ''candidate_hash'' = Inr c"
  shows "triple deliveries_ok (\<lambda>s. stored_intent p s \<and> delivery_records_for t k s = [])
     (record_delivery now t i k (py_str c)) (\<lambda>_. stored_intent p)"
  unfolding record_delivery_def Let_def
proof (rule triple_bind)
  show "triple deliveries_ok (\<lambda>s. stored_intent p s \<and> delivery_records_for t k s = [])
      (insert_delivery_record (new_delivery_record now t k (py_str c))) (\<lambda>_. stored_intent p)"
    unfolding insert_delivery_record_def
  proof (rule triple_modify, goal_cases)
    case (1 s s')
    then have "s' = s\<lparr>delivery_records :=
        delivery_records s @ [new_delivery_record now t k (py_str c)]\<rparr>" by auto
    moreover have "stored_intent p s'" using 1(2) calculation by (simp add: stored_intent_def)
    ultimately show ?case using new_record_ok [OF 1(1) _ t key c] 1(2) by simp
  qed
  show "triple deliveries_ok (stored_intent p) (bind (insert_delivery_operation q) (\<lambda>_. ret v))
      (\<lambda>_. stored_intent p)" for q v
  proof (rule triple_bind)
    show "triple deliveries_ok (stored_intent p) (insert_delivery_operation q) (\<lambda>_. stored_intent p)"
      unfolding insert_delivery_operation_def
      by (rule triple_modify) (auto simp: deliveries_ok_def stored_intent_def)
    show "triple deliveries_ok (stored_intent p) (ret v) (\<lambda>_. stored_intent p)" for u :: unit
      by (rule triple_return)
  qed
qed

lemma execute_delivery_ok:
  "triple deliveries_ok (stored_intent p) (execute_delivery_intent now p) (\<lambda>_. stored_intent p)"
  unfolding execute_delivery_intent_def
proof (intro triple_engine_tx triple_lifted triple_find)
  fix t key k c P
  assume t: "text_col p ''tenant_id'' = Inr t" and k: "text_col p ''natural_key'' = Inr k"
    and c: "obj_item p ''candidate_hash'' = Inr c"
  show "triple deliveries_ok (\<lambda>s. (stored_intent p s \<and> find_delivery_operation t key s = None) \<and>
      first_row (delivery_records_for t k s) = None) (record_delivery now t key k (py_str c))
      (\<lambda>_. stored_intent p)"
    by (rule triple_weaken [OF record_delivery_ok [OF t k c]]) simp_all
qed (rule triple_return, simp)+

lemma triple_if:
  "triple J P m Q \<Longrightarrow> triple J P m' Q \<Longrightarrow> triple J P (if b then m else m') Q"
  by simp

lemma triple_carried: "triple J P m (\<lambda>_. P) \<Longrightarrow> (\<And>v. triple J P (f v) R) \<Longrightarrow> triple J P (bind m f) R"
  by (rule triple_bind)

lemmas quiet_steps = quiet [OF provider_frame.keeps_interrupt]
  quiet [OF provider_frame.keeps_delivery_records(1)]
  quiet [OF provider_frame.keeps_complete_delivery]

lemma process_delivery_ok:
  "triple deliveries_ok (stored_intent p) (process_delivery_intent V now fp p) (\<lambda>_. stored_intent p)"
proof -
  have exec: "triple deliveries_ok (stored_intent p) (deliver_and_complete V now fp p)
      (\<lambda>_. stored_intent p)"
    unfolding deliver_and_complete_def
    by (intro triple_carried [OF execute_delivery_ok] triple_carried [OF quiet_steps(1)]
        triple_carried [OF quiet_steps(2)] triple_if quiet_steps(3) triple_return)
  have rest: "triple deliveries_ok (stored_intent p)
      (if timed_out fp then
         bind (record_delivery_observation V now p ''reconcile-timeout''
           (no_delivery ''unknown'' ''reconciliation_timeout'')) (\<lambda>_. ret None)
       else
         bind (bind (query (reconcile_delivery_intent p)) lift_res) (\<lambda>out.
         bind (record_delivery_observation V now p ''reconcile'' out) (\<lambda>ob.
         if do_status out \<in> {''unknown'', ''conflict''} then ret None
         else if do_status out = ''absent'' then deliver_and_complete V now fp p
         else if do_status out \<noteq> ''present'' then ret None
         else complete_delivery V now fp p ob))) (\<lambda>_. stored_intent p)"
    by (intro triple_if triple_carried [OF quiet_steps(2)] triple_carried [OF triple_pure(5)] exec
        quiet_steps(3) triple_return)
  show ?thesis
    unfolding process_delivery_intent_def
    by (intro triple_lifted triple_load triple_return triple_weaken [OF rest]) simp_all
qed

lemma deliver_ok: "triple deliveries_ok (\<lambda>_. True) (deliver V now fp a k b) (\<lambda>_ _. True)"
proof -
  have rest: "triple deliveries_ok (stored_intent p)
      (bind (if created then interrupt fp ''delivery-intent'' else ret ()) (\<lambda>_.
       bind (lift_res (obj_item p ''intent_id'')) (\<lambda>iid.
       bind (delivery_checkpoint V now a (''delivery-intent:'' @ py_str iid)) (\<lambda>k1.
       bind (process_delivery_intent V now fp p) (\<lambda>completion.
       case completion of
         None \<Rightarrow> delivery_reconciliation V now fp a k1 (''delivery-reconciliation:'' @ py_str iid)
       | Some c \<Rightarrow> finish_delivery V now fp a c))))) (\<lambda>_. stored_intent p)" for p created
    by (intro triple_carried triple_lifted triple_if triple_return process_delivery_ok
        triple_cases(2) quiet provider_frame.keeps_interrupt provider_frame.keeps_delivery_steps
        provider_frame.keeps_finish)
  show ?thesis
    unfolding deliver_def
  proof (rule triple_bind [OF ensure_delivery_ok], goal_cases)
    case (1 v)
    obtain p created where v: "v = (p, created)" by fastforce
    show ?case unfolding v prod.case by (rule triple_weaken [OF rest]) (rule TrueI | assumption)+
  qed
qed

lemma process_stored_ok:
  "triple deliveries_ok (\<lambda>_. True) (process_stored_delivery V now fp a) (\<lambda>_ _. True)"
  unfolding process_stored_delivery_def
proof (rule triple_load)
  show "triple deliveries_ok (\<lambda>s. True \<and> delivery_intent_for_workflow (ac_tenant a) (ac_workflow a) s =
      Inr (Some p)) (process_delivery_intent V now fp p) (\<lambda>_ _. True)" for p
    by (rule triple_weaken [OF process_delivery_ok]) (auto dest: loaded_stored)
qed (simp add: triple_def)

interpretation deliveries: delivery_engine keeps_deliveries
proof unfold_locales
  show "keeps keeps_deliveries (deliver V now fp a k b)"
    "keeps keeps_deliveries (process_stored_delivery V now fp a)" for V now fp a k b
    by (rule triple_deliveries [OF deliver_ok], rule triple_deliveries [OF process_stored_ok])
qed (auto simp: keeps_deliveries_def intro!: quiet_deliveries)


section \<open>Runs\<close>

text \<open>
  Any interleaving of intake, activation, the engine's operations and the Change 4 entry points,
  from a store in which nothing has been delivered.  Every operation may fail or be interrupted.
\<close>

inductive delivery_run :: "validators \<Rightarrow> 'a policy_db_scheme \<Rightarrow> bool" for V where
  started: "delivery_intents s = [] \<Longrightarrow> delivery_records s = [] \<Longrightarrow> delivery_run V s"
| delivered: "delivery_run V s \<Longrightarrow> intake V now d t s = (x, s') \<Longrightarrow> delivery_run V s'"
| activated: "delivery_run V s \<Longrightarrow> activate_case V now t c r p s = (x, s') \<Longrightarrow> delivery_run V s'"
| driven: "delivery_run V s \<Longrightarrow> ticket_handoff V now fp a k s = (x, s') \<Longrightarrow> delivery_run V s'"
| reconciled: "delivery_run V s \<Longrightarrow> recover_reconciliation V now fp a k s = (y, s') \<Longrightarrow> delivery_run V s'"
| expired_sla: "delivery_run V s \<Longrightarrow> check_sla V now fp a k s = (y, s') \<Longrightarrow> delivery_run V s'"
| commanded: "delivery_run V s \<Longrightarrow> submit_command V now t c i ty e s = (z, s') \<Longrightarrow> delivery_run V s'"
| recovered: "delivery_run V s \<Longrightarrow> recover_pending_commands V now a s = (w, s') \<Longrightarrow> delivery_run V s'"
| policy_activated: "delivery_run V s \<Longrightarrow> activate_policy_approval V now fp t c f s = (u, s') \<Longrightarrow>
    delivery_run V s'"
| approval_submitted: "delivery_run V s \<Longrightarrow>
    submit_approval_decision V now fp t c rid d n who role s = (z, s') \<Longrightarrow> delivery_run V s'"
| revoked: "delivery_run V s \<Longrightarrow> revoke_fixture_grant now t c s = (u, s') \<Longrightarrow> delivery_run V s'"
| policy_recovered: "delivery_run V s \<Longrightarrow> recover_policy_approval V now fp a s = (u, s') \<Longrightarrow>
    delivery_run V s'"
| delivery_recovered: "delivery_run V s \<Longrightarrow> recover_delivery V now fp a k s = (u, s') \<Longrightarrow>
    delivery_run V s'"
| delivery_reconciled: "delivery_run V s \<Longrightarrow> recover_delivery_reconciliation V now fp a k s = (u, s') \<Longrightarrow>
    delivery_run V s'"

lemma check_sla_keeps: "keeps keeps_deliveries (check_sla V now fp a k)"
  unfolding check_sla_def by (intro deliveries.keeps_bind deliveries.keeps_if) auto

lemma intake_keeps_deliveries:
  "keeps (keeps_deliveries :: 'a policy_db_scheme \<Rightarrow> _) (intake V now d t)"
proof (rule keepsI)
  fix s s' :: "'a policy_db_scheme" and x
  assume "intake V now d t s = (x, s')"
  then have "ledger_db.more s' = ledger_db.more s" using intake_journal by blast
  then have "same_provider s s'" unfolding same_provider_def by (cases s; cases s') simp
  then show "keeps_deliveries s s'" by (simp add: keeps_deliveries_def same_provider_ok)
qed

lemma delivery_run_ok: "delivery_run V s \<Longrightarrow> deliveries_ok s"
proof (induction rule: delivery_run.induct)
  case (started s)
  then show ?case
    by (simp add: deliveries_ok_def one_per_workflow_def one_per_key_def)
qed (auto simp: keeps_deliveries_def
      dest!: keepsD [OF intake_keeps_deliveries] keepsD [OF deliveries.keeps_activate]
        keepsD [OF deliveries.keeps_handoff] keepsD [OF deliveries.keeps_recover_reconciliation]
        keepsD [OF check_sla_keeps] keepsD [OF deliveries.keeps_submit]
        keepsD [OF deliveries.keeps_recover_pending] keepsD [OF deliveries.keeps_activate_policy]
        keepsD [OF deliveries.keeps_submit_approval] keepsD [OF deliveries.keeps_revoke]
        keepsD [OF deliveries.keeps_recover_policy] keepsD [OF deliveries.keeps_recover_delivery]
        keepsD [OF deliveries.keeps_recover_delivery_reconciliation])

text \<open>
  C6.  One delivery per workflow: in every run, with any failures, interruptions and repeated
  recoveries, a workflow has at most one outbound delivery intent, the provider holds at most one
  record for its natural key, and every record of the provider is version 1 of a stored intent and
  carries the candidate hash of that intent.
\<close>

theorem one_delivery_per_workflow:
  assumes "delivery_run V s"
  shows "length (filter (\<lambda>r. dn_tenant r = t \<and> dn_workflow r = w) (delivery_intents s)) \<le> 1 \<and>
    length (delivered_for i s) \<le> 1 \<and>
    (\<forall>d\<in>set (delivery_records s). \<exists>r\<in>set (delivery_intents s).
       d \<in> set (delivered_for r s) \<and> dr_version d = 1 \<and> dr_sha256 d = intent_content r)"
proof (intro conjI ballI)
  have ok: "deliveries_ok s" using assms by (rule delivery_run_ok)
  then show "length (filter (\<lambda>r. dn_tenant r = t \<and> dn_workflow r = w) (delivery_intents s)) \<le> 1"
    unfolding deliveries_ok_def one_per_workflow_def by simp
  show "length (delivered_for i s) \<le> 1"
    using ok unfolding deliveries_ok_def one_per_key_def delivered_for_def by simp
  fix d assume d: "d \<in> set (delivery_records s)"
  then obtain r where "r \<in> set (delivery_intents s)" and r: "record_backed d r"
    using ok unfolding deliveries_ok_def by blast
  moreover have "d \<in> set (delivered_for r s)"
    using d r by (simp add: delivered_for_def record_backed_def)
  ultimately show "\<exists>r\<in>set (delivery_intents s).
      d \<in> set (delivered_for r s) \<and> dr_version d = 1 \<and> dr_sha256 d = intent_content r"
    using r by (intro bexI [of _ r]) (simp_all add: record_backed_def)
qed

end
