(* ===== verification/ApprovalChain.thy ===== *)
theory ApprovalChain
  imports PolicyProps
begin

text \<open>
  The end-to-end property of the Change 4 records: what \<open>policy.py\<close> builds for one allowed
  delivery is accepted by \<open>approval_is_authorized\<close> of the contract layer, until it expires; and
  what that function accepts is an active grant, an allow decision and an approval that are all
  bound to the same candidate, checkpoint and evidence.
\<close>

lemma payload_of_schema: "require_schema V p sid n = Inr () \<Longrightarrow> validate_payload V p = Inr ()"
  by (simp add: require_schema_def)

lemma list_item_list: "obj_get p k = JList es \<Longrightarrow> list_item p k = Inr es"
  by (simp add: list_item_def obj_item_get py_iter_def)

lemma bound_of_input:
  assumes g: "issue_fixture_grant V tenant subject role t0 status expires = Inr g"
    and q: "pi_grant q = Some g"
    and d: "evaluate_fixture_policy V q t1 = Inr d"
    and b: "bind_fixture_authorization V d g budget e t2 = Inr b"
  shows "obj_get b ''tenant_id'' = JStr (pi_tenant_id q)" "obj_get b ''case_id'' = JStr (pi_case_id q)"
    "obj_get b ''case_revision_id'' = JStr (pi_case_revision_id q)"
    "obj_get b ''workflow_id'' = JStr (pi_workflow_id q)"
    "obj_get b ''checkpoint_id'' = JStr (pi_checkpoint_id q)"
    "obj_get b ''workflow_version'' = JInt (pi_workflow_version q)"
    "obj_get b ''candidate_hash'' = JStr (pi_candidate_hash q)"
    "obj_get b ''evidence_hashes'' = jlist (pi_evidence_hashes q)"
    "obj_get b ''policy_version'' = JStr API_503_POLICY_VERSION"
    "\<exists>h. obj_get b ''policy_decision_sha256'' = JStr h \<and> h \<noteq> []"
    "\<exists>h. obj_get b ''grant_sha256'' = JStr h \<and> h \<noteq> []"
  using bound [OF b] decided [OF d] issued [OF g] list_item_list [of d "''evidence_hashes''"]
  by (simp_all add: jlist_def)

lemma no_or_else [simp]: "or_else (Inr False) b = b" "or_else (Inr True) b = Inr True"
  by (simp_all add: or_else_def)

lemma approved_chain:
  assumes g: "issue_fixture_grant V tenant subject role t0 status expires = Inr g"
    and q: "pi_grant q = Some g"
    and d: "evaluate_fixture_policy V q t1 = Inr d" and allow: "obj_get d ''decision'' = JStr ''allow''"
    and b: "bind_fixture_authorization V d g budget e t2 = Inr b"
    and r: "build_approval_request V b t3 = Inr r"
    and a: "build_approval_decision V r who arole ''approved'' t4 = Inr a"
    and open': "valid_instant e" "now < e"
    and texts: "pi_candidate_hash q \<noteq> []" "who \<noteq> []" "arole \<noteq> []"
  shows "validate_hash_bound_approval V r a b
     \<lparr>aq_case_revision_id = pi_case_revision_id q, aq_checkpoint_id = pi_checkpoint_id q,
      aq_workflow_version = pi_workflow_version q, aq_candidate_hash = pi_candidate_hash q,
      aq_evidence_hashes = pi_evidence_hashes q, aq_tenant_id = pi_tenant_id q,
      aq_approver_id = who, aq_approver_role = arole\<rparr> now = Inr ()" (is "?hash")
    and "legacy_approval_ok r a (pi_case_revision_id q) (pi_evidence_hashes q) now = Inr True"
      (is "?legacy")
    and "validate_payload V r = Inr ()" "validate_payload V a = Inr ()"
proof -
  note B = bound_of_input [OF g q d b]
  have pol: "policy_allows q t1" using allow_facts(1) [OF d allow q] .
  have bV: "validate_authorization_binding V b = Inr ()"
      "\<exists>h. obj_get b ''authorization_binding_sha256'' = JStr h \<and> h \<noteq> []"
      "obj_get b ''expires_at'' = JStr (timestamp e)" using bound(6-8) [OF b] by simp_all
  obtain re where re: "list_item b ''evidence_hashes'' = Inr re" and r': "r = request_record b re t3"
    and rV: "validate_approval_request V r = Inr ()" by (rule requested_record [OF r])
  have re': "re = map JStr (pi_evidence_hashes q)"
    using re B(8) list_item_list [of b "''evidence_hashes''"] by (simp add: jlist_def)
  obtain ae where ae: "list_item r ''evidence_hashes'' = Inr ae"
    and a': "a = obj_set (approval_record r ae who arole ''approved'' t4) ''decision_sha256''
      (JStr (content_hash (approval_record r ae who arole ''approved'' t4) ''decision_sha256''))"
    and aV: "validate_approval_decision V a = Inr ()" by (rule approved_record [OF a])
  have R: "\<forall>f\<in>{''tenant_id'', ''case_id'', ''case_revision_id'', ''candidate_hash'', ''workflow_id'',
      ''checkpoint_id'', ''workflow_version'', ''authorization_binding_sha256'',
      ''policy_decision_sha256'', ''policy_version'', ''grant_sha256'', ''expires_at''}.
      obj_get r f = obj_get b f"
      "obj_get r ''evidence_hashes'' = JList re" "\<exists>i. obj_get r ''approval_request_id'' = JStr i"
    by (simp_all add: r' request_record_def)
  have ae': "ae = re" using ae list_item_list [OF R(2)] by simp
  have A: "\<forall>f\<in>{''tenant_id'', ''case_id'', ''case_revision_id'', ''candidate_hash'', ''workflow_id'',
      ''checkpoint_id'', ''workflow_version'', ''authorization_binding_sha256'', ''expires_at'',
      ''approval_request_id''}. obj_get a f = obj_get r f"
      "obj_get a ''evidence_hashes'' = JList re" "obj_get a ''decision'' = JStr ''approved''"
      "obj_get a ''approver_id'' = JStr who" "obj_get a ''approver_role'' = JStr arole"
      "obj_get a ''decision_sha256'' \<notin> {JNull, JStr [], JList []}"
      "require_hash a ''decision_sha256'' ''approval-decision'' = Inr ()"
    by (simp_all add: a' approval_record_def ae')
  show "validate_payload V r = Inr ()" "validate_payload V a = Inr ()"
    using rV aV payload_of_schema
    unfolding validate_approval_request_def validate_approval_decision_def by blast+
  have ids: "pi_workflow_id q \<noteq> []" "pi_checkpoint_id q \<noteq> []"
    using pol by (simp_all add: policy_allows_def)
  have rf: "require_fields r request_fields ''approval-request'' = Inr ()"
    using R(1) B bV(2) ids
    by (auto simp: require_fields_def request_fields_def API_503_POLICY_VERSION_def)
  have af: "require_fields a approval_fields ''approval-decision'' = Inr ()"
    using A R(1) B bV(2) ids texts
    by (auto simp: require_fields_def approval_fields_def)
  have same: "same_fields r a request_decision_fields ''approval-decision'' = Inr ()"
    using A R by (simp add: same_fields_def request_decision_fields_def)
  have bind': "\<forall>f\<in>set request_binding_fields. obj_get r f = obj_get b f"
    using R(1) by (simp add: request_binding_fields_def)
  have stale: "stale_evidence r (pi_evidence_hashes q) = Inr False"
    using R(2) re' by (simp add: stale_evidence_def obj_get_or_get py_iter_def)
  have exp: "expired (parse_time (obj_get a ''expires_at'')) now = Inr False"
    using A(1) R(1) bV(3) open' by (simp add: expiry_open)
  show ?hash
    unfolding validate_hash_bound_approval_def Let_def
    using rV aV bV(1) rf af same bind' stale exp A R B by simp
  have set: "evidence_set r = Inr (set re)" "evidence_set a = Inr (set re)"
    using R(2) A(2) re'
    by (simp_all add: evidence_set_def obj_get_or_get py_set_def py_iter_def list_all_iff)
  show ?legacy
    unfolding legacy_approval_ok_def using A R B set exp re' by simp
qed

lemma chain_authorized:
  assumes g: "issue_fixture_grant V tenant subject role t0 status (Some ge) = Inr g"
    and q: "pi_grant q = Some g" "pi_action q = ''outbound_delivery.execute''"
    and d: "evaluate_fixture_policy V q t1 = Inr d" and allow: "obj_get d ''decision'' = JStr ''allow''"
    and b: "bind_fixture_authorization V d g budget e t2 = Inr b"
    and r: "build_approval_request V b t3 = Inr r"
    and a: "build_approval_decision V r who arole ''approved'' t4 = Inr a"
    and open': "valid_instant e" "now < e" "valid_instant ge" "now < ge"
    and texts: "pi_subject_id q \<noteq> []" "pi_candidate_hash q \<noteq> []" "who \<noteq> []" "arole \<noteq> []"
  shows "approval_is_authorized V r a (pi_case_revision_id q) (pi_evidence_hashes q)
     \<lparr>ac_binding = Some b, ac_grant = Some g, ac_decision = Some d,
      ac_checkpoint_id = Some (pi_checkpoint_id q), ac_workflow_version = Some (pi_workflow_version q),
      ac_candidate_hash = Some (pi_candidate_hash q), ac_tenant_id = Some (pi_tenant_id q),
      ac_approver_id = Some who, ac_approver_role = Some arole\<rparr> now = Inr True"
proof -
  note chain = approved_chain [OF g q(1) d allow b r a open'(1,2) texts(2-4)]
  have ge: "\<exists>ge. obj_get g ''expires_at'' = JStr (timestamp ge) \<and> valid_instant ge \<and> now < ge"
    using issued(7) [OF g] open' by auto
  have pol: "policy_allows q t1" using allow_facts(1) [OF d allow q(1)] .
  have bf: "py_str (obj_get_or b ''delivery_resource_id'' (JStr [])) = pi_resource_id q"
      "py_str (obj_get_or b ''data_classification'' (JStr [])) = pi_data_classification q"
    using bound(4,5) [OF b] pol by (simp_all add: obj_get_or_get py_str_def policy_allows_def)
  have prof: "validate_change4_authorization_profile V b g d
      ((profile_of q)\<lparr>pq_subject_id := None, pq_role := None\<rparr>) now = Inr ()"
    by (rule authorized_profile [OF g q(1) d allow b open'(1,2) ge texts(1,2)]) simp
  show ?thesis
    unfolding approval_is_authorized_def change4_approval_ok_def
    using chain prof by (simp add: bf q(2) profile_of_def)
qed


text \<open>
  C7.  The approval chain is accepted: a grant issued by \<open>issue_fixture_grant\<close>, an \<open>allow\<close>
  decision of \<open>evaluate_fixture_policy\<close> for \<open>outbound_delivery.execute\<close> under that grant, the
  binding of \<open>bind_fixture_authorization\<close>, its approval request and an \<open>approved\<close> approval
  decision authorize the delivery in the sense of \<open>approval_is_authorized\<close>, for exactly the
  case revision, checkpoint, candidate and evidence the decision was made for, as long as neither
  the grant nor the binding has expired.
\<close>

theorem approval_chain_authorizes:
  assumes g: "issue_fixture_grant V tenant subject role t0 status (Some ge) = Inr g"
    and q: "pi_grant q = Some g" "pi_action q = ''outbound_delivery.execute''"
    and d: "evaluate_fixture_policy V q t1 = Inr d" and allow: "obj_get d ''decision'' = JStr ''allow''"
    and b: "bind_fixture_authorization V d g budget e t2 = Inr b"
    and r: "build_approval_request V b t3 = Inr r"
    and a: "build_approval_decision V r who arole ''approved'' t4 = Inr a"
    and open': "valid_instant e" "now < e" "valid_instant ge" "now < ge"
    and texts: "pi_subject_id q \<noteq> []" "pi_candidate_hash q \<noteq> []" "who \<noteq> []" "arole \<noteq> []"
  shows "approval_is_authorized V r a (pi_case_revision_id q) (pi_evidence_hashes q)
     \<lparr>ac_binding = Some b, ac_grant = Some g, ac_decision = Some d,
      ac_checkpoint_id = Some (pi_checkpoint_id q), ac_workflow_version = Some (pi_workflow_version q),
      ac_candidate_hash = Some (pi_candidate_hash q), ac_tenant_id = Some (pi_tenant_id q),
      ac_approver_id = Some who, ac_approver_role = Some arole\<rparr> now = Inr True"
  by (rule chain_authorized [OF assms])

lemma caught_True [simp]:
  "catch_res P (\<lambda>_. Inr False) m = Inr True \<longleftrightarrow> m = Inr True"
  by (cases m) (auto simp: catch_res_def)

text \<open>What an accepted profile and an accepted approval fix.\<close>

definition unexpired :: "json \<Rightarrow> instant \<Rightarrow> bool" where
  "unexpired v now = (case parse_time v of Some (Aware t) \<Rightarrow> now < t | _ \<Rightarrow> False)"

lemma not_expired: "expired (parse_time v) now = Inr False \<Longrightarrow> unexpired v now"
  by (auto simp: expired_def not_after_def unexpired_def split: option.splits pytime.splits)

lemma same_fieldsD: "same_fields l r fs n = Inr u \<Longrightarrow> f \<in> set fs \<Longrightarrow> obj_get r f = obj_get l f"
  by (auto simp: same_fields_def)

lemma profile_accepted:
  assumes "validate_change4_authorization_profile V b g d p now = Inr ()" and "pq_require_allow p"
  shows "obj_get d ''decision'' = JStr ''allow''" "obj_get g ''status'' = JStr ''active''"
    "unexpired (obj_get g ''expires_at'') now" "unexpired (obj_get b ''expires_at'') now"
    "obj_get b ''candidate_hash'' = JStr (pq_candidate_hash p)"
    "obj_get b ''checkpoint_id'' = JStr (pq_checkpoint_id p)"
    "obj_get d ''candidate_hash'' = obj_get b ''candidate_hash''"
    "obj_get d ''checkpoint_id'' = obj_get b ''checkpoint_id''"
    "obj_get d ''action'' = JStr (pq_action p)"
    "obj_get d ''grant_sha256'' = obj_get b ''grant_sha256''"
    "obj_get g ''grant_sha256'' = obj_get b ''grant_sha256''"
    "obj_get g ''grant_sha256'' = JStr (content_hash g ''grant_sha256'')"
    "obj_get d ''policy_decision_sha256'' = JStr (content_hash d ''policy_decision_sha256'')"
    "obj_get b ''authorization_binding_sha256'' = JStr (content_hash b ''authorization_binding_sha256'')"
proof -
  note v = assms(1) [unfolded validate_change4_authorization_profile_def Let_def bind_res_eq_Inr]
  have d: "validate_authorization_binding V b = Inr ()"
      "require_hash g ''grant_sha256'' ''capability-grant'' = Inr ()"
      "require_hash d ''policy_decision_sha256'' ''policy-decision'' = Inr ()"
      "same_fields b g binding_grant_fields ''authorization-binding'' = Inr ()"
      "same_fields b d binding_decision_fields ''authorization-binding'' = Inr ()"
    using v by simp_all
  show "obj_get d ''decision'' = JStr ''allow''" "obj_get g ''status'' = JStr ''active''"
    "obj_get d ''action'' = JStr (pq_action p)" using v assms(2) by simp_all
  show "unexpired (obj_get g ''expires_at'') now" "unexpired (obj_get b ''expires_at'') now"
    using v by (auto split: if_splits intro: not_expired)
  show "obj_get b ''candidate_hash'' = JStr (pq_candidate_hash p)"
    "obj_get b ''checkpoint_id'' = JStr (pq_checkpoint_id p)" using v by simp_all
  show "obj_get d ''candidate_hash'' = obj_get b ''candidate_hash''"
    "obj_get d ''checkpoint_id'' = obj_get b ''checkpoint_id''"
    "obj_get d ''grant_sha256'' = obj_get b ''grant_sha256''"
    by (rule same_fieldsD [OF d(5)], simp add: binding_decision_fields_def)+
  show "obj_get g ''grant_sha256'' = obj_get b ''grant_sha256''"
    by (rule same_fieldsD [OF d(4)]) (simp add: binding_grant_fields_def)
  show "obj_get g ''grant_sha256'' = JStr (content_hash g ''grant_sha256'')"
    "obj_get d ''policy_decision_sha256'' = JStr (content_hash d ''policy_decision_sha256'')"
    using d(2,3) by (simp_all add: require_hash_def)
  show "obj_get b ''authorization_binding_sha256'' = JStr (content_hash b ''authorization_binding_sha256'')"
    using d(1) by (auto simp: validate_authorization_binding_def require_hash_def)
qed

lemma approval_accepted:
  assumes "validate_hash_bound_approval V r a b q now = Inr ()"
  shows "obj_get a ''decision'' = JStr ''approved''" "unexpired (obj_get a ''expires_at'') now"
    "obj_get a ''approver_id'' = JStr (aq_approver_id q)"
    "obj_get a ''candidate_hash'' = JStr (aq_candidate_hash q)"
    "obj_get a ''checkpoint_id'' = JStr (aq_checkpoint_id q)"
    "obj_get a ''authorization_binding_sha256'' = obj_get b ''authorization_binding_sha256''"
    "obj_get a ''decision_sha256'' = JStr (content_hash a ''decision_sha256'')"
proof -
  note v = assms [unfolded validate_hash_bound_approval_def Let_def bind_res_eq_Inr]
  have same: "same_fields r a request_decision_fields ''approval-decision'' = Inr ()"
    and bind': "\<forall>f\<in>set request_binding_fields. obj_get r f = obj_get b f"
    and hash: "require_hash a ''decision_sha256'' ''approval-decision'' = Inr ()"
    using v by simp_all
  show "obj_get a ''decision'' = JStr ''approved''" "obj_get a ''approver_id'' = JStr (aq_approver_id q)"
    using v by simp_all
  show "unexpired (obj_get a ''expires_at'') now" using v by (auto intro: not_expired)
  have "obj_get r ''candidate_hash'' = JStr (aq_candidate_hash q)"
    "obj_get r ''checkpoint_id'' = JStr (aq_checkpoint_id q)" using v by simp_all
  then show "obj_get a ''candidate_hash'' = JStr (aq_candidate_hash q)"
    "obj_get a ''checkpoint_id'' = JStr (aq_checkpoint_id q)"
    using same_fieldsD [OF same] by (simp_all add: request_decision_fields_def)
  have "obj_get r ''authorization_binding_sha256'' = obj_get b ''authorization_binding_sha256''"
    using bind' by (simp add: request_binding_fields_def)
  then show "obj_get a ''authorization_binding_sha256'' = obj_get b ''authorization_binding_sha256''"
    using same_fieldsD [OF same] by (simp add: request_decision_fields_def)
  show "obj_get a ''decision_sha256'' = JStr (content_hash a ''decision_sha256'')"
    using hash by (simp add: require_hash_def)
qed

text \<open>
  C8.  No delivery without authority: whenever \<open>approval_is_authorized\<close> accepts an approval
  presented with its binding, grant and policy decision, the decision is an \<open>allow\<close> for
  \<open>outbound_delivery.execute\<close>, the grant is active, grant, binding and approval have not
  expired, the approval is \<open>approved\<close> by the caller's approver, decision, binding and approval all
  name the caller's candidate and checkpoint, the approval carries the hash of the binding, the
  binding the hash of the grant, and each of the four records carries its own content hash.
\<close>

theorem authorized_delivery_bound:
  assumes "approval_is_authorized V r a revision ev c now = Inr True"
    and "ac_binding c = Some b" "ac_grant c = Some g" "ac_decision c = Some d"
  shows "\<exists>candidate checkpoint approver.
     ac_candidate_hash c = Some candidate \<and> ac_checkpoint_id c = Some checkpoint \<and>
     ac_approver_id c = Some approver \<and>
     obj_get d ''decision'' = JStr ''allow'' \<and> obj_get d ''action'' = JStr ''outbound_delivery.execute'' \<and>
     obj_get g ''status'' = JStr ''active'' \<and>
     (\<forall>p\<in>{g, b, a}. unexpired (obj_get p ''expires_at'') now) \<and>
     obj_get a ''decision'' = JStr ''approved'' \<and> obj_get a ''approver_id'' = JStr approver \<and>
     (\<forall>p\<in>{d, b, a}. obj_get p ''candidate_hash'' = JStr candidate \<and>
                   obj_get p ''checkpoint_id'' = JStr checkpoint) \<and>
     obj_get a ''authorization_binding_sha256'' = obj_get b ''authorization_binding_sha256'' \<and>
     obj_get b ''grant_sha256'' = obj_get g ''grant_sha256'' \<and>
     (\<forall>(p, k)\<in>{(g, ''grant_sha256''), (d, ''policy_decision_sha256''),
        (b, ''authorization_binding_sha256''), (a, ''decision_sha256'')}.
        obj_get p k = JStr (content_hash p k))"
proof -
  have ok: "change4_approval_ok V r a revision ev c now = Inr True"
    using assms(1) by (auto simp: approval_is_authorized_def split: if_splits)
  then obtain ck wv ch t who role where c: "ac_checkpoint_id c = Some ck"
      "ac_workflow_version c = Some wv" "ac_candidate_hash c = Some ch" "ac_tenant_id c = Some t"
      "ac_approver_id c = Some who" "ac_approver_role c = Some role"
    using assms(2-4) by (auto simp: change4_approval_ok_def split: option.splits)
  obtain p q where p: "validate_change4_authorization_profile V b g d p now = Inr ()"
      "pq_require_allow p" "pq_candidate_hash p = ch" "pq_checkpoint_id p = ck"
      "pq_action p = ''outbound_delivery.execute''"
    and q: "validate_hash_bound_approval V r a b q now = Inr ()" "aq_candidate_hash q = ch"
      "aq_checkpoint_id q = ck" "aq_approver_id q = who"
  proof -
    let ?p = "\<lparr>pq_action = ''outbound_delivery.execute'', pq_case_revision_id = revision,
                pq_checkpoint_id = ck, pq_workflow_version = wv, pq_candidate_hash = ch,
                pq_evidence_hashes = ev,
                pq_resource_id = py_str (obj_get_or b ''delivery_resource_id'' (JStr [])),
                pq_data_classification = py_str (obj_get_or b ''data_classification'' (JStr [])),
                pq_tenant_id = Some t, pq_subject_id = None, pq_role = None,
                pq_require_allow = True\<rparr>"
    let ?q = "\<lparr>aq_case_revision_id = revision, aq_checkpoint_id = ck, aq_workflow_version = wv,
                aq_candidate_hash = ch, aq_evidence_hashes = ev, aq_tenant_id = t,
                aq_approver_id = who, aq_approver_role = role\<rparr>"
    have "validate_change4_authorization_profile V b g d ?p now = Inr ()"
        "validate_hash_bound_approval V r a b ?q now = Inr ()"
      using ok assms(2-4) c by (simp_all add: change4_approval_ok_def)
    then show thesis by (intro that [of ?p ?q]) simp_all
  qed
  show ?thesis
    using profile_accepted [OF p(1,2)] approval_accepted [OF q(1)] c p(3-5) q(2-4)
    by (intro exI [of _ ch] exI [of _ ck] exI [of _ who]) simp
qed

section \<open>A concrete chain\<close>

definition accepting :: validators where
  "accepting = (\<lambda>_. Some (\<lambda>_. None))"

lemma accepting_ok:
  "obj_get p ''schema_id'' = JStr sid \<Longrightarrow> sid \<noteq> [] \<Longrightarrow> require_schema accepting p sid n = Inr ()"
  by (simp add: require_schema_def validate_payload_accepting accepting_def)

definition sample_day :: instant where
  "sample_day = 63902174400000000"

definition sample_grant :: obj where
  "sample_grant =
     (let g = grant_record ''tenant-alpha'' ''subject-1'' ''fixture-controller'' sample_day ''active''
                (sample_day + 1800000000)
      in obj_set g ''grant_sha256'' (JStr (content_hash g ''grant_sha256'')))"

definition sample_input :: policy_input where
  "sample_input =
     \<lparr>pi_tenant_id = ''tenant-alpha'', pi_subject_id = ''subject-1'', pi_role = ''fixture-controller'',
      pi_action = ''outbound_delivery.execute'', pi_case_id = ''case-1'',
      pi_case_revision_id = ''revision-1'', pi_workflow_id = ''workflow-1'',
      pi_checkpoint_id = ''checkpoint-1'', pi_workflow_version = 7, pi_candidate_hash = ''candidate'',
      pi_evidence_hashes = [''evidence-1'', ''evidence-2''], pi_grant = Some sample_grant,
      pi_resource_id = ''fixture-local-im:api-503'', pi_data_classification = ''synthetic'',
      pi_remaining_budget = 1\<rparr>"

definition sample_decision :: obj where
  "sample_decision =
     (let d = decision_record sample_input True ''fixture_policy_allowed'' sample_day
      in obj_set d ''policy_decision_sha256'' (JStr (content_hash d ''policy_decision_sha256'')))"

definition sample_binding :: obj where
  "sample_binding =
     (let b = binding_record sample_decision sample_grant [JStr ''evidence-1'', JStr ''evidence-2''] 1
                (sample_day + 600000000) sample_day
      in obj_set b ''authorization_binding_sha256''
           (JStr (content_hash b ''authorization_binding_sha256'')))"

definition sample_request :: obj where
  "sample_request =
     request_record sample_binding [JStr ''evidence-1'', JStr ''evidence-2''] sample_day"

definition sample_approval :: obj where
  "sample_approval =
     (let a = approval_record sample_request [JStr ''evidence-1'', JStr ''evidence-2''] ''approver-1''
                ''fixture-approver'' ''approved'' sample_day
      in obj_set a ''decision_sha256'' (JStr (content_hash a ''decision_sha256'')))"

lemma sample_instant: "valid_instant (sample_day + n)" if "0 \<le> n" "n \<le> 1800000000"
  using that by (simp add: sample_day_def valid_instant_def max_instant_def us_per_day_def us_per_second_def)

lemma sample_issued:
  "issue_fixture_grant accepting ''tenant-alpha'' ''subject-1'' ''fixture-controller'' sample_day
     ''active'' (Some (sample_day + 1800000000)) = Inr sample_grant"
  by (simp add: issue_fixture_grant_def validate_capability_grant_def accepting_ok sample_grant_def
      Let_def grant_record_def [of _ _ _ _ _ "_ + _"])

lemma sample_grant_fields:
  "obj_get sample_grant ''tenant_id'' = JStr ''tenant-alpha''"
  "obj_get sample_grant ''subject_id'' = JStr ''subject-1''"
  "obj_get sample_grant ''role'' = JStr ''fixture-controller''"
  "obj_get sample_grant ''status'' = JStr ''active''"
  "obj_get sample_grant ''scopes'' = jlist (sort ALLOWLISTED_ACTIONS)"
  "obj_get sample_grant ''resource_scope'' = JStr ''fixture-local-im:api-503''"
  "obj_get sample_grant ''data_classifications'' = jlist [''synthetic'']"
  "obj_get sample_grant ''expires_at'' = JStr (timestamp (sample_day + 1800000000))"
  by (simp_all add: sample_grant_def Let_def grant_record_def [of _ _ _ _ _ "_ + _"]
      API_503_DELIVERY_RESOURCE_SCOPE_def API_503_DELIVERY_RESOURCE_ID_def)

lemma sample_allowed: "policy_allows sample_input sample_day"
proof -
  have "grant_covers sample_input sample_grant sample_day"
    by (simp add: grant_covers_def sample_grant_fields sample_input_def jlist_def py_in_def py_str_def
        parse_timestamp sample_instant) (simp add: ALLOWLISTED_ACTIONS_def)
  then show ?thesis
    by (simp add: policy_allows_def sample_input_def FIXTURE_CONTROLLER_ROLE_def
        API_503_DELIVERY_RESOURCE_ID_def)
qed

lemma sample_evaluated: "evaluate_fixture_policy accepting sample_input sample_day = Inr sample_decision"
proof -
  have "policy_verdict sample_input sample_day = Inr (True, ''fixture_policy_allowed'')"
    by (simp add: policy_verdict_allow sample_allowed)
  moreover have "obj_get sample_decision ''schema_id'' = JStr POLICY_DECISION_SCHEMA_ID"
    by (simp add: sample_decision_def decision_record_def Let_def)
  ultimately show ?thesis
    by (simp add: evaluate_fixture_policy_def sample_decision_def [unfolded Let_def, symmetric] Let_def
        validate_policy_decision_def accepting_ok)
qed

lemma sample_evidence:
  "list_item sample_decision ''evidence_hashes'' = Inr [JStr ''evidence-1'', JStr ''evidence-2'']"
  "list_item sample_binding ''evidence_hashes'' = Inr [JStr ''evidence-1'', JStr ''evidence-2'']"
  "list_item sample_request ''evidence_hashes'' = Inr [JStr ''evidence-1'', JStr ''evidence-2'']"
  by (simp_all add: list_item_list decided(8) [OF sample_evaluated] sample_binding_def
      binding_record_def [of _ _ "_ # _"] request_record_def [of _ "_ # _"] sample_request_def Let_def
      sample_input_def jlist_def)

lemma obj_item_member: "k \<in> fst ` set p \<Longrightarrow> obj_item p k = Inr (obj_get p k)"
  by (simp add: obj_item_iff)

lemma sample_decision_items:
  "k \<in> {''policy_decision_sha256'', ''candidate_hash'', ''tenant_id'', ''case_id'', ''case_revision_id'',
      ''workflow_id'', ''checkpoint_id'', ''workflow_version'', ''action'', ''policy_decision_id'',
      ''policy_version''} \<Longrightarrow> obj_item sample_decision k = Inr (obj_get sample_decision k)"
  by (rule obj_item_member)
     (auto simp: sample_decision_def decision_record_def Let_def obj_set_def)

lemma sample_grant_items:
  "k \<in> {''grant_sha256'', ''grant_id'', ''grant_version'', ''subject_id'', ''role''} \<Longrightarrow>
     obj_item sample_grant k = Inr (obj_get sample_grant k)"
  by (rule obj_item_member) (auto simp: sample_grant_def grant_record_def Let_def obj_set_def)

lemma sample_binding_items:
  "k \<in> {''tenant_id'', ''authorization_binding_sha256'', ''case_id'', ''case_revision_id'',
      ''candidate_hash'', ''policy_decision_id'', ''expires_at'', ''workflow_id'', ''checkpoint_id'',
      ''workflow_version'', ''policy_decision_sha256'', ''policy_version'', ''grant_sha256''} \<Longrightarrow>
     obj_item sample_binding k = Inr (obj_get sample_binding k)"
  by (rule obj_item_member) (auto simp: sample_binding_def binding_record_def Let_def obj_set_def)

lemma sample_request_items:
  "k \<in> {''tenant_id'', ''approval_request_id'', ''case_id'', ''case_revision_id'', ''candidate_hash'',
      ''expires_at'', ''workflow_id'', ''checkpoint_id'', ''workflow_version'',
      ''authorization_binding_sha256''} \<Longrightarrow>
     obj_item sample_request k = Inr (obj_get sample_request k)"
  by (rule obj_item_member) (auto simp: sample_request_def request_record_def)

lemma sample_valid:
  "validate_authorization_binding accepting sample_binding = Inr ()"
  "validate_approval_request accepting sample_request = Inr ()"
  "validate_approval_decision accepting sample_approval = Inr ()"
proof -
  have "obj_get sample_binding ''evidence_hashes'' = JList [JStr ''evidence-1'', JStr ''evidence-2'']"
      "obj_get sample_binding ''schema_id'' = JStr AUTHORIZATION_BINDING_SCHEMA_ID"
      "require_hash sample_binding ''authorization_binding_sha256'' ''authorization-binding'' = Inr ()"
    by (simp_all add: sample_binding_def binding_record_def Let_def)
  then show "validate_authorization_binding accepting sample_binding = Inr ()"
    by (simp add: validate_authorization_binding_def accepting_ok)
qed (simp_all add: validate_approval_request_def validate_approval_decision_def accepting_ok
      sample_request_def request_record_def sample_approval_def approval_record_def Let_def)

lemma sample_bound:
  "bind_fixture_authorization accepting sample_decision sample_grant 1 (sample_day + 600000000)
     sample_day = Inr sample_binding"
  unfolding bind_fixture_authorization_def Let_def
  by (simp add: sample_decision_items sample_grant_items sample_evidence
      binding_record_def [symmetric] sample_binding_def [unfolded Let_def, symmetric] sample_valid)

lemma sample_requested: "build_approval_request accepting sample_binding sample_day = Inr sample_request"
  unfolding build_approval_request_def Let_def
  by (simp add: sample_binding_items sample_evidence
      request_record_def [symmetric] sample_request_def [symmetric] sample_valid)

lemma sample_approved:
  "build_approval_decision accepting sample_request ''approver-1'' ''fixture-approver'' ''approved''
     sample_day = Inr sample_approval"
  unfolding build_approval_decision_def Let_def
  by (simp add: sample_request_items sample_evidence
      approval_record_def [symmetric] sample_approval_def [unfolded Let_def, symmetric] sample_valid)

lemma approved_sample:
  "approval_is_authorized accepting sample_request sample_approval ''revision-1''
     [''evidence-1'', ''evidence-2'']
     \<lparr>ac_binding = Some sample_binding, ac_grant = Some sample_grant,
      ac_decision = Some sample_decision, ac_checkpoint_id = Some ''checkpoint-1'',
      ac_workflow_version = Some 7, ac_candidate_hash = Some ''candidate'',
      ac_tenant_id = Some ''tenant-alpha'', ac_approver_id = Some ''approver-1'',
      ac_approver_role = Some ''fixture-approver''\<rparr> (sample_day + 1) = Inr True"
proof -
  have "obj_get sample_decision ''decision'' = JStr ''allow''"
    using decision_verdict [OF sample_evaluated] sample_allowed by simp
  from chain_authorized [OF sample_issued _ _ sample_evaluated this sample_bound
      sample_requested sample_approved, of "sample_day + 1"]
  show ?thesis by (simp add: sample_input_def sample_instant)
qed

theorem approval_chain_authorizes_witness:
  "approval_is_authorized accepting sample_request sample_approval ''revision-1''
     [''evidence-1'', ''evidence-2'']
     \<lparr>ac_binding = Some sample_binding, ac_grant = Some sample_grant,
      ac_decision = Some sample_decision, ac_checkpoint_id = Some ''checkpoint-1'',
      ac_workflow_version = Some 7, ac_candidate_hash = Some ''candidate'',
      ac_tenant_id = Some ''tenant-alpha'', ac_approver_id = Some ''approver-1'',
      ac_approver_role = Some ''fixture-approver''\<rparr> (sample_day + 1) = Inr True"
proof -
  have "obj_get sample_decision ''decision'' = JStr ''allow''"
    using decision_verdict [OF sample_evaluated] sample_allowed by simp
  from approval_chain_authorizes [OF sample_issued _ _ sample_evaluated this sample_bound
      sample_requested sample_approved, of "sample_day + 1"]
  show ?thesis by (simp add: sample_input_def sample_instant)
qed

theorem authorized_delivery_bound_witness:
  "obj_get sample_grant ''status'' = JStr ''active'' \<and>
   obj_get sample_approval ''authorization_binding_sha256'' =
     obj_get sample_binding ''authorization_binding_sha256''"
  using authorized_delivery_bound [OF approved_sample] by simp

theorem policy_default_deny_witness:
  "obj_get sample_decision ''decision'' = JStr ''allow''"
  using policy_default_deny [OF sample_evaluated] sample_allowed by simp

end
