(* ===== verification/DeliveryProps.thy ===== *)
theory DeliveryProps
  imports DeliveryRuns ApprovalChain
begin

text \<open>
  Authority over the outbound delivery: what \<open>_recover_delivery\<close> has checked whenever it changes the
  delivery tables, that an approval is decided once, that an executed delivery is not executed
  again, and the two places where the code does not keep its promise: a stored delivery intent is
  processed again without looking at the grant, and the fixture grant of a tenant can be stored for
  one workflow only.
\<close>

section \<open>Nothing is delivered without authority\<close>

lemma read_simp:
  "bind (bind (query f) lift_res) g s = (case f s of Inl e \<Rightarrow> (Inl e, s) | Inr v \<Rightarrow> g v s)"
  "bind (lift_res r) h s = (case r of Inl e \<Rightarrow> (Inl e, s) | Inr v \<Rightarrow> h v s)"
  by (auto simp: bind_def split: sum.splits)

lemma denial_quiet: "authorization_denial V now fp a k reason s = (x, s') \<Longrightarrow> same_provider s s'"
  by (rule keepsD [OF provider_frame.keeps_delivery_steps(1)])

text \<open>The records that authorize a delivery of activation \<open>a\<close>, and that they are current.\<close>

definition authority ::
  "validators \<Rightarrow> instant \<Rightarrow> activation_row \<Rightarrow> 'a policy_db_scheme \<Rightarrow> obj \<Rightarrow> obj \<Rightarrow> obj \<Rightarrow> obj \<Rightarrow> bool"
where
  "authority V now a s b g d p \<longleftrightarrow>
     (let t = ac_tenant a; w = ac_workflow a in
      authorization_binding_for_workflow t w s = Inr (Some b) \<and>
      grant_for_workflow t w s = Inr (Some g) \<and>
      policy_decision_for_workflow t w s = Inr (Some d) \<and>
      (\<exists>r rid. approval_request_for_workflow t w s = Inr (Some r) \<and>
        obj_item r ''approval_request_id'' = Inr rid \<and>
        approval_decision_for_request t (py_str rid) s = Inr (Some p) \<and>
        approval_is_current V now a r p b s = Inr True) \<and>
      authorization_profile_is_current V now a b d g s = Inr True)"

lemma recover_delivery_cases:
  assumes run: "recover_delivery V now fp a k s = (x, s')" and changed: "\<not> same_provider s s'"
  obtains b g d p where "cp_state (ck_row k) = DELIVERING" "authority V now a s b g d p"
    "deliver V now fp a k b s = (x, s')"
proof -
  let ?t = "ac_tenant a" and ?w = "ac_workflow a"
  have moved: "s' \<noteq> s" using changed by (auto simp: provider_frame.refl_R)
  have denied: False if "authorization_denial V now fp a k reason s = (x, s')" for reason
    using denial_quiet [OF that] changed by simp
  have state: "cp_state (ck_row k) = DELIVERING"
    using run moved by (auto simp: recover_delivery_def Let_def split: if_splits)
  show thesis
    using run moved state that
    by (auto simp: recover_delivery_def Let_def read_simp authority_def dest!: denied
        split: sum.splits option.splits if_splits)
qed

lemma current_profileD:
  assumes "authorization_profile_is_current V now a b d g s = Inr True"
  shows "grant_is_active (ac_tenant a) (py_str (obj_get g ''grant_id'')) s"
    and "\<exists>m p u. candidate_material a s = Inr m \<and>
      validate_change4_authorization_profile V b g d p now = Inr u \<and>
      pq_candidate_hash p = fst m \<and> pq_require_allow p"
proof -
  obtain gid where gid: "obj_item g ''grant_id'' = Inr gid"
    and active: "grant_is_active (ac_tenant a) (py_str gid) s"
    and cur: "bind_res (current_profile V now a b d g s) (\<lambda>_. Inr True) = Inr True"
    using assms by (auto simp: authorization_profile_is_current_def bind_res_eq_Inr split: if_splits)
  show "grant_is_active (ac_tenant a) (py_str (obj_get g ''grant_id'')) s"
    using active obj_item_eq [OF gid] by simp
  from cur have "current_profile V now a b d g s = Inr ()" by (simp add: bind_res_eq_Inr)
  then show "\<exists>m p u. candidate_material a s = Inr m \<and>
      validate_change4_authorization_profile V b g d p now = Inr u \<and>
      pq_candidate_hash p = fst m \<and> pq_require_allow p"
    unfolding current_profile_def bind_res_eq_Inr split_def
    by (elim exE conjE) (intro exI conjI, assumption, assumption, simp_all)
qed

lemma current_approvalD:
  assumes "approval_is_current V now a r p b s = Inr True"
  shows "\<exists>m q u. candidate_material a s = Inr m \<and>
    validate_hash_bound_approval V r p b q now = Inr u \<and> aq_candidate_hash q = fst m"
  using assms unfolding approval_is_current_def caught_True bind_res_eq_Inr split_def
  by (elim exE conjE) (intro exI conjI, assumption, assumption, simp_all)

text \<open>
  C5.  Nothing is delivered without authority: if \<open>_recover_delivery\<close> changes the delivery intents or
  the tables of the fixture-local provider, on any path, then the workflow was \<open>DELIVERING\<close> and the
  journal held an \<open>allow\<close> decision, a binding, a grant without a status event and an \<open>approved\<close>
  decision for it; grant, binding and approval had not expired, all three name the candidate the
  verifier accepted, and the approval and the binding carry matching content hashes.
\<close>

theorem delivery_needs_authority:
  assumes "recover_delivery V now fp a k s = (x, s')" and "\<not> same_provider s s'"
  shows "cp_state (ck_row k) = DELIVERING \<and>
    (\<exists>b g d p candidate evidence.
      authorization_binding_for_workflow (ac_tenant a) (ac_workflow a) s = Inr (Some b) \<and>
      grant_for_workflow (ac_tenant a) (ac_workflow a) s = Inr (Some g) \<and>
      policy_decision_for_workflow (ac_tenant a) (ac_workflow a) s = Inr (Some d) \<and>
      (\<exists>rid. approval_decision_for_request (ac_tenant a) rid s = Inr (Some p)) \<and>
      candidate_material a s = Inr (candidate, evidence) \<and>
      grant_is_active (ac_tenant a) (py_str (obj_get g ''grant_id'')) s \<and>
      obj_get d ''decision'' = JStr ''allow'' \<and> obj_get p ''decision'' = JStr ''approved'' \<and>
      (\<forall>q\<in>{g, b, p}. unexpired (obj_get q ''expires_at'') now) \<and>
      (\<forall>q\<in>{d, b, p}. obj_get q ''candidate_hash'' = JStr candidate) \<and>
      obj_get p ''authorization_binding_sha256'' = obj_get b ''authorization_binding_sha256'' \<and>
      obj_get b ''authorization_binding_sha256'' =
        JStr (content_hash b ''authorization_binding_sha256''))"
proof -
  obtain b g d p where state: "cp_state (ck_row k) = DELIVERING" and auth: "authority V now a s b g d p"
    by (rule recover_delivery_cases [OF assms])
  then obtain r rid where stored: "authorization_binding_for_workflow (ac_tenant a) (ac_workflow a) s = Inr (Some b)"
      "grant_for_workflow (ac_tenant a) (ac_workflow a) s = Inr (Some g)"
      "policy_decision_for_workflow (ac_tenant a) (ac_workflow a) s = Inr (Some d)"
      "approval_decision_for_request (ac_tenant a) (py_str rid) s = Inr (Some p)"
    and cur: "authorization_profile_is_current V now a b d g s = Inr True"
    and app: "approval_is_current V now a r p b s = Inr True"
    unfolding authority_def Let_def by blast
  obtain candidate evidence q where c: "candidate_material a s = Inr (candidate, evidence)"
      "pq_candidate_hash q = candidate" "pq_require_allow q"
    and prof: "validate_change4_authorization_profile V b g d q now = Inr ()"
    using current_profileD(2) [OF cur] by force
  obtain q' where c': "aq_candidate_hash q' = candidate"
    and hash: "validate_hash_bound_approval V r p b q' now = Inr ()"
    using current_approvalD [OF app] c(1) by auto
  note P = profile_accepted [OF prof c(3)] and A = approval_accepted [OF hash]
  have "\<forall>q\<in>{g, b, p}. unexpired (obj_get q ''expires_at'') now"
      "\<forall>q\<in>{d, b, p}. obj_get q ''candidate_hash'' = JStr candidate"
    using P(3,4,5,7) A(2,4) c(2) c' by simp_all
  with state stored c(1) P(1,14) A(1,6) current_profileD(1) [OF cur] show ?thesis by blast
qed

section \<open>A stored intent is delivered whatever happened to the grant\<close>

definition intent_columns :: "string list" where
  "intent_columns = [''tenant_id'', ''case_id'', ''case_revision_id'', ''workflow_id'', ''checkpoint_id'',
     ''intent_id'', ''natural_key'', ''idempotency_key'', ''candidate_hash'']"

lemma text_item: "obj_get p k = JStr v \<Longrightarrow> obj_item p k = Inr (JStr v) \<and> text_col p k = Inr v"
  by (simp add: text_col_def sql_text_def obj_item_str)

lemma observe_outcome:
  assumes texts: "\<forall>f\<in>set intent_columns. \<exists>v. obj_get i f = JStr v"
    and ids: "obj_get i ''tenant_id'' = JStr t" "obj_get i ''intent_id'' = JStr iid"
    and fk: "has_delivery_intent t iid s"
    and obs: "\<forall>q\<in>set (delivery_observations s). \<exists>p. dv_payload q = Some (JObj p)"
    and V: "V OUTBOUND_DELIVERY_OBSERVATION_SCHEMA_ID = Some (\<lambda>_. None)"
  shows "\<exists>ob s'. record_delivery_observation V now i phase (no_delivery ''absent'' reason) s = (Inr ob, s') \<and>
    same_provider s s'"
proof -
  from texts obtain c r w ck where cols: "obj_item i ''case_id'' = Inr (JStr c)"
      "obj_item i ''case_revision_id'' = Inr (JStr r)" "obj_item i ''workflow_id'' = Inr (JStr w)"
      "obj_item i ''checkpoint_id'' = Inr (JStr ck)"
    by (auto simp: intent_columns_def dest!: text_item)
  note ids' = text_item [OF ids(1), THEN conjunct1] text_item [OF ids(2), THEN conjunct1]
  have "\<exists>p q. delivery_observation_payload now i phase (no_delivery ''absent'' reason) = Inr p \<and>
      obj_get p ''schema_id'' = JStr OUTBOUND_DELIVERY_OBSERVATION_SCHEMA_ID \<and>
      delivery_observation_row_of p = Inr q \<and> dv_tenant q = t \<and> dv_intent q = iid \<and>
      dv_status q = ''absent''"
    by (simp add: delivery_observation_payload_def cols ids' no_delivery_def jopt_def jopt_int_def
        delivery_observation_row_of_def text_col_def text_opt_col_def int_opt_col_def sql_text_def
        sql_text_opt_def)
  then obtain p q where p: "delivery_observation_payload now i phase (no_delivery ''absent'' reason) = Inr p"
    and schema: "obj_get p ''schema_id'' = JStr OUTBOUND_DELIVERY_OBSERVATION_SCHEMA_ID"
    and row: "delivery_observation_row_of p = Inr q" "dv_tenant q = t" "dv_intent q = iid"
      "dv_status q = ''absent''" by blast
  have valid: "validate_outbound_delivery_observation V p = Inr ()"
    using schema V
    by (simp add: validate_outbound_delivery_observation_def require_schema_def validate_payload_def)
  let ?m = "record_delivery_observation V now i phase (no_delivery ''absent'' reason)"
  have "\<exists>ob s'. ?m s = (Inr ob, s')"
  proof (cases "find_delivery_observation t (dv_id q) s")
    case None
    then have "\<forall>x\<in>set (delivery_observations s). \<not> delivery_observation_clash q x"
      using row(2)
      by (auto simp: find_delivery_observation_def delivery_observation_clash_def filter_empty_conv)
    then have "insert_delivery_observation q s =
        (Inr (), s\<lparr>delivery_observations := delivery_observations s @ [q]\<rparr>)"
      using row fk by (simp add: insert_delivery_observation_def)
    then have "?m s = (Inr p, s\<lparr>delivery_observations := delivery_observations s @ [q]\<rparr>)"
      using None row(2)
      by (simp add: record_delivery_observation_def p valid row(1) contract_as_def bind_eq_Inr
          lift_res_eq_Inr)
    then show ?thesis by blast
  next
    case (Some x)
    with obs obtain p' where "dv_payload x = Some (JObj p')"
      by (auto simp: find_delivery_observation_def dest!: first_row_filterD)
    then have "?m s = (Inr p', s)"
      using Some row(2)
      by (simp add: record_delivery_observation_def p valid row(1) contract_as_def bind_eq_Inr
          lift_res_eq_Inr change4_payload_def)
    then show ?thesis by blast
  qed
  then show ?thesis using keepsD [OF provider_frame.keeps_delivery_records(1)] by blast
qed

text \<open>The first execution for a tenant the provider holds nothing of.\<close>

definition delivered_in :: "obj \<Rightarrow> 'a policy_db_scheme \<Rightarrow> bool" where
  "delivered_in i s \<longleftrightarrow> (\<exists>d\<in>set (delivery_records s). JStr (dr_tenant d) = obj_get i ''tenant_id'' \<and>
     JStr (dr_natural_key d) = obj_get i ''natural_key'' \<and>
     JStr (dr_sha256 d) = obj_get i ''candidate_hash'')"

lemma first_execution:
  assumes texts: "\<forall>f\<in>set intent_columns. \<exists>v. obj_get i f = JStr v"
    and tenant: "obj_get i ''tenant_id'' = JStr t"
    and none: "\<forall>d\<in>set (delivery_records s). dr_tenant d \<noteq> t"
      "\<forall>q\<in>set (delivery_operations s). dp_tenant q \<noteq> t"
  shows "\<exists>out s'. execute_delivery_intent now i s = (Inr out, s') \<and> delivered_in i s'"
proof -
  from texts obtain key nk c where cols: "text_col i ''idempotency_key'' = Inr key"
      "text_col i ''natural_key'' = Inr nk" "obj_item i ''candidate_hash'' = Inr (JStr c)"
    and got: "obj_get i ''natural_key'' = JStr nk" "obj_get i ''candidate_hash'' = JStr c"
    by (auto simp: intent_columns_def dest: text_item)
  have t: "text_col i ''tenant_id'' = Inr t" using text_item [OF tenant] by simp
  let ?r = "new_delivery_record now t nk c"
  have "find_delivery_operation t key s = None" "delivery_records_for t nk s = []"
    using none by (auto simp: find_delivery_operation_def delivery_records_for_def filter_empty_conv)
  moreover have "\<exists>out s'. record_delivery now t key nk c s = (Inr out, s') \<and>
      delivery_records s' = delivery_records s @ [?r]"
    using none
    by (auto simp: record_delivery_def Let_def bind_eq_Inr insert_policy_ok new_delivery_record_def
        has_delivery_record_def delivery_record_clash_def delivery_operation_clash_def)
  ultimately have "\<exists>out s'. execute_delivery_intent now i s = (Inr out, s') \<and>
      delivery_records s' = delivery_records s @ [?r]"
    by (simp add: execute_delivery_intent_def bind_eq_Inr lift_res_eq_Inr t cols py_str_def)
  then show ?thesis
    by (auto simp: delivered_in_def tenant got new_delivery_record_def)
qed

lemma delivered_grows: "policy_le s s' \<Longrightarrow> delivered_in i s \<Longrightarrow> delivered_in i s'"
  using set_mono_prefix unfolding policy_le_def delivered_in_def by blast

lemma delivered_later:
  assumes "m s = (Inr v, s1)" and "delivered_in i s1" and "keeps policy_le (f v)"
  shows "delivered_in i (snd (bind m f s))"
  using assms by (cases "f v s1") (auto simp: bind_ok dest: keepsD delivered_grows)

lemma stored_intent_delivered:
  assumes texts: "\<forall>f\<in>set intent_columns. \<exists>v. obj_get i f = JStr v"
    and ids: "obj_get i ''tenant_id'' = JStr t" "obj_get i ''intent_id'' = JStr iid"
    and fk: "has_delivery_intent t iid s"
    and obs: "\<forall>q\<in>set (delivery_observations s). \<exists>p. dv_payload q = Some (JObj p)"
    and none: "\<forall>d\<in>set (delivery_records s). dr_tenant d \<noteq> t"
      "\<forall>q\<in>set (delivery_operations s). dp_tenant q \<noteq> t"
    and V: "V OUTBOUND_DELIVERY_OBSERVATION_SCHEMA_ID = Some (\<lambda>_. None)"
    and fp: "\<not> timed_out fp" and open': "delivery_completion_for_intent t iid s = Inr None"
  shows "delivered_in i (snd (process_delivery_intent V now fp i s))"
proof -
  obtain ob s1 where ob: "record_delivery_observation V now i ''reconcile''
      (no_delivery ''absent'' ''fixture_delivery_absent'') s = (Inr ob, s1)" and s1: "same_provider s s1"
    using observe_outcome [of i t iid s V now "''reconcile''" "''fixture_delivery_absent''"] texts ids fk obs V
    by blast
  have step: "bind (record_delivery_observation V now i ''reconcile''
      (no_delivery ''absent'' ''fixture_delivery_absent'')) f s = f ob s1" for f
    using ob by (rule bind_ok)
  have "\<forall>d\<in>set (delivery_records s1). dr_tenant d \<noteq> t" "\<forall>q\<in>set (delivery_operations s1). dp_tenant q \<noteq> t"
    using none s1 by (simp_all add: same_provider_def)
  from first_execution [of i t s1 now] texts ids(1) this obtain out s2
    where run: "execute_delivery_intent now i s1 = (Inr out, s2)" and present: "delivered_in i s2" by blast
  have "delivered_in i (snd (deliver_and_complete V now fp i s1))"
    unfolding deliver_and_complete_def
    by (rule delivered_later, rule run, rule present)
       (intro policy_growth.keeps_bind policy_growth.keeps_if; auto)
  moreover have "delivery_records_for t nk s = []" for nk
    using none by (auto simp: delivery_records_for_def filter_empty_conv)
  then have "reconcile_delivery_intent i s = Inr (no_delivery ''absent'' ''fixture_delivery_absent'')"
    using texts text_item [OF ids(1)]
    by (auto simp: reconcile_delivery_intent_def intent_columns_def dest: text_item)
  then have "process_delivery_intent V now fp i s = deliver_and_complete V now fp i s1"
    using text_item [OF ids(1)] text_item [OF ids(2)] open' fp
    by (simp add: process_delivery_intent_def read_simp py_str_def step [unfolded no_delivery_def] no_delivery_def)
  ultimately show ?thesis by simp
qed

lemma process_stored:
  assumes "delivery_intent_for_workflow (ac_tenant a) (ac_workflow a) s = Inr (Some i)"
  shows "process_stored_delivery V now fp a s = process_delivery_intent V now fp i s"
  using assms by (simp add: process_stored_delivery_def read_simp)

lemma reconciliation_delivers:
  assumes "delivered_in i (snd (process_stored_delivery V now fp a s))"
  shows "delivered_in i (snd (recover_delivery_reconciliation V now fp a k s))"
proof (cases "process_stored_delivery V now fp a s")
  case (Pair x s1)
  show ?thesis
  proof (cases x)
    case (Inl e)
    then show ?thesis using assms Pair
      by (simp add: recover_delivery_reconciliation_def bind_err)
  next
    case (Inr v)
    show ?thesis
      unfolding recover_delivery_reconciliation_def
      by (rule delivered_later, rule Pair [unfolded Inr], use assms Pair in simp)
         (intro policy_growth.keeps_option policy_growth.keeps_bind; auto)
  qed
qed


section \<open>The fixture grant of a second workflow\<close>

text \<open>
  \<open>issue_fixture_grant\<close> derives the grant id from the tenant, the subject, the role and the fixed
  scope: every workflow of a tenant asks for the same id, which is the primary key of the table.
\<close>

lemma issued_grant_id:
  assumes "issue_fixture_grant V t subject role now status expires = Inr g"
    and "issue_fixture_grant V t subject role later status' expires' = Inr h"
  shows "obj_get h ''grant_id'' = obj_get g ''grant_id''"
proof -
  obtain e where g: "g = obj_set (grant_record t subject role now status e) ''grant_sha256''
      (JStr (content_hash (grant_record t subject role now status e) ''grant_sha256''))"
    by (rule issued_record [OF assms(1)])
  obtain e' where h: "h = obj_set (grant_record t subject role later status' e') ''grant_sha256''
      (JStr (content_hash (grant_record t subject role later status' e') ''grant_sha256''))"
    by (rule issued_record [OF assms(2)])
  show ?thesis by (simp add: g h grant_record_def)
qed

lemma issued_grant_row:
  assumes "issue_fixture_grant V t subject role now status expires = Inr g"
  shows "\<exists>r. grant_row_of t w g = Inr r \<and> gr_tenant r = t \<and> JStr (gr_id r) = obj_get g ''grant_id''"
proof -
  obtain e h where g: "g = obj_set (grant_record t subject role now status e) ''grant_sha256'' (JStr h)"
    using issued_record [OF assms] by metis
  show ?thesis
    by (simp add: g grant_row_of_def grant_record_def obj_set_def text_col_def list_col_def sql_text_def)
qed

lemma ensured_grant:
  assumes "ensure_fixture_grant V now a p s = (Inr g, s1)"
    and "grant_for_workflow (ac_tenant a) (ac_workflow a) s = Inr None"
  shows "issue_fixture_grant V (ac_tenant a) (pa_subject p) (pa_role p) now ''active'' None = Inr g"
    and "\<exists>r\<in>set (grants s1). gr_tenant r = ac_tenant a \<and> JStr (gr_id r) = obj_get g ''grant_id''"
proof -
  show issued: "issue_fixture_grant V (ac_tenant a) (pa_subject p) (pa_role p) now ''active'' None = Inr g"
    using assms
    by (auto simp: ensure_fixture_grant_def read_simp bind_eq_Inr lift_res_eq_Inr split: sum.splits)
  from issued_grant_row [OF issued] obtain r where r: "grant_row_of (ac_tenant a) (ac_workflow a) g = Inr r"
    "gr_tenant r = ac_tenant a" "JStr (gr_id r) = obj_get g ''grant_id''" by blast
  have "s1 = s\<lparr>grants := grants s @ [r]\<rparr>"
    using assms
    by (auto simp: ensure_fixture_grant_def read_simp issued r(1) bind_eq_Inr insert_grant_def)
  then show "\<exists>r\<in>set (grants s1). gr_tenant r = ac_tenant a \<and> JStr (gr_id r) = obj_get g ''grant_id''"
    using r by simp
qed

text \<open>
  C29.  One fixture grant per tenant: once a workflow of a tenant has its fixture grant, the grant of
  every other workflow of the tenant for the same subject and role is refused as
  \<open>capability_grant_persist_failed\<close>, at every later time and in every later state of the journal,
  and nothing is stored.
\<close>

theorem second_grant_refused:
  assumes "ensure_fixture_grant V now a p s = (Inr g, s1)"
    and "grant_for_workflow (ac_tenant a) (ac_workflow a) s = Inr None"
    and "policy_le s1 s2" and "ac_tenant b = ac_tenant a"
    and "pa_subject q = pa_subject p" and "pa_role q = pa_role p"
    and "grant_for_workflow (ac_tenant b) (ac_workflow b) s2 = Inr None"
    and "issue_fixture_grant V (ac_tenant b) (pa_subject q) (pa_role q) later ''active'' None = Inr h"
  shows "ensure_fixture_grant V later b q s2 =
    (Inl (WorkflowError ''capability_grant_persist_failed''), s2)"
proof -
  note first = ensured_grant [OF assms(1,2)]
  obtain r where r: "r \<in> set (grants s1)" "gr_tenant r = ac_tenant a" "JStr (gr_id r) = obj_get g ''grant_id''"
    using first(2) by blast
  obtain x where x: "grant_row_of (ac_tenant b) (ac_workflow b) h = Inr x" "gr_tenant x = ac_tenant b"
    "JStr (gr_id x) = obj_get h ''grant_id''" using issued_grant_row [OF assms(8)] by blast
  have "obj_get h ''grant_id'' = obj_get g ''grant_id''"
    using first(1) assms(4-6,8) by (intro issued_grant_id) simp_all
  then have "JStr (gr_id x) = JStr (gr_id r)" using r(3) x(3) by simp
  moreover have "r \<in> set (grants s2)" using r(1) assms(3) set_mono_prefix unfolding policy_le_def by blast
  ultimately have clash: "\<exists>y\<in>set (grants s2). grant_clash x y"
    using r(2) x(2) assms(4) by (intro bexI [of _ r]) (simp_all add: grant_clash_def)
  have "\<exists>m. insert_grant x s2 = (Inl (DatabaseError m), s2)"
    using clash 
    by (auto simp: insert_grant_def modify_def insert_row_def bind_res_def list_ex_iff)
  then obtain m where bad: "insert_grant x s2 = (Inl (DatabaseError m), s2)" by blast
  then have "bind (insert_grant x) (\<lambda>_. ret h) s2 = (Inl (DatabaseError m), s2)"
    by (rule bind_err)
  then show ?thesis
    using assms(7,8) x(1)
    by (simp add: ensure_fixture_grant_def read_simp engine_tx_def tx_def rethrow_def)
qed

section \<open>Decided once, executed once\<close>

lemma payload_row_grows:
  assumes "prefix xs ys" and "payload_row f (first_row (filter P xs)) = Inr (Some p)"
  shows "payload_row f (first_row (filter P ys)) = Inr (Some p)"
  using assms first_row_grows by (fastforce simp: payload_row_Some)

lemma policy_lookups_grow:
  assumes "policy_le s s'"
  shows "approval_request_for_workflow t w s = Inr (Some r) \<Longrightarrow> approval_request_for_workflow t w s' = Inr (Some r)"
    "approval_decision_for_request t i s = Inr (Some p) \<Longrightarrow> approval_decision_for_request t i s' = Inr (Some p)"
  using assms
  by (auto simp: policy_le_def approval_request_for_workflow_def approval_decision_for_request_def
      intro: payload_row_grows)

text \<open>
  C30.  An approval request is decided once: as soon as a decision for it is stored, a different
  decision, or one of a different approver, is refused as \<open>approval_decision_conflict\<close> in every later
  state of the journal, whatever version it expects, and changes nothing.
\<close>

theorem approval_decided_once:
  assumes "activation_for_tenant_case t c s' = Some a"
    and "approval_request_for_workflow t (ac_workflow a) s = Inr (Some r)"
    and "obj_get r ''approval_request_id'' = JStr rid"
    and "approval_decision_for_request t rid s = Inr (Some p)"
    and "policy_le s s'" and "latest_checkpoint t (ac_workflow a) s' = Inr (Some k)"
    and "decision \<in> {''approved'', ''rejected''}" and "role = FIXTURE_APPROVER_ROLE"
    and "obj_get p ''decision'' \<noteq> JStr decision \<or> obj_get p ''approver_id'' \<noteq> JStr who"
  shows "submit_approval_decision V now fp t c rid decision expected who role s' =
    (Inl (WorkflowError ''approval_decision_conflict''), s')"
proof -
  note found = assms(1) policy_lookups_grow(1) [OF assms(5,2)] policy_lookups_grow(2) [OF assms(5,4)]
  have "resubmit_approval V now fp a k r p decision who role s' =
      (Inl (WorkflowError ''approval_decision_conflict''), s')"
    using assms(9) by (auto simp: resubmit_approval_def read_simp require_def)
  then show ?thesis
    using assms(3,6-8) by (auto simp: submit_approval_decision_def read_simp found)
qed

text \<open>
  C31.  A delivery is executed once: after an execution of an intent that returned, executing the same
  intent again, at any later time and until another intent is delivered, returns the same delivery,
  version and content hash and writes nothing.
\<close>

theorem delivery_executed_once:
  assumes "execute_delivery_intent now i s = (Inr out, s1)" and "same_provider s1 s2"
  shows "\<exists>reason \<in> {''fixture_delivery_idempotent'', ''fixture_delivery_reconciled''}.
    execute_delivery_intent later i s2 = (Inr (out\<lparr>do_reason := reason\<rparr>), s2)"
proof -
  obtain t key where cols: "text_col i ''tenant_id'' = Inr t" "text_col i ''idempotency_key'' = Inr key"
    using assms(1) by (auto simp: execute_delivery_intent_def bind_eq_Inr lift_res_eq_Inr)
  have same: "find_delivery_operation t' k s2 = find_delivery_operation t' k s1"
      "delivery_records_for t' n s2 = delivery_records_for t' n s1" for t' k n
    using assms(2)
    by (simp_all add: same_provider_def find_delivery_operation_def delivery_records_for_def)
  show ?thesis
  proof (cases "find_delivery_operation t key s")
    case (Some p)
    with assms(1) cols have "s1 = s" "out = delivered_as (dp_delivery p) (dp_version p) (dp_sha256 p)
        ''fixture_delivery_idempotent''"
      by (auto simp: execute_delivery_intent_def bind_eq_Inr lift_res_eq_Inr)
    with Some cols show ?thesis
      by (simp add: execute_delivery_intent_def bind_eq_Inr lift_res_eq_Inr same delivered_as_def)
  next
    case None
    with assms(1) cols obtain nk where nk: "text_col i ''natural_key'' = Inr nk"
      by (auto simp: execute_delivery_intent_def bind_eq_Inr lift_res_eq_Inr)
    show ?thesis
    proof (cases "first_row (delivery_records_for t nk s)")
      case (Some r)
      with None assms(1) cols nk have "s1 = s" "out = delivered_as (dr_id r) (dr_version r)
          (dr_sha256 r) ''fixture_delivery_reconciled''"
        by (auto simp: execute_delivery_intent_def bind_eq_Inr lift_res_eq_Inr)
      with None Some cols nk show ?thesis
        by (simp add: execute_delivery_intent_def bind_eq_Inr lift_res_eq_Inr same delivered_as_def)
    next
      case absent: None
      with None assms(1) cols nk obtain c where
        "record_delivery now t key nk c s = (Inr out, s1)"
        by (auto simp: execute_delivery_intent_def bind_eq_Inr lift_res_eq_Inr)
      then obtain d n where out: "out = delivered_as d 1 c ''fixture_delivery_recorded''"
        and s1: "delivery_operations s1 = delivery_operations s @
          [\<lparr>dp_tenant = t, dp_key = key, dp_natural_key = nk, dp_delivery = d, dp_version = 1,
            dp_sha256 = c, dp_created_at = n\<rparr>]"
        by (auto simp: record_delivery_def Let_def bind_eq_Inr insert_policy_ok)
      have "filter (\<lambda>r. dp_tenant r = t \<and> dp_key r = key) (delivery_operations s) = []"
        using None by (simp add: find_delivery_operation_def)
      then have "find_delivery_operation t key s1 = Some
          \<lparr>dp_tenant = t, dp_key = key, dp_natural_key = nk, dp_delivery = d, dp_version = 1,
           dp_sha256 = c, dp_created_at = n\<rparr>"
        by (simp add: find_delivery_operation_def s1)
      with cols out show ?thesis
        by (simp add: execute_delivery_intent_def bind_eq_Inr lift_res_eq_Inr same delivered_as_def)
    qed
  qed
qed

end
