(* ===== verification/DeliverySample.thy ===== *)
theory DeliverySample
  imports DeliveryProps
begin

text \<open>
  A concrete store for the delivery properties: one workflow with its verified candidate, the grant,
  decision, binding, request and approval of the sample chain, and the runs the witnesses need.
\<close>

definition empty_policy :: policy_db where
  "empty_policy = journal_db.extend empty_journal
     \<lparr>investigations = [], agent_steps = [], tool_requests = [], tool_results = [], candidates = [],
      outcomes = [], policy_activations = [], grants = [], grant_status_events = [],
      policy_decisions = [], bindings = [], approval_requests = [], approvals = [],
      delivery_observations = [], delivery_records = [], delivery_operations = []\<rparr>"

lemma empty_policy_tables [simp]:
  "activations empty_policy = []" "delivery_intents empty_policy = []"
  "delivery_completions empty_policy = []" "checkpoints empty_policy = []"
  "investigations empty_policy = []" "candidates empty_policy = []" "outcomes empty_policy = []"
  "grants empty_policy = []" "grant_status_events empty_policy = []"
  "policy_decisions empty_policy = []" "bindings empty_policy = []"
  "approval_requests empty_policy = []" "approvals empty_policy = []"
  "delivery_observations empty_policy = []" "delivery_records empty_policy = []"
  "delivery_operations empty_policy = []"
  by (simp_all add: empty_policy_def empty_journal_def empty_ledger_def ledger_db.defs journal_db.defs)

section \<open>The store\<close>

definition sample_case :: activation_row where
  "sample_case = \<lparr>ac_tenant = ''tenant-alpha'', ac_workflow = ''workflow-1'', ac_id = ''activation-1'',
     ac_case = ''case-1'', ac_revision = ''revision-1'', ac_definition = WORKFLOW_DEFINITION_VERSION,
     ac_source = ''event-1'', ac_correlation = ''correlation-1'', ac_policy = ''policy'',
     ac_policy_version = ''v1'', ac_deadline_seconds = 60, ac_deadline = timestamp sample_day,
     ac_created_at = timestamp sample_day\<rparr>"

definition sample_investigation :: investigation_row where
  "sample_investigation = \<lparr>iv_tenant = ''tenant-alpha'', iv_id = ''investigation-1'',
     iv_workflow = ''workflow-1'', iv_checkpoint = ''checkpoint-1'', iv_case = ''case-1'',
     iv_revision = ''revision-1'', iv_manifest = ''manifest-1'', iv_context_sha256 = ''context'',
     iv_environment = ''fixture'', iv_evidence = Some [''evidence-1'', ''evidence-2''],
     iv_transcript = ''transcript-1'', iv_action_budget = 6, iv_tool_budget = 2, iv_no_progress = 2,
     iv_created_at = timestamp sample_day\<rparr>"

definition sample_candidate :: candidate_row where
  "sample_candidate = \<lparr>ca_tenant = ''tenant-alpha'', ca_id = ''candidate-1'', ca_workflow = ''workflow-1'',
     ca_checkpoint = ''checkpoint-1'', ca_manifest = ''manifest-1'', ca_context = ''context'',
     ca_evidence = Some [''evidence-1'', ''evidence-2''], ca_sha256 = ''candidate'', ca_risk = ''low'',
     ca_next_step = ''deliver'', ca_created_at = timestamp sample_day\<rparr>"

definition sample_outcome :: outcome_row where
  "sample_outcome = \<lparr>vo_tenant = ''tenant-alpha'', vo_id = ''outcome-1'', vo_workflow = ''workflow-1'',
     vo_checkpoint = ''checkpoint-1'', vo_manifest = ''manifest-1'', vo_candidate = ''candidate-1'',
     vo_sha256 = ''candidate'', vo_outcome = ''verified'', vo_reason = ''verified'',
     vo_recorded_at = timestamp sample_day\<rparr>"

definition request_id :: string where
  "request_id = py_str (obj_get sample_request ''approval_request_id'')"

definition sample_grant_row :: grant_row where
  "sample_grant_row = \<lparr>gr_tenant = ''tenant-alpha'', gr_id = py_str (obj_get sample_grant ''grant_id''),
     gr_workflow = ''workflow-1'', gr_sha256 = py_str (obj_get sample_grant ''grant_sha256''),
     gr_version = ''fixture-v1'', gr_subject = ''subject-1'', gr_role = ''fixture-controller'',
     gr_scope = ''fixture-local-im:api-503'', gr_classifications = Some [''synthetic''],
     gr_issued_at = timestamp sample_day, gr_expires_at = timestamp (sample_day + 1800000000),
     gr_payload = Some (JObj sample_grant)\<rparr>"

definition sample_decision_row :: policy_decision_row where
  "sample_decision_row = \<lparr>pd_tenant = ''tenant-alpha'', pd_id = ''decision-1'',
     pd_workflow = ''workflow-1'', pd_checkpoint = ''checkpoint-1'',
     pd_action = ''outbound_delivery.execute'', pd_sha256 = ''hash'', pd_input = ''input'',
     pd_decision = ''allow'', pd_reason = ''fixture_policy_allowed'', pd_version = ''v1'',
     pd_grant = ''grant'', pd_grant_sha256 = ''hash'', pd_candidate = ''candidate'',
     pd_evidence = Some [''evidence-1'', ''evidence-2''], pd_subject = ''subject-1'',
     pd_role = ''fixture-controller'', pd_resource = ''fixture-local-im:api-503'',
     pd_classification = ''synthetic'', pd_workflow_version = 7,
     pd_payload = Some (JObj sample_decision), pd_decided_at = timestamp sample_day\<rparr>"

definition sample_binding_row :: binding_row where
  "sample_binding_row = \<lparr>ab_tenant = ''tenant-alpha'', ab_id = ''binding-1'', ab_sha256 = ''hash'',
     ab_workflow = ''workflow-1'', ab_decision = ''decision-1'', ab_grant = ''grant'',
     ab_checkpoint = ''checkpoint-1'', ab_workflow_version = 7, ab_candidate = ''candidate'',
     ab_evidence = Some [''evidence-1'', ''evidence-2''],
     ab_expires_at = timestamp (sample_day + 600000000),
     ab_payload = Some (JObj sample_binding), ab_created_at = timestamp sample_day\<rparr>"

definition sample_request_row :: approval_request_row where
  "sample_request_row = \<lparr>ar_tenant = ''tenant-alpha'', ar_id = request_id, ar_workflow = ''workflow-1'',
     ar_binding = ''hash'', ar_checkpoint = ''checkpoint-1'', ar_workflow_version = 7,
     ar_payload = Some (JObj sample_request), ar_created_at = timestamp sample_day,
     ar_expires_at = timestamp (sample_day + 600000000)\<rparr>"

definition sample_approval_row :: approval_row where
  "sample_approval_row = \<lparr>ap_tenant = ''tenant-alpha'', ap_id = ''approval-1'', ap_request = request_id,
     ap_workflow = ''workflow-1'', ap_binding = ''hash'', ap_workflow_version = 7,
     ap_decision = ''approved'', ap_sha256 = ''hash'', ap_approver = ''approver-1'',
     ap_role = ''fixture-approver'', ap_payload = Some (JObj sample_approval),
     ap_decided_at = timestamp sample_day\<rparr>"

definition delivering :: checkpoint where
  "delivering = \<lparr>ck_row =
     \<lparr>cp_tenant = ''tenant-alpha'', cp_id = ''checkpoint-2'', cp_workflow = ''workflow-1'',
      cp_case = ''case-1'', cp_revision = ''revision-1'', cp_definition = WORKFLOW_DEFINITION_VERSION,
      cp_sequence = 9, cp_previous = Some ''checkpoint-1'', cp_state = DELIVERING,
      cp_resume = DELIVERING, cp_version = 9, cp_deadline = timestamp sample_day, cp_pending = Some [],
      cp_completed = Some [], cp_causation = None, cp_correlation = ''correlation-1'',
      cp_sha256 = ''hash'', cp_kind = None, cp_created_at = timestamp sample_day\<rparr>,
     ck_pending = [], ck_completed = []\<rparr>"

definition approved_store :: policy_db where
  "approved_store = empty_policy\<lparr>activations := [sample_case], checkpoints := [ck_row delivering],
     investigations := [sample_investigation], candidates := [sample_candidate],
     outcomes := [sample_outcome], grants := [sample_grant_row],
     policy_decisions := [sample_decision_row], bindings := [sample_binding_row],
     approval_requests := [sample_request_row], approvals := [sample_approval_row]\<rparr>"

lemma sample_ids [simp]:
  "ac_tenant sample_case = ''tenant-alpha''" "ac_workflow sample_case = ''workflow-1''"
  "ac_case sample_case = ''case-1''" "ac_revision sample_case = ''revision-1''"
  "ac_created_at sample_case = timestamp sample_day" "ac_correlation sample_case = ''correlation-1''"
  "cp_state (ck_row delivering) = DELIVERING" "cp_id (ck_row delivering) = ''checkpoint-2''"
  by (simp_all add: sample_case_def delivering_def)

lemma approved_reads:
  "authorization_binding_for_workflow ''tenant-alpha'' ''workflow-1'' approved_store = Inr (Some sample_binding)"
  "grant_for_workflow ''tenant-alpha'' ''workflow-1'' approved_store = Inr (Some sample_grant)"
  "policy_decision_for_workflow ''tenant-alpha'' ''workflow-1'' approved_store = Inr (Some sample_decision)"
  "approval_request_for_workflow ''tenant-alpha'' ''workflow-1'' approved_store = Inr (Some sample_request)"
  "approval_decision_for_request ''tenant-alpha'' request_id approved_store = Inr (Some sample_approval)"
  "grant_is_active t gid approved_store"
  "delivery_intent_for_workflow t w approved_store = Inr None"
  "activation_for_tenant_case ''tenant-alpha'' ''case-1'' approved_store = Some sample_case"
  by (simp_all add: approved_store_def authorization_binding_for_workflow_def grant_for_workflow_def
      policy_decision_for_workflow_def approval_request_for_workflow_def
      approval_decision_for_request_def grant_is_active_def delivery_intent_for_workflow_def
      activation_for_tenant_case_def payload_row_def change4_payload_def last_row_def
      sample_binding_row_def sample_grant_row_def sample_decision_row_def sample_request_row_def
      sample_approval_row_def)

lemma approved_material:
  "candidate_material sample_case approved_store = Inr (''candidate'', [''evidence-1'', ''evidence-2''])"
  by (simp add: candidate_material_def investigation_facts_def approved_reads
      investigation_activation_def manifest_evidence_def load_candidate_def last_row_def)
     (simp add: approved_store_def sample_investigation_def sample_candidate_def sample_outcome_def
       manifest_evidence_def load_candidate_def last_row_def)

lemma sample_allow: "obj_get sample_decision ''decision'' = JStr ''allow''"
  using decision_verdict [OF sample_evaluated] sample_allowed by simp

lemma sample_binding_fields:
  "obj_get sample_binding ''checkpoint_id'' = JStr ''checkpoint-1''"
  "obj_get sample_binding ''workflow_version'' = JInt 7"
  "obj_get sample_binding ''candidate_hash'' = JStr ''candidate''"
  "obj_get sample_binding ''evidence_hashes'' = jlist [''evidence-1'', ''evidence-2'']"
  "\<exists>h. obj_get sample_binding ''authorization_binding_sha256'' = JStr h"
  using bound_of_input [OF sample_issued _ sample_evaluated sample_bound] bound(7) [OF sample_bound]
  by (auto simp: sample_input_def)

lemma sample_current:
  "authorization_profile_is_current accepting (sample_day + 1) sample_case sample_binding
     sample_decision sample_grant approved_store = Inr True"
proof -
  have ge: "\<exists>ge. obj_get sample_grant ''expires_at'' = JStr (timestamp ge) \<and> valid_instant ge \<and>
      sample_day + 1 < ge"
    by (intro exI [of _ "sample_day + 1800000000"]) (simp add: sample_grant_fields sample_instant)
  have "validate_change4_authorization_profile accepting sample_binding sample_grant sample_decision
      ((profile_of sample_input)\<lparr>pq_subject_id := None, pq_role := None\<rparr>) (sample_day + 1) = Inr ()"
    by (rule authorized_profile [OF sample_issued _ sample_evaluated sample_allow sample_bound _ _ ge])
       (simp_all add: sample_input_def sample_instant)
  then have "current_profile accepting (sample_day + 1) sample_case sample_binding sample_decision
      sample_grant approved_store = Inr ()"
    using sample_binding_items [of "''checkpoint_id''"] sample_binding_items [of "''workflow_version''"]
    by (simp add: current_profile_def approved_material sample_binding_fields py_str_def py_int_def
        profile_of_def sample_input_def API_503_DELIVERY_RESOURCE_ID_def)
  then show ?thesis
    using sample_grant_items [of "''grant_id''"]
    by (simp add: authorization_profile_is_current_def approved_reads)
qed

lemma sample_still_approved:
  "approval_is_current accepting (sample_day + 1) sample_case sample_request sample_approval
     sample_binding approved_store = Inr True"
proof -
  have who: "obj_item sample_approval ''approver_id'' = Inr (JStr ''approver-1'')"
    by (rule obj_item_str) (simp add: sample_approval_def approval_record_def Let_def)
  have "validate_hash_bound_approval accepting sample_request sample_approval sample_binding
     \<lparr>aq_case_revision_id = pi_case_revision_id sample_input,
      aq_checkpoint_id = pi_checkpoint_id sample_input,
      aq_workflow_version = pi_workflow_version sample_input,
      aq_candidate_hash = pi_candidate_hash sample_input,
      aq_evidence_hashes = pi_evidence_hashes sample_input, aq_tenant_id = pi_tenant_id sample_input,
      aq_approver_id = ''approver-1'', aq_approver_role = ''fixture-approver''\<rparr> (sample_day + 1) = Inr ()"
    by (rule approved_chain(1) [OF sample_issued _ sample_evaluated sample_allow sample_bound
          sample_requested sample_approved, of "sample_day + 1"])
       (simp_all add: sample_input_def sample_instant)
  then show ?thesis
    using sample_binding_items [of "''checkpoint_id''"] sample_binding_items [of "''workflow_version''"]
    by (simp add: approval_is_current_def approved_material who sample_binding_fields py_str_def
        py_int_def sample_input_def FIXTURE_APPROVER_ROLE_def)
qed

section \<open>A delivery that crashes behind its intent\<close>

definition crash_after_intent :: fault_profile where
  "crash_after_intent = \<lparr>interrupt_after = [''delivery-intent''], reconciliation_timeout = False\<rparr>"

lemma sample_ensured:
  "\<exists>p r. ensure_delivery_intent accepting (sample_day + 1) sample_case delivering sample_binding
     approved_store = (Inr (p, True), approved_store\<lparr>delivery_intents := [r]\<rparr>) \<and>
     dn_tenant r = ''tenant-alpha'' \<and> dn_workflow r = ''workflow-1''"
proof -
  obtain h where h: "obj_get sample_binding ''authorization_binding_sha256'' = JStr h"
    using sample_binding_fields(5) by blast
  obtain p where p: "delivery_intent_payload (sample_day + 1) sample_case delivering sample_binding = Inr p"
    and schema: "obj_get p ''schema_id'' = JStr OUTBOUND_DELIVERY_INTENT_SCHEMA_ID"
    and row: "\<exists>r. delivery_intent_row_of ''tenant-alpha'' ''workflow-1'' p = Inr r \<and>
      dn_channel r = ''fixture-local-im'' \<and> dn_resource r = ''fixture-local-im:api-503'' \<and>
      dn_tenant r = ''tenant-alpha'' \<and> dn_workflow r = ''workflow-1''"
    using sample_binding_items [of "''candidate_hash''"]
      sample_binding_items [of "''authorization_binding_sha256''"]
    by (simp add: delivery_intent_payload_def sample_evidence(2) sample_binding_fields h Let_def
        delivery_intent_row_of_def text_col_def list_col_def sql_text_def
        API_503_DELIVERY_RESOURCE_ID_def)
  then obtain r where r: "delivery_intent_row_of ''tenant-alpha'' ''workflow-1'' p = Inr r"
      "dn_channel r = ''fixture-local-im''" "dn_resource r = ''fixture-local-im:api-503''"
      "dn_tenant r = ''tenant-alpha''" "dn_workflow r = ''workflow-1''" by blast
  have "validate_outbound_delivery_intent accepting p = Inr ()"
    by (simp add: validate_outbound_delivery_intent_def accepting_ok schema)
  moreover have "insert_delivery_intent r approved_store =
      (Inr (), approved_store\<lparr>delivery_intents := [r]\<rparr>)"
    using r by (simp add: insert_policy_ok has_activation_def approved_store_def)
  ultimately show ?thesis
    using r(4,5) by (intro exI [of _ p] exI [of _ r])
      (simp add: ensure_delivery_intent_def approved_reads read_simp p r(1) contract_as_def
        bind_eq_Inr lift_res_eq_Inr)
qed

lemma sample_request_id: "obj_item sample_request ''approval_request_id'' = Inr (JStr request_id)"
proof -
  obtain i where "obj_get sample_request ''approval_request_id'' = JStr i"
    by (simp add: sample_request_def request_record_def)
  then show ?thesis using obj_item_str by (simp add: request_id_def py_str_def)
qed

lemma crashed_delivery:
  "\<exists>s' r. recover_delivery accepting (sample_day + 1) (Some crash_after_intent) sample_case delivering
     approved_store = (Inl (WorkflowInterrupted ''fault_injected:delivery-intent''), s') \<and>
     delivery_intents s' = [r] \<and> dn_tenant r = ''tenant-alpha'' \<and> dn_workflow r = ''workflow-1''"
proof -
  obtain p r where e: "ensure_delivery_intent accepting (sample_day + 1) sample_case delivering
      sample_binding approved_store = (Inr (p, True), approved_store\<lparr>delivery_intents := [r]\<rparr>)"
    and r: "dn_tenant r = ''tenant-alpha''" "dn_workflow r = ''workflow-1''"
    using sample_ensured by blast
  let ?s = "approved_store\<lparr>delivery_intents := [r]\<rparr>"
  have "deliver accepting (sample_day + 1) (Some crash_after_intent) sample_case delivering sample_binding
      approved_store = (Inl (WorkflowInterrupted ''fault_injected:delivery-intent''), ?s)"
    by (simp add: deliver_def bind_def e interrupt_def crash_after_intent_def)
  then have "recover_delivery accepting (sample_day + 1) (Some crash_after_intent) sample_case delivering
      approved_store = (Inl (WorkflowInterrupted ''fault_injected:delivery-intent''), ?s)"
    by (simp add: recover_delivery_def Let_def read_simp approved_reads sample_request_id py_str_def
        sample_current sample_still_approved)
  with r show ?thesis by (intro exI [of _ ?s] exI [of _ r] conjI) simp_all
qed

theorem delivery_needs_authority_witness:
  "\<exists>s' candidate evidence. recover_delivery accepting (sample_day + 1) (Some crash_after_intent)
     sample_case delivering approved_store =
       (Inl (WorkflowInterrupted ''fault_injected:delivery-intent''), s') \<and>
     delivery_intents s' \<noteq> [] \<and> cp_state (ck_row delivering) = DELIVERING \<and>
     candidate_material sample_case approved_store = Inr (candidate, evidence)"
proof -
  obtain s' r where run: "recover_delivery accepting (sample_day + 1) (Some crash_after_intent)
      sample_case delivering approved_store =
        (Inl (WorkflowInterrupted ''fault_injected:delivery-intent''), s')"
    and new: "delivery_intents s' = [r]" using crashed_delivery by blast
  then have "\<not> same_provider approved_store s'" by (simp add: same_provider_def approved_store_def)
  from delivery_needs_authority [OF run this] run new show ?thesis by auto
qed

theorem one_delivery_per_workflow_witness:
  "\<exists>s :: policy_db. delivery_run accepting s \<and>
     length (filter (\<lambda>r. dn_tenant r = ''tenant-alpha'' \<and> dn_workflow r = ''workflow-1'')
       (delivery_intents s)) = 1"
proof -
  obtain s' r where run: "recover_delivery accepting (sample_day + 1) (Some crash_after_intent)
      sample_case delivering approved_store =
        (Inl (WorkflowInterrupted ''fault_injected:delivery-intent''), s')"
    and new: "delivery_intents s' = [r]" "dn_tenant r = ''tenant-alpha''" "dn_workflow r = ''workflow-1''"
    using crashed_delivery by blast
  have "delivery_run accepting approved_store"
    by (rule started) (simp_all add: approved_store_def)
  from delivery_recovered [OF this run] have later: "delivery_run accepting s'" .
  from one_delivery_per_workflow [OF this, of "''tenant-alpha''" "''workflow-1''"] new
  have "length (filter (\<lambda>r. dn_tenant r = ''tenant-alpha'' \<and> dn_workflow r = ''workflow-1'')
      (delivery_intents s')) = 1" by simp
  with later show ?thesis by (intro exI [of _ s'] conjI)
qed

section \<open>A stored intent behind a revoked grant\<close>

definition sample_intent_payload :: obj where
  "sample_intent_payload =
     [(''tenant_id'', JStr ''tenant-alpha''), (''case_id'', JStr ''case-1''),
      (''case_revision_id'', JStr ''revision-1''), (''workflow_id'', JStr ''workflow-1''),
      (''checkpoint_id'', JStr ''checkpoint-2''), (''intent_id'', JStr ''intent-1''),
      (''natural_key'', JStr ''key-1''), (''idempotency_key'', JStr ''idempotency-1''),
      (''candidate_hash'', JStr ''candidate'')]"

definition sample_intent_row :: delivery_intent_row where
  "sample_intent_row = \<lparr>dn_tenant = ''tenant-alpha'', dn_id = ''intent-1'', dn_workflow = ''workflow-1'',
     dn_checkpoint = ''checkpoint-2'', dn_case = ''case-1'', dn_revision = ''revision-1'',
     dn_binding = ''hash'', dn_candidate = ''candidate'', dn_evidence = Some [''evidence-1'', ''evidence-2''],
     dn_channel = ''fixture-local-im'', dn_conversation = CONVERSATION_ID,
     dn_resource = ''fixture-local-im:api-503'', dn_natural_key = ''key-1'', dn_state_hash = ''hash'',
     dn_key = ''idempotency-1'', dn_correlation = ''correlation-1'',
     dn_payload = Some (JObj sample_intent_payload), dn_created_at = timestamp sample_day\<rparr>"

definition pending_store :: policy_db where
  "pending_store = approved_store\<lparr>delivery_intents := [sample_intent_row]\<rparr>"

definition revoked_store :: policy_db where
  "revoked_store = pending_store\<lparr>grant_status_events :=
     [revocation sample_day ''tenant-alpha'' (py_str (obj_get sample_grant ''grant_id''))]\<rparr>"


section \<open>The other witnesses\<close>

theorem delivery_executed_once_witness:
  "\<exists>out s1 reason. execute_delivery_intent sample_day sample_intent_payload empty_policy = (Inr out, s1) \<and>
     length (delivery_records s1) = 1 \<and>
     execute_delivery_intent (sample_day + 1) sample_intent_payload s1 = (Inr (out\<lparr>do_reason := reason\<rparr>), s1)"
proof -
  have "\<exists>out s1. execute_delivery_intent sample_day sample_intent_payload empty_policy = (Inr out, s1) \<and>
      length (delivery_records s1) = 1"
    by (simp add: execute_delivery_intent_def bind_eq_Inr lift_res_eq_Inr sample_intent_payload_def
        text_col_def sql_text_def find_delivery_operation_def delivery_records_for_def
        record_delivery_def Let_def insert_policy_ok new_delivery_record_def has_delivery_record_def
        py_str_def)
  then obtain out s1 where run: "execute_delivery_intent sample_day sample_intent_payload empty_policy = (Inr out, s1)"
    and one: "length (delivery_records s1) = 1" by blast
  from delivery_executed_once [OF run, of s1 "sample_day + 1"] run one show ?thesis
    by (auto simp: provider_frame.refl_R)
qed

theorem approval_decided_once_witness:
  "submit_approval_decision accepting sample_day None ''tenant-alpha'' ''case-1'' request_id ''rejected''
     9 ''approver-1'' FIXTURE_APPROVER_ROLE approved_store =
   (Inl (WorkflowError ''approval_decision_conflict''), approved_store)"
proof -
  have d: "obj_get sample_approval ''decision'' = JStr ''approved''"
    by (simp add: sample_approval_def approval_record_def Let_def)
  have k: "latest_checkpoint ''tenant-alpha'' (ac_workflow sample_case) approved_store = Inr (Some delivering)"
    by (simp add: latest_checkpoint_def checkpoints_of_def checkpoint_rows_def approved_store_def
        load_checkpoint_def delivering_def)
  have r: "obj_get sample_request ''approval_request_id'' = JStr request_id"
    using obj_item_eq [OF sample_request_id] .
  show ?thesis
    by (rule approval_decided_once [OF _ _ r approved_reads(5) _ k])
       (simp_all add: approved_reads policy_growth.refl_R d)
qed

definition sample_opt_in :: policy_activation_row where
  "sample_opt_in = new_policy_activation sample_day sample_case delivering ''candidate'' [''evidence-1'']"

definition other_case :: activation_row where
  "other_case = sample_case\<lparr>ac_workflow := ''workflow-2'', ac_case := ''case-2''\<rparr>"

lemma grant_issues:
  assumes "0 \<le> n" "n \<le> 1"
  shows "\<exists>g. issue_fixture_grant accepting t subject role (sample_day + n) ''active'' None = Inr g"
proof -
  have "add_seconds (sample_day + n) 1800 = Inr (sample_day + n + 1800000000)"
    using assms by (simp add: add_seconds_def sample_day_def valid_instant_def max_instant_def
        us_per_day_def us_per_second_def)
  then show ?thesis
    by (simp add: issue_fixture_grant_def Let_def validate_capability_grant_def accepting_ok
        grant_record_def)
qed

lemma sample_first_grant:
  "\<exists>g s1. ensure_fixture_grant accepting sample_day sample_case sample_opt_in
     (empty_policy\<lparr>activations := [sample_case]\<rparr>) = (Inr g, s1) \<and> length (grants s1) = 1 \<and>
     grant_for_workflow ''tenant-alpha'' ''workflow-2'' s1 = Inr None"
proof -
  let ?s = "empty_policy\<lparr>activations := [sample_case]\<rparr>"
  obtain g where g: "issue_fixture_grant accepting ''tenant-alpha'' (pa_subject sample_opt_in)
      (pa_role sample_opt_in) sample_day ''active'' None = Inr g" using grant_issues [of 0] by fastforce
  obtain e h where g': "g = obj_set (grant_record ''tenant-alpha'' (pa_subject sample_opt_in)
      (pa_role sample_opt_in) sample_day ''active'' e) ''grant_sha256'' (JStr h)"
    using issued_record [OF g] by metis
  obtain r where r: "grant_row_of ''tenant-alpha'' ''workflow-1'' g = Inr r" "gr_tenant r = ''tenant-alpha''"
      "gr_workflow r = ''workflow-1''"
    by (simp add: g' grant_row_of_def grant_record_def obj_set_def text_col_def list_col_def
        sql_text_def)
  have "insert_grant r ?s = (Inr (), ?s\<lparr>grants := [r]\<rparr>)"
    using r(2,3) by (simp add: insert_grant_def has_activation_def)
  then have "ensure_fixture_grant accepting sample_day sample_case sample_opt_in ?s =
      (Inr g, ?s\<lparr>grants := [r]\<rparr>)"
    by (simp add: ensure_fixture_grant_def read_simp grant_for_workflow_def payload_row_def g r(1)
        bind_eq_Inr lift_res_eq_Inr)
  then show ?thesis
    using r(2,3) by (intro exI [of _ g] exI [of _ "?s\<lparr>grants := [r]\<rparr>"] conjI)
      (simp_all add: grant_for_workflow_def payload_row_def)
qed

theorem second_grant_refused_witness:
  "\<exists>s1. length (grants s1) = 1 \<and> ac_workflow other_case \<noteq> ac_workflow sample_case \<and>
     ensure_fixture_grant accepting (sample_day + 1) other_case sample_opt_in (s1 :: policy_db) =
       (Inl (WorkflowError ''capability_grant_persist_failed''), s1)"
proof -
  obtain g s1 where first: "ensure_fixture_grant accepting sample_day sample_case sample_opt_in
      (empty_policy\<lparr>activations := [sample_case]\<rparr>) = (Inr g, s1)" and one: "length (grants s1) = 1"
    and none: "grant_for_workflow ''tenant-alpha'' ''workflow-2'' s1 = Inr None"
    using sample_first_grant by blast
  obtain h where h: "issue_fixture_grant accepting (ac_tenant other_case) (pa_subject sample_opt_in)
      (pa_role sample_opt_in) (sample_day + 1) ''active'' None = Inr h" using grant_issues [of 1] by fastforce
  have "ensure_fixture_grant accepting (sample_day + 1) other_case sample_opt_in s1 =
      (Inl (WorkflowError ''capability_grant_persist_failed''), s1)"
    by (rule second_grant_refused [OF first _ policy_growth.refl_R _ refl refl _ h])
       (simp_all add: grant_for_workflow_def payload_row_def other_case_def
         none [unfolded grant_for_workflow_def payload_row_def])
  with one show ?thesis by (intro exI [of _ s1]) (simp add: other_case_def)
qed

end
