(* ===== verification/RebuildProps.thy ===== *)
theory RebuildProps
  imports WorkflowRebuild DeliverySample
begin

text \<open>
  The workflow read model is a function of the journal: a successful rebuild stores exactly the
  projection of every workflow that has a checkpoint, whatever the table held before, and the
  projections it stores carry known states and gap-free versions.
\<close>

section \<open>The checks do not read the read model\<close>

named_theorems ignores_projections \<open>queries that do not read the workflow projections\<close>

lemma checkpoint_queries [ignores_projections]:
  "checkpoints_of t w (s\<lparr>workflow_projections := ps\<rparr>) = checkpoints_of t w s"
  "sorted_activations (s\<lparr>workflow_projections := ps\<rparr>) = sorted_activations s"
  "source_event_exists a (s\<lparr>workflow_projections := ps\<rparr>) = source_event_exists a s"
  "validate_checkpoint_source V a ks (s\<lparr>workflow_projections := ps\<rparr>) =
     validate_checkpoint_source V a ks s"
  "validate_ticket_source t (s\<lparr>workflow_projections := ps\<rparr>) = validate_ticket_source t s"
proof -
  show "checkpoints_of t w (s\<lparr>workflow_projections := ps\<rparr>) = checkpoints_of t w s"
    by (simp add: checkpoints_of_def checkpoint_rows_def)
  show "sorted_activations (s\<lparr>workflow_projections := ps\<rparr>) = sorted_activations s"
    by (simp add: sorted_activations_def)
  show "source_event_exists a (s\<lparr>workflow_projections := ps\<rparr>) = source_event_exists a s"
    by (simp add: source_event_exists_def)
  show "validate_checkpoint_source V a ks (s\<lparr>workflow_projections := ps\<rparr>) =
      validate_checkpoint_source V a ks s"
    by (simp add: validate_checkpoint_source_def workflow_runs_def)
  have "validate_operation t (s\<lparr>workflow_projections := ps\<rparr>) = validate_operation t s"
    by (rule ext) (simp add: validate_operation_def)
  then show "validate_ticket_source t (s\<lparr>workflow_projections := ps\<rparr>) = validate_ticket_source t s"
    by (simp add: validate_ticket_source_def)
qed

lemma effect_queries [ignores_projections]:
  "workflow_commands t w (s\<lparr>workflow_projections := ps\<rparr>) = workflow_commands t w s"
  "workflow_intents t w (s\<lparr>workflow_projections := ps\<rparr>) = workflow_intents t w s"
  "workflow_deliveries t w (s\<lparr>workflow_projections := ps\<rparr>) = workflow_deliveries t w s"
  "check_effect V a ids (s\<lparr>workflow_projections := ps\<rparr>) = check_effect V a ids s"
proof -
  show "check_effect V a ids (s\<lparr>workflow_projections := ps\<rparr>) = check_effect V a ids s"
    by (intro ext) (simp add: check_effect_def intent_completions_def intent_observations_def)
qed (simp_all add: workflow_commands_def workflow_intents_def workflow_deliveries_def)

lemma delivery_queries [ignores_projections]:
  fixes s :: "'a policy_db_scheme"
  shows "check_delivery V a ids (s\<lparr>workflow_projections := ps\<rparr>) = check_delivery V a ids s"
proof -
  have "binding_by_hash t h (s\<lparr>workflow_projections := ps\<rparr>) = binding_by_hash t h s"
    "delivery_completions_for t h (s\<lparr>workflow_projections := ps\<rparr>) = delivery_completions_for t h s"
    "delivery_observations_for t h (s\<lparr>workflow_projections := ps\<rparr>) = delivery_observations_for t h s"
    for t h
    by (simp_all add: binding_by_hash_def delivery_completions_for_def delivery_observations_for_def
        delivery_observations_of_def cong: option.case_cong)
  then show ?thesis
    by (intro ext) (simp add: check_delivery_def Let_def cong: option.case_cong)
qed

lemma source_queries [ignores_projections]:
  fixes s :: "'a policy_db_scheme"
  shows "validate_workflow_source V a ks (s\<lparr>workflow_projections := ps\<rparr>) =
      validate_workflow_source V a ks s"
    and "validate_investigation_source V a ks (s\<lparr>workflow_projections := ps\<rparr>) =
      validate_investigation_source V a ks s"
    and "validate_change4_source V a ks (s\<lparr>workflow_projections := ps\<rparr>) =
      validate_change4_source V a ks s"
proof -
  let ?s = "s\<lparr>workflow_projections := ps\<rparr>"
  show "validate_workflow_source V a ks ?s = validate_workflow_source V a ks s"
    by (simp add: validate_workflow_source_def validate_effect_source_def Let_def ignores_projections)
  have "check_tool_exchange V a m ?s = check_tool_exchange V a m s" for m
    by (rule ext) (simp add: check_tool_exchange_def)
  then have "check_investigation V a ids ?s = check_investigation V a ids s" for ids
    by (intro ext) (simp add: check_investigation_def Let_def)
  then show "validate_investigation_source V a ks ?s = validate_investigation_source V a ks s"
    by (simp add: validate_investigation_source_def cong: list.case_cong)
  have "check_fixture_delivery ?s = check_fixture_delivery s"
    by (rule ext) (simp add: check_fixture_delivery_def)
  then show "validate_change4_source V a ks ?s = validate_change4_source V a ks s"
    by (simp add: validate_change4_source_def Let_def grant_source_def decision_source_def
        binding_source_def request_source_def approval_source_def policy_untouched_def
        validate_fixture_delivery_source_def)
qed

section \<open>The rebuild as a function\<close>

text \<open>The projections of the activations \<open>as\<close> behind those already derived.\<close>

definition derive ::
  "validators \<Rightarrow> 'a policy_db_scheme \<Rightarrow> workflow_projection_row list \<Rightarrow> activation_row \<Rightarrow>
   exn + workflow_projection_row list" where
  "derive V s ps a =
     bind_res (checkpoints_of (ac_tenant a) (ac_workflow a) s) (\<lambda>ks.
     bind_res (validate_sources V a ks s) (\<lambda>_.
     if ks = [] then Inr ps
     else
       bind_res (contract_as ''workflow_journal_invalid'' (validate_workflow_projection V
         (workflow_projection_payload (project_workflow a (last ks))))) (\<lambda>_.
       insert_row (\<lambda>_. True) workflow_projection_clash (project_workflow a (last ks)) ps)))"

lemma bind_res_case:
  "(case bind_res m (\<lambda>x. Inr (g x)) of Inl e \<Rightarrow> f e | Inr y \<Rightarrow> h y) =
     (case m of Inl e \<Rightarrow> f e | Inr x \<Rightarrow> h (g x))"
  by (cases m) simp_all

lemma rebuild_workflow_derive:
  "rebuild_workflow V a (s\<lparr>workflow_projections := ps\<rparr>) =
     (case derive V s ps a of
        Inl e \<Rightarrow> (Inl e, s\<lparr>workflow_projections := ps\<rparr>)
      | Inr ps' \<Rightarrow> (Inr (), s\<lparr>workflow_projections := ps'\<rparr>))"
proof -
  have valid: "validate_sources V a ks (s\<lparr>workflow_projections := ps\<rparr>) = validate_sources V a ks s" for ks
    by (simp add: validate_sources_def ignores_projections)
  have insert: "insert_workflow_projection p (s\<lparr>workflow_projections := ps\<rparr>) =
      (case insert_row (\<lambda>_. True) workflow_projection_clash p ps of
         Inl e \<Rightarrow> (Inl e, s\<lparr>workflow_projections := ps\<rparr>)
       | Inr ps' \<Rightarrow> (Inr (), s\<lparr>workflow_projections := ps'\<rparr>))" for p
    by (simp add: insert_workflow_projection_def modify_def bind_res_case)
  show ?thesis
  proof (cases "checkpoints_of (ac_tenant a) (ac_workflow a) s")
    case (Inr ks)
    show ?thesis
    proof (cases "validate_sources V a ks s")
      case Inr': (Inr u)
      let ?p = "project_workflow a (last ks)"
      define v where "v = contract_as ''workflow_journal_invalid''
        (validate_workflow_projection V (workflow_projection_payload ?p))"
      have step: "rebuild_workflow V a (s\<lparr>workflow_projections := ps\<rparr>) =
          (if ks = [] then ret () else bind (lift_res v) (\<lambda>_. insert_workflow_projection ?p))
            (s\<lparr>workflow_projections := ps\<rparr>)"
        by (simp add: rebuild_workflow_def ignores_projections read_simp Inr Inr' valid Let_def v_def)
      have fold: "derive V s ps a = (if ks = [] then Inr ps else
          bind_res v (\<lambda>_. insert_row (\<lambda>_. True) workflow_projection_clash ?p ps))"
        by (simp add: derive_def Inr Inr' v_def)
      show ?thesis by (cases v) (simp_all add: step fold insert)
    qed (simp add: rebuild_workflow_def derive_def ignores_projections read_simp Inr valid)
  qed (simp add: rebuild_workflow_def derive_def ignores_projections read_simp)
qed

lemma rebuild_workflows_derive:
  "rebuild_workflows V as (s\<lparr>workflow_projections := ps\<rparr>) = (Inr u, t) \<longleftrightarrow>
     (\<exists>ps'. fold_res (derive V s) ps as = Inr ps' \<and> t = s\<lparr>workflow_projections := ps'\<rparr>)"
proof (induction as arbitrary: ps)
  case (Cons a as)
  show ?case
  proof (cases "derive V s ps a")
    case (Inl e)
    then show ?thesis by (simp add: bind_err rebuild_workflow_derive)
  next
    case (Inr ps1)
    then have "rebuild_workflows V (a # as) (s\<lparr>workflow_projections := ps\<rparr>) =
        rebuild_workflows V as (s\<lparr>workflow_projections := ps1\<rparr>)"
      by (simp add: bind_ok rebuild_workflow_derive)
    moreover have "fold_res (derive V s) ps (a # as) = fold_res (derive V s) ps1 as"
      by (simp add: Inr)
    ultimately show ?thesis using Cons.IH [of ps1] by (simp only:)
  qed
qed (simp, blast)

lemma rebuild_iff:
  "rebuild_workflow_projection V s = (Inr u, t) \<longleftrightarrow>
     schema_error s = None \<and> (\<exists>ps. fold_res (derive V s) [] (sorted_activations s) = Inr ps \<and>
       t = s\<lparr>workflow_projections := ps\<rparr>)"
  by (auto simp: rebuild_workflow_projection_def bind_def modify_def ignores_projections
      rebuild_workflows_derive split: option.splits)

text \<open>One projection per activation with a checkpoint, in the order of the activations.\<close>

definition projection_of ::
  "'a journal_db_scheme \<Rightarrow> activation_row \<Rightarrow> workflow_projection_row option" where
  "projection_of s a =
     (case checkpoints_of (ac_tenant a) (ac_workflow a) s of
        Inr (k # ks) \<Rightarrow> Some (project_workflow a (last (k # ks))) | _ \<Rightarrow> None)"

definition source_ok :: "validators \<Rightarrow> 'a policy_db_scheme \<Rightarrow> activation_row \<Rightarrow> bool" where
  "source_ok V s a \<longleftrightarrow> (\<exists>ks. checkpoints_of (ac_tenant a) (ac_workflow a) s = Inr ks \<and>
     validate_sources V a ks s = Inr ())"

lemma derive_eq_Inr:
  "derive V s ps a = Inr ps' \<Longrightarrow>
     source_ok V s a \<and> ps' = ps @ (case projection_of s a of None \<Rightarrow> [] | Some p \<Rightarrow> [p])"
  by (auto simp: derive_def source_ok_def projection_of_def split: if_splits list.splits)

lemma derived_all:
  "fold_res (derive V s) ps as = Inr ps' \<Longrightarrow>
     (\<forall>a\<in>set as. source_ok V s a) \<and> ps' = ps @ List.map_filter (projection_of s) as"
  by (induction as arbitrary: ps)
    (fastforce dest: derive_eq_Inr simp: map_filter_simps split: option.splits)+

lemma rebuilt:
  assumes "rebuild_workflow_projection V s = (Inr u, t)"
  shows "workflow_projections t = List.map_filter (projection_of s) (sorted_activations s)"
    and "\<And>a. a \<in> set (activations s) \<Longrightarrow> source_ok V s a"
    and "t = s\<lparr>workflow_projections := workflow_projections t\<rparr>"
  using assms by (auto simp: rebuild_iff sorted_activations_def dest!: derived_all)

lemma fold_derive_cong:
  "fold_res (derive V (s\<lparr>workflow_projections := qs\<rparr>)) ps as = fold_res (derive V s) ps as"
  by (induction as arbitrary: ps)
    (simp_all add: derive_def validate_sources_def ignores_projections)

text \<open>
  C11.  The read model can be thrown away.  A successful rebuild leaves the journal as it is and
  stores one projection for every activation that has a checkpoint, of its latest checkpoint, in the
  order of the activations; whatever the projection table is overwritten with, the next rebuild
  gives the same store again.
\<close>

theorem workflow_projection_rebuildable:
  assumes "rebuild_workflow_projection V s = (Inr u, t)"
  shows "workflow_projections t = List.map_filter (projection_of s) (sorted_activations s) \<and>
    t = s\<lparr>workflow_projections := workflow_projections t\<rparr> \<and>
    rebuild_workflow_projection V (t\<lparr>workflow_projections := ps\<rparr>) = (Inr u, t)"
proof -
  note frame = rebuilt(3) [OF assms]
  have "t\<lparr>workflow_projections := ps\<rparr> = s\<lparr>workflow_projections := ps\<rparr>"
    by (subst frame) simp
  then have "rebuild_workflow_projection V (t\<lparr>workflow_projections := ps\<rparr>) = (Inr u, t)"
    using assms by (auto simp: rebuild_iff ignores_projections fold_derive_cong)
  with rebuilt(1) [OF assms] frame show ?thesis by blast
qed

section \<open>What an accepted chain of checkpoints looks like\<close>

lemma checked_states:
  assumes "check_checkpoints a prev ks rs = Inr ()"
    and "case prev of None \<Rightarrow> True | Some p \<Rightarrow> cp_state (ck_row p) \<in> WORKFLOW_STATES"
  shows "\<forall>k\<in>set ks. cp_state (ck_row k) \<in> WORKFLOW_STATES"
  using assms
proof (induction a prev ks rs rule: check_checkpoints.induct)
  case (3 a prev k ks r rs)
  then have step: "check_step a prev k = Inr ()" and rest: "check_checkpoints a (Some k) ks rs = Inr ()"
    by auto
  have "cp_state (ck_row k) \<in> WORKFLOW_STATES"
    using step 3(3)
    by (auto simp: check_step_def Let_def validate_transition_def
        split: option.splits if_splits)
  with 3(1) rest show ?case by auto
qed auto

lemma count_up: "map (\<lambda>i. int i + c) [0..<Suc n] = c # map (\<lambda>i. int i + (c + 1)) [0..<n]"
proof -
  have "[0..<Suc n] = 0 # map Suc [0..<n]" by (simp add: upt_conv_Cons map_Suc_upt del: upt_Suc)
  then show ?thesis by (simp add: comp_def del: upt_Suc)
qed

lemma checked_versions:
  assumes "check_checkpoints a prev ks rs = Inr ()"
  shows "map (\<lambda>k. cp_version (ck_row k)) ks =
    map (\<lambda>i. int i + (case prev of None \<Rightarrow> 0 | Some p \<Rightarrow> cp_version (ck_row p) + 1)) [0..<length ks]"
  using assms
proof (induction a prev ks rs rule: check_checkpoints.induct)
  case (3 a prev k ks r rs)
  then have step: "check_step a prev k = Inr ()" and rest: "check_checkpoints a (Some k) ks rs = Inr ()"
    by auto
  have k: "cp_version (ck_row k) = (case prev of None \<Rightarrow> 0 | Some p \<Rightarrow> cp_version (ck_row p) + 1)"
    using step by (auto simp: check_step_def Let_def split: option.splits)
  show ?case using 3(1) [OF rest] k by (simp add: count_up del: upt_Suc)
qed auto

lemma scanned_sequences:
  assumes "fold_res (checkpoint_step V) sc (map checkpoint_payload ks) = Inr sc'"
  shows "map (\<lambda>k. cp_sequence (ck_row k)) ks = map (\<lambda>i. int i + cs_expected sc) [0..<length ks]"
  using assms
proof (induction ks arbitrary: sc)
  case (Cons k ks)
  then obtain sc1 where step: "checkpoint_step V sc (checkpoint_payload k) = Inr sc1"
    and rest: "fold_res (checkpoint_step V) sc1 (map checkpoint_payload ks) = Inr sc'" by auto
  have k: "cp_sequence (ck_row k) = cs_expected sc" "cs_expected sc1 = cs_expected sc + 1"
    using step by (auto simp: checkpoint_step_def payload_items)
  show ?case using Cons.IH [OF rest] k by (simp add: count_up del: upt_Suc)
qed simp

lemma accepted_chain:
  assumes "validate_sources V a ks s = Inr ()" and "ks \<noteq> []"
  shows "\<forall>k\<in>set ks. cp_state (ck_row k) \<in> WORKFLOW_STATES"
    and "map (\<lambda>k. cp_version (ck_row k)) ks = map int [0..<length ks]"
    and "map (\<lambda>k. cp_sequence (ck_row k)) ks = map (\<lambda>i. int i + 1) [0..<length ks]"
proof -
  have "validate_checkpoint_source V a ks s = Inr ()"
    using assms(1) by (auto simp: validate_sources_def validate_workflow_source_def)
  then have chain: "check_checkpoints a None ks (tl (workflow_runs (ac_tenant a) (ac_workflow a) s)) = Inr ()"
    and "validate_checkpoint_sequence V (map checkpoint_payload ks) = Inr ()"
    using assms(2) by (auto simp: validate_checkpoint_source_def Let_def as_invalid_journal_def)
  then obtain sc where scan: "fold_res (checkpoint_step V) checkpoint_scan_start (map checkpoint_payload ks) = Inr sc"
    using assms(2) by (auto simp: validate_checkpoint_sequence_def)
  show "\<forall>k\<in>set ks. cp_state (ck_row k) \<in> WORKFLOW_STATES"
    using checked_states [OF chain] by simp
  show "map (\<lambda>k. cp_version (ck_row k)) ks = map int [0..<length ks]"
    using checked_versions [OF chain] by simp
  show "map (\<lambda>k. cp_sequence (ck_row k)) ks = map (\<lambda>i. int i + 1) [0..<length ks]"
    using scanned_sequences [OF scan] by (simp add: checkpoint_scan_start_def)
qed

lemma projected:
  assumes "rebuild_workflow_projection V s = (Inr u, t)" and "p \<in> set (workflow_projections t)"
  obtains a ks where "a \<in> set (activations s)" "checkpoints_of (ac_tenant a) (ac_workflow a) s = Inr ks"
    "validate_sources V a ks s = Inr ()" "ks \<noteq> []" "p = project_workflow a (last ks)"
proof -
  from assms(2) rebuilt(1) [OF assms(1)] obtain a where a: "a \<in> set (activations s)"
    and p: "projection_of s a = Some p"
    by (auto simp: map_filter_def sorted_activations_def)
  from rebuilt(2) [OF assms(1) a] obtain ks where
    "checkpoints_of (ac_tenant a) (ac_workflow a) s = Inr ks" "validate_sources V a ks s = Inr ()"
    by (auto simp: source_ok_def)
  moreover from this p have "ks \<noteq> []" "p = project_workflow a (last ks)"
    by (auto simp: projection_of_def split: list.splits)
  ultimately show thesis using that a by blast
qed

text \<open>
  C33.  Every projection a successful rebuild stores is well typed: its state is one of the workflow
  states, its run status is the one of that state, and it belongs to a stored activation.
\<close>

theorem projections_well_typed:
  assumes "rebuild_workflow_projection V s = (Inr u, t)" and "p \<in> set (workflow_projections t)"
  shows "wp_state p \<in> WORKFLOW_STATES \<and> wp_status p = run_status (wp_state p) \<and>
    (\<exists>a\<in>set (activations s). ac_tenant a = wp_tenant p \<and> ac_workflow a = wp_workflow p)"
proof -
  from projected [OF assms] obtain a ks where a: "a \<in> set (activations s)" and ks: "ks \<noteq> []"
    and ok: "validate_sources V a ks s = Inr ()" and p: "p = project_workflow a (last ks)" by blast
  have "cp_state (ck_row (last ks)) \<in> WORKFLOW_STATES"
    using accepted_chain(1) [OF ok ks] ks by simp
  with a p show ?thesis by (auto simp: project_workflow_def Let_def intro!: bexI [of _ a])
qed

text \<open>
  C34.  Versions and sequences without gaps: in a store the rebuild accepts, the checkpoints of a
  workflow are numbered from one and their workflow versions from zero, consecutively, and the
  projection carries the last of both.
\<close>

theorem checkpoint_numbers_consecutive:
  assumes "rebuild_workflow_projection V s = (Inr u, t)" and "p \<in> set (workflow_projections t)"
  shows "\<exists>ks. checkpoints_of (wp_tenant p) (wp_workflow p) s = Inr ks \<and> 0 < length ks \<and>
    map (\<lambda>k. cp_version (ck_row k)) ks = map int [0..<length ks] \<and>
    map (\<lambda>k. cp_sequence (ck_row k)) ks = map (\<lambda>i. int i + 1) [0..<length ks] \<and>
    wp_sequence p = int (length ks) \<and> wp_version p = wp_sequence p - 1"
proof -
  from projected [OF assms] obtain a ks where ks: "ks \<noteq> []"
    and c: "checkpoints_of (ac_tenant a) (ac_workflow a) s = Inr ks"
    and ok: "validate_sources V a ks s = Inr ()" and p: "p = project_workflow a (last ks)" by blast
  note chain = accepted_chain [OF ok ks]
  have nth: "cp_version (ck_row (ks ! i)) = int i" "cp_sequence (ck_row (ks ! i)) = int i + 1"
    if "i < length ks" for i
    using arg_cong [OF chain(2), of "\<lambda>xs. xs ! i"] arg_cong [OF chain(3), of "\<lambda>xs. xs ! i"] that
    by simp_all
  have "wp_version p = int (length ks - 1)" "wp_sequence p = int (length ks - 1) + 1"
    using nth [of "length ks - 1"] ks by (simp_all add: p project_workflow_def Let_def last_conv_nth)
  with c chain(2,3) ks p show ?thesis
    by (intro exI [of _ ks]) (simp add: project_workflow_def Let_def of_nat_diff Suc_leI)
qed

end
