(* ===== verification/RebuildFault.thy ===== *)
theory RebuildFault
  imports RebuildProps
begin

text \<open>
  A journal the read model can never be rebuilt from: the recovery of a workflow whose grant was
  revoked stores a second policy decision, the rebuild accepts one at most, and the journal is
  append-only.  The second part holds the sample stores of the rebuild properties.
\<close>

section \<open>One policy decision per workflow\<close>

definition decisions_of :: "activation_row \<Rightarrow> 'a policy_db_scheme \<Rightarrow> policy_decision_row list" where
  "decisions_of a s =
     filter (\<lambda>r. pd_tenant r = ac_tenant a \<and> pd_workflow r = ac_workflow a) (policy_decisions s)"

lemma single_row_length: "single_row rs = Inr r \<Longrightarrow> length rs \<le> 1"
  by (auto simp: single_row_def split: list.splits)

lemma accepted_decisions:
  assumes "rebuild_workflow_projection V s = (Inr u, t)" and "a \<in> set (activations s)"
  shows "length (decisions_of a s) \<le> 1"
proof -
  from rebuilt(2) [OF assms] obtain ks where ok: "validate_change4_source V a ks s = Inr ()"
    by (auto simp: source_ok_def validate_sources_def)
  define rows where "rows = filter (\<lambda>r. pa_tenant r = ac_tenant a \<and> pa_workflow r = ac_workflow a)
    (policy_activations s)"
  from ok obtain row where row: "single_row rows = Inr row"
    by (auto simp: validate_change4_source_def Let_def rows_def)
  show ?thesis
  proof (cases row)
    case None
    with ok row have "policy_untouched (ac_tenant a) (ac_workflow a) s"
      by (simp add: validate_change4_source_def Let_def rows_def)
    then have "decisions_of a s = []"
      by (auto simp: policy_untouched_def decisions_of_def list_ex_iff filter_empty_conv)
    then show ?thesis by simp
  next
    case (Some p)
    with ok row obtain d where
      "decision_source V (ac_tenant a) (ac_workflow a) (pa_checkpoint p) s = Inr d"
      by (auto simp: validate_change4_source_def Let_def rows_def)
    then show ?thesis
      by (auto simp: decision_source_def checked_row_def decisions_of_def dest: single_row_length)
  qed
qed

lemma rebuild_failed: "rebuild_workflow_projection V s = (Inl e, t) \<Longrightarrow> t = s"
  unfolding rebuild_workflow_projection_def by (rule engine_tx_failed)

lemma two_decisions_block:
  assumes "2 \<le> length (decisions_of a s1)" and "a \<in> set (activations s1)" and "policy_le s1 s2"
  shows "\<exists>e. rebuild_workflow_projection V s2 = (Inl e, s2)"
proof (cases "rebuild_workflow_projection V s2")
  case (Pair r t)
  have "prefix (policy_decisions s1) (policy_decisions s2)"
    using assms(3) by (simp add: policy_le_def)
  then obtain ds where "policy_decisions s2 = policy_decisions s1 @ ds" by (auto simp: prefix_def)
  then have "2 \<le> length (decisions_of a s2)" using assms(1) by (simp add: decisions_of_def)
  moreover have "set (activations s1) \<subseteq> set (activations s2)"
    using assms(3) by (simp add: policy_le_def journal_le_def set_mono_prefix)
  ultimately have "r \<noteq> Inr u" for u
    using accepted_decisions [of V s2 u t a] Pair assms(2) by auto
  then obtain e where "r = Inl e" by (cases r) auto
  with Pair rebuild_failed show ?thesis by blast
qed

section \<open>Recovery behind a revoked grant\<close>

lemma decision_row_input:
  assumes "evaluate_fixture_policy V q now = Inr d" and "decision_row_of t w d = Inr r"
  shows "pd_input r = canonical_sha256 (policy_input_material q)" and "pd_tenant r = t"
    and "pd_workflow r = w" and "pd_action r = pi_action q"
    and "obj_get d ''decision'' = JStr (pd_decision r)"
proof -
  obtain x y where d: "d = obj_set (decision_record q x y now) ''policy_decision_sha256''
      (JStr (content_hash (decision_record q x y now) ''policy_decision_sha256''))"
    using assms(1) by (auto simp: evaluate_fixture_policy_def Let_def)
  have get: "obj_get d ''policy_input_sha256'' = JStr (canonical_sha256 (policy_input_material q))"
    "obj_get d ''action'' = JStr (pi_action q)" "\<exists>v. obj_get d ''decision'' = JStr v"
    by (simp_all add: d decision_record_def Let_def)
  have cols: "text_col d ''policy_input_sha256'' = Inr (pd_input r)" "text_col d ''action'' = Inr (pd_action r)"
    "text_col d ''decision'' = Inr (pd_decision r)"
    using assms(2) by (auto simp: decision_row_of_def)
  show "pd_tenant r = t" "pd_workflow r = w" using assms(2) by (auto simp: decision_row_of_def)
  show "pd_input r = canonical_sha256 (policy_input_material q)" "pd_action r = pi_action q"
    using cols(1,2) get(1,2) by (simp_all add: text_col_def obj_item_str sql_text_def)
  show "obj_get d ''decision'' = JStr (pd_decision r)"
  proof -
    from get(3) obtain v where "obj_get d ''decision'' = JStr v" by blast
    with cols(3) show ?thesis by (simp add: text_col_def obj_item_str sql_text_def)
  qed
qed

lemma inactive_denied:
  assumes "evaluate_fixture_policy V q now = Inr d" and "pi_grant q = None"
  shows "obj_get d ''decision'' = JStr ''deny''"
  using decision_verdict [OF assms(1)] assms(2) by (simp add: policy_allows_def)

text \<open>A decision on an input that is not stored yet is stored.\<close>

lemma new_decision_stored:
  assumes run: "ensure_policy_decision V now a p g s = (Inr d, s1)"
    and gid: "obj_item g ''grant_id'' = Inr (JStr gid)" and off: "\<not> grant_is_active (ac_tenant a) gid s"
    and m: "candidate_material a s = Inr m"
    and k: "checkpoint_by_id (ac_tenant a) (pa_checkpoint p) s = Inr k"
    and new: "\<forall>q\<in>set (decisions_of a s).
      pd_input q \<noteq> canonical_sha256 (policy_input_material (policy_input_of a p g m k False))"
  shows "\<exists>r. s1 = s\<lparr>policy_decisions := policy_decisions s @ [r]\<rparr> \<and> pd_tenant r = ac_tenant a \<and>
    pd_workflow r = ac_workflow a \<and> pd_decision r = ''deny''"
    and "obj_get d ''decision'' = JStr ''deny''"
proof -
  let ?q = "policy_input_of a p g m k False"
  obtain d' where d': "evaluate_fixture_policy V ?q now = Inr d'"
    and tx: "engine_tx ''policy_decision_persist_failed''
       (bind (lift_res (decision_row_of (ac_tenant a) (ac_workflow a) d')) (\<lambda>r.
        bind (query (find_policy_decision (ac_tenant a) (ac_workflow a) r)) (\<lambda>existing.
        case existing of
          Some q \<Rightarrow> lift_res (change4_payload (pd_payload q))
        | None \<Rightarrow> bind (insert_policy_decision r) (\<lambda>_. ret d')))) s = (Inr d, s1)"
    using run m k gid off
    by (auto simp: ensure_policy_decision_def read_simp py_str_def simp del: engine_tx_eq_Inr
        split: sum.splits)
  obtain r where r: "decision_row_of (ac_tenant a) (ac_workflow a) d' = Inr r"
    using tx by (auto simp: read_simp split: sum.splits)
  note row = decision_row_input [OF d' r]
  have "find_policy_decision (ac_tenant a) (ac_workflow a) r s = None"
    using new row(1) by (auto simp: find_policy_decision_def decisions_of_def filter_empty_conv)
  with tx r have ins: "insert_policy_decision r s = (Inr (), s1)" and "d' = d"
    by (auto simp: read_simp bind_eq_Inr)
  have deny: "obj_get d' ''decision'' = JStr ''deny''"
    by (rule inactive_denied [OF d']) (simp add: policy_input_of_def)
  show "\<exists>r. s1 = s\<lparr>policy_decisions := policy_decisions s @ [r]\<rparr> \<and> pd_tenant r = ac_tenant a \<and>
      pd_workflow r = ac_workflow a \<and> pd_decision r = ''deny''"
    using ins row deny
    by (intro exI [of _ r]) (auto simp: insert_policy_decision_def modify_def split: sum.splits)
  show "obj_get d ''decision'' = JStr ''deny''" using deny \<open>d' = d\<close> by simp
qed


section \<open>A revoked grant in the sample store\<close>

definition revoked_opt_in :: policy_db where
  "revoked_opt_in = approved_store\<lparr>policy_activations := [sample_opt_in], grant_status_events :=
     [revocation sample_day ''tenant-alpha'' (py_str (obj_get sample_grant ''grant_id''))]\<rparr>"

lemma revoked_opt_in_reads:
  "grant_for_workflow t w revoked_opt_in = grant_for_workflow t w approved_store"
  "policy_activation_for_workflow ''tenant-alpha'' ''workflow-1'' revoked_opt_in = Some sample_opt_in"
  "checkpoint_by_id ''tenant-alpha'' ''checkpoint-2'' revoked_opt_in = Inr delivering"
  "\<not> grant_is_active ''tenant-alpha'' (py_str (obj_get sample_grant ''grant_id'')) revoked_opt_in"
  "policy_decisions revoked_opt_in = [sample_decision_row]"
  "candidate_material sample_case revoked_opt_in = candidate_material sample_case approved_store"
  "activations revoked_opt_in = [sample_case]"
proof -
  show "candidate_material sample_case revoked_opt_in = candidate_material sample_case approved_store"
    by (simp add: candidate_material_def investigation_facts_def investigation_activation_def
        activation_for_tenant_case_def revoked_opt_in_def cong: option.case_cong)
qed (simp_all add: revoked_opt_in_def grant_for_workflow_def policy_activation_for_workflow_def
    sample_opt_in_def new_policy_activation_def checkpoint_by_id_def grant_is_active_def
    revocation_def approved_store_def load_checkpoint_def delivering_def)

lemma denied_evaluates:
  assumes "pi_grant q = None"
  shows "\<exists>d. evaluate_fixture_policy accepting q now = Inr d"
proof -
  have "\<exists>r. policy_verdict q now = Inr (False, r)" using assms by (simp add: policy_verdict_def)
  then show ?thesis
    by (auto simp: evaluate_fixture_policy_def Let_def validate_policy_decision_def accepting_ok
        decision_record_def)
qed

lemma decision_row_built:
  assumes "evaluate_fixture_policy V q now = Inr d" and "0 \<le> pi_workflow_version q"
    and "pi_workflow_version q < 2 ^ 63"
  shows "\<exists>r. decision_row_of t w d = Inr r \<and> length (pd_id r) = 48 \<and> length (pd_sha256 r) = 64 \<and>
    pd_workflow_version r = pi_workflow_version q"
proof -
  obtain x y where d: "d = obj_set (decision_record q x y now) ''policy_decision_sha256''
      (JStr (content_hash (decision_record q x y now) ''policy_decision_sha256''))"
    using assms(1) by (auto simp: evaluate_fixture_policy_def Let_def)
  show ?thesis using assms(2,3)
    by (simp add: d decision_record_def decision_row_of_def text_col_def list_col_def int_col_def
        sql_text_def sql_int_def py_int_def Let_def obj_set_def length_stable_identifier
        content_hash_def)
qed


section \<open>A store the rebuild accepts\<close>

definition first_row_of :: "string \<Rightarrow> checkpoint_row" where
  "first_row_of sha256 =
     \<lparr>cp_tenant = ''tenant-alpha'', cp_id = ''checkpoint-0'', cp_workflow = ''workflow-1'',
      cp_case = ''case-1'', cp_revision = ''revision-1'', cp_definition = WORKFLOW_DEFINITION_VERSION,
      cp_sequence = 1, cp_previous = None, cp_state = RECEIVED, cp_resume = RECEIVED, cp_version = 0,
      cp_deadline = timestamp sample_day, cp_pending = Some [], cp_completed = Some [],
      cp_causation = Some ''event-1'', cp_correlation = ''correlation-1'', cp_sha256 = sha256,
      cp_kind = None, cp_created_at = timestamp sample_day\<rparr>"

definition started_checkpoint :: checkpoint_row where
  "started_checkpoint = first_row_of (checkpoint_hash (checkpoint_fields (first_row_of []) [] [] []))"

definition source_event :: event_row where
  "source_event = \<lparr>ev_tenant = ''tenant-alpha'', ev_id = ''event-1'', ev_case = ''case-1'',
     ev_revision = ''revision-1'', ev_type = ''case.opened'', ev_occurred_at = timestamp sample_day,
     ev_received_at = timestamp sample_day, ev_correlation = ''correlation-1'', ev_causation = None,
     ev_index = 1, ev_sha256 = ''hash'', ev_metadata = None, ev_workflow = None, ev_checkpoint = None\<rparr>"

definition started_store :: policy_db where
  "started_store = empty_policy\<lparr>events := [source_event], activations := [sample_case],
     runs := [new_run ''tenant-alpha'' ''workflow-1'' RECEIVED ''activated'' (timestamp sample_day) 1,
              new_run ''tenant-alpha'' ''workflow-1'' RECEIVED ''checkpoint'' (timestamp sample_day) 2],
     checkpoints := [started_checkpoint]\<rparr>"

lemma started_reads:
  "sorted_activations started_store = [sample_case]" "schema_error started_store = None"
  "checkpoints_of ''tenant-alpha'' ''workflow-1'' started_store = Inr [loaded started_checkpoint]"
  "source_event_exists sample_case started_store"
  "workflow_commands t w started_store = []" "workflow_intents t w started_store = Inr []"
  "workflow_deliveries t w started_store = []" "validate_ticket_source t started_store = Inr ()"
  by (simp_all add: started_store_def empty_policy_def empty_journal_def empty_ledger_def
      ledger_db.defs journal_db.defs sorted_activations_def checkpoints_of_def checkpoint_rows_def
      load_checkpoint_def loaded_def started_checkpoint_def first_row_of_def source_event_exists_def
      source_event_def sample_case_def workflow_commands_def workflow_intents_def
      workflow_deliveries_def validate_ticket_source_def)

lemma started_checkpoint_fields [simp]:
  "ck_row (loaded started_checkpoint) = started_checkpoint" "ck_pending (loaded started_checkpoint) = []"
  "ck_completed (loaded started_checkpoint) = []" "cp_tenant started_checkpoint = ''tenant-alpha''"
  "cp_case started_checkpoint = ''case-1''" "cp_revision started_checkpoint = ''revision-1''"
  "cp_workflow started_checkpoint = ''workflow-1''" "cp_sequence started_checkpoint = 1"
  "cp_definition started_checkpoint = WORKFLOW_DEFINITION_VERSION" "cp_previous started_checkpoint = None"
  "cp_state started_checkpoint = RECEIVED" "cp_resume started_checkpoint = RECEIVED"
  "cp_version started_checkpoint = 0" "cp_kind started_checkpoint = None"
  "cp_causation started_checkpoint = Some ''event-1''" "cp_correlation started_checkpoint = ''correlation-1''"
  "cp_deadline started_checkpoint = timestamp sample_day"
  by (simp_all add: started_checkpoint_def first_row_of_def loaded_def)

lemma started_checkpoint_sealed:
  "cp_sha256 started_checkpoint = checkpoint_hash (checkpoint_payload (loaded started_checkpoint))"
  by (simp add: checkpoint_payload_def loaded_def started_checkpoint_def first_row_of_def
      checkpoint_hash_def checkpoint_fields_def obj_without_def)

lemma started_checkpoint_valid:
  "validate_checkpoint_sequence accepting [checkpoint_payload (loaded started_checkpoint)] = Inr ()"
proof -
  have "validate_workflow_checkpoint accepting (checkpoint_payload (loaded started_checkpoint)) = Inr ()"
    by (simp add: validate_workflow_checkpoint_def accepting_ok checkpoint_payload_def checkpoint_fields_def)
  then show ?thesis
    by (simp add: validate_checkpoint_sequence_def checkpoint_step_def checkpoint_scan_start_def
        payload_items py_int_def jopt_def)
qed

lemma started_valid: "validate_sources accepting sample_case [loaded started_checkpoint] started_store = Inr ()"
proof -
  let ?run = "new_run ''tenant-alpha'' ''workflow-1'' RECEIVED"
  have runs: "workflow_runs ''tenant-alpha'' ''workflow-1'' started_store =
      [?run ''activated'' (timestamp sample_day) 1, ?run ''checkpoint'' (timestamp sample_day) 2]"
    by (simp add: workflow_runs_def started_store_def new_run_def)
  have "validate_checkpoint_source accepting sample_case [loaded started_checkpoint] started_store = Inr ()"
    using started_checkpoint_valid started_checkpoint_sealed
    by (simp add: validate_checkpoint_source_def Let_def runs check_runs_def new_run_def
        as_invalid_journal_def check_identity_def check_step_def sample_case_def)
  then have "validate_workflow_source accepting sample_case [loaded started_checkpoint] started_store = Inr ()"
    by (simp add: validate_workflow_source_def validate_effect_source_def started_reads
        as_invalid_journal_def validate_side_effect_intents_def)
  moreover have "validate_investigation_source accepting sample_case [loaded started_checkpoint] started_store = Inr ()"
    by (simp add: validate_investigation_source_def started_store_def)
  moreover have "policy_untouched t w started_store" and "policy_activations started_store = []" for t w
    by (simp_all add: policy_untouched_def started_store_def empty_policy_def empty_journal_def
        ledger_db.defs journal_db.defs)
  then have "validate_change4_source accepting sample_case [loaded started_checkpoint] started_store = Inr ()"
    by (simp add: validate_change4_source_def single_row_def delivery_states_def)
  ultimately show ?thesis by (simp add: validate_sources_def)
qed

lemma started_rebuild:
  "\<exists>t p. rebuild_workflow_projection accepting started_store = (Inr (), t) \<and>
     workflow_projections t = [p] \<and> wp_state p = RECEIVED"
proof -
  let ?p = "project_workflow sample_case (loaded started_checkpoint)"
  have "validate_workflow_projection accepting (workflow_projection_payload ?p) = Inr ()"
    by (simp add: validate_workflow_projection_def accepting_ok workflow_projection_payload_def)
  then have "fold_res (derive accepting started_store) [] (sorted_activations started_store) = Inr [?p]"
    by (simp add: started_reads derive_def started_valid insert_row_def)
  then show ?thesis
    by (intro exI [of _ "started_store\<lparr>workflow_projections := [?p]\<rparr>"] exI [of _ ?p])
      (simp add: rebuild_iff started_reads project_workflow_def Let_def)
qed

theorem workflow_projection_rebuildable_witness:
  "\<exists>t :: policy_db. rebuild_workflow_projection accepting started_store = (Inr (), t) \<and>
     workflow_projections t \<noteq> [] \<and>
     rebuild_workflow_projection accepting (t\<lparr>workflow_projections := []\<rparr>) = (Inr (), t)"
proof -
  obtain t p where run: "rebuild_workflow_projection accepting started_store = (Inr (), t)"
    and p: "workflow_projections t = [p]" using started_rebuild by blast
  have "rebuild_workflow_projection accepting (t\<lparr>workflow_projections := []\<rparr>) = (Inr (), t)"
    using workflow_projection_rebuildable [OF run, of "[]"] by blast
  moreover have "workflow_projections t \<noteq> []" unfolding p by simp
  ultimately show ?thesis using run by blast
qed

theorem projections_well_typed_witness:
  "\<exists>t p. rebuild_workflow_projection accepting started_store = (Inr (), t) \<and>
     p \<in> set (workflow_projections t) \<and> wp_state p \<in> WORKFLOW_STATES"
proof -
  obtain t p where run: "rebuild_workflow_projection accepting started_store = (Inr (), t)"
    and "p \<in> set (workflow_projections t)" using started_rebuild by fastforce
  with projections_well_typed [OF this] show ?thesis by blast
qed

theorem checkpoint_numbers_consecutive_witness:
  "\<exists>t p. rebuild_workflow_projection accepting started_store = (Inr (), t) \<and>
     p \<in> set (workflow_projections t) \<and> wp_version p = wp_sequence p - 1"
proof -
  obtain t p where run: "rebuild_workflow_projection accepting started_store = (Inr (), t)"
    and "p \<in> set (workflow_projections t)" using started_rebuild by fastforce
  with checkpoint_numbers_consecutive [OF this] show ?thesis by blast
qed

end
