(* ===== verification/RecoveryProps.thy ===== *)
theory RecoveryProps
  imports Recovery RebuildFault
begin

text \<open>
  The recovery always returns: a reconciliation that ends leaves a state that is not reconciled
  again, so the recursion of \<open>_recover_workflow\<close> is at most one deep.  And it only appends.
\<close>

section \<open>The state behind a checkpoint request\<close>

lemma latest_is_last:
  assumes "latest_checkpoint t w s = Inr prev" and "x \<in> set (checkpoint_rows t w s)"
  shows "\<exists>k. prev = Some k \<and> cp_sequence x \<le> cp_sequence (ck_row k)"
proof -
  let ?rows = "checkpoint_rows t w s"
  obtain ks where ks: "map_res load_checkpoint ?rows = Inr ks"
    and prev: "prev = (if ks = [] then None else Some (last ks))"
    using assms(1) by (auto simp: latest_checkpoint_def checkpoints_of_def)
  have rows: "list_all2 (\<lambda>r k. load_checkpoint r = Inr k) ?rows ks" using ks by (simp add: map_res_eq_Inr)
  then have len: "length ks = length ?rows" by (simp add: list_all2_lengthD)
  with assms(2) have ne: "ks \<noteq> []" by auto
  have "load_checkpoint (last ?rows) = Inr (last ks)"
    using list_all2_nthD2 [OF rows, of "length ks - 1"] ne len
    by (simp add: last_conv_nth length_greater_0_conv [symmetric] del: length_greater_0_conv)
  then have row: "ck_row (last ks) = last ?rows"
    by (cases "last ks") (auto simp: load_checkpoint_def split: option.splits)
  have "sorted (map cp_sequence ?rows)" by (simp add: checkpoint_rows_def)
  moreover obtain i where "i < length ?rows" "x = ?rows ! i" using assms(2) by (auto simp: in_set_conv_nth)
  ultimately have "cp_sequence x \<le> cp_sequence (last ?rows)"
    using sorted_nth_mono [of "map cp_sequence ?rows" i "length ?rows - 1"]
    by (cases "?rows = []") (simp_all add: last_conv_nth)
  with prev ne row show ?thesis by simp
qed

lemma next_untaken:
  assumes "latest_checkpoint (ac_tenant a) (ac_workflow a) s = Inr prev"
  shows "taken_sequence (ck_row (next_checkpoint now a prev q)) s = None"
proof (rule ccontr)
  let ?r = "ck_row (next_checkpoint now a prev q)"
  assume "taken_sequence ?r s \<noteq> None"
  then obtain x where x: "x \<in> set (checkpoints s)" "cp_tenant x = ac_tenant a" "cp_workflow x = ac_workflow a"
    and n: "cp_sequence x = cp_sequence ?r"
    by (auto simp: taken_sequence_def filter_empty_conv next_checkpoint_def unhashed_checkpoint_def Let_def)
  from x have "x \<in> set (checkpoint_rows (ac_tenant a) (ac_workflow a) s)" by (simp add: checkpoint_rows_def)
  from latest_is_last [OF assms this] obtain k where k: "prev = Some k"
    and le: "cp_sequence x \<le> cp_sequence (ck_row k)" by blast
  from k have "cp_sequence ?r = cp_sequence (ck_row k) + 1"
    by (simp add: next_checkpoint_def unhashed_checkpoint_def Let_def)
  with n le show False by simp
qed

lemma ensured_state:
  assumes "ensure_checkpoint V now a q s = (Inr k, s')"
  shows "cp_state (ck_row k) = rq_state q \<and> cp_resume (ck_row k) = rq_resume q"
proof -
  obtain prev where prev: "latest_checkpoint (ac_tenant a) (ac_workflow a) s = Inr prev"
    using assms by (auto simp: ensure_checkpoint_def read_simp split: sum.splits)
  let ?k = "next_checkpoint now a prev q"
  have tenant: "cp_tenant (ck_row ?k) = ac_tenant a" "cp_workflow (ck_row ?k) = ac_workflow a"
    by (simp_all add: next_checkpoint_def unhashed_checkpoint_def Let_def)
  have written: "k' = ?k" if "write_checkpoint V ?k s = (Inr k', s1)" for k' s1
    using that next_untaken [OF prev, of now q]
    by (auto simp: write_checkpoint_def append_checkpoint_def bind_eq_Inr lift_res_eq_Inr Let_def)
  have new: "cp_state (ck_row ?k) = rq_state q" "cp_resume (ck_row ?k) = rq_resume q"
    by (simp_all add: next_checkpoint_def unhashed_checkpoint_def Let_def)
  show ?thesis
    using assms prev written new
    by (auto simp: ensure_checkpoint_def read_simp same_checkpoint_def split: sum.splits option.splits if_splits)
qed

lemma transition_result:
  assumes "workflow_transition V now fp a k m s = (Inr k', s')"
  shows "validate_transition (cp_state (ck_row k)) (mv_kind m) (mv_next m) (Some (mv_resume m))
      (ck_pending k \<noteq> []) = Inr ()"
    and "\<exists>u. ensure_checkpoint V now a (move_request k m) s = (Inr k', u)"
  using assms by (auto simp: workflow_transition_def bind_eq_Inr)

lemma resumed_state:
  assumes "recover_reconciliation V now fp a k s = (Inr (Some k'), s')"
  shows "cp_state (ck_row k') \<noteq> NEEDS_RECONCILIATION"
proof -
  have resumed: "cp_state (ck_row k') \<noteq> NEEDS_RECONCILIATION"
    if "resume_reconciled V now fp a k t = (Inr (Some k'), t')" for t t'
  proof -
    let ?m = "\<lambda>completed. \<lparr>mv_kind = RECONCILIATION_COMPLETE, mv_next = cp_resume (ck_row k),
      mv_resume = cp_resume (ck_row k), mv_causation = Some ''reconciliation:known-outcome'',
      mv_pending = Some [], mv_completed = Some completed\<rparr>"
    from that obtain c where "workflow_transition V now fp a k (?m c) t = (Inr k', t')"
      by (auto simp: resume_reconciled_def bind_eq_Inr split: if_splits)
    note moved = transition_result [OF this]
    from moved(1) have "cp_resume (ck_row k) \<noteq> NEEDS_RECONCILIATION"
      by (auto simp: validate_transition_def split: if_splits)
    moreover obtain u where "ensure_checkpoint V now a (move_request k (?m c)) t = (Inr k', u)"
      using moved(2) by blast
    then have "cp_state (ck_row k') = cp_resume (ck_row k)"
      using ensured_state by (fastforce simp: move_request_def)
    ultimately show ?thesis by simp
  qed
  show ?thesis
    using assms resumed
    by (auto simp: recover_reconciliation_def bind_eq_Inr lift_res_eq_Inr split: list.splits option.splits)
qed

section \<open>Every run returns\<close>

lemma stage_of_state:
  assumes "cp_state (ck_row k) \<noteq> NEEDS_RECONCILIATION"
  shows "\<exists>r. recover_stage V now fp a k s = Some r"
  using assms by (subst recover_stage.simps) (simp split: prod.split sum.split option.split)

lemma stage_returns: "\<exists>r. recover_stage V now fp a k s = Some r"
proof (cases "cp_state (ck_row k) = NEEDS_RECONCILIATION")
  case True
  have deeper: "\<exists>r. recover_stage V now fp a k' s2 = Some r"
    if "recover_reconciliation V now fp a k s1 = (Inr (Some k'), s2)" for k' s1 s2
    using stage_of_state [OF resumed_state [OF that]] .
  show ?thesis
    by (subst recover_stage.simps) (auto split: prod.split sum.split option.split dest: deeper)
qed (rule stage_of_state)

lemma stage_not_none: "recover_stage V now fp a k s \<noteq> None"
  using stage_returns [of V now fp a k s] by auto

lemma then_run_returns:
  "m s \<noteq> None \<Longrightarrow> (\<And>x t. f x t \<noteq> None) \<Longrightarrow> then_run m f s \<noteq> None"
  by (simp add: then_run_def split: sum.split option.split)

lemma run_of_returns: "run_of m s \<noteq> None"
  by (simp add: run_of_def)

lemma workflow_returns: "recover_workflow V now fp t w s \<noteq> None"
proof -
  have "then_run (recover_stage V now fp (fst x) (snd x)) (\<lambda>_. run_of (get_workflow_projection V t w)) u \<noteq> None"
    for x u
    by (intro then_run_returns run_of_returns stage_not_none)
  then show ?thesis
    unfolding recover_workflow_def
    by (intro then_run_returns run_of_returns) (simp only: case_prod_unfold not_False_eq_True)
qed

lemma case_returns: "run_case V now fp t c rv p s \<noteq> None"
proof -
  have "then_run (run_of (if snd x then interrupt fp ''activation'' else ret ()))
      (\<lambda>_. recover_workflow V now fp t (fst x)) u \<noteq> None" for x and u :: "'a policy_db_scheme"
    by (intro then_run_returns run_of_returns workflow_returns)
  then show ?thesis
    unfolding run_case_def
    by (intro then_run_returns run_of_returns) (simp only: case_prod_unfold not_False_eq_True)
qed

lemma cases_return: "run_cases V now fp cs s \<noteq> None"
proof (induction cs arbitrary: s)
  case (Cons x cs)
  then show ?case by (cases x) (simp only: run_cases.simps, intro then_run_returns case_returns)
qed (simp add: run_of_def)

lemma each_returns: "recover_each V now fp as s \<noteq> None"
proof (induction as arbitrary: s)
  case (Cons a as)
  show ?case
    unfolding recover_each.simps by (intro then_run_returns workflow_returns run_of_returns Cons.IH)
qed (simp add: run_of_def)

text \<open>
  C35.  The recovery always returns.  For every journal, clock value, contract and injected fault the
  recovery of one workflow, of a Case and of the whole store ends with a value or an exception: the
  recursion through the reconciliation is at most one deep, because a completed reconciliation never
  resumes in \<open>NEEDS_RECONCILIATION\<close>.
\<close>

theorem recovery_returns:
  "recover_stage V now fp a k s \<noteq> None \<and> recover_workflow V now fp t w s \<noteq> None \<and>
   run_case V now fp t c rv p s \<noteq> None \<and> recover_all V now fp s \<noteq> None"
proof -
  have "recover_all V now fp s \<noteq> None"
    unfolding recover_all_def activate_pending_cases_def
    by (intro then_run_returns run_of_returns cases_return each_returns)
  then show ?thesis by (intro conjI stage_not_none workflow_returns case_returns)
qed

end
