(* ===== verification/InvestigationRuns.thy ===== *)
theory InvestigationRuns
  imports RecoveryProps DeliveryRuns
begin

text \<open>
  The whole engine: every entry point of the ledger, the investigation, the policy and delivery
  operations and the recovery as one step relation.  A relation of the store that the single writes
  keep is kept by every step (\<open>investigation_engine\<close>); its instances are growth, the delivery
  invariant and the budget of the investigation tools.
\<close>

section \<open>The read model\<close>

text \<open>A rebuild writes the two projection tables only.\<close>

definition read_model_only :: "'a policy_db_scheme \<Rightarrow> 'a policy_db_scheme \<Rightarrow> bool" where
  "read_model_only s s' \<longleftrightarrow> s'\<lparr>projections := [], workflow_projections := []\<rparr> =
     s\<lparr>projections := [], workflow_projections := []\<rparr>"

interpretation read_model: store_order read_model_only
  by unfold_locales (simp_all add: read_model_only_def)

lemma read_model_inserts:
  "keeps (read_model_only :: 'a policy_db_scheme \<Rightarrow> _) (insert_projection p)"
  "keeps (read_model_only :: 'a policy_db_scheme \<Rightarrow> _) (insert_workflow_projection w)"
  "keeps (read_model_only :: 'a policy_db_scheme \<Rightarrow> _) (modify (\<lambda>s. Inr (s\<lparr>projections := []\<rparr>)))"
  "keeps (read_model_only :: 'a policy_db_scheme \<Rightarrow> _)
     (modify (\<lambda>s. Inr (s\<lparr>workflow_projections := []\<rparr>)))"
  unfolding insert_projection_def insert_workflow_projection_def
  by (auto intro!: read_model.keeps_modify simp: read_model_only_def)

lemma rebuild_writes_read_model:
  "keeps (read_model_only :: 'a policy_db_scheme \<Rightarrow> _) (rebuild_projection V)"
proof -
  have one: "keeps (read_model_only :: 'a policy_db_scheme \<Rightarrow> _) (rebuild_case_projection V c)" for c
    unfolding rebuild_case_projection_def
    by (intro read_model.keeps_bind read_model_inserts) auto
  have "keeps (read_model_only :: 'a policy_db_scheme \<Rightarrow> _) (rebuild_cases V cs)" for cs
  proof (induction cs)
    case Nil
    show ?case unfolding rebuild_cases.simps by (rule read_model.keeps_pure)
  next
    case (Cons c cs)
    then show ?case unfolding rebuild_cases.simps by (intro read_model.keeps_bind one)
  qed
  then show ?thesis
    unfolding rebuild_projection_def
    by (intro read_model.keeps_tx read_model.keeps_rethrow read_model.keeps_bind
        read_model_inserts) auto
qed

lemma workflow_rebuild_writes_read_model:
  "keeps (read_model_only :: 'a policy_db_scheme \<Rightarrow> _) (rebuild_workflow_projection V)"
proof -
  have one: "keeps (read_model_only :: 'a policy_db_scheme \<Rightarrow> _) (rebuild_workflow V a)" for a
    unfolding rebuild_workflow_def Let_def
    by (intro read_model.keeps_bind read_model.keeps_if read_model_inserts) auto
  have "keeps (read_model_only :: 'a policy_db_scheme \<Rightarrow> _) (rebuild_workflows V as)" for as
  proof (induction as)
    case Nil
    show ?case unfolding rebuild_workflows.simps by (rule read_model.keeps_pure)
  next
    case (Cons a as)
    then show ?case unfolding rebuild_workflows.simps by (intro read_model.keeps_bind one)
  qed
  then show ?thesis
    unfolding rebuild_workflow_projection_def engine_tx_def
    by (intro read_model.keeps_tx read_model.keeps_rethrow read_model.keeps_bind
        read_model_inserts) auto
qed

section \<open>The steps of the engine\<close>

inductive system_step :: "validators \<Rightarrow> 'a policy_db_scheme \<Rightarrow> 'a policy_db_scheme \<Rightarrow> bool" for V where
  delivered: "intake V now d t s = (x, s') \<Longrightarrow> system_step V s s'"
| qq_delivered: "intake_qq V now d t s = (x, s') \<Longrightarrow> system_step V s s'"
| projected: "get_workflow_projection V t w s = (o1, s') \<Longrightarrow> system_step V s s'"
| case_run: "run_case V now fp t c rv p s = Some (o1, s') \<Longrightarrow> system_step V s s'"
| recovered: "recover_workflow V now fp t w s = Some (o1, s') \<Longrightarrow> system_step V s s'"
| restarted: "recover_all V now fp s = Some (os, s') \<Longrightarrow> system_step V s s'"
| commanded: "submit_command V now t c i ty e s = (cm, s') \<Longrightarrow> system_step V s s'"
| begun: "begin_investigation V now fp t c m tr s = (p1, s') \<Longrightarrow> system_step V s s'"
| acted: "record_agent_action V fp t c q s = (p1, s') \<Longrightarrow> system_step V s s'"
| exchanged: "record_tool_exchange V fp t c q r s = (p2, s') \<Longrightarrow> system_step V s s'"
| proposed: "record_response_candidate V fp t c q s = (p1, s') \<Longrightarrow> system_step V s s'"
| verified: "verify_response_candidate V now fp t c i s = (p1, s') \<Longrightarrow> system_step V s s'"
| policy_activated: "activate_policy_approval V now fp t c f s = (u, s') \<Longrightarrow> system_step V s s'"
| approval_submitted: "submit_approval_decision V now fp t c rid d n who role s = (z, s') \<Longrightarrow>
    system_step V s s'"
| revoked: "revoke_fixture_grant now t c s = (u, s') \<Longrightarrow> system_step V s s'"

text \<open>
  A store without deliveries and tool requests whose investigations satisfy the keys and checks of
  their table.
\<close>

definition fresh_system :: "'a policy_db_scheme \<Rightarrow> bool" where
  "fresh_system s \<longleftrightarrow> delivery_intents s = [] \<and> delivery_records s = [] \<and> tool_requests s = [] \<and>
     sorted_wrt (\<lambda>v u. \<not> investigation_clash u v) (investigations s) \<and>
     (\<forall>v\<in>set (investigations s). 1 \<le> iv_tool_budget v)"

inductive system_run :: "validators \<Rightarrow> 'a policy_db_scheme \<Rightarrow> bool" for V where
  installed: "fresh_system s \<Longrightarrow> system_run V s"
| stepped: "system_run V s \<Longrightarrow> system_step V s s' \<Longrightarrow> system_run V s'"

section \<open>What every step keeps\<close>

definition keeps_run :: "('s \<Rightarrow> 's \<Rightarrow> bool) \<Rightarrow> ('s, 'a) run \<Rightarrow> bool" where
  "keeps_run R m \<longleftrightarrow> (\<forall>s x s'. m s = Some (x, s') \<longrightarrow> R s s')"

lemma keeps_runD: "keeps_run R m \<Longrightarrow> m s = Some (x, s') \<Longrightarrow> R s s'"
  unfolding keeps_run_def by blast

lemma keeps_run_of: "keeps R m \<Longrightarrow> keeps_run R (run_of m)"
  by (auto simp: keeps_run_def run_of_def dest: keepsD)

context store_order
begin

lemma keeps_then_run:
  assumes "keeps_run R m" and "\<And>x. keeps_run R (f x)"
  shows "keeps_run R (then_run m f)"
  unfolding keeps_run_def then_run_def
proof (intro allI impI, goal_cases)
  case (1 s x s')
  then obtain y t where m: "m s = Some (y, t)" by (cases "m s") auto
  with assms(1) have "R s t" by (rule keeps_runD)
  with 1 m show ?case
    by (cases y) (auto dest: keeps_runD [OF assms(2)] intro: trans_R)
qed

end

locale reading_engine = delivery_engine R
  for R :: "'a policy_db_scheme \<Rightarrow> 'a policy_db_scheme \<Rightarrow> bool" +
  assumes read_model: "read_model_only s s' \<Longrightarrow> R s s'"
begin

lemma keeps_rebuilds [intro]:
  "keeps R (rebuild_projection V)" "keeps R (rebuild_workflow_projection V)"
  by (auto intro!: keepsI read_model dest: keepsD [OF rebuild_writes_read_model]
      keepsD [OF workflow_rebuild_writes_read_model])

lemma keeps_projection [intro]: "keeps R (get_workflow_projection V t w)"
  unfolding get_workflow_projection_def by (intro keeps_bind keeps_option) auto

lemma keeps_require [intro]: "keeps R (require_investigation V t c)"
  unfolding require_investigation_def by (intro keeps_bind keeps_option) auto

lemma keeps_advance [intro]: "keeps R (advance_verified_candidate V now fp a v)"
  unfolding advance_verified_candidate_def by (intro keeps_bind keeps_if keeps_option; auto)

lemma keeps_finish_verification [intro]: "keeps R (finish_verification V now fp a v)"
  unfolding finish_verification_def by (intro keeps_bind; auto)

lemma keeps_decide:
  "(\<And>v. keeps R (insert_outcome v)) \<Longrightarrow> keeps R (decide_candidate V now a t iv r payload)"
  unfolding decide_candidate_def Let_def persist_outcome_def
  by (intro keeps_bind keeps_engine_tx; auto)

lemma keeps_verify:
  assumes "\<And>v. keeps R (insert_outcome v)"
  shows "keeps R (verify_response_candidate V now fp t c i)"
  unfolding verify_response_candidate_def
  by (intro keeps_bind keeps_prod keeps_option; auto intro: keeps_decide [OF assms])

text \<open>The tool exchange keeps what its transaction keeps.\<close>

lemma keeps_exchange:
  assumes "\<And>w. keeps R (persist_tool_exchange t w q r)"
  shows "keeps R (record_tool_exchange V fp t c q r)"
  unfolding record_tool_exchange_def
  by (intro keeps_bind keeps_prod keeps_option assms; auto)

end

locale investigation_engine = reading_engine R
  for R :: "'a policy_db_scheme \<Rightarrow> 'a policy_db_scheme \<Rightarrow> bool" +
  assumes investigation_inserts [intro]:
    "keeps R (insert_investigation iv)" "keeps R (insert_agent_step g)"
    "keeps R (insert_candidate ca)"
  and verify [intro]: "keeps R (verify_response_candidate V now fp t c i)"
  and exchange [intro]: "keeps R (record_tool_exchange V fp t c q r)"
  and intakes [intro]: "keeps R (intake V now d t)" "keeps R (intake_qq V now d t)"
begin

lemma keeps_begin [intro]: "keeps R (begin_investigation V now fp t c m transcript)"
proof -
  have "keeps R (open_investigation a m transcript)" for a
    unfolding open_investigation_def Let_def
    by (intro keeps_bind keeps_option keeps_engine_tx; auto)
  then show ?thesis
    unfolding begin_investigation_def by (intro keeps_bind keeps_option keeps_if; auto)
qed

lemma keeps_action [intro]: "keeps R (record_agent_action V fp t c p)"
proof -
  have "keeps R (persist_agent_step t w p)" for w
    unfolding persist_agent_step_def by (intro keeps_bind keeps_engine_tx; auto)
  then show ?thesis
    unfolding record_agent_action_def by (intro keeps_bind keeps_prod keeps_option; auto)
qed

lemma keeps_proposal [intro]: "keeps R (record_response_candidate V fp t c p)"
proof -
  have "keeps R (persist_candidate a t projection p)" for a projection
    unfolding persist_candidate_def by (intro keeps_engine_tx keeps_bind keeps_option; auto)
  then show ?thesis
    unfolding record_response_candidate_def
    by (intro keeps_bind keeps_prod; auto split: sum.split)
qed

lemma keeps_recover_investigation [intro]: "keeps R (recover_investigation V now fp a k)"
  unfolding recover_investigation_def Let_def
  by (intro keeps_bind keeps_option keeps_if; auto)

section \<open>The recovery\<close>

lemma keeps_check_sla [intro]: "keeps R (check_sla V now fp a k)"
  unfolding check_sla_def by (intro keeps_bind keeps_if; auto)

lemma keeps_recover_state [intro]: "keeps R (recover_state V now fp a k)"
  unfolding recover_state_def Let_def by (intro keeps_bind keeps_if; auto)

lemma keeps_prepare [intro]: "keeps R (prepare_recovery V now fp t w)"
proof -
  have "keeps R (starting_checkpoint V now fp a)" for a
    unfolding starting_checkpoint_def first_checkpoint_def
    by (intro keeps_bind keeps_option; auto)
  then show ?thesis
    unfolding prepare_recovery_def by (intro keeps_bind; auto)
qed

lemma stage_step:
  assumes "recover_stage V now fp a k s = Some (x, s')"
    and "\<And>k' t. recover_stage V now fp a k' t = Some (x, s') \<Longrightarrow>
      cp_state (ck_row k') \<noteq> NEEDS_RECONCILIATION \<Longrightarrow> R t s'"
  shows "R s s'"
proof -
  obtain y t where sla: "check_sla V now fp a k s = (y, t)" by fastforce
  then have 1: "R s t" using keepsD [OF keeps_check_sla] by blast
  have 2: "R t s'"
  proof (cases y)
    case (Inl e)
    with assms(1) sla show ?thesis by (subst (asm) recover_stage.simps) (simp add: refl_R)
  next
    case (Inr o1)
    show ?thesis
    proof (cases "o1 \<noteq> None \<or> cp_state (ck_row k) \<noteq> NEEDS_RECONCILIATION \<or> delivery_pending a k t")
      case True
      with assms(1) sla Inr show ?thesis
        by (subst (asm) recover_stage.simps)
          (auto simp: refl_R split: option.splits if_splits dest: keepsD [OF keeps_recover_state]
            keepsD [OF keeps_recover_delivery_reconciliation])
    next
      case False
      obtain z u where rec: "recover_reconciliation V now fp a k t = (z, u)" by fastforce
      then have "R t u" using keepsD [OF keeps_recover_reconciliation] by blast
      moreover have "R u s'"
      proof (cases "\<exists>k'. z = Inr (Some k')")
        case True
        then obtain k' where z: "z = Inr (Some k')" by blast
        with assms(1) sla Inr False rec have "recover_stage V now fp a k' u = Some (x, s')"
          by (subst (asm) recover_stage.simps) simp
        with assms(2) resumed_state rec z show ?thesis by blast
      next
        case no: False
        with assms(1) sla Inr False rec show ?thesis
          by (subst (asm) recover_stage.simps) (auto simp: refl_R split: sum.splits option.splits)
      qed
      ultimately show ?thesis by (rule trans_R)
    qed
  qed
  show ?thesis using 1 2 by (rule trans_R)
qed

lemma keeps_stage: "keeps_run R (recover_stage V now fp a k)"
proof -
  have once: "R s s'" if "recover_stage V now fp a k s = Some (x, s')"
    "cp_state (ck_row k) \<noteq> NEEDS_RECONCILIATION" for k s x s'
  proof -
    obtain y t where sla: "check_sla V now fp a k s = (y, t)" by fastforce
    then have "R s t" using keepsD [OF keeps_check_sla] by blast
    moreover have "R t s'"
      using that sla
      by (subst (asm) recover_stage.simps)
        (auto simp: refl_R split: sum.splits option.splits dest: keepsD [OF keeps_recover_state])
    ultimately show ?thesis by (rule trans_R)
  qed
  then show ?thesis unfolding keeps_run_def using stage_step by blast
qed

lemma keeps_workflow: "keeps_run R (recover_workflow V now fp t w)"
  unfolding recover_workflow_def
  by (intro keeps_then_run keeps_run_of keeps_prepare)
    (auto intro!: keeps_then_run keeps_stage keeps_run_of keeps_projection)

lemma keeps_run_case: "keeps_run R (run_case V now fp t c rv p)"
  unfolding run_case_def
  by (intro keeps_then_run keeps_run_of keeps_activate)
    (auto intro!: keeps_then_run keeps_workflow keeps_run_of)

lemma keeps_recover_all: "keeps_run R (recover_all V now fp)"
proof -
  have cs: "keeps_run R (run_cases V now fp cs)" for cs
  proof (induction cs)
    case Nil
    show ?case unfolding run_cases.simps by (intro keeps_run_of) auto
  next
    case (Cons x cs)
    then show ?case by (cases x) (simp add: keeps_then_run keeps_run_case)
  qed
  have each: "keeps_run R (recover_each V now fp as)" for as
  proof (induction as)
    case Nil
    show ?case unfolding recover_each.simps by (intro keeps_run_of) auto
  next
    case (Cons a as)
    then show ?case
      unfolding recover_each.simps by (intro keeps_then_run keeps_workflow keeps_run_of) auto
  qed
  show ?thesis
    unfolding recover_all_def activate_pending_cases_def
    by (intro keeps_then_run cs each keeps_run_of) auto
qed

lemma step: "system_step V s s' \<Longrightarrow> R s s'"
proof (induction rule: system_step.induct)
  case case_run
  then show ?case by (rule keeps_runD [OF keeps_run_case])
next
  case recovered
  then show ?case by (rule keeps_runD [OF keeps_workflow])
next
  case restarted
  then show ?case by (rule keeps_runD [OF keeps_recover_all])
qed (erule keepsD [rotated], blast)+

lemma steps: "(system_step V)\<^sup>*\<^sup>* s s' \<Longrightarrow> R s s'"
  by (induction rule: rtranclp_induct) (auto intro: refl_R trans_R step)

end

end
