(* ===== verification/EvidenceRuns.thy ===== *)
theory EvidenceRuns
  imports EvidenceTrajectory InvestigationRuns
begin

text \<open>
  What extraction and verification replay keep of the database on every path: they derive the read
  model and append to the evidence tables.
\<close>

context store_order
begin

lemma keeps_attempt [intro]: "keeps R m \<Longrightarrow> keeps R (attempt p m)"
  by (auto simp: keeps_def attempt_def split: prod.splits sum.splits) (metis snd_conv)+

lemma keeps_case_sum [intro]:
  "(\<And>e. keeps R (f e)) \<Longrightarrow> (\<And>x. keeps R (g x)) \<Longrightarrow> keeps R (case r of Inl e \<Rightarrow> f e | Inr x \<Rightarrow> g x)"
  by (cases r) auto

end

definition evidence_le :: "evidence_store \<Rightarrow> evidence_store \<Rightarrow> bool" where
  "evidence_le s s' \<longleftrightarrow> read_model_only (engine s) (engine s') \<and> prefix (artifacts s) (artifacts s') \<and>
     prefix (trajectories s) (trajectories s') \<and> prefix (reports s) (reports s') \<and>
     prefix (replays s) (replays s')"

interpretation evidence: store_order evidence_le
  by unfold_locales (auto simp: evidence_le_def read_model.refl_R intro: read_model.trans_R
    prefix_order.trans)

lemma keeps_on_engine:
  assumes "keeps read_model_only m"
  shows "keeps evidence_le (on_engine m)"
proof (rule keepsI)
  fix s x s'
  assume "on_engine m s = (x, s')"
  then obtain e where "m (engine s) = (x, e)" "s' = s\<lparr>engine := e\<rparr>"
    by (auto simp: on_engine_def split: prod.splits)
  with keepsD [OF assms] show "evidence_le s s'" by (auto simp: evidence_le_def)
qed

lemma evidence_inserts:
  "keeps evidence_le (insert_artifact ra)" "keeps evidence_le (insert_trajectory rt)"
  "keeps evidence_le (insert_report rr)" "keeps evidence_le (insert_replay ry)"
  unfolding insert_artifact_def insert_trajectory_def insert_report_def insert_replay_def
  by (rule evidence.keeps_modify, auto simp: evidence_le_def read_model.refl_R)+

lemma projection_writes_read_model:
  "keeps (read_model_only :: 'a policy_db_scheme \<Rightarrow> _) (get_workflow_projection V t w)"
  unfolding get_workflow_projection_def
  by (intro read_model.keeps_bind workflow_rebuild_writes_read_model read_model.keeps_option) auto

lemma sources_write_read_model:
  "keeps (read_model_only :: 'a policy_db_scheme \<Rightarrow> _) (source_nodes V t c)"
  "keeps (read_model_only :: 'a policy_db_scheme \<Rightarrow> _) (extraction_sources V t c q)"
  "keeps (read_model_only :: 'a policy_db_scheme \<Rightarrow> _) (replay_sources V t d)"
proof -
  show nodes: "keeps (read_model_only :: 'a policy_db_scheme \<Rightarrow> _) (source_nodes V t c)" for c
    unfolding source_nodes_def
    by (intro read_model.keeps_bind read_model.keeps_prod projection_writes_read_model) auto
  show "keeps (read_model_only :: 'a policy_db_scheme \<Rightarrow> _) (extraction_sources V t c q)"
    unfolding extraction_sources_def
    by (intro read_model.keeps_bind read_model.keeps_prod nodes) auto
  show "keeps (read_model_only :: 'a policy_db_scheme \<Rightarrow> _) (replay_sources V t d)"
    unfolding replay_sources_def
    by (intro read_model.keeps_bind read_model.keeps_prod nodes) auto
qed

lemma evidence_writes:
  "keeps evidence_le (write_report t a i d r b)" "keeps evidence_le (store_evidence V t c a ds)"
  "keeps evidence_le (store_replay t i x)"
proof -
  show report: "keeps evidence_le (write_report t a i d r b)" for a i d r b
    unfolding write_report_def by (intro evidence.keeps_bind evidence_inserts) auto
  show "keeps evidence_le (store_evidence V t c a ds)"
    unfolding store_evidence_def Let_def
    by (intro evidence.keeps_bind evidence.keeps_prod evidence.keeps_option evidence.keeps_case_sum
        evidence.keeps_if evidence_inserts report) auto
  show "keeps evidence_le (store_replay t i x)"
    unfolding store_replay_def Let_def
    by (intro evidence.keeps_bind evidence.keeps_option evidence_inserts) auto
qed

lemma extraction_frame: "keeps evidence_le (extract_evidence_trajectory V t c q)"
  unfolding extract_evidence_trajectory_def Let_def
  by (intro evidence.keeps_bind evidence.keeps_option evidence.keeps_prod evidence.keeps_if
      evidence.keeps_attempt evidence.keeps_tx evidence_writes keeps_on_engine
      sources_write_read_model) auto

lemma replay_frame: "keeps evidence_le (replay_evidence_trajectory V t i)"
proof -
  have "keeps evidence_le (replay_documents V t i d)" for d
    unfolding replay_documents_def Let_def
    by (intro evidence.keeps_bind evidence.keeps_option evidence.keeps_prod evidence.keeps_if
        evidence.keeps_attempt evidence.keeps_tx evidence_writes keeps_on_engine
        sources_write_read_model) auto
  then show ?thesis
    unfolding replay_evidence_trajectory_def
    by (intro evidence.keeps_bind evidence.keeps_option evidence.keeps_prod) auto
qed

text \<open>
  C?.  Evidence never advances control.  Whatever extraction and verification replay answer, a failure
  or an escaping error included, the tables of the ledger, the workflow journal, the investigation and
  the policy path are as before, the two derived read models apart, and no evidence row is changed or
  removed.
\<close>

theorem evidence_never_controls:
  "evidence_le s (snd (extract_evidence_trajectory V t c q s)) \<and>
   evidence_le s (snd (replay_evidence_trajectory V t i s))"
  using extraction_frame [of V t c q] replay_frame [of V t i] by (simp add: keeps_def)

end
