(* ===== verification/EvidenceProps.thy ===== *)
theory EvidenceProps
  imports EvidenceRuns
begin

text \<open>
  A trajectory can be replayed: what an extraction has just stored is found again by the next
  extraction and verified by a replay.
\<close>

section \<open>Reading the sources twice\<close>

lemma retained_nodes_ignores [ignores_projections]:
  fixes s :: "'a policy_db_scheme"
  shows "retained_nodes V t c (s\<lparr>workflow_projections := ps\<rparr>) = retained_nodes V t c s"
proof -
  have "lineage_rows t w (s\<lparr>workflow_projections := ps\<rparr>) = lineage_rows t w s" for w
    by (simp add: lineage_rows_def checkpoint_rows_def)
  moreover have "get_case_projection V t c (s\<lparr>workflow_projections := ps\<rparr>) = get_case_projection V t c s"
    "list_case_revisions V t c (s\<lparr>workflow_projections := ps\<rparr>) = list_case_revisions V t c s"
    "list_case_events V t c (s\<lparr>workflow_projections := ps\<rparr>) = list_case_events V t c s"
    "activation_for_tenant_case t c (s\<lparr>workflow_projections := ps\<rparr>) = activation_for_tenant_case t c s"
    by (simp_all add: get_case_projection_def find_projection_def list_case_revisions_def
        case_revisions_def list_case_events_def case_events_def activation_for_tenant_case_def)
  ultimately show ?thesis by (simp only: retained_nodes_def)
qed

lemma rebuilt_again:
  assumes "rebuild_workflow_projection V s = (Inr u, s')"
  shows "\<exists>ps. s' = s\<lparr>workflow_projections := ps\<rparr> \<and> rebuild_workflow_projection V s' = (Inr (), s')"
  using assms by (auto simp: rebuild_iff ignores_projections fold_derive_cong)

lemma projection_again:
  fixes s :: "'a policy_db_scheme"
  assumes "get_workflow_projection V t w s = (Inr p, s')"
  shows "\<exists>ps. s' = s\<lparr>workflow_projections := ps\<rparr> \<and> get_workflow_projection V t w s' = (Inr p, s')"
proof -
  define read :: "('a policy_db_scheme, obj option) action" where "read = bind (query (\<lambda>s. first_row (filter (\<lambda>p. wp_tenant p = t \<and>
    wp_workflow p = w) (workflow_projections s)))) (\<lambda>row. case row of None \<Rightarrow> ret None
     | Some p \<Rightarrow> bind (lift_res (validate_workflow_projection V (workflow_projection_payload p)))
         (\<lambda>_. ret (Some (workflow_projection_payload p))))"
  have get: "get_workflow_projection V t w = bind (rebuild_workflow_projection V) (\<lambda>_. read)"
    by (simp add: get_workflow_projection_def read_def)
  have same: "s2 = s1" if "read s1 = (Inr p, s2)" for s1 s2
    using that by (auto simp: read_def bind_eq_Inr split: option.splits)
  from assms obtain u s1 where "rebuild_workflow_projection V s = (Inr u, s1)" "read s1 = (Inr p, s')"
    by (auto simp: get bind_eq_Inr)
  with same rebuilt_again have "\<exists>ps. s' = s\<lparr>workflow_projections := ps\<rparr> \<and>
      rebuild_workflow_projection V s' = (Inr (), s') \<and> read s' = (Inr p, s')" by blast
  then show ?thesis by (auto simp: get bind_ok)
qed

lemma sources_again:
  fixes s :: "'a policy_db_scheme"
  assumes "source_nodes V t c s = (Inr x, s')"
  shows "source_nodes V t c s' = (Inr x, s')"
proof -
  define after :: "activation_row \<times> obj list \<times> retained_rows \<Rightarrow>
      ('a policy_db_scheme, activation_row \<times> obj list \<times> string) action" where "after = (\<lambda>(a, nodes, rows). bind (get_workflow_projection V t (ac_workflow a))
    (\<lambda>p. bind (lift_res (state_of_projection p)) (\<lambda>final_state.
     bind (lift_res (require (\<not> (final_state = DELIVERY_RECORDED \<and>
         (length (rt_intents rows) \<noteq> 1 \<or> length (rt_completions rows) \<noteq> 1))) lineage_invalid)) (\<lambda>_.
     ret (a, nodes, final_state)))))"
  have src: "source_nodes V t c = bind (bind (query (retained_nodes V t c)) lift_res) after"
    by (simp add: source_nodes_def after_def)
  from assms obtain y where y: "retained_nodes V t c s = Inr y" and x: "after y s = (Inr x, s')"
    by (auto simp: src bind_eq_Inr lift_res_eq_Inr)
  obtain a nodes rows where abc: "y = (a, nodes, rows)" by (cases y) auto
  from x obtain p s1 where p: "get_workflow_projection V t (ac_workflow a) s = (Inr p, s1)"
    and rest: "s1 = s'" by (auto simp: after_def abc bind_eq_Inr lift_res_eq_Inr)
  from projection_again [OF p] obtain ps where ps: "s' = s\<lparr>workflow_projections := ps\<rparr>"
    and again: "get_workflow_projection V t (ac_workflow a) s' = (Inr p, s')" unfolding rest by blast
  from x p again have "after y s' = (Inr x, s')"
    by (auto simp: after_def abc rest bind_eq_Inr lift_res_eq_Inr)
  moreover have "retained_nodes V t c s' = Inr y" by (simp add: ps ignores_projections y)
  ultimately show ?thesis by (simp add: src bind_def)
qed

section \<open>What an extraction stores\<close>

text \<open>The documents of a successful first extraction, and the rows it adds.\<close>

lemma attempt_eq_Some:
  "attempt p m s = (Inr (Some a), s') \<longleftrightarrow> m s = (Inr a, s')"
  by (auto simp: attempt_def split: prod.splits sum.splits if_splits)

lemma attempt_ok: "m s = (Inr a, s') \<Longrightarrow> attempt p m s = (Inr (Some a), s')"
  by (simp add: attempt_eq_Some)

lemma extracted:
  assumes "extract_evidence_trajectory V t c q s = (Inr r, s')" and "r \<noteq> safe_failure"
  obtains a nodes v e where "extraction_sources V t c q (engine s) = (Inr (a, nodes, v), e)"
    "validate_documents V (evidence_documents t c a nodes v) = Inr ()"
    "store_evidence V t c a (evidence_documents t c a nodes v) (s\<lparr>engine := e\<rparr>) = (Inr r, s')"
proof -
  define go where "go = (\<lambda>a d (valid :: unit option). if valid = None then ret safe_failure
    else bind (attempt is_database_error (tx (store_evidence V t c a d))) (\<lambda>r. ret (or_failure r)))"
  have run: "extract_evidence_trajectory V t c q =
      bind (attempt is_lineage_failure (on_engine (extraction_sources V t c q))) (\<lambda>found.
        case found of None \<Rightarrow> ret safe_failure
        | Some (a, nodes, v) \<Rightarrow>
            bind (attempt is_contract_error (lift_res (validate_documents V (evidence_documents t c a nodes v))))
              (go a (evidence_documents t c a nodes v)))"
    unfolding extract_evidence_trajectory_def go_def Let_def by (rule refl)
  from assms obtain a nodes v s1 where
    found: "attempt is_lineage_failure (on_engine (extraction_sources V t c q)) s = (Inr (Some (a, nodes, v)), s1)"
    and rest: "bind (attempt is_contract_error (lift_res (validate_documents V (evidence_documents t c a nodes v))))
        (go a (evidence_documents t c a nodes v)) s1 = (Inr r, s')"
    by (auto simp: run bind_eq_Inr split: option.splits)
  define d where "d = evidence_documents t c a nodes v"
  from rest obtain valid s2 where valid: "attempt is_contract_error (lift_res (validate_documents V d)) s1 =
      (Inr valid, s2)" and go: "go a d valid s2 = (Inr r, s')"
    unfolding bind_eq_Inr d_def by blast
  from go assms(2) obtain u where u: "valid = Some u" by (cases valid) (auto simp: go_def)
  with valid have ok: "validate_documents V d = Inr ()" "s2 = s1" by (auto simp: attempt_eq_Some)
  from go u obtain ro where stored: "attempt is_database_error (tx (store_evidence V t c a d)) s2 = (Inr ro, s')"
    and r: "r = or_failure ro" by (auto simp: go_def bind_eq_Inr)
  from r assms(2) have ro: "ro = Some r" by (cases ro) (auto simp: or_failure_def)
  from found obtain e where e: "extraction_sources V t c q (engine s) = (Inr (a, nodes, v), e)" "s1 = s\<lparr>engine := e\<rparr>"
    by (auto simp: attempt_eq_Some on_engine_def split: prod.splits)
  from stored have "store_evidence V t c a d (s\<lparr>engine := e\<rparr>) = (Inr r, s')"
    unfolding ok(2) e(2) ro by (simp add: attempt_eq_Some)
  from that [OF e(1) ok(1) [unfolded d_def] this [unfolded d_def]] show thesis .
qed

lemma extraction_again:
  assumes "extraction_sources V t c q s = (Inr x, s')"
  shows "extraction_sources V t c q s' = (Inr x, s')"
proof -
  from assms obtain a nodes st v where n: "source_nodes V t c s = (Inr (a, nodes, st), s')"
    and v: "outcome_for st q = Inr v" "x = (a, nodes, v)"
    by (auto simp: extraction_sources_def bind_eq_Inr lift_res_eq_Inr)
  with sources_again [OF n] show ?thesis by (simp add: extraction_sources_def bind_ok)
qed

section \<open>The documents\<close>

lemma sealed_get [simp]:
  "obj_get (sealed p k) k' = (if k' = k then JStr (content_hash (sealed p k) k) else obj_get p k')"
  by (simp add: sealed_def)

lemma trajectory_fields [simp]:
  "obj_get (trajectory_document t c a nodes) ''tenant_id'' = JStr t"
  "obj_get (trajectory_document t c a nodes) ''trajectory_id'' = JStr (trajectory_id_of t c a)"
  "obj_get (trajectory_document t c a nodes) ''case_id'' = JStr c"
  "obj_get (trajectory_document t c a nodes) ''case_revision_id'' = JStr (ac_revision a)"
  "obj_get (trajectory_document t c a nodes) ''workflow_id'' = JStr (ac_workflow a)"
  "obj_get (trajectory_document t c a nodes) ''report_profile_id'' = JStr EVIDENCE_PROFILE_ID"
  "obj_get (trajectory_document t c a nodes) ''created_at'' = JStr (ac_created_at a)"
  "obj_get (trajectory_document t c a nodes) ''root_sha256'' =
     JStr (content_hash (trajectory_document t c a nodes) ''root_sha256'')"
  by (simp_all add: trajectory_document_def)

lemma trajectory_replayed:
  "replayed_root (trajectory_document t c a nodes) nodes =
     content_hash (trajectory_document t c a nodes) ''root_sha256''"
  by (simp add: replayed_root_def trajectory_document_def sealed_def content_hash_def obj_set_def)

lemma report_fields [simp]:
  "obj_get (report_document t a i root n v) ''tenant_id'' = JStr t"
  "obj_get (report_document t a i root n v) ''trajectory_id'' = JStr i"
  "obj_get (report_document t a i root n v) ''report_id'' = JStr (report_id_of root (fst v))"
  "obj_get (report_document t a i root n v) ''artifact_id'' =
     JStr (artifact_id_of root (report_id_of root (fst v)))"
  "obj_get (report_document t a i root n v) ''report_profile_id'' = JStr EVIDENCE_PROFILE_ID"
  "obj_get (report_document t a i root n v) ''content_sha256'' =
     JStr (content_hash (report_document t a i root n v) ''content_sha256'')"
  by (simp_all add: report_document_def Let_def split: prod.splits)

lemma artifact_links:
  assumes "rep = report_document t a (trajectory_id_of t c a) root n v"
    and "art = artifact_document t c a (trajectory_id_of t c a) rep"
  shows "require_link art (trajectory_document t c a nodes) ''artifact-trajectory''
       [''tenant_id'', ''case_id'', ''case_revision_id'', ''workflow_id'', ''trajectory_id'',
        ''report_profile_id''] = Inr ()"
    and "require_link art rep ''evidence-report''
       [''tenant_id'', ''artifact_id'', ''trajectory_id'', ''report_profile_id''] = Inr ()"
    and "obj_get art ''content_sha256'' = obj_get rep ''content_sha256''"
  by (simp_all add: require_link_def artifact_document_def assms)

section \<open>The rows\<close>

lemma first_row_filter_snoc:
  "(\<And>x. x \<in> set xs \<Longrightarrow> \<not> P x) \<Longrightarrow> P y \<Longrightarrow> first_row (filter P (xs @ [y])) = Some y"
  by (induction xs) auto

lemma report_written:
  assumes "write_report t a i d rep art s = (Inr r, s')"
  shows "r = evidence_result d rep art False" "engine s' = engine s" "replays s' = replays s"
    "trajectories s' = trajectories s"
    "load_payload er_payload (stored_report t i s') = Inr (Some rep)"
    "load_payload ea_payload (stored_artifact t i s') = Inr (Some art)"
proof -
  define ra where "ra = \<lparr>ea_tenant = t, ea_id = py_str (obj_get art ''artifact_id''), ea_trajectory = i,
    ea_sha256 = py_str (obj_get art ''content_sha256''), ea_payload = Some (JObj art),
    ea_created_at = ac_created_at a\<rparr>"
  define rr where "rr = \<lparr>er_tenant = t, er_id = py_str (obj_get rep ''report_id''),
    er_artifact = py_str (obj_get art ''artifact_id''), er_trajectory = i,
    er_sha256 = py_str (obj_get rep ''content_sha256''), er_payload = Some (JObj rep),
    er_created_at = ac_created_at a\<rparr>"
  have ins: "ea_tenant ra = t" "ea_trajectory ra = i" "ea_payload ra = Some (JObj art)"
    "er_tenant rr = t" "er_trajectory rr = i" "er_payload rr = Some (JObj rep)"
    by (simp_all add: ra_def rr_def)
  have "write_report t a i d rep art = bind (insert_artifact ra) (\<lambda>_. bind (insert_report rr)
      (\<lambda>_. ret (evidence_result d rep art False)))"
    by (simp add: write_report_def ra_def rr_def)
  with assms have s': "s' = s\<lparr>artifacts := artifacts s @ [ra], reports := reports s @ [rr]\<rparr>"
    and fresh: "\<forall>x\<in>set (artifacts s). \<not> artifact_clash ra x" "\<forall>x\<in>set (reports s). \<not> report_clash rr x"
    and r: "r = evidence_result d rep art False"
    by (auto simp: bind_eq_Inr insert_artifact_def insert_report_def)
  have rows: "reports s' = reports s @ [rr]" "artifacts s' = artifacts s @ [ra]" by (simp_all add: s')
  have "stored_report t i s' = Some rr"
    unfolding stored_report_def rows
    by (rule first_row_filter_snoc) (use fresh ins in \<open>auto simp: report_clash_def\<close>)
  moreover have "stored_artifact t i s' = Some ra"
    unfolding stored_artifact_def rows
    by (rule first_row_filter_snoc) (use fresh ins in \<open>auto simp: artifact_clash_def\<close>)
  ultimately show "load_payload er_payload (stored_report t i s') = Inr (Some rep)"
    "load_payload ea_payload (stored_artifact t i s') = Inr (Some art)"
    using ins by (simp_all add: load_payload_def evidence_payload_def)
  show "r = evidence_result d rep art False" "engine s' = engine s" "replays s' = replays s"
    "trajectories s' = trajectories s"
    using r s' by simp_all
qed

lemma evidence_written:
  assumes "store_evidence V t c a (d, rep, art) s = (Inr r, s')"
    and "stored_trajectory t (trajectory_id_of t c a) s = None"
  shows "r = evidence_result d rep art False" "engine s' = engine s" "replays s' = replays s"
    "load_payload et_payload (stored_trajectory t (trajectory_id_of t c a) s') = Inr (Some d)"
    "load_payload er_payload (stored_report t (trajectory_id_of t c a) s') = Inr (Some rep)"
    "load_payload ea_payload (stored_artifact t (trajectory_id_of t c a) s') = Inr (Some art)"
proof -
  define i where "i = trajectory_id_of t c a"
  define rt where "rt = \<lparr>et_tenant = t, et_id = i, et_case = c, et_revision = ac_revision a,
    et_workflow = ac_workflow a, et_profile = EVIDENCE_PROFILE_ID,
    et_root = py_str (obj_get d ''root_sha256''), et_payload = Some (JObj d),
    et_created_at = ac_created_at a\<rparr>"
  have rt: "et_tenant rt = t" "et_id rt = i" "et_payload rt = Some (JObj d)" by (simp_all add: rt_def)
  have "bind (insert_trajectory rt) (\<lambda>_. write_report t a i d rep art) s = (Inr r, s')"
    using assms by (simp add: store_evidence_def Let_def read_simp load_payload_def i_def rt_def)
  then obtain s1 where ins: "insert_trajectory rt s = (Inr (), s1)"
    and rest: "write_report t a i d rep art s1 = (Inr r, s')"
    by (auto simp: bind_eq_Inr)
  from ins have s1: "s1 = s\<lparr>trajectories := trajectories s @ [rt]\<rparr>"
    by (auto simp: insert_trajectory_def)
  note w = report_written [OF rest]
  have rows: "trajectories s' = trajectories s @ [rt]" by (simp add: w(4) s1)
  have "stored_trajectory t i s' = Some rt"
    unfolding stored_trajectory_def rows
    by (rule first_row_filter_snoc)
       (use assms(2) rt in \<open>auto simp: stored_trajectory_def i_def filter_empty_conv\<close>)
  with rt show "load_payload et_payload (stored_trajectory t (trajectory_id_of t c a) s') = Inr (Some d)"
    by (simp add: i_def load_payload_def evidence_payload_def)
  show "r = evidence_result d rep art False" "engine s' = engine s" "replays s' = replays s"
    "load_payload er_payload (stored_report t (trajectory_id_of t c a) s') = Inr (Some rep)"
    "load_payload ea_payload (stored_artifact t (trajectory_id_of t c a) s') = Inr (Some art)"
    using w s1 by (simp_all add: i_def)
qed

section \<open>Replaying what was extracted\<close>

text \<open>The contracts accept the result of a replay that recomputes the recorded root.\<close>

lemma replay_accepted:
  assumes docs: "(d, rep, art) = evidence_documents t c a nodes v"
    and valid: "validate_documents V (d, rep, art) = Inr ()"
    and result: "replay_result_document t (trajectory_id_of t c a) d rep True
        (content_hash d ''root_sha256'') = Inr result"
    and schema: "validate_payload V result = Inr ()"
  shows "validate_replay V (d, rep, art) True result = Inr ()"
    and "obj_get result ''verification_outcome'' = JStr ''verified''"
proof -
  have d: "d = trajectory_document t c a nodes"
    and rep: "rep = report_document t a (trajectory_id_of t c a) (obj_get d ''root_sha256'') (length nodes) v"
    and art: "art = artifact_document t c a (trajectory_id_of t c a) rep"
    using docs by (simp_all add: evidence_documents_def Let_def)
  have ok: "validate_evidence_trajectory V d = Inr ()" "validate_evidence_report V rep (Some d) = Inr ()"
    "validate_artifact V art = Inr ()"
    using valid by (simp_all add: validate_documents_def)
  have items: "obj_item rep ''report_id'' = Inr (obj_get rep ''report_id'')"
    "obj_item rep ''content_sha256'' = Inr (obj_get rep ''content_sha256'')"
    "obj_item d ''root_sha256'' = Inr (JStr (content_hash d ''root_sha256''))"
    "obj_item d ''created_at'' = Inr (JStr (ac_created_at a))"
    by (simp_all add: rep d obj_item_get)
  have fields: "obj_get result ''tenant_id'' = JStr t"
    "obj_get result ''schema_id'' = JStr TRAJECTORY_REPLAY_RESULT_SCHEMA_ID"
    "obj_get result ''trajectory_id'' = JStr (trajectory_id_of t c a)"
    "obj_get result ''report_id'' = obj_get rep ''report_id''"
    "obj_get result ''report_sha256'' = obj_get rep ''content_sha256''"
    "obj_get result ''recorded_root_sha256'' = JStr (content_hash d ''root_sha256'')"
    "obj_get result ''replayed_root_sha256'' = JStr (content_hash d ''root_sha256'')"
    "obj_get result ''failure_code'' = JNull"
    "obj_get result ''result_sha256'' = JStr (content_hash result ''result_sha256'')"
    and outcome: "obj_get result ''verification_outcome'' = JStr ''verified''"
    using result by (auto simp: replay_result_document_def items)
  show "obj_get result ''verification_outcome'' = JStr ''verified''" by (rule outcome)
  have ids: "obj_get d ''tenant_id'' = JStr t" "obj_get d ''trajectory_id'' = JStr (trajectory_id_of t c a)"
    "obj_get d ''root_sha256'' = JStr (content_hash d ''root_sha256'')" "obj_get rep ''tenant_id'' = JStr t"
    by (simp_all add: d rep)
  have result_ok: "validate_trajectory_replay_result V result (Some d) (Some rep) = Inr ()"
    using ok(1,2) by (simp add: validate_trajectory_replay_result_def Let_def require_schema_def schema
        fields outcome require_link_def ids)
  then show "validate_replay V (d, rep, art) True result = Inr ()"
    using ok artifact_links [OF rep art] by (simp add: validate_replay_def validate_evidence_chain_def d)
qed

lemma replayed_stored:
  assumes docs: "(d, rep, art) = evidence_documents t c a nodes v"
    and valid: "validate_documents V (d, rep, art) = Inr ()"
    and nodes: "source_nodes V t c (engine s) = (Inr (a, nodes, st), engine s)"
    and fresh: "\<forall>x\<in>set (replays s). ry_tenant x \<noteq> t"
    and result: "replay_result_document t (trajectory_id_of t c a) d rep True
        (content_hash d ''root_sha256'') = Inr result"
    and schema: "validate_payload V result = Inr ()"
  shows "\<exists>s'. replay_documents V t (trajectory_id_of t c a) (d, rep, art) s =
    (Inr [(''trajectory'', JObj d), (''report'', JObj rep), (''artifact'', JObj art),
          (''replay_result'', JObj result)], s')"
proof -
  have d: "d = trajectory_document t c a nodes"
    using docs by (simp add: evidence_documents_def Let_def)
  have items: "obj_item d ''case_id'' = Inr (JStr c)"
    "obj_item d ''root_sha256'' = Inr (JStr (content_hash d ''root_sha256''))"
    by (simp_all add: d obj_item_get)
  have "replay_sources V t (d, rep, art) (engine s) =
      (Inr (True, content_hash d ''root_sha256''), engine s)"
    using items nodes trajectory_replayed [of t c a nodes, folded d]
    by (simp add: replay_sources_def valid read_simp py_str_def bind_ok)
  then have found: "attempt is_replay_failure (on_engine (replay_sources V t (d, rep, art))) s =
      (Inr (Some (True, content_hash d ''root_sha256'')), s)"
    by (intro attempt_ok) (simp add: on_engine_def)
  note accepted = replay_accepted [OF docs valid result schema]
  have recorded: "obj_get result ''recorded_at'' = JStr (ac_created_at a)"
    using result by (auto simp: replay_result_document_def d obj_item_get)
  define digest where "digest = py_str (obj_get result ''result_sha256'')"
  define row where "row = \<lparr>ry_tenant = t, ry_id = py_str (obj_get result ''replay_result_id''),
    ry_trajectory = trajectory_id_of t c a, ry_sha256 = digest, ry_payload = Some (JObj result),
    ry_recorded_at = ac_created_at a\<rparr>"
  let ?s = "s\<lparr>replays := replays s @ [row]\<rparr>"
  have "stored_replay t i h s = None" for i h
    using fresh by (auto simp: stored_replay_def filter_empty_conv)
  moreover have "insert_replay row s = (Inr (), ?s)"
    using fresh by (auto simp: insert_replay_def modify_def insert_row_def list_ex_iff replay_clash_def row_def)
  moreover have "text_col result ''recorded_at'' = Inr (ac_created_at a)"
    using recorded by (simp add: text_col_def sql_text_def obj_item_get)
  ultimately have "store_replay t (trajectory_id_of t c a) result s = (Inr result, ?s)"
    by (simp add: store_replay_def read_simp load_payload_def digest_def [symmetric] row_def [symmetric] bind_ok)
  then have stored: "attempt is_database_error (tx (store_replay t (trajectory_id_of t c a) result)) s =
      (Inr (Some result), ?s)"
    by (intro attempt_ok) simp
  have valid2: "attempt is_contract_error (lift_res (validate_replay V (d, rep, art) True result)) s =
      (Inr (Some ()), s)"
    using accepted(1) by (intro attempt_ok) simp
  have "replay_documents V t (trajectory_id_of t c a) (d, rep, art) s =
    (Inr [(''trajectory'', JObj d), (''report'', JObj rep), (''artifact'', JObj art),
          (''replay_result'', JObj result)], ?s)"
    by (simp add: replay_documents_def bind_ok found result valid2 stored)
  then show ?thesis by blast
qed

lemma source_activation:
  "source_nodes V t c s = (Inr (a, nodes, st), s') \<Longrightarrow> activation_for_tenant_case t c s = Some a"
  by (auto simp: source_nodes_def bind_eq_Inr lift_res_eq_Inr retained_nodes_def Let_def split: option.splits)

lemma extracted_again:
  assumes docs: "(d, rep, art) = evidence_documents t c a nodes v"
    and valid: "validate_documents V (d, rep, art) = Inr ()"
    and sources: "extraction_sources V t c q (engine s) = (Inr (a, nodes, v), engine s)"
    and stored: "load_payload et_payload (stored_trajectory t (trajectory_id_of t c a) s) = Inr (Some d)"
      "load_payload er_payload (stored_report t (trajectory_id_of t c a) s) = Inr (Some rep)"
      "load_payload ea_payload (stored_artifact t (trajectory_id_of t c a) s) = Inr (Some art)"
  shows "extract_evidence_trajectory V t c q s = (Inr (evidence_result d rep art True), s)"
proof -
  have ok: "validate_evidence_trajectory V d = Inr ()"
    using valid by (simp add: validate_documents_def)
  have again: "attempt is_lineage_failure (on_engine (extraction_sources V t c q)) s =
      (Inr (Some (a, nodes, v)), s)"
    using sources by (intro attempt_ok) (simp add: on_engine_def)
  obtain rr ar where rows: "stored_report t (trajectory_id_of t c a) s = Some rr"
      "stored_artifact t (trajectory_id_of t c a) s = Some ar"
    and payloads: "evidence_payload (er_payload rr) = Inr rep" "evidence_payload (ea_payload ar) = Inr art"
    using stored(2,3) by (auto simp: load_payload_def split: option.splits)
  have "store_evidence V t c a (d, rep, art) s = (Inr (evidence_result d rep art True), s)"
    using stored(1) by (simp add: store_evidence_def Let_def read_simp ok rows payloads)
  then have found: "attempt is_database_error (tx (store_evidence V t c a (d, rep, art))) s =
      (Inr (Some (evidence_result d rep art True)), s)"
    by (intro attempt_ok) simp
  have "attempt is_contract_error (lift_res (validate_documents V (d, rep, art))) s = (Inr (Some ()), s)"
    using valid by (intro attempt_ok) simp
  with found show ?thesis
    by (simp add: extract_evidence_trajectory_def Let_def bind_ok again docs [symmetric] or_failure_def)
qed

text \<open>
  C?.  What was extracted can be extracted again and verified.  Let no trajectory of the activation be
  stored and no replay of the tenant, and let the schema accept replay results.  An extraction that
  returns answers the safe failure, or stores three documents such that the same request then answers
  exactly these, marked idempotent, and changes nothing, and a verification replay derives the nodes
  again, finds the recorded root and records the outcome \<open>verified\<close>.
\<close>

theorem evidence_roundtrip:
  assumes "activation_for_tenant_case t c (engine s) = Some a"
    and "stored_trajectory t (trajectory_id_of t c a) s = None"
    and "\<forall>x\<in>set (replays s). ry_tenant x \<noteq> t"
    and "V TRAJECTORY_REPLAY_RESULT_SCHEMA_ID = Some (\<lambda>_. None)"
    and "extract_evidence_trajectory V t c q s = (Inr r, s')"
  shows "r = safe_failure \<or>
    (\<exists>d rep art result s''. r = evidence_result d rep art False \<and>
       extract_evidence_trajectory V t c q s' = (Inr (evidence_result d rep art True), s') \<and>
       replay_evidence_trajectory V t (trajectory_id_of t c a) s' =
         (Inr [(''trajectory'', JObj d), (''report'', JObj rep), (''artifact'', JObj art),
               (''replay_result'', JObj result)], s'') \<and>
       obj_get result ''verification_outcome'' = JStr ''verified'')"
proof (cases "r = safe_failure")
  case False
  obtain b nodes v e where src: "extraction_sources V t c q (engine s) = (Inr (b, nodes, v), e)"
    and valid: "validate_documents V (evidence_documents t c b nodes v) = Inr ()"
    and stored: "store_evidence V t c b (evidence_documents t c b nodes v) (s\<lparr>engine := e\<rparr>) = (Inr r, s')"
    by (rule extracted [OF assms(5) False])
  from src obtain st where nodes: "source_nodes V t c (engine s) = (Inr (b, nodes, st), e)"
    by (auto simp: extraction_sources_def bind_eq_Inr lift_res_eq_Inr)
  with source_activation assms(1) have b: "b = a" by fastforce
  obtain d rep art where docs: "(d, rep, art) = evidence_documents t c a nodes v"
    by (cases "evidence_documents t c a nodes v") auto
  have none: "stored_trajectory t (trajectory_id_of t c a) (s\<lparr>engine := e\<rparr>) = None"
    using assms(2) by (simp add: stored_trajectory_def)
  note w = evidence_written [OF stored [unfolded b docs [symmetric]] none]
  note valid = valid [unfolded b docs [symmetric]]
  have engine: "engine s' = e" using w(2) by simp
  obtain result where result: "replay_result_document t (trajectory_id_of t c a) d rep True
      (content_hash d ''root_sha256'') = Inr result"
    using docs by (auto simp: replay_result_document_def evidence_documents_def Let_def obj_item_get)
  have schema: "validate_payload V result = Inr ()"
    using result assms(4) by (intro validate_payload_accepting) (auto simp: replay_result_document_def)
  have "extraction_sources V t c q (engine s') = (Inr (a, nodes, v), engine s')"
    "source_nodes V t c (engine s') = (Inr (a, nodes, st), engine s')"
    using extraction_again [OF src] sources_again [OF nodes] by (simp_all add: engine b)
  moreover have "\<forall>x\<in>set (replays s'). ry_tenant x \<noteq> t" using w(3) assms(3) by simp
  ultimately have "extract_evidence_trajectory V t c q s' = (Inr (evidence_result d rep art True), s')"
    and "\<exists>s''. replay_documents V t (trajectory_id_of t c a) (d, rep, art) s' =
      (Inr [(''trajectory'', JObj d), (''report'', JObj rep), (''artifact'', JObj art),
            (''replay_result'', JObj result)], s'')"
    using extracted_again [OF docs valid _ w(4-6)] replayed_stored [OF docs valid _ _ result schema]
    by blast+
  moreover have "replay_evidence_trajectory V t (trajectory_id_of t c a) s' =
      replay_documents V t (trajectory_id_of t c a) (d, rep, art) s'"
    using w(4-6) by (simp add: replay_evidence_trajectory_def read_simp)
  ultimately show ?thesis using w(1) replay_accepted(2) [OF docs valid result schema] by metis
qed simp

end
