(* ===== verification/EvidenceNodes.thy ===== *)
theory EvidenceNodes
  imports EvidenceProps
begin

text \<open>
  The nodes of a trajectory: one for every retained fact, in the order of the facts, numbered from one
  and linked to the node before.
\<close>

section \<open>Appending facts\<close>

definition node_key :: "obj \<Rightarrow> json \<times> json" where
  "node_key n = (obj_get n ''source_id'', obj_get n ''content_sha256'')"

definition fact_key :: "source_fact \<Rightarrow> json \<times> json" where
  "fact_key f = (JStr (fact_source_id f), JStr (sf_digest f))"

definition usable_fact :: "source_fact \<Rightarrow> bool" where
  "usable_fact f \<longleftrightarrow> sf_identifier f \<noteq> [] \<and> length (sf_digest f) = 64"

text \<open>The order and causation the contract demands, with distinct sources.\<close>

definition chained :: "obj list \<Rightarrow> bool" where
  "chained nodes \<longleftrightarrow> check_node_order 1 JNull (map JObj nodes) = Inr () \<and>
     distinct (map (\<lambda>n. obj_get n ''source_id'') nodes)"

lemma check_order_snoc:
  assumes "check_node_order i p (map JObj ns) = Inr ()"
    and "obj_get n ''sequence'' = JInt (i + int (length ns))"
    and "obj_get n ''predecessor_node_id'' = (if ns = [] then p else obj_get (last ns) ''node_id'')"
  shows "check_node_order i p (map JObj (ns @ [n])) = Inr ()"
  using assms
proof (induction ns arbitrary: i p)
  case (Cons m ms)
  then have "check_node_order (i + 1) (obj_get m ''node_id'') (map JObj (ms @ [n])) = Inr ()"
    by (intro Cons.IH) (auto simp: add.assoc add.commute split: if_splits)
  with Cons.prems(1) show ?case by simp
qed simp

lemma node_fields [simp]:
  "obj_get (evidence_node ns f) ''sequence'' = JInt (int (length ns) + 1)"
  "obj_get (evidence_node ns f) ''source_id'' = JStr (fact_source_id f)"
  "obj_get (evidence_node ns f) ''content_sha256'' = JStr (sf_digest f)"
  "obj_get (evidence_node ns f) ''predecessor_node_id'' =
     (if ns = [] then JNull else obj_get (last ns) ''node_id'')"
  by (simp_all add: evidence_node_def Let_def)

lemma append_node_ok:
  "append_node ns f = Inr ns' \<longleftrightarrow> usable_fact f \<and>
     JStr (fact_source_id f) \<notin> (\<lambda>n. obj_get n ''source_id'') ` set ns \<and> ns' = ns @ [evidence_node ns f]"
  unfolding append_node_def usable_fact_def by (simp add: list_ex_iff image_iff) metis

lemma chained_append:
  assumes "chained ns" and "append_node ns f = Inr ns'"
  shows "chained ns'"
  using assms check_order_snoc [of 1 JNull ns "evidence_node ns f"]
  by (auto simp: chained_def append_node_ok image_iff)

text \<open>What a sequence of appends adds, and that it succeeds on usable facts of distinct sources.\<close>

lemma facts_appended:
  assumes "fold_res append_node ns fs = Inr ns'" and "chained ns"
  shows "chained ns' \<and> map node_key ns' = map node_key ns @ map fact_key fs \<and> (\<forall>f\<in>set fs. usable_fact f)"
  using assms
proof (induction fs arbitrary: ns)
  case (Cons f fs)
  then obtain ns1 where one: "append_node ns f = Inr ns1" and rest: "fold_res append_node ns1 fs = Inr ns'"
    by auto
  from Cons.IH [OF rest chained_append [OF Cons.prems(2) one]] one show ?case
    by (auto simp: append_node_ok node_key_def fact_key_def)
qed auto

lemma fold_append_fact [simp]:
  "fold_res append_fact ns (map Inr fs) = fold_res append_node ns fs"
  by (induction fs arbitrary: ns) (simp_all add: append_fact_def)

lemma fold_append_factD:
  "fold_res append_fact ns xs = Inr ns' \<Longrightarrow> \<exists>fs. xs = map Inr fs \<and> fold_res append_node ns fs = Inr ns'"
proof (induction xs arbitrary: ns)
  case (Cons x xs)
  then obtain ns1 where first: "append_fact ns x = Inr ns1"
    and rest: "fold_res append_fact ns1 xs = Inr ns'" by auto
  from first obtain f where x: "x = Inr f" and one: "append_node ns f = Inr ns1"
    by (auto simp: append_fact_def)
  from Cons.IH [OF rest] obtain fs where "xs = map Inr fs" "fold_res append_node ns1 fs = Inr ns'" by blast
  with x one show ?case by (intro exI [of _ "f # fs"]) simp
qed simp

text \<open>Usable facts with distinct sources, all new, are appended.\<close>

lemma facts_append:
  assumes "\<forall>f\<in>set fs. usable_fact f" and "distinct (map fact_source_id fs)"
    and "\<forall>f\<in>set fs. JStr (fact_source_id f) \<notin> (\<lambda>n. obj_get n ''source_id'') ` set ns"
  shows "\<exists>ns'. fold_res append_node ns fs = Inr ns'"
  using assms
proof (induction fs arbitrary: ns)
  case (Cons f fs)
  then have "append_node ns f = Inr (ns @ [evidence_node ns f])" by (simp add: append_node_ok)
  moreover have "fact_source_id g \<noteq> fact_source_id f" if "g \<in> set fs" for g
    using Cons.prems(2) imageI [OF that, of fact_source_id] by auto
  with Cons.prems have "\<exists>ns'. fold_res append_node (ns @ [evidence_node ns f]) fs = Inr ns'"
    by (intro Cons.IH) simp_all
  ultimately show ?case by simp
qed simp

section \<open>The nodes of a case\<close>

lemma retained_nodesD:
  assumes "retained_nodes V t c s = Inr (a, nodes, rows)"
  shows "\<exists>rv evs facts. list_case_revisions V t c s = Inr [rv] \<and> list_case_events V t c s = Inr evs \<and>
    workflow_facts rows = map Inr facts \<and> rows = lineage_rows t (ac_workflow a) s \<and>
    fold_res append_node [] (ledger_facts rv evs a @ facts) = Inr nodes"
proof -
  from assms obtain p rvs evs where ledger: "list_case_revisions V t c s = Inr rvs"
      "list_case_events V t c s = Inr evs"
    and one: "length rvs = 1"
    and rest: "(case activation_for_tenant_case t c s of None \<Rightarrow> Inl lineage_invalid
      | Some a \<Rightarrow> bind_res (require (ac_revision a = rv_id (hd rvs)) lineage_invalid) (\<lambda>_.
         bind_res (fold_res append_node [] (ledger_facts (hd rvs) evs a)) (\<lambda>nodes.
         bind_res (require (lineage_complete (lineage_rows t (ac_workflow a) s)) lineage_invalid) (\<lambda>_.
         bind_res (fold_res append_fact nodes (workflow_facts (lineage_rows t (ac_workflow a) s))) (\<lambda>nodes.
         Inr (a, nodes, lineage_rows t (ac_workflow a) s)))))) = Inr (a, nodes, rows)"
    unfolding retained_nodes_def Let_def bind_res_eq_Inr require_eq_Inr by blast
  from one obtain rv where rv: "rvs = [rv]" by (cases rvs) auto
  from rest obtain ns where ns: "fold_res append_node [] (ledger_facts rv evs a) = Inr ns"
      "fold_res append_fact ns (workflow_facts (lineage_rows t (ac_workflow a) s)) = Inr nodes"
    and rows: "rows = lineage_rows t (ac_workflow a) s"
    by (cases "activation_for_tenant_case t c s") (auto simp: rv)
  from fold_append_factD [OF ns(2)] obtain facts where
    "workflow_facts rows = map Inr facts" "fold_res append_node ns facts = Inr nodes"
    unfolding rows by blast
  then show ?thesis using ledger ns(1) rows rv
    by (intro exI [of _ rv] exI [of _ evs] exI [of _ facts]) (simp add: fold_res_append)
qed

lemma node_values_objects [simp]: "node_values f (map JObj ns) = map (\<lambda>n. obj_get n f) ns"
  by (induction ns) simp_all

lemma node_ids_strings:
  "fold_res append_node ns fs = Inr ns' \<Longrightarrow> \<forall>n\<in>set ns. is_jstr (obj_get n ''node_id'') \<Longrightarrow>
     \<forall>n\<in>set ns'. is_jstr (obj_get n ''node_id'')"
proof (induction fs arbitrary: ns)
  case (Cons f fs)
  then obtain ns1 where one: "append_node ns f = Inr ns1" and rest: "fold_res append_node ns1 fs = Inr ns'"
    by auto
  have "is_jstr (obj_get (evidence_node ns f) ''node_id'')" by (simp add: evidence_node_def Let_def is_jstr_def)
  with one Cons.prems(2) have "\<forall>n\<in>set ns1. is_jstr (obj_get n ''node_id'')" by (auto simp: append_node_ok)
  from Cons.IH [OF rest this] show ?case .
qed simp

lemma is_jstr_hashable: "is_jstr v \<Longrightarrow> hashable v"
  by (cases v) (simp_all add: is_jstr_def)

text \<open>The engine's own nodes pass the contract, unless two node identifiers coincide.\<close>

lemma own_trajectory_valid:
  assumes "source_nodes V t c s = (Inr (a, nodes, st), s')"
    and "validate_payload V (trajectory_document t c a nodes) = Inr ()"
  shows "validate_evidence_trajectory V (trajectory_document t c a nodes) =
    require (distinct (map (\<lambda>n. obj_get n ''node_id'') nodes)) (trajectory_error ''duplicate_node_identity'')"
proof -
  from assms(1) obtain rows where r: "retained_nodes V t c s = Inr (a, nodes, rows)"
    by (auto simp: source_nodes_def bind_eq_Inr lift_res_eq_Inr)
  from retained_nodesD [OF r] obtain fs where fs: "fold_res append_node [] fs = Inr nodes" by blast
  have "chained []" by (simp add: chained_def)
  from facts_appended [OF fs this] have ok: "chained nodes" and keys: "map node_key nodes = map fact_key fs"
    by auto
  have ids: "list_all hashable (map (\<lambda>n. obj_get n ''node_id'') nodes)"
    using node_ids_strings [OF fs] by (auto simp: list_all_iff is_jstr_hashable)
  have "list_all hashable (map fst (map node_key nodes))"
    unfolding keys by (simp add: list_all_iff fact_key_def)
  then have sources: "list_all hashable (map (\<lambda>n. obj_get n ''source_id'') nodes)"
    by (simp add: node_key_def comp_def)
  define d where "d = trajectory_document t c a nodes"
  have d: "obj_get d ''schema_id'' = JStr EVIDENCE_TRAJECTORY_SCHEMA_ID"
    "obj_get d ''root_sha256'' = JStr (content_hash d ''root_sha256'')"
    "obj_get d ''nodes'' = JList (map JObj nodes)" "validate_payload V d = Inr ()"
    using assms(2) by (simp_all add: d_def) (simp_all add: trajectory_document_def)
  have schema: "require_schema V d EVIDENCE_TRAJECTORY_SCHEMA_ID n = Inr ()" for n
    by (simp add: require_schema_def d)
  show ?thesis
    unfolding d_def [symmetric] validate_evidence_trajectory_def
    using ok ids sources by (simp add: schema d(2,3) unique_values_def chained_def require_def)
qed

text \<open>
  C?.  A trajectory tells the whole story in order.  The nodes of a case correspond one to one and in
  order to its facts: the ledger facts (the accepted intake, the single revision, every later event,
  the activation) and then the facts of the workflow, each with its source identity and its digest of
  64 characters.  They are numbered from one, each names the node before it, no source occurs twice,
  and a delivery counts as recorded only with exactly one intent and one completion.
\<close>

theorem trajectory_nodes_chained:
  assumes "source_nodes V t c s = (Inr (a, nodes, st), s')"
  shows "\<exists>rv evs facts. list_case_revisions V t c s = Inr [rv] \<and> list_case_events V t c s = Inr evs \<and>
    workflow_facts (lineage_rows t (ac_workflow a) s) = map Inr facts \<and>
    map node_key nodes = map fact_key (ledger_facts rv evs a @ facts) \<and>
    (\<forall>f\<in>set (ledger_facts rv evs a @ facts). usable_fact f) \<and> chained nodes \<and>
    (st = DELIVERY_RECORDED \<longrightarrow> length (rt_intents (lineage_rows t (ac_workflow a) s)) = 1 \<and>
      length (rt_completions (lineage_rows t (ac_workflow a) s)) = 1)"
proof -
  from assms obtain rows where r: "retained_nodes V t c s = Inr (a, nodes, rows)"
    and one: "st = DELIVERY_RECORDED \<longrightarrow> length (rt_intents rows) = 1 \<and> length (rt_completions rows) = 1"
    by (auto simp: source_nodes_def bind_eq_Inr lift_res_eq_Inr)
  from retained_nodesD [OF r] obtain rv evs facts where src: "list_case_revisions V t c s = Inr [rv]"
      "list_case_events V t c s = Inr evs" "workflow_facts rows = map Inr facts"
      "rows = lineage_rows t (ac_workflow a) s"
      "fold_res append_node [] (ledger_facts rv evs a @ facts) = Inr nodes"
    by blast
  have "chained []" by (simp add: chained_def)
  from facts_appended [OF src(5) this] src(1-3) one show ?thesis
    unfolding src(4) by (intro exI [of _ rv] exI [of _ evs] exI [of _ facts]) simp
qed

end
