(* ===== verification/SystemRuns.thy ===== *)
theory SystemRuns
  imports InvestigationRuns
begin

text \<open>
  Runs of the whole engine: it appends only, a workflow is delivered once, and the tool requests of
  an investigation stay within the budget of its context manifest.
\<close>

section \<open>Growth\<close>

lemma read_model_grows: "read_model_only s s' \<Longrightarrow> policy_le s s'"
  unfolding read_model_only_def policy_le_def journal_le_def by (cases s; cases s') simp

lemma intake_grows:
  "keeps (policy_le :: 'a policy_db_scheme \<Rightarrow> _) (intake V now d t)"
  "keeps (policy_le :: 'a policy_db_scheme \<Rightarrow> _) (intake_qq V now d t)"
proof -
  have validated: "policy_le s s'" if "intake_validated V now p t s = (x, s')"
    for p x and s s' :: "'a policy_db_scheme"
  proof (cases x)
    case (Inl e)
    with that show ?thesis by (auto dest: intake_failed simp: policy_growth.refl_R)
  next
    case (Inr r)
    with that have "intake_validated V now p t s = (Inr r, s')" by simp
    then show ?thesis
    proof (cases rule: intake_cases)
      case known
      then show ?thesis by (simp add: policy_growth.refl_R)
    next
      case (new key)
      from new(4) show ?thesis
        by (elim accept_delivery_ok)
          (simp add: accepted_store_def policy_le_def journal_le_def)
    qed
  qed
  show "keeps (policy_le :: 'a policy_db_scheme \<Rightarrow> _) (intake V now d t)"
    using validated by (intro keepsI)
      (cases "validate_inbound V d t"; auto simp: intake_def policy_growth.refl_R)
  show "keeps (policy_le :: 'a policy_db_scheme \<Rightarrow> _) (intake_qq V now d t)"
  proof (rule keepsI)
    fix s s' :: "'a policy_db_scheme" and x
    assume run: "intake_qq V now d t s = (x, s')"
    show "policy_le s s'"
    proof (cases "\<exists>p. intake_validated V now p t s = (x, s')")
      case True
      then show ?thesis using validated by blast
    next
      case False
      with run have "s' = s"
        by (auto simp: intake_qq_def bind_def split: prod.splits sum.splits)
      then show ?thesis by (simp add: policy_growth.refl_R)
    qed
  qed
qed

lemma investigation_grows:
  "keeps policy_le (insert_investigation iv)" "keeps policy_le (insert_agent_step g)"
  "keeps policy_le (insert_candidate ca)" "keeps policy_le (insert_outcome v)"
  "keeps policy_le (insert_tool_request q)" "keeps policy_le (insert_tool_result r)"
  unfolding insert_investigation_def insert_agent_step_def insert_candidate_def insert_outcome_def
    insert_tool_request_def insert_tool_result_def
  by (auto simp: keeps_def modify_def policy_le_def journal_le_def split: sum.splits)

lemma persist_tool_grows: "keeps policy_le (persist_tool_exchange t w q r)"
  unfolding persist_tool_exchange_def
  by (intro policy_growth.keeps_engine_tx policy_growth.keeps_bind policy_growth.keeps_option
      investigation_grows; auto intro: investigation_grows)

interpretation reading_growth: reading_engine policy_le
  by unfold_locales (rule read_model_grows)

interpretation system_growth: investigation_engine policy_le
  by unfold_locales
    (intro investigation_grows intake_grows reading_growth.keeps_exchange reading_growth.keeps_verify
      persist_tool_grows)+

section \<open>Deliveries\<close>

lemma read_model_deliveries: "read_model_only s s' \<Longrightarrow> keeps_deliveries s s'"
  unfolding read_model_only_def keeps_deliveries_def deliveries_ok_def
  by (cases s; cases s') simp

lemma investigation_provider:
  "keeps same_provider (insert_investigation iv)" "keeps same_provider (insert_agent_step g)"
  "keeps same_provider (insert_candidate ca)" "keeps same_provider (insert_outcome v)"
  "keeps same_provider (insert_tool_request q)" "keeps same_provider (insert_tool_result r)"
  unfolding insert_investigation_def insert_agent_step_def insert_candidate_def insert_outcome_def
    insert_tool_request_def insert_tool_result_def
  by (auto simp: keeps_def modify_def same_provider_def split: sum.splits)

lemma persist_tool_provider: "keeps same_provider (persist_tool_exchange t w q r)"
  unfolding persist_tool_exchange_def
  by (intro provider_frame.keeps_engine_tx provider_frame.keeps_bind provider_frame.keeps_option
      investigation_provider; auto intro: investigation_provider)

lemma intake_qq_keeps_deliveries:
  "keeps (keeps_deliveries :: 'a policy_db_scheme \<Rightarrow> _) (intake_qq V now d t)"
proof (rule keepsI)
  fix s s' :: "'a policy_db_scheme" and x
  assume "intake_qq V now d t s = (x, s')"
  then have "ledger_db.more s' = ledger_db.more s" using intake_qq_journal by blast
  then have "same_provider s s'" unfolding same_provider_def by (cases s; cases s') simp
  then show "keeps_deliveries s s'" by (simp add: keeps_deliveries_def same_provider_ok)
qed

interpretation reading_deliveries: reading_engine keeps_deliveries
  by unfold_locales (rule read_model_deliveries)

interpretation system_deliveries: investigation_engine keeps_deliveries
  by unfold_locales
    (intro quiet_deliveries investigation_provider intake_keeps_deliveries intake_qq_keeps_deliveries
      reading_deliveries.keeps_exchange reading_deliveries.keeps_verify persist_tool_provider)+

section \<open>The tool budget\<close>

definition tools_ok :: "'a policy_db_scheme \<Rightarrow> bool" where
  "tools_ok s \<longleftrightarrow>
     (\<forall>v\<in>set (investigations s). tool_count (iv_tenant v) (iv_workflow v) s \<le> iv_tool_budget v) \<and>
     (\<forall>q\<in>set (tool_requests s). \<exists>v\<in>set (investigations s).
        iv_tenant v = tq_tenant q \<and> iv_workflow v = tq_workflow q) \<and>
     (\<forall>v\<in>set (investigations s). \<forall>u\<in>set (investigations s).
        iv_tenant v = iv_tenant u \<and> iv_workflow v = iv_workflow u \<longrightarrow> v = u)"

definition same_tools :: "'a policy_db_scheme \<Rightarrow> 'a policy_db_scheme \<Rightarrow> bool" where
  "same_tools s s' \<longleftrightarrow> investigations s' = investigations s \<and> tool_requests s' = tool_requests s"

definition keeps_tools :: "'a policy_db_scheme \<Rightarrow> 'a policy_db_scheme \<Rightarrow> bool" where
  "keeps_tools s s' \<longleftrightarrow> (tools_ok s \<longrightarrow> tools_ok s')"

lemma same_tools_ok: "same_tools s s' \<Longrightarrow> keeps_tools s s'"
  by (simp add: same_tools_def keeps_tools_def tools_ok_def tool_count_def)

lemma quiet_tools: "keeps same_tools m \<Longrightarrow> keeps keeps_tools m"
  by (rule keepsI) (auto dest: keepsD same_tools_ok)

lemma same_policy_tools: "keeps same_policy m \<Longrightarrow> keeps same_tools m"
  by (rule keepsI) (auto simp: same_tools_def same_policy_tables dest: keepsD)

lemma policy_insert_tools:
  "keeps same_tools (insert_policy_activation p)" "keeps same_tools (insert_grant g)"
  "keeps same_tools (insert_grant_status e)" "keeps same_tools (insert_policy_decision d)"
  "keeps same_tools (insert_binding b)" "keeps same_tools (insert_approval_request r)"
  "keeps same_tools (insert_approval v)" "keeps same_tools (insert_delivery_observation w)"
  "keeps same_tools (insert_delivery_completion c)" "keeps same_tools (insert_delivery_intent i)"
  "keeps same_tools (insert_delivery_record dr)" "keeps same_tools (insert_delivery_operation q)"
  "keeps same_tools (insert_agent_step as1)" "keeps same_tools (insert_candidate ca)"
  "keeps same_tools (insert_outcome vo)" "keeps same_tools (insert_tool_result tr)"
  unfolding insert_policy_activation_def insert_grant_def insert_grant_status_def
    insert_policy_decision_def insert_binding_def insert_approval_request_def insert_approval_def
    insert_delivery_observation_def insert_delivery_completion_def insert_delivery_intent_def
    insert_delivery_record_def insert_delivery_operation_def insert_agent_step_def
    insert_candidate_def insert_outcome_def insert_tool_result_def
  by (auto simp: keeps_def modify_def same_tools_def split: sum.splits)

interpretation tools_frame: delivery_order same_tools
proof unfold_locales
  show "same_tools s s" for s :: "'a policy_db_scheme" by (simp add: same_tools_def)
  show "same_tools s t \<Longrightarrow> same_tools t u \<Longrightarrow> same_tools s u" for s t u :: "'a policy_db_scheme"
    by (simp add: same_tools_def)
qed (intro policy_insert_tools same_policy_tools insert_same_policy event_same_policy)+

interpretation reading_tools: reading_engine same_tools
proof unfold_locales
  show "same_tools s s'" if "read_model_only s s'" for s s' :: "'a policy_db_scheme"
    using that unfolding read_model_only_def same_tools_def by (cases s; cases s') simp
qed

lemma more_same_tools: "ledger_db.more s' = ledger_db.more s \<Longrightarrow> same_tools s s'"
  for s s' :: "'a policy_db_scheme"
  unfolding same_tools_def by (cases s; cases s') simp

lemma intake_tools:
  "keeps (keeps_tools :: 'a policy_db_scheme \<Rightarrow> _) (intake V now d t)"
  "keeps (keeps_tools :: 'a policy_db_scheme \<Rightarrow> _) (intake_qq V now d t)"
  by (auto intro!: keepsI same_tools_ok more_same_tools dest: intake_journal intake_qq_journal)

lemma insert_investigation_tools: "keeps keeps_tools (insert_investigation r)"
proof (rule keepsI)
  fix s s' :: "'a policy_db_scheme" and x
  assume run: "insert_investigation r s = (x, s')"
  show "keeps_tools s s'"
  proof (cases x)
    case (Inl e)
    with run have "s' = s" by (auto simp: insert_investigation_def modify_def split: sum.splits)
    then show ?thesis by (simp add: keeps_tools_def)
  next
    case (Inr u)
    with run have r: "1 \<le> iv_tool_budget r" "\<forall>v\<in>set (investigations s). \<not> investigation_clash r v"
      and s': "s' = s\<lparr>investigations := investigations s @ [r]\<rparr>"
      by (auto simp: insert_investigation_def)
    show ?thesis
      unfolding keeps_tools_def
    proof
      assume ok: "tools_ok s"
      have new: "iv_tenant v = iv_tenant r \<Longrightarrow> iv_workflow v \<noteq> iv_workflow r"
        if "v \<in> set (investigations s)" for v
        using r(2) that by (auto simp: investigation_clash_def)
      have "filter (\<lambda>q. tq_tenant q = iv_tenant r \<and> tq_workflow q = iv_workflow r) (tool_requests s) = []"
        using ok new by (fastforce simp: tools_ok_def filter_empty_conv)
      then have "tool_count (iv_tenant r) (iv_workflow r) s = 0" by (simp add: tool_count_def)
      moreover have "iv_tenant r = iv_tenant v \<Longrightarrow> iv_workflow r \<noteq> iv_workflow v"
        if "v \<in> set (investigations s)" for v
        using new [OF that] by simp
      ultimately show "tools_ok s'"
        using r(1) ok new by (auto simp: s' tools_ok_def tool_count_def)
    qed
  qed
qed

text \<open>Writing the exchange, from a store with budget left for it.\<close>

lemma insert_request_tools:
  assumes "tq_tenant r = t" and "tq_workflow r = w"
  shows "triple tools_ok (\<lambda>s. \<exists>v\<in>set (investigations s). iv_tenant v = t \<and> iv_workflow v = w \<and>
      tool_count t w s < iv_tool_budget v) (insert_tool_request r) (\<lambda>_ _. True)"
  unfolding insert_tool_request_def
proof (rule triple_modify, goal_cases)
  case (1 s s')
  then obtain v where v: "v \<in> set (investigations s)" "iv_tenant v = t" "iv_workflow v = w"
    "tool_count t w s < iv_tool_budget v" by blast
  from 1(3) have s': "s' = s\<lparr>tool_requests := tool_requests s @ [r]\<rparr>" by auto
  have count: "tool_count t' w' s' \<le> iv_tool_budget u"
    if "u \<in> set (investigations s)" "iv_tenant u = t'" "iv_workflow u = w'" for u t' w'
  proof (cases "t' = t \<and> w' = w")
    case True
    with that v 1(1) have "u = v" unfolding tools_ok_def by blast
    with True v(4) assms s' show ?thesis by (simp add: tool_count_def)
  next
    case False
    with that 1(1) assms s' show ?thesis by (auto simp: tool_count_def tools_ok_def)
  qed
  with 1(1) v assms s' show ?case by (auto simp: tools_ok_def)
qed

lemma triple_quiet_tools: "keeps same_tools m \<Longrightarrow> triple tools_ok P m (\<lambda>_ _. True)"
  by (rule tripleI) (auto dest!: keepsD same_tools_ok simp: keeps_tools_def)

lemma persist_tool_triple:
  "triple tools_ok (\<lambda>s. \<exists>v\<in>set (investigations s). iv_tenant v = t \<and> iv_workflow v = w \<and>
      tool_count t w s < iv_tool_budget v) (persist_tool_exchange t w q r) (\<lambda>_ _. True)"
proof -
  have request: "triple tools_ok (\<lambda>s. \<exists>v\<in>set (investigations s). iv_tenant v = t \<and> iv_workflow v = w \<and>
      tool_count t w s < iv_tool_budget v)
      (bind (lift_res (tool_request_row_of t w q)) insert_tool_request) (\<lambda>_ _. True)"
  proof (rule triple_lifted)
    fix x
    assume "tool_request_row_of t w q = Inr x"
    then have "tq_tenant x = t" "tq_workflow x = w"
      by (auto simp: tool_request_row_of_def bind_res_eq_Inr)
    then show "triple tools_ok (\<lambda>s. \<exists>v\<in>set (investigations s). iv_tenant v = t \<and> iv_workflow v = w \<and>
      tool_count t w s < iv_tool_budget v) (insert_tool_request x) (\<lambda>_ _. True)"
      by (rule insert_request_tools)
  qed
  have result: "triple tools_ok (\<lambda>_. True)
      (bind (lift_res (tool_result_row_of t w r)) insert_tool_result) (\<lambda>_ _. True)"
    by (intro triple_lifted triple_quiet_tools policy_insert_tools)
  show ?thesis
    unfolding persist_tool_exchange_def
  proof (rule triple_engine_tx, rule triple_lifted, rule triple_bind [OF triple_pure(3)],
      rule triple_bind [OF _ result])
    fix i existing
    show "triple tools_ok (\<lambda>s. \<exists>v\<in>set (investigations s). iv_tenant v = t \<and> iv_workflow v = w \<and>
        tool_count t w s < iv_tool_budget v)
      (case existing of
         None \<Rightarrow> bind (lift_res (tool_request_row_of t w q)) insert_tool_request
       | Some x \<Rightarrow> lift_res (require_same (tool_request_items x) q ''tool_request_conflict''))
      (\<lambda>_ _. True)"
      by (cases existing) (simp_all add: request triple_quiet_tools tools_frame.keeps_pure)
  qed
qed

text \<open>What \<open>_require_investigation\<close> returns is stored.\<close>

lemma require_stored:
  assumes "require_investigation V t c s = (Inr (a, v, p), s')"
  shows "v \<in> set (investigations s') \<and> iv_tenant v = t \<and> iv_workflow v = ac_workflow a"
proof -
  obtain s1 where v: "investigation_activation t (ac_workflow a) s = Inr (Some v)"
    and p: "get_workflow_projection V t (ac_workflow a) s = (Inr (Some p), s')"
    using assms by (auto simp: require_investigation_def bind_eq_Inr split: option.splits)
  have "same_tools s s'"
    by (rule keepsD [OF reading_tools.keeps_projection p])
  with v show ?thesis
    by (auto simp: investigation_activation_def same_tools_def bind_res_eq_Inr split: option.splits
        dest!: first_row_filterD)
qed

lemma triple_checked:
  "(\<And>v. triple J (\<lambda>s. P s \<and> f s = Inr v) (g v) Q) \<Longrightarrow> triple J P (bind (bind (query f) lift_res) g) Q"
  by (rule triple_bind [where Q = "\<lambda>v s. P s \<and> f s = Inr v"]) (auto simp: triple_def bind_def)

lemma exchange_triple: "triple tools_ok (\<lambda>_. True) (record_tool_exchange V fp t c q r) (\<lambda>_ _. True)"
proof -
  define found :: "activation_row \<Rightarrow> investigation_row \<Rightarrow> 'a policy_db_scheme \<Rightarrow> bool" where
    "found a v s \<longleftrightarrow> v \<in> set (investigations s) \<and> iv_tenant v = t \<and> iv_workflow v = ac_workflow a" for a v s
  have require: "triple tools_ok (\<lambda>_. True) (require_investigation V t c) (\<lambda>(a, v, _). found a v)"
  proof (rule tripleI, goal_cases)
    case (1 s x s')
    then show ?case using tripleD [OF triple_quiet_tools [OF reading_tools.keeps_require]] by blast
  next
    case (2 s x s')
    obtain a v p where x: "x = (a, v, p)" by (cases x) auto
    with 2(3) require_stored show ?case by (simp add: found_def)
  qed
  have written: "triple tools_ok (\<lambda>s. found a v s \<and> tool_budget_left t (ac_workflow a) v s = Inr u)
      (bind (persist_tool_exchange t (ac_workflow a) q r) (\<lambda>_.
       bind (interrupt fp ''tool-result'') (\<lambda>_. ret (q, r)))) (\<lambda>_ _. True)" for a v u
    by (rule triple_bind [OF triple_weaken [OF persist_tool_triple]])
      (auto simp: found_def tool_budget_left_def
        intro!: triple_quiet_tools tools_frame.keeps_bind tools_frame.keeps_interrupt
          tools_frame.keeps_pure)
  show ?thesis
    unfolding record_tool_exchange_def
  proof (rule triple_bind [OF require], goal_cases)
    case (1 x)
    obtain a v p where x: "x = (a, v, p)" by (cases x) auto
    show ?case
      unfolding x prod.case
      by (intro triple_lifted triple_find triple_checked triple_return)
        (rule TrueI | rule triple_weaken [OF written] | blast)+
  qed
qed

interpretation system_tools: investigation_engine keeps_tools
proof unfold_locales
  show "keeps_tools s s" for s :: "'a policy_db_scheme" by (simp add: keeps_tools_def)
  show "keeps_tools s t \<Longrightarrow> keeps_tools t u \<Longrightarrow> keeps_tools s u" for s t u :: "'a policy_db_scheme"
    by (simp add: keeps_tools_def)
  show "read_model_only s s' \<Longrightarrow> keeps_tools s s'" for s s' :: "'a policy_db_scheme"
    by (intro same_tools_ok reading_tools.read_model)
  show "keeps keeps_tools (record_tool_exchange V fp t c q r)" for V fp t c q r
    using tripleD [OF exchange_triple] by (intro keepsI) (auto simp: keeps_tools_def)
qed (intro insert_investigation_tools intake_tools quiet_tools policy_insert_tools
      reading_tools.keeps_verify same_policy_tools insert_same_policy event_same_policy tools_frame.keeps_delivers)+

lemma system_run_tools: "system_run V s \<Longrightarrow> tools_ok s"
proof (induction rule: system_run.induct)
  case (installed s)
  have unique: "sorted_wrt (\<lambda>v u. \<not> investigation_clash u v) vs \<Longrightarrow> v \<in> set vs \<Longrightarrow> u \<in> set vs \<Longrightarrow>
      iv_tenant v = iv_tenant u \<Longrightarrow> iv_workflow v = iv_workflow u \<Longrightarrow> v = u" for vs v u
    by (induction vs) (auto simp: investigation_clash_def)
  from installed show ?case
    using unique [of "investigations s"] by (force simp: fresh_system_def tools_ok_def tool_count_def)
next
  case (stepped s s')
  then show ?case using system_tools.step [OF stepped(2)] by (simp add: keeps_tools_def)
qed

lemma system_run_deliveries: "system_run V s \<Longrightarrow> deliveries_ok s"
proof (induction rule: system_run.induct)
  case (installed s)
  then show ?case
    by (simp add: fresh_system_def deliveries_ok_def one_per_workflow_def one_per_key_def)
next
  case (stepped s s')
  then show ?case using system_deliveries.step [OF stepped(2)] by (simp add: keeps_deliveries_def)
qed

end
