(* ===== verification/VerifierRuns.thy ===== *)
theory VerifierRuns
  imports SystemRuns
begin

text \<open>
  What stands behind a verified response candidate: the verdict of the deterministic verifier over
  the steps and results the journal held when it was written, which the journal still holds.
\<close>

section \<open>The invariant\<close>

definition evidenced :: "outcome_row \<Rightarrow> 'a policy_db_scheme \<Rightarrow> bool" where
  "evidenced v s \<longleftrightarrow>
     (\<exists>i\<in>set (investigations s). \<exists>c\<in>set (candidates s). \<exists>steps results.
        iv_tenant i = vo_tenant v \<and> iv_workflow i = vo_workflow v \<and>
        ca_tenant c = vo_tenant v \<and> ca_workflow c = vo_workflow v \<and>
        ca_id c = vo_candidate v \<and> ca_sha256 c = vo_sha256 v \<and>
        prefix steps (steps_of (vo_tenant v) (vo_workflow v) s) \<and>
        prefix results (results_of (vo_tenant v) (vo_workflow v) s) \<and>
        deterministic_verifier_reason i c steps results = (''verified'', ''evidence_complete''))"

definition evidence_ok :: "'a policy_db_scheme \<Rightarrow> bool" where
  "evidence_ok s \<longleftrightarrow> (\<forall>v\<in>set (outcomes s). vo_outcome v = ''verified'' \<longrightarrow> evidenced v s)"

lemma prefix_filter: "prefix xs ys \<Longrightarrow> prefix (filter P xs) (filter P ys)"
  by (auto simp: prefix_def)

lemma evidenced_grows:
  assumes "policy_le s s'" and "evidenced v s"
  shows "evidenced v s'"
proof -
  have "prefix (steps_of t w s) (steps_of t w s')" "prefix (results_of t w s) (results_of t w s')" for t w
    using assms(1) by (auto simp: policy_le_def steps_of_def results_of_def intro: prefix_filter)
  moreover have "set (investigations s) \<subseteq> set (investigations s')" "set (candidates s) \<subseteq> set (candidates s')"
    using assms(1) by (auto simp: policy_le_def dest: set_mono_prefix)
  ultimately show ?thesis
    using assms(2) unfolding evidenced_def by (meson prefix_order.trans subsetD)
qed

text \<open>The operations that store no outcome keep the invariant because they only append.\<close>

definition same_outcomes :: "'a policy_db_scheme \<Rightarrow> 'a policy_db_scheme \<Rightarrow> bool" where
  "same_outcomes s s' \<longleftrightarrow> policy_le s s' \<and> outcomes s' = outcomes s"

definition keeps_evidence :: "'a policy_db_scheme \<Rightarrow> 'a policy_db_scheme \<Rightarrow> bool" where
  "keeps_evidence s s' \<longleftrightarrow> (evidence_ok s \<longrightarrow> evidence_ok s')"

lemma same_outcomes_ok: "same_outcomes s s' \<Longrightarrow> keeps_evidence s s'"
  by (auto simp: same_outcomes_def keeps_evidence_def evidence_ok_def intro: evidenced_grows)

lemma quiet_evidence: "keeps same_outcomes m \<Longrightarrow> keeps keeps_evidence m"
  by (rule keepsI) (auto dest: keepsD same_outcomes_ok)

lemma triple_quiet_evidence: "keeps same_outcomes m \<Longrightarrow> triple evidence_ok P m (\<lambda>_ _. True)"
  by (rule tripleI) (auto dest!: keepsD same_outcomes_ok simp: keeps_evidence_def)

lemma grows_same_outcomes:
  assumes "keeps policy_le m" and "\<And>s x s'. m s = (x, s') \<Longrightarrow> outcomes s' = outcomes s"
  shows "keeps same_outcomes m"
  by (rule keepsI) (auto simp: same_outcomes_def dest: keepsD [OF assms(1)] assms(2))

lemma engine_same_outcomes:
  assumes "keeps journal_le m" and "keeps same_policy m"
  shows "keeps same_outcomes m"
  by (rule grows_same_outcomes [OF keeps_policy_le [OF assms]])
    (auto dest: keepsD [OF assms(2)] simp: same_policy_tables)

lemma outcome_free_inserts:
  "keeps same_outcomes (insert_policy_activation p)" "keeps same_outcomes (insert_grant g)"
  "keeps same_outcomes (insert_grant_status e)" "keeps same_outcomes (insert_policy_decision d)"
  "keeps same_outcomes (insert_binding b)" "keeps same_outcomes (insert_approval_request r)"
  "keeps same_outcomes (insert_approval v)" "keeps same_outcomes (insert_delivery_observation w)"
  "keeps same_outcomes (insert_delivery_completion c)" "keeps same_outcomes (insert_delivery_intent i)"
  "keeps same_outcomes (insert_delivery_record dr)" "keeps same_outcomes (insert_delivery_operation q)"
  "keeps same_outcomes (insert_investigation iv)" "keeps same_outcomes (insert_agent_step as1)"
  "keeps same_outcomes (insert_candidate ca)" "keeps same_outcomes (insert_tool_request tq)"
  "keeps same_outcomes (insert_tool_result tr)"
  by (intro grows_same_outcomes policy_insert_grows investigation_grows;
      auto simp: insert_policy_activation_def insert_grant_def insert_grant_status_def
        insert_policy_decision_def insert_binding_def insert_approval_request_def insert_approval_def
        insert_delivery_observation_def insert_delivery_completion_def insert_delivery_intent_def
        insert_delivery_record_def insert_delivery_operation_def insert_investigation_def
        insert_agent_step_def insert_candidate_def insert_tool_request_def insert_tool_result_def
        modify_def split: sum.splits)+

interpretation outcome_frame: delivery_order same_outcomes
proof unfold_locales
  show "same_outcomes s s" for s :: "'a policy_db_scheme"
    by (simp add: same_outcomes_def policy_growth.refl_R)
  show "same_outcomes s t \<Longrightarrow> same_outcomes t u \<Longrightarrow> same_outcomes s u" for s t u :: "'a policy_db_scheme"
    by (auto simp: same_outcomes_def intro: policy_growth.trans_R)
qed (intro outcome_free_inserts engine_same_outcomes insert_grows event_grows insert_same_policy
      event_same_policy)+

interpretation reading_outcomes: reading_engine same_outcomes
proof unfold_locales
  show "same_outcomes s s'" if "read_model_only s s'" for s s' :: "'a policy_db_scheme"
    using read_model_grows [OF that] that unfolding read_model_only_def same_outcomes_def
    by (cases s; cases s') simp
qed

lemma intake_outcomes:
  "keeps (same_outcomes :: 'a policy_db_scheme \<Rightarrow> _) (intake V now d t)"
  "keeps (same_outcomes :: 'a policy_db_scheme \<Rightarrow> _) (intake_qq V now d t)"
proof -
  have more: "ledger_db.more s' = ledger_db.more s \<Longrightarrow> outcomes s' = outcomes s"
    for s s' :: "'a policy_db_scheme"
    by (cases s; cases s') simp
  show "keeps (same_outcomes :: 'a policy_db_scheme \<Rightarrow> _) (intake V now d t)"
    "keeps (same_outcomes :: 'a policy_db_scheme \<Rightarrow> _) (intake_qq V now d t)"
    by (rule grows_same_outcomes [OF intake_grows(1)], erule more [OF conjunct1 [OF intake_journal]])
      (rule grows_same_outcomes [OF intake_grows(2)], erule more [OF conjunct1 [OF intake_qq_journal]])
qed

section \<open>The verifier\<close>

lemma insert_outcome_ok:
  "insert_outcome v s = (Inr u, s') \<Longrightarrow> s' = s\<lparr>outcomes := outcomes s @ [v]\<rparr>"
  by (auto simp: insert_outcome_def)

lemma decide_triple:
  "triple evidence_ok (\<lambda>s. i \<in> set (investigations s) \<and> c \<in> set (candidates s) \<and> iv_tenant i = t \<and>
      iv_workflow i = ac_workflow a \<and> ca_tenant c = t \<and> ca_workflow c = ac_workflow a)
     (decide_candidate V now a t i c payload) (\<lambda>_ _. True)"
proof (rule tripleI)
  fix s s' :: "'a policy_db_scheme" and x
  let ?w = "ac_workflow a"
  let ?v = "new_outcome now a t c (deterministic_verifier_reason i c (steps_of t ?w s) (results_of t ?w s))"
  assume ok: "evidence_ok s" and found: "i \<in> set (investigations s) \<and> c \<in> set (candidates s) \<and>
      iv_tenant i = t \<and> iv_workflow i = ?w \<and> ca_tenant c = t \<and> ca_workflow c = ?w"
    and run: "decide_candidate V now a t i c payload s = (x, s')"
  have stored: "u = s \<or> u = s\<lparr>outcomes := outcomes s @ [v]\<rparr>" if "persist_outcome v s = (y, u)"
    for v y and u
    using that engine_tx_failed by (cases y) (fastforce simp: persist_outcome_def dest: insert_outcome_ok)+
  have "s' = s \<or> s' = s\<lparr>outcomes := outcomes s @ [?v]\<rparr>"
  proof -
    define v where "v = ?v"
    define r where "r = contract_as ''verifier_outcome_invalid''
      (validate_verifier_outcome V (verifier_outcome_payload a v) (Some payload))"
    obtain y u where p: "persist_outcome v s = (y, u)" by fastforce
    have "bind (lift_res r) (\<lambda>_. bind (persist_outcome v) (\<lambda>_. ret v)) s = (x, s')"
      using run by (simp add: decide_candidate_def Let_def r_def v_def)
    then have "s' = s \<or> s' = u"
      by (cases r; cases y) (simp_all add: bind_def p)
    then show ?thesis using stored [OF p] by (auto simp: v_def)
  qed
  then consider "s' = s" | "s' = s\<lparr>outcomes := outcomes s @ [?v]\<rparr>" by blast
  then show "evidence_ok s'"
  proof cases
    case 2
    have grows: "policy_le s s'"
      by (simp add: 2 policy_le_def journal_le_def)
    have "evidenced ?v s'" if "vo_outcome ?v = ''verified''"
    proof -
      from that have "deterministic_verifier_reason i c (steps_of t ?w s) (results_of t ?w s) =
          (''verified'', ''evidence_complete'')"
        by (simp add: new_outcome_def deterministic_verifier_reason_def split: if_splits)
      with found show ?thesis
        unfolding evidenced_def
        by (intro bexI [of _ i] bexI [of _ c] exI [of _ "steps_of t ?w s"] exI [of _ "results_of t ?w s"])
          (simp_all add: 2 new_outcome_def steps_of_def results_of_def)
    qed
    with ok show ?thesis
      by (auto simp: evidence_ok_def 2 intro: evidenced_grows [OF grows [unfolded 2]])
  qed (use ok in simp)
qed simp

lemma verify_triple: "triple evidence_ok (\<lambda>_. True) (verify_response_candidate V now fp t c i) (\<lambda>_ _. True)"
proof -
  define found :: "activation_row \<Rightarrow> investigation_row \<Rightarrow> 'a policy_db_scheme \<Rightarrow> bool" where
    "found a v s \<longleftrightarrow> v \<in> set (investigations s) \<and> iv_tenant v = t \<and> iv_workflow v = ac_workflow a" for a v s
  have require: "triple evidence_ok (\<lambda>_. True) (require_investigation V t c) (\<lambda>(a, v, _). found a v)"
  proof (rule tripleI, goal_cases)
    case (1 s x s')
    then show ?case using tripleD [OF triple_quiet_evidence [OF reading_outcomes.keeps_require]] by blast
  next
    case (2 s x s')
    obtain a v p where x: "x = (a, v, p)" by (cases x) auto
    with 2(3) require_stored show ?case by (simp add: found_def)
  qed
  have finish: "triple evidence_ok P (finish_verification V now fp a v) (\<lambda>_ _. True)" for P a v
    by (intro triple_quiet_evidence reading_outcomes.keeps_finish_verification)
  have decide: "triple evidence_ok (\<lambda>s. found a v s \<and> first_row (filter (\<lambda>r. ca_tenant r = t \<and>
        ca_workflow r = ac_workflow a \<and> ca_id r = i) (candidates s)) = Some r)
      (bind (decide_candidate V now a t v r p) (\<lambda>o1. bind (interrupt fp ''verifier'')
        (\<lambda>_. finish_verification V now fp a o1))) (\<lambda>_ _. True)" for a v r p
    by (rule triple_bind [OF triple_weaken [OF decide_triple]])
      (auto simp: found_def dest!: first_row_filterD intro!: triple_quiet_evidence
        outcome_frame.keeps_bind outcome_frame.keeps_interrupt
        reading_outcomes.keeps_finish_verification)
  show ?thesis
    unfolding verify_response_candidate_def
  proof (rule triple_bind [OF require], goal_cases)
    case (1 x)
    obtain a v p where x: "x = (a, v, p)" by (cases x) auto
    show ?case
      unfolding x prod.case
    proof (rule triple_find, goal_cases)
      case (1 r)
      show ?case
      proof (rule triple_lifted, rule triple_bind [OF triple_pure(3)], rule triple_lifted,
          rule triple_lifted, goal_cases)
        case (1 payload existing)
        then show ?case by (cases existing) (simp_all add: decide finish)
      qed
    qed (simp add: triple_def evidence_ok_def)
  qed
qed

interpretation system_evidence: investigation_engine keeps_evidence
proof unfold_locales
  show "keeps_evidence s s" for s :: "'a policy_db_scheme" by (simp add: keeps_evidence_def)
  show "keeps_evidence s t \<Longrightarrow> keeps_evidence t u \<Longrightarrow> keeps_evidence s u" for s t u :: "'a policy_db_scheme"
    by (simp add: keeps_evidence_def)
  show "read_model_only s s' \<Longrightarrow> keeps_evidence s s'" for s s' :: "'a policy_db_scheme"
    by (intro same_outcomes_ok reading_outcomes.read_model)
  show "keeps keeps_evidence (verify_response_candidate V now fp t c i)" for V now fp t c i
    using tripleD [OF verify_triple] by (intro keepsI) (auto simp: keeps_evidence_def)
  show "keeps keeps_evidence (record_tool_exchange V fp t c q r)" for V fp t c q r
    unfolding persist_tool_exchange_def
    by (intro quiet_evidence reading_outcomes.keeps_exchange)
      (auto simp: persist_tool_exchange_def intro!: outcome_frame.keeps_engine_tx
        outcome_frame.keeps_bind outcome_frame.keeps_option outcome_free_inserts)
qed (intro quiet_evidence outcome_free_inserts intake_outcomes engine_same_outcomes insert_grows
      event_grows insert_same_policy event_same_policy outcome_frame.keeps_delivers)+

end
