(* ===== verification/InvestigationSample.thy ===== *)
theory InvestigationSample
  imports VerifierRuns
begin

text \<open>
  A workflow under investigation: a concrete journal the rebuild accepts, on which the operations of
  the investigation run.
\<close>

section \<open>Three checkpoints\<close>

definition sealed_row :: "checkpoint_row \<Rightarrow> checkpoint_row" where
  "sealed_row r = r\<lparr>cp_sha256 := checkpoint_hash (checkpoint_fields r [] [] [])\<rparr>"

definition ready_row :: checkpoint_row where
  "ready_row = sealed_row (first_row_of []\<lparr>cp_id := ''checkpoint-1'', cp_sequence := 2,
     cp_previous := Some ''checkpoint-0'', cp_state := TICKET_READY, cp_resume := TICKET_READY,
     cp_version := 1, cp_causation := Some ''ticket-handoff:complete'',
     cp_kind := Some TICKET_HANDOFF_COMPLETE\<rparr>)"

definition asking_row :: checkpoint_row where
  "asking_row = sealed_row (first_row_of []\<lparr>cp_id := ''checkpoint-2'', cp_sequence := 3,
     cp_previous := Some ''checkpoint-1'', cp_state := INVESTIGATING, cp_resume := INVESTIGATING,
     cp_version := 2, cp_causation := Some ''investigation:investigation-1'',
     cp_kind := Some INVESTIGATION_STARTED\<rparr>)"

abbreviation asking_checkpoints :: "checkpoint list" where
  "asking_checkpoints \<equiv> [loaded started_checkpoint, loaded ready_row, loaded asking_row]"

definition asked_investigation :: investigation_row where
  "asked_investigation = sample_investigation\<lparr>iv_tool_budget := 3\<rparr>"

definition asking_store :: "agent_step_row list \<Rightarrow> tool_request_row list \<Rightarrow> tool_result_row list \<Rightarrow>
    candidate_row list \<Rightarrow> policy_db" where
  "asking_store steps requests results cs = empty_policy\<lparr>events := [source_event],
     activations := [sample_case],
     runs := [new_run ''tenant-alpha'' ''workflow-1'' RECEIVED ''activated'' (timestamp sample_day) 1,
              new_run ''tenant-alpha'' ''workflow-1'' RECEIVED ''checkpoint'' (timestamp sample_day) 2,
              new_run ''tenant-alpha'' ''workflow-1'' TICKET_READY ''checkpoint'' (timestamp sample_day) 3,
              new_run ''tenant-alpha'' ''workflow-1'' INVESTIGATING ''checkpoint'' (timestamp sample_day) 4],
     checkpoints := [started_checkpoint, ready_row, asking_row],
     investigations := [asked_investigation], agent_steps := steps, tool_requests := requests,
     tool_results := results, candidates := cs\<rparr>"

lemma asking_tables [simp]:
  "investigations (asking_store st q r c) = [asked_investigation]"
  "agent_steps (asking_store st q r c) = st" "tool_requests (asking_store st q r c) = q"
  "tool_results (asking_store st q r c) = r" "candidates (asking_store st q r c) = c"
  "outcomes (asking_store st q r c) = []" "activations (asking_store st q r c) = [sample_case]"
  "delivery_intents (asking_store st q r c) = []" "delivery_records (asking_store st q r c) = []"
  "commands (asking_store st q r c) = []"
  "checkpoints (asking_store st q r c) = [started_checkpoint, ready_row, asking_row]"
  by (simp_all add: asking_store_def empty_policy_def empty_journal_def empty_ledger_def
      ledger_db.defs journal_db.defs)

lemma chain_fields [simp]:
  "cp_tenant ready_row = ''tenant-alpha''" "cp_tenant asking_row = ''tenant-alpha''"
  "cp_case ready_row = ''case-1''" "cp_case asking_row = ''case-1''"
  "cp_revision ready_row = ''revision-1''" "cp_revision asking_row = ''revision-1''"
  "cp_workflow ready_row = ''workflow-1''" "cp_workflow asking_row = ''workflow-1''"
  "cp_sequence ready_row = 2" "cp_sequence asking_row = 3"
  "cp_definition ready_row = WORKFLOW_DEFINITION_VERSION"
  "cp_definition asking_row = WORKFLOW_DEFINITION_VERSION"
  "cp_previous ready_row = Some ''checkpoint-0''" "cp_previous asking_row = Some ''checkpoint-1''"
  "cp_state ready_row = TICKET_READY" "cp_state asking_row = INVESTIGATING"
  "cp_resume ready_row = TICKET_READY" "cp_resume asking_row = INVESTIGATING"
  "cp_version ready_row = 1" "cp_version asking_row = 2"
  "cp_kind ready_row = Some TICKET_HANDOFF_COMPLETE" "cp_kind asking_row = Some INVESTIGATION_STARTED"
  "cp_correlation ready_row = ''correlation-1''" "cp_correlation asking_row = ''correlation-1''"
  "cp_deadline ready_row = timestamp sample_day" "cp_deadline asking_row = timestamp sample_day"
  "cp_id ready_row = ''checkpoint-1''" "cp_id asking_row = ''checkpoint-2''"
  "cp_id started_checkpoint = ''checkpoint-0''"
  "cp_pending ready_row = Some []" "cp_pending asking_row = Some []"
  "cp_completed ready_row = Some []" "cp_completed asking_row = Some []"
  "cp_pending started_checkpoint = Some []" "cp_completed started_checkpoint = Some []"
  by (simp_all add: ready_row_def asking_row_def sealed_row_def first_row_of_def started_checkpoint_def)

lemma chain_loaded [simp]:
  "ck_pending (loaded ready_row) = []" "ck_pending (loaded asking_row) = []"
  "ck_completed (loaded ready_row) = []" "ck_completed (loaded asking_row) = []"
  by (simp_all add: loaded_def)

lemma chain_sealed_rows:
  "cp_sha256 ready_row = checkpoint_hash (checkpoint_payload (loaded ready_row))"
  "cp_sha256 asking_row = checkpoint_hash (checkpoint_payload (loaded asking_row))"
  by (simp_all add: checkpoint_payload_def loaded_def ready_row_def asking_row_def sealed_row_def
      first_row_of_def checkpoint_hash_def checkpoint_fields_def obj_without_def)

lemma asking_checkpoints_of:
  "checkpoints_of ''tenant-alpha'' ''workflow-1'' (asking_store st q r c) = Inr asking_checkpoints"
  by (simp add: checkpoints_of_def checkpoint_rows_def load_checkpoint_def loaded_def)

lemma asking_chain_valid:
  "validate_checkpoint_sequence accepting (map checkpoint_payload asking_checkpoints) = Inr ()"
proof -
  have "validate_workflow_checkpoint accepting (checkpoint_payload k) = Inr ()" for k
    by (simp add: validate_workflow_checkpoint_def accepting_ok checkpoint_payload_def checkpoint_fields_def)
  then show ?thesis
    by (simp add: validate_checkpoint_sequence_def checkpoint_step_def checkpoint_scan_start_def
        payload_items py_int_def jopt_def py_str_def)
qed

section \<open>The rebuild accepts it\<close>

lemma asking_workflow_valid:
  "validate_workflow_source accepting sample_case asking_checkpoints (asking_store st q r c) = Inr ()"
proof -
  let ?s = "asking_store st q r c" and ?run = "new_run ''tenant-alpha'' ''workflow-1''"
  have runs: "workflow_runs ''tenant-alpha'' ''workflow-1'' ?s =
      [?run RECEIVED ''activated'' (timestamp sample_day) 1, ?run RECEIVED ''checkpoint'' (timestamp sample_day) 2,
       ?run TICKET_READY ''checkpoint'' (timestamp sample_day) 3,
       ?run INVESTIGATING ''checkpoint'' (timestamp sample_day) 4]"
    by (simp add: workflow_runs_def asking_store_def new_run_def)
  have moves: "validate_transition RECEIVED TICKET_HANDOFF_COMPLETE TICKET_READY (Some TICKET_READY) False = Inr ()"
    "validate_transition TICKET_READY INVESTIGATION_STARTED INVESTIGATING (Some INVESTIGATING) False = Inr ()"
    by (simp_all add: validate_transition_def allowed_targets_def)
  have "validate_checkpoint_source accepting sample_case asking_checkpoints ?s = Inr ()"
    using asking_chain_valid started_checkpoint_sealed chain_sealed_rows moves
    by (simp add: validate_checkpoint_source_def Let_def runs check_runs_def new_run_def upt_rec
        as_invalid_journal_def check_identity_def check_step_def sample_case_def)
  moreover have "source_event_exists sample_case ?s" "workflow_commands t w ?s = []"
    "workflow_intents t w ?s = Inr []" "workflow_deliveries t w ?s = []"
    "validate_ticket_source t ?s = Inr ()" for t w
    by (simp_all add: asking_store_def empty_policy_def empty_journal_def empty_ledger_def
      ledger_db.defs journal_db.defs source_event_exists_def
      source_event_def sample_case_def workflow_commands_def workflow_intents_def
      workflow_deliveries_def validate_ticket_source_def)
  ultimately show ?thesis
    by (simp add: validate_workflow_source_def validate_effect_source_def
        as_invalid_journal_def validate_side_effect_intents_def)
qed

lemma asking_policy_valid:
  "validate_change4_source accepting sample_case asking_checkpoints (asking_store st q r c) = Inr ()"
proof -
  have "policy_untouched t w (asking_store st q r c)" and "policy_activations (asking_store st q r c) = []"
    for t w
    by (simp_all add: policy_untouched_def asking_store_def empty_policy_def empty_journal_def
        ledger_db.defs journal_db.defs)
  then show ?thesis
    by (simp add: validate_change4_source_def single_row_def delivery_states_def)
qed

definition asking_projection :: workflow_projection_row where
  "asking_projection = project_workflow sample_case (loaded asking_row)"

lemma asking_rebuild:
  assumes "validate_investigation_source accepting sample_case asking_checkpoints (asking_store st q r c) = Inr ()"
  shows "rebuild_workflow_projection accepting (asking_store st q r c) =
    (Inr (), (asking_store st q r c)\<lparr>workflow_projections := [asking_projection]\<rparr>)"
proof -
  let ?s = "asking_store st q r c"
  have "validate_workflow_projection accepting (workflow_projection_payload asking_projection) = Inr ()"
    by (simp add: validate_workflow_projection_def accepting_ok workflow_projection_payload_def)
  moreover have "validate_sources accepting sample_case asking_checkpoints ?s = Inr ()"
    using assms by (simp add: validate_sources_def asking_workflow_valid asking_policy_valid)
  moreover have "sorted_activations ?s = [sample_case]" by (simp add: sorted_activations_def)
  moreover have "ac_tenant sample_case = ''tenant-alpha''" "ac_workflow sample_case = ''workflow-1''"
    by (simp_all add: sample_case_def)
  ultimately have "fold_res (derive accepting ?s) [] (sorted_activations ?s) = Inr [asking_projection]"
    by (simp add: derive_def insert_row_def asking_checkpoints_of asking_projection_def)
  moreover have "schema_error ?s = None"
    by (simp add: asking_store_def empty_policy_def empty_journal_def empty_ledger_def
        ledger_db.defs journal_db.defs)
  ultimately show ?thesis by (simp add: rebuild_iff)
qed

lemma asking_required:
  assumes "validate_investigation_source accepting sample_case asking_checkpoints (asking_store st q r c) = Inr ()"
  shows "require_investigation accepting ''tenant-alpha'' ''case-1'' (asking_store st q r c) =
    (Inr (sample_case, asked_investigation, workflow_projection_payload asking_projection),
     (asking_store st q r c)\<lparr>workflow_projections := [asking_projection]\<rparr>)"
proof -
  let ?s = "asking_store st q r c"
  have "activation_for_tenant_case ''tenant-alpha'' ''case-1'' ?s = Some sample_case"
    by (simp add: activation_for_tenant_case_def sample_case_def)
  moreover have "investigation_activation ''tenant-alpha'' (ac_workflow sample_case) ?s = Inr (Some asked_investigation)"
    by (simp add: investigation_activation_def asked_investigation_def sample_investigation_def
        manifest_evidence_def sample_case_def)
  moreover have "get_workflow_projection accepting ''tenant-alpha'' (ac_workflow sample_case) ?s =
      (Inr (Some (workflow_projection_payload asking_projection)),
       ?s\<lparr>workflow_projections := [asking_projection]\<rparr>)"
    using asking_rebuild [OF assms]
    by (simp add: get_workflow_projection_def bind_ok asking_projection_def project_workflow_def Let_def
        sample_case_def validate_workflow_projection_def accepting_ok workflow_projection_payload_def)
  ultimately show ?thesis
    by (simp add: require_investigation_def bind_ok)
qed

end
