(* ===== verification/InvestigationProps.thy ===== *)
theory InvestigationProps
  imports InvestigationSample
begin

text \<open>
  The properties of the whole engine and of the investigation: append-only journals, the tool budget
  in every sequential run and the two writers that exceed it, what stands behind a verified
  candidate, and agent steps that are recorded once.
\<close>

section \<open>Runs of the whole engine\<close>


text \<open>
  C15.  The tool budget holds in every sequential run: an investigation never has more tool requests
  in the journal than its context manifest allows, whatever the agent asks for, however often an
  exchange is retried, and wherever a call is interrupted.
\<close>

theorem tool_budget_respected:
  assumes "system_run V s" and "v \<in> set (investigations s)"
  shows "tool_count (iv_tenant v) (iv_workflow v) s \<le> iv_tool_budget v"
  using system_run_tools [OF assms(1)] assms(2) by (simp add: tools_ok_def)

lemma verdict_verified:
  "deterministic_verifier_reason i c steps results = (''verified'', ''evidence_complete'') \<longleftrightarrow>
     int (length steps) \<le> iv_action_budget i \<and> int (length results) \<le> iv_tool_budget i \<and>
     steps \<noteq> [] \<and> as_action (last steps) = ''response_candidate'' \<and>
     (\<forall>r\<in>set results. tr_manifest r = iv_manifest i \<and> tr_redaction r = ''synthetic'') \<and>
     map tr_tool results = [''crm'', ''monitoring'', ''knowledge''] \<and>
     ca_evidence c = Some (map tr_sha256 results) \<and> ca_context c = iv_context_sha256 i"
  by (auto simp: deterministic_verifier_reason_def list_ex_iff TOOL_NAMES_def)

text \<open>
  C14.  A verified candidate has its evidence.  In every run from a store without verifier outcomes,
  behind each verified outcome there are an investigation and a candidate of the same workflow, at
  most the budgeted number of agent steps ending with the response candidate, and exactly one
  redacted result of each of the three read tools, in their order, for the manifest of the
  investigation, with the hashes the candidate cites; they are the first rows of the workflow in the
  journal as it is now.
\<close>

theorem verified_candidate_evidenced:
  assumes "(system_step V)\<^sup>*\<^sup>* s0 s" and "outcomes s0 = []"
    and "v \<in> set (outcomes s)" and "vo_outcome v = ''verified''"
  shows "\<exists>i\<in>set (investigations s). \<exists>c\<in>set (candidates s). \<exists>steps results.
     iv_tenant i = vo_tenant v \<and> iv_workflow i = vo_workflow v \<and>
     ca_tenant c = vo_tenant v \<and> ca_workflow c = vo_workflow v \<and>
     ca_id c = vo_candidate v \<and> ca_sha256 c = vo_sha256 v \<and>
     prefix steps (steps_of (vo_tenant v) (vo_workflow v) s) \<and>
     prefix results (results_of (vo_tenant v) (vo_workflow v) s) \<and>
     int (length steps) \<le> iv_action_budget i \<and> int (length results) \<le> iv_tool_budget i \<and>
     steps \<noteq> [] \<and> as_action (last steps) = ''response_candidate'' \<and>
     (\<forall>r\<in>set results. tr_manifest r = iv_manifest i \<and> tr_redaction r = ''synthetic'') \<and>
     map tr_tool results = [''crm'', ''monitoring'', ''knowledge''] \<and>
     ca_evidence c = Some (map tr_sha256 results) \<and> ca_context c = iv_context_sha256 i"
proof -
  have "evidence_ok s0" using assms(2) by (simp add: evidence_ok_def)
  then have "evidence_ok s" using system_evidence.steps [OF assms(1)] by (simp add: keeps_evidence_def)
  then have "evidenced v s" using assms(3,4) by (simp add: evidence_ok_def)
  then show ?thesis unfolding evidenced_def verdict_verified by blast
qed

section \<open>Two writers\<close>

lemma persisted_exchange:
  assumes "persist_tool_exchange t w q r s = (Inr u, s')" and "text_col q ''tool_request_id'' = Inr i"
    and "\<not> has_tool_request t i s"
  shows "\<exists>x y. s' = s\<lparr>tool_requests := tool_requests s @ [x], tool_results := tool_results s @ [y]\<rparr> \<and>
    tq_tenant x = t \<and> tq_workflow x = w \<and> tq_id x = i \<and> tr_tenant y = t \<and> tr_workflow y = w"
proof -
  have none: "first_row (filter (\<lambda>x. tq_tenant x = t \<and> tq_id x = i) (tool_requests s)) = None"
    using assms(3) by (auto simp: has_tool_request_def list_ex_iff filter_empty_conv)
  obtain x s1 where x: "tool_request_row_of t w q = Inr x" "insert_tool_request x s = (Inr (), s1)"
    and rest: "bind (lift_res (tool_result_row_of t w r)) insert_tool_result s1 = (Inr u, s')"
    using assms(1,2) none by (auto simp: persist_tool_exchange_def bind_eq_Inr)
  obtain y where y: "tool_result_row_of t w r = Inr y" "insert_tool_result y s1 = (Inr u, s')"
    using rest by (auto simp: bind_eq_Inr)
  have "tq_tenant x = t" "tq_workflow x = w" "tq_id x = i" "tr_tenant y = t" "tr_workflow y = w"
    using x(1) y(1) assms(2) by (auto simp: tool_request_row_of_def tool_result_row_of_def bind_res_eq_Inr)
  moreover have "s1 = s\<lparr>tool_requests := tool_requests s @ [x]\<rparr>"
    using x(2) by (auto simp: insert_tool_request_def)
  moreover have "s' = s1\<lparr>tool_results := tool_results s1 @ [y]\<rparr>"
    using y(2) by (auto simp: insert_tool_result_def)
  ultimately show ?thesis by auto
qed

text \<open>
  C36.  Two writers exceed the tool budget.  \<open>record_tool_exchange\<close> counts the requests before it
  opens its write transaction.  Two calls that count in the same state, one request below the
  budget, both pass the check, and when both then commit the journal holds one request more than
  the manifest allows, although the check would have refused the second call after the first.  If
  every request had its result, the verifier rejects every candidate of the workflow from then on.
\<close>

theorem tool_budget_race:
  assumes "tool_count t w s = iv_tool_budget v - 1"
    and "persist_tool_exchange t w q1 r1 s = (Inr (), s1)"
    and "persist_tool_exchange t w q2 r2 s1 = (Inr (), s2)"
    and "text_col q1 ''tool_request_id'' = Inr i1" and "text_col q2 ''tool_request_id'' = Inr i2"
    and "i1 \<noteq> i2" and "\<not> has_tool_request t i1 s" and "\<not> has_tool_request t i2 s"
  shows "tool_budget_left t w v s = Inr () \<and>
    tool_budget_left t w v s1 = Inl (WorkflowError ''investigation_tool_budget_exceeded'') \<and>
    tool_count t w s2 = iv_tool_budget v + 1 \<and>
    (int (length (results_of t w s)) = tool_count t w s \<and> policy_le s2 s3 \<longrightarrow>
      fst (deterministic_verifier_reason v c (steps_of t w s3) (results_of t w s3)) = ''rejected'')"
proof -
  obtain x1 y1 where 1: "s1 = s\<lparr>tool_requests := tool_requests s @ [x1], tool_results := tool_results s @ [y1]\<rparr>"
    "tq_tenant x1 = t" "tq_workflow x1 = w" "tq_id x1 = i1" "tr_tenant y1 = t" "tr_workflow y1 = w"
    using persisted_exchange [OF assms(2,4,7)] by blast
  have "\<not> has_tool_request t i2 s1" using assms(6,8) 1 by (auto simp: has_tool_request_def list_ex_iff)
  then obtain x2 y2 where 2: "s2 = s1\<lparr>tool_requests := tool_requests s1 @ [x2], tool_results := tool_results s1 @ [y2]\<rparr>"
    "tq_tenant x2 = t" "tq_workflow x2 = w" "tr_tenant y2 = t" "tr_workflow y2 = w"
    using persisted_exchange [OF assms(3,5)] by blast
  have count: "tool_count t w s1 = tool_count t w s + 1" "tool_count t w s2 = tool_count t w s + 2"
    using 1 2 by (simp_all add: tool_count_def)
  have "fst (deterministic_verifier_reason v c (steps_of t w s3) (results_of t w s3)) = ''rejected''"
    if "int (length (results_of t w s)) = tool_count t w s" "policy_le s2 s3"
  proof -
    have "prefix (results_of t w s2) (results_of t w s3)"
      using that(2) by (auto simp: policy_le_def results_of_def intro: prefix_filter)
    then have "length (results_of t w s2) \<le> length (results_of t w s3)" by (rule prefix_length_le)
    moreover have "length (results_of t w s2) = length (results_of t w s) + 2"
      using 1 2 by (simp add: results_of_def)
    ultimately have "iv_tool_budget v < int (length (results_of t w s3))" using that(1) assms(1) by simp
    then show ?thesis by (simp add: deterministic_verifier_reason_def)
  qed
  with count assms(1) show ?thesis by (simp add: tool_budget_left_def)
qed

section \<open>Agent steps\<close>

lemma step_grows:
  "policy_le s s' \<Longrightarrow> existing_agent_step t w i s = Some r \<Longrightarrow> existing_agent_step t w i s' = Some r"
  by (auto simp: policy_le_def existing_agent_step_def intro: first_row_grows)

lemma same_items_eq:
  "same_items kvs p = Inr True \<Longrightarrow> \<forall>(k, v)\<in>set kvs. obj_item p k = Inr (JStr v)"
proof (induction kvs)
  case (Cons kv kvs)
  obtain k v where kv: "kv = (k, v)" by fastforce
  from Cons.prems have "obj_item p k = Inr (JStr v) \<and> same_items kvs p = Inr True"
    by (cases "obj_item p k") (auto simp: kv split: if_splits)
  with Cons.IH show ?case by (simp add: kv)
qed simp

lemma require_reads_model:
  "require_investigation V t c s = (y, s') \<Longrightarrow> read_model_only s s'"
proof -
  assume run: "require_investigation V t c s = (y, s')"
  have "keeps read_model_only (require_investigation V t c)"
    unfolding require_investigation_def get_workflow_projection_def
    by (intro read_model.keeps_bind read_model.keeps_option workflow_rebuild_writes_read_model) auto
  then show ?thesis using run by (rule keepsD)
qed

lemma read_model_reads:
  assumes "read_model_only s s'"
  shows "agent_steps s' = agent_steps s" "activations s' = activations s"
  using assms unfolding read_model_only_def by (cases s; cases s'; simp)+

lemma require_activation:
  "require_investigation V t c s = (Inr (a, iv, p), s') \<Longrightarrow> activation_for_tenant_case t c s = Some a"
  by (auto simp: require_investigation_def bind_eq_Inr split: option.splits)

text \<open>The part of \<open>record_agent_action\<close> behind the read of the projection.\<close>

definition action_step :: "validators \<Rightarrow> investigation_row \<Rightarrow> obj \<Rightarrow> exn + json" where
  "action_step V iv p =
     bind_res (manifest_payload iv) (\<lambda>manifest.
     bind_res (contract_as ''agent_action_invalid'' (validate_agent_action V p (Some manifest))) (\<lambda>_.
     bind_res (require_manifest_link p manifest ''agent_action'') (\<lambda>_. obj_item p ''step_id'')))"

definition store_step ::
  "fault_profile option \<Rightarrow> string \<Rightarrow> string \<Rightarrow> obj \<Rightarrow> obj \<Rightarrow> json \<Rightarrow> ('a policy_db_scheme, obj) action" where
  "store_step fp t w projection p step =
     bind (query (existing_agent_step t w (py_str step))) (\<lambda>existing.
     case existing of
       Some r \<Rightarrow> bind (lift_res (require_same (agent_step_items r) p ''agent_step_conflict'')) (\<lambda>_. ret p)
     | None \<Rightarrow>
         bind (lift_res (investigating projection)) (\<lambda>_.
         bind (persist_agent_step t w p) (\<lambda>_.
         bind (interrupt fp ''agent-action'') (\<lambda>_. ret p))))"

lemma lift_chain:
  "bind (lift_res r) (\<lambda>x. bind (lift_res (f x)) g) = bind (lift_res (bind_res r f)) g"
  by (cases r) (auto simp: fun_eq_iff bind_def)

lemma record_split:
  "record_agent_action V fp t c p = bind (require_investigation V t c) (\<lambda>(a, iv, projection).
     bind (lift_res (action_step V iv p)) (store_step fp t (ac_workflow a) projection p))"
  by (simp add: record_agent_action_def action_step_def store_step_def [abs_def] lift_chain)

lemma action_step_item: "action_step V iv p = Inr step \<Longrightarrow> obj_item p ''step_id'' = Inr step"
  by (auto simp: action_step_def bind_res_eq_Inr)

text \<open>The fields an agent step shares with its action.\<close>

definition step_holds :: "agent_step_row \<Rightarrow> obj \<Rightarrow> bool" where
  "step_holds r p \<longleftrightarrow> text_col p ''action_type'' = Inr (as_action r) \<and>
     text_col p ''action_sha256'' = Inr (as_sha256 r) \<and> text_col p ''context_manifest_id'' = Inr (as_manifest r)"

lemma require_same_holds: "require_same (agent_step_items r) p e = Inr u \<Longrightarrow> step_holds r p"
proof -
  assume "require_same (agent_step_items r) p e = Inr u"
  then have "same_items (agent_step_items r) p = Inr True"
    by (cases "same_items (agent_step_items r) p") (auto simp: require_same_def)
  from same_items_eq [OF this] show ?thesis
    by (simp add: agent_step_items_def step_holds_def text_col_def sql_text_def)
qed

text \<open>A step that is stored is compared and not written again.\<close>

lemma known_step:
  assumes "existing_agent_step t w (py_str step) s = Some r" and "store_step fp t w pr p step s = (x, s')"
  shows "s' = s \<and> (\<forall>y. x = Inr y \<longrightarrow> step_holds r p)"
proof -
  define c where "c = require_same (agent_step_items r) p ''agent_step_conflict''"
  have "store_step fp t w pr p step s = bind (lift_res c) (\<lambda>_. ret p) s"
    using assms(1) by (simp add: store_step_def c_def)
  with assms(2) require_same_holds [of r p "''agent_step_conflict''" "()"] show ?thesis
    by (cases c) (auto simp: bind_def c_def)
qed

text \<open>After a successful call the step is stored with the fields of its action.\<close>

lemma recorded_step:
  assumes "store_step fp t w pr p (JStr i) s = (Inr u, s')" and "obj_item p ''step_id'' = Inr (JStr i)"
  shows "\<exists>r. existing_agent_step t w i s' = Some r \<and> step_holds r p"
proof (cases "existing_agent_step t w i s")
  case (Some r)
  then have "existing_agent_step t w (py_str (JStr i)) s = Some r" by (simp add: py_str_def)
  from known_step [OF this assms(1)] Some show ?thesis by auto
next
  case None
  with assms(1) have "persist_agent_step t w p s = (Inr (), s')"
    by (auto simp: store_step_def bind_eq_Inr py_str_def interrupt_def split: option.splits if_splits)
  then obtain r where r: "agent_step_row_of t w p = Inr r" "insert_agent_step r s = (Inr (), s')"
    by (auto simp: persist_agent_step_def bind_eq_Inr)
  from r(1) assms(2) have fields: "as_tenant r = t" "as_workflow r = w" "as_step r = i" "step_holds r p"
    by (auto simp: agent_step_row_of_def bind_res_eq_Inr sql_text_def step_holds_def)
  have s': "s' = s\<lparr>agent_steps := agent_steps s @ [r]\<rparr>" using r(2) by (auto simp: insert_agent_step_def)
  then have "existing_agent_step t w i s' = Some r"
    using None fields by (simp add: existing_agent_step_def first_row_append)
  with fields(4) show ?thesis by blast
qed

text \<open>
  C37.  An agent step is recorded once.  When a call of \<open>record_agent_action\<close> has returned, a later
  call for the same step id, in any later state of the journal, writes no agent step, and returns
  only if the action has the type, the hash and the manifest of the recorded one.
\<close>

theorem agent_step_recorded_once:
  assumes "record_agent_action V fp t c p s = (Inr u, s1)" and "obj_get p ''step_id'' = JStr i"
    and "policy_le s1 s2" and "activation_for_tenant_case t c s2 = activation_for_tenant_case t c s"
    and "obj_get q ''step_id'' = JStr i" and "record_agent_action V' fp' t c q s2 = (x, s3)"
  shows "agent_steps s3 = agent_steps s2 \<and>
    (\<forall>y. x = Inr y \<longrightarrow> text_col q ''action_type'' = text_col p ''action_type'' \<and>
       text_col q ''action_sha256'' = text_col p ''action_sha256'' \<and>
       text_col q ''context_manifest_id'' = text_col p ''context_manifest_id'')"
proof -
  obtain a iv pr step s0 where "require_investigation V t c s = (Inr (a, iv, pr), s0)"
    and p: "action_step V iv p = Inr step" "store_step fp t (ac_workflow a) pr p step s0 = (Inr u, s1)"
    using assms(1) by (auto simp: record_split bind_eq_Inr)
  then have act: "activation_for_tenant_case t c s = Some a" by (simp add: require_activation)
  have "step = JStr i" using action_step_item [OF p(1)] obj_item_str [OF assms(2)] by simp
  with p obtain r where r: "existing_agent_step t (ac_workflow a) i s1 = Some r" "step_holds r p"
    using recorded_step [of fp t "ac_workflow a" pr p i s0 u s1] obj_item_str [OF assms(2)] by blast
  obtain y s2' where req: "require_investigation V' t c s2 = (y, s2')" by fastforce
  have read: "read_model_only s2 s2'" by (rule require_reads_model [OF req])
  show ?thesis
  proof (cases y)
    case (Inl e)
    with assms(6) req read show ?thesis by (auto simp: record_split bind_def read_model_reads)
  next
    case (Inr z)
    obtain a' iv' pr' where z: "z = (a', iv', pr')" by (cases z) auto
    have "a' = a" using req Inr z assms(4) act by (auto dest: require_activation)
    with assms(6) req Inr z have run: "bind (lift_res (action_step V' iv' q)) (store_step fp' t (ac_workflow a) pr' q) s2' = (x, s3)"
      by (simp add: record_split bind_def)
    show ?thesis
    proof (cases "action_step V' iv' q")
      case (Inl e)
      with run read show ?thesis by (auto simp: bind_def read_model_reads)
    next
      case (Inr step')
      then have "step' = JStr i" using action_step_item [OF Inr] obj_item_str [OF assms(5)] by simp
      with run Inr have run': "store_step fp' t (ac_workflow a) pr' q (JStr i) s2' = (x, s3)"
        by (simp add: bind_def)
      have "existing_agent_step t (ac_workflow a) (py_str (JStr i)) s2' = Some r"
        using step_grows [OF assms(3) r(1)] read_model_reads(1) [OF read]
        by (simp add: existing_agent_step_def py_str_def)
      from known_step [OF this run'] r(2) read show ?thesis
        by (auto simp: step_holds_def read_model_reads)
    qed
  qed
qed

end
