(* ===== verification/InvestigationWitness.thy ===== *)
theory InvestigationWitness
  imports InvestigationProps
begin

text \<open>The properties of the investigation at concrete journals.\<close>

section \<open>Rows\<close>

definition asked_step :: "string \<Rightarrow> string \<Rightarrow> agent_step_row" where
  "asked_step n action = \<lparr>as_tenant = ''tenant-alpha'', as_id = ''agent-'' @ n, as_workflow = ''workflow-1'',
     as_checkpoint = ''checkpoint-1'', as_manifest = ''manifest-1'', as_step = n, as_action = action,
     as_sha256 = ''hash-'' @ n, as_created_at = timestamp sample_day\<rparr>"

definition asked_request :: "string \<Rightarrow> string \<Rightarrow> tool_request_row" where
  "asked_request n tool = \<lparr>tq_tenant = ''tenant-alpha'', tq_id = ''request-'' @ n, tq_workflow = ''workflow-1'',
     tq_checkpoint = ''checkpoint-1'', tq_manifest = ''manifest-1'', tq_step = n, tq_tool = tool,
     tq_sha256 = ''hash-'' @ n, tq_created_at = timestamp sample_day\<rparr>"

definition asked_result :: "string \<Rightarrow> string \<Rightarrow> tool_result_row" where
  "asked_result n tool = \<lparr>tr_tenant = ''tenant-alpha'', tr_id = ''result-'' @ n, tr_workflow = ''workflow-1'',
     tr_checkpoint = ''checkpoint-1'', tr_manifest = ''manifest-1'', tr_tool = tool,
     tr_request = ''request-'' @ n, tr_evidence = ''evidence-'' @ n, tr_sha256 = ''content-'' @ n,
     tr_redaction = ''synthetic'', tr_recorded_at = timestamp sample_day\<rparr>"

definition asked_candidate :: candidate_row where
  "asked_candidate = \<lparr>ca_tenant = ''tenant-alpha'', ca_id = ''candidate-1'', ca_workflow = ''workflow-1'',
     ca_checkpoint = ''checkpoint-1'', ca_manifest = ''manifest-1'', ca_context = ''context'',
     ca_evidence = Some [''content-1'', ''content-2'', ''content-3''], ca_sha256 = ''candidate'',
     ca_risk = ''low'', ca_next_step = ''operator_review'', ca_created_at = timestamp sample_day\<rparr>"

abbreviation request_payload :: "string \<Rightarrow> string \<Rightarrow> obj" where
  "request_payload n tool \<equiv> tool_request_payload sample_case (asked_request n tool)"

abbreviation result_payload :: "string \<Rightarrow> string \<Rightarrow> obj" where
  "result_payload n tool \<equiv> tool_result_payload sample_case (asked_request n tool) (asked_result n tool)"

lemma sample_manifest:
  "manifest_payload asked_investigation = Inr
     [(''schema_id'', JStr CONTEXT_MANIFEST_SCHEMA_ID), (''schema_version'', JStr ''v1''),
      (''tenant_id'', JStr ''tenant-alpha''), (''case_id'', JStr ''case-1''),
      (''case_revision_id'', JStr ''revision-1''), (''workflow_id'', JStr ''workflow-1''),
      (''checkpoint_id'', JStr ''checkpoint-1''), (''context_manifest_id'', JStr ''manifest-1''),
      (''context_sha256'', JStr ''context''), (''environment_snapshot_sha256'', JStr ''fixture''),
      (''evidence_references'', jlist [''evidence-1'', ''evidence-2'']), (''action_budget'', JInt 6),
      (''tool_budget'', JInt 3), (''no_progress_limit'', JInt 2),
      (''created_at'', JStr (timestamp sample_day))]"
  by (simp add: manifest_payload_def asked_investigation_def sample_investigation_def manifest_evidence_def)

lemmas contract_defs = validate_agent_action_def validate_tool_request_def validate_tool_result_def
  validate_response_candidate_def validate_verifier_outcome_def linked_to_manifest_def
  validate_context_manifest_def require_link_def identity_fields_def accepting_ok

lemma sample_contracts:
  assumes "manifest_payload asked_investigation = Inr m"
  shows "validate_context_manifest accepting m = Inr ()"
    "validate_agent_action accepting (action_payload sample_case (asked_step n act)) (Some m) = Inr ()"
    "validate_tool_request accepting (request_payload n tool) (Some m) = Inr ()"
    "validate_tool_result accepting (result_payload n tool) (Some (request_payload n tool)) = Inr ()"
    "require_manifest_link (action_payload sample_case (asked_step n act)) m e = Inr ()"
    "require_manifest_link (request_payload n tool) m e = Inr ()"
    "require_manifest_link (result_payload n tool) m e = Inr ()"
  using assms
  by (auto simp: sample_manifest contract_defs action_payload_def tool_request_payload_def
      tool_result_payload_def asked_step_def asked_request_def asked_result_def sample_case_def
      require_manifest_link_def)

section \<open>Steps\<close>

lemma empty_investigation_valid:
  "validate_investigation_source accepting sample_case asking_checkpoints
     (asking_store (map (\<lambda>(n, act). asked_step n act) steps) [] [] []) = Inr ()"
proof -
  have "each_res (check_agent_step accepting sample_case m) xs = Inr ()"
    if "manifest_payload asked_investigation = Inr m" "\<forall>x\<in>set xs. \<exists>n act. x = asked_step n act" for m xs
    using that sample_contracts(2) [OF that(1)] by (induction xs) (auto simp: check_agent_step_def)
  moreover obtain m where m: "manifest_payload asked_investigation = Inr m" by (simp add: sample_manifest)
  moreover have "\<forall>x\<in>set (filter P (map (\<lambda>(n, act). asked_step n act) steps)). \<exists>n act. x = asked_step n act" for P
    by auto
  ultimately have "each_res (check_agent_step accepting sample_case m)
      (filter P (map (\<lambda>(n, act). asked_step n act) steps)) = Inr ()" for P by blast
  then show ?thesis
    using m sample_contracts(1) [OF m]
    by (simp add: validate_investigation_source_def check_investigation_def Let_def
        asked_investigation_def sample_investigation_def sample_case_def)
qed


section \<open>A tool exchange\<close>

lemma asked_rows:
  "tool_request_row_of ''tenant-alpha'' ''workflow-1'' (request_payload n tool) = Inr (asked_request n tool)"
  "tool_result_row_of ''tenant-alpha'' ''workflow-1'' (result_payload n tool) = Inr (asked_result n tool)"
  "text_col (request_payload n tool) ''tool_request_id'' = Inr (''request-'' @ n)"
  "obj_item (request_payload n tool) ''tool_request_id'' = Inr (JStr (''request-'' @ n))"
  "obj_item (request_payload n tool) ''step_id'' = Inr (JStr n)"
  "obj_item (request_payload n tool) ''tool_name'' = Inr (JStr tool)"
  by (simp_all add: tool_request_row_of_def tool_result_row_of_def tool_request_payload_def
      tool_result_payload_def asked_request_def asked_result_def text_col_def sql_text_def obj_item_def)

text \<open>Writing an exchange into a store that has the activation.\<close>

lemma exchange_written:
  assumes "activations s = [sample_case]" and "tool \<in> set TOOL_NAMES"
    and "\<forall>x\<in>set (tool_requests s). \<not> tool_request_clash (asked_request n tool) x"
    and "\<forall>x\<in>set (tool_results s). \<not> tool_result_clash (asked_result n tool) x"
  shows "persist_tool_exchange ''tenant-alpha'' ''workflow-1'' (request_payload n tool) (result_payload n tool) s =
    (Inr (), s\<lparr>tool_requests := tool_requests s @ [asked_request n tool],
               tool_results := tool_results s @ [asked_result n tool]\<rparr>)"
proof -
  define i where "i = ''request-'' @ n"
  have i: "text_col (request_payload n tool) ''tool_request_id'' = Inr i"
    unfolding i_def by (rule asked_rows)
  have none: "first_row (filter (\<lambda>x. tq_tenant x = ''tenant-alpha'' \<and> tq_id x = i) (tool_requests s)) = None"
    using assms(3) by (auto simp: filter_empty_conv tool_request_clash_def asked_request_def i_def)
  let ?s1 = "s\<lparr>tool_requests := tool_requests s @ [asked_request n tool]\<rparr>"
  have "insert_tool_request (asked_request n tool) s = (Inr (), ?s1)"
    using assms by (simp add: insert_tool_request_def modify_def insert_row_def has_activation_def
        asked_request_def sample_case_def list_ex_iff)
  moreover have "insert_tool_result (asked_result n tool) ?s1 =
      (Inr (), ?s1\<lparr>tool_results := tool_results s @ [asked_result n tool]\<rparr>)"
    using assms by (simp add: insert_tool_result_def modify_def insert_row_def has_tool_request_def
        asked_request_def asked_result_def list_ex_iff)
  ultimately show ?thesis
    by (simp add: persist_tool_exchange_def asked_rows(1,2) i none bind_ok bind_eq_Inr)
qed

theorem tool_budget_respected_witness:
  "\<exists>s :: policy_db. system_run accepting s \<and> tool_requests s = [asked_request ''1'' ''crm''] \<and>
     tool_count ''tenant-alpha'' ''workflow-1'' s \<le> 3"
proof -
  let ?s = "asking_store [asked_step ''1'' ''read_crm''] [] [] []"
  let ?s1 = "?s\<lparr>workflow_projections := [asking_projection]\<rparr>"
  let ?s2 = "?s1\<lparr>tool_requests := [asked_request ''1'' ''crm''], tool_results := [asked_result ''1'' ''crm'']\<rparr>"
  have valid: "validate_investigation_source accepting sample_case asking_checkpoints ?s = Inr ()"
    using empty_investigation_valid [of "[(''1'', ''read_crm'')]"] by simp
  obtain m where m: "manifest_payload asked_investigation = Inr m" by (simp add: sample_manifest)
  have act: "ac_workflow sample_case = ''workflow-1''" by (simp add: sample_case_def)
  have reads: "existing_tool_result ''tenant-alpha'' i ?s1 = None"
    "requested_action ''tenant-alpha'' ''workflow-1'' (request_payload ''1'' ''crm'') ?s1 = Inr ()"
    "tool_budget_left ''tenant-alpha'' ''workflow-1'' asked_investigation ?s1 = Inr ()"
    "investigating (workflow_projection_payload asking_projection) = Inr ()" for i
    by (simp_all add: existing_tool_result_def requested_action_def asked_rows existing_agent_step_def
        py_str_def asked_step_def tool_budget_left_def tool_count_def asked_investigation_def
        investigating_def asking_projection_def project_workflow_def Let_def workflow_projection_payload_def)
  have "persist_tool_exchange ''tenant-alpha'' ''workflow-1'' (request_payload ''1'' ''crm'')
      (result_payload ''1'' ''crm'') ?s1 = (Inr (), ?s2)"
    by (subst exchange_written) (simp_all add: TOOL_NAMES_def)
  then have "record_tool_exchange accepting None ''tenant-alpha'' ''case-1'' (request_payload ''1'' ''crm'')
      (result_payload ''1'' ''crm'') ?s = (Inr (request_payload ''1'' ''crm'', result_payload ''1'' ''crm''), ?s2)"
    using m sample_contracts [OF m] reads asking_required [OF valid]
    by (simp add: record_tool_exchange_def bind_ok asked_rows act interrupt_def bind_read)
  then have step: "system_step accepting ?s ?s2" by (rule system_step.exchanged)
  have "fresh_system ?s" by (simp add: fresh_system_def asked_investigation_def)
  then have run: "system_run accepting ?s2" using step by (blast intro: system_run.intros)
  have "asked_investigation \<in> set (investigations ?s2)" by simp
  from tool_budget_respected [OF run this] have "tool_count ''tenant-alpha'' ''workflow-1'' ?s2 \<le> 3"
    by (simp add: asked_investigation_def sample_investigation_def)
  with run show ?thesis by (intro exI [of _ ?s2]) simp
qed

text \<open>Two writers with one request left.\<close>

theorem tool_budget_race_witness:
  "\<exists>(s :: policy_db) s1 s2. tool_budget_left ''tenant-alpha'' ''workflow-1'' asked_investigation s = Inr () \<and>
     persist_tool_exchange ''tenant-alpha'' ''workflow-1'' (request_payload ''3'' ''knowledge'')
       (result_payload ''3'' ''knowledge'') s = (Inr (), s1) \<and>
     persist_tool_exchange ''tenant-alpha'' ''workflow-1'' (request_payload ''4'' ''crm'')
       (result_payload ''4'' ''crm'') s1 = (Inr (), s2) \<and>
     tool_count ''tenant-alpha'' ''workflow-1'' s2 = 4"
proof -
  let ?s = "asking_store [] [asked_request ''1'' ''crm'', asked_request ''2'' ''monitoring'']
    [asked_result ''1'' ''crm'', asked_result ''2'' ''monitoring''] []"
  let ?s1 = "?s\<lparr>tool_requests := tool_requests ?s @ [asked_request ''3'' ''knowledge''],
    tool_results := tool_results ?s @ [asked_result ''3'' ''knowledge'']\<rparr>"
  let ?s2 = "?s1\<lparr>tool_requests := tool_requests ?s1 @ [asked_request ''4'' ''crm''],
    tool_results := tool_results ?s1 @ [asked_result ''4'' ''crm'']\<rparr>"
  have 1: "persist_tool_exchange ''tenant-alpha'' ''workflow-1'' (request_payload ''3'' ''knowledge'')
      (result_payload ''3'' ''knowledge'') ?s = (Inr (), ?s1)"
    by (rule exchange_written) (simp_all add: TOOL_NAMES_def tool_request_clash_def tool_result_clash_def
        asked_request_def asked_result_def)
  have 2: "persist_tool_exchange ''tenant-alpha'' ''workflow-1'' (request_payload ''4'' ''crm'')
      (result_payload ''4'' ''crm'') ?s1 = (Inr (), ?s2)"
    by (rule exchange_written) (simp_all add: TOOL_NAMES_def tool_request_clash_def tool_result_clash_def
        asked_request_def asked_result_def)
  have "tool_count ''tenant-alpha'' ''workflow-1'' ?s = iv_tool_budget asked_investigation - 1"
    by (simp add: tool_count_def asked_request_def asked_investigation_def)
  from tool_budget_race [OF this 1 2 asked_rows(3) asked_rows(3)]
  have "tool_budget_left ''tenant-alpha'' ''workflow-1'' asked_investigation ?s = Inr () \<and>
      tool_count ''tenant-alpha'' ''workflow-1'' ?s2 = iv_tool_budget asked_investigation + 1"
    by (simp add: has_tool_request_def asked_request_def)
  moreover have "iv_tool_budget asked_investigation = 3" by (simp add: asked_investigation_def)
  ultimately show ?thesis using 1 2 by (intro exI [of _ ?s] exI [of _ ?s1] exI [of _ ?s2]) simp
qed

section \<open>A verified candidate\<close>

definition exchanged_store :: policy_db where
  "exchanged_store = asking_store
     [asked_step ''1'' ''read_crm'', asked_step ''2'' ''read_monitoring'', asked_step ''3'' ''read_knowledge'',
      asked_step ''4'' ''response_candidate'']
     [asked_request ''1'' ''crm'', asked_request ''2'' ''monitoring'', asked_request ''3'' ''knowledge'']
     [asked_result ''1'' ''crm'', asked_result ''2'' ''monitoring'', asked_result ''3'' ''knowledge'']
     [asked_candidate]"

lemma asked_candidate_payload:
  "candidate_payload sample_case asked_candidate = Inr
     [(''schema_id'', JStr RESPONSE_CANDIDATE_SCHEMA_ID), (''schema_version'', JStr ''v1''),
      (''tenant_id'', JStr ''tenant-alpha''), (''case_id'', JStr ''case-1''),
      (''case_revision_id'', JStr ''revision-1''), (''workflow_id'', JStr ''workflow-1''),
      (''checkpoint_id'', JStr ''checkpoint-1''), (''context_manifest_id'', JStr ''manifest-1''),
      (''candidate_id'', JStr ''candidate-1''), (''context_sha256'', JStr ''context''),
      (''evidence_hashes'', jlist [''content-1'', ''content-2'', ''content-3'']),
      (''candidate_sha256'', JStr ''candidate''), (''risk'', JStr ''low''),
      (''next_step'', JStr ''operator_review''), (''created_at'', JStr (timestamp sample_day))]"
  by (simp add: candidate_payload_def load_candidate_def asked_candidate_def sample_case_def)

lemma asked_candidate_valid:
  assumes "manifest_payload asked_investigation = Inr m" and "candidate_payload sample_case asked_candidate = Inr c"
  shows "validate_response_candidate accepting c (Some m) None = Inr ()"
  using assms by (auto simp: sample_manifest asked_candidate_payload contract_defs)

lemma evidence_valid:
  "validate_investigation_source accepting sample_case asking_checkpoints exchanged_store = Inr ()"
proof -
  obtain m where m: "manifest_payload asked_investigation = Inr m" by (simp add: sample_manifest)
  obtain c where c: "candidate_payload sample_case asked_candidate = Inr c" by (simp add: asked_candidate_payload)
  note ok = sample_contracts [OF m] asked_candidate_valid [OF m c]
  have steps: "check_agent_step accepting sample_case m (asked_step n act) = Inr ()" for n act
    by (simp add: check_agent_step_def ok)
  have tools: "check_tool_exchange accepting sample_case m exchanged_store (asked_request n tool) = Inr ()"
    if "(n, tool) \<in> {(''1'', ''crm''), (''2'', ''monitoring''), (''3'', ''knowledge'')}" for n tool
  proof -
    from that have "filter (\<lambda>r. tr_tenant r = tq_tenant (asked_request n tool) \<and> tr_request r = tq_id (asked_request n tool))
        (tool_results exchanged_store) = [asked_result n tool]"
      by (auto simp: exchanged_store_def asked_request_def asked_result_def)
    then show ?thesis by (simp add: check_tool_exchange_def ok)
  qed
  have cand: "check_candidate accepting sample_case m asked_candidate = Inr (''candidate-1'', c)"
    using c ok by (simp add: check_candidate_def) (simp add: asked_candidate_def)
  have keys: "as_tenant (asked_step n act) = ''tenant-alpha''" "as_workflow (asked_step n act) = ''workflow-1''"
    "tq_tenant (asked_request n act) = ''tenant-alpha''" "tq_workflow (asked_request n act) = ''workflow-1''"
    "ca_tenant asked_candidate = ''tenant-alpha''" "ca_workflow asked_candidate = ''workflow-1''" for n act
    by (simp_all add: asked_step_def asked_request_def asked_candidate_def)
  have tables: "agent_steps exchanged_store = [asked_step ''1'' ''read_crm'', asked_step ''2'' ''read_monitoring'',
       asked_step ''3'' ''read_knowledge'', asked_step ''4'' ''response_candidate'']"
    "tool_requests exchanged_store = [asked_request ''1'' ''crm'', asked_request ''2'' ''monitoring'', asked_request ''3'' ''knowledge'']"
    "candidates exchanged_store = [asked_candidate]" "outcomes exchanged_store = []"
    "investigations exchanged_store = [asked_investigation]"
    by (simp_all add: exchanged_store_def)
  have "iv_tenant asked_investigation = ''tenant-alpha''" "iv_case asked_investigation = ''case-1''"
    "iv_revision asked_investigation = ''revision-1''" "iv_workflow asked_investigation = ''workflow-1''"
    "iv_checkpoint asked_investigation = ''checkpoint-1''" "ac_tenant sample_case = ''tenant-alpha''"
    "ac_case sample_case = ''case-1''" "ac_revision sample_case = ''revision-1''"
    "ac_workflow sample_case = ''workflow-1''"
    by (simp_all add: asked_investigation_def sample_investigation_def sample_case_def)
  then show ?thesis
    by (simp add: validate_investigation_source_def check_investigation_def m ok steps tools cand keys tables)
qed

lemma evidence_verdict:
  assumes "outcomes s = []"
    and "agent_steps s = agent_steps exchanged_store" and "tool_results s = tool_results exchanged_store"
  shows "deterministic_verifier_reason asked_investigation asked_candidate
    (steps_of ''tenant-alpha'' ''workflow-1'' s) (results_of ''tenant-alpha'' ''workflow-1'' s) =
    (''verified'', ''evidence_complete'')"
  unfolding verdict_verified
  by (simp add: steps_of_def results_of_def assms exchanged_store_def asked_step_def asked_result_def
      asked_investigation_def sample_investigation_def asked_candidate_def)

theorem verified_candidate_evidenced_witness:
  "\<exists>s v. (system_step accepting)\<^sup>*\<^sup>* exchanged_store s \<and> outcomes s = [v] \<and> vo_outcome v = ''verified'' \<and>
     (\<exists>results. prefix results (results_of (vo_tenant v) (vo_workflow v) s) \<and>
        map tr_tool results = [''crm'', ''monitoring'', ''knowledge''])"
proof -
  let ?fp = "Some \<lparr>interrupt_after = [''verifier''], reconciliation_timeout = False\<rparr>"
  let ?s1 = "exchanged_store\<lparr>workflow_projections := [asking_projection]\<rparr>"
  let ?v = "new_outcome sample_day sample_case ''tenant-alpha'' asked_candidate (''verified'', ''evidence_complete'')"
  let ?s2 = "?s1\<lparr>outcomes := [?v]\<rparr>"
  obtain m where m: "manifest_payload asked_investigation = Inr m" by (simp add: sample_manifest)
  obtain c where c: "candidate_payload sample_case asked_candidate = Inr c" by (simp add: asked_candidate_payload)
  have act: "ac_workflow sample_case = ''workflow-1''" by (simp add: sample_case_def)
  have none: "outcomes exchanged_store = []" "candidates exchanged_store = [asked_candidate]"
    by (simp_all add: exchanged_store_def)
  have keys: "ca_tenant asked_candidate = ''tenant-alpha''" "ca_workflow asked_candidate = ''workflow-1''"
    "ca_id asked_candidate = ''candidate-1''"
    by (simp_all add: asked_candidate_def)
  have require: "require_investigation accepting ''tenant-alpha'' ''case-1'' exchanged_store =
      (Inr (sample_case, asked_investigation, workflow_projection_payload asking_projection), ?s1)"
    using asking_required evidence_valid unfolding exchanged_store_def by blast
  have valid: "validate_verifier_outcome accepting (verifier_outcome_payload sample_case ?v) (Some c) = Inr ()"
    using c [unfolded asked_candidate_payload]
    by (auto simp: contract_defs verifier_outcome_payload_def new_outcome_def sample_case_def asked_candidate_def)
  have insert: "persist_outcome ?v ?s1 = (Inr (), ?s2)"
    by (simp add: persist_outcome_def insert_outcome_def modify_def insert_row_def none has_candidate_def)
      (simp add: new_outcome_def asked_candidate_def)
  have "decide_candidate accepting sample_day sample_case ''tenant-alpha'' asked_investigation asked_candidate c ?s1 =
      (Inr ?v, ?s2)"
    using evidence_verdict [of ?s1] valid insert none
    by (simp add: decide_candidate_def Let_def act bind_ok)
  then have "verify_response_candidate accepting sample_day ?fp ''tenant-alpha'' ''case-1'' ''candidate-1'' exchanged_store =
      (Inl (WorkflowInterrupted ''fault_injected:verifier''), ?s2)"
    using require c m asked_candidate_valid [OF m c] none keys
    by (simp add: verify_response_candidate_def bind_ok act interrupt_def bind_err)
  then have run: "(system_step accepting)\<^sup>*\<^sup>* exchanged_store ?s2" by (blast intro: system_step.verified)
  define s v where "s = ?s2" and "v = ?v"
  have v: "outcomes s = [v]" "vo_outcome v = ''verified''" by (simp_all add: s_def v_def new_outcome_def)
  have "v \<in> set (outcomes s)" by (simp add: v)
  from verified_candidate_evidenced [OF run [folded s_def] none(1) this v(2)] run [folded s_def] v
  show ?thesis by (elim bexE exE conjE) (intro exI conjI, assumption+)
qed

section \<open>An agent step\<close>

theorem agent_step_recorded_once_witness:
  "\<exists>s1 x s2. record_agent_action accepting None ''tenant-alpha'' ''case-1''
       (action_payload sample_case (asked_step ''1'' ''read_crm'')) (asking_store [] [] [] []) =
       (Inr (action_payload sample_case (asked_step ''1'' ''read_crm'')), s1) \<and>
     record_agent_action accepting None ''tenant-alpha'' ''case-1''
       (action_payload sample_case (asked_step ''1'' ''read_monitoring'')) s1 = (Inl x, s2) \<and>
     agent_steps s2 = agent_steps s1"
proof -
  let ?s = "asking_store [] [] [] []" and ?p = "\<lambda>act. action_payload sample_case (asked_step ''1'' act)"
  let ?t = "?s\<lparr>workflow_projections := [asking_projection]\<rparr>"
  obtain r where r: "agent_step_row_of ''tenant-alpha'' ''workflow-1'' (?p ''read_crm'') = Inr r"
      "as_action r = ''read_crm''" "as_tenant r = ''tenant-alpha''" "as_workflow r = ''workflow-1''"
    by (simp add: agent_step_row_of_def action_payload_def asked_step_def text_col_def sql_text_def obj_item_def)
  let ?s1 = "?t\<lparr>agent_steps := [r]\<rparr>"
  obtain m where m: "manifest_payload asked_investigation = Inr m" by (simp add: sample_manifest)
  have valid: "validate_investigation_source accepting sample_case asking_checkpoints ?s = Inr ()"
    using empty_investigation_valid [of "[]"] by simp
  have act: "ac_workflow sample_case = ''workflow-1''" by (simp add: sample_case_def)
  have step: "obj_item (?p a) ''step_id'' = Inr (JStr ''1'')" "obj_get (?p a) ''step_id'' = JStr ''1''"
    "text_col (?p a) ''action_type'' = Inr a" for a
    by (simp_all add: action_payload_def asked_step_def obj_item_def text_col_def sql_text_def)
  have item: "action_step accepting asked_investigation (?p ''read_crm'') = Inr (JStr ''1'')"
    using m sample_contracts [OF m] by (simp add: action_step_def step)
  have "persist_agent_step ''tenant-alpha'' ''workflow-1'' (?p ''read_crm'') ?t = (Inr (), ?s1)"
    using r by (simp add: persist_agent_step_def bind_eq_Inr insert_agent_step_def modify_def insert_row_def
        has_activation_def AGENT_ACTIONS_def sample_case_def)
  moreover have "investigating (workflow_projection_payload asking_projection) = Inr ()"
    by (simp add: investigating_def asking_projection_def project_workflow_def Let_def workflow_projection_payload_def)
  ultimately have first: "record_agent_action accepting None ''tenant-alpha'' ''case-1'' (?p ''read_crm'') ?s =
      (Inr (?p ''read_crm''), ?s1)"
    using asking_required [OF valid] item
    by (simp add: record_split bind_ok store_step_def existing_agent_step_def act interrupt_def)
  obtain x s2 where second: "record_agent_action accepting None ''tenant-alpha'' ''case-1'' (?p ''read_monitoring'') ?s1 = (x, s2)"
    by fastforce
  have "activation_for_tenant_case ''tenant-alpha'' ''case-1'' ?s1 = activation_for_tenant_case ''tenant-alpha'' ''case-1'' ?s"
    by (simp add: activation_for_tenant_case_def)
  from agent_step_recorded_once [OF first step(2) policy_growth.refl_R this step(2) second]
  have "agent_steps s2 = agent_steps ?s1" "\<forall>y. x \<noteq> Inr y" by (simp_all add: step)
  with first second show ?thesis by (cases x) auto
qed

end
