(* ===== verification/EvidenceSample.thy ===== *)
theory EvidenceSample
  imports EvidenceNodes InvestigationWitness
begin

text \<open>
  A case whose approval was rejected, with everything a trajectory needs: six checkpoints up to
  \<open>WAITING_FOR_OPERATOR\<close>, one agent step, one tool exchange, the verified candidate and the policy
  records.  The rebuild accepts it and the extraction succeeds.
\<close>

section \<open>Checkpoints\<close>

definition step_row :: "int \<Rightarrow> string \<Rightarrow> string \<Rightarrow> string \<Rightarrow> string \<Rightarrow> checkpoint_row" where
  "step_row n i previous state kind = sealed_row (first_row_of []\<lparr>cp_id := i, cp_sequence := n + 1,
     cp_previous := Some previous, cp_state := state, cp_resume := state, cp_version := n,
     cp_causation := Some kind, cp_kind := Some kind\<rparr>)"

lemma step_row_fields [simp]:
  "cp_tenant (step_row n i p st k) = ''tenant-alpha''" "cp_case (step_row n i p st k) = ''case-1''"
  "cp_revision (step_row n i p st k) = ''revision-1''" "cp_workflow (step_row n i p st k) = ''workflow-1''"
  "cp_sequence (step_row n i p st k) = n + 1"
  "cp_definition (step_row n i p st k) = WORKFLOW_DEFINITION_VERSION"
  "cp_previous (step_row n i p st k) = Some p" "cp_state (step_row n i p st k) = st"
  "cp_resume (step_row n i p st k) = st" "cp_version (step_row n i p st k) = n"
  "cp_kind (step_row n i p st k) = Some k" "cp_correlation (step_row n i p st k) = ''correlation-1''"
  "cp_deadline (step_row n i p st k) = timestamp sample_day" "cp_id (step_row n i p st k) = i"
  "cp_pending (step_row n i p st k) = Some []" "cp_completed (step_row n i p st k) = Some []"
  "ck_pending (loaded (step_row n i p st k)) = []" "ck_completed (loaded (step_row n i p st k)) = []"
  by (simp_all add: step_row_def sealed_row_def first_row_of_def loaded_def)

lemma step_row_sealed:
  "cp_sha256 (step_row n i p st k) = checkpoint_hash (checkpoint_payload (loaded (step_row n i p st k)))"
  by (simp add: checkpoint_payload_def loaded_def step_row_def sealed_row_def first_row_of_def
      checkpoint_hash_def checkpoint_fields_def obj_without_def)

lemma checkpoint_hash_length: "length (checkpoint_hash p) = 64"
  by (simp add: checkpoint_hash_def)

definition denied_rows :: "checkpoint_row list" where
  "denied_rows = [started_checkpoint,
     step_row 1 ''checkpoint-1'' ''checkpoint-0'' TICKET_READY TICKET_HANDOFF_COMPLETE,
     step_row 2 ''checkpoint-2'' ''checkpoint-1'' INVESTIGATING INVESTIGATION_STARTED,
     step_row 3 ''checkpoint-3'' ''checkpoint-2'' RESPONSE_READY RESPONSE_CANDIDATE_VERIFIED,
     step_row 4 ''checkpoint-4'' ''checkpoint-3'' AWAITING_APPROVAL POLICY_APPROVAL_ACTIVATED,
     step_row 5 ''checkpoint-5'' ''checkpoint-4'' WAITING_FOR_OPERATOR AUTHORIZATION_DENIED]"

abbreviation denied_checkpoints :: "checkpoint list" where
  "denied_checkpoints \<equiv> map loaded denied_rows"

lemma denied_chain_valid:
  "validate_checkpoint_sequence accepting (map checkpoint_payload denied_checkpoints) = Inr ()"
proof -
  have "validate_workflow_checkpoint accepting (checkpoint_payload k) = Inr ()" for k
    by (simp add: validate_workflow_checkpoint_def accepting_ok checkpoint_payload_def checkpoint_fields_def)
  then show ?thesis
    by (simp add: validate_checkpoint_sequence_def checkpoint_step_def checkpoint_scan_start_def
        payload_items py_int_def jopt_def py_str_def denied_rows_def)
qed

section \<open>The store\<close>

definition digest :: string where
  "digest = replicate 64 CHR ''a''"

lemma digest_length [simp]: "length digest = 64"
  by (simp add: digest_def)

definition opened_event :: event_row where
  "opened_event = source_event\<lparr>ev_sha256 := digest\<rparr>"

definition opened_revision :: revision_row where
  "opened_revision = \<lparr>rv_tenant = ''tenant-alpha'', rv_id = ''revision-1'', rv_case = ''case-1'',
     rv_number = 1, rv_previous = None, rv_created_at = timestamp sample_day, rv_reason = ''intake'',
     rv_source = ''event-1'', rv_fingerprint = digest\<rparr>"

definition opened_projection :: projection_row where
  "opened_projection = \<lparr>pj_tenant = ''tenant-alpha'', pj_case = ''case-1'', pj_revision = ''revision-1'',
     pj_number = 1, pj_state = ''RECEIVED'', pj_source = ''event-1'', pj_count = 1,
     pj_correlation = ''correlation-1'', pj_created_at = timestamp sample_day,
     pj_updated_at = timestamp sample_day\<rparr>"

definition rejected_approval :: obj where
  "rejected_approval =
     (let a = approval_record sample_request [JStr ''evidence-1'', JStr ''evidence-2''] ''approver-1''
                ''fixture-approver'' ''rejected'' sample_day
      in obj_set a ''decision_sha256'' (JStr (content_hash a ''decision_sha256'')))"

definition denied_policy :: policy_activation_row where
  "denied_policy = \<lparr>pa_tenant = ''tenant-alpha'', pa_id = ''policy-1'', pa_workflow = ''workflow-1'',
     pa_case = ''case-1'', pa_revision = ''revision-1'', pa_checkpoint = ''checkpoint-1'',
     pa_fixture = ''api-503-policy-approval-delivery'', pa_version = ''v1'',
     pa_resource = ''fixture-local-im:api-503'', pa_scope = ''fixture-local-im:api-503'',
     pa_classification = ''synthetic'', pa_budget = 1, pa_subject = ''subject-1'',
     pa_role = ''fixture-controller'', pa_candidate = ''candidate'',
     pa_evidence = Some [''evidence-1'', ''evidence-2''], pa_activated_at = timestamp sample_day\<rparr>"

abbreviation denied_step :: agent_step_row where
  "denied_step \<equiv> (asked_step ''1'' ''read_crm'')\<lparr>as_sha256 := digest\<rparr>"
abbreviation denied_request :: tool_request_row where
  "denied_request \<equiv> (asked_request ''1'' ''crm'')\<lparr>tq_sha256 := digest\<rparr>"
abbreviation denied_result :: tool_result_row where
  "denied_result \<equiv> (asked_result ''1'' ''crm'')\<lparr>tr_sha256 := digest\<rparr>"
abbreviation denied_candidate :: candidate_row where
  "denied_candidate \<equiv> asked_candidate\<lparr>ca_context := digest, ca_sha256 := digest\<rparr>"
abbreviation denied_outcome :: outcome_row where
  "denied_outcome \<equiv> sample_outcome\<lparr>vo_sha256 := digest\<rparr>"
abbreviation denied_investigation :: investigation_row where
  "denied_investigation \<equiv> asked_investigation\<lparr>iv_context_sha256 := digest\<rparr>"
abbreviation denied_approval :: approval_row where
  "denied_approval \<equiv> sample_approval_row\<lparr>ap_decision := ''rejected'', ap_sha256 := digest,
     ap_payload := Some (JObj rejected_approval)\<rparr>"

definition denied_store :: policy_db where
  "denied_store = empty_policy\<lparr>projections := [opened_projection], revisions := [opened_revision],
     events := [opened_event], activations := [sample_case],
     runs := [new_run ''tenant-alpha'' ''workflow-1'' RECEIVED ''activated'' (timestamp sample_day) 1,
              new_run ''tenant-alpha'' ''workflow-1'' RECEIVED ''checkpoint'' (timestamp sample_day) 2,
              new_run ''tenant-alpha'' ''workflow-1'' TICKET_READY ''checkpoint'' (timestamp sample_day) 3,
              new_run ''tenant-alpha'' ''workflow-1'' INVESTIGATING ''checkpoint'' (timestamp sample_day) 4,
              new_run ''tenant-alpha'' ''workflow-1'' RESPONSE_READY ''checkpoint'' (timestamp sample_day) 5,
              new_run ''tenant-alpha'' ''workflow-1'' AWAITING_APPROVAL ''checkpoint'' (timestamp sample_day) 6,
              new_run ''tenant-alpha'' ''workflow-1'' WAITING_FOR_OPERATOR ''checkpoint'' (timestamp sample_day) 7],
     checkpoints := denied_rows, investigations := [denied_investigation],
     agent_steps := [denied_step], tool_requests := [denied_request], tool_results := [denied_result],
     candidates := [denied_candidate], outcomes := [denied_outcome],
     policy_activations := [denied_policy], grants := [sample_grant_row],
     policy_decisions := [sample_decision_row\<lparr>pd_sha256 := digest\<rparr>],
     bindings := [sample_binding_row\<lparr>ab_sha256 := digest\<rparr>],
     approval_requests := [sample_request_row], approvals := [denied_approval]\<rparr>"

lemma denied_tables [simp]:
  "projections denied_store = [opened_projection]" "revisions denied_store = [opened_revision]"
  "events denied_store = [opened_event]" "activations denied_store = [sample_case]"
  "checkpoints denied_store = denied_rows" "investigations denied_store = [denied_investigation]"
  "agent_steps denied_store = [denied_step]" "tool_requests denied_store = [denied_request]"
  "tool_results denied_store = [denied_result]" "candidates denied_store = [denied_candidate]"
  "outcomes denied_store = [denied_outcome]" "policy_activations denied_store = [denied_policy]"
  "grants denied_store = [sample_grant_row]" "approval_requests denied_store = [sample_request_row]"
  "policy_decisions denied_store = [sample_decision_row\<lparr>pd_sha256 := digest\<rparr>]"
  "bindings denied_store = [sample_binding_row\<lparr>ab_sha256 := digest\<rparr>]"
  "approvals denied_store = [denied_approval]" "grant_status_events denied_store = []"
  "delivery_intents denied_store = []" "delivery_completions denied_store = []"
  "delivery_operations denied_store = []" "commands denied_store = []" "intents denied_store = []"
  "operations denied_store = []" "schema_error denied_store = None"
  by (simp_all add: denied_store_def empty_policy_def empty_journal_def empty_ledger_def
      ledger_db.defs journal_db.defs)

section \<open>The rebuild accepts it\<close>

lemma denied_checkpoints_of:
  "checkpoints_of ''tenant-alpha'' ''workflow-1'' denied_store = Inr denied_checkpoints"
  by (simp add: checkpoints_of_def checkpoint_rows_def load_checkpoint_def loaded_def denied_rows_def)

abbreviation denied_run :: "string \<Rightarrow> string \<Rightarrow> int \<Rightarrow> run_row" where
  "denied_run state reason n \<equiv> new_run ''tenant-alpha'' ''workflow-1'' state reason (timestamp sample_day) n"

lemma denied_runs:
  "workflow_runs ''tenant-alpha'' ''workflow-1'' denied_store =
     [denied_run RECEIVED ''activated'' 1, denied_run RECEIVED ''checkpoint'' 2,
      denied_run TICKET_READY ''checkpoint'' 3, denied_run INVESTIGATING ''checkpoint'' 4,
      denied_run RESPONSE_READY ''checkpoint'' 5, denied_run AWAITING_APPROVAL ''checkpoint'' 6,
      denied_run WAITING_FOR_OPERATOR ''checkpoint'' 7]"
  by (simp add: workflow_runs_def denied_store_def new_run_def)

lemma step_row_checked:
  "check_identity sample_case (loaded (step_row n i p st k)) (denied_run st x m) = Inr ()"
  "check_identity sample_case (loaded started_checkpoint) (denied_run RECEIVED x m) = Inr ()"
  using started_checkpoint_sealed
  by (simp_all add: check_identity_def new_run_def step_row_sealed [symmetric])
    (simp_all add: sample_case_def)

lemma step_row_follows:
  assumes "cp_version (ck_row q) = n - 1" and "ck_pending q = []" and "cp_state (ck_row q) \<noteq> st"
    and "validate_transition (cp_state (ck_row q)) k st (Some st) False = Inr ()"
  shows "check_step sample_case (Some q) (loaded (step_row n i p st k)) = Inr ()"
  using assms by (simp add: check_step_def)

lemma denied_checkpoints_checked:
  "check_checkpoints sample_case None denied_checkpoints
     (tl (workflow_runs ''tenant-alpha'' ''workflow-1'' denied_store)) = Inr ()"
proof -
  have "check_step sample_case None (loaded started_checkpoint) = Inr ()"
    by (simp add: check_step_def sample_case_def)
  then show ?thesis
    by (simp add: denied_runs denied_rows_def step_row_checked step_row_follows validate_transition_def)
qed

lemma denied_workflow_valid:
  "validate_workflow_source accepting sample_case denied_checkpoints denied_store = Inr ()"
proof -
  have "check_runs (workflow_runs ''tenant-alpha'' ''workflow-1'' denied_store) = Inr ()"
    by (simp add: denied_runs check_runs_def new_run_def upt_rec)
  moreover have "rn_state (last (workflow_runs ''tenant-alpha'' ''workflow-1'' denied_store)) =
      cp_state (ck_row (last denied_checkpoints))"
    "length (workflow_runs ''tenant-alpha'' ''workflow-1'' denied_store) = length denied_checkpoints + 1"
    "denied_checkpoints \<noteq> []"
    by (simp_all add: denied_runs denied_rows_def new_run_def)
  ultimately have "validate_checkpoint_source accepting sample_case denied_checkpoints denied_store = Inr ()"
    by (simp add: validate_checkpoint_source_def Let_def denied_checkpoints_checked denied_chain_valid
        as_invalid_journal_def del: map_map)
  moreover have "source_event_exists sample_case denied_store"
    by (simp add: source_event_exists_def opened_event_def source_event_def sample_case_def)
  moreover have "workflow_commands t w denied_store = []" "workflow_intents t w denied_store = Inr []"
    "workflow_deliveries t w denied_store = []" "validate_ticket_source t denied_store = Inr ()" for t w
    by (simp_all add: workflow_commands_def workflow_intents_def workflow_deliveries_def
        validate_ticket_source_def)
  ultimately show ?thesis
    by (simp add: validate_workflow_source_def validate_effect_source_def denied_rows_def
        as_invalid_journal_def validate_side_effect_intents_def)
qed


section \<open>Its investigation and policy records\<close>

lemma denied_manifest:
  "manifest_payload denied_investigation = Inr
     [(''schema_id'', JStr CONTEXT_MANIFEST_SCHEMA_ID), (''schema_version'', JStr ''v1''),
      (''tenant_id'', JStr ''tenant-alpha''), (''case_id'', JStr ''case-1''),
      (''case_revision_id'', JStr ''revision-1''), (''workflow_id'', JStr ''workflow-1''),
      (''checkpoint_id'', JStr ''checkpoint-1''), (''context_manifest_id'', JStr ''manifest-1''),
      (''context_sha256'', JStr digest), (''environment_snapshot_sha256'', JStr ''fixture''),
      (''evidence_references'', jlist [''evidence-1'', ''evidence-2'']), (''action_budget'', JInt 6),
      (''tool_budget'', JInt 3), (''no_progress_limit'', JInt 2),
      (''created_at'', JStr (timestamp sample_day))]"
  by (simp add: manifest_payload_def asked_investigation_def sample_investigation_def manifest_evidence_def)

lemma denied_investigation_valid:
  "validate_investigation_source accepting sample_case denied_checkpoints denied_store = Inr ()"
proof -
  obtain m where m: "manifest_payload denied_investigation = Inr m" by (simp add: denied_manifest)
  note defs = contract_defs action_payload_def tool_request_payload_def tool_result_payload_def
    asked_step_def asked_request_def asked_result_def sample_case_def require_manifest_link_def
  have "validate_context_manifest accepting m = Inr ()"
    using m by (auto simp: denied_manifest defs)
  moreover have "check_agent_step accepting sample_case m denied_step = Inr ()"
    using m by (auto simp: denied_manifest check_agent_step_def contract_as_def defs)
  moreover have "check_tool_exchange accepting sample_case m denied_store denied_request = Inr ()"
    using m by (auto simp: denied_manifest check_tool_exchange_def Let_def contract_as_def defs)
  moreover obtain c where c: "check_candidate accepting sample_case m denied_candidate = Inr (''candidate-1'', c)"
    and fields: "obj_get c ''schema_id'' = JStr RESPONSE_CANDIDATE_SCHEMA_ID"
      "obj_get c ''candidate_sha256'' = JStr digest" "obj_get c ''candidate_id'' = JStr ''candidate-1''"
      "\<forall>k\<in>{''tenant_id'', ''case_id'', ''case_revision_id'', ''workflow_id'', ''checkpoint_id'', ''context_manifest_id''}.
        obj_get c k = obj_get m k"
    using m by (auto simp: denied_manifest check_candidate_def candidate_payload_def load_candidate_def
        asked_candidate_def contract_as_def contract_defs sample_case_def)
  moreover have "check_outcome accepting sample_case [(''candidate-1'', c)] denied_outcome = Inr ()"
    using m fields by (auto simp: denied_manifest check_outcome_def verifier_outcome_payload_def
        sample_outcome_def contract_as_def contract_defs sample_case_def)
  moreover have "as_tenant denied_step = ''tenant-alpha''" "as_workflow denied_step = ''workflow-1''"
    "tq_tenant denied_request = ''tenant-alpha''" "tq_workflow denied_request = ''workflow-1''"
    "ca_tenant denied_candidate = ''tenant-alpha''" "ca_workflow denied_candidate = ''workflow-1''"
    "vo_tenant denied_outcome = ''tenant-alpha''" "vo_workflow denied_outcome = ''workflow-1''"
    "iv_tenant denied_investigation = ''tenant-alpha''" "iv_case denied_investigation = ''case-1''"
    "iv_revision denied_investigation = ''revision-1''" "iv_workflow denied_investigation = ''workflow-1''"
    "iv_checkpoint denied_investigation = ''checkpoint-1''"
    by (simp_all add: asked_step_def asked_request_def asked_candidate_def sample_outcome_def
        asked_investigation_def sample_investigation_def)
  moreover have "''checkpoint-1'' \<in> set (map (\<lambda>k. cp_id (ck_row k)) denied_checkpoints)"
    by (simp add: denied_rows_def)
  ultimately show ?thesis
    by (simp add: validate_investigation_source_def check_investigation_def Let_def m del: map_map)
qed

lemma rejected_valid:
  "validate_approval_decision accepting rejected_approval = Inr ()"
  "obj_get rejected_approval ''approval_request_id'' = obj_get sample_request ''approval_request_id''"
  "obj_get rejected_approval ''decision_sha256'' = JStr (content_hash rejected_approval ''decision_sha256'')"
  by (simp_all add: validate_approval_decision_def accepting_ok rejected_approval_def approval_record_def Let_def)

lemma denied_policy_valid:
  "validate_change4_source accepting sample_case denied_checkpoints denied_store = Inr ()"
proof -
  have "validate_capability_grant accepting sample_grant = Inr ()"
    by (simp add: validate_capability_grant_def accepting_ok sample_grant_def grant_record_def Let_def)
  moreover have "obj_get sample_grant ''grant_sha256'' = JStr (content_hash sample_grant ''grant_sha256'')"
    by (simp add: sample_grant_def Let_def)
  ultimately have grant: "grant_source accepting ''tenant-alpha'' ''workflow-1'' denied_store = Inr (Some sample_grant)"
    by (simp add: grant_source_def checked_row_def single_row_def payload_row_def change4_payload_def
        contract_as_def sample_grant_row_def sample_grant_fields)
  have decision: "decision_source accepting ''tenant-alpha'' ''workflow-1'' ''checkpoint-1'' denied_store =
      Inr (Some sample_decision)"
    by (simp add: decision_source_def checked_row_def single_row_def payload_row_def change4_payload_def
        contract_as_def sample_decision_row_def sample_decision_def decision_record_def Let_def
        validate_policy_decision_def accepting_ok sample_input_def)
  have "obj_get sample_binding ''grant_id'' = obj_get sample_grant ''grant_id''"
    "obj_get sample_binding ''policy_decision_id'' = obj_get sample_decision ''policy_decision_id''"
    "obj_get sample_binding ''workflow_id'' = JStr ''workflow-1''"
    by (simp_all add: sample_binding_def binding_record_def Let_def sample_decision_def
        decision_record_def sample_input_def)
  then have binding: "binding_source accepting ''tenant-alpha'' ''workflow-1'' (Some sample_grant)
      (Some sample_decision) denied_store = Inr (Some sample_binding)"
    by (simp add: binding_source_def checked_row_def single_row_def payload_row_def change4_payload_def
        contract_as_def sample_binding_row_def same_item_def sample_valid)
  have "obj_get sample_request ''authorization_binding_sha256'' = obj_get sample_binding ''authorization_binding_sha256''"
    by (simp add: sample_request_def request_record_def)
  then have request: "request_source accepting ''tenant-alpha'' ''workflow-1'' (Some sample_binding) denied_store =
      Inr (Some sample_request)"
    by (simp add: request_source_def checked_row_def single_row_def payload_row_def change4_payload_def
        contract_as_def sample_request_row_def same_item_def sample_valid)
  have approval: "approval_source accepting ''tenant-alpha'' ''workflow-1'' (Some sample_request) denied_store =
      Inr (Some rejected_approval)"
    using rejected_valid
    by (simp add: approval_source_def checked_row_def single_row_def payload_row_def change4_payload_def
        contract_as_def sample_approval_row_def same_item_def)
  have "''checkpoint-1'' \<in> set (map (\<lambda>k. cp_id (ck_row k)) denied_checkpoints)"
    by (simp add: denied_rows_def)
  then have "check_policy_activation sample_case (map (\<lambda>k. cp_id (ck_row k)) denied_checkpoints) denied_policy = Inr ()"
    by (simp add: check_policy_activation_def denied_policy_def API_503_DELIVERY_RESOURCE_ID_def
        API_503_POLICY_FIXTURE_ID_def del: map_map)
  then show ?thesis
    by (simp add: validate_change4_source_def single_row_def Let_def grant decision binding request approval
        validate_fixture_delivery_source_def denied_policy_def del: map_map)
qed

end
