(* ===== verification/EvidenceWitness.thy ===== *)
theory EvidenceWitness
  imports EvidenceSample
begin

text \<open>The evidence properties at the case whose approval was rejected.\<close>

section \<open>Its read model\<close>

definition denied_projection :: workflow_projection_row where
  "denied_projection = project_workflow sample_case (last denied_checkpoints)"

lemma denied_rebuild:
  "rebuild_workflow_projection accepting denied_store =
     (Inr (), denied_store\<lparr>workflow_projections := [denied_projection]\<rparr>)"
proof -
  have "validate_workflow_projection accepting (workflow_projection_payload denied_projection) = Inr ()"
    by (simp add: validate_workflow_projection_def accepting_ok workflow_projection_payload_def)
  moreover have "validate_sources accepting sample_case denied_checkpoints denied_store = Inr ()"
    by (simp add: validate_sources_def denied_workflow_valid denied_investigation_valid denied_policy_valid)
  moreover have "sorted_activations denied_store = [sample_case]" by (simp add: sorted_activations_def)
  moreover have "denied_checkpoints \<noteq> []" by (simp add: denied_rows_def)
  ultimately have "fold_res (derive accepting denied_store) [] (sorted_activations denied_store) =
      Inr [denied_projection]"
    by (simp add: derive_def insert_row_def denied_checkpoints_of denied_projection_def del: map_map)
  then show ?thesis by (simp add: rebuild_iff)
qed

lemma denied_read:
  "get_workflow_projection accepting ''tenant-alpha'' ''workflow-1'' denied_store =
     (Inr (Some (workflow_projection_payload denied_projection)),
      denied_store\<lparr>workflow_projections := [denied_projection]\<rparr>)"
  "state_of_projection (Some (workflow_projection_payload denied_projection)) = Inr WAITING_FOR_OPERATOR"
proof -
  have fields: "wp_tenant denied_projection = ''tenant-alpha''" "wp_workflow denied_projection = ''workflow-1''"
    "wp_state denied_projection = WAITING_FOR_OPERATOR"
    by (simp_all add: denied_projection_def project_workflow_def Let_def denied_rows_def loaded_def)
  have "validate_workflow_projection accepting (workflow_projection_payload denied_projection) = Inr ()"
    by (simp add: validate_workflow_projection_def accepting_ok workflow_projection_payload_def)
  then show "get_workflow_projection accepting ''tenant-alpha'' ''workflow-1'' denied_store =
     (Inr (Some (workflow_projection_payload denied_projection)),
      denied_store\<lparr>workflow_projections := [denied_projection]\<rparr>)"
    using denied_rebuild by (simp add: get_workflow_projection_def bind_ok fields)
  show "state_of_projection (Some (workflow_projection_payload denied_projection)) = Inr WAITING_FOR_OPERATOR"
    using fields by (simp add: state_of_projection_def workflow_projection_payload_def py_str_def)
qed

section \<open>Its facts\<close>

definition grant_name :: string where
  "grant_name = py_str (obj_get sample_grant ''grant_id'')"

lemma sample_names:
  "grant_name \<noteq> []" "request_id \<noteq> []" "length (gr_sha256 sample_grant_row) = 64"
  by (simp_all add: grant_name_def request_id_def sample_grant_row_def sample_grant_def grant_record_def
      sample_request_def request_record_def Let_def py_str_def content_hash_def)

abbreviation denied_lineage :: retained_rows where
  "denied_lineage \<equiv> lineage_rows ''tenant-alpha'' ''workflow-1'' denied_store"

lemma denied_lineage:
  "rt_checkpoints denied_lineage = denied_rows" "rt_investigation denied_lineage = Some denied_investigation"
  "rt_steps denied_lineage = [denied_step]" "rt_requests denied_lineage = [denied_request]"
  "rt_results denied_lineage = [denied_result]" "rt_candidates denied_lineage = [denied_candidate]"
  "rt_outcomes denied_lineage = [denied_outcome]" "rt_policy denied_lineage = Some denied_policy"
  "rt_grants denied_lineage = [sample_grant_row]"
  "rt_decisions denied_lineage = [sample_decision_row\<lparr>pd_sha256 := digest\<rparr>]"
  "rt_bindings denied_lineage = [sample_binding_row\<lparr>ab_sha256 := digest\<rparr>]"
  "rt_approvals denied_lineage = [sample_request_row]"
  "rt_approval_decisions denied_lineage = [denied_approval]"
  "rt_intents denied_lineage = []" "rt_completions denied_lineage = []"
proof -
  show "rt_checkpoints denied_lineage = denied_rows"
    by (simp add: lineage_rows_def checkpoint_rows_def denied_rows_def)
qed (simp_all add: lineage_rows_def asked_investigation_def sample_investigation_def asked_step_def
    asked_request_def asked_result_def asked_candidate_def sample_outcome_def denied_policy_def
    sample_grant_row_def sample_decision_row_def sample_binding_row_def sample_request_row_def
    sample_approval_row_def)

lemma denied_checkpoint_facts:
  "map checkpoint_fact denied_rows =
     map Inr (map (\<lambda>k. redacted_fact ''workflow_checkpoint'' (cp_id k) (cp_sha256 k)) denied_rows)"
  "\<forall>k\<in>set denied_rows. length (cp_sha256 k) = 64"
proof -
  have "checkpoint_fact k = Inr (redacted_fact ''workflow_checkpoint'' (cp_id k) (cp_sha256 k))"
    if "cp_pending k = Some []" "cp_completed k = Some []" for k
    using that by (simp add: checkpoint_fact_def load_checkpoint_def checkpoint_payload_def checkpoint_fields_def)
  then show "map checkpoint_fact denied_rows =
     map Inr (map (\<lambda>k. redacted_fact ''workflow_checkpoint'' (cp_id k) (cp_sha256 k)) denied_rows)"
    by (simp add: denied_rows_def)
  show "\<forall>k\<in>set denied_rows. length (cp_sha256 k) = 64"
    by (simp add: denied_rows_def step_row_sealed started_checkpoint_sealed checkpoint_hash_length)
qed

definition denied_facts :: "source_fact list" where
  "denied_facts = map (\<lambda>k. redacted_fact ''workflow_checkpoint'' (cp_id k) (cp_sha256 k)) denied_rows @
     investigation_facts_of denied_lineage @ policy_facts_of denied_lineage"

lemma denied_workflow_facts: "workflow_facts denied_lineage = map Inr denied_facts"
  by (simp add: workflow_facts_def denied_facts_def denied_lineage denied_checkpoint_facts)

lemma denied_facts_ok:
  "\<forall>f\<in>set (ledger_facts opened_revision [opened_event] sample_case @ denied_facts). usable_fact f"
  using denied_checkpoint_facts(2) sample_names
  by (simp add: ledger_facts_def denied_facts_def investigation_facts_of_def policy_facts_of_def
      denied_lineage usable_fact_def redacted_fact_def synthetic_fact_def safe_hash_def denied_rows_def)
    (simp add: opened_event_def source_event_def opened_revision_def sample_case_def
      asked_investigation_def sample_investigation_def asked_step_def asked_request_def
      asked_result_def asked_candidate_def sample_outcome_def denied_policy_def
      sample_grant_row_def sample_decision_row_def sample_binding_row_def
      sample_request_row_def sample_approval_row_def grant_name_def)

lemma denied_sources_distinct:
  "distinct (map fact_source_id (ledger_facts opened_revision [opened_event] sample_case @ denied_facts))"
  by (simp add: ledger_facts_def denied_facts_def investigation_facts_of_def policy_facts_of_def
      denied_lineage redacted_fact_def synthetic_fact_def denied_rows_def fact_source_id_def)

lemma denied_retained:
  "\<exists>nodes. retained_nodes accepting ''tenant-alpha'' ''case-1'' denied_store =
     Inr (sample_case, nodes, denied_lineage)"
proof -
  obtain ns where ns: "fold_res append_node [] (ledger_facts opened_revision [opened_event] sample_case @ denied_facts) = Inr ns"
    using facts_append [OF denied_facts_ok denied_sources_distinct, of "[]"] by auto
  then obtain ms where ms: "fold_res append_node [] (ledger_facts opened_revision [opened_event] sample_case) = Inr ms"
    "fold_res append_node ms denied_facts = Inr ns" by (auto simp: fold_res_append)
  have "get_case_projection accepting ''tenant-alpha'' ''case-1'' denied_store = Inr (Some opened_projection)"
    by (simp add: get_case_projection_def find_projection_def opened_projection_def
        validate_case_projection_def accepting_ok projection_obj_def)
  moreover have "list_case_revisions accepting ''tenant-alpha'' ''case-1'' denied_store = Inr [opened_revision]"
    by (simp add: list_case_revisions_def case_revisions_def opened_revision_def validate_revision_chain_def
        revision_step_def revision_obj_def validate_payload_def accepting_def jopt_def)
  moreover have "list_case_events accepting ''tenant-alpha'' ''case-1'' denied_store = Inr [opened_event]"
    by (simp add: list_case_events_def case_events_def opened_event_def source_event_def
        validate_generated_ledger_event_def accepting_ok event_obj_def is_sha256_text_def digest_def list_all_iff)
  moreover have "activation_for_tenant_case ''tenant-alpha'' ''case-1'' denied_store = Some sample_case"
    by (simp add: activation_for_tenant_case_def sample_case_def)
  moreover have "ac_revision sample_case = rv_id opened_revision" "ac_workflow sample_case = ''workflow-1''"
    by (simp_all add: opened_revision_def sample_case_def)
  moreover have "lineage_complete denied_lineage"
    by (simp add: lineage_complete_def denied_lineage denied_rows_def)
  ultimately show ?thesis using ms
    by (simp add: retained_nodes_def Let_def denied_workflow_facts)
qed


section \<open>The properties\<close>

lemma bindI: "m s = (Inr a, s') \<Longrightarrow> f a s' = r \<Longrightarrow> bind m f s = r"
  by (simp add: bind_ok)

lemma denied_sources:
  obtains nodes where "source_nodes accepting ''tenant-alpha'' ''case-1'' denied_store =
    (Inr (sample_case, nodes, WAITING_FOR_OPERATOR), denied_store\<lparr>workflow_projections := [denied_projection]\<rparr>)"
proof -
  obtain nodes where "retained_nodes accepting ''tenant-alpha'' ''case-1'' denied_store =
      Inr (sample_case, nodes, denied_lineage)" using denied_retained by blast
  then have read: "bind (query (retained_nodes accepting ''tenant-alpha'' ''case-1'')) lift_res denied_store =
      (Inr (sample_case, nodes, denied_lineage), denied_store)" by simp
  have quiet: "\<not> (WAITING_FOR_OPERATOR = DELIVERY_RECORDED \<and> b)" for b by simp
  let ?s = "denied_store\<lparr>workflow_projections := [denied_projection]\<rparr>"
  have "source_nodes accepting ''tenant-alpha'' ''case-1'' denied_store =
      (Inr (sample_case, nodes, WAITING_FOR_OPERATOR), ?s)"
    unfolding source_nodes_def
    by (rule bindI, rule read, unfold prod.case sample_ids(2), rule bindI, rule denied_read(1),
        unfold denied_read(2) bind_apply_simps, rule bindI, unfold lift_res_apply require_def if_P [OF quiet],
        rule refl, rule ret_apply)
  with that show thesis .
qed

theorem trajectory_nodes_chained_witness:
  "\<exists>nodes s'. source_nodes accepting ''tenant-alpha'' ''case-1'' denied_store =
     (Inr (sample_case, nodes, WAITING_FOR_OPERATOR), s') \<and> length nodes = 22 \<and> chained nodes"
proof -
  obtain nodes where nodes: "source_nodes accepting ''tenant-alpha'' ''case-1'' denied_store =
    (Inr (sample_case, nodes, WAITING_FOR_OPERATOR), denied_store\<lparr>workflow_projections := [denied_projection]\<rparr>)"
    by (rule denied_sources)
  from trajectory_nodes_chained [OF nodes] obtain rv evs facts where
    src: "list_case_events accepting ''tenant-alpha'' ''case-1'' denied_store = Inr evs"
      "workflow_facts denied_lineage = map Inr facts"
      "map node_key nodes = map fact_key (ledger_facts rv evs sample_case @ facts)" and ok: "chained nodes"
    by (auto simp: sample_case_def)
  have "facts = denied_facts" using src(2) by (simp add: denied_workflow_facts)
  moreover have "evs = [opened_event]"
    using src(1) by (simp add: list_case_events_def case_events_def opened_event_def source_event_def
        validate_generated_ledger_event_def accepting_ok event_obj_def is_sha256_text_def digest_def list_all_iff)
  ultimately have "length nodes = 22"
    using arg_cong [OF src(3), of length]
    by (simp add: ledger_facts_def denied_facts_def investigation_facts_of_def policy_facts_of_def
        denied_lineage denied_rows_def)
  with nodes ok show ?thesis by blast
qed

text \<open>
  What the extraction says of a rejected approval: the grant was never revoked, and the decision on
  record is the approver's \<open>rejected\<close>, yet the failure code of the report is the one of a revoked grant.
\<close>

theorem rejection_reported_as_revocation:
  "grant_status_events denied_store = [] \<and> map ap_decision (approvals denied_store) = [''rejected''] \<and>
   (\<exists>nodes s'. extraction_sources accepting ''tenant-alpha'' ''case-1'' q denied_store =
      (Inr (sample_case, nodes, ''authorization_denied'', Some ''authorization_denied_grant_revoked''), s'))"
proof -
  obtain nodes where "source_nodes accepting ''tenant-alpha'' ''case-1'' denied_store =
    (Inr (sample_case, nodes, WAITING_FOR_OPERATOR), denied_store\<lparr>workflow_projections := [denied_projection]\<rparr>)"
    by (rule denied_sources)
  then show ?thesis by (simp add: extraction_sources_def outcome_for_def bind_ok)
qed


section \<open>A first extraction and its replay\<close>

definition denied_database :: evidence_store where
  "denied_database = \<lparr>engine = denied_store, artifacts = [], trajectories = [], reports = [], replays = []\<rparr>"

lemma accepting_payload: "obj_get p ''schema_id'' = JStr sid \<Longrightarrow> sid \<noteq> [] \<Longrightarrow> validate_payload accepting p = Inr ()"
  by (simp add: validate_payload_accepting accepting_def)

lemma stored_first:
  assumes "artifacts s = []" "trajectories s = []" "reports s = []"
  shows "\<exists>s'. store_evidence V t c a (d, rep, art) s = (Inr (evidence_result d rep art False), s')"
  using assms by (simp add: store_evidence_def Let_def read_simp stored_trajectory_def load_payload_def
      write_report_def insert_trajectory_def insert_artifact_def insert_report_def modify_def
      insert_row_def bind_def)

lemma denied_validated:
  assumes nodes: "source_nodes accepting ''tenant-alpha'' ''case-1'' s = (Inr (sample_case, nodes, st), s')"
    and "(d, rep, art) = evidence_documents ''tenant-alpha'' ''case-1'' sample_case nodes v"
  shows "validate_documents accepting (d, rep, art) =
    require (distinct (map (\<lambda>n. obj_get n ''node_id'') nodes)) (trajectory_error ''duplicate_node_identity'')"
proof -
  have d: "d = trajectory_document ''tenant-alpha'' ''case-1'' sample_case nodes"
    and rep: "rep = report_document ''tenant-alpha'' sample_case (trajectory_id_of ''tenant-alpha'' ''case-1'' sample_case)
      (obj_get d ''root_sha256'') (length nodes) v"
    and art: "art = artifact_document ''tenant-alpha'' ''case-1'' sample_case
      (trajectory_id_of ''tenant-alpha'' ''case-1'' sample_case) rep"
    using assms(2) by (simp_all add: evidence_documents_def Let_def)
  have d_schema: "validate_payload accepting d = Inr ()"
    by (rule accepting_payload [of _ EVIDENCE_TRAJECTORY_SCHEMA_ID]) (simp_all add: d trajectory_document_def)
  note trajectory = own_trajectory_valid [OF nodes d_schema [unfolded d], folded d]
  have nodes_item: "obj_get_or d ''nodes'' (JList []) = JList (map JObj nodes)"
    by (simp add: d trajectory_document_def sealed_def obj_set_def obj_get_or_def)
  have rep_fields: "obj_get rep ''schema_id'' = JStr EVIDENCE_REPORT_SCHEMA_ID"
    "obj_get rep ''trajectory_root_sha256'' = obj_get d ''root_sha256''"
    "obj_get rep ''node_count'' = JInt (int (length nodes))"
    by (simp_all add: rep report_document_def Let_def split: prod.splits)
  have "require_schema accepting rep EVIDENCE_REPORT_SCHEMA_ID n = Inr ()"
    "require_schema accepting art ARTIFACT_SCHEMA_ID n = Inr ()" for n
    using rep_fields(1) by (simp_all add: accepting_ok art artifact_document_def)
  moreover have "require_link rep d n [''tenant_id'', ''trajectory_id''] = Inr ()" for n
    by (simp add: require_link_def rep d)
  moreover have "obj_get rep ''content_sha256'' = JStr (content_hash rep ''content_sha256'')"
    by (simp add: rep)
  ultimately show ?thesis
    using rep_fields(2,3) by (simp add: validate_documents_def trajectory validate_evidence_report_def
        Let_def validate_artifact_def nodes_item py_len_def require_def)
qed

theorem evidence_roundtrip_witness:
  "\<exists>nodes e r s'. source_nodes accepting ''tenant-alpha'' ''case-1'' denied_store =
       (Inr (sample_case, nodes, WAITING_FOR_OPERATOR), e) \<and>
     extract_evidence_trajectory accepting ''tenant-alpha'' ''case-1'' None denied_database = (Inr r, s') \<and>
     ((\<exists>i<length nodes. \<exists>j<i. obj_get (nodes ! i) ''node_id'' = obj_get (nodes ! j) ''node_id'') \<or>
      (\<exists>answer result s''. replay_evidence_trajectory accepting ''tenant-alpha''
          (trajectory_id_of ''tenant-alpha'' ''case-1'' sample_case) s' = (Inr answer, s'') \<and>
        obj_get answer ''replay_result'' = JObj result \<and>
        obj_get result ''verification_outcome'' = JStr ''verified''))"
proof -
  obtain nodes e where nodes: "source_nodes accepting ''tenant-alpha'' ''case-1'' denied_store =
    (Inr (sample_case, nodes, WAITING_FOR_OPERATOR), e)"
    by (rule denied_sources)
  let ?v = "(''authorization_denied'', Some ''authorization_denied_grant_revoked'')"
  let ?s = "denied_database\<lparr>engine := e\<rparr>"
  obtain d rep art where docs: "(d, rep, art) = evidence_documents ''tenant-alpha'' ''case-1'' sample_case nodes ?v"
    by (cases "evidence_documents ''tenant-alpha'' ''case-1'' sample_case nodes ?v") auto
  note valid = denied_validated [OF nodes docs]
  have "extraction_sources accepting ''tenant-alpha'' ''case-1'' None denied_store = (Inr (sample_case, nodes, ?v), e)"
    using nodes by (simp add: extraction_sources_def outcome_for_def bind_ok)
  then have found: "attempt is_lineage_failure (on_engine (extraction_sources accepting ''tenant-alpha'' ''case-1'' None))
      denied_database = (Inr (Some (sample_case, nodes, ?v)), ?s)"
    by (intro attempt_ok) (simp add: on_engine_def denied_database_def)
  show ?thesis
  proof (cases "distinct (map (\<lambda>n. obj_get n ''node_id'') nodes)")
    case True
    have "artifacts ?s = []" "trajectories ?s = []" "reports ?s = []" by (simp_all add: denied_database_def)
    from stored_first [OF this] obtain s' where
      "store_evidence accepting ''tenant-alpha'' ''case-1'' sample_case (d, rep, art) ?s =
        (Inr (evidence_result d rep art False), s')" by blast
    then have "attempt is_database_error (tx (store_evidence accepting ''tenant-alpha'' ''case-1'' sample_case
        (d, rep, art))) ?s = (Inr (Some (evidence_result d rep art False)), s')"
      by (intro attempt_ok) simp
    moreover have "attempt is_contract_error (lift_res (validate_documents accepting (d, rep, art))) ?s =
        (Inr (Some ()), ?s)"
      using True valid by (intro attempt_ok) simp
    ultimately have run: "extract_evidence_trajectory accepting ''tenant-alpha'' ''case-1'' None denied_database =
        (Inr (evidence_result d rep art False), s')"
      using found by (simp add: extract_evidence_trajectory_def Let_def bind_ok docs [symmetric] or_failure_def)
    have "activation_for_tenant_case ''tenant-alpha'' ''case-1'' (engine denied_database) = Some sample_case"
      using source_activation [OF nodes] by (simp add: denied_database_def)
    from evidence_roundtrip [OF this _ _ _ run] have "\<exists>d' rep' art' result s''.
        replay_evidence_trajectory accepting ''tenant-alpha'' (trajectory_id_of ''tenant-alpha'' ''case-1'' sample_case) s' =
          (Inr [(''trajectory'', JObj d'), (''report'', JObj rep'), (''artifact'', JObj art'),
                (''replay_result'', JObj result)], s'') \<and>
        obj_get result ''verification_outcome'' = JStr ''verified''"
      by (auto simp: denied_database_def stored_trajectory_def accepting_def evidence_result_def safe_failure_def)
    then obtain answer result s'' where "replay_evidence_trajectory accepting ''tenant-alpha''
        (trajectory_id_of ''tenant-alpha'' ''case-1'' sample_case) s' = (Inr answer, s'')"
      "obj_get answer ''replay_result'' = JObj result" "obj_get result ''verification_outcome'' = JStr ''verified''"
      by fastforce
    with nodes run show ?thesis by blast
  next
    case False
    then have "attempt is_contract_error (lift_res (validate_documents accepting (d, rep, art))) ?s = (Inr None, ?s)"
      using valid by (simp add: attempt_def trajectory_error_def)
    then have "extract_evidence_trajectory accepting ''tenant-alpha'' ''case-1'' None denied_database = (Inr safe_failure, ?s)"
      using found by (simp add: extract_evidence_trajectory_def Let_def bind_ok docs [symmetric])
    moreover have "\<exists>i<length nodes. \<exists>j<i. obj_get (nodes ! i) ''node_id'' = obj_get (nodes ! j) ''node_id''"
      using False by (auto simp: distinct_conv_nth) (metis linorder_neqE_nat)
    ultimately show ?thesis using nodes by blast
  qed
qed

end
