(* ===== verification/Spec2Isabelle.thy ===== *)
theory Spec2Isabelle
  imports AgentContracts LedgerProps CommandRecovery MachineRefinement EvidenceWitness
begin

text \<open>
  Verification library for the WeFlow control kernel.  (Header under construction.)
\<close>

end
